(* ===== verification/Go_Prelude.thy ===== *)
theory Go_Prelude
  imports Main "HOL-Library.List_Lexorder" "HOL-Library.Char_ord" "HOL-Library.Word"
begin

text \<open>
  What the components share: the pieces of the Go standard library the operator uses
  (byte strings and the \<open>strings\<close> package, maps with an explicit iteration order,
  decimal formatting, error chains), the Kubernetes object data the reconcilers read and
  write, and the parameter record that stands for the helper functions of
  \<open>k8s.io/apimachinery\<close> and \<open>controller-runtime\<close>.

  A Go string is a list of bytes (type \<^typ>\<open>string\<close>); \<open>length\<close> is Go's \<open>len\<close> and the
  list order of \<open>HOL-Library.List_Lexorder\<close> is Go's bytewise string order.  A Go map is
  an association list with distinct keys: the list order is the (unspecified) iteration
  order, \<^const>\<open>map_of\<close> the lookup, so a statement about all lists is a statement about
  every iteration order.
\<close>

named_theorems model_defs \<open>definitions of the step functions, unfolded by the trace lemmas\<close>
named_theorems trace_intros \<open>what calls a step can append to the trace\<close>

section \<open>Strings\<close>

type_synonym gomap = "(string \<times> string) list"

definition gomap_ok :: "('k \<times> 'v) list \<Rightarrow> bool" where
  "gomap_ok m \<longleftrightarrow> distinct (map fst m)"

text \<open>Reading a string map at an absent key gives the zero value, the empty string.\<close>

definition get_str :: "gomap \<Rightarrow> string \<Rightarrow> string" where
  "get_str m k = (case map_of m k of None \<Rightarrow> [] | Some v \<Rightarrow> v)"

definition has_key :: "('k \<times> 'v) list \<Rightarrow> 'k \<Rightarrow> bool" where
  "has_key m k \<longleftrightarrow> k \<in> fst ` set m"

text \<open>\<open>m[k] = v\<close>: overwrite in place, append when the key is new.\<close>

fun map_put :: "'k \<Rightarrow> 'v \<Rightarrow> ('k \<times> 'v) list \<Rightarrow> ('k \<times> 'v) list" where
  "map_put k v [] = [(k, v)]"
| "map_put k v ((k', v') # m) = (if k = k' then (k, v) # m else (k', v') # map_put k v m)"

definition map_del :: "'k \<Rightarrow> ('k \<times> 'v) list \<Rightarrow> ('k \<times> 'v) list" where
  "map_del k m = filter (\<lambda>(k', _). k' \<noteq> k) m"

lemma set_fold_insert: "set (fold List.insert xs acc) = set xs \<union> set acc"
  by (induction xs arbitrary: acc) auto

lemma map_of_map_put [simp]: "map_of (map_put k v m) = (map_of m)(k \<mapsto> v)"
  by (induction k v m rule: map_put.induct) (auto simp: fun_eq_iff)

lemma set_keys_map_put [simp]: "fst ` set (map_put k v m) = insert k (fst ` set m)"
  by (induction k v m rule: map_put.induct) auto

lemma gomap_ok_map_put [simp]: "gomap_ok m \<Longrightarrow> gomap_ok (map_put k v m)"
proof (induction k v m rule: map_put.induct)
  case (2 k v k' v' m)
  then show ?case
    using set_keys_map_put [of k v m] by (auto simp: gomap_ok_def)
qed (simp add: gomap_ok_def)

lemma map_of_map_del [simp]: "map_of (map_del k m) = (map_of m)(k := None)"
  by (induction m) (auto simp: map_del_def fun_eq_iff)

lemma gomap_ok_map_del [simp]: "gomap_ok m \<Longrightarrow> gomap_ok (map_del k m)"
  unfolding gomap_ok_def map_del_def by (induction m) auto

lemma has_key_map_of: "has_key m k \<longleftrightarrow> map_of m k \<noteq> None"
  by (simp add: has_key_def map_of_eq_None_iff)

lemma gomap_ok_Cons [simp]:
  "gomap_ok ((k, v) # m) \<longleftrightarrow> k \<notin> fst ` set m \<and> gomap_ok m"
  by (simp add: gomap_ok_def)

lemma gomap_ok_Nil [simp]: "gomap_ok []"
  by (simp add: gomap_ok_def)

lemma gomap_ok_set_eq:
  assumes "gomap_ok m" "gomap_ok m'" "map_of m = map_of m'"
  shows "set m = set m'"
proof -
  have "(k, v) \<in> set m \<longleftrightarrow> (k, v) \<in> set m'" for k v
    using assms map_of_eq_Some_iff [of m k v] map_of_eq_Some_iff [of m' k v]
    unfolding gomap_ok_def by metis
  then show ?thesis by auto
qed

subsection \<open>The \<open>strings\<close> package\<close>

fun has_prefix :: "string \<Rightarrow> string \<Rightarrow> bool" where
  "has_prefix s [] = True"
| "has_prefix [] (p # ps) = False"
| "has_prefix (c # s) (p # ps) = (c = p \<and> has_prefix s ps)"

definition has_suffix :: "string \<Rightarrow> string \<Rightarrow> bool" where
  "has_suffix s p = has_prefix (rev s) (rev p)"

fun contains_str :: "string \<Rightarrow> string \<Rightarrow> bool" where
  "contains_str [] p = (p = [])"
| "contains_str (c # s) p = (has_prefix (c # s) p \<or> contains_str s p)"

abbreviation nl :: string where "nl \<equiv> [CHR 0x0A]"

text \<open>\<open>strings.TrimSuffix\<close>.\<close>

definition trim_suffix :: "string \<Rightarrow> string \<Rightarrow> string" where
  "trim_suffix s p = (if has_suffix s p then take (length s - length p) s else s)"

text \<open>\<open>strings.ReplaceAll\<close> with a one-byte pattern.\<close>

definition replace_char :: "char \<Rightarrow> string \<Rightarrow> string \<Rightarrow> string" where
  "replace_char c r s = concat (map (\<lambda>d. if d = c then r else [d]) s)"

lemma replace_char_Nil [simp]: "replace_char c r [] = []"
  by (simp add: replace_char_def)

lemma replace_char_Cons [simp]:
  "replace_char c r (d # s) = (if d = c then r else [d]) @ replace_char c r s"
  by (simp add: replace_char_def)

text \<open>\<open>strings.Join\<close>.\<close>

fun str_join :: "string list \<Rightarrow> string \<Rightarrow> string" where
  "str_join [] sep = []"
| "str_join [x] sep = x"
| "str_join (x # y # xs) sep = x @ sep @ str_join (y # xs) sep"

text \<open>
  \<open>strings.TrimSpace\<close> strips Unicode white space: the UTF-8 encodings of the code points
  for which \<open>unicode.IsSpace\<close> holds.
\<close>

definition space_encodings :: "string list" where
  "space_encodings =
     [[CHR 0x09], [CHR 0x0A], [CHR 0x0B], [CHR 0x0C], [CHR 0x0D], [CHR 0x20],
      [CHR 0xC2, CHR 0x85], [CHR 0xC2, CHR 0xA0], [CHR 0xE1, CHR 0x9A, CHR 0x80],
      [CHR 0xE2, CHR 0x80, CHR 0x80], [CHR 0xE2, CHR 0x80, CHR 0x81],
      [CHR 0xE2, CHR 0x80, CHR 0x82], [CHR 0xE2, CHR 0x80, CHR 0x83],
      [CHR 0xE2, CHR 0x80, CHR 0x84], [CHR 0xE2, CHR 0x80, CHR 0x85],
      [CHR 0xE2, CHR 0x80, CHR 0x86], [CHR 0xE2, CHR 0x80, CHR 0x87],
      [CHR 0xE2, CHR 0x80, CHR 0x88], [CHR 0xE2, CHR 0x80, CHR 0x89],
      [CHR 0xE2, CHR 0x80, CHR 0x8A], [CHR 0xE2, CHR 0x80, CHR 0xA8],
      [CHR 0xE2, CHR 0x80, CHR 0xA9], [CHR 0xE2, CHR 0x80, CHR 0xAF],
      [CHR 0xE2, CHR 0x81, CHR 0x9F], [CHR 0xE3, CHR 0x80, CHR 0x80]]"

text \<open>Strip encodings from the front while one of them is a prefix; the fuel is the length.\<close>

fun strip_front :: "string list \<Rightarrow> nat \<Rightarrow> string \<Rightarrow> string" where
  "strip_front es 0 s = s"
| "strip_front es (Suc n) s =
     (case find (has_prefix s) es of
        None \<Rightarrow> s
      | Some e \<Rightarrow> strip_front es n (drop (length e) s))"

definition trim_space :: "string \<Rightarrow> string" where
  "trim_space s =
     (let l = strip_front space_encodings (length s) s
      in rev (strip_front (map rev space_encodings) (length l) (rev l)))"

text \<open>
  \<open>strings.ToLower\<close> on the bytes that can become ASCII: the ASCII capitals, the dotted
  capital I (U+0130, lower case \<open>i\<close>) and the Kelvin sign (U+212A, lower case \<open>k\<close>).  Every
  other non-ASCII character has a non-ASCII lower case; its bytes are kept, and no caller
  looks at which non-ASCII character it is.
\<close>

definition lower_char :: "char \<Rightarrow> char" where
  "lower_char c = (if 65 \<le> (of_char c :: nat) \<and> (of_char c :: nat) \<le> 90
                   then char_of ((of_char c :: nat) + 32) else c)"

fun to_lower :: "string \<Rightarrow> string" where
  "to_lower [] = []"
| "to_lower (c # s) =
     (if c = CHR 0xC4 \<and> s \<noteq> [] \<and> hd s = CHR 0xB0 then CHR ''i'' # to_lower (tl s)
      else if c = CHR 0xE2 \<and> has_prefix s [CHR 0x84, CHR 0xAA]
        then CHR ''k'' # to_lower (drop 2 s)
      else lower_char c # to_lower s)"

definition is_lower :: "char \<Rightarrow> bool" where
  "is_lower c \<longleftrightarrow> 97 \<le> (of_char c :: nat) \<and> (of_char c :: nat) \<le> 122"

definition is_upper :: "char \<Rightarrow> bool" where
  "is_upper c \<longleftrightarrow> 65 \<le> (of_char c :: nat) \<and> (of_char c :: nat) \<le> 90"

definition is_digit :: "char \<Rightarrow> bool" where
  "is_digit c \<longleftrightarrow> 48 \<le> (of_char c :: nat) \<and> (of_char c :: nat) \<le> 57"

definition is_ctrl :: "char \<Rightarrow> bool" where
  "is_ctrl c \<longleftrightarrow> (of_char c :: nat) < 32 \<or> (of_char c :: nat) = 127"

subsection \<open>Formatting\<close>

fun show_nat :: "nat \<Rightarrow> string" where
  "show_nat n = (if n < 10 then [char_of (48 + n)]
                 else show_nat (n div 10) @ [char_of (48 + n mod 10)])"

declare show_nat.simps [simp del]

definition show_int :: "int \<Rightarrow> string" where
  "show_int i = (if i < 0 then CHR ''-'' # show_nat (nat (- i)) else show_nat (nat i))"

lemma show_nat_digits: "c \<in> set (show_nat n) \<Longrightarrow> is_digit c"
  by (induction n rule: show_nat.induct) (subst (asm) show_nat.simps, auto simp: is_digit_def split: if_splits)

lemma show_nat_inj: "show_nat m = show_nat n \<longleftrightarrow> m = n"
proof -
  define rd where "rd = foldl (\<lambda>v c. v * 10 + (of_char c - 48 :: nat)) 0"
  have "rd (show_nat n) = n" for n
  proof (induction n rule: show_nat.induct)
    case (1 n)
    show ?case
    proof (cases "n < 10")
      case True
      then show ?thesis by (simp add: show_nat.simps [of n] rd_def)
    next
      case False
      then show ?thesis using 1 by (simp add: show_nat.simps [of n] rd_def)
    qed
  qed
  then show ?thesis by metis
qed

lemma show_nat_not_Nil [simp]: "show_nat n \<noteq> []"
  by (subst show_nat.simps) simp

text \<open>
  \<open>%q\<close>: double quotes, with the quote, the backslash and the control bytes escaped as
  \<open>strconv.Quote\<close> does; printable text (bytes above 127 included) stands for itself.
\<close>

definition hex_digit :: "nat \<Rightarrow> char" where
  "hex_digit n = (if n < 10 then char_of (48 + n) else char_of (87 + n))"

definition quote_char :: "char \<Rightarrow> string" where
  "quote_char c =
     (if c = CHR 0x22 then [CHR 0x5C, CHR 0x22]
      else if c = CHR 0x5C then [CHR 0x5C, CHR 0x5C]
      else if c = CHR 0x07 then [CHR 0x5C, CHR ''a'']
      else if c = CHR 0x08 then [CHR 0x5C, CHR ''b'']
      else if c = CHR 0x09 then [CHR 0x5C, CHR ''t'']
      else if c = CHR 0x0A then [CHR 0x5C, CHR ''n'']
      else if c = CHR 0x0B then [CHR 0x5C, CHR ''v'']
      else if c = CHR 0x0C then [CHR 0x5C, CHR ''f'']
      else if c = CHR 0x0D then [CHR 0x5C, CHR ''r'']
      else if is_ctrl c
        then [CHR 0x5C, CHR ''x'', hex_digit (of_char c div 16), hex_digit (of_char c mod 16)]
      else [c])"

definition go_quote :: "string \<Rightarrow> string" where
  "go_quote s = [CHR 0x22] @ concat (map quote_char s) @ [CHR 0x22]"

section \<open>Errors\<close>

text \<open>
  An error value is its dynamic type and what it wraps.  \<open>FleetAPIError\<close> is the operator's
  own type (\<open>pkg/fleetclient/types.go\<close>); \<open>ConnectError\<close> carries a connect-go error's code,
  its \<open>Message()\<close>, its text and the error it wraps; \<open>KubeError\<close> an API-server error with the reason
  \<open>apierrors.ReasonForError\<close> reads off it; \<open>WrapError pre e post\<close> the result of
  \<open>fmt.Errorf\<close> with one \<open>%w\<close> verb.
\<close>

datatype connect_code =
    CodeCanceled | CodeUnknown | CodeInvalidArgument | CodeDeadlineExceeded | CodeNotFound
  | CodeAlreadyExists | CodePermissionDenied | CodeResourceExhausted | CodeFailedPrecondition
  | CodeAborted | CodeOutOfRange | CodeUnimplemented | CodeInternal | CodeUnavailable
  | CodeDataLoss | CodeUnauthenticated | CodeOther nat

datatype kube_reason = ReasonNotFound | ReasonConflict | ReasonAlreadyExists | ReasonOther

datatype go_error =
    FleetAPIError (fae_status: int) (fae_operation: string) (fae_message: string)
      (fae_pipelineID: string) (fae_wrapped: "go_error option")
  | ConnectError connect_code string string "go_error option"
  | CtxCanceled
  | CtxDeadlineExceeded
  | NetError bool string
  | KubeError kube_reason string
  | PlainError string
  | WrapError string go_error string

text \<open>\<open>Error()\<close>.\<close>

fun err_text :: "go_error \<Rightarrow> string" where
  "err_text (FleetAPIError st oper msg pid w) =
     (if pid \<noteq> []
      then oper @ '' failed (pipeline='' @ pid @ '', status='' @ show_int st @ ''): '' @ msg
      else oper @ '' failed (status='' @ show_int st @ ''): '' @ msg)"
| "err_text (ConnectError c m t w) = t"
| "err_text CtxCanceled = ''context canceled''"
| "err_text CtxDeadlineExceeded = ''context deadline exceeded''"
| "err_text (NetError t s) = s"
| "err_text (KubeError k s) = s"
| "err_text (PlainError s) = s"
| "err_text (WrapError pre e post) = pre @ err_text e @ post"

text \<open>\<open>errors.As\<close> with a \<open>*FleetAPIError\<close> target: the first one in the chain.\<close>

fun as_fleet :: "go_error \<Rightarrow> go_error option" where
  "as_fleet (FleetAPIError st oper msg pid w) = Some (FleetAPIError st oper msg pid w)"
| "as_fleet (ConnectError c m t (Some e)) = as_fleet e"
| "as_fleet (WrapError pre e post) = as_fleet e"
| "as_fleet _ = None"

fun as_connect :: "go_error \<Rightarrow> (connect_code \<times> string) option" where
  "as_connect (ConnectError c m t w) = Some (c, m)"
| "as_connect (FleetAPIError st oper msg pid (Some e)) = as_connect e"
| "as_connect (WrapError pre e post) = as_connect e"
| "as_connect _ = None"

text \<open>\<open>errors.Is\<close> with \<open>context.Canceled\<close> and \<open>context.DeadlineExceeded\<close>.\<close>

fun is_canceled :: "go_error \<Rightarrow> bool" where
  "is_canceled CtxCanceled = True"
| "is_canceled (FleetAPIError st oper msg pid (Some e)) = is_canceled e"
| "is_canceled (ConnectError c m t (Some e)) = is_canceled e"
| "is_canceled (WrapError pre e post) = is_canceled e"
| "is_canceled _ = False"

fun is_deadline :: "go_error \<Rightarrow> bool" where
  "is_deadline CtxDeadlineExceeded = True"
| "is_deadline (FleetAPIError st oper msg pid (Some e)) = is_deadline e"
| "is_deadline (ConnectError c m t (Some e)) = is_deadline e"
| "is_deadline (WrapError pre e post) = is_deadline e"
| "is_deadline _ = False"

text \<open>
  \<open>errors.As\<close> with a \<open>net.Error\<close> target, and then \<open>Timeout()\<close>.  The value
  \<open>context.DeadlineExceeded\<close> implements \<open>net.Error\<close> with \<open>Timeout() = true\<close>.
\<close>

fun net_timeout :: "go_error \<Rightarrow> bool" where
  "net_timeout (NetError t s) = t"
| "net_timeout CtxDeadlineExceeded = True"
| "net_timeout (FleetAPIError st oper msg pid (Some e)) = net_timeout e"
| "net_timeout (ConnectError c m t (Some e)) = net_timeout e"
| "net_timeout (WrapError pre e post) = net_timeout e"
| "net_timeout _ = False"

fun reason_of :: "go_error \<Rightarrow> kube_reason" where
  "reason_of (KubeError k s) = k"
| "reason_of (FleetAPIError st oper msg pid (Some e)) = reason_of e"
| "reason_of (ConnectError c m t (Some e)) = reason_of e"
| "reason_of (WrapError pre e post) = reason_of e"
| "reason_of _ = ReasonOther"

definition is_not_found :: "go_error \<Rightarrow> bool" where
  "is_not_found e \<longleftrightarrow> reason_of e = ReasonNotFound"

definition is_conflict :: "go_error \<Rightarrow> bool" where
  "is_conflict e \<longleftrightarrow> reason_of e = ReasonConflict"

definition is_already_exists :: "go_error \<Rightarrow> bool" where
  "is_already_exists e \<longleftrightarrow> reason_of e = ReasonAlreadyExists"

lemma as_fleet_SomeD: "as_fleet e = Some f \<Longrightarrow> \<exists>st oper msg pid w. f = FleetAPIError st oper msg pid w"
  by (induction e rule: as_fleet.induct) auto

section \<open>Kubernetes objects\<close>

record nsname =
  nn_namespace :: string
  nn_name :: string

text \<open>\<open>metav1.ObjectMeta\<close>: \<open>om_deleting\<close> is \<open>!DeletionTimestamp.IsZero()\<close>.\<close>

record objmeta =
  om_namespace :: string
  om_name :: string
  om_generation :: int
  om_deleting :: bool
  om_finalizers :: "string list"
  om_labels :: gomap
  om_annotations :: gomap

definition key_of :: "objmeta \<Rightarrow> nsname" where
  "key_of m = \<lparr>nn_namespace = om_namespace m, nn_name = om_name m\<rparr>"

datatype cond_status = CTrue | CFalse | CUnknown

text \<open>\<open>metav1.Condition\<close>, without \<open>LastTransitionTime\<close>: only the library touches it.\<close>

record cond =
  cnd_type :: string
  cnd_status :: cond_status
  cnd_reason :: string
  cnd_message :: string
  cnd_gen :: int

text \<open>
  The helper functions of \<open>k8s.io/apimachinery/pkg/api/meta\<close> and of
  \<open>controllerutil\<close> are not code of this repository: the reconcilers take them as the
  parameter \<open>klib\<close>, and \<open>klib_ok\<close> names what their documentation promises.
\<close>

record klib =
  FindStatusCondition :: "cond list \<Rightarrow> string \<Rightarrow> cond option"
  SetStatusCondition :: "cond list \<Rightarrow> cond \<Rightarrow> cond list"
  ContainsFinalizer :: "string list \<Rightarrow> string \<Rightarrow> bool"
  AddFinalizer :: "string list \<Rightarrow> string \<Rightarrow> string list"
  RemoveFinalizer :: "string list \<Rightarrow> string \<Rightarrow> string list"

definition cond_at :: "cond list \<Rightarrow> string \<Rightarrow> cond option" where
  "cond_at cs t = find (\<lambda>c. cnd_type c = t) cs"

definition klib_ok :: "klib \<Rightarrow> bool" where
  "klib_ok K \<longleftrightarrow>
     (\<forall>cs t. FindStatusCondition K cs t = cond_at cs t) \<and>
     (\<forall>cs c t. cond_at (SetStatusCondition K cs c) t =
                 (if t = cnd_type c then Some c else cond_at cs t)) \<and>
     (\<forall>fs f. ContainsFinalizer K fs f \<longleftrightarrow> f \<in> set fs) \<and>
     (\<forall>fs f. set (AddFinalizer K fs f) = insert f (set fs)) \<and>
     (\<forall>fs f. set (RemoveFinalizer K fs f) = set fs - {f})"

lemma klib_okD:
  assumes "klib_ok K"
  shows klib_find: "FindStatusCondition K cs t = cond_at cs t"
    and klib_set: "cond_at (SetStatusCondition K cs c) t =
                     (if t = cnd_type c then Some c else cond_at cs t)"
    and klib_contains: "ContainsFinalizer K fs f \<longleftrightarrow> f \<in> set fs"
    and klib_add: "set (AddFinalizer K fs f) = insert f (set fs)"
    and klib_remove: "set (RemoveFinalizer K fs f) = set fs - {f}"
  using assms by (simp_all add: klib_ok_def)

text \<open>A concrete library, for the witnesses: update in place or append.\<close>

fun put_cond :: "cond list \<Rightarrow> cond \<Rightarrow> cond list" where
  "put_cond [] c = [c]"
| "put_cond (d # ds) c = (if cnd_type d = cnd_type c then c # ds else d # put_cond ds c)"

definition klib_ref :: klib where
  "klib_ref =
     \<lparr>FindStatusCondition = cond_at,
      SetStatusCondition = put_cond,
      ContainsFinalizer = (\<lambda>fs f. f \<in> set fs),
      AddFinalizer = (\<lambda>fs f. if f \<in> set fs then fs else fs @ [f]),
      RemoveFinalizer = (\<lambda>fs f. filter (\<lambda>g. g \<noteq> f) fs)\<rparr>"

lemma cond_at_put_cond:
  "cond_at (put_cond cs c) t = (if t = cnd_type c then Some c else cond_at cs t)"
  by (induction cs c rule: put_cond.induct) (auto simp: cond_at_def)

lemma klib_ref_ok: "klib_ok klib_ref"
  unfolding klib_ok_def klib_ref_def by (auto simp: cond_at_put_cond)

section \<open>Reconcile results\<close>

text \<open>\<open>ctrl.Result\<close>; times and durations are nanoseconds.\<close>

record ctrl_result =
  rs_requeue :: bool
  rs_after :: int

definition done_result :: ctrl_result where
  "done_result = \<lparr>rs_requeue = False, rs_after = 0\<rparr>"

definition requeue_now :: ctrl_result where
  "requeue_now = \<lparr>rs_requeue = True, rs_after = 0\<rparr>"

definition requeue_after :: "int \<Rightarrow> ctrl_result" where
  "requeue_after d = \<lparr>rs_requeue = False, rs_after = d\<rparr>"

definition second :: int where "second = 1000000000"

text \<open>
  A \<open>metav1.Time\<close> travels as an RFC 3339 string: what the API server stores of a time is the
  whole second. (Go's zero time, which travels as null, does not come from Fleet Management.)
\<close>

definition stored_time :: "int \<Rightarrow> int" where "stored_time t = t - t mod second"

lemma stored_time_bounds: "stored_time t \<le> t" "t < stored_time t + second"
proof -
  have "0 \<le> t mod second" "t mod second < second"
    by (simp_all add: second_def)
  then show "stored_time t \<le> t" "t < stored_time t + second"
    by (simp_all add: stored_time_def)
qed

lemma stored_time_idem [simp]: "stored_time (stored_time t) = stored_time t"
  by (simp add: stored_time_def minus_mod_eq_mult_div)

definition minute :: int where "minute = 60 * second"

text \<open>
  What one \<open>Reconcile\<close> call did: the calls it made on its collaborators, in order, the
  pair it returned, and the outcome label its deferred metrics counter sees.
\<close>

record 'c rres =
  rr_trace :: "'c list"
  rr_result :: ctrl_result
  rr_err :: "go_error option"
  rr_outcome :: string

definition ret :: "'c list \<Rightarrow> ctrl_result \<Rightarrow> go_error option \<Rightarrow> string \<Rightarrow> 'c rres" where
  "ret tr res err oc = \<lparr>rr_trace = tr, rr_result = res, rr_err = err, rr_outcome = oc\<rparr>"

lemma ret_simps [simp]:
  "rr_trace (ret tr res err oc) = tr" "rr_result (ret tr res err oc) = res"
  "rr_err (ret tr res err oc) = err" "rr_outcome (ret tr res err oc) = oc"
  by (simp_all add: ret_def)

text \<open>
  \<open>extends Q tr tr'\<close>: the calls made between \<open>tr\<close> and \<open>tr'\<close> all satisfy \<open>Q\<close>.  The
  reconcilers' safety properties are of this form; each method has one rule in
  \<open>trace_intros\<close>.
\<close>

definition extends :: "('c \<Rightarrow> bool) \<Rightarrow> 'c list \<Rightarrow> 'c list \<Rightarrow> bool" where
  "extends Q tr tr' \<longleftrightarrow> (\<exists>new. tr' = tr @ new \<and> list_all Q new)"

lemma extends_refl [trace_intros]: "extends Q tr tr"
  by (simp add: extends_def)

lemma extends_append [trace_intros]:
  "extends Q tr tr' \<Longrightarrow> list_all Q new \<Longrightarrow> extends Q tr (tr' @ new)"
  by (auto simp: extends_def)

lemma extends_trans: "extends Q tr tr' \<Longrightarrow> extends Q tr' tr'' \<Longrightarrow> extends Q tr tr''"
  by (auto simp: extends_def)

lemma extends_all: "extends Q tr tr' \<Longrightarrow> list_all Q tr' \<longleftrightarrow> list_all Q tr"
  by (auto simp: extends_def)

lemma extends_mono: "extends Q tr tr' \<Longrightarrow> (\<And>c. Q c \<Longrightarrow> Q' c) \<Longrightarrow> extends Q' tr tr'"
  unfolding extends_def list_all_iff by blast

lemma extends_set: "extends Q tr tr' \<Longrightarrow> c \<in> set tr' \<Longrightarrow> c \<in> set tr \<or> Q c"
  by (auto simp: extends_def list_all_iff)

abbreviation outcomeNotFound :: string where "outcomeNotFound \<equiv> ''NotFound''"
abbreviation outcomeNoOp :: string where "outcomeNoOp \<equiv> ''NoOp''"
abbreviation outcomeRateLimited :: string where "outcomeRateLimited \<equiv> ''RateLimited''"
abbreviation outcomeDeleted :: string where "outcomeDeleted \<equiv> ''Deleted''"
abbreviation outcomeRecreated :: string where "outcomeRecreated \<equiv> ''Recreated''"

datatype event_type = EventNormal | EventWarning

end
