(* ===== verification/Attr_Diff.thy ===== *)
theory Attr_Diff
  imports Go_Prelude "HOL-Library.Multiset"
begin

text \<open>
  \<open>internal/controller/attributes/diff.go\<close>: the operations that move a collector's remote
  attributes from the observed to the desired state, and \<open>merge.go\<close>'s hand-written sort.
  The interface between the two and their clients is \<open>key_sort\<close>, the contract of a stable
  sort by key.  \<open>apply_ops\<close> is the abstract specification: what Fleet Management documents
  that it does with a list of operations.
\<close>

section \<open>Stable sorts by key\<close>

locale key_sort =
  fixes srt :: "'a list \<Rightarrow> 'a list"
    and key :: "'a \<Rightarrow> 'k::linorder"
  assumes srt_mset: "mset (srt xs) = mset xs"
    and srt_sorted: "sorted (map key (srt xs))"
    and srt_stable: "filter (\<lambda>x. key x = k) (srt xs) = filter (\<lambda>x. key x = k) xs"
begin

lemma srt_set [simp]: "set (srt xs) = set xs"
  by (metis srt_mset set_mset_mset)

lemma srt_length [simp]: "length (srt xs) = length xs"
  by (metis srt_mset size_mset)

lemma srt_Nil_iff [simp]: "srt xs = [] \<longleftrightarrow> xs = []"
  by (metis length_0_conv srt_length)

lemma srt_eq_sort_key: "srt xs = sort_key key xs"
proof (rule properties_for_sort_key [symmetric])
  show "mset (srt xs) = mset xs" by (rule srt_mset)
  show "filter (\<lambda>x. key k = key x) (srt xs) = filter (\<lambda>x. key k = key x) xs" for k
    using srt_stable [of "key k" xs] by (simp add: eq_commute)
  show "sorted (map key (srt xs))" by (rule srt_sorted)
qed

text \<open>
  When a key determines the element, the result depends on the multiset of elements only:
  not on the order in which a map iteration delivered them.
\<close>

lemma filter_eq_replicate:
  assumes "\<And>x y. x \<in> set xs \<Longrightarrow> y \<in> set xs \<Longrightarrow> key x = key y \<Longrightarrow> x = y" and "z \<in> set xs"
  shows "filter (\<lambda>x. key x = key z) xs = replicate (count (mset xs) z) z"
proof -
  have eq: "key x = key z \<longleftrightarrow> x = z" if "x \<in> set xs" for x
    using assms that by blast
  have "filter (\<lambda>x. key x = key z) xs = filter (\<lambda>x. x = z) xs"
    by (rule filter_cong) (simp_all add: eq)
  also have "\<dots> = replicate (count (mset xs) z) z"
    by (induction xs) auto
  finally show ?thesis .
qed

lemma srt_permute:
  assumes perm: "mset xs = mset ys"
    and det: "\<And>x y. x \<in> set xs \<Longrightarrow> y \<in> set xs \<Longrightarrow> key x = key y \<Longrightarrow> x = y"
  shows "srt xs = srt ys"
proof -
  have sets: "set xs = set ys" by (metis perm set_mset_mset)
  have "sort_key key xs = srt ys"
  proof (rule properties_for_sort_key)
    show "mset (srt ys) = mset xs" by (simp add: srt_mset perm)
    show "filter (\<lambda>x. key k = key x) (srt ys) = filter (\<lambda>x. key k = key x) xs"
      if "k \<in> set (srt ys)" for k
    proof -
      from that have k: "k \<in> set xs" "k \<in> set ys" by (simp_all add: sets)
      have "filter (\<lambda>x. key x = key k) (srt ys) = filter (\<lambda>x. key x = key k) ys"
        by (rule srt_stable)
      also have "\<dots> = replicate (count (mset ys) k) k"
        using det k sets by (intro filter_eq_replicate) auto
      also have "\<dots> = filter (\<lambda>x. key x = key k) xs"
        using det k by (subst filter_eq_replicate) (auto simp: perm)
      finally show ?thesis by (simp add: eq_commute)
    qed
    show "sorted (map key (srt ys))" by (rule srt_sorted)
  qed
  then show ?thesis by (simp add: srt_eq_sort_key)
qed

end

text \<open>The standard library's stable sort satisfies the contract for every key.\<close>

lemma key_sort_sort_key: "key_sort (sort_key key) key"
  by unfold_locales (simp_all add: sort_key_stable)

section \<open>Operations\<close>

datatype op_type = OpAdd | OpRemove | OpReplace | OpMove | OpCopy | OpOther string

record operation =
  op_Op :: op_type
  op_Path :: string
  op_Value :: string
  op_OldValue :: string
  op_From :: string

definition mk_op :: "op_type \<Rightarrow> string \<Rightarrow> string \<Rightarrow> operation" where
  "mk_op t path v = \<lparr>op_Op = t, op_Path = path, op_Value = v, op_OldValue = [], op_From = []\<rparr>"

lemma mk_op_simps [simp]:
  "op_Op (mk_op t p v) = t" "op_Path (mk_op t p v) = p" "op_Value (mk_op t p v) = v"
  by (simp_all add: mk_op_def)

interpretation path_sort: key_sort "sort_key op_Path" op_Path
  by (rule key_sort_sort_key)

subsection \<open>Paths\<close>

abbreviation remote_prefix :: string where
  "remote_prefix \<equiv> ''/remote_attributes/''"

definition remoteAttrPath :: "string \<Rightarrow> string" where
  "remoteAttrPath k =
     (let escaped = replace_char CHR ''~'' ''~0'' k;
          escaped = replace_char CHR ''/'' ''~1'' escaped
      in remote_prefix @ escaped)"

text \<open>RFC 6901 decoding of one reference token, as the API reads a path.\<close>

fun json_unescape :: "string \<Rightarrow> string" where
  "json_unescape [] = []"
| "json_unescape (c # s) =
     (if c = CHR ''~'' \<and> s \<noteq> [] \<and> hd s = CHR ''1'' then CHR ''/'' # json_unescape (tl s)
      else if c = CHR ''~'' \<and> s \<noteq> [] \<and> hd s = CHR ''0'' then CHR ''~'' # json_unescape (tl s)
      else c # json_unescape s)"

text \<open>The attribute a path names: one reference token below \<open>/remote_attributes\<close>.\<close>

definition path_key :: "string \<Rightarrow> string option" where
  "path_key p =
     (if has_prefix p remote_prefix \<and> CHR ''/'' \<notin> set (drop (length remote_prefix) p)
      then Some (json_unescape (drop (length remote_prefix) p)) else None)"

lemma has_prefix_append [simp]: "has_prefix (p @ s) p"
  by (induction p) auto

lemma has_prefixD: "has_prefix s p \<Longrightarrow> s = p @ drop (length p) s"
  by (induction s p rule: has_prefix.induct) auto

lemma json_unescape_other:
  "c \<noteq> CHR ''~'' \<Longrightarrow> json_unescape (c # s) = c # json_unescape s"
  by simp

lemma json_unescape_escape:
  "json_unescape (replace_char CHR ''/'' ''~1'' (replace_char CHR ''~'' ''~0'' k)) = k"
  by (induction k) (auto simp: json_unescape_other)

lemma escape_no_slash:
  "CHR ''/'' \<notin> set (replace_char CHR ''/'' ''~1'' (replace_char CHR ''~'' ''~0'' k))"
  by (induction k) auto

lemma path_key_remoteAttrPath [simp]: "path_key (remoteAttrPath k) = Some k"
  using has_prefix_append [of remote_prefix]
  by (simp add: path_key_def remoteAttrPath_def json_unescape_escape escape_no_slash)

lemma remoteAttrPath_eq_iff [simp]: "remoteAttrPath k = remoteAttrPath k' \<longleftrightarrow> k = k'"
  by (metis path_key_remoteAttrPath option.inject)

subsection \<open>Diff\<close>

definition set_op :: "gomap \<Rightarrow> string \<times> string \<Rightarrow> operation list" where
  "set_op observed kv =
     (case kv of (k, want) \<Rightarrow>
        (case map_of observed k of
           None \<Rightarrow> [mk_op OpAdd (remoteAttrPath k) want]
         | Some got \<Rightarrow>
             if got \<noteq> want then [mk_op OpReplace (remoteAttrPath k) want] else []))"

definition remove_op :: "gomap \<Rightarrow> gomap \<Rightarrow> string \<Rightarrow> operation list" where
  "remove_op desired observed k =
     (if has_key desired k then []
      else if \<not> has_key observed k then []
      else [mk_op OpRemove (remoteAttrPath k) []])"

definition diff_ops :: "gomap \<Rightarrow> gomap \<Rightarrow> string list \<Rightarrow> operation list" where
  "diff_ops desired observed previouslyOwned =
     concat (map (set_op observed) desired) @
     concat (map (remove_op desired observed) previouslyOwned)"

definition Diff :: "gomap \<Rightarrow> gomap \<Rightarrow> string list \<Rightarrow> operation list" where
  "Diff desired observed previouslyOwned =
     sort_key op_Path (diff_ops desired observed previouslyOwned)"

subsection \<open>What the server does with the operations\<close>

definition apply_op :: "operation \<Rightarrow> (string \<rightharpoonup> string) \<Rightarrow> (string \<rightharpoonup> string)" where
  "apply_op opn m =
     (case path_key (op_Path opn) of
        None \<Rightarrow> m
      | Some k \<Rightarrow>
          (case op_Op opn of
             OpAdd \<Rightarrow> m(k \<mapsto> op_Value opn)
           | OpReplace \<Rightarrow> m(k \<mapsto> op_Value opn)
           | OpRemove \<Rightarrow> m(k := None)
           | _ \<Rightarrow> m))"

definition apply_ops :: "operation list \<Rightarrow> (string \<rightharpoonup> string) \<Rightarrow> (string \<rightharpoonup> string)" where
  "apply_ops ops m = fold apply_op ops m"

text \<open>Only the operations whose path names \<open>k\<close> change \<open>k\<close>.\<close>

definition keyed :: "operation list \<Rightarrow> bool" where
  "keyed ops \<longleftrightarrow> (\<forall>opn \<in> set ops. \<exists>k. op_Path opn = remoteAttrPath k)"

lemma apply_op_other: "path_key (op_Path opn) \<noteq> Some k \<Longrightarrow> apply_op opn m k = m k"
  by (cases "path_key (op_Path opn)"; cases "op_Op opn") (simp_all add: apply_op_def)

lemma apply_op_cong: "m k = m' k \<Longrightarrow> apply_op opn m k = apply_op opn m' k"
  by (cases "path_key (op_Path opn)"; cases "op_Op opn") (simp_all add: apply_op_def)

lemma apply_ops_cong: "m k = m' k \<Longrightarrow> apply_ops ops m k = apply_ops ops m' k"
proof (induction ops arbitrary: m m')
  case (Cons opn ops)
  from Cons.IH [of "apply_op opn m" "apply_op opn m'"] apply_op_cong [of m k m' opn] Cons.prems
  show ?case by (simp add: apply_ops_def)
qed (simp add: apply_ops_def)

lemma apply_ops_at:
  "keyed ops \<Longrightarrow>
     apply_ops ops m k = apply_ops (filter (\<lambda>opn. op_Path opn = remoteAttrPath k) ops) m k"
proof (induction ops arbitrary: m)
  case (Cons opn ops)
  from Cons.prems have ops: "keyed ops" and "\<exists>j. op_Path opn = remoteAttrPath j"
    by (auto simp: keyed_def)
  then obtain j where j: "op_Path opn = remoteAttrPath j" by blast
  show ?case
  proof (cases "j = k")
    case True
    with j Cons.IH [OF ops, of "apply_op opn m"] show ?thesis
      by (simp add: apply_ops_def)
  next
    case False
    with j have "apply_op opn m k = m k" by (intro apply_op_other) simp
    then have "apply_ops ops (apply_op opn m) k = apply_ops ops m k"
      by (rule apply_ops_cong [of _ k])
    with False j Cons.IH [OF ops, of m] show ?thesis
      by (simp add: apply_ops_def)
  qed
qed (simp add: apply_ops_def)

lemma keyed_diff_ops: "keyed (diff_ops desired observed owned)"
  by (auto simp: keyed_def diff_ops_def set_op_def remove_op_def split: option.splits if_splits)

lemma keyed_Diff: "keyed (Diff desired observed owned)"
  using keyed_diff_ops by (simp add: keyed_def Diff_def)

lemma filter_concat_set_op:
  assumes "gomap_ok desired"
  shows "filter (\<lambda>opn. op_Path opn = remoteAttrPath k) (concat (map (set_op observed) desired)) =
         (case map_of desired k of None \<Rightarrow> [] | Some v \<Rightarrow> set_op observed (k, v))"
  using assms
proof (induction desired)
  case (Cons kv desired)
  obtain j v where kv: "kv = (j, v)" by force
  have other: "filter (\<lambda>opn. op_Path opn = remoteAttrPath k) (set_op observed (j, v)) =
               (if j = k then set_op observed (j, v) else [])"
    by (auto simp: set_op_def split: option.splits)
  show ?case
  proof (cases "j = k")
    case True
    with Cons.prems kv have "map_of desired k = None"
      by (simp add: map_of_eq_None_iff)
    with Cons kv True other show ?thesis by simp
  next
    case False
    with Cons kv other show ?thesis by simp
  qed
qed simp

lemma filter_concat_remove_op:
  "filter (\<lambda>opn. op_Path opn = remoteAttrPath k) (concat (map (remove_op desired observed) owned)) =
   concat (map (remove_op desired observed) (filter (\<lambda>j. j = k) owned))"
  by (induction owned) (auto simp: remove_op_def)

lemma filter_Diff:
  assumes "gomap_ok desired"
  shows "filter (\<lambda>opn. op_Path opn = remoteAttrPath k) (Diff desired observed owned) =
         (case map_of desired k of None \<Rightarrow> [] | Some v \<Rightarrow> set_op observed (k, v)) @
         concat (map (remove_op desired observed) (filter (\<lambda>j. j = k) owned))"
  unfolding Diff_def path_sort.srt_stable diff_ops_def
  by (simp add: filter_concat_set_op [OF assms] filter_concat_remove_op)

lemma apply_removes:
  "\<not> has_key desired k \<Longrightarrow>
   apply_ops (concat (map (remove_op desired observed) (filter (\<lambda>j. j = k) owned))) m k =
     (if k \<in> set owned \<and> has_key observed k then None else m k)"
proof (induction owned arbitrary: m)
  case (Cons j owned)
  then show ?case
    by (cases "j = k") (auto simp: apply_ops_def remove_op_def apply_op_def)
qed (simp add: apply_ops_def)

lemma no_removes:
  "has_key desired k \<Longrightarrow>
   concat (map (remove_op desired observed) (filter (\<lambda>j. j = k) owned)) = []"
  by (induction owned) (auto simp: remove_op_def)

lemma keyed_Diff_apply:
  assumes "gomap_ok desired"
  shows "apply_ops (Diff desired observed owned) (map_of observed) k =
           (case map_of desired k of
              Some v \<Rightarrow> Some v
            | None \<Rightarrow> if k \<in> set owned then None else map_of observed k)"
proof (cases "map_of desired k")
  case None
  then have nk: "\<not> has_key desired k" by (simp add: has_key_map_of)
  show ?thesis
    unfolding apply_ops_at [OF keyed_Diff] filter_Diff [OF assms]
    using None apply_removes [OF nk] by (simp add: has_key_map_of)
next
  case (Some v)
  then have "has_key desired k" by (simp add: has_key_map_of)
  then show ?thesis
    unfolding apply_ops_at [OF keyed_Diff] filter_Diff [OF assms]
    using Some by (simp add: no_removes set_op_def apply_ops_def apply_op_def split: option.splits)
qed

text \<open>
  C9: the operations \<open>Diff\<close> computes, applied by the server to the attributes they were
  computed from, give every desired key its desired value, remove every previously owned key
  that is no longer desired, and leave every other key as it was.
\<close>

theorem diff_reaches_desired:
  assumes "gomap_ok desired"
  shows "apply_ops (Diff desired observed owned) (map_of observed) k =
           (case map_of desired k of
              Some v \<Rightarrow> Some v
            | None \<Rightarrow> if k \<in> set owned then None else map_of observed k)"
  by (rule keyed_Diff_apply [OF assms])

theorem diff_reaches_desired_witness:
  "apply_ops (Diff [(''env'', ''prod''), (''a/b'', ''1'')] [(''env'', ''dev''), (''old'', ''x'')] [''old''])
     (map_of [(''env'', ''dev''), (''old'', ''x'')]) ''a/b'' = Some ''1''"
  using diff_reaches_desired
    [of "[(''env'', ''prod''), (''a/b'', ''1'')]" "[(''env'', ''dev''), (''old'', ''x'')]" "[''old'']" "''a/b''"]
  by simp

lemma Diff_Nil_iff:
  assumes "gomap_ok desired"
  shows "Diff desired observed owned = [] \<longleftrightarrow>
           (\<forall>k v. map_of desired k = Some v \<longrightarrow> map_of observed k = Some v) \<and>
           (\<forall>k. k \<in> set owned \<longrightarrow> has_key observed k \<longrightarrow> has_key desired k)"
proof -
  have "Diff desired observed owned = [] \<longleftrightarrow>
          (\<forall>kv \<in> set desired. set_op observed kv = []) \<and>
          (\<forall>k \<in> set owned. remove_op desired observed k = [])"
    by (simp add: Diff_def diff_ops_def)
  also have "(\<forall>kv \<in> set desired. set_op observed kv = []) \<longleftrightarrow>
             (\<forall>k v. map_of desired k = Some v \<longrightarrow> map_of observed k = Some v)"
    using assms map_of_eq_Some_iff [of desired]
    by (auto simp: set_op_def gomap_ok_def split: option.splits if_splits)
  finally show ?thesis
    by (auto simp: remove_op_def)
qed

lemma diff_ops_key_det:
  assumes "gomap_ok desired"
    and x: "x \<in> set (diff_ops desired observed owned)"
    and y: "y \<in> set (diff_ops desired observed owned)"
    and path: "op_Path x = op_Path y"
  shows "x = y"
proof -
  obtain k where px: "op_Path x = remoteAttrPath k"
    using keyed_diff_ops x by (fastforce simp: keyed_def)
  have "z \<in> set ((case map_of desired k of None \<Rightarrow> [] | Some v \<Rightarrow> set_op observed (k, v)) @
                concat (map (remove_op desired observed) (filter (\<lambda>j. j = k) owned)))"
    if "z \<in> set (diff_ops desired observed owned)" "op_Path z = remoteAttrPath k" for z
  proof -
    have "z \<in> set (filter (\<lambda>opn. op_Path opn = remoteAttrPath k) (Diff desired observed owned))"
      using that by (simp add: Diff_def)
    then show ?thesis unfolding filter_Diff [OF assms(1)] .
  qed
  from this [OF x px] this [OF y] px path show ?thesis
    by (cases "map_of desired k")
      (auto simp: set_op_def remove_op_def has_key_map_of split: option.splits if_splits)
qed

lemma mset_concat_map:
  assumes "mset xs = mset ys"
  shows "mset (concat (map f xs)) = mset (concat (map f ys))"
proof -
  have "mset (concat (map f zs)) = (\<Sum>z \<in># mset zs. mset (f z))" for zs
    by (induction zs) simp_all
  with assms show ?thesis by metis
qed

text \<open>
  \<open>Diff\<close> ranges over Go maps, whose iteration order is unspecified: the operations it
  returns, and their order, depend only on the contents of the two maps and on the multiset
  of previously owned keys.
\<close>

theorem diff_deterministic:
  assumes "gomap_ok desired" "gomap_ok desired'"
    and "map_of desired = map_of desired'" "map_of observed = map_of observed'"
    and "mset owned = mset owned'"
  shows "Diff desired observed owned = Diff desired' observed' owned'"
proof -
  have "mset desired = mset desired'"
    using gomap_ok_set_eq [OF assms(1-3)] assms(1,2)
    by (metis distinct_zipI1 gomap_ok_def set_eq_iff_mset_eq_distinct zip_map_fst_snd)
  moreover have "set_op observed = set_op observed'"
    by (simp add: fun_eq_iff set_op_def assms(4))
  moreover have "remove_op desired observed = remove_op desired' observed'"
    by (simp add: fun_eq_iff remove_op_def has_key_map_of assms(3,4))
  ultimately have "mset (diff_ops desired observed owned) =
                   mset (diff_ops desired' observed' owned')"
    using mset_concat_map [OF assms(5)]
    by (simp add: diff_ops_def mset_concat_map [of desired desired'])
  then show ?thesis
    unfolding Diff_def
    by (rule path_sort.srt_permute) (rule diff_ops_key_det [OF assms(1)])
qed

theorem diff_deterministic_witness:
  "Diff [(''a'', ''1''), (''b'', ''2'')] [(''c'', ''3'')] [''c''] =
   Diff [(''b'', ''2''), (''a'', ''1'')] [(''c'', ''3'')] [''c'']"
  by (rule diff_deterministic) (auto simp: fun_eq_iff)

end
