(* ===== verification/Attr_Merge.thy ===== *)
theory Attr_Merge
  imports Attr_Diff
begin

text \<open>
  \<open>internal/controller/attributes/merge.go\<close>: layered desired states combined in precedence
  order, with a record of which layer owns each key.  The hand-written insertion sort is
  modelled swap by swap and interpreted as a \<open>key_sort\<close>.
\<close>

section \<open>Layers and ownership\<close>

record layer =
  ly_Kind :: string
  ly_Owner :: string
  ly_Attrs :: gomap

record KeyOwnership =
  ko_Key :: string
  ko_Kind :: string
  ko_Owner :: string
  ko_Value :: string

section \<open>The insertion sort\<close>

text \<open>The inner loop: \<open>owners[j]\<close> moves left while its left neighbour has a larger key.\<close>

fun bubble :: "nat \<Rightarrow> KeyOwnership list \<Rightarrow> KeyOwnership list" where
  "bubble 0 xs = xs"
| "bubble (Suc j) xs =
     (if ko_Key (xs ! j) > ko_Key (xs ! Suc j)
      then bubble j (xs[j := xs ! Suc j, Suc j := xs ! j]) else xs)"

definition sortByKey :: "KeyOwnership list \<Rightarrow> KeyOwnership list" where
  "sortByKey xs = foldl (\<lambda>ys i. bubble i ys) xs [1 ..< length xs]"

text \<open>One run of the inner loop inserts \<open>x\<close> before the larger end of the prefix.\<close>

lemma bubble_inserts:
  "bubble (length ps) (ps @ x # ss) =
     rev (dropWhile (\<lambda>y. ko_Key y > ko_Key x) (rev ps)) @ x #
     rev (takeWhile (\<lambda>y. ko_Key y > ko_Key x) (rev ps)) @ ss"
proof (induction ps arbitrary: ss rule: rev_induct)
  case (snoc p ps)
  show ?case
  proof (cases "ko_Key p > ko_Key x")
    case True
    have "(ps @ p # x # ss)[length ps := x, Suc (length ps) := p] = ps @ x # p # ss"
      by (simp add: list_update_append)
    with True snoc.IH [of "p # ss"] show ?thesis
      by (simp add: nth_append)
  qed (simp add: nth_append)
qed simp

lemma split_at_nth:
  assumes "i < length xs"
  obtains ps x ss where "xs = ps @ x # ss" "length ps = i" "take i xs = ps"
  using assms id_take_nth_drop [OF assms] by (metis length_take min.absorb4)

lemma bubble_mset [simp]: "i < length xs \<Longrightarrow> mset (bubble i xs) = mset xs"
proof -
  assume "i < length xs"
  then obtain ps x ss where xs: "xs = ps @ x # ss" "length ps = i" by (rule split_at_nth)
  let ?g = "\<lambda>y. ko_Key y > ko_Key x"
  have "mset (dropWhile ?g (rev ps)) + mset (takeWhile ?g (rev ps)) = mset ps"
    by (metis add.commute mset_append mset_rev takeWhile_dropWhile_id)
  with bubble_inserts [of ps x ss] xs show ?thesis by simp
qed

lemma bubble_length [simp]: "i < length xs \<Longrightarrow> length (bubble i xs) = length xs"
  by (metis bubble_mset size_mset)

lemma bubble_stable:
  assumes "i < length xs"
  shows "filter (\<lambda>x. ko_Key x = k) (bubble i xs) = filter (\<lambda>x. ko_Key x = k) xs"
proof -
  obtain ps x ss where xs: "xs = ps @ x # ss" "length ps = i"
    using assms by (rule split_at_nth)
  let ?g = "\<lambda>y. ko_Key y > ko_Key x"
  have big: "filter (\<lambda>y. ko_Key y = k) (rev (takeWhile ?g (rev ps))) = []" if "k = ko_Key x"
    using that by (auto simp: filter_empty_conv dest: set_takeWhileD)
  have "ps = rev (dropWhile ?g (rev ps)) @ rev (takeWhile ?g (rev ps))"
    by (metis rev_append rev_rev_ident takeWhile_dropWhile_id)
  then have "filter (\<lambda>y. ko_Key y = k) ps =
      filter (\<lambda>y. ko_Key y = k) (rev (dropWhile ?g (rev ps))) @
      filter (\<lambda>y. ko_Key y = k) (rev (takeWhile ?g (rev ps)))"
    by (metis filter_append)
  with bubble_inserts [of ps x ss] xs big show ?thesis by auto
qed

lemma bubble_sorted:
  assumes "i < length xs" and "sorted (map ko_Key (take i xs))"
  shows "sorted (map ko_Key (take (Suc i) (bubble i xs)))"
proof -
  obtain ps x ss where xs: "xs = ps @ x # ss" "length ps = i" "take i xs = ps"
    using assms(1) by (rule split_at_nth)
  let ?g = "\<lambda>y. ko_Key y > ko_Key x"
  let ?A = "rev (dropWhile ?g (rev ps))" and ?B = "rev (takeWhile ?g (rev ps))"
  have ps: "ps = ?A @ ?B"
    by (metis rev_append rev_rev_ident takeWhile_dropWhile_id)
  have len: "length ?A + length ?B = i"
    using ps xs(2) by (metis length_append)
  have srt: "sorted (map ko_Key (?A @ ?B))"
    using assms(2) xs(3) ps by simp
  have B: "ko_Key x \<le> ko_Key y" if "y \<in> set ?B" for y
    using that by (auto dest!: set_takeWhileD)
  have A: "ko_Key y \<le> ko_Key x" if y: "y \<in> set ?A" for y
  proof (cases "dropWhile ?g (rev ps)")
    case (Cons z zs)
    then have z: "\<not> ?g z" by (simp add: dropWhile_eq_Cons_conv)
    from srt have "sorted (map ko_Key ?A)" by (simp add: sorted_append)
    with Cons have "sorted (map ko_Key (rev zs @ [z]))" by simp
    with y Cons have "ko_Key y \<le> ko_Key z" by (auto simp: sorted_append)
    with z show ?thesis by auto
  next
    case Nil
    with y show ?thesis by (simp del: dropWhile_eq_Nil_conv)
  qed
  have "take (Suc i) (bubble i xs) = ?A @ x # ?B"
  proof -
    have "bubble i xs = (?A @ x # ?B) @ ss"
      using bubble_inserts [of ps x ss] xs by simp
    moreover have "Suc i = length (?A @ x # ?B)" using len by simp
    ultimately show ?thesis by (metis append_eq_conv_conj)
  qed
  moreover have "sorted (map ko_Key (?A @ x # ?B))"
    using srt A B by (auto simp: sorted_append)
  ultimately show ?thesis by simp
qed

text \<open>The outer loop: after index \<open>i\<close> the first \<open>i + 1\<close> entries are sorted.\<close>

lemma sortByKey_upto:
  assumes "n \<le> length xs" "1 \<le> n"
  shows "let ys = foldl (\<lambda>ys i. bubble i ys) xs [1 ..< n] in
           mset ys = mset xs \<and>
           (\<forall>k. filter (\<lambda>x. ko_Key x = k) ys = filter (\<lambda>x. ko_Key x = k) xs) \<and>
           sorted (map ko_Key (take n ys))"
  using assms(2,1)
proof (induction n rule: dec_induct)
  case base
  then show ?case by (cases xs) auto
next
  case (step n)
  define ys where "ys = foldl (\<lambda>ys i. bubble i ys) xs [1 ..< n]"
  from step have IH: "mset ys = mset xs"
    "\<And>k. filter (\<lambda>x. ko_Key x = k) ys = filter (\<lambda>x. ko_Key x = k) xs"
    "sorted (map ko_Key (take n ys))"
    by (auto simp: ys_def Let_def)
  have n: "n < length ys"
    using step.prems IH(1) by (metis Suc_le_lessD size_mset)
  have "foldl (\<lambda>ys i. bubble i ys) xs [1 ..< Suc n] = bubble n ys"
    using step.hyps by (simp add: ys_def)
  with IH n bubble_sorted [OF n IH(3)] show ?case
    by (simp add: Let_def bubble_stable)
qed

interpretation own_sort: key_sort sortByKey ko_Key
proof
  fix xs k
  have "mset (sortByKey xs) = mset xs \<and> sorted (map ko_Key (sortByKey xs)) \<and>
        filter (\<lambda>x. ko_Key x = k) (sortByKey xs) = filter (\<lambda>x. ko_Key x = k) xs"
  proof (cases xs)
    case (Cons x ys)
    then have 1: "1 \<le> length xs" by simp
    have "mset (sortByKey xs) = mset xs"
      using sortByKey_upto [OF order_refl 1] by (simp add: sortByKey_def Let_def)
    moreover from this have "take (length xs) (sortByKey xs) = sortByKey xs"
      by (metis order_refl size_mset take_all)
    ultimately show ?thesis
      using sortByKey_upto [OF order_refl 1] by (simp add: sortByKey_def Let_def)
  qed (simp add: sortByKey_def)
  then show "mset (sortByKey xs) = mset xs" "sorted (map ko_Key (sortByKey xs))"
    "filter (\<lambda>x. ko_Key x = k) (sortByKey xs) = filter (\<lambda>x. ko_Key x = k) xs"
    by auto
qed

section \<open>Merge\<close>

text \<open>One iteration of the loop over a layer's attributes: an unclaimed key is claimed.\<close>

fun merge_key ::
  "layer \<Rightarrow> string \<times> string \<Rightarrow> gomap \<times> (string \<times> KeyOwnership) list \<Rightarrow>
     gomap \<times> (string \<times> KeyOwnership) list" where
  "merge_key L (k, v) (desired, ownerByKey) =
     (if has_key desired k then (desired, ownerByKey)
      else (map_put k v desired,
            map_put k \<lparr>ko_Key = k, ko_Kind = ly_Kind L, ko_Owner = ly_Owner L, ko_Value = v\<rparr>
              ownerByKey))"

definition merge_layer ::
  "layer \<Rightarrow> gomap \<times> (string \<times> KeyOwnership) list \<Rightarrow> gomap \<times> (string \<times> KeyOwnership) list" where
  "merge_layer L st = fold (merge_key L) (ly_Attrs L) st"

definition merge_loop :: "layer list \<Rightarrow> gomap \<times> (string \<times> KeyOwnership) list" where
  "merge_loop layers = fold merge_layer layers ([], [])"

definition Merge :: "layer list \<Rightarrow> gomap \<times> KeyOwnership list" where
  "Merge layers =
     (let (desired, ownerByKey) = merge_loop layers
      in (desired, sortByKey (map snd ownerByKey)))"

text \<open>The specification: the layer that wins a key, and the record it leaves.\<close>

definition claimant :: "layer list \<Rightarrow> string \<Rightarrow> layer option" where
  "claimant layers k = find (\<lambda>L. has_key (ly_Attrs L) k) layers"

definition own_rec :: "layer \<Rightarrow> string \<Rightarrow> KeyOwnership" where
  "own_rec L k = \<lparr>ko_Key = k, ko_Kind = ly_Kind L, ko_Owner = ly_Owner L,
                  ko_Value = get_str (ly_Attrs L) k\<rparr>"

definition aligned :: "gomap \<times> (string \<times> KeyOwnership) list \<Rightarrow> bool" where
  "aligned st \<longleftrightarrow> gomap_ok (fst st) \<and> gomap_ok (snd st) \<and>
     fst ` set (fst st) = fst ` set (snd st) \<and> (\<forall>(k, x) \<in> set (snd st). ko_Key x = k)"

lemma set_map_put_subset: "set (map_put k v m) \<subseteq> insert (k, v) (set m)"
  by (induction k v m rule: map_put.induct) auto

lemma aligned_merge_key:
  assumes "aligned st"
  shows "aligned (merge_key L kv st)"
proof -
  obtain k v d b where eq: "kv = (k, v)" "st = (d, b)" by (metis surj_pair)
  have *: "y \<in> set b \<or> y = (k, x)" if "y \<in> set (map_put k x b)" for y x
    using set_map_put_subset that by fast
  show ?thesis using assms eq by (auto simp: aligned_def dest!: *)
qed

lemma aligned_merge_attrs: "aligned st \<Longrightarrow> aligned (fold (merge_key L) kvs st)"
  by (induction kvs arbitrary: st) (simp_all add: aligned_merge_key)

lemma aligned_merge_loop: "aligned (merge_loop layers)"
proof -
  have "aligned st \<Longrightarrow> aligned (fold merge_layer ls st)" for ls st
    by (induction ls arbitrary: st) (simp_all add: merge_layer_def aligned_merge_attrs)
  moreover have "aligned ([], [])" by (simp add: aligned_def)
  ultimately show ?thesis by (simp add: merge_loop_def)
qed

lemma merge_attrs_desired:
  "map_of (fst (fold (merge_key L) kvs st)) k =
     (case map_of (fst st) k of Some v \<Rightarrow> Some v | None \<Rightarrow> map_of kvs k)"
proof (induction kvs arbitrary: st)
  case (Cons kv kvs)
  obtain j v d b where "kv = (j, v)" "st = (d, b)" by (metis surj_pair)
  with Cons.IH [of "merge_key L kv st"] show ?case
    by (auto simp: has_key_map_of split: option.splits)
qed (simp split: option.splits)

lemma merge_attrs_owner:
  "aligned st \<Longrightarrow>
   map_of (snd (fold (merge_key L) kvs st)) k =
     (case map_of (snd st) k of Some x \<Rightarrow> Some x
      | None \<Rightarrow> map_option (\<lambda>v. \<lparr>ko_Key = k, ko_Kind = ly_Kind L, ko_Owner = ly_Owner L,
                                  ko_Value = v\<rparr>) (map_of kvs k))"
proof (induction kvs arbitrary: st)
  case (Cons kv kvs)
  obtain j v d b where eq: "kv = (j, v)" "st = (d, b)" by (metis surj_pair)
  have "has_key d j \<longleftrightarrow> map_of b j \<noteq> None"
    using Cons.prems eq by (simp add: aligned_def has_key_def map_of_eq_None_iff)
  with eq Cons.IH [OF aligned_merge_key [OF Cons.prems], of L kv] show ?case
    by (auto split: option.splits)
qed (simp split: option.splits)

lemma merge_loop_at:
  "map_of (fst (merge_loop layers)) k =
     (case claimant layers k of None \<Rightarrow> None | Some L \<Rightarrow> map_of (ly_Attrs L) k)"
  "map_of (snd (merge_loop layers)) k = map_option (\<lambda>L. own_rec L k) (claimant layers k)"
proof -
  have "map_of (fst (fold merge_layer ls st)) k =
          (case map_of (fst st) k of Some v \<Rightarrow> Some v
           | None \<Rightarrow> (case claimant ls k of None \<Rightarrow> None | Some L \<Rightarrow> map_of (ly_Attrs L) k)) \<and>
        map_of (snd (fold merge_layer ls st)) k =
          (case map_of (snd st) k of Some x \<Rightarrow> Some x
           | None \<Rightarrow> map_option (\<lambda>L. own_rec L k) (claimant ls k))"
    if "aligned st" for ls st
    using that
  proof (induction ls arbitrary: st)
    case (Cons L ls)
    have "aligned (merge_layer L st)"
      using Cons.prems by (simp add: merge_layer_def aligned_merge_attrs)
    from Cons.IH [OF this] Cons.prems show ?case
      by (auto simp: merge_layer_def merge_attrs_desired merge_attrs_owner claimant_def
          own_rec_def get_str_def has_key_map_of split: option.splits)
  qed (simp add: claimant_def split: option.splits)
  from this [of "([], [])" layers]
  show "map_of (fst (merge_loop layers)) k =
     (case claimant layers k of None \<Rightarrow> None | Some L \<Rightarrow> map_of (ly_Attrs L) k)"
  "map_of (snd (merge_loop layers)) k = map_option (\<lambda>L. own_rec L k) (claimant layers k)"
    by (simp_all add: merge_loop_def aligned_def)
qed

lemma snd_merge_loop_keys:
  "map fst (snd (merge_loop layers)) = map ko_Key (map snd (snd (merge_loop layers)))"
  using aligned_merge_loop [of layers] by (auto simp: aligned_def)

lemma Merge_owners_mset:
  "mset (snd (Merge layers)) = mset (map snd (snd (merge_loop layers)))"
  by (simp add: Merge_def own_sort.srt_mset split: prod.split flip: mset_map)

lemma Merge_fst: "fst (Merge layers) = fst (merge_loop layers)"
  by (simp add: Merge_def split: prod.split)

lemma gomap_ok_Merge: "gomap_ok (fst (Merge layers))"
  using aligned_merge_loop [of layers] by (simp add: Merge_fst aligned_def)

lemma Merge_owners_distinct: "distinct (map ko_Key (snd (Merge layers)))"
proof -
  have "mset (map ko_Key (snd (Merge layers))) = mset (map fst (snd (merge_loop layers)))"
    unfolding mset_map Merge_owners_mset snd_merge_loop_keys by simp
  moreover have "distinct (map fst (snd (merge_loop layers)))"
    using aligned_merge_loop [of layers] by (simp add: aligned_def gomap_ok_def)
  ultimately show ?thesis by (metis mset_eq_imp_distinct_iff)
qed

lemma Merge_owners_sorted: "sorted (map ko_Key (snd (Merge layers)))"
  by (simp add: Merge_def own_sort.srt_sorted split: prod.split)

lemma Merge_owner_iff:
  "x \<in> set (snd (Merge layers)) \<longleftrightarrow>
     (\<exists>L. claimant layers (ko_Key x) = Some L \<and> x = own_rec L (ko_Key x))"
proof -
  have ok: "aligned (merge_loop layers)" by (rule aligned_merge_loop)
  then have keys: "ko_Key y = j" if "(j, y) \<in> set (snd (merge_loop layers))" for j y
    using that unfolding aligned_def by blast
  have "set (snd (Merge layers)) = set (map snd (snd (merge_loop layers)))"
    using Merge_owners_mset by (rule mset_eq_setD)
  then have "x \<in> set (snd (Merge layers)) \<longleftrightarrow> x \<in> snd ` set (snd (merge_loop layers))"
    by simp
  also have "\<dots> \<longleftrightarrow> (ko_Key x, x) \<in> set (snd (merge_loop layers))"
  proof
    assume "x \<in> snd ` set (snd (merge_loop layers))"
    then obtain j where "(j, x) \<in> set (snd (merge_loop layers))" by (elim imageE) auto
    with keys [OF this] show "(ko_Key x, x) \<in> set (snd (merge_loop layers))" by simp
  qed (rule image_eqI [of _ snd], simp_all)
  also have "\<dots> \<longleftrightarrow> map_of (snd (merge_loop layers)) (ko_Key x) = Some x"
    using ok by (simp add: aligned_def gomap_ok_def)
  also have "\<dots> \<longleftrightarrow> (\<exists>L. claimant layers (ko_Key x) = Some L \<and> x = own_rec L (ko_Key x))"
    by (auto simp: merge_loop_at)
  finally show ?thesis .
qed

lemma Merge_lookup:
  "map_of (fst (Merge layers)) k =
     (case claimant layers k of None \<Rightarrow> None | Some L \<Rightarrow> map_of (ly_Attrs L) k)"
  by (simp add: Merge_fst merge_loop_at)

text \<open>
  C28: on a key collision the first layer wins: the merged value of a key is the value of the
  first layer that has the key, and its ownership record names that layer and that value.
\<close>

theorem merge_first_layer_wins:
  "map_of (fst (Merge layers)) k =
     (case claimant layers k of None \<Rightarrow> None | Some L \<Rightarrow> map_of (ly_Attrs L) k) \<and>
   filter (\<lambda>x. ko_Key x = k) (snd (Merge layers)) =
     (case claimant layers k of None \<Rightarrow> [] | Some L \<Rightarrow> [own_rec L k])"
proof
  let ?f = "filter (\<lambda>x. ko_Key x = k) (snd (Merge layers))"
  have set: "set ?f = (case claimant layers k of None \<Rightarrow> {} | Some L \<Rightarrow> {own_rec L k})"
    by (auto simp: Merge_owner_iff own_rec_def split: option.splits)
  have "distinct ?f" using Merge_owners_distinct [of layers] by (simp add: distinct_map)
  with set show "?f = (case claimant layers k of None \<Rightarrow> [] | Some L \<Rightarrow> [own_rec L k])"
    by (cases ?f; cases "tl ?f") (auto split: option.splits)
qed (rule Merge_lookup)

lemma Merge_owner_keys:
  "ko_Key ` set (snd (Merge layers)) = fst ` set (fst (Merge layers))"
proof -
  have "ko_Key ` set (snd (Merge layers)) = ko_Key ` set (map snd (snd (merge_loop layers)))"
    using mset_eq_setD [OF Merge_owners_mset [of layers]] by simp
  also have "\<dots> = fst ` set (snd (merge_loop layers))"
    using arg_cong [OF snd_merge_loop_keys [of layers], of set] by (simp add: image_image)
  also have "\<dots> = fst ` set (fst (Merge layers))"
    using aligned_merge_loop [of layers] by (simp add: aligned_def Merge_fst)
  finally show ?thesis .
qed

text \<open>
  The result of \<open>Merge\<close> is aligned: the owner records have exactly the keys of the merged
  map, one each, in ascending order, whatever the layers and their iteration order.
\<close>

theorem merge_aligned:
  "gomap_ok (fst (Merge layers)) \<and>
   map ko_Key (snd (Merge layers)) = sorted_list_of_set (fst ` set (fst (Merge layers)))"
proof
  show "map ko_Key (snd (Merge layers)) = sorted_list_of_set (fst ` set (fst (Merge layers)))"
    using Merge_owners_sorted [of layers] Merge_owners_distinct [of layers] Merge_owner_keys [of layers]
    by (metis list.set_map sorted_list_of_set.idem_if_sorted_distinct)
qed (rule gomap_ok_Merge)

end
