(* ===== verification/Attr_Match.thy ===== *)
theory Attr_Match
  imports Go_Prelude
begin

text \<open>
  \<open>internal/controller/attributes/match.go\<close> and \<open>matcher_keys.go\<close>: the Prometheus-style
  matchers of policies and attribute syncs.  The pattern \<open>matcherPattern\<close> is a fixed regular
  expression; it is modelled by the parser it denotes (leftmost-first alternatives, greedy
  and lazy repetitions resolved), and \<open>Matcher_Regexp\<close> proves the parser equal to the
  expression.  A regular expression the user wrote is compiled by the library: the parameter
  \<open>rx\<close> maps its text to a predicate on strings, or to \<open>None\<close> when it does not compile.
\<close>

section \<open>The matcher pattern\<close>

text \<open>RE2's \<open>\s\<close>.\<close>

definition re_space :: "char \<Rightarrow> bool" where
  "re_space c \<longleftrightarrow> c \<in> {CHR 0x09, CHR 0x0A, CHR 0x0C, CHR 0x0D, CHR 0x20}"

definition key_start :: "char \<Rightarrow> bool" where
  "key_start c \<longleftrightarrow> is_lower c \<or> is_upper c \<or> c = CHR ''_''"

definition key_char :: "char \<Rightarrow> bool" where
  "key_char c \<longleftrightarrow> key_start c \<or> is_digit c \<or> c = CHR ''.''"

datatype match_op = MEq | MNe | MRe | MNre

fun op_text :: "match_op \<Rightarrow> string" where
  "op_text MEq = ''=''"
| "op_text MNe = ''!=''"
| "op_text MRe = ''=~''"
| "op_text MNre = ''!~''"

definition rtrim :: "string \<Rightarrow> string" where
  "rtrim s = rev (dropWhile re_space (rev s))"

text \<open>
  \<open>\s*(.+?)\s*$\<close>: without its outer white space the value is not empty and has no
  newline; a rest of white space only gives its last character that \<open>.\<close> matches.
\<close>

definition match_value :: "string \<Rightarrow> string option" where
  "match_value r =
     (let v = rtrim (dropWhile re_space r)
      in if v = [] then
           (case rev (filter (\<lambda>c. c \<noteq> CHR 0x0A) r) of [] \<Rightarrow> None | c # _ \<Rightarrow> Some [c])
         else if CHR 0x0A \<in> set v then None
         else Some v)"

definition parse_op :: "string \<Rightarrow> (match_op \<times> string) option" where
  "parse_op s =
     (if has_prefix s ''!='' then map_option (Pair MNe) (match_value (drop 2 s))
      else if has_prefix s ''=~'' then
        (case match_value (drop 2 s) of
           Some v \<Rightarrow> Some (MRe, v)
         | None \<Rightarrow> map_option (Pair MEq) (match_value (drop 1 s)))
      else if has_prefix s ''!~'' then map_option (Pair MNre) (match_value (drop 2 s))
      else if has_prefix s ''='' then map_option (Pair MEq) (match_value (drop 1 s))
      else None)"

definition matcherPattern :: "string \<Rightarrow> (string \<times> match_op \<times> string) option" where
  "matcherPattern m =
     (case dropWhile re_space m of
        [] \<Rightarrow> None
      | c # s \<Rightarrow>
          if key_start c
          then map_option (Pair (c # takeWhile key_char s))
                 (parse_op (dropWhile re_space (dropWhile key_char s)))
          else None)"

section \<open>Matching\<close>

definition unquote :: "string \<Rightarrow> string" where
  "unquote raw =
     (if 2 \<le> length raw \<and> hd raw = CHR 0x22 \<and> last raw = CHR 0x22
      then butlast (tl raw) else raw)"

type_synonym regex = "string \<Rightarrow> (string \<Rightarrow> bool) option"

definition matchOne :: "regex \<Rightarrow> string \<Rightarrow> string \<Rightarrow> gomap \<Rightarrow> string + bool" where
  "matchOne rx matcher collectorID attrs =
     (case matcherPattern matcher of
        None \<Rightarrow> Inl (''invalid matcher syntax: '' @ go_quote matcher)
      | Some (key, op', raw) \<Rightarrow>
          (let value = unquote raw;
               got = (if key = ''collector.id'' then collectorID else get_str attrs key)
           in case op' of
                MEq \<Rightarrow> Inr (got = value)
              | MNe \<Rightarrow> Inr (got \<noteq> value)
              | MRe \<Rightarrow> (case rx value of
                          None \<Rightarrow> Inl (''invalid regex in matcher '' @ go_quote matcher)
                        | Some re \<Rightarrow> Inr (re got))
              | MNre \<Rightarrow> (case rx value of
                           None \<Rightarrow> Inl (''invalid regex in matcher '' @ go_quote matcher)
                         | Some re \<Rightarrow> Inr (\<not> re got))))"

record Selector =
  sel_Matchers :: "string list"
  sel_CollectorIDs :: "string list"

fun all_match :: "regex \<Rightarrow> string list \<Rightarrow> string \<Rightarrow> gomap \<Rightarrow> bool" where
  "all_match rx [] cid attrs = True"
| "all_match rx (m # ms) cid attrs =
     (case matchOne rx m cid attrs of
        Inl err \<Rightarrow> False
      | Inr ok \<Rightarrow> if \<not> ok then False else all_match rx ms cid attrs)"

definition Match :: "regex \<Rightarrow> Selector \<Rightarrow> string \<Rightarrow> gomap \<Rightarrow> bool" where
  "Match rx s collectorID attrs =
     (if collectorID \<in> set (sel_CollectorIDs s) then True
      else if sel_Matchers s = [] then False
      else all_match rx (sel_Matchers s) collectorID attrs)"

definition MatcherUsesKey :: "string \<Rightarrow> string \<Rightarrow> bool" where
  "MatcherUsesKey matcher key =
     (case matcherPattern matcher of None \<Rightarrow> False | Some (k, _) \<Rightarrow> k = key)"

definition CompactMatchers :: "string list \<Rightarrow> string list" where
  "CompactMatchers matchers = map trim_space matchers"

subsection \<open>Matcher keys\<close>

definition SyntheticHasNegationKey :: string where
  "SyntheticHasNegationKey = ''__has_negation__''"

definition SyntheticCollectorIDsOnlyKey :: string where
  "SyntheticCollectorIDsOnlyKey = ''__collector_ids_only__''"

fun matcher_keys_loop :: "string list \<Rightarrow> string list \<Rightarrow> bool \<Rightarrow> string list \<times> bool" where
  "matcher_keys_loop [] seen hasNegation = (seen, hasNegation)"
| "matcher_keys_loop (m # ms) seen hasNegation =
     (case matcherPattern m of
        None \<Rightarrow> matcher_keys_loop ms seen hasNegation
      | Some (k, op', _) \<Rightarrow>
          matcher_keys_loop ms (List.insert k seen)
            (if op' = MNe \<or> op' = MNre then True else hasNegation))"

definition MatcherKeys :: "string list \<Rightarrow> string list" where
  "MatcherKeys matchers =
     (let (seen, hasNegation) = matcher_keys_loop matchers [] False
      in if hasNegation then List.insert SyntheticHasNegationKey seen else seen)"

section \<open>The language of the pattern\<close>

text \<open>
  A decomposition of a string by the regular expression
  \<open>^\s*([a-zA-Z_][a-zA-Z0-9_.]*)\s*(!=|=~|!~|=)\s*(.+?)\s*$\<close>.
\<close>

definition re_parts :: "string \<Rightarrow> string \<Rightarrow> match_op \<Rightarrow> string \<Rightarrow> bool" where
  "re_parts m k op' v \<longleftrightarrow>
     (\<exists>w1 w2 w3 w4. m = w1 @ k @ w2 @ op_text op' @ w3 @ v @ w4 \<and>
        list_all re_space (w1 @ w2 @ w3 @ w4) \<and>
        k \<noteq> [] \<and> key_start (hd k) \<and> list_all key_char k \<and>
        v \<noteq> [] \<and> CHR 0x0A \<notin> set v)"

lemma re_space_not_key: "re_space c \<Longrightarrow> \<not> key_char c"
  by (auto simp: re_space_def key_char_def key_start_def is_lower_def is_upper_def is_digit_def)

lemma key_start_key: "key_start c \<Longrightarrow> key_char c"
  by (simp add: key_char_def)

lemma op_text_hd: "op_text op' = c # s \<Longrightarrow> \<not> re_space c \<and> \<not> key_char c"
  by (cases op')
    (auto simp: re_space_def key_char_def key_start_def is_lower_def is_upper_def is_digit_def)

lemma op_text_Cons: "\<exists>c s. op_text op' = c # s"
  by (cases op') auto

lemma rtrim_split: "\<exists>w. s = rtrim s @ w \<and> list_all re_space w"
proof -
  have "s = rtrim s @ rev (takeWhile re_space (rev s))"
    unfolding rtrim_def by (metis rev_append rev_rev_ident takeWhile_dropWhile_id)
  then show ?thesis by (metis list_all_iff set_rev set_takeWhileD)
qed

text \<open>A value is found exactly when the rest contains one, and it is one.\<close>

definition value_in :: "string \<Rightarrow> string \<Rightarrow> bool" where
  "value_in r v \<longleftrightarrow>
     (\<exists>w3 w4. r = w3 @ v @ w4 \<and> list_all re_space (w3 @ w4) \<and> v \<noteq> [] \<and> CHR 0x0A \<notin> set v)"

lemma last_non_newline:
  assumes "rev (filter P r) = c # cs"
  shows "\<exists>w3 w4. r = w3 @ [c] @ w4 \<and> P c"
proof -
  have "c \<in> set (rev (filter P r))" using assms by simp
  then show ?thesis by (auto simp: in_set_conv_decomp)
qed

lemma rtrim_Nil_iff: "rtrim s = [] \<longleftrightarrow> list_all re_space s"
  by (auto simp: rtrim_def list_all_iff)

lemma rtrim_append_space: "list_all re_space w \<Longrightarrow> rtrim (s @ w) = rtrim s"
  using dropWhile_append2 [of "rev w" re_space "rev s"] by (simp add: rtrim_def list_all_iff)

lemma match_value_sound:
  assumes "match_value r = Some v"
  shows "value_in r v"
proof (cases "rtrim (dropWhile re_space r) = []")
  case True
  with assms obtain cs where c: "rev (filter (\<lambda>c. c \<noteq> CHR 0x0A) r) = hd v # cs" "v = [hd v]"
    by (auto simp: match_value_def split: list.splits)
  from True have all: "list_all re_space r"
    unfolding rtrim_Nil_iff list_all_iff
    by (metis UnE set_append set_takeWhileD takeWhile_dropWhile_id)
  from last_non_newline [OF c(1)] obtain w3 w4 where "r = w3 @ [hd v] @ w4" "hd v \<noteq> CHR 0x0A"
    by blast
  with all c(2) show ?thesis
    unfolding value_in_def by (metis list.distinct(1) list.set(1) list.set(2) list_all_append
        singletonD)
next
  case False
  with assms have v: "v = rtrim (dropWhile re_space r)" "CHR 0x0A \<notin> set v"
    by (auto simp: match_value_def Let_def split: if_splits)
  obtain w where w: "dropWhile re_space r = v @ w" "list_all re_space w"
    using rtrim_split v(1) by metis
  have "r = takeWhile re_space r @ v @ w"
    by (metis w(1) takeWhile_dropWhile_id)
  moreover have "list_all re_space (takeWhile re_space r @ w)"
    using w(2) by (auto simp: list_all_iff dest: set_takeWhileD)
  ultimately show ?thesis
    unfolding value_in_def using v False by metis
qed

lemma match_value_complete:
  assumes "value_in r v"
  shows "match_value r \<noteq> None"
proof -
  obtain w3 w4 where r: "r = w3 @ v @ w4" "list_all re_space (w3 @ w4)" "v \<noteq> []" "CHR 0x0A \<notin> set v"
    using assms by (auto simp: value_in_def)
  show ?thesis
  proof (cases "rtrim (dropWhile re_space r) = []")
    case True
    have "filter (\<lambda>c. c \<noteq> CHR 0x0A) v = v" using r(4) by (auto simp: filter_id_conv)
    with r have "filter (\<lambda>c. c \<noteq> CHR 0x0A) r \<noteq> []" by auto
    with True show ?thesis by (auto simp: match_value_def split: list.splits)
  next
    case False
    have "dropWhile re_space r = dropWhile re_space (v @ w4)"
      using r by (simp add: list_all_iff)
    also have "\<dots> = dropWhile re_space v @ w4 \<or> \<dots> = dropWhile re_space w4"
      by (metis dropWhile_append1 dropWhile_append2)
    finally have "rtrim (dropWhile re_space r) = rtrim (dropWhile re_space v) \<or>
                  rtrim (dropWhile re_space r) = rtrim (dropWhile re_space w4)"
      using r rtrim_append_space [of w4 "dropWhile re_space v"] by auto
    moreover have "rtrim (dropWhile re_space w4) = []"
      using r unfolding rtrim_Nil_iff by (auto simp: list_all_iff dest: set_dropWhileD)
    ultimately have "rtrim (dropWhile re_space r) = rtrim (dropWhile re_space v)"
      using False by simp
    moreover have "set (rtrim (dropWhile re_space v)) \<subseteq> set v"
      unfolding rtrim_def by (metis set_dropWhileD set_rev subsetI)
    ultimately show ?thesis using False r(4) by (auto simp: match_value_def Let_def)
  qed
qed

lemma value_in_match: "value_in r v \<Longrightarrow> \<exists>v'. match_value r = Some v'"
  using match_value_complete by fastforce

text \<open>The operator alternatives in front of a value.\<close>

definition op_in :: "string \<Rightarrow> match_op \<Rightarrow> string \<Rightarrow> bool" where
  "op_in s op' v \<longleftrightarrow> (\<exists>r. s = op_text op' @ r \<and> value_in r v)"

lemma has_prefix_split: "has_prefix s p \<longleftrightarrow> s = p @ drop (length p) s"
proof
  show "has_prefix s p \<Longrightarrow> s = p @ drop (length p) s"
    by (induction s p rule: has_prefix.induct) auto
  show "s = p @ drop (length p) s \<Longrightarrow> has_prefix s p"
    by (induction s p rule: has_prefix.induct) auto
qed

lemma parse_op_sound:
  assumes "parse_op s = Some (op', v)"
  shows "op_in s op' v"
proof -
  have *: "op_in s t v" if "has_prefix s (op_text t)" "match_value (drop (length (op_text t)) s) = Some v" for t
    unfolding op_in_def using that(1)[unfolded has_prefix_split] match_value_sound [OF that(2)] by blast
  have eq: "has_prefix s ''=~'' \<Longrightarrow> has_prefix s ''=''"
    by (cases s) auto
  show ?thesis
    using assms * [of MNe] * [of MRe] * [of MNre] * [of MEq] eq
    by (auto simp: parse_op_def numeral_2_eq_2 split: if_splits option.splits)
qed

lemma parse_op_complete:
  assumes "op_in s op' v"
  shows "parse_op s \<noteq> None"
proof -
  obtain r where r: "s = op_text op' @ r" "value_in r v"
    using assms by (auto simp: op_in_def)
  then obtain v' where v': "match_value r = Some v'" using value_in_match by blast
  show ?thesis
  proof (cases op')
    case MEq
    with r v' show ?thesis by (auto simp: parse_op_def split: option.splits)
  qed (use r v' in \<open>auto simp: parse_op_def\<close>)
qed

lemma matcherPattern_sound:
  assumes "matcherPattern m = Some (k, op', v)"
  shows "re_parts m k op' v"
proof -
  obtain c s where cs: "dropWhile re_space m = c # s" "key_start c"
    and k: "k = c # takeWhile key_char s"
    and p: "parse_op (dropWhile re_space (dropWhile key_char s)) = Some (op', v)"
    using assms by (auto simp: matcherPattern_def split: list.splits if_splits)
  from parse_op_sound [OF p] obtain w3 w4 where
    o: "dropWhile re_space (dropWhile key_char s) = op_text op' @ w3 @ v @ w4"
    "list_all re_space (w3 @ w4)" "v \<noteq> []" "CHR 0x0A \<notin> set v"
    by (auto simp: op_in_def value_in_def)
  let ?w1 = "takeWhile re_space m" and ?w2 = "takeWhile re_space (dropWhile key_char s)"
  have "m = ?w1 @ k @ ?w2 @ op_text op' @ w3 @ v @ w4"
    using cs(1) k o(1) by (metis append_Cons append_assoc takeWhile_dropWhile_id)
  moreover have "list_all re_space (?w1 @ ?w2 @ w3 @ w4)"
    using o(2) by (auto simp: list_all_iff dest: set_takeWhileD)
  moreover have "list_all key_char k"
    using k cs(2) by (auto simp: list_all_iff key_start_key dest: set_takeWhileD)
  ultimately show ?thesis
    unfolding re_parts_def using cs(2) k o(3,4) by (metis list.distinct(1) list.sel(1))
qed

lemma key_run:
  assumes "list_all key_char s" and "t = [] \<or> \<not> key_char (hd t)"
  shows "takeWhile key_char (s @ t) = s" "dropWhile key_char (s @ t) = t"
  using assms by (induction s; cases t; simp)+

lemma matcherPattern_complete:
  assumes "re_parts m k op' v"
  shows "\<exists>op'' v'. matcherPattern m = Some (k, op'', v')"
proof -
  obtain w1 w2 w3 w4 where m: "m = w1 @ k @ w2 @ op_text op' @ w3 @ v @ w4"
    and ws: "list_all re_space (w1 @ w2 @ w3 @ w4)"
    and k: "k \<noteq> []" "key_start (hd k)" "list_all key_char k"
    and v: "v \<noteq> []" "CHR 0x0A \<notin> set v"
    using assms by (auto simp: re_parts_def)
  let ?tail = "op_text op' @ w3 @ v @ w4"
  obtain c s where c: "k = c # s" using k(1) by (cases k) auto
  obtain d t where d: "op_text op' = d # t" using op_text_Cons by blast
  have nd: "\<not> re_space d" "\<not> key_char d" using op_text_hd [OF d] by auto
  have nc: "\<not> re_space c" using k(3) c re_space_not_key by (auto simp: list_all_iff)
  have 1: "dropWhile re_space m = c # s @ w2 @ ?tail"
    using ws nc by (simp add: m c list_all_iff)
  have w2: "w2 @ ?tail = [] \<or> \<not> key_char (hd (w2 @ ?tail))"
    using ws nd(2) d re_space_not_key by (cases w2) (auto simp: list_all_iff)
  have 2: "takeWhile key_char (s @ w2 @ ?tail) = s" "dropWhile key_char (s @ w2 @ ?tail) = w2 @ ?tail"
    using key_run [of s "w2 @ ?tail"] k(3) c w2 by simp_all
  have 3: "dropWhile re_space (w2 @ ?tail) = ?tail"
    using ws nd(1) d by (simp add: list_all_iff)
  have "op_in ?tail op' v"
    unfolding op_in_def value_in_def using ws v by auto
  then obtain x where "parse_op ?tail = Some x" using parse_op_complete by blast
  with 1 2 3 k(2) c show ?thesis
    by (cases x) (simp add: matcherPattern_def)
qed

section \<open>Selectors\<close>

lemma all_match_iff:
  "all_match rx ms cid attrs \<longleftrightarrow> (\<forall>m \<in> set ms. matchOne rx m cid attrs = Inr True)"
  by (induction ms) (auto split: sum.splits)

lemma Match_iff:
  "Match rx s cid attrs \<longleftrightarrow>
     cid \<in> set (sel_CollectorIDs s) \<or>
     (sel_Matchers s \<noteq> [] \<and> (\<forall>m \<in> set (sel_Matchers s). matchOne rx m cid attrs = Inr True))"
  by (simp add: Match_def all_match_iff)

text \<open>
  A selector matches a collector exactly when its ID is listed or all its matchers (at
  least one) hold; so the empty selector matches nothing, and a matcher that does not parse
  or whose regular expression does not compile makes the matcher part fail.
\<close>

theorem selector_match_spec:
  "Match rx s cid attrs \<longleftrightarrow>
     cid \<in> set (sel_CollectorIDs s) \<or>
     (sel_Matchers s \<noteq> [] \<and>
      list_all (\<lambda>m. \<exists>k op' raw. matcherPattern m = Some (k, op', raw) \<and>
         (let v = unquote raw;
              got = (if k = ''collector.id'' then cid else get_str attrs k)
          in (op' = MEq \<and> got = v) \<or> (op' = MNe \<and> got \<noteq> v) \<or>
             (op' = MRe \<and> (\<exists>re. rx v = Some re \<and> re got)) \<or>
             (op' = MNre \<and> (\<exists>re. rx v = Some re \<and> \<not> re got)))) (sel_Matchers s))"
proof -
  have "matchOne rx m cid attrs = Inr True \<longleftrightarrow>
     (\<exists>k op' raw. matcherPattern m = Some (k, op', raw) \<and>
         (let v = unquote raw;
              got = (if k = ''collector.id'' then cid else get_str attrs k)
          in (op' = MEq \<and> got = v) \<or> (op' = MNe \<and> got \<noteq> v) \<or>
             (op' = MRe \<and> (\<exists>re. rx v = Some re \<and> re got)) \<or>
             (op' = MNre \<and> (\<exists>re. rx v = Some re \<and> \<not> re got))))" for m
    by (auto simp: matchOne_def Let_def split: option.splits match_op.splits)
  then show ?thesis by (simp add: Match_iff list_all_iff)
qed

text \<open>What a matcher reads of the attributes: the one key it names.\<close>

lemma matchOne_cong:
  assumes "\<And>k. MatcherUsesKey m k \<Longrightarrow> get_str attrs k = get_str attrs' k"
  shows "matchOne rx m cid attrs = matchOne rx m cid attrs'"
  using assms
  by (cases "matcherPattern m") (auto simp: matchOne_def MatcherUsesKey_def Let_def split: match_op.splits option.splits)

definition is_negation :: "string \<Rightarrow> bool" where
  "is_negation m =
     (case matcherPattern m of None \<Rightarrow> False | Some (_, op', _) \<Rightarrow> op' = MNe \<or> op' = MNre)"

lemma matcher_keys_loop_spec:
  "set (fst (matcher_keys_loop ms seen neg)) =
     set seen \<union> {k. \<exists>m \<in> set ms. MatcherUsesKey m k} \<and>
   (snd (matcher_keys_loop ms seen neg) \<longleftrightarrow>
      neg \<or> (\<exists>m \<in> set ms. is_negation m))"
proof (induction ms arbitrary: seen neg)
  case (Cons m ms)
  show ?case
  proof (cases "matcherPattern m")
    case None
    with Cons.IH show ?thesis by (simp add: MatcherUsesKey_def is_negation_def)
  next
    case (Some x)
    obtain k op' v where x: "x = (k, op', v)" by (cases x)
    have "{j. \<exists>m' \<in> set (m # ms). MatcherUsesKey m' j} =
          insert k {j. \<exists>m' \<in> set ms. MatcherUsesKey m' j}"
      using Some x by (auto simp: MatcherUsesKey_def)
    moreover have "is_negation m \<longleftrightarrow> op' = MNe \<or> op' = MNre"
      using Some x by (simp add: is_negation_def)
    ultimately show ?thesis
      using Some x Cons.IH [of "List.insert k seen"] by auto
  qed
qed simp

lemma set_MatcherKeys:
  "set (MatcherKeys ms) =
     {k. \<exists>m \<in> set ms. MatcherUsesKey m k} \<union>
     (if \<exists>m \<in> set ms. is_negation m then {SyntheticHasNegationKey} else {})"
proof -
  obtain seen neg where "matcher_keys_loop ms [] False = (seen, neg)" by force
  with matcher_keys_loop_spec [of ms "[]" False] show ?thesis
    by (simp add: MatcherKeys_def)
qed

end
