(* ===== verification/Matcher_Regexp.thy ===== *)
theory Matcher_Regexp
  imports Attr_Match
begin

text \<open>
  The regular expression \<open>matcherPattern\<close> of \<open>internal/controller/attributes/match.go\<close> as an
  expression, with the semantics the \<open>regexp\<close> package documents for \<open>FindStringSubmatch\<close>:
  among the matches that begin leftmost, the one a backtracking search finds first (an
  alternative before the next one, a greedy repetition from the longest run down, a lazy one
  from the shortest run up), with the text of each group.  The parser of \<open>Attr_Match\<close> is proved
  equal to it.  The text is read by bytes; the ends of every match of this expression lie next
  to ASCII bytes or at the ends of the text, so reading runes gives the same groups.
\<close>

section \<open>Expressions\<close>

text \<open>Character classes: ranges in brackets, \<open>\s\<close> and the dot; repetitions are of a class.\<close>

datatype cset = Ranges "(char \<times> char) list" | White | Dot

datatype re =
    Begin
  | End
  | One cset
  | Many cset
  | LazySome cset
  | Lit string
  | Seq re re
  | Alt re re
  | Group re

fun in_cset :: "cset \<Rightarrow> char \<Rightarrow> bool" where
  "in_cset (Ranges rs) c \<longleftrightarrow>
     list_ex (\<lambda>(lo, hi). of_char lo \<le> (of_char c :: nat) \<and> of_char c \<le> (of_char hi :: nat)) rs"
| "in_cset White c \<longleftrightarrow> c \<in> set [CHR 0x09, CHR 0x0A, CHR 0x0C, CHR 0x0D, CHR '' '']"
| "in_cset Dot c \<longleftrightarrow> c \<noteq> CHR 0x0A"

fun groups :: "re \<Rightarrow> nat" where
  "groups (Seq a b) = groups a + groups b"
| "groups (Alt a b) = groups a + groups b"
| "groups (Group a) = Suc (groups a)"
| "groups _ = 0"

text \<open>The runs of a class, longest first; the non-empty ones, shortest first; each with the rest.\<close>

fun greedy :: "(char \<Rightarrow> bool) \<Rightarrow> string \<Rightarrow> (string \<times> string) list" where
  "greedy P [] = [([], [])]"
| "greedy P (c # s) =
     (if P c then map (\<lambda>(x, t). (c # x, t)) (greedy P s) else []) @ [([], c # s)]"

fun lazy_some :: "(char \<Rightarrow> bool) \<Rightarrow> string \<Rightarrow> (string \<times> string) list" where
  "lazy_some P [] = []"
| "lazy_some P (c # s) =
     (if P c then ([c], s) # map (\<lambda>(x, t). (c # x, t)) (lazy_some P s) else [])"

text \<open>
  The matches of an expression behind the text \<open>pre\<close>, in the order of the search: the text
  matched, the texts of the groups, the rest.  A group of the alternative not taken is empty.
\<close>

fun run :: "re \<Rightarrow> string \<Rightarrow> string \<Rightarrow> (string \<times> string list \<times> string) list" where
  "run Begin pre s = (if pre = [] then [([], [], s)] else [])"
| "run End pre s = (if s = [] then [([], [], s)] else [])"
| "run (One k) pre s = (case s of [] \<Rightarrow> [] | c # t \<Rightarrow> if in_cset k c then [([c], [], t)] else [])"
| "run (Many k) pre s = map (\<lambda>(x, t). (x, [], t)) (greedy (in_cset k) s)"
| "run (LazySome k) pre s = map (\<lambda>(x, t). (x, [], t)) (lazy_some (in_cset k) s)"
| "run (Lit l) pre s = (if has_prefix s l then [(l, [], drop (length l) s)] else [])"
| "run (Seq a b) pre s =
     concat (map (\<lambda>(x, cs, t). map (\<lambda>(y, ds, u). (x @ y, cs @ ds, u)) (run b (pre @ x) t)) (run a pre s))"
| "run (Alt a b) pre s =
     map (\<lambda>(x, cs, t). (x, cs @ replicate (groups b) [], t)) (run a pre s) @
     map (\<lambda>(x, cs, t). (x, replicate (groups a) [] @ cs, t)) (run b pre s)"
| "run (Group a) pre s = map (\<lambda>(x, cs, t). (x, x # cs, t)) (run a pre s)"

fun find_from :: "re \<Rightarrow> string \<Rightarrow> string \<Rightarrow> string list option" where
  "find_from r pre s =
     (case run r pre s of
        (x, cs, t) # _ \<Rightarrow> Some (x # cs)
      | [] \<Rightarrow> (case s of [] \<Rightarrow> None | c # s' \<Rightarrow> find_from r (pre @ [c]) s'))"

declare find_from.simps [simp del]

definition FindStringSubmatch :: "re \<Rightarrow> string \<Rightarrow> string list option" where
  "FindStringSubmatch r s = find_from r [] s"

text \<open>The source text of an expression.\<close>

fun cset_text :: "cset \<Rightarrow> string" where
  "cset_text (Ranges rs) =
     ''['' @ concat (map (\<lambda>(lo, hi). if lo = hi then [lo] else [lo, CHR ''-'', hi]) rs) @ '']''"
| "cset_text White = [CHR 0x5C, CHR ''s'']"
| "cset_text Dot = ''.''"

fun re_text :: "re \<Rightarrow> string" where
  "re_text Begin = ''^''"
| "re_text End = ''$''"
| "re_text (One k) = cset_text k"
| "re_text (Many k) = cset_text k @ ''*''"
| "re_text (LazySome k) = cset_text k @ ''+?''"
| "re_text (Lit l) = l"
| "re_text (Seq a b) = re_text a @ re_text b"
| "re_text (Alt a b) = re_text a @ ''|'' @ re_text b"
| "re_text (Group a) = ''('' @ re_text a @ '')''"

section \<open>The pattern\<close>

definition keyRegexp :: re where
  "keyRegexp =
     Group (Seq (One (Ranges [(CHR ''a'', CHR ''z''), (CHR ''A'', CHR ''Z''), (CHR ''_'', CHR ''_'')]))
       (Many (Ranges [(CHR ''a'', CHR ''z''), (CHR ''A'', CHR ''Z''), (CHR ''0'', CHR ''9''),
                      (CHR ''_'', CHR ''_''), (CHR ''.'', CHR ''.'')])))"

definition opRegexp :: re where
  "opRegexp = Group (Alt (Lit ''!='') (Alt (Lit ''=~'') (Alt (Lit ''!~'') (Lit ''=''))))"

definition valueRegexp :: re where
  "valueRegexp = Seq (Many White) (Seq (Group (LazySome Dot)) (Seq (Many White) End))"

definition matcherRegexp :: re where
  "matcherRegexp =
     Seq Begin (Seq (Many White) (Seq keyRegexp (Seq (Many White) (Seq opRegexp valueRegexp))))"

section \<open>The first match of a sequence\<close>

fun first_of :: "('a \<Rightarrow> 'b option) \<Rightarrow> 'a list \<Rightarrow> 'b option" where
  "first_of f [] = None"
| "first_of f (x # xs) = (case f x of None \<Rightarrow> first_of f xs | Some y \<Rightarrow> Some y)"

lemma first_of_append: "first_of f (xs @ ys) = (case first_of f xs of None \<Rightarrow> first_of f ys | Some y \<Rightarrow> Some y)"
  by (induction xs) (auto split: option.splits)

lemma first_of_map: "first_of f (map g xs) = first_of (\<lambda>x. f (g x)) xs"
  by (induction xs) (auto split: option.splits)

lemma first_of_concat: "first_of f (concat xss) = first_of (first_of f) xss"
  by (induction xss) (auto simp: first_of_append split: option.splits)

lemma first_of_map_option: "first_of (\<lambda>x. map_option g (f x)) xs = map_option g (first_of f xs)"
  by (induction xs) (auto split: option.splits)

lemma first_of_cong: "(\<And>x. x \<in> set xs \<Longrightarrow> f x = g x) \<Longrightarrow> first_of f xs = first_of g xs"
  by (induction xs) (auto split: option.splits)

text \<open>The groups of the first match.\<close>

definition caps :: "re \<Rightarrow> string \<Rightarrow> string \<Rightarrow> string list option" where
  "caps r pre s = first_of (\<lambda>(x, cs, t). Some cs) (run r pre s)"

lemma caps_Seq:
  "caps (Seq a b) pre s = first_of (\<lambda>(x, cs, t). map_option ((@) cs) (caps b (pre @ x) t)) (run a pre s)"
proof -
  have "first_of (\<lambda>(x, cs, t). Some cs) (map (\<lambda>(y, ds, u). (x @ y, cs @ ds, u)) m) =
      map_option ((@) cs) (first_of (\<lambda>(x, cs, t). Some cs) m)" for x :: string and cs :: "string list" and m :: "(string \<times> string list \<times> string) list"
    by (induction m) auto
  then show ?thesis
    by (simp add: caps_def first_of_concat first_of_map split_def)
qed

text \<open>
  A greedy run whose continuation fails in front of a character of the class is the longest
  run.
\<close>

lemma greedy_longest:
  assumes "\<And>x c t. P c \<Longrightarrow> f (x, c # t) = None"
  shows "first_of f (greedy P s) = f (takeWhile P s, dropWhile P s)"
  using assms
proof (induction s arbitrary: f)
  case (Cons c s)
  have "first_of (\<lambda>(x, t). f (c # x, t)) (greedy P s) = f (c # takeWhile P s, dropWhile P s)"
    using Cons.IH [of "\<lambda>(x, t). f (c # x, t)"] Cons.prems by simp
  then show ?case
    using Cons.prems [of c "[]" s]
    by (simp add: first_of_append first_of_map split_def split: option.splits)
qed (simp split: option.splits)

lemma caps_Many:
  assumes "\<And>pre c t. in_cset k c \<Longrightarrow> caps r pre (c # t) = None"
  shows "caps (Seq (Many k) r) pre s =
           caps r (pre @ takeWhile (in_cset k) s) (dropWhile (in_cset k) s)"
proof -
  have "caps (Seq (Many k) r) pre s =
      first_of (\<lambda>(x, t). caps r (pre @ x) t) (greedy (in_cset k) s)"
    by (simp add: caps_Seq first_of_map split_def option.map_id0 [unfolded id_def] cong: option.map_cong)
  then show ?thesis
    using greedy_longest [of "in_cset k" "\<lambda>(x, t). caps r (pre @ x) t"] assms by simp
qed

section \<open>The value\<close>

lemma in_White: "in_cset White = re_space"
  by (auto simp: fun_eq_iff re_space_def)

lemma white_end: "caps (Seq (Many White) End) pre t = (if list_all re_space t then Some [] else None)"
proof -
  have "caps End p (c # u) = None" for p c u by (simp add: caps_def)
  then have "caps (Seq (Many White) End) pre t =
      caps End (pre @ takeWhile re_space t) (dropWhile re_space t)"
    using caps_Many [of White End pre t] by (simp add: in_White)
  then show ?thesis by (auto simp: caps_def list_all_iff)
qed

text \<open>The lazy group and the white space to the end, without the white space before it.\<close>

fun lazy_value :: "string \<Rightarrow> string option" where
  "lazy_value [] = None"
| "lazy_value (c # s) =
     (if c = CHR 0x0A then None
      else if list_all re_space s then Some [c] else map_option (Cons c) (lazy_value s))"

abbreviation lazyRegexp :: re where
  "lazyRegexp \<equiv> Seq (Group (LazySome Dot)) (Seq (Many White) End)"

lemma lazy_first:
  "first_of (\<lambda>(x, t). if list_all re_space t then Some (g x) else None) (lazy_some (in_cset Dot) s) =
     map_option g (lazy_value s)"
proof (induction s arbitrary: g)
  case (Cons c s)
  show ?case
    using Cons.IH [of "\<lambda>x. g (c # x)"]
    by (auto simp: first_of_map split_def option.map_comp comp_def cong: if_cong)
qed simp

lemma caps_lazy: "caps lazyRegexp pre s = map_option (\<lambda>v. [v]) (lazy_value s)"
proof -
  have "caps lazyRegexp pre s =
      first_of (\<lambda>(x, t). if list_all re_space t then Some [x] else None) (lazy_some (in_cset Dot) s)"
    by (simp add: caps_Seq [of "Group (LazySome Dot)"] first_of_map split_def white_end if_distrib
        cong: if_cong del: in_cset.simps)
  then show ?thesis by (simp add: lazy_first)
qed

fun spaced_value :: "string \<Rightarrow> string option" where
  "spaced_value [] = None"
| "spaced_value (c # s) =
     (if re_space c
      then (case spaced_value s of None \<Rightarrow> lazy_value (c # s) | Some v \<Rightarrow> Some v)
      else lazy_value (c # s))"

lemma caps_spaced: "caps valueRegexp pre s = map_option (\<lambda>v. [v]) (spaced_value s)"
proof -
  have "first_of (\<lambda>(x, t). map_option (\<lambda>v. [v]) (lazy_value t)) (greedy re_space s) =
      map_option (\<lambda>v. [v]) (spaced_value s)" for s
  proof (induction s)
    case (Cons c s)
    then show ?case
      by (auto simp: first_of_append first_of_map split_def split: option.splits)
  qed simp
  moreover have "caps valueRegexp pre s =
      first_of (\<lambda>(x, t). map_option (\<lambda>v. [v]) (lazy_value t)) (greedy re_space s)"
    by (simp add: valueRegexp_def caps_Seq [of "Many White"] first_of_map split_def caps_lazy in_White
        option.map_comp comp_def)
  ultimately show ?thesis by simp
qed

lemma rtrim_append: "\<not> list_all re_space b \<Longrightarrow> rtrim (a @ b) = a @ rtrim b"
  by (auto simp: rtrim_def list_all_iff dropWhile_append1)

lemma lazy_value_eq:
  "\<not> list_all re_space s \<Longrightarrow>
     lazy_value s = (if CHR 0x0A \<in> set (rtrim s) then None else Some (rtrim s))"
proof (induction s)
  case (Cons c s)
  show ?case
  proof (cases "list_all re_space s")
    case True
    with Cons.prems have "\<not> re_space c" by simp
    then have "rtrim (c # s) = [c]" "c \<noteq> CHR 0x0A"
      using rtrim_append_space [OF True, of "[c]"] by (auto simp: rtrim_def re_space_def)
    with True show ?thesis by simp
  next
    case False
    then show ?thesis using Cons.IH rtrim_append [OF False, of "[c]"] by auto
  qed
qed simp

lemma spaced_value_eq:
  "\<not> list_all re_space s \<Longrightarrow>
     spaced_value s = (let v = rtrim (dropWhile re_space s) in if CHR 0x0A \<in> set v then None else Some v)"
proof (induction s)
  case (Cons c s)
  show ?case
  proof (cases "re_space c")
    case False
    with Cons.prems show ?thesis by (simp add: lazy_value_eq Let_def del: lazy_value.simps)
  next
    case True
    with Cons.prems have s: "\<not> list_all re_space s" by simp
    have "\<not> list_all re_space (dropWhile re_space s)"
      using s by (metis list_all_append list_all_iff set_takeWhileD takeWhile_dropWhile_id)
    from rtrim_append [OF this, of "c # takeWhile re_space s"]
    have "rtrim (c # s) = c # takeWhile re_space s @ rtrim (dropWhile re_space s)" by simp
    then have "set (rtrim (dropWhile re_space s)) \<subseteq> set (rtrim (c # s))" by auto
    with True Cons s show ?thesis
      by (auto simp: lazy_value_eq Let_def simp del: lazy_value.simps split: option.splits)
  qed
qed simp

lemma spaced_value_blank:
  "list_all re_space s \<Longrightarrow>
     spaced_value s = (case rev (filter (\<lambda>c. c \<noteq> CHR 0x0A) s) of [] \<Rightarrow> None | c # _ \<Rightarrow> Some [c])"
  by (induction s) (auto split: option.splits list.splits)

lemma spaced_is_match_value: "spaced_value s = match_value s"
proof (cases "list_all re_space s")
  case True
  then have blank: "rtrim (dropWhile re_space s) = []"
    unfolding rtrim_Nil_iff by (auto simp: list_all_iff dest: set_dropWhileD)
  show ?thesis
    unfolding match_value_def blank spaced_value_blank [OF True] Let_def by simp
next
  case False
  then have "rtrim (dropWhile re_space s) \<noteq> []"
    unfolding rtrim_Nil_iff by (metis list_all_append list_all_iff set_takeWhileD takeWhile_dropWhile_id)
  with False show ?thesis by (simp add: match_value_def spaced_value_eq Let_def)
qed

section \<open>Operator and key\<close>

abbreviation op_texts :: "string list" where
  "op_texts \<equiv> [''!='', ''=~'', ''!~'', ''='']"

lemma run_op: "run opRegexp pre s = map (\<lambda>l. (l, [l], drop (length l) s)) (filter (has_prefix s) op_texts)"
  by (simp add: opRegexp_def)

lemma first_op:
  "first_of (\<lambda>l. map_option (\<lambda>v. [l, v]) (match_value (drop (length l) s))) (filter (has_prefix s) op_texts) =
     map_option (\<lambda>(op', v). [op_text op', v]) (parse_op s)"
proof -
  have "has_prefix s ''=~'' \<Longrightarrow> has_prefix s ''='' \<and> \<not> has_prefix s ''!='' \<and> \<not> has_prefix s ''!~''"
    "has_prefix s ''!='' \<Longrightarrow> \<not> has_prefix s ''='' \<and> \<not> has_prefix s ''!~''"
    "has_prefix s ''!~'' \<Longrightarrow> \<not> has_prefix s ''=''"
    by (cases s rule: remdups_adj.cases; simp)+
  then show ?thesis
    by (auto simp: parse_op_def option.map_comp comp_def numeral_2_eq_2 split: option.splits)
qed

lemma caps_op:
  "caps (Seq opRegexp valueRegexp) pre s = map_option (\<lambda>(op', v). [op_text op', v]) (parse_op s)"
  unfolding caps_Seq run_op first_of_map first_op [symmetric]
  by (simp add: caps_spaced spaced_is_match_value option.map_comp comp_def)

lemma parse_op_fails: "s = [] \<or> hd s \<notin> {CHR ''!'', CHR ''=''} \<Longrightarrow> parse_op s = None"
  by (cases s) (auto simp: parse_op_def)

lemma in_key_cset:
  "in_cset (Ranges [(CHR ''a'', CHR ''z''), (CHR ''A'', CHR ''Z''), (CHR ''_'', CHR ''_'')]) = key_start"
  "in_cset (Ranges [(CHR ''a'', CHR ''z''), (CHR ''A'', CHR ''Z''), (CHR ''0'', CHR ''9''),
     (CHR ''_'', CHR ''_''), (CHR ''.'', CHR ''.'')]) = key_char"
proof -
  have single: "n \<le> (of_char c :: nat) \<and> of_char c \<le> n \<longleftrightarrow> c = d" if "n = of_char d" for n c d
    using that by (metis antisym of_char_eq_iff order_refl)
  show "in_cset (Ranges [(CHR ''a'', CHR ''z''), (CHR ''A'', CHR ''Z''), (CHR ''_'', CHR ''_'')]) = key_start"
    "in_cset (Ranges [(CHR ''a'', CHR ''z''), (CHR ''A'', CHR ''Z''), (CHR ''0'', CHR ''9''),
     (CHR ''_'', CHR ''_''), (CHR ''.'', CHR ''.'')]) = key_char"
    using single [of 95 "CHR ''_''"] single [of 46 "CHR ''.''"]
    by (auto simp: fun_eq_iff key_start_def key_char_def is_lower_def is_upper_def is_digit_def)
qed

abbreviation restRegexp :: re where
  "restRegexp \<equiv> Seq (Many White) (Seq opRegexp valueRegexp)"

lemma space_no_op: "re_space c \<Longrightarrow> c \<notin> {CHR ''!'', CHR ''=''}"
  by (auto simp: re_space_def)

lemma caps_rest:
  "caps restRegexp pre s = map_option (\<lambda>(op', v). [op_text op', v]) (parse_op (dropWhile re_space s))"
proof -
  have "caps (Seq opRegexp valueRegexp) p (c # t) = None" if "in_cset White c" for p c t
    using parse_op_fails [of "c # t"] space_no_op [of c] that by (simp add: caps_op in_White)
  then show ?thesis using caps_Many [of White "Seq opRegexp valueRegexp" pre s] by (simp add: in_White caps_op)
qed

lemma key_no_op: "key_char c \<Longrightarrow> c \<notin> {CHR ''!'', CHR ''=''}"
  by (auto simp: key_char_def key_start_def is_lower_def is_upper_def is_digit_def)

lemma rest_fails: "key_char c \<Longrightarrow> parse_op (dropWhile re_space (c # t)) = None"
  using parse_op_fails [of "c # t"] key_no_op [of c] re_space_not_key [of c] by auto

text \<open>The key and what follows it.\<close>

definition keyed :: "string \<Rightarrow> (string \<times> match_op \<times> string) option" where
  "keyed s =
     (case s of [] \<Rightarrow> None
      | c # t \<Rightarrow>
          if key_start c
          then map_option (Pair (c # takeWhile key_char t))
                 (parse_op (dropWhile re_space (dropWhile key_char t)))
          else None)"

lemma run_key:
  "run keyRegexp pre s =
     (case s of [] \<Rightarrow> []
      | c # t \<Rightarrow> if key_start c then map (\<lambda>(x, u). (c # x, [c # x], u)) (greedy key_char t) else [])"
  unfolding keyRegexp_def run.simps in_key_cset
  by (cases s) (simp_all add: split_def comp_def)

lemma caps_key:
  "caps (Seq keyRegexp restRegexp) pre s = map_option (\<lambda>(k, op', v). [k, op_text op', v]) (keyed s)"
proof (cases s)
  case Nil
  then show ?thesis by (simp add: caps_Seq [of keyRegexp] run_key keyed_def)
next
  case (Cons c t)
  let ?f = "\<lambda>(x, u). map_option (\<lambda>(op', v). [c # x, op_text op', v]) (parse_op (dropWhile re_space u))"
  have "first_of ?f (greedy key_char t) = ?f (takeWhile key_char t, dropWhile key_char t)"
    using rest_fails by (intro greedy_longest) (simp del: dropWhile.simps)
  then show ?thesis
    by (simp add: Cons caps_Seq [of keyRegexp] run_key keyed_def first_of_map caps_rest split_def
        option.map_comp comp_def)
qed

lemma caps_matcher:
  "caps matcherRegexp [] m = map_option (\<lambda>(k, op', v). [k, op_text op', v]) (matcherPattern m)"
proof -
  have "\<not> key_start c" if "in_cset White c" for c
    using that re_space_not_key key_start_key by (auto simp only: in_White)
  then have "caps (Seq keyRegexp restRegexp) p (c # t) = None" if "in_cset White c" for p c t
    using that by (simp add: caps_key keyed_def del: in_cset.simps)
  then have "caps matcherRegexp [] m = caps (Seq keyRegexp restRegexp) (takeWhile re_space m) (dropWhile re_space m)"
    using caps_Many [of White "Seq keyRegexp restRegexp" "[]" m]
    by (simp add: matcherRegexp_def caps_Seq [of Begin] in_White split: option.splits)
  then show ?thesis
    by (simp add: caps_key keyed_def matcherPattern_def split: list.splits)
qed

section \<open>The whole match\<close>

lemma greedy_split: "(x, t) \<in> set (greedy P s) \<Longrightarrow> s = x @ t"
  by (induction s arbitrary: x) (auto split: if_splits)

lemma lazy_split: "(x, t) \<in> set (lazy_some P s) \<Longrightarrow> s = x @ t"
  by (induction s arbitrary: x) (auto split: if_splits)

lemma run_split: "(x, cs, t) \<in> set (run r pre s) \<Longrightarrow> s = x @ t"
proof (induction r arbitrary: pre s x cs t)
  case (Lit l)
  then show ?case by (auto simp: has_prefix_split split: if_splits)
next
  case (Seq a b)
  then obtain y cs' u z ds where "(y, cs', u) \<in> set (run a pre s)" "(z, ds, t) \<in> set (run b (pre @ y) u)"
    and x: "x = y @ z"
    by auto
  from Seq.IH(1) [OF this(1)] Seq.IH(2) [OF this(2)] show ?case by (simp add: x)
next
  case (Alt a b)
  then show ?case by fastforce
next
  case (Group a)
  then show ?case by fastforce
qed (auto split: list.splits if_splits dest: greedy_split lazy_split)

lemma run_Seq_rest:
  "(x, cs, t) \<in> set (run (Seq a b) pre s) \<Longrightarrow> \<exists>y ds pre' s'. (y, ds, t) \<in> set (run b pre' s')"
  by (auto simp del: run.simps simp: run.simps(7))

lemma matcher_whole:
  assumes "(x, cs, t) \<in> set (run matcherRegexp pre m)"
  shows "x = m" "pre = []"
proof -
  have "\<exists>y ds pre' s'. (y, ds, t) \<in> set (run End pre' s')"
    using assms unfolding matcherRegexp_def valueRegexp_def by (metis run_Seq_rest)
  then have "t = []" by (auto split: if_splits)
  then show "x = m" using run_split [OF assms] by simp
  show "pre = []"
    using assms unfolding matcherRegexp_def
    by (auto simp del: run.simps simp: run.simps(1,7) split: if_splits)
qed

lemma find_nowhere: "(\<And>p t. pre @ s = p @ t \<Longrightarrow> run r p t = []) \<Longrightarrow> find_from r pre s = None"
proof (induction s arbitrary: pre)
  case Nil
  then show ?case by (simp add: find_from.simps)
next
  case (Cons c s)
  have "find_from r (pre @ [c]) s = None" using Cons.prems by (intro Cons.IH) simp
  with Cons.prems [of pre "c # s"] show ?case by (simp add: find_from.simps)
qed

lemma find_begin:
  assumes "\<And>x cs t pre s. (x, cs, t) \<in> set (run r pre s) \<Longrightarrow> x = s \<and> pre = []"
  shows "FindStringSubmatch r m = map_option (Cons m) (caps r [] m)"
proof (cases "run r [] m")
  case Nil
  have "run r p t = []" if "m = p @ t" for p t
  proof (cases "p = []")
    case False
    show ?thesis
    proof (rule ccontr)
      assume "run r p t \<noteq> []"
      then obtain x cs u where "(x, cs, u) \<in> set (run r p t)"
        by (metis list.set_intros(1) neq_Nil_conv prod_cases3)
      with assms False show False by blast
    qed
  qed (use that Nil in simp)
  then have "find_from r [] m = None" by (intro find_nowhere) simp
  with Nil show ?thesis by (simp add: FindStringSubmatch_def caps_def)
next
  case (Cons a as)
  obtain x cs t where a: "a = (x, cs, t)" by (cases a)
  then show ?thesis
    using Cons assms [of x cs t "[]" m]
    by (simp add: FindStringSubmatch_def caps_def find_from.simps [of r "[]" m])
qed

text \<open>
  C37: the matcher parser is the regular expression of the source.  The expression prints as the
  pattern of the source, and for every string \<open>FindStringSubmatch\<close>, the first match of the
  backtracking search, fails exactly when the parser does and otherwise returns the whole
  text, the key, the operator and the value of the parser.
\<close>

theorem matcher_pattern_is_regexp:
  "re_text matcherRegexp =
     ''^'' @ [CHR 0x5C] @ ''s*([a-zA-Z_][a-zA-Z0-9_.]*)'' @ [CHR 0x5C] @ ''s*(!=|=~|!~|=)'' @ [CHR 0x5C] @
     ''s*(.+?)'' @ [CHR 0x5C] @ ''s*$'' \<and>
   FindStringSubmatch matcherRegexp m =
     map_option (\<lambda>(k, op', v). [m, k, op_text op', v]) (matcherPattern m)"
proof
  show "re_text matcherRegexp =
     ''^'' @ [CHR 0x5C] @ ''s*([a-zA-Z_][a-zA-Z0-9_.]*)'' @ [CHR 0x5C] @ ''s*(!=|=~|!~|=)'' @ [CHR 0x5C] @
     ''s*(.+?)'' @ [CHR 0x5C] @ ''s*$''"
    by (simp add: matcherRegexp_def keyRegexp_def opRegexp_def valueRegexp_def)
  have "FindStringSubmatch matcherRegexp m = map_option (Cons m) (caps matcherRegexp [] m)"
    by (rule find_begin) (use matcher_whole in blast)
  then show "FindStringSubmatch matcherRegexp m =
      map_option (\<lambda>(k, op', v). [m, k, op_text op', v]) (matcherPattern m)"
    by (simp add: caps_matcher option.map_comp comp_def split_def)
qed

end
