(* ===== verification/Naming.thy ===== *)
theory Naming
  imports Go_Prelude
begin

text \<open>
  \<open>internal/controller/discovery/naming.go\<close>: from arbitrary Fleet Management identifiers to
  DNS-1123 labels.  The loops range over runes; every byte of a non-ASCII rune falls into the
  default branch, which writes at most one hyphen for a run of such bytes, so the byte loop
  below writes what the rune loop writes.  The SHA-256 sum is the parameter \<open>sha\<close>.
\<close>

section \<open>Names\<close>

definition dns1123MaxLabelLen :: nat where "dns1123MaxLabelLen = 63"

definition sanitizedBaseMaxLen :: nat where "sanitizedBaseMaxLen = 53"

definition hashSuffixLen :: nat where "hashSuffixLen = 5"

definition fallbackBase :: string where "fallbackBase = ''c''"

definition label_char :: "char \<Rightarrow> bool" where
  "label_char c \<longleftrightarrow> is_lower c \<or> is_digit c"

fun sanitize_loop :: "bool \<Rightarrow> string \<Rightarrow> string" where
  "sanitize_loop prevDash [] = []"
| "sanitize_loop prevDash (r # rs) =
     (if label_char r then r # sanitize_loop False rs
      else if \<not> prevDash then CHR ''-'' # sanitize_loop True rs
      else sanitize_loop True rs)"

definition trim_left_dash :: "string \<Rightarrow> string" where
  "trim_left_dash s = dropWhile (\<lambda>c. c = CHR ''-'') s"

definition trim_right_dash :: "string \<Rightarrow> string" where
  "trim_right_dash s = rev (trim_left_dash (rev s))"

definition SanitizedName :: "string \<Rightarrow> string \<times> bool" where
  "SanitizedName cid =
     (let lowered = to_lower cid;
          out = trim_right_dash (trim_left_dash (sanitize_loop False lowered));
          out = (if length out > sanitizedBaseMaxLen
                 then trim_right_dash (take sanitizedBaseMaxLen out) else out)
      in (out, out \<noteq> cid \<or> out = []))"

definition hex_encode :: "8 word list \<Rightarrow> string" where
  "hex_encode bs = concat (map (\<lambda>b. [hex_digit (unat b div 16), hex_digit (unat b mod 16)]) bs)"

definition HashedName :: "(string \<Rightarrow> 8 word list) \<Rightarrow> string \<Rightarrow> string" where
  "HashedName sha cid =
     (let base = fst (SanitizedName cid);
          base = (if base = [] then fallbackBase else base)
      in base @ ''-'' @ take hashSuffixLen (hex_encode (sha cid)))"

definition IsValidDNS1123 :: "string \<Rightarrow> bool" where
  "IsValidDNS1123 name =
     (if name = [] \<or> length name > dns1123MaxLabelLen then False
      else list_all (\<lambda>(i, r).
             if label_char r then True
             else if r = CHR ''-'' then \<not> (i = 0 \<or> i = length name - 1)
             else False) (enumerate 0 name))"

section \<open>Labels\<close>

text \<open>What the checks of \<open>IsValidDNS1123\<close> say of the string as a whole.\<close>

definition dns_label :: "string \<Rightarrow> bool" where
  "dns_label s \<longleftrightarrow>
     s \<noteq> [] \<and> length s \<le> dns1123MaxLabelLen \<and> label_char (hd s) \<and> label_char (last s) \<and>
     (\<forall>c \<in> set s. label_char c \<or> c = CHR ''-'')"

lemma label_char_dash [simp]: "\<not> label_char CHR ''-''"
  by (simp add: label_char_def is_lower_def is_digit_def)

lemma IsValidDNS1123_iff: "IsValidDNS1123 s \<longleftrightarrow> dns_label s"
proof (cases "s = []")
  case False
  have "list_all (\<lambda>(i, r). if label_char r then True
               else if r = CHR ''-'' then \<not> (i = 0 \<or> i = length s - 1) else False)
             (enumerate 0 s) \<longleftrightarrow>
        (\<forall>i < length s. label_char (s ! i) \<or> (s ! i = CHR ''-'' \<and> i \<noteq> 0 \<and> i \<noteq> length s - 1))"
    by (auto simp: list_all_length nth_enumerate_eq)
  also have "\<dots> \<longleftrightarrow> label_char (hd s) \<and> label_char (last s) \<and>
                  (\<forall>c \<in> set s. label_char c \<or> c = CHR ''-'')"
  proof
    assume L: "\<forall>i < length s. label_char (s ! i) \<or> (s ! i = CHR ''-'' \<and> i \<noteq> 0 \<and> i \<noteq> length s - 1)"
    have "label_char (hd s)" "label_char (last s)"
      using L [rule_format, of 0] L [rule_format, of "length s - 1"] False
      by (auto simp: hd_conv_nth last_conv_nth)
    with L show "label_char (hd s) \<and> label_char (last s) \<and>
                  (\<forall>c \<in> set s. label_char c \<or> c = CHR ''-'')"
      by (auto simp: in_set_conv_nth)
  next
    assume R: "label_char (hd s) \<and> label_char (last s) \<and>
               (\<forall>c \<in> set s. label_char c \<or> c = CHR ''-'')"
    with False have "label_char (s ! 0)" "label_char (s ! (length s - 1))"
      by (simp_all add: hd_conv_nth last_conv_nth)
    with R show "\<forall>i < length s. label_char (s ! i) \<or>
                   (s ! i = CHR ''-'' \<and> i \<noteq> 0 \<and> i \<noteq> length s - 1)"
      by (metis nth_mem)
  qed
  finally show ?thesis
    using False by (simp add: IsValidDNS1123_def dns_label_def)
qed (simp add: IsValidDNS1123_def dns_label_def)

lemma sanitize_loop_chars:
  "c \<in> set (sanitize_loop p s) \<Longrightarrow> label_char c \<or> c = CHR ''-''"
  by (induction p s rule: sanitize_loop.induct) (auto split: if_splits)

lemma trim_left_dash_hd:
  "trim_left_dash s \<noteq> [] \<Longrightarrow> hd (trim_left_dash s) \<noteq> CHR ''-''"
  unfolding trim_left_dash_def using hd_dropWhile by fast

lemma set_trim_left_dash: "set (trim_left_dash s) \<subseteq> set s"
  by (auto simp: trim_left_dash_def dest: set_dropWhileD)

lemma set_trim_right_dash: "set (trim_right_dash s) \<subseteq> set s"
  using set_trim_left_dash [of "rev s"] by (simp add: trim_right_dash_def)

lemma trim_right_dash_last:
  "trim_right_dash s \<noteq> [] \<Longrightarrow> last (trim_right_dash s) \<noteq> CHR ''-''"
  using trim_left_dash_hd [of "rev s"] by (simp add: trim_right_dash_def last_rev)

lemma trim_right_dash_prefix: "\<exists>t. s = trim_right_dash s @ t"
  unfolding trim_right_dash_def trim_left_dash_def
  by (metis rev_append rev_rev_ident takeWhile_dropWhile_id)

lemma trim_right_dash_hd: "trim_right_dash s \<noteq> [] \<Longrightarrow> hd (trim_right_dash s) = hd s"
  using trim_right_dash_prefix [of s] by (metis hd_append2)

lemma trim_right_dash_length: "length (trim_right_dash s) \<le> length s"
  using trim_right_dash_prefix [of s] by (metis le_add1 length_append)

lemma SanitizedName_label:
  assumes "fst (SanitizedName cid) \<noteq> []"
  shows "dns_label (fst (SanitizedName cid)) \<and> length (fst (SanitizedName cid)) \<le> sanitizedBaseMaxLen"
proof -
  define l where "l = trim_left_dash (sanitize_loop False (to_lower cid))"
  define t where "t = trim_right_dash l"
  define out where "out = (if length t > sanitizedBaseMaxLen
                           then trim_right_dash (take sanitizedBaseMaxLen t) else t)"
  have out: "fst (SanitizedName cid) = out"
    by (simp add: SanitizedName_def out_def t_def l_def Let_def)
  have chars: "label_char c \<or> c = CHR ''-''" if "c \<in> set l" for c
    using that set_trim_left_dash sanitize_loop_chars unfolding l_def by blast
  have ne: "out \<noteq> []" using assms out by simp
  then have tne: "t \<noteq> []"
    by (auto simp: out_def sanitizedBaseMaxLen_def trim_right_dash_def trim_left_dash_def split: if_splits)
  then have lne: "l \<noteq> []" by (auto simp: t_def trim_right_dash_def trim_left_dash_def)
  have sub: "set out \<subseteq> set t"
    using set_trim_right_dash [of "take sanitizedBaseMaxLen t"] set_take_subset [of sanitizedBaseMaxLen t]
    by (auto simp: out_def)
  have cs: "label_char c \<or> c = CHR ''-''" if "c \<in> set out" for c
    using that sub chars set_trim_right_dash [of l] by (auto simp: t_def)
  have "hd out = hd l"
    using ne tne trim_right_dash_hd [of l] trim_right_dash_hd [of "take sanitizedBaseMaxLen t"]
    by (auto simp: out_def t_def sanitizedBaseMaxLen_def hd_take split: if_splits)
  then have h: "hd out \<noteq> CHR ''-''"
    using lne trim_left_dash_hd by (simp add: l_def)
  have la: "last out \<noteq> CHR ''-''"
    using ne trim_right_dash_last [of "take sanitizedBaseMaxLen t"] trim_right_dash_last [of l]
    by (auto simp: out_def t_def split: if_splits)
  have len: "length out \<le> sanitizedBaseMaxLen"
    using trim_right_dash_length [of "take sanitizedBaseMaxLen t"] by (auto simp: out_def)
  have "label_char (hd out)" "label_char (last out)"
    using cs [OF hd_in_set [OF ne]] cs [OF last_in_set [OF ne]] h la by auto
  with ne cs len show ?thesis
    unfolding out dns_label_def by (auto simp: sanitizedBaseMaxLen_def dns1123MaxLabelLen_def)
qed

lemma hex_digit_label: "n < 16 \<Longrightarrow> label_char (hex_digit n)"
  by (auto simp: label_char_def hex_digit_def is_lower_def is_digit_def)

lemma hex_encode_chars: "c \<in> set (hex_encode bs) \<Longrightarrow> label_char c"
proof -
  assume "c \<in> set (hex_encode bs)"
  then obtain b where "b \<in> set bs"
    "c = hex_digit (unat b div 16) \<or> c = hex_digit (unat b mod 16)"
    by (auto simp: hex_encode_def)
  moreover have "unat b div 16 < 16"
    using unsigned_less [of b, where 'a = nat] by simp
  ultimately show ?thesis using hex_digit_label by auto
qed

lemma hex_encode_length [simp]: "length (hex_encode bs) = 2 * length bs"
  by (induction bs) (simp_all add: hex_encode_def)

lemma HashedName_label:
  assumes "3 \<le> length (sha cid)"
  shows "dns_label (HashedName sha cid)"
proof -
  define base where
    "base = (if fst (SanitizedName cid) = [] then fallbackBase else fst (SanitizedName cid))"
  define h where "h = take hashSuffixLen (hex_encode (sha cid))"
  have h: "length h = 5" "\<And>c. c \<in> set h \<Longrightarrow> label_char c"
    using assms hex_encode_chars in_set_takeD
    by (fastforce simp: h_def hashSuffixLen_def)+
  have b: "dns_label base" "length base \<le> 53"
    using SanitizedName_label [of cid]
    by (auto simp: base_def dns_label_def fallbackBase_def label_char_def is_lower_def
        dns1123MaxLabelLen_def sanitizedBaseMaxLen_def)
  have "HashedName sha cid = base @ CHR ''-'' # h"
    by (simp add: HashedName_def base_def h_def Let_def)
  moreover have "h \<noteq> []" using h(1) by auto
  moreover from this have "label_char (last h)" using h(2) by simp
  ultimately show ?thesis
    using b h by (auto simp: dns_label_def dns1123MaxLabelLen_def)
qed

text \<open>
  Every name the sanitizer produces is a valid DNS-1123 label: the plain form whenever
  it is not empty, and the hashed form always.
\<close>

theorem generated_names_valid:
  assumes "\<And>s. length (sha s) = 32"
  shows "IsValidDNS1123 (HashedName sha cid) \<and>
         (fst (SanitizedName cid) = [] \<or> IsValidDNS1123 (fst (SanitizedName cid)))"
  using HashedName_label [of sha cid] SanitizedName_label [of cid] assms [of cid]
  by (auto simp: IsValidDNS1123_iff)

theorem generated_names_valid_witness:
  "IsValidDNS1123 (HashedName (\<lambda>_. replicate 32 7) ''Edge_Host.1'')"
  using generated_names_valid [of "\<lambda>_. replicate 32 7" "''Edge_Host.1''"] by simp

definition no_double_dash :: "string \<Rightarrow> bool" where
  "no_double_dash s \<longleftrightarrow> successively (\<lambda>a b. \<not> (a = CHR ''-'' \<and> b = CHR ''-'')) s"

lemma no_double_dash_append:
  "no_double_dash (s @ t) \<Longrightarrow> no_double_dash s \<and> no_double_dash t"
  by (simp add: no_double_dash_def successively_append_iff)

lemma sanitize_loop_no_double:
  "no_double_dash (sanitize_loop p s) \<and>
   (p \<longrightarrow> sanitize_loop p s = [] \<or> hd (sanitize_loop p s) \<noteq> CHR ''-'')"
  by (induction p s rule: sanitize_loop.induct)
    (auto simp: no_double_dash_def successively_Cons)

lemma sanitize_loop_id:
  "no_double_dash s \<Longrightarrow> \<forall>c \<in> set s. label_char c \<or> c = CHR ''-'' \<Longrightarrow>
   (p \<longrightarrow> s = [] \<or> hd s \<noteq> CHR ''-'') \<Longrightarrow> sanitize_loop p s = s"
  by (induction p s rule: sanitize_loop.induct)
    (auto simp: no_double_dash_def successively_Cons)

lemma to_lower_label:
  "\<forall>c \<in> set s. label_char c \<or> c = CHR ''-'' \<Longrightarrow> to_lower s = s"
proof (induction s rule: to_lower.induct)
  case (2 c s)
  then have c: "label_char c \<or> c = CHR ''-''" by simp
  then have "c \<noteq> CHR 0xC4" "c \<noteq> CHR 0xE2" "lower_char c = c"
    by (auto simp: label_char_def is_lower_def is_digit_def lower_char_def)
  with 2 show ?case by simp
qed simp

lemma trim_left_dash_id: "s \<noteq> [] \<Longrightarrow> hd s \<noteq> CHR ''-'' \<Longrightarrow> trim_left_dash s = s"
  by (cases s) (simp_all add: trim_left_dash_def)

lemma trim_right_dash_id: "s \<noteq> [] \<Longrightarrow> last s \<noteq> CHR ''-'' \<Longrightarrow> trim_right_dash s = s"
  by (simp add: trim_right_dash_def trim_left_dash_id hd_rev)

lemma SanitizedName_no_double: "no_double_dash (fst (SanitizedName cid))"
proof -
  define r where "r = sanitize_loop False (to_lower cid)"
  have "no_double_dash r" using sanitize_loop_no_double by (simp add: r_def)
  moreover have "\<exists>u. r = u @ trim_left_dash r"
    by (metis takeWhile_dropWhile_id trim_left_dash_def)
  ultimately have "no_double_dash (trim_left_dash r)" by (metis no_double_dash_append)
  then have t: "no_double_dash (trim_right_dash (trim_left_dash r))"
    by (metis no_double_dash_append trim_right_dash_prefix)
  then have "no_double_dash (take n (trim_right_dash (trim_left_dash r)))" for n
    by (metis append_take_drop_id no_double_dash_append)
  then have "no_double_dash (trim_right_dash (take n (trim_right_dash (trim_left_dash r))))" for n
    by (metis no_double_dash_append trim_right_dash_prefix)
  with t show ?thesis by (simp add: SanitizedName_def r_def Let_def)
qed

text \<open>
  The sanitizer reports a lossless result exactly for the identifiers that are already
  labels of at most 53 bytes without adjacent hyphens, and keeps those unchanged; so two
  distinct identifiers that both sanitize losslessly never share a name.
\<close>

theorem sanitize_lossless_iff:
  "SanitizedName cid = (cid, False) \<longleftrightarrow>
     dns_label cid \<and> length cid \<le> sanitizedBaseMaxLen \<and> no_double_dash cid"
proof
  assume L: "SanitizedName cid = (cid, False)"
  then have "cid \<noteq> []" by (auto simp: SanitizedName_def Let_def)
  with L SanitizedName_label [of cid] SanitizedName_no_double [of cid]
  show "dns_label cid \<and> length cid \<le> sanitizedBaseMaxLen \<and> no_double_dash cid" by simp
next
  assume R: "dns_label cid \<and> length cid \<le> sanitizedBaseMaxLen \<and> no_double_dash cid"
  then have cs: "\<forall>c \<in> set cid. label_char c \<or> c = CHR ''-''" and ne: "cid \<noteq> []"
    and "hd cid \<noteq> CHR ''-''" "last cid \<noteq> CHR ''-''"
    by (auto simp: dns_label_def)
  with R have "trim_right_dash (trim_left_dash (sanitize_loop False (to_lower cid))) = cid"
    by (simp add: to_lower_label sanitize_loop_id trim_left_dash_id trim_right_dash_id)
  with R ne show "SanitizedName cid = (cid, False)"
    by (simp add: SanitizedName_def)
qed

theorem sanitize_lossy_flag: "snd (SanitizedName cid) \<longleftrightarrow> SanitizedName cid \<noteq> (cid, False)"
  by (auto simp: SanitizedName_def Let_def)

end
