(* ===== verification/Fleet_Client.thy ===== *)
theory Fleet_Client
  imports Attr_Diff
begin

text \<open>
  \<open>pkg/fleetclient\<close>: the client of the Fleet Management API.  Its data, the error mapping
  of \<open>errors.go\<close> and \<open>types.go\<close>, the classification in \<open>internal/controller/errors.go\<close>
  the reconcilers base their retries on, the conversions to and from the wire messages, and
  the calls of \<open>client.go\<close> and \<open>collector.go\<close>.  The generated connect stubs are the
  parameter \<open>rpc\<close>, a record of state-passing functions; the generated enums' numbers are the
  parameter \<open>enums\<close>.
\<close>

section \<open>Errors\<close>

definition connectCodeToHTTPStatus :: "connect_code \<Rightarrow> int" where
  "connectCodeToHTTPStatus code =
     (case code of
        CodeCanceled \<Rightarrow> 408
      | CodeUnknown \<Rightarrow> 500
      | CodeInvalidArgument \<Rightarrow> 400
      | CodeDeadlineExceeded \<Rightarrow> 408
      | CodeNotFound \<Rightarrow> 404
      | CodeAlreadyExists \<Rightarrow> 409
      | CodePermissionDenied \<Rightarrow> 403
      | CodeResourceExhausted \<Rightarrow> 429
      | CodeFailedPrecondition \<Rightarrow> 412
      | CodeAborted \<Rightarrow> 409
      | CodeOutOfRange \<Rightarrow> 400
      | CodeUnimplemented \<Rightarrow> 501
      | CodeInternal \<Rightarrow> 500
      | CodeUnavailable \<Rightarrow> 503
      | CodeDataLoss \<Rightarrow> 500
      | CodeUnauthenticated \<Rightarrow> 401
      | CodeOther _ \<Rightarrow> 500)"

text \<open>The callers pass non-nil errors, so the nil branch has no case here.\<close>

definition connectErrToFleetErr :: "go_error \<Rightarrow> string \<Rightarrow> string \<Rightarrow> go_error" where
  "connectErrToFleetErr err oper pipelineID =
     (case as_connect err of
        None \<Rightarrow> err
      | Some (code, message) \<Rightarrow>
          FleetAPIError (connectCodeToHTTPStatus code) oper message pipelineID (Some err))"

definition IsTransient :: "int \<Rightarrow> bool" where
  "IsTransient statusCode =
     (if statusCode = 429 then True
      else if statusCode = 408 then True
      else if 500 \<le> statusCode \<and> statusCode < 600 then True
      else False)"

definition isTransientError :: "go_error \<Rightarrow> bool" where
  "isTransientError err =
     (case as_fleet err of
        Some apiErr \<Rightarrow> IsTransient (fae_status apiErr)
      | None \<Rightarrow>
          if is_canceled err then False
          else if net_timeout err then True
          else True)"

abbreviation reasonSynced :: string where "reasonSynced \<equiv> ''Synced''"
abbreviation reasonSyncFailed :: string where "reasonSyncFailed \<equiv> ''SyncFailed''"
abbreviation reasonValidationError :: string where "reasonValidationError \<equiv> ''ValidationError''"

definition shouldRetry :: "go_error \<Rightarrow> string \<Rightarrow> bool" where
  "shouldRetry err reason =
     (if reason = reasonValidationError then False else isTransientError err)"

definition formatConditionMessage :: "string \<Rightarrow> go_error \<Rightarrow> string" where
  "formatConditionMessage reason err =
     (if contains_str (err_text err) ''recreation failed'' then
        ''Pipeline not found in Fleet Management and recreation failed. It may have been deleted externally. Verify pipeline name is unique and check controller logs.''
      else case as_fleet err of
        Some apiErr \<Rightarrow>
          (if fae_status apiErr = 400 then
             ''Configuration validation failed: '' @ fae_message apiErr @ ''. Review spec.contents for syntax errors.''
           else if fae_status apiErr = 401 then
             ''Authentication failed. Verify Fleet Management credentials in the referenced Secret.''
           else if fae_status apiErr = 403 then
             ''Permission denied. Fleet Management access token requires pipeline:write permission.''
           else if fae_status apiErr = 404 then
             ''Pipeline not found in Fleet Management. It may have been deleted externally.''
           else if fae_status apiErr = 429 then
             ''Rate limited by Fleet Management API. Retry will occur automatically after delay.''
           else if fae_status apiErr = 500 \<or> fae_status apiErr = 502 \<or> fae_status apiErr = 503 then
             ''Fleet Management API unavailable (HTTP '' @ show_int (fae_status apiErr) @ ''). Retry will occur automatically.''
           else ''API error (HTTP '' @ show_int (fae_status apiErr) @ ''): '' @ fae_message apiErr)
      | None \<Rightarrow>
          (if is_deadline err then
             ''Connection timeout. Check network connectivity to Fleet Management API.''
           else if net_timeout err then
             ''Network timeout. Check Fleet Management API endpoint is reachable.''
           else ''Sync failed: '' @ err_text err @ ''. Check controller logs for details.''))"

section \<open>Data\<close>

record source =
  src_Type :: string
  src_Namespace :: string

record pipeline =
  fp_Name :: string
  fp_Contents :: string
  fp_Matchers :: "string list"
  fp_Enabled :: bool
  fp_ID :: string
  fp_ConfigType :: string
  fp_Source :: "source option"
  fp_CreatedAt :: "int option"
  fp_UpdatedAt :: "int option"

record upsert_request =
  ur_Pipeline :: pipeline
  ur_ValidateOnly :: bool

record list_pipelines_request =
  lpr_ConfigType :: "string option"
  lpr_Enabled :: "bool option"

record collector =
  fc_ID :: string
  fc_Name :: string
  fc_Enabled :: "bool option"
  fc_RemoteAttributes :: gomap
  fc_LocalAttributes :: gomap
  fc_CollectorType :: string
  fc_CreatedAt :: "int option"
  fc_UpdatedAt :: "int option"
  fc_MarkedInactiveAt :: "int option"

subsection \<open>Wire messages\<close>

text \<open>
  The generated messages' fields the conversions read and write.  A proto3 optional field is
  an option; its getter returns the zero value when it is unset.  Timestamps are opaque
  values of the well-known-types library, its \<open>New\<close> and \<open>AsTime\<close> in \<open>enums\<close>.
\<close>

record 't enums =
  en_Alloy :: int
  en_OTEL :: int
  en_Unspecified :: int
  en_ColAlloy :: int
  en_ColOTEL :: int
  en_ColUnspecified :: int
  en_SrcGit :: int
  en_SrcTerraform :: int
  en_SrcUnspecified :: int
  en_OpAdd :: int
  en_OpRemove :: int
  en_OpReplace :: int
  en_OpMove :: int
  en_OpCopy :: int
  en_OpUnknown :: int
  en_TsNew :: "int \<Rightarrow> 't"
  en_AsTime :: "'t \<Rightarrow> int"

definition enums_ok :: "'t enums \<Rightarrow> bool" where
  "enums_ok E \<longleftrightarrow>
     distinct [en_Alloy E, en_OTEL E, en_Unspecified E] \<and>
     distinct [en_ColAlloy E, en_ColOTEL E, en_ColUnspecified E] \<and>
     distinct [en_SrcGit E, en_SrcTerraform E, 3, en_SrcUnspecified E] \<and>
     distinct [en_OpAdd E, en_OpRemove E, en_OpReplace E, en_OpMove E, en_OpCopy E] \<and>
     (\<forall>t. en_AsTime E (en_TsNew E t) = t)"

record pb_source =
  pbs_Type :: int
  pbs_Namespace :: string

record 't pb_pipeline =
  pb_Name :: string
  pb_Contents :: string
  pb_Matchers :: "string list"
  pb_Enabled :: "bool option"
  pb_Id :: "string option"
  pb_ConfigType :: int
  pb_Source :: "pb_source option"
  pb_CreatedAt :: "'t option"
  pb_UpdatedAt :: "'t option"

record 't pb_collector =
  pbc_Id :: string
  pbc_Name :: string
  pbc_RemoteAttributes :: gomap
  pbc_LocalAttributes :: gomap
  pbc_CollectorType :: int
  pbc_Enabled :: "bool option"
  pbc_CreatedAt :: "'t option"
  pbc_UpdatedAt :: "'t option"
  pbc_MarkedInactiveAt :: "'t option"

record pb_operation =
  pbo_Op :: int
  pbo_Path :: string
  pbo_Value :: "string option"
  pbo_OldValue :: "string option"
  pbo_From :: "string option"

definition pb_GetEnabled :: "'t pb_pipeline \<Rightarrow> bool" where
  "pb_GetEnabled p = (case pb_Enabled p of None \<Rightarrow> False | Some b \<Rightarrow> b)"

definition pb_GetId :: "'t pb_pipeline \<Rightarrow> string" where
  "pb_GetId p = (case pb_Id p of None \<Rightarrow> [] | Some s \<Rightarrow> s)"

subsection \<open>Conversions\<close>

abbreviation configTypeAlloy :: string where "configTypeAlloy \<equiv> ''CONFIG_TYPE_ALLOY''"
abbreviation configTypeOTEL :: string where "configTypeOTEL \<equiv> ''CONFIG_TYPE_OTEL''"
abbreviation sourceTypeGit :: string where "sourceTypeGit \<equiv> ''SOURCE_TYPE_GIT''"
abbreviation sourceTypeTerraform :: string where "sourceTypeTerraform \<equiv> ''SOURCE_TYPE_TERRAFORM''"
abbreviation sourceTypeGrafana :: string where "sourceTypeGrafana \<equiv> ''SOURCE_TYPE_GRAFANA''"
abbreviation sourceTypeUnspecified :: string where
  "sourceTypeUnspecified \<equiv> ''SOURCE_TYPE_UNSPECIFIED''"
abbreviation collectorTypeAlloy :: string where "collectorTypeAlloy \<equiv> ''COLLECTOR_TYPE_ALLOY''"
abbreviation collectorTypeOTEL :: string where "collectorTypeOTEL \<equiv> ''COLLECTOR_TYPE_OTEL''"

definition configTypeStringToProto :: "'t enums \<Rightarrow> string \<Rightarrow> int" where
  "configTypeStringToProto E s =
     (if s = configTypeAlloy then en_Alloy E
      else if s = configTypeOTEL then en_OTEL E
      else en_Unspecified E)"

definition configTypeProtoToString :: "'t enums \<Rightarrow> int \<Rightarrow> string" where
  "configTypeProtoToString E c =
     (if c = en_Alloy E then configTypeAlloy
      else if c = en_OTEL E then configTypeOTEL
      else [])"

definition sourceTypeGrafanaProto :: int where "sourceTypeGrafanaProto = 3"

definition sourceTypeStringToProto :: "'t enums \<Rightarrow> string \<Rightarrow> int" where
  "sourceTypeStringToProto E s =
     (if s = sourceTypeGit then en_SrcGit E
      else if s = sourceTypeTerraform then en_SrcTerraform E
      else if s = sourceTypeGrafana then sourceTypeGrafanaProto
      else en_SrcUnspecified E)"

definition sourceTypeProtoToString :: "'t enums \<Rightarrow> int \<Rightarrow> string" where
  "sourceTypeProtoToString E s =
     (if s = en_SrcGit E then sourceTypeGit
      else if s = en_SrcTerraform E then sourceTypeTerraform
      else if s = sourceTypeGrafanaProto then sourceTypeGrafana
      else sourceTypeUnspecified)"

definition pipelineToProto :: "'t enums \<Rightarrow> pipeline \<Rightarrow> 't pb_pipeline" where
  "pipelineToProto E p =
     \<lparr>pb_Name = fp_Name p,
      pb_Contents = fp_Contents p,
      pb_Matchers = fp_Matchers p,
      pb_Enabled = Some (fp_Enabled p),
      pb_Id = (if fp_ID p \<noteq> [] then Some (fp_ID p) else None),
      pb_ConfigType = configTypeStringToProto E (fp_ConfigType p),
      pb_Source = map_option (\<lambda>s. \<lparr>pbs_Type = sourceTypeStringToProto E (src_Type s),
                                   pbs_Namespace = src_Namespace s\<rparr>) (fp_Source p),
      pb_CreatedAt = map_option (en_TsNew E) (fp_CreatedAt p),
      pb_UpdatedAt = map_option (en_TsNew E) (fp_UpdatedAt p)\<rparr>"

definition pipelineFromProto :: "'t enums \<Rightarrow> 't pb_pipeline \<Rightarrow> pipeline" where
  "pipelineFromProto E p =
     \<lparr>fp_Name = pb_Name p,
      fp_Contents = pb_Contents p,
      fp_Matchers = pb_Matchers p,
      fp_Enabled = pb_GetEnabled p,
      fp_ID = pb_GetId p,
      fp_ConfigType = configTypeProtoToString E (pb_ConfigType p),
      fp_Source = map_option (\<lambda>s. \<lparr>src_Type = sourceTypeProtoToString E (pbs_Type s),
                                   src_Namespace = pbs_Namespace s\<rparr>) (pb_Source p),
      fp_CreatedAt = map_option (en_AsTime E) (pb_CreatedAt p),
      fp_UpdatedAt = map_option (en_AsTime E) (pb_UpdatedAt p)\<rparr>"

definition collectorTypeStringToProto :: "'t enums \<Rightarrow> string \<Rightarrow> int" where
  "collectorTypeStringToProto E s =
     (if s = collectorTypeAlloy then en_ColAlloy E
      else if s = collectorTypeOTEL then en_ColOTEL E
      else en_ColUnspecified E)"

definition collectorTypeProtoToString :: "'t enums \<Rightarrow> int \<Rightarrow> string" where
  "collectorTypeProtoToString E c =
     (if c = en_ColAlloy E then collectorTypeAlloy
      else if c = en_ColOTEL E then collectorTypeOTEL
      else [])"

definition collectorToProto :: "'t enums \<Rightarrow> collector \<Rightarrow> 't pb_collector" where
  "collectorToProto E c =
     \<lparr>pbc_Id = fc_ID c,
      pbc_Name = fc_Name c,
      pbc_RemoteAttributes = fc_RemoteAttributes c,
      pbc_LocalAttributes = fc_LocalAttributes c,
      pbc_CollectorType = collectorTypeStringToProto E (fc_CollectorType c),
      pbc_Enabled = fc_Enabled c,
      pbc_CreatedAt = map_option (en_TsNew E) (fc_CreatedAt c),
      pbc_UpdatedAt = map_option (en_TsNew E) (fc_UpdatedAt c),
      pbc_MarkedInactiveAt = map_option (en_TsNew E) (fc_MarkedInactiveAt c)\<rparr>"

definition collectorFromProto :: "'t enums \<Rightarrow> 't pb_collector \<Rightarrow> collector" where
  "collectorFromProto E c =
     \<lparr>fc_ID = pbc_Id c,
      fc_Name = pbc_Name c,
      fc_Enabled = pbc_Enabled c,
      fc_RemoteAttributes = pbc_RemoteAttributes c,
      fc_LocalAttributes = pbc_LocalAttributes c,
      fc_CollectorType = collectorTypeProtoToString E (pbc_CollectorType c),
      fc_CreatedAt = map_option (en_AsTime E) (pbc_CreatedAt c),
      fc_UpdatedAt = map_option (en_AsTime E) (pbc_UpdatedAt c),
      fc_MarkedInactiveAt = map_option (en_AsTime E) (pbc_MarkedInactiveAt c)\<rparr>"

definition opTypeStringToProto :: "'t enums \<Rightarrow> op_type \<Rightarrow> int" where
  "opTypeStringToProto E t =
     (case t of OpAdd \<Rightarrow> en_OpAdd E | OpRemove \<Rightarrow> en_OpRemove E | OpReplace \<Rightarrow> en_OpReplace E
      | OpMove \<Rightarrow> en_OpMove E | OpCopy \<Rightarrow> en_OpCopy E | OpOther t \<Rightarrow> en_OpUnknown E)"

definition operationToProto :: "'t enums \<Rightarrow> operation \<Rightarrow> pb_operation" where
  "operationToProto E opn =
     \<lparr>pbo_Op = opTypeStringToProto E (op_Op opn),
      pbo_Path = op_Path opn,
      pbo_Value = (if op_Op opn = OpAdd \<or> op_Op opn = OpReplace \<or> op_Value opn \<noteq> []
                   then Some (op_Value opn) else None),
      pbo_OldValue = (if op_OldValue opn \<noteq> [] then Some (op_OldValue opn) else None),
      pbo_From = (if op_From opn \<noteq> [] then Some (op_From opn) else None)\<rparr>"

definition operationsToProto :: "'t enums \<Rightarrow> operation list \<Rightarrow> pb_operation list" where
  "operationsToProto E ops = map (operationToProto E) ops"

section \<open>Calls\<close>

text \<open>The generated stubs: each call sees the state of the world and may change it.\<close>

record ('t, 'w) rpc =
  rpc_GetPipeline :: "string \<Rightarrow> 'w \<Rightarrow> (go_error + 't pb_pipeline) \<times> 'w"
  rpc_UpsertPipeline :: "'t pb_pipeline \<Rightarrow> bool \<Rightarrow> 'w \<Rightarrow> (go_error + 't pb_pipeline) \<times> 'w"
  rpc_DeletePipeline :: "string \<Rightarrow> 'w \<Rightarrow> go_error option \<times> 'w"
  rpc_ListPipelines :: "int option \<Rightarrow> bool option \<Rightarrow> 'w \<Rightarrow> (go_error + 't pb_pipeline list) \<times> 'w"
  rpc_GetCollector :: "string \<Rightarrow> 'w \<Rightarrow> (go_error + 't pb_collector) \<times> 'w"
  rpc_UpdateCollector :: "'t pb_collector \<Rightarrow> 'w \<Rightarrow> (go_error + 't pb_collector) \<times> 'w"
  rpc_BulkUpdateCollectors :: "string list \<Rightarrow> pb_operation list \<Rightarrow> 'w \<Rightarrow> go_error option \<times> 'w"
  rpc_ListCollectors :: "string list \<Rightarrow> 'w \<Rightarrow> (go_error + 't pb_collector list) \<times> 'w"

definition GetPipeline ::
  "'t enums \<Rightarrow> ('t, 'w) rpc \<Rightarrow> string \<Rightarrow> 'w \<Rightarrow> (go_error + pipeline) \<times> 'w" where
  "GetPipeline E R ident w =
     (case rpc_GetPipeline R ident w of
        (Inl err, w') \<Rightarrow> (Inl (connectErrToFleetErr err ''GetPipeline'' ident), w')
      | (Inr msg, w') \<Rightarrow> (Inr (pipelineFromProto E msg), w'))"

definition UpsertPipeline ::
  "'t enums \<Rightarrow> ('t, 'w) rpc \<Rightarrow> upsert_request \<Rightarrow> 'w \<Rightarrow> (go_error + pipeline) \<times> 'w" where
  "UpsertPipeline E R req w =
     (case rpc_UpsertPipeline R (pipelineToProto E (ur_Pipeline req)) (ur_ValidateOnly req) w of
        (Inl err, w') \<Rightarrow> (Inl (connectErrToFleetErr err ''UpsertPipeline'' []), w')
      | (Inr msg, w') \<Rightarrow> (Inr (pipelineFromProto E msg), w'))"

definition DeletePipeline :: "('t, 'w) rpc \<Rightarrow> string \<Rightarrow> 'w \<Rightarrow> go_error option \<times> 'w" where
  "DeletePipeline R ident w =
     (case rpc_DeletePipeline R ident w of
        (None, w') \<Rightarrow> (None, w')
      | (Some err, w') \<Rightarrow>
          (case connectErrToFleetErr err ''DeletePipeline'' ident of
             FleetAPIError st oper msg pid wr \<Rightarrow>
               if st = 404 then (None, w')
               else (Some (FleetAPIError st oper msg pid wr), w')
           | fleetErr \<Rightarrow> (Some fleetErr, w')))"

definition ListPipelines ::
  "'t enums \<Rightarrow> ('t, 'w) rpc \<Rightarrow> list_pipelines_request option \<Rightarrow> 'w \<Rightarrow>
     (go_error + pipeline list) \<times> 'w" where
  "ListPipelines E R req w =
     (let ct = (case req of None \<Rightarrow> None
                | Some r \<Rightarrow> map_option (configTypeStringToProto E) (lpr_ConfigType r));
          en = (case req of None \<Rightarrow> None | Some r \<Rightarrow> lpr_Enabled r)
      in case rpc_ListPipelines R ct en w of
           (Inl err, w') \<Rightarrow> (Inl (connectErrToFleetErr err ''ListPipelines'' []), w')
         | (Inr pps, w') \<Rightarrow> (Inr (map (pipelineFromProto E) pps), w'))"

definition GetCollector ::
  "'t enums \<Rightarrow> ('t, 'w) rpc \<Rightarrow> string \<Rightarrow> 'w \<Rightarrow> (go_error + collector) \<times> 'w" where
  "GetCollector E R ident w =
     (case rpc_GetCollector R ident w of
        (Inl err, w') \<Rightarrow> (Inl (connectErrToFleetErr err ''GetCollector'' ident), w')
      | (Inr msg, w') \<Rightarrow> (Inr (collectorFromProto E msg), w'))"

definition UpdateCollector ::
  "'t enums \<Rightarrow> ('t, 'w) rpc \<Rightarrow> collector option \<Rightarrow> 'w \<Rightarrow> (go_error + collector) \<times> 'w" where
  "UpdateCollector E R col w =
     (case col of
        None \<Rightarrow> (Inl (PlainError ''UpdateCollector: collector must not be nil''), w)
      | Some c \<Rightarrow>
          (case rpc_UpdateCollector R (collectorToProto E c) w of
             (Inl err, w') \<Rightarrow> (Inl (connectErrToFleetErr err ''UpdateCollector'' (fc_ID c)), w')
           | (Inr msg, w') \<Rightarrow> (Inr (collectorFromProto E msg), w')))"

definition BulkUpdateCollectors ::
  "'t enums \<Rightarrow> ('t, 'w) rpc \<Rightarrow> string list \<Rightarrow> operation list \<Rightarrow> 'w \<Rightarrow> go_error option \<times> 'w" where
  "BulkUpdateCollectors E R ids ops w =
     (case rpc_BulkUpdateCollectors R ids (operationsToProto E ops) w of
        (Some err, w') \<Rightarrow> (Some (connectErrToFleetErr err ''BulkUpdateCollectors'' []), w')
      | (None, w') \<Rightarrow> (None, w'))"

definition ListCollectors ::
  "'t enums \<Rightarrow> ('t, 'w) rpc \<Rightarrow> string list \<Rightarrow> 'w \<Rightarrow> (go_error + collector list) \<times> 'w" where
  "ListCollectors E R matchers w =
     (case rpc_ListCollectors R matchers w of
        (Inl err, w') \<Rightarrow> (Inl (connectErrToFleetErr err ''ListCollectors'' []), w')
      | (Inr pcs, w') \<Rightarrow> (Inr (map (collectorFromProto E) pcs), w'))"

subsection \<open>Base URL and limits\<close>

definition trim_right_slash :: "string \<Rightarrow> string" where
  "trim_right_slash s = rev (dropWhile (\<lambda>c. c = CHR ''/'') (rev s))"

text \<open>\<open>services\<close> are the names of the two generated services.\<close>

fun cut_service :: "string list \<Rightarrow> string \<Rightarrow> string" where
  "cut_service [] trimmed = trimmed"
| "cut_service (svc # svcs) trimmed =
     (if has_suffix trimmed (CHR ''/'' # svc)
      then take (length trimmed - Suc (length svc)) trimmed
      else cut_service svcs trimmed)"

definition normalizeBaseURL :: "string list \<Rightarrow> string \<Rightarrow> string" where
  "normalizeBaseURL services baseURL = cut_service services (trim_right_slash baseURL)"

section \<open>What the client guarantees\<close>

lemma connectErrToFleetErr_status:
  "as_connect err = Some (code, msg) \<Longrightarrow>
   as_fleet (connectErrToFleetErr err oper pid) =
     Some (FleetAPIError (connectCodeToHTTPStatus code) oper msg pid (Some err))"
  by (simp add: connectErrToFleetErr_def)

text \<open>
  Which failed Fleet calls the reconcilers retry.  A connect error is retried exactly for
  the codes listed (all that the protocol documents as server-side or temporary, a cancelled
  call included); an error outside the protocol is retried unless the context was cancelled;
  and a reconcile that recorded a validation error never is.
\<close>

theorem retry_classification:
  "shouldRetry (connectErrToFleetErr err oper pid) reason \<longleftrightarrow>
     reason \<noteq> reasonValidationError \<and>
     (case as_connect err of
        Some (code, msg) \<Rightarrow>
          (case code of
             CodeCanceled \<Rightarrow> True | CodeUnknown \<Rightarrow> True | CodeDeadlineExceeded \<Rightarrow> True
           | CodeResourceExhausted \<Rightarrow> True | CodeUnimplemented \<Rightarrow> True | CodeInternal \<Rightarrow> True
           | CodeUnavailable \<Rightarrow> True | CodeDataLoss \<Rightarrow> True | CodeOther n \<Rightarrow> True
           | _ \<Rightarrow> False)
      | None \<Rightarrow>
          (case as_fleet err of
             Some apiErr \<Rightarrow> IsTransient (fae_status apiErr)
           | None \<Rightarrow> \<not> is_canceled err))"
proof (cases "as_connect err")
  case None
  then show ?thesis
    by (auto simp: shouldRetry_def isTransientError_def connectErrToFleetErr_def
        split: option.splits)
next
  case (Some cm)
  obtain code msg where "cm = (code, msg)" by force
  with Some show ?thesis
    by (cases code)
      (simp_all add: shouldRetry_def isTransientError_def connectErrToFleetErr_status
        connectCodeToHTTPStatus_def IsTransient_def)
qed

text \<open>
  A call whose context was cancelled is retried when it went through the Fleet client,
  although the classification says that cancellation is not transient: the client's mapping
  to status 408 hides the cancellation.
\<close>

theorem cancelled_call_is_transient:
  "isTransientError CtxCanceled = False \<and>
   isTransientError
     (connectErrToFleetErr (ConnectError CodeCanceled msg text (Some CtxCanceled)) oper pid)"
  by (simp add: isTransientError_def connectErrToFleetErr_def connectCodeToHTTPStatus_def
      IsTransient_def)

subsection \<open>Round trips\<close>

definition norm_config_type :: "string \<Rightarrow> string" where
  "norm_config_type s = (if s \<in> {configTypeAlloy, configTypeOTEL} then s else [])"

definition norm_source :: "source \<Rightarrow> source" where
  "norm_source s =
     s\<lparr>src_Type := (if src_Type s \<in> {sourceTypeGit, sourceTypeTerraform, sourceTypeGrafana}
                    then src_Type s else sourceTypeUnspecified)\<rparr>"

text \<open>
  A pipeline converted to the wire message and back is the same pipeline; only a
  configuration type and a source type the API does not know are reset.
\<close>

theorem pipeline_wire_roundtrip:
  assumes "enums_ok E"
  shows "pipelineFromProto E (pipelineToProto E p) =
           p\<lparr>fp_ConfigType := norm_config_type (fp_ConfigType p),
             fp_Source := map_option norm_source (fp_Source p)\<rparr>"
proof -
  have ct: "configTypeProtoToString E (configTypeStringToProto E s) = norm_config_type s" for s
    using assms
    by (auto simp: enums_ok_def configTypeProtoToString_def configTypeStringToProto_def
        norm_config_type_def)
  have st: "sourceTypeProtoToString E (sourceTypeStringToProto E (src_Type s)) =
              src_Type (norm_source s)" for s
    using assms
    by (auto simp: enums_ok_def sourceTypeProtoToString_def sourceTypeStringToProto_def
        sourceTypeGrafanaProto_def norm_source_def)
  have ts: "map_option (en_AsTime E) (map_option (en_TsNew E) t) = t" for t
    using assms by (cases t) (simp_all add: enums_ok_def)
  have src: "\<lparr>src_Type = src_Type (norm_source s), src_Namespace = src_Namespace s\<rparr> = norm_source s" for s
    by (simp add: norm_source_def)
  show ?thesis
    by (cases p; cases "fp_Source p")
      (auto simp: pipelineFromProto_def pipelineToProto_def ct st ts src pb_GetEnabled_def pb_GetId_def)
qed

definition enums_ref :: "int enums" where
  "enums_ref =
     \<lparr>en_Alloy = 1, en_OTEL = 2, en_Unspecified = 0, en_ColAlloy = 1, en_ColOTEL = 2,
      en_ColUnspecified = 0, en_SrcGit = 1, en_SrcTerraform = 2, en_SrcUnspecified = 0,
      en_OpAdd = 1, en_OpRemove = 2, en_OpReplace = 3, en_OpMove = 4, en_OpCopy = 5, en_OpUnknown = 0,
      en_TsNew = (\<lambda>t. t), en_AsTime = (\<lambda>t. t)\<rparr>"

lemma enums_ref_ok: "enums_ok enums_ref"
  by (simp add: enums_ok_def enums_ref_def)

definition sample_pipeline :: pipeline where
  "sample_pipeline =
     \<lparr>fp_Name = ''team-a'', fp_Contents = ''x'', fp_Matchers = [''env=prod''], fp_Enabled = True,
      fp_ID = ''17'', fp_ConfigType = configTypeAlloy,
      fp_Source = Some \<lparr>src_Type = ''SOURCE_TYPE_KUBERNETES'', src_Namespace = ''ns''\<rparr>,
      fp_CreatedAt = Some 5, fp_UpdatedAt = None\<rparr>"

theorem pipeline_wire_roundtrip_witness:
  "fp_Source (pipelineFromProto enums_ref (pipelineToProto enums_ref sample_pipeline)) =
     Some \<lparr>src_Type = sourceTypeUnspecified, src_Namespace = ''ns''\<rparr>"
  using pipeline_wire_roundtrip [OF enums_ref_ok, of sample_pipeline]
  by (simp add: sample_pipeline_def norm_source_def)

lemma collector_wire_roundtrip:
  assumes "enums_ok E" and "fc_CollectorType c \<in> {collectorTypeAlloy, collectorTypeOTEL, []}"
  shows "collectorFromProto E (collectorToProto E c) = c"
proof -
  have ct: "collectorTypeProtoToString E (collectorTypeStringToProto E (fc_CollectorType c)) =
              fc_CollectorType c"
    using assms
    by (auto simp: enums_ok_def collectorTypeProtoToString_def collectorTypeStringToProto_def)
  have ts: "map_option (en_AsTime E) (map_option (en_TsNew E) t) = t" for t
    using assms(1) by (cases t) (simp_all add: enums_ok_def)
  show ?thesis
    by (simp add: collectorFromProto_def collectorToProto_def ct ts)
qed

subsection \<open>Deleting\<close>

text \<open>
  The contract of a delete call the finalizers rely on: that the object is already gone is
  not an error.
\<close>

locale idempotent_delete =
  fixes del :: "string \<Rightarrow> 'w \<Rightarrow> go_error option \<times> 'w"
  assumes gone_is_success: "fst (del ident w) = Some (FleetAPIError st oper msg pid wr) \<Longrightarrow> st \<noteq> 404"
begin

text \<open>A caller that treats 404 as success sees the same outcomes as one that does not.\<close>

lemma not_found_branch_dead:
  "fst (del ident w) = Some e \<Longrightarrow>
   (case e of FleetAPIError st oper msg pid wr \<Rightarrow> st = 404 | _ \<Rightarrow> False) = False"
  by (cases e) (auto dest: gone_is_success)

end

interpretation client_delete: idempotent_delete "DeletePipeline R" for R
proof
  fix ident w st oper msg pid wr
  show "fst (DeletePipeline R ident w) = Some (FleetAPIError st oper msg pid wr) \<Longrightarrow> st \<noteq> 404"
    by (auto simp: DeletePipeline_def split: prod.splits option.splits go_error.splits if_splits)
qed

end
