(* ===== verification/Pipeline_Types.thy ===== *)
theory Pipeline_Types
  imports Fleet_Client
begin

text \<open>
  \<open>api/v1alpha1/pipeline_types.go\<close> and \<open>pipeline_naming.go\<close>: the Pipeline resource, the
  conversions between its enumerations and the Fleet ones, and the rules for the name a
  pipeline has in Fleet Management.  The enumerations are string types in the source, so any
  string can occur; their constants are abbreviations here.
\<close>

section \<open>The resource\<close>

abbreviation ConfigTypeAlloy :: string where "ConfigTypeAlloy \<equiv> ''Alloy''"
abbreviation ConfigTypeOpenTelemetryCollector :: string where
  "ConfigTypeOpenTelemetryCollector \<equiv> ''OpenTelemetryCollector''"

abbreviation SourceTypeGit :: string where "SourceTypeGit \<equiv> ''Git''"
abbreviation SourceTypeTerraform :: string where "SourceTypeTerraform \<equiv> ''Terraform''"
abbreviation SourceTypeGrafana :: string where "SourceTypeGrafana \<equiv> ''Grafana''"
abbreviation SourceTypeKubernetes :: string where "SourceTypeKubernetes \<equiv> ''Kubernetes''"
abbreviation SourceTypeUnspecified :: string where "SourceTypeUnspecified \<equiv> ''Unspecified''"

abbreviation PipelineImportModeAnnotation :: string where
  "PipelineImportModeAnnotation \<equiv> ''fleetmanagement.grafana.com/import-mode''"
abbreviation PipelineImportModeAnnotationReadOnly :: string where
  "PipelineImportModeAnnotationReadOnly \<equiv> ''read-only''"
abbreviation PipelineImportModeAnnotationAdopt :: string where
  "PipelineImportModeAnnotationAdopt \<equiv> ''adopt''"
abbreviation FleetPipelineIDAnnotation :: string where
  "FleetPipelineIDAnnotation \<equiv> ''fleetmanagement.grafana.com/fleet-pipeline-id''"
abbreviation PipelineNameScopeAnnotation :: string where
  "PipelineNameScopeAnnotation \<equiv> ''fleetmanagement.grafana.com/name-scope''"

abbreviation NameScopeNone :: string where "NameScopeNone \<equiv> ''none''"
abbreviation NameScopeNamespace :: string where "NameScopeNamespace \<equiv> ''namespace''"
abbreviation nameScopeSeparator :: string where "nameScopeSeparator \<equiv> ''.''"

record PipelineSource =
  psrc_Type :: string
  psrc_Namespace :: string

record PipelineSpec =
  pspec_Name :: string
  pspec_Contents :: string
  pspec_Matchers :: "string list"
  pspec_Enabled :: "bool option"
  pspec_ConfigType :: string
  pspec_Source :: "PipelineSource option"
  pspec_Paused :: bool

record PipelineStatus =
  pst_ID :: string
  pst_SyncedName :: string
  pst_ObservedGeneration :: int
  pst_CreatedAt :: "int option"
  pst_UpdatedAt :: "int option"
  pst_Source :: "PipelineSource option"
  pst_RevisionID :: string
  pst_Conditions :: "cond list"

record Pipeline =
  pl_meta :: objmeta
  pl_spec :: PipelineSpec
  pl_status :: PipelineStatus

definition GetEnabled :: "PipelineSpec \<Rightarrow> bool" where
  "GetEnabled s = (case pspec_Enabled s of None \<Rightarrow> True | Some b \<Rightarrow> b)"

section \<open>Enumerations\<close>

definition config_ToFleetAPI :: "string \<Rightarrow> string" where
  "config_ToFleetAPI c =
     (if c = ConfigTypeAlloy then configTypeAlloy
      else if c = ConfigTypeOpenTelemetryCollector then configTypeOTEL
      else configTypeAlloy)"

definition ConfigTypeFromFleetAPI :: "string \<Rightarrow> string" where
  "ConfigTypeFromFleetAPI apiType =
     (if apiType = configTypeOTEL then ConfigTypeOpenTelemetryCollector
      else if apiType = configTypeAlloy then ConfigTypeAlloy
      else ConfigTypeAlloy)"

definition source_ToFleetAPI :: "string \<Rightarrow> string" where
  "source_ToFleetAPI s =
     (if s = SourceTypeGit then sourceTypeGit
      else if s = SourceTypeTerraform then sourceTypeTerraform
      else if s = SourceTypeGrafana then sourceTypeGrafana
      else if s = SourceTypeUnspecified then sourceTypeUnspecified
      else sourceTypeUnspecified)"

definition SourceTypeFromFleetAPI :: "string \<Rightarrow> string" where
  "SourceTypeFromFleetAPI apiType =
     (if apiType = sourceTypeGit then SourceTypeGit
      else if apiType = sourceTypeTerraform then SourceTypeTerraform
      else if apiType = sourceTypeGrafana then SourceTypeGrafana
      else if apiType = ''SOURCE_TYPE_KUBERNETES'' then SourceTypeKubernetes
      else if apiType = sourceTypeUnspecified then SourceTypeUnspecified
      else SourceTypeUnspecified)"

lemma config_type_roundtrip:
  "c \<in> {ConfigTypeAlloy, ConfigTypeOpenTelemetryCollector} \<Longrightarrow>
   ConfigTypeFromFleetAPI (config_ToFleetAPI c) = c"
  by (auto simp: ConfigTypeFromFleetAPI_def config_ToFleetAPI_def)

section \<open>Names in Fleet Management\<close>

abbreviation annotation :: "Pipeline \<Rightarrow> string \<Rightarrow> string" where
  "annotation p k \<equiv> get_str (om_annotations (pl_meta p)) k"

definition IsDiscovered :: "Pipeline \<Rightarrow> bool" where
  "IsDiscovered p \<longleftrightarrow> has_key (om_annotations (pl_meta p)) FleetPipelineIDAnnotation"

definition IsReadOnly :: "Pipeline \<Rightarrow> bool" where
  "IsReadOnly p =
     (if (case pspec_Source (pl_spec p) of None \<Rightarrow> False | Some s \<Rightarrow> psrc_Type s = SourceTypeGrafana)
      then True
      else annotation p PipelineImportModeAnnotation = PipelineImportModeAnnotationReadOnly)"

definition EffectiveNameScope :: "Pipeline \<Rightarrow> string \<Rightarrow> string" where
  "EffectiveNameScope p defaultScope =
     (if annotation p PipelineNameScopeAnnotation = NameScopeNamespace then NameScopeNamespace
      else if annotation p PipelineNameScopeAnnotation = NameScopeNone then NameScopeNone
      else defaultScope)"

definition baseName :: "Pipeline \<Rightarrow> string" where
  "baseName p = (if pspec_Name (pl_spec p) \<noteq> [] then pspec_Name (pl_spec p) else om_name (pl_meta p))"

definition DesiredFleetName :: "Pipeline \<Rightarrow> string \<Rightarrow> string" where
  "DesiredFleetName p defaultScope =
     (let base = baseName p
      in if EffectiveNameScope p defaultScope \<noteq> NameScopeNamespace then base
         else if IsDiscovered p \<or> IsReadOnly p then base
         else om_namespace (pl_meta p) @ nameScopeSeparator @ base)"

text \<open>The name and the ownership are read off the metadata and the spec, not the status.\<close>

lemma reads_meta_spec:
  assumes "pl_meta q = pl_meta p" "pl_spec q = pl_spec p"
  shows "IsDiscovered q = IsDiscovered p" "IsReadOnly q = IsReadOnly p" "baseName q = baseName p"
    and "EffectiveNameScope q sc = EffectiveNameScope p sc"
  by (simp_all add: IsDiscovered_def IsReadOnly_def baseName_def EffectiveNameScope_def assms)

lemma DesiredFleetName_meta_spec:
  assumes "pl_meta q = pl_meta p" "pl_spec q = pl_spec p"
  shows "DesiredFleetName q sc = DesiredFleetName p sc"
  by (simp only: DesiredFleetName_def reads_meta_spec [OF assms] assms)

text \<open>A pipeline whose Fleet name carries its namespace.\<close>

definition scoped :: "Pipeline \<Rightarrow> string \<Rightarrow> bool" where
  "scoped p sc \<longleftrightarrow>
     EffectiveNameScope p sc = NameScopeNamespace \<and> \<not> IsDiscovered p \<and> \<not> IsReadOnly p"

lemma DesiredFleetName_scoped:
  "scoped p sc \<Longrightarrow> DesiredFleetName p sc = om_namespace (pl_meta p) @ ''.'' @ baseName p"
  by (simp add: scoped_def DesiredFleetName_def Let_def)

lemma first_dot_unique:
  "a @ CHR ''.'' # b = a' @ CHR ''.'' # b' \<Longrightarrow> CHR ''.'' \<notin> set a \<Longrightarrow> CHR ''.'' \<notin> set a' \<Longrightarrow>
   a = a' \<and> b = b'"
proof (induction a arbitrary: a')
  case Nil
  then show ?case by (cases a') auto
next
  case (Cons c a)
  then show ?case by (cases a') auto
qed

text \<open>
  With namespace scoping, pipelines of different namespaces never collide in Fleet
  Management, and the namespace and base name can be read back from the Fleet name: a
  Kubernetes namespace is a label and has no dot.
\<close>

theorem scoped_names_injective:
  assumes "scoped p sc" "scoped q sc"
    and "CHR ''.'' \<notin> set (om_namespace (pl_meta p))" "CHR ''.'' \<notin> set (om_namespace (pl_meta q))"
  shows "DesiredFleetName p sc = DesiredFleetName q sc \<longleftrightarrow>
           om_namespace (pl_meta p) = om_namespace (pl_meta q) \<and> baseName p = baseName q"
  using first_dot_unique [of "om_namespace (pl_meta p)" "baseName p" "om_namespace (pl_meta q)" "baseName q"]
    assms(3,4)
  unfolding DesiredFleetName_scoped [OF assms(1)] DesiredFleetName_scoped [OF assms(2)]
  by (metis append_Cons append_Nil)

definition mk_meta :: "string \<Rightarrow> string \<Rightarrow> int \<Rightarrow> gomap \<Rightarrow> objmeta" where
  "mk_meta ns name gen annots =
     \<lparr>om_namespace = ns, om_name = name, om_generation = gen, om_deleting = False,
      om_finalizers = [], om_labels = [], om_annotations = annots\<rparr>"

definition mk_pipeline :: "objmeta \<Rightarrow> Pipeline" where
  "mk_pipeline m =
     \<lparr>pl_meta = m,
      pl_spec = \<lparr>pspec_Name = [], pspec_Contents = ''x'', pspec_Matchers = [], pspec_Enabled = None,
                 pspec_ConfigType = ConfigTypeAlloy, pspec_Source = None, pspec_Paused = False\<rparr>,
      pl_status = \<lparr>pst_ID = [], pst_SyncedName = [], pst_ObservedGeneration = 0, pst_CreatedAt = None,
                   pst_UpdatedAt = None, pst_Source = None, pst_RevisionID = [], pst_Conditions = []\<rparr>\<rparr>"

theorem scoped_names_injective_witness:
  "DesiredFleetName (mk_pipeline (mk_meta ''team-a'' ''logs'' 1 [])) NameScopeNamespace \<noteq>
   DesiredFleetName (mk_pipeline (mk_meta ''team-b'' ''logs'' 1 [])) NameScopeNamespace"
proof -
  have "scoped (mk_pipeline (mk_meta ns ''logs'' 1 [])) NameScopeNamespace" for ns
    by (simp add: scoped_def mk_pipeline_def mk_meta_def EffectiveNameScope_def get_str_def
        IsDiscovered_def IsReadOnly_def has_key_def)
  from scoped_names_injective [OF this this, of "''team-a''" "''team-b''"]
  show ?thesis by (simp add: mk_pipeline_def mk_meta_def)
qed

end
