(* ===== verification/Pipeline_Controller.thy ===== *)
theory Pipeline_Controller
  imports Pipeline_Types
begin

text \<open>
  \<open>internal/controller/pipeline_controller.go\<close>: the Pipeline reconciler, one definition per
  method.  A method takes the calls made so far and returns them extended by its own
  (\<open>rr_trace\<close>) with what it returned.  The API server and Fleet Management are the parameter
  \<open>penv\<close>: what a call answers is a function of all calls up to it, so every behaviour of
  both (errors, races with other writers, concurrent deletion) is some \<open>penv\<close>.  The object
  the method mutates is passed on explicitly; every path writes the status at most once.
  Log lines, metrics and the texts of events are not modelled.
\<close>

section \<open>Calls and environment\<close>

datatype pcall =
    PcGet nsname
  | PcUpdate Pipeline
  | PcStatusUpdate Pipeline
  | PcFleetGet string
  | PcFleetUpsert upsert_request
  | PcFleetDelete string
  | PcEvent event_type string

record penv =
  pe_Get :: "pcall list \<Rightarrow> go_error + Pipeline"
  pe_Update :: "pcall list \<Rightarrow> go_error option"
  pe_StatusUpdate :: "pcall list \<Rightarrow> go_error option"
  pe_GetPipeline :: "pcall list \<Rightarrow> go_error + pipeline"
  pe_UpsertPipeline :: "pcall list \<Rightarrow> go_error + pipeline"
  pe_DeletePipeline :: "pcall list \<Rightarrow> go_error option"

record PipelineReconciler =
  pr_klib :: klib
  pr_hasRecorder :: bool
  pr_NameScope :: string

abbreviation pipelineFinalizer :: string where
  "pipelineFinalizer \<equiv> ''pipeline.fleetmanagement.grafana.com/finalizer''"
abbreviation conditionTypeReady :: string where "conditionTypeReady \<equiv> ''Ready''"
abbreviation conditionTypeSynced :: string where "conditionTypeSynced \<equiv> ''Synced''"
abbreviation reasonDeleteFailed :: string where "reasonDeleteFailed \<equiv> ''DeleteFailed''"
abbreviation reasonReadOnly :: string where "reasonReadOnly \<equiv> ''ReadOnly''"

definition pipeline_emitEvent ::
  "PipelineReconciler \<Rightarrow> event_type \<Rightarrow> string \<Rightarrow> pcall list \<Rightarrow> pcall list" where
  "pipeline_emitEvent R t reason tr = (if pr_hasRecorder R then tr @ [PcEvent t reason] else tr)"

section \<open>Reading the object\<close>

definition isPaused :: "Pipeline \<Rightarrow> bool" where
  "isPaused p = pspec_Paused (pl_spec p)"

definition isReadOnly :: "Pipeline \<Rightarrow> bool" where
  "isReadOnly p = IsReadOnly p"

definition readOnlyPipelineID :: "Pipeline \<Rightarrow> string" where
  "readOnlyPipelineID p =
     (let ident = annotation p FleetPipelineIDAnnotation
      in if ident \<noteq> [] then ident else pst_ID (pl_status p))"

definition pipelineReconcileModeObserved :: "klib \<Rightarrow> Pipeline \<Rightarrow> bool \<Rightarrow> bool" where
  "pipelineReconcileModeObserved K p readOnly =
     (case FindStatusCondition K (pst_Conditions (pl_status p)) conditionTypeReady of
        None \<Rightarrow> False
      | Some ready \<Rightarrow>
          if readOnly \<and> readOnlyPipelineID p \<noteq> [] \<and> pst_ID (pl_status p) \<noteq> [] \<and>
             pst_ID (pl_status p) \<noteq> readOnlyPipelineID p then False
          else if cnd_reason ready = reasonReadOnly then readOnly
          else if cnd_reason ready = reasonValidationError
            then \<not> readOnly \<or> readOnlyPipelineID p = []
          else \<not> readOnly)"

definition fleetSourceFromSpec :: "PipelineSource option \<Rightarrow> source option" where
  "fleetSourceFromSpec src =
     (case src of
        None \<Rightarrow> None
      | Some s \<Rightarrow>
          if psrc_Type s \<in> {SourceTypeGit, SourceTypeTerraform, SourceTypeGrafana}
          then Some \<lparr>src_Type = source_ToFleetAPI (psrc_Type s), src_Namespace = psrc_Namespace s\<rparr>
          else None)"

definition pipelineSourceFromFleet :: "source option \<Rightarrow> PipelineSource option" where
  "pipelineSourceFromFleet src =
     map_option (\<lambda>s. \<lparr>psrc_Type = SourceTypeFromFleetAPI (src_Type s),
                      psrc_Namespace = src_Namespace s\<rparr>) src"

definition backfillSyncedName :: "Pipeline \<Rightarrow> Pipeline" where
  "backfillSyncedName p =
     (if pst_ID (pl_status p) = [] \<or> pst_SyncedName (pl_status p) \<noteq> [] then p
      else (let base = pspec_Name (pl_spec p);
                base = (if base = [] then om_name (pl_meta p) else base)
            in p\<lparr>pl_status := (pl_status p)\<lparr>pst_SyncedName := base\<rparr>\<rparr>))"

definition buildUpsertRequest :: "PipelineReconciler \<Rightarrow> Pipeline \<Rightarrow> upsert_request" where
  "buildUpsertRequest R p =
     \<lparr>ur_Pipeline =
        \<lparr>fp_Name = DesiredFleetName p (pr_NameScope R),
         fp_Contents = pspec_Contents (pl_spec p),
         fp_Matchers = pspec_Matchers (pl_spec p),
         fp_Enabled = GetEnabled (pl_spec p),
         fp_ID = [],
         fp_ConfigType = config_ToFleetAPI (pspec_ConfigType (pl_spec p)),
         fp_Source = fleetSourceFromSpec (pspec_Source (pl_spec p)),
         fp_CreatedAt = None, fp_UpdatedAt = None\<rparr>,
      ur_ValidateOnly = False\<rparr>"

section \<open>Status updates\<close>

definition set_cond :: "klib \<Rightarrow> cond \<Rightarrow> PipelineStatus \<Rightarrow> PipelineStatus" where
  "set_cond K c st = st\<lparr>pst_Conditions := SetStatusCondition K (pst_Conditions st) c\<rparr>"

definition set_times :: "pipeline \<Rightarrow> PipelineStatus \<Rightarrow> PipelineStatus" where
  "set_times api st =
     (let st = (case fp_CreatedAt api of None \<Rightarrow> st | Some t \<Rightarrow> st\<lparr>pst_CreatedAt := Some t\<rparr>)
      in case fp_UpdatedAt api of None \<Rightarrow> st | Some t \<Rightarrow> st\<lparr>pst_UpdatedAt := Some t\<rparr>)"

definition success_status :: "klib \<Rightarrow> Pipeline \<Rightarrow> pipeline \<Rightarrow> PipelineStatus" where
  "success_status K p api =
     (let gen = om_generation (pl_meta p);
          st = (pl_status p)\<lparr>pst_ID := fp_ID api, pst_SyncedName := fp_Name api,
                             pst_ObservedGeneration := gen\<rparr>;
          st = set_times api st;
          st = st\<lparr>pst_Source := pipelineSourceFromFleet (fp_Source api)\<rparr>;
          st = set_cond K \<lparr>cnd_type = conditionTypeReady, cnd_status = CTrue, cnd_reason = reasonSynced,
                           cnd_message = ''Pipeline successfully synced to Fleet Management'',
                           cnd_gen = gen\<rparr> st
      in set_cond K \<lparr>cnd_type = conditionTypeSynced, cnd_status = CTrue, cnd_reason = reasonSynced,
                      cnd_message = ''UpsertPipeline succeeded, ID: '' @ fp_ID api,
                      cnd_gen = gen\<rparr> st)"

definition pipeline_updateStatusSuccess ::
  "PipelineReconciler \<Rightarrow> penv \<Rightarrow> Pipeline \<Rightarrow> pipeline \<Rightarrow> pcall list \<Rightarrow> pcall rres" where
  "pipeline_updateStatusSuccess R E p api tr =
     (let wasCreated = (pst_ID (pl_status p) = []);
          isUpdate = (pst_ID (pl_status p) \<noteq> [] \<and> pst_ID (pl_status p) = fp_ID api);
          p' = p\<lparr>pl_status := success_status (pr_klib R) p api\<rparr>;
          tr = tr @ [PcStatusUpdate p']
      in case pe_StatusUpdate E tr of
           Some err \<Rightarrow>
             if is_conflict err then ret tr requeue_now None outcomeNoOp
             else ret tr done_result (Some err) reasonSyncFailed
         | None \<Rightarrow>
             (let tr = (if wasCreated then pipeline_emitEvent R EventNormal ''Created'' tr
                        else if isUpdate then pipeline_emitEvent R EventNormal ''Updated'' tr
                        else tr);
                  tr = pipeline_emitEvent R EventNormal ''Synced'' tr
              in ret tr done_result None reasonSynced))"

definition readonly_status :: "klib \<Rightarrow> Pipeline \<Rightarrow> pipeline \<Rightarrow> PipelineStatus" where
  "readonly_status K p api =
     (let gen = om_generation (pl_meta p);
          st = (pl_status p)\<lparr>pst_ID := fp_ID api, pst_ObservedGeneration := gen\<rparr>;
          st = set_times api st;
          st = st\<lparr>pst_Source := pipelineSourceFromFleet (fp_Source api)\<rparr>;
          st = set_cond K \<lparr>cnd_type = conditionTypeReady, cnd_status = CTrue, cnd_reason = reasonReadOnly,
                           cnd_message = ''Pipeline is read-only; observed Fleet Management state without applying spec changes'',
                           cnd_gen = gen\<rparr> st
      in set_cond K \<lparr>cnd_type = conditionTypeSynced, cnd_status = CTrue, cnd_reason = reasonReadOnly,
                      cnd_message = ''Observed read-only pipeline, ID: '' @ fp_ID api,
                      cnd_gen = gen\<rparr> st)"

definition updateStatusReadOnly ::
  "PipelineReconciler \<Rightarrow> penv \<Rightarrow> Pipeline \<Rightarrow> pipeline \<Rightarrow> pcall list \<Rightarrow> pcall rres" where
  "updateStatusReadOnly R E p api tr =
     (let p' = p\<lparr>pl_status := readonly_status (pr_klib R) p api\<rparr>;
          tr = tr @ [PcStatusUpdate p']
      in case pe_StatusUpdate E tr of
           Some err \<Rightarrow>
             if is_conflict err then ret tr requeue_now None outcomeNoOp
             else ret tr done_result (Some err) reasonSyncFailed
         | None \<Rightarrow> ret (pipeline_emitEvent R EventNormal reasonReadOnly tr) done_result None reasonReadOnly)"

definition error_status :: "klib \<Rightarrow> Pipeline \<Rightarrow> string \<Rightarrow> go_error \<Rightarrow> PipelineStatus" where
  "error_status K p reason originalErr =
     (let gen = om_generation (pl_meta p);
          msg = formatConditionMessage reason originalErr;
          st = (if \<not> shouldRetry originalErr reason
                then (pl_status p)\<lparr>pst_ObservedGeneration := gen\<rparr> else pl_status p);
          st = set_cond K \<lparr>cnd_type = conditionTypeReady, cnd_status = CFalse, cnd_reason = reason,
                           cnd_message = msg, cnd_gen = gen\<rparr> st
      in set_cond K \<lparr>cnd_type = conditionTypeSynced, cnd_status = CFalse, cnd_reason = reason,
                      cnd_message = msg, cnd_gen = gen\<rparr> st)"

definition pipeline_updateStatusError ::
  "PipelineReconciler \<Rightarrow> penv \<Rightarrow> Pipeline \<Rightarrow> string \<Rightarrow> go_error \<Rightarrow> pcall list \<Rightarrow> pcall rres" where
  "pipeline_updateStatusError R E p reason originalErr tr =
     (let retryable = shouldRetry originalErr reason;
          p' = p\<lparr>pl_status := error_status (pr_klib R) p reason originalErr\<rparr>;
          tr = tr @ [PcStatusUpdate p'];
          updateErr = pe_StatusUpdate E tr
      in if (case updateErr of None \<Rightarrow> False | Some e \<Rightarrow> is_conflict e)
           then ret tr requeue_now None outcomeNoOp
         else if \<not> retryable then ret tr done_result None reason
         else ret tr done_result (Some originalErr) reason)"

section \<open>Errors of Fleet Management\<close>

text \<open>
  The method calls itself after a failed recreation, with the ID cleared; a second 404 then
  takes the other branch.
\<close>

function pipeline_handleAPIError ::
  "PipelineReconciler \<Rightarrow> penv \<Rightarrow> Pipeline \<Rightarrow> go_error \<Rightarrow> pcall list \<Rightarrow> pcall rres" where
  "pipeline_handleAPIError R E p err tr =
     (case as_fleet err of
        None \<Rightarrow>
          pipeline_updateStatusError R E p reasonSyncFailed err (pipeline_emitEvent R EventWarning ''SyncFailed'' tr)
      | Some apiErr \<Rightarrow>
          if fae_status apiErr = 400 then
            pipeline_updateStatusError R E p reasonValidationError err
              (pipeline_emitEvent R EventWarning ''ValidationFailed'' tr)
          else if fae_status apiErr = 404 then
            (if pst_ID (pl_status p) = [] then
               pipeline_updateStatusError R E p reasonSyncFailed
                 (WrapError ''pipeline not found and recreation failed: '' err [])
                 (pipeline_emitEvent R EventWarning ''SyncFailed'' tr)
             else
               (let tr = pipeline_emitEvent R EventWarning ''Recreated'' tr;
                    p = p\<lparr>pl_status := (pl_status p)\<lparr>pst_ID := []\<rparr>\<rparr>;
                    tr = tr @ [PcFleetUpsert (buildUpsertRequest R p)]
                in case pe_UpsertPipeline E tr of
                     Inl err \<Rightarrow> pipeline_handleAPIError R E p err tr
                   | Inr api \<Rightarrow>
                       (let r = pipeline_updateStatusSuccess R E p api tr
                        in if rr_err r = None then r\<lparr>rr_outcome := outcomeRecreated\<rparr> else r)))
          else if fae_status apiErr = 429 then
            ret (pipeline_emitEvent R EventWarning ''RateLimited'' tr) (requeue_after (10 * second)) None
              outcomeRateLimited
          else
            pipeline_updateStatusError R E p reasonSyncFailed err (pipeline_emitEvent R EventWarning ''SyncFailed'' tr))"
  by pat_completeness auto
termination
  by (relation "measure (\<lambda>(R, E, p, err, tr). length (pst_ID (pl_status p)))") auto

declare pipeline_handleAPIError.simps [simp del]

definition handleReadOnlyAPIError ::
  "PipelineReconciler \<Rightarrow> penv \<Rightarrow> Pipeline \<Rightarrow> go_error \<Rightarrow> pcall list \<Rightarrow> pcall rres" where
  "handleReadOnlyAPIError R E p err tr =
     (case as_fleet err of
        Some apiErr \<Rightarrow>
          if fae_status apiErr = 429 then
            ret (pipeline_emitEvent R EventWarning ''RateLimited'' tr) (requeue_after (10 * second)) None
              outcomeRateLimited
          else if fae_status apiErr = 400 then
            pipeline_updateStatusError R E p reasonValidationError err
              (pipeline_emitEvent R EventWarning reasonReadOnly tr)
          else
            pipeline_updateStatusError R E p reasonReadOnly err (pipeline_emitEvent R EventWarning reasonReadOnly tr)
      | None \<Rightarrow>
          pipeline_updateStatusError R E p reasonReadOnly err (pipeline_emitEvent R EventWarning reasonReadOnly tr))"

section \<open>Reconcile\<close>

definition migration_due :: "PipelineReconciler \<Rightarrow> Pipeline \<Rightarrow> bool" where
  "migration_due R p \<longleftrightarrow>
     pst_ID (pl_status p) \<noteq> [] \<and> pst_SyncedName (pl_status p) \<noteq> [] \<and>
     DesiredFleetName p (pr_NameScope R) \<noteq> pst_SyncedName (pl_status p)"

text \<open>\<open>Inl\<close> is the returned error, \<open>Inr\<close> the pipeline the caller goes on with.\<close>

definition migratePipelineName ::
  "PipelineReconciler \<Rightarrow> penv \<Rightarrow> Pipeline \<Rightarrow> pcall list \<Rightarrow> pcall list \<times> (go_error + Pipeline)" where
  "migratePipelineName R E p tr =
     (if \<not> migration_due R p then (tr, Inr p)
      else
        (let dryReq = (buildUpsertRequest R p)\<lparr>ur_ValidateOnly := True\<rparr>;
             tr = tr @ [PcFleetUpsert dryReq]
         in case pe_UpsertPipeline E tr of
              Inl err \<Rightarrow>
                (pipeline_emitEvent R EventWarning ''Migrated'' tr,
                 Inl (WrapError ''name-scope migration dry-run failed: '' err []))
            | Inr _ \<Rightarrow>
                (let tr = tr @ [PcFleetDelete (pst_ID (pl_status p))]
                 in case pe_DeletePipeline E tr of
                      Some err \<Rightarrow>
                        (tr, Inl (WrapError (''name-scope migration delete of pipeline '' @
                               go_quote (pst_ID (pl_status p)) @ '' failed: '') err []))
                    | None \<Rightarrow>
                        (pipeline_emitEvent R EventNormal ''Migrated'' tr,
                         Inr (p\<lparr>pl_status := (pl_status p)\<lparr>pst_ID := []\<rparr>\<rparr>)))))"

definition pipeline_reconcileNormal ::
  "PipelineReconciler \<Rightarrow> penv \<Rightarrow> Pipeline \<Rightarrow> pcall list \<Rightarrow> pcall rres" where
  "pipeline_reconcileNormal R E p tr =
     (case migratePipelineName R E p tr of
        (tr, Inl err) \<Rightarrow> pipeline_handleAPIError R E p err tr
      | (tr, Inr p) \<Rightarrow>
          (let tr = tr @ [PcFleetUpsert (buildUpsertRequest R p)]
           in case pe_UpsertPipeline E tr of
                Inl err \<Rightarrow> pipeline_handleAPIError R E p err tr
              | Inr api \<Rightarrow> pipeline_updateStatusSuccess R E p api tr))"

definition reconcileReadOnly ::
  "PipelineReconciler \<Rightarrow> penv \<Rightarrow> Pipeline \<Rightarrow> pcall list \<Rightarrow> pcall rres" where
  "reconcileReadOnly R E p tr =
     (let ident = readOnlyPipelineID p
      in if ident = [] then
           (let err = PlainError (''read-only pipeline '' @ om_namespace (pl_meta p) @ ''/'' @
                        om_name (pl_meta p) @ '' has no Fleet pipeline ID in status.id or '' @
                        FleetPipelineIDAnnotation @ '' annotation'')
            in pipeline_updateStatusError R E p reasonValidationError err
                 (pipeline_emitEvent R EventWarning reasonReadOnly tr))
         else
           (let tr = tr @ [PcFleetGet ident]
            in case pe_GetPipeline E tr of
                 Inl err \<Rightarrow> handleReadOnlyAPIError R E p err tr
               | Inr api \<Rightarrow>
                   updateStatusReadOnly R E p
                     (if fp_ID api = [] then api\<lparr>fp_ID := ident\<rparr> else api) tr))"

definition pipeline_removeFinalizer ::
  "PipelineReconciler \<Rightarrow> penv \<Rightarrow> Pipeline \<Rightarrow> pcall list \<Rightarrow> pcall rres" where
  "pipeline_removeFinalizer R E p tr =
     (let p = p\<lparr>pl_meta := (pl_meta p)\<lparr>om_finalizers :=
                 RemoveFinalizer (pr_klib R) (om_finalizers (pl_meta p)) pipelineFinalizer\<rparr>\<rparr>;
          tr = tr @ [PcUpdate p]
      in case pe_Update E tr of
           Some err \<Rightarrow> ret tr done_result (Some err) reasonSyncFailed
         | None \<Rightarrow> ret tr done_result None outcomeDeleted)"

definition pipeline_reconcileDelete ::
  "PipelineReconciler \<Rightarrow> penv \<Rightarrow> Pipeline \<Rightarrow> pcall list \<Rightarrow> pcall rres" where
  "pipeline_reconcileDelete R E p tr =
     (if \<not> ContainsFinalizer (pr_klib R) (om_finalizers (pl_meta p)) pipelineFinalizer
      then ret tr done_result None outcomeNoOp
      else if isReadOnly p then pipeline_removeFinalizer R E p tr
      else if pst_ID (pl_status p) \<noteq> [] then
        (let tr = tr @ [PcFleetDelete (pst_ID (pl_status p))]
         in case pe_DeletePipeline E tr of
              Some err \<Rightarrow>
                if (case err of FleetAPIError st oper msg pid w \<Rightarrow> st = 404 | _ \<Rightarrow> False)
                then pipeline_removeFinalizer R E p (pipeline_emitEvent R EventNormal ''Deleted'' tr)
                else pipeline_updateStatusError R E p reasonDeleteFailed err
                       (pipeline_emitEvent R EventWarning ''DeleteFailed'' tr)
            | None \<Rightarrow> pipeline_removeFinalizer R E p (pipeline_emitEvent R EventNormal ''Deleted'' tr))
      else pipeline_removeFinalizer R E p tr)"

definition pipeline_Reconcile :: "PipelineReconciler \<Rightarrow> penv \<Rightarrow> nsname \<Rightarrow> pcall rres" where
  "pipeline_Reconcile R E req =
     (let tr = [PcGet req]
      in case pe_Get E tr of
           Inl err \<Rightarrow>
             if is_not_found err then ret tr done_result None outcomeNotFound
             else ret tr done_result (Some err) reasonSyncFailed
         | Inr p \<Rightarrow>
             if om_deleting (pl_meta p) then pipeline_reconcileDelete R E p tr
             else if \<not> ContainsFinalizer (pr_klib R) (om_finalizers (pl_meta p)) pipelineFinalizer then
               (let p = p\<lparr>pl_meta := (pl_meta p)\<lparr>om_finalizers :=
                           AddFinalizer (pr_klib R) (om_finalizers (pl_meta p)) pipelineFinalizer\<rparr>\<rparr>;
                    tr = tr @ [PcUpdate p]
                in case pe_Update E tr of
                     Some err \<Rightarrow> ret tr done_result (Some err) reasonSyncFailed
                   | None \<Rightarrow> ret tr done_result None outcomeNoOp)
             else if isPaused p then ret tr done_result None outcomeNoOp
             else
               (let readOnly = isReadOnly p;
                    p = backfillSyncedName p;
                    namePending = (\<not> readOnly \<and> pst_ID (pl_status p) \<noteq> [] \<and>
                                   pst_SyncedName (pl_status p) \<noteq> [] \<and>
                                   DesiredFleetName p (pr_NameScope R) \<noteq> pst_SyncedName (pl_status p))
                in if \<not> namePending \<and> pst_ObservedGeneration (pl_status p) = om_generation (pl_meta p) \<and>
                      pipelineReconcileModeObserved (pr_klib R) p readOnly
                   then ret tr done_result None outcomeNoOp
                   else if readOnly then reconcileReadOnly R E p tr
                   else pipeline_reconcileNormal R E p tr))"

section \<open>What each method may call\<close>

text \<open>Events and status writes are the calls every method may make.\<close>

definition benign :: "(pcall \<Rightarrow> bool) \<Rightarrow> bool" where
  "benign Q \<longleftrightarrow> (\<forall>t r. Q (PcEvent t r)) \<and> (\<forall>p. Q (PcStatusUpdate p))"

lemma benignD [simp]: "benign Q \<Longrightarrow> Q (PcEvent t r)" "benign Q \<Longrightarrow> Q (PcStatusUpdate p)"
  by (simp_all add: benign_def)

lemma emitEvent_extends [trace_intros]:
  "benign Q \<Longrightarrow> extends Q tr0 tr \<Longrightarrow> extends Q tr0 (pipeline_emitEvent R t r tr)"
  by (auto simp: pipeline_emitEvent_def intro!: extends_append)

lemma updateStatusSuccess_extends [trace_intros]:
  "benign Q \<Longrightarrow> extends Q tr0 tr \<Longrightarrow>
   extends Q tr0 (rr_trace (pipeline_updateStatusSuccess R E p api tr))"
  by (auto simp: pipeline_updateStatusSuccess_def Let_def split: option.splits intro!: trace_intros)

lemma updateStatusReadOnly_extends [trace_intros]:
  "benign Q \<Longrightarrow> extends Q tr0 tr \<Longrightarrow>
   extends Q tr0 (rr_trace (updateStatusReadOnly R E p api tr))"
  by (auto simp: updateStatusReadOnly_def Let_def split: option.splits intro!: trace_intros)

lemma updateStatusError_extends [trace_intros]:
  "benign Q \<Longrightarrow> extends Q tr0 tr \<Longrightarrow>
   extends Q tr0 (rr_trace (pipeline_updateStatusError R E p reason err tr))"
  by (auto simp: pipeline_updateStatusError_def Let_def split: option.splits intro!: trace_intros)

lemma handleReadOnlyAPIError_extends [trace_intros]:
  "benign Q \<Longrightarrow> extends Q tr0 tr \<Longrightarrow>
   extends Q tr0 (rr_trace (handleReadOnlyAPIError R E p err tr))"
  by (auto simp: handleReadOnlyAPIError_def Let_def split: option.splits intro!: trace_intros)

lemma rr_trace_outcome [simp]: "rr_trace (r\<lparr>rr_outcome := x\<rparr>) = rr_trace r"
  by simp

lemma buildUpsertRequest_simps [simp]:
  "\<not> ur_ValidateOnly (buildUpsertRequest R p)"
  "buildUpsertRequest R (p\<lparr>pl_status := st\<rparr>) = buildUpsertRequest R p"
  using reads_meta_spec [of "p\<lparr>pl_status := st\<rparr>" p] DesiredFleetName_meta_spec [of "p\<lparr>pl_status := st\<rparr>" p]
  by (simp_all add: buildUpsertRequest_def)

lemma handleAPIError_extends [trace_intros]:
  "benign Q \<Longrightarrow> Q (PcFleetUpsert (buildUpsertRequest R p)) \<Longrightarrow> extends Q tr0 tr \<Longrightarrow>
   extends Q tr0 (rr_trace (pipeline_handleAPIError R E p err tr))"
proof (induction R E p err tr rule: pipeline_handleAPIError.induct)
  case (1 R E p err tr)
  show ?case
    by (subst pipeline_handleAPIError.simps)
      (auto simp: Let_def split: option.splits sum.splits intro!: trace_intros 1)
qed

text \<open>A migration makes its dry run and then its one delete.\<close>

lemma migratePipelineName_extends:
  assumes "benign Q" "extends Q tr0 tr"
    and "migration_due R p \<Longrightarrow> Q (PcFleetUpsert ((buildUpsertRequest R p)\<lparr>ur_ValidateOnly := True\<rparr>))"
    and "migration_due R p \<Longrightarrow> Q (PcFleetDelete (pst_ID (pl_status p)))"
  shows "extends Q tr0 (fst (migratePipelineName R E p tr))"
  using assms
  by (auto simp: migratePipelineName_def Let_def split: option.splits sum.splits intro!: trace_intros)

lemma migratePipelineName_request:
  "migratePipelineName R E p tr = (tr', Inr q) \<Longrightarrow> buildUpsertRequest R q = buildUpsertRequest R p"
  by (auto simp: migratePipelineName_def Let_def split: if_splits option.splits sum.splits)

lemma reconcileNormal_extends [trace_intros]:
  assumes "benign Q" "\<And>b. Q (PcFleetUpsert ((buildUpsertRequest R p)\<lparr>ur_ValidateOnly := b\<rparr>))"
    and "migration_due R p \<Longrightarrow> Q (PcFleetDelete (pst_ID (pl_status p)))"
    and "extends Q tr0 tr"
  shows "extends Q tr0 (rr_trace (pipeline_reconcileNormal R E p tr))"
proof -
  have "(buildUpsertRequest R p)\<lparr>ur_ValidateOnly := False\<rparr> = buildUpsertRequest R p"
    by (simp add: buildUpsertRequest_def)
  then have u: "Q (PcFleetUpsert (buildUpsertRequest R p))"
    by (metis assms(2))
  have m: "extends Q tr0 (fst (migratePipelineName R E p tr))"
    using assms by (intro migratePipelineName_extends)
  show ?thesis
  proof (cases "migratePipelineName R E p tr")
    case (Pair tr' r)
    with m have t: "extends Q tr0 tr'" by simp
    have q: "Q (PcFleetUpsert (buildUpsertRequest R q))" if "r = Inr q" for q
      using migratePipelineName_request Pair that u by simp
    show ?thesis
    proof (cases r)
      case (Inl err)
      with Pair t u assms(1) show ?thesis
        by (auto simp: pipeline_reconcileNormal_def intro!: trace_intros)
    next
      case (Inr q)
      with Pair t q assms(1) show ?thesis
        by (auto simp: pipeline_reconcileNormal_def Let_def split: sum.splits intro!: trace_intros)
    qed
  qed
qed

lemma reconcileReadOnly_extends [trace_intros]:
  assumes "benign Q" "\<And>i. Q (PcFleetGet i)" "extends Q tr0 tr"
  shows "extends Q tr0 (rr_trace (reconcileReadOnly R E p tr))"
  using assms
  by (auto simp: reconcileReadOnly_def Let_def split: sum.splits intro!: trace_intros)

lemma removeFinalizer_extends [trace_intros]:
  assumes "benign Q" "\<And>q. Q (PcUpdate q)" "extends Q tr0 tr"
  shows "extends Q tr0 (rr_trace (pipeline_removeFinalizer R E p tr))"
  using assms
  by (auto simp: pipeline_removeFinalizer_def Let_def split: option.splits intro!: trace_intros)

lemma reconcileDelete_extends [trace_intros]:
  assumes "benign Q" "\<And>q. Q (PcUpdate q)"
    and "\<not> isReadOnly p \<Longrightarrow> pst_ID (pl_status p) \<noteq> [] \<Longrightarrow>
         ContainsFinalizer (pr_klib R) (om_finalizers (pl_meta p)) pipelineFinalizer \<Longrightarrow>
         Q (PcFleetDelete (pst_ID (pl_status p)))"
    and "extends Q tr0 tr"
  shows "extends Q tr0 (rr_trace (pipeline_reconcileDelete R E p tr))"
  using assms
  by (auto simp: pipeline_reconcileDelete_def Let_def split: option.splits intro!: trace_intros)

section \<open>Safety of one reconcile\<close>

fun is_fleet_write :: "pcall \<Rightarrow> bool" where
  "is_fleet_write (PcFleetUpsert r) = True"
| "is_fleet_write (PcFleetDelete i) = True"
| "is_fleet_write _ = False"

fun is_fleet_call :: "pcall \<Rightarrow> bool" where
  "is_fleet_call (PcFleetGet i) = True"
| "is_fleet_call c = is_fleet_write c"

fun is_write :: "pcall \<Rightarrow> bool" where
  "is_write (PcUpdate p) = True"
| "is_write (PcStatusUpdate p) = True"
| "is_write c = is_fleet_write c"

lemma backfill_simps [simp]:
  "pst_ID (pl_status (backfillSyncedName p)) = pst_ID (pl_status p)"
  "pl_meta (backfillSyncedName p) = pl_meta p"
  "pl_spec (backfillSyncedName p) = pl_spec p"
  "pst_ObservedGeneration (pl_status (backfillSyncedName p)) = pst_ObservedGeneration (pl_status p)"
  "pst_Conditions (pl_status (backfillSyncedName p)) = pst_Conditions (pl_status p)"
  by (simp_all add: backfillSyncedName_def Let_def)

lemma same_meta_spec:
  assumes "pl_meta q = pl_meta p" "pl_spec q = pl_spec p"
  shows "isReadOnly q = isReadOnly p" "isPaused q = isPaused p"
    and "buildUpsertRequest R q = buildUpsertRequest R p"
  by (simp_all add: isReadOnly_def isPaused_def buildUpsertRequest_def assms
      reads_meta_spec [OF assms] DesiredFleetName_meta_spec [OF assms])

lemma backfill_reads [simp]:
  "isReadOnly (backfillSyncedName p) = isReadOnly p"
  "DesiredFleetName (backfillSyncedName p) sc = DesiredFleetName p sc"
  "buildUpsertRequest R (backfillSyncedName p) = buildUpsertRequest R p"
  "readOnlyPipelineID (backfillSyncedName p) = readOnlyPipelineID p"
  using same_meta_spec [of "backfillSyncedName p" p] DesiredFleetName_meta_spec [of "backfillSyncedName p" p]
  by (simp_all add: readOnlyPipelineID_def Let_def)

lemma benign_fleet [simp]:
  "benign (\<lambda>c. \<not> is_fleet_write c)" "benign (\<lambda>c. \<not> is_fleet_call c)"
  by (simp_all add: benign_def)

text \<open>The finalizer is there from the first call on Fleet Management to the last.\<close>

abbreviation has_finalizer :: "PipelineReconciler \<Rightarrow> Pipeline \<Rightarrow> bool" where
  "has_finalizer R p \<equiv> ContainsFinalizer (pr_klib R) (om_finalizers (pl_meta p)) pipelineFinalizer"

text \<open>A rule for all safety properties of \<open>Reconcile\<close>: what each branch may call.\<close>

lemma Reconcile_extends:
  assumes "benign Q"
    and "\<And>p q. pe_Get E [PcGet req] = Inr p \<Longrightarrow> om_deleting (pl_meta p) \<or> \<not> has_finalizer R p \<Longrightarrow>
           Q (PcUpdate q)"
    and "\<And>p i. pe_Get E [PcGet req] = Inr p \<Longrightarrow> has_finalizer R p \<Longrightarrow> isReadOnly p \<Longrightarrow>
           \<not> isPaused p \<Longrightarrow> Q (PcFleetGet i)"
    and "\<And>p b. pe_Get E [PcGet req] = Inr p \<Longrightarrow> has_finalizer R p \<Longrightarrow> \<not> isReadOnly p \<Longrightarrow>
           \<not> isPaused p \<Longrightarrow> \<not> om_deleting (pl_meta p) \<Longrightarrow>
           Q (PcFleetUpsert ((buildUpsertRequest R p)\<lparr>ur_ValidateOnly := b\<rparr>))"
    and "\<And>p. pe_Get E [PcGet req] = Inr p \<Longrightarrow> has_finalizer R p \<Longrightarrow> \<not> isReadOnly p \<Longrightarrow>
           pst_ID (pl_status p) \<noteq> [] \<Longrightarrow>
           om_deleting (pl_meta p) \<or> (\<not> isPaused p \<and> migration_due R (backfillSyncedName p)) \<Longrightarrow>
           Q (PcFleetDelete (pst_ID (pl_status p)))"
  shows "extends Q [PcGet req] (rr_trace (pipeline_Reconcile R E req))"
proof (cases "pe_Get E [PcGet req]")
  case (Inr p)
  consider "om_deleting (pl_meta p)"
    | "\<not> om_deleting (pl_meta p)" "\<not> has_finalizer R p"
    | "\<not> om_deleting (pl_meta p)" "has_finalizer R p" "isPaused p"
    | "\<not> om_deleting (pl_meta p)" "has_finalizer R p" "\<not> isPaused p" "isReadOnly p"
    | "\<not> om_deleting (pl_meta p)" "has_finalizer R p" "\<not> isPaused p" "\<not> isReadOnly p"
    by blast
  then show ?thesis
  proof cases
    case 1
    have "extends Q [PcGet req] (rr_trace (pipeline_reconcileDelete R E p [PcGet req]))"
      using assms(1) assms(2) [OF Inr] assms(5) [OF Inr] 1
      by (intro reconcileDelete_extends extends_refl) auto
    with 1 Inr show ?thesis by (simp add: pipeline_Reconcile_def)
  next
    case 2
    with Inr assms(2) [OF Inr] show ?thesis
      by (auto simp: pipeline_Reconcile_def Let_def extends_def split: option.splits)
  next
    case 3
    with Inr show ?thesis by (simp add: pipeline_Reconcile_def extends_refl)
  next
    case 4
    have "extends Q [PcGet req]
            (rr_trace (reconcileReadOnly R E (backfillSyncedName p) [PcGet req]))"
      using assms(1) assms(3) [OF Inr] 4 by (intro reconcileReadOnly_extends extends_refl) auto
    with 4 Inr show ?thesis by (simp add: pipeline_Reconcile_def Let_def extends_refl)
  next
    case 5
    have "extends Q [PcGet req]
            (rr_trace (pipeline_reconcileNormal R E (backfillSyncedName p) [PcGet req]))"
    proof (intro reconcileNormal_extends extends_refl)
      show "Q (PcFleetDelete (pst_ID (pl_status (backfillSyncedName p))))"
        if "migration_due R (backfillSyncedName p)"
        using that 5 assms(5) [OF Inr] by (simp add: migration_due_def)
    qed (use assms(1) assms(4) [OF Inr] 5 in auto)
    with 5 Inr show ?thesis by (simp add: pipeline_Reconcile_def Let_def extends_refl)
  qed
qed (simp add: pipeline_Reconcile_def Let_def extends_refl)

text \<open>
  C1: a read-only pipeline (Grafana-sourced, or imported read-only) is never written to Fleet
  Management: no upsert and no delete, on no path, not even when the resource is deleted.
\<close>

theorem read_only_never_written:
  assumes "pe_Get E [PcGet req] = Inr p" and "isReadOnly p"
  shows "\<not> list_ex is_fleet_write (rr_trace (pipeline_Reconcile R E req))"
proof -
  have "extends (\<lambda>c. \<not> is_fleet_write c) [PcGet req] (rr_trace (pipeline_Reconcile R E req))"
    using assms by (intro Reconcile_extends) auto
  then show ?thesis by (auto simp: extends_def list_ex_iff list_all_iff)
qed

text \<open>
  C2: the finalizer deletes by the controller-written status only: every delete call names
  the status ID of the object the reconcile read (never the user-settable annotation), and is
  made only for a managed pipeline that carries the finalizer and is being deleted or renamed.
\<close>

theorem fleet_delete_only_by_status_id:
  assumes "PcFleetDelete i \<in> set (rr_trace (pipeline_Reconcile R E req))"
  shows "\<exists>p. pe_Get E [PcGet req] = Inr p \<and> i = pst_ID (pl_status p) \<and> i \<noteq> [] \<and> \<not> isReadOnly p \<and>
           has_finalizer R p \<and>
           (om_deleting (pl_meta p) \<or> (\<not> isPaused p \<and> migration_due R (backfillSyncedName p)))"
proof -
  let ?ok = "\<lambda>i. \<exists>p. pe_Get E [PcGet req] = Inr p \<and> i = pst_ID (pl_status p) \<and> i \<noteq> [] \<and>
       \<not> isReadOnly p \<and> has_finalizer R p \<and>
       (om_deleting (pl_meta p) \<or> (\<not> isPaused p \<and> migration_due R (backfillSyncedName p)))"
  let ?Q = "\<lambda>c. \<forall>i. c = PcFleetDelete i \<longrightarrow> ?ok i"
  have "extends ?Q [PcGet req] (rr_trace (pipeline_Reconcile R E req))"
    by (rule Reconcile_extends) (auto simp: benign_def)
  then have "PcFleetDelete i \<in> set [PcGet req] \<or> ?Q (PcFleetDelete i)"
    using assms by (rule extends_set)
  then show ?thesis by simp
qed

text \<open>
  The finalizer is persisted before anything is created in Fleet Management: while the
  object read has no finalizer, the reconcile makes no Fleet call, and for an object that is
  not being deleted it writes exactly the object with the finalizer added.
\<close>

theorem finalizer_before_fleet:
  assumes "klib_ok (pr_klib R)" and "pe_Get E [PcGet req] = Inr p"
    and "pipelineFinalizer \<notin> set (om_finalizers (pl_meta p))"
  shows "\<not> list_ex is_fleet_call (rr_trace (pipeline_Reconcile R E req)) \<and>
         (\<not> om_deleting (pl_meta p) \<longrightarrow>
            (\<exists>q. rr_trace (pipeline_Reconcile R E req) = [PcGet req, PcUpdate q] \<and>
               pipelineFinalizer \<in> set (om_finalizers (pl_meta q)) \<and>
               pl_spec q = pl_spec p \<and> pl_status q = pl_status p))"
  using assms
  by (auto simp: pipeline_Reconcile_def pipeline_reconcileDelete_def klib_contains klib_add Let_def
      split: option.splits)

text \<open>
  A paused pipeline that is not being deleted is left alone: once it has its finalizer the
  reconcile reads it and does nothing else.
\<close>

theorem paused_is_left_alone:
  assumes "pe_Get E [PcGet req] = Inr p" and "isPaused p" "\<not> om_deleting (pl_meta p)"
    and "has_finalizer R p"
  shows "pipeline_Reconcile R E req = ret [PcGet req] done_result None outcomeNoOp"
  using assms by (simp add: pipeline_Reconcile_def)

section \<open>Bounds\<close>

fun is_upsert :: "pcall \<Rightarrow> bool" where
  "is_upsert (PcFleetUpsert r) = True"
| "is_upsert _ = False"

fun is_status_write :: "pcall \<Rightarrow> bool" where
  "is_status_write (PcStatusUpdate p) = True"
| "is_status_write _ = False"

definition count_calls :: "(pcall \<Rightarrow> bool) \<Rightarrow> pcall list \<Rightarrow> nat" where
  "count_calls f tr = length (filter f tr)"

lemma count_calls_simps [simp]:
  "count_calls f [] = 0"
  "count_calls f (tr @ tr') = count_calls f tr + count_calls f tr'"
  "count_calls f (c # tr) = (if f c then Suc (count_calls f tr) else count_calls f tr)"
  by (simp_all add: count_calls_def)

lemma count_emit [simp]:
  "count_calls is_upsert (pipeline_emitEvent R t r tr) = count_calls is_upsert tr"
  "count_calls is_status_write (pipeline_emitEvent R t r tr) = count_calls is_status_write tr"
  by (simp_all add: pipeline_emitEvent_def)

lemma count_updateStatus [simp]:
  "count_calls is_upsert (rr_trace (pipeline_updateStatusSuccess R E p api tr)) = count_calls is_upsert tr"
  "count_calls is_upsert (rr_trace (pipeline_updateStatusError R E p reason err tr)) = count_calls is_upsert tr"
  "count_calls is_upsert (rr_trace (updateStatusReadOnly R E p api tr)) = count_calls is_upsert tr"
  "count_calls is_status_write (rr_trace (pipeline_updateStatusSuccess R E p api tr)) =
     Suc (count_calls is_status_write tr)"
  "count_calls is_status_write (rr_trace (pipeline_updateStatusError R E p reason err tr)) =
     Suc (count_calls is_status_write tr)"
  "count_calls is_status_write (rr_trace (updateStatusReadOnly R E p api tr)) =
     Suc (count_calls is_status_write tr)"
  by (simp_all add: pipeline_updateStatusSuccess_def pipeline_updateStatusError_def
      updateStatusReadOnly_def Let_def split: option.splits)

lemma count_handleAPIError:
  "count_calls is_upsert (rr_trace (pipeline_handleAPIError R E p err tr)) \<le>
     count_calls is_upsert tr + (if pst_ID (pl_status p) = [] then 0 else 1) \<and>
   count_calls is_status_write (rr_trace (pipeline_handleAPIError R E p err tr)) \<le>
     Suc (count_calls is_status_write tr)"
proof (induction R E p err tr rule: pipeline_handleAPIError.induct)
  case (1 R E p err tr)
  show ?case
  proof (cases "as_fleet err")
    case (Some apiErr)
    with 1 show ?thesis
      by (subst (1 2) pipeline_handleAPIError.simps)
        (auto simp: Let_def split: sum.splits)
  qed (subst (1 2) pipeline_handleAPIError.simps, simp)
qed

lemma count_reconcileNormal:
  "count_calls is_upsert (rr_trace (pipeline_reconcileNormal R E p tr)) \<le> count_calls is_upsert tr + 2 \<and>
   count_calls is_status_write (rr_trace (pipeline_reconcileNormal R E p tr)) \<le>
     Suc (count_calls is_status_write tr)"
proof (cases "migratePipelineName R E p tr")
  case (Pair tr' res)
  have m: "count_calls is_status_write tr' = count_calls is_status_write tr"
    "count_calls is_upsert tr' \<le> Suc (count_calls is_upsert tr)"
    "\<And>q. res = Inr q \<Longrightarrow> count_calls is_upsert tr' + (if pst_ID (pl_status q) = [] then 0 else 1)
                          \<le> Suc (count_calls is_upsert tr)"
    using Pair
    by (auto simp: migratePipelineName_def Let_def split: if_splits sum.splits option.splits)
  show ?thesis
  proof (cases res)
    case (Inl err)
    with Pair m count_handleAPIError [of R E p err tr'] show ?thesis
      by (simp add: pipeline_reconcileNormal_def split: if_splits)
  next
    case (Inr q)
    let ?tr = "tr' @ [PcFleetUpsert (buildUpsertRequest R q)]"
    show ?thesis
    proof (cases "pe_UpsertPipeline E ?tr")
      case (Inl err)
      with Pair Inr m(1) m(3) [OF Inr] count_handleAPIError [of R E q err ?tr] show ?thesis
        by (simp add: pipeline_reconcileNormal_def Let_def)
    qed (use Pair Inr m in \<open>simp add: pipeline_reconcileNormal_def Let_def\<close>)
  qed
qed

lemma count_other:
  "count_calls is_upsert (rr_trace (reconcileReadOnly R E p tr)) = count_calls is_upsert tr"
  "count_calls is_status_write (rr_trace (reconcileReadOnly R E p tr)) \<le> Suc (count_calls is_status_write tr)"
  "count_calls is_upsert (rr_trace (pipeline_reconcileDelete R E p tr)) = count_calls is_upsert tr"
  "count_calls is_status_write (rr_trace (pipeline_reconcileDelete R E p tr)) \<le> Suc (count_calls is_status_write tr)"
  by (auto simp: reconcileReadOnly_def handleReadOnlyAPIError_def pipeline_reconcileDelete_def
      pipeline_removeFinalizer_def Let_def split: option.splits sum.splits)

text \<open>
  A reconcile is bounded whatever the servers answer: at most two upserts (the dry run of
  a migration, or the one recreation after a 404, on top of the upsert itself) and at most one
  status write, so the recursion after a 404 cannot run away.
\<close>

theorem reconcile_call_bounds:
  "count_calls is_upsert (rr_trace (pipeline_Reconcile R E req)) \<le> 2 \<and>
   count_calls is_status_write (rr_trace (pipeline_Reconcile R E req)) \<le> 1"
proof (cases "pe_Get E [PcGet req]")
  case (Inr p)
  let ?q = "backfillSyncedName p"
  show ?thesis
    using Inr count_reconcileNormal [of R E ?q "[PcGet req]"] count_other(1,2) [of R E ?q "[PcGet req]"]
      count_other(3,4) [of R E p "[PcGet req]"]
    by (simp add: pipeline_Reconcile_def Let_def split: option.splits)
qed (simp add: pipeline_Reconcile_def Let_def)

section \<open>Migration\<close>

lemma not_delete_extends_prefix:
  assumes "extends (\<lambda>c. \<forall>i. c \<noteq> PcFleetDelete i) tr tr'" "PcFleetDelete i \<in> set tr'"
  shows "PcFleetDelete i \<in> set tr"
  using extends_set [OF assms] by blast

text \<open>
  C10: a managed pipeline is deleted for a rename only after Fleet Management accepted the
  renamed pipeline in a dry run: the delete is the third call, right after a validate-only
  upsert of the pipeline under its new name that was answered without an error.
\<close>

theorem rename_delete_after_dry_run:
  assumes "pe_Get E [PcGet req] = Inr p" "\<not> om_deleting (pl_meta p)"
    and "PcFleetDelete i \<in> set (rr_trace (pipeline_Reconcile R E req))"
  shows "\<exists>dry rest.
           rr_trace (pipeline_Reconcile R E req) = [PcGet req, PcFleetUpsert dry, PcFleetDelete i] @ rest \<and>
           ur_ValidateOnly dry \<and> fp_Name (ur_Pipeline dry) = DesiredFleetName p (pr_NameScope R) \<and>
           (\<exists>api. pe_UpsertPipeline E [PcGet req, PcFleetUpsert dry] = Inr api)"
proof -
  let ?Q = "\<lambda>c. \<forall>i. c \<noteq> PcFleetDelete i"
  have b: "benign ?Q" by (simp add: benign_def)
  define q where "q = backfillSyncedName p"
  obtain p' where p': "p' = p" "has_finalizer R p'" "\<not> isReadOnly p'" "\<not> isPaused p'"
    "migration_due R q" "i = pst_ID (pl_status p')"
    using fleet_delete_only_by_status_id [OF assms(3)] assms(1,2) by (auto simp: q_def)
  define dry where "dry = (buildUpsertRequest R q)\<lparr>ur_ValidateOnly := True\<rparr>"
  have run: "rr_trace (pipeline_Reconcile R E req) = rr_trace (pipeline_reconcileNormal R E q [PcGet req])"
    using assms(1,2) p' by (simp add: pipeline_Reconcile_def q_def migration_due_def Let_def)
  moreover obtain api where api: "pe_UpsertPipeline E [PcGet req, PcFleetUpsert dry] = Inr api"
  proof (cases "pe_UpsertPipeline E [PcGet req, PcFleetUpsert dry]")
    case (Inl err)
    let ?tr = "pipeline_emitEvent R EventWarning ''Migrated'' [PcGet req, PcFleetUpsert dry]"
    let ?err = "WrapError ''name-scope migration dry-run failed: '' err []"
    have "rr_trace (pipeline_reconcileNormal R E q [PcGet req]) =
            rr_trace (pipeline_handleAPIError R E q ?err ?tr)"
      using Inl p' by (simp add: pipeline_reconcileNormal_def migratePipelineName_def dry_def Let_def)
    moreover have "extends ?Q [PcGet req, PcFleetUpsert dry] (rr_trace (pipeline_handleAPIError R E q ?err ?tr))"
      using b by (intro trace_intros) auto
    ultimately show ?thesis
      using not_delete_extends_prefix [of "[PcGet req, PcFleetUpsert dry]"] assms(3) run by fastforce
  qed
  moreover have "\<exists>rest. rr_trace (pipeline_reconcileNormal R E q [PcGet req]) =
        [PcGet req, PcFleetUpsert dry, PcFleetDelete i] @ rest"
  proof -
    have "extends (\<lambda>_. True) [PcGet req, PcFleetUpsert dry, PcFleetDelete i]
            (rr_trace (pipeline_reconcileNormal R E q [PcGet req]))"
      using p' api unfolding pipeline_reconcileNormal_def migratePipelineName_def dry_def [symmetric]
      by (auto simp: Let_def q_def benign_def split: option.splits sum.splits intro!: trace_intros)
    then show ?thesis by (auto simp: extends_def)
  qed
  moreover have "ur_ValidateOnly dry" "fp_Name (ur_Pipeline dry) = DesiredFleetName p (pr_NameScope R)"
    by (simp_all add: dry_def buildUpsertRequest_def q_def)
  ultimately show ?thesis by metis
qed

section \<open>Outcomes\<close>

lemma set_cond_simps [simp]:
  "pst_ID (set_cond K c st) = pst_ID st"
  "pst_SyncedName (set_cond K c st) = pst_SyncedName st"
  "pst_ObservedGeneration (set_cond K c st) = pst_ObservedGeneration st"
  "pst_Conditions (set_cond K c st) = SetStatusCondition K (pst_Conditions st) c"
  by (simp_all add: set_cond_def)

lemma set_times_simps [simp]:
  "pst_ID (set_times api st) = pst_ID st"
  "pst_SyncedName (set_times api st) = pst_SyncedName st"
  "pst_ObservedGeneration (set_times api st) = pst_ObservedGeneration st"
  "pst_Conditions (set_times api st) = pst_Conditions st"
  by (simp_all add: set_times_def Let_def split: option.splits)

lemma success_status_simps [simp]:
  "pst_ID (success_status K p api) = fp_ID api"
  "pst_SyncedName (success_status K p api) = fp_Name api"
  "pst_ObservedGeneration (success_status K p api) = om_generation (pl_meta p)"
  by (simp_all add: success_status_def Let_def)

lemma error_status_simps [simp]:
  "pst_ID (error_status K p reason err) = pst_ID (pl_status p)"
  "pst_SyncedName (error_status K p reason err) = pst_SyncedName (pl_status p)"
  "pst_ObservedGeneration (error_status K p reason err) =
     (if shouldRetry err reason then pst_ObservedGeneration (pl_status p)
      else om_generation (pl_meta p))"
  by (simp_all add: error_status_def Let_def)

text \<open>The condition \<open>Ready\<close> of a status, as the library finds it.\<close>

definition ready_cond :: "klib \<Rightarrow> PipelineStatus \<Rightarrow> cond option" where
  "ready_cond K st = FindStatusCondition K (pst_Conditions st) conditionTypeReady"

lemma ready_success:
  "klib_ok K \<Longrightarrow> \<exists>c. ready_cond K (success_status K p api) = Some c \<and>
     cnd_status c = CTrue \<and> cnd_reason c = reasonSynced"
  by (simp add: ready_cond_def success_status_def Let_def klib_find klib_set)

lemma ready_error:
  "klib_ok K \<Longrightarrow> \<exists>c. ready_cond K (error_status K p reason err) = Some c \<and>
     cnd_status c = CFalse \<and> cnd_reason c = reason"
  by (simp add: ready_cond_def error_status_def Let_def klib_find klib_set)

text \<open>A status from which the next reconcile of a managed pipeline concludes there is no work.\<close>

lemma settled_is_noop:
  assumes "pe_Get E [PcGet req] = Inr q" "\<not> om_deleting (pl_meta q)" "has_finalizer R q"
    and "\<not> isReadOnly q" "\<not> migration_due R (backfillSyncedName q)"
    and "pst_ObservedGeneration (pl_status q) = om_generation (pl_meta q)"
    and "ready_cond (pr_klib R) (pl_status q) = Some c" "cnd_reason c \<noteq> reasonReadOnly"
  shows "pipeline_Reconcile R E req = ret [PcGet req] done_result None outcomeNoOp"
  using assms
  by (simp add: pipeline_Reconcile_def Let_def migration_due_def pipelineReconcileModeObserved_def
      ready_cond_def)

text \<open>
  What a failure that is not retried must leave behind: its last call is the write of a status
  that records it as final for this generation, and the API server did not answer that write
  with a conflict, which would have been retried.
\<close>

definition recorded_final :: "klib \<Rightarrow> penv \<Rightarrow> pcall rres \<Rightarrow> bool" where
  "recorded_final K E r \<longleftrightarrow>
     rr_result r = done_result \<and>
     (\<exists>before q c. rr_trace r = before @ [PcStatusUpdate q] \<and>
        pst_ObservedGeneration (pl_status q) = om_generation (pl_meta q) \<and>
        ready_cond K (pl_status q) = Some c \<and> cnd_status c = CFalse \<and> cnd_reason c = rr_outcome r) \<and>
     (case pe_StatusUpdate E (rr_trace r) of None \<Rightarrow> True | Some e \<Rightarrow> \<not> is_conflict e)"

definition verdict_ok :: "klib \<Rightarrow> penv \<Rightarrow> pcall rres \<Rightarrow> bool" where
  "verdict_ok K E r \<longleftrightarrow>
     (rr_outcome r \<in> {reasonValidationError, reasonSyncFailed, reasonDeleteFailed} \<and> rr_err r = None \<longrightarrow>
        recorded_final K E r) \<and>
     (rr_outcome r = reasonValidationError \<longrightarrow> rr_err r = None)"

lemma set_emit: "set tr \<subseteq> set (pipeline_emitEvent R t r tr)"
  by (auto simp: pipeline_emitEvent_def)

lemma verdict_updateStatusError:
  assumes "klib_ok (pr_klib R)"
  shows "verdict_ok (pr_klib R) E (pipeline_updateStatusError R E p reason err tr)"
proof -
  obtain c where c: "ready_cond (pr_klib R) (error_status (pr_klib R) p reason err) = Some c"
    "cnd_status c = CFalse" "cnd_reason c = reason"
    using ready_error [OF assms] by blast
  show ?thesis
    using c
    by (auto simp: pipeline_updateStatusError_def verdict_ok_def recorded_final_def Let_def
        shouldRetry_def split: option.splits)
qed

lemma verdict_success:
  "verdict_ok K E (pipeline_updateStatusSuccess R E p api tr)"
  "verdict_ok K E (updateStatusReadOnly R E p api tr)"
  "rr_err (pipeline_updateStatusSuccess R E p api tr) = None \<Longrightarrow>
     verdict_ok K E ((pipeline_updateStatusSuccess R E p api tr)\<lparr>rr_outcome := outcomeRecreated\<rparr>)"
  by (auto simp: pipeline_updateStatusSuccess_def updateStatusReadOnly_def verdict_ok_def Let_def
      split: option.splits)

lemma verdict_other:
  "rr_outcome r \<notin> {reasonValidationError, reasonSyncFailed, reasonDeleteFailed} \<Longrightarrow> verdict_ok K E r"
  by (simp add: verdict_ok_def)

lemma verdict_handleAPIError:
  assumes "klib_ok (pr_klib R)"
  shows "verdict_ok (pr_klib R) E (pipeline_handleAPIError R E p err tr)"
  using assms
proof (induction R E p err tr rule: pipeline_handleAPIError.induct)
  case (1 R E p err tr)
  show ?case
  proof (cases "as_fleet err")
    case (Some apiErr)
    with 1 show ?thesis
      by (subst pipeline_handleAPIError.simps)
        (auto simp: Let_def verdict_updateStatusError verdict_success verdict_other split: sum.splits)
  qed (subst pipeline_handleAPIError.simps, simp add: verdict_updateStatusError 1)
qed

lemma verdict_handleReadOnlyAPIError:
  "klib_ok (pr_klib R) \<Longrightarrow> verdict_ok (pr_klib R) E (handleReadOnlyAPIError R E p err tr)"
  by (auto simp: handleReadOnlyAPIError_def verdict_updateStatusError verdict_other split: option.splits)

lemma verdict_Err: "verdict_ok K E (ret tr res (Some err) reasonSyncFailed)"
  by (simp add: verdict_ok_def)

lemma verdict_removeFinalizer: "verdict_ok K E (pipeline_removeFinalizer R E p tr)"
  by (auto simp: pipeline_removeFinalizer_def verdict_Err verdict_other Let_def split: option.splits)

lemma verdict_reconcileDelete:
  "klib_ok (pr_klib R) \<Longrightarrow> verdict_ok (pr_klib R) E (pipeline_reconcileDelete R E p tr)"
  by (auto simp: pipeline_reconcileDelete_def verdict_removeFinalizer verdict_updateStatusError
      verdict_other Let_def split: option.splits)

lemma verdict_reconcileReadOnly:
  "klib_ok (pr_klib R) \<Longrightarrow> verdict_ok (pr_klib R) E (reconcileReadOnly R E p tr)"
  by (auto simp: reconcileReadOnly_def verdict_updateStatusError verdict_handleReadOnlyAPIError
      verdict_success Let_def split: sum.splits)

lemma verdict_reconcileNormal:
  "klib_ok (pr_klib R) \<Longrightarrow> verdict_ok (pr_klib R) E (pipeline_reconcileNormal R E p tr)"
  by (auto simp: pipeline_reconcileNormal_def verdict_handleAPIError verdict_success Let_def
      split: prod.splits sum.splits)


text \<open>
  The failure that is lost: a status write refused for another reason than a conflict leaves a
  validation error neither stored nor retried.
\<close>

lemma refused_status_write_loses_failure:
  assumes "\<not> shouldRetry err reason"
    and "\<And>tr. pe_StatusUpdate E tr = Some e" "\<not> is_conflict e"
  shows "rr_err (pipeline_updateStatusError R E p reason err tr) = None \<and>
         rr_result (pipeline_updateStatusError R E p reason err tr) = done_result"
  using assms by (simp add: pipeline_updateStatusError_def Let_def)

section \<open>Witnesses\<close>

definition sample_reconciler :: "string \<Rightarrow> PipelineReconciler" where
  "sample_reconciler sc = \<lparr>pr_klib = klib_ref, pr_hasRecorder = True, pr_NameScope = sc\<rparr>"

definition sample_cr :: "bool \<Rightarrow> string list \<Rightarrow> gomap \<Rightarrow> bool \<Rightarrow> cond list \<Rightarrow> Pipeline" where
  "sample_cr deleting finalizers annots paused conds =
     \<lparr>pl_meta = \<lparr>om_namespace = ''ns'', om_name = ''logs'', om_generation = 2, om_deleting = deleting,
                 om_finalizers = finalizers, om_labels = [], om_annotations = annots\<rparr>,
      pl_spec = \<lparr>pspec_Name = [], pspec_Contents = ''x'', pspec_Matchers = [], pspec_Enabled = None,
                 pspec_ConfigType = ConfigTypeAlloy, pspec_Source = None, pspec_Paused = paused\<rparr>,
      pl_status = \<lparr>pst_ID = ''17'', pst_SyncedName = ''logs'', pst_ObservedGeneration = 2,
                   pst_CreatedAt = None, pst_UpdatedAt = None, pst_Source = None,
                   pst_RevisionID = [], pst_Conditions = conds\<rparr>\<rparr>"

definition sample_api :: "upsert_request \<Rightarrow> pipeline" where
  "sample_api r = (ur_Pipeline r)\<lparr>fp_ID := ''18''\<rparr>"

fun last_upsert :: "pcall list \<Rightarrow> upsert_request" where
  "last_upsert tr =
     (case last tr of PcFleetUpsert r \<Rightarrow> r
      | _ \<Rightarrow> buildUpsertRequest (sample_reconciler []) (sample_cr False [] [] False []))"

definition sample_env :: "Pipeline \<Rightarrow> penv" where
  "sample_env p =
     \<lparr>pe_Get = (\<lambda>_. Inr p), pe_Update = (\<lambda>_. None), pe_StatusUpdate = (\<lambda>_. None),
      pe_GetPipeline = (\<lambda>tr. Inr (sample_api (last_upsert tr))),
      pe_UpsertPipeline = (\<lambda>tr. Inr (sample_api (last_upsert tr))),
      pe_DeletePipeline = (\<lambda>_. None)\<rparr>"

definition sample_req :: nsname where
  "sample_req = \<lparr>nn_namespace = ''ns'', nn_name = ''logs''\<rparr>"

lemmas sample_defs =
  sample_reconciler_def sample_cr_def sample_env_def sample_req_def klib_ref_def
  get_str_def has_key_def

theorem read_only_never_written_witness:
  "\<not> list_ex is_fleet_write (rr_trace (pipeline_Reconcile (sample_reconciler NameScopeNone)
      (sample_env (sample_cr True [pipelineFinalizer] [(PipelineImportModeAnnotation, ''read-only'')] False []))
      sample_req))"
  by (rule read_only_never_written) (auto simp: sample_defs isReadOnly_def IsReadOnly_def)

definition deleted_cr :: Pipeline where
  "deleted_cr = sample_cr True [pipelineFinalizer] [(FleetPipelineIDAnnotation, ''victim'')] False []"

theorem fleet_delete_only_by_status_id_witness:
  "\<exists>p. pe_Get (sample_env deleted_cr) [PcGet sample_req] = Inr p \<and> ''17'' = pst_ID (pl_status p)"
proof -
  have "PcFleetDelete ''17'' \<in>
      set (rr_trace (pipeline_Reconcile (sample_reconciler NameScopeNone) (sample_env deleted_cr) sample_req))"
    by (simp add: pipeline_Reconcile_def pipeline_reconcileDelete_def pipeline_removeFinalizer_def
        pipeline_emitEvent_def isReadOnly_def IsReadOnly_def deleted_cr_def sample_defs Let_def)
  from fleet_delete_only_by_status_id [OF this] show ?thesis by blast
qed

theorem finalizer_before_fleet_witness:
  "\<not> list_ex is_fleet_call (rr_trace (pipeline_Reconcile (sample_reconciler NameScopeNone)
      (sample_env (sample_cr False [] [] False [])) sample_req))"
proof -
  have "klib_ok (pr_klib (sample_reconciler NameScopeNone))"
    by (simp add: sample_reconciler_def klib_ref_ok)
  moreover have "pe_Get (sample_env (sample_cr False [] [] False [])) [PcGet sample_req] =
                 Inr (sample_cr False [] [] False [])"
    by (simp add: sample_env_def)
  moreover have "pipelineFinalizer \<notin> set (om_finalizers (pl_meta (sample_cr False [] [] False [])))"
    by (simp add: sample_cr_def)
  ultimately show ?thesis using finalizer_before_fleet by blast
qed

theorem paused_is_left_alone_witness:
  "pipeline_Reconcile (sample_reconciler NameScopeNone)
     (sample_env (sample_cr False [pipelineFinalizer] [] True [])) sample_req =
   ret [PcGet sample_req] done_result None outcomeNoOp"
  by (rule paused_is_left_alone) (auto simp: sample_defs isPaused_def)

definition renamed_cr :: Pipeline where
  "renamed_cr = sample_cr False [pipelineFinalizer] [] False
     [\<lparr>cnd_type = conditionTypeReady, cnd_status = CTrue, cnd_reason = reasonSynced,
       cnd_message = [], cnd_gen = 2\<rparr>]"

lemma renamed_cr_due:
  "migration_due (sample_reconciler NameScopeNamespace) (backfillSyncedName renamed_cr)"
  by (simp add: migration_due_def renamed_cr_def sample_defs DesiredFleetName_def baseName_def
      EffectiveNameScope_def IsDiscovered_def IsReadOnly_def backfillSyncedName_def)

theorem rename_delete_after_dry_run_witness:
  "\<exists>dry rest. rr_trace (pipeline_Reconcile (sample_reconciler NameScopeNamespace)
       (sample_env renamed_cr) sample_req) =
     [PcGet sample_req, PcFleetUpsert dry, PcFleetDelete ''17''] @ rest \<and> ur_ValidateOnly dry"
proof -
  let ?R = "sample_reconciler NameScopeNamespace" and ?E = "sample_env renamed_cr"
  have "PcFleetDelete ''17'' \<in> set (rr_trace (pipeline_Reconcile ?R ?E sample_req))"
    by (simp add: pipeline_Reconcile_def pipeline_reconcileNormal_def migratePipelineName_def
        pipeline_updateStatusSuccess_def pipeline_emitEvent_def sample_defs renamed_cr_def
        DesiredFleetName_def baseName_def EffectiveNameScope_def IsDiscovered_def IsReadOnly_def
        backfillSyncedName_def migration_due_def isPaused_def isReadOnly_def Let_def)
  from rename_delete_after_dry_run [OF _ _ this, of renamed_cr] show ?thesis
    by (auto simp: sample_env_def renamed_cr_def sample_cr_def)
qed


end
