(* ===== verification/Pipeline_Liveness.thy ===== *)
theory Pipeline_Liveness
  imports Pipeline_Controller
begin

text \<open>
  What the Pipeline reconciler achieves over several reconciles: it converges when the servers
  answer, and the two situations where its skip rule (the observed generation) suppresses a
  retry the reconciler itself asked for.
\<close>

section \<open>Active objects\<close>

definition active :: "PipelineReconciler \<Rightarrow> Pipeline \<Rightarrow> bool" where
  "active R p \<longleftrightarrow> \<not> om_deleting (pl_meta p) \<and> has_finalizer R p \<and> \<not> isPaused p \<and> \<not> isReadOnly p"

lemma active_cong:
  assumes "active R p" "pl_meta q = pl_meta p" "pl_spec q = pl_spec p"
  shows "active R q"
  using assms same_meta_spec [OF assms(2,3)] by (simp add: active_def)

lemma active_reconcile:
  assumes "active R p" "pe_Get E [PcGet req] = Inr p"
    and "migration_due R (backfillSyncedName p) \<or>
         pst_ObservedGeneration (pl_status p) \<noteq> om_generation (pl_meta p) \<or>
         \<not> pipelineReconcileModeObserved (pr_klib R) (backfillSyncedName p) False"
  shows "pipeline_Reconcile R E req = pipeline_reconcileNormal R E (backfillSyncedName p) [PcGet req]"
  using assms by (auto simp: pipeline_Reconcile_def active_def migration_due_def Let_def)

text \<open>A status written for an active object from which nothing more happens.\<close>

lemma settled_active:
  assumes "active R p" "pl_meta q = pl_meta p" "pl_spec q = pl_spec p"
    and "\<not> migration_due R (backfillSyncedName q)"
    and "pst_ObservedGeneration (pl_status q) = om_generation (pl_meta p)"
    and "\<exists>c. ready_cond (pr_klib R) (pl_status q) = Some c \<and> cnd_reason c \<noteq> reasonReadOnly"
    and "pe_Get E' [PcGet req'] = Inr q"
  shows "pipeline_Reconcile R E' req' = ret [PcGet req'] done_result None outcomeNoOp"
  using assms active_cong [OF assms(1-3)] settled_is_noop [OF assms(7)]
  by (auto simp: active_def)

lemma updateStatusSuccess_ok:
  assumes "\<And>tr. pe_StatusUpdate E tr = None"
  shows "rr_outcome (pipeline_updateStatusSuccess R E p api tr) = reasonSynced"
    and "rr_err (pipeline_updateStatusSuccess R E p api tr) = None"
    and "rr_result (pipeline_updateStatusSuccess R E p api tr) = done_result"
    and "set tr \<subseteq> set (rr_trace (pipeline_updateStatusSuccess R E p api tr))"
    and "PcStatusUpdate (p\<lparr>pl_status := success_status (pr_klib R) p api\<rparr>) \<in>
           set (rr_trace (pipeline_updateStatusSuccess R E p api tr))"
  by (auto simp: pipeline_updateStatusSuccess_def assms pipeline_emitEvent_def Let_def)

lemma updateStatusError_retry:
  assumes "\<And>tr. pe_StatusUpdate E tr = None" "shouldRetry err reason"
  shows "rr_err (pipeline_updateStatusError R E p reason err tr) = Some err"
    and "set tr \<subseteq> set (rr_trace (pipeline_updateStatusError R E p reason err tr))"
    and "PcStatusUpdate (p\<lparr>pl_status := error_status (pr_klib R) p reason err\<rparr>) \<in>
           set (rr_trace (pipeline_updateStatusError R E p reason err tr))"
  by (auto simp: pipeline_updateStatusError_def assms Let_def)

lemma synced_not_due:
  assumes "pst_SyncedName (pl_status q) = DesiredFleetName q (pr_NameScope R)"
  shows "\<not> migration_due R (backfillSyncedName q)"
proof (cases "DesiredFleetName q (pr_NameScope R) = []")
  case True
  then have "baseName q = []" by (simp add: DesiredFleetName_def Let_def split: if_splits)
  then have "pspec_Name (pl_spec q) = []" "om_name (pl_meta q) = []"
    by (simp_all add: baseName_def split: if_splits)
  with assms True show ?thesis by (simp add: migration_due_def backfillSyncedName_def)
next
  case False
  with assms show ?thesis by (simp add: migration_due_def backfillSyncedName_def)
qed

lemma backfill_idem: "backfillSyncedName (backfillSyncedName p) = backfillSyncedName p"
  by (simp add: backfillSyncedName_def Let_def)

lemma migration_due_cong:
  assumes "pl_meta q = pl_meta p" "pl_spec q = pl_spec p"
    and "pst_ID (pl_status q) = pst_ID (pl_status p)"
    and "pst_SyncedName (pl_status q) = pst_SyncedName (pl_status p)"
  shows "migration_due R (backfillSyncedName q) = migration_due R (backfillSyncedName p)"
  using assms DesiredFleetName_meta_spec [OF assms(1,2)]
  by (simp add: migration_due_def) (simp add: backfillSyncedName_def Let_def)

section \<open>Convergence\<close>

text \<open>Fleet Management answers every upsert with a named pipeline that has an ID.\<close>

definition server_up :: "penv \<Rightarrow> (upsert_request \<Rightarrow> pipeline) \<Rightarrow> bool" where
  "server_up E api \<longleftrightarrow>
     (\<forall>tr r. pe_UpsertPipeline E (tr @ [PcFleetUpsert r]) = Inr (api r)) \<and>
     (\<forall>r. fp_Name (api r) = fp_Name (ur_Pipeline r) \<and> fp_ID (api r) \<noteq> []) \<and>
     (\<forall>tr. pe_DeletePipeline E tr = None) \<and> (\<forall>tr. pe_StatusUpdate E tr = None)"

lemma server_upD:
  assumes "server_up E api"
  shows "pe_UpsertPipeline E (tr @ [PcFleetUpsert r]) = Inr (api r)"
    and "fp_Name (api r) = fp_Name (ur_Pipeline r)" "fp_ID (api r) \<noteq> []"
    and "pe_DeletePipeline E tr = None" "pe_StatusUpdate E tr = None"
  using assms by (auto simp: server_up_def)

lemma migrate_server_up:
  assumes "server_up E api"
  shows "\<exists>tr' q. migratePipelineName R E p tr = (tr', Inr q) \<and>
           pl_meta q = pl_meta p \<and> pl_spec q = pl_spec p"
  using server_upD [OF assms]
  by (auto simp: migratePipelineName_def Let_def)

text \<open>The status of a successful upsert under the desired name settles the object.\<close>

lemma synced_settles:
  assumes "klib_ok (pr_klib R)" "active R p" "pl_meta m = pl_meta p" "pl_spec m = pl_spec p"
    and "fp_Name api = DesiredFleetName p (pr_NameScope R)"
    and "q = m\<lparr>pl_status := success_status (pr_klib R) m api\<rparr>"
  shows "pl_meta q = pl_meta p" "pl_spec q = pl_spec p" "pst_ID (pl_status q) = fp_ID api"
    and "pe_Get E' [PcGet req'] = Inr q \<Longrightarrow>
         pipeline_Reconcile R E' req' = ret [PcGet req'] done_result None outcomeNoOp"
proof -
  show q: "pl_meta q = pl_meta p" "pl_spec q = pl_spec p" "pst_ID (pl_status q) = fp_ID api"
    by (simp_all add: assms)
  have "\<not> migration_due R (backfillSyncedName q)"
    by (rule synced_not_due) (simp only: DesiredFleetName_meta_spec [OF q(1,2)], simp add: assms(5,6))
  moreover have "\<exists>c. ready_cond (pr_klib R) (pl_status q) = Some c \<and> cnd_reason c \<noteq> reasonReadOnly"
    using ready_success [OF assms(1), of m api] by (auto simp: assms(6))
  moreover have "pst_ObservedGeneration (pl_status q) = om_generation (pl_meta p)"
    by (simp add: assms(3,6))
  ultimately show "pe_Get E' [PcGet req'] = Inr q \<Longrightarrow>
      pipeline_Reconcile R E' req' = ret [PcGet req'] done_result None outcomeNoOp"
    using settled_active [OF assms(2) q(1,2)] by blast
qed

text \<open>
  C3: convergence: when Fleet Management accepts the pipeline, one reconcile of a managed
  pipeline with work to do upserts exactly the request built from the spec under the desired
  name, reports \<open>Synced\<close>, and writes a status from which every later reconcile does nothing
  until the object changes.
\<close>

theorem managed_pipeline_converges:
  assumes "klib_ok (pr_klib R)" "active R p" "pe_Get E [PcGet req] = Inr p"
    and "migration_due R (backfillSyncedName p) \<or>
         pst_ObservedGeneration (pl_status p) \<noteq> om_generation (pl_meta p)"
    and "server_up E api"
  shows "rr_outcome (pipeline_Reconcile R E req) = reasonSynced \<and>
         rr_err (pipeline_Reconcile R E req) = None \<and>
         PcFleetUpsert (buildUpsertRequest R p) \<in> set (rr_trace (pipeline_Reconcile R E req)) \<and>
         (\<exists>q. PcStatusUpdate q \<in> set (rr_trace (pipeline_Reconcile R E req)) \<and>
            pl_meta q = pl_meta p \<and> pl_spec q = pl_spec p \<and>
            pst_ID (pl_status q) = fp_ID (api (buildUpsertRequest R p)) \<and>
            (\<forall>E' req'. pe_Get E' [PcGet req'] = Inr q \<longrightarrow>
               pipeline_Reconcile R E' req' = ret [PcGet req'] done_result None outcomeNoOp))"
proof -
  define b where "b = backfillSyncedName p"
  define up where "up = buildUpsertRequest R p"
  obtain tr' m where m: "migratePipelineName R E b [PcGet req] = (tr', Inr m)"
    "pl_meta m = pl_meta b" "pl_spec m = pl_spec b"
    using migrate_server_up [OF assms(5)] by blast
  then have mp: "pl_meta m = pl_meta p" "pl_spec m = pl_spec p" by (simp_all add: b_def)
  have up: "buildUpsertRequest R m = up"
    using same_meta_spec(3) [OF mp] by (simp add: up_def)
  let ?tr = "tr' @ [PcFleetUpsert up]"
  have run: "pipeline_Reconcile R E req = pipeline_updateStatusSuccess R E m (api up) ?tr"
    using active_reconcile [OF assms(2,3)] assms(4) m(1) server_upD(1) [OF assms(5), of tr' up]
    by (auto simp: b_def pipeline_reconcileNormal_def up Let_def)
  define q where "q = m\<lparr>pl_status := success_status (pr_klib R) m (api up)\<rparr>"
  have "fp_Name (api up) = DesiredFleetName p (pr_NameScope R)"
    using server_upD(2) [OF assms(5), of up] by (simp add: up_def buildUpsertRequest_def)
  note q = synced_settles [OF assms(1,2) mp this q_def]
  note ok = updateStatusSuccess_ok [where E = E, OF server_upD(5) [OF assms(5)]]
  have "PcFleetUpsert up \<in> set (rr_trace (pipeline_Reconcile R E req))"
    unfolding run using ok(4) [where R = R and p = m and api = "api up" and tr = ?tr] by auto
  moreover have "PcStatusUpdate q \<in> set (rr_trace (pipeline_Reconcile R E req))"
    unfolding run q_def by (rule ok(5))
  ultimately show ?thesis
    unfolding run ok(1) ok(2) using q by (auto simp: up_def run)
qed

section \<open>Suppressed retries\<close>

text \<open>A Fleet error the reconciler retries and does not treat specially.\<close>

definition server_error :: "go_error \<Rightarrow> bool" where
  "server_error err \<longleftrightarrow>
     (case as_fleet err of None \<Rightarrow> False | Some f \<Rightarrow> 500 \<le> fae_status f \<and> fae_status f < 600)"

lemma server_error_retry: "server_error err \<Longrightarrow> shouldRetry err reasonSyncFailed"
  by (auto simp: server_error_def shouldRetry_def isTransientError_def IsTransient_def
      split: option.splits)

lemma handleAPIError_server_error:
  "server_error err \<Longrightarrow>
   pipeline_handleAPIError R E p err tr =
     pipeline_updateStatusError R E p reasonSyncFailed err
       (pipeline_emitEvent R EventWarning ''SyncFailed'' tr)"
  by (subst pipeline_handleAPIError.simps) (auto simp: server_error_def split: option.splits)

text \<open>After such an error an object whose generation was already observed is never retried.\<close>

lemma error_then_noop:
  assumes "klib_ok (pr_klib R)" "active R p" "pl_meta m = pl_meta p" "pl_spec m = pl_spec p"
    and "server_error err"
    and "pst_ObservedGeneration (pl_status m) = om_generation (pl_meta p)"
    and "q = m\<lparr>pl_status := error_status (pr_klib R) m reasonSyncFailed err\<rparr>"
    and "\<not> migration_due R (backfillSyncedName q)"
    and "pe_Get E' [PcGet req'] = Inr q"
  shows "pipeline_Reconcile R E' req' = ret [PcGet req'] done_result None outcomeNoOp"
proof (rule settled_active [OF assms(2)])
  show "\<exists>c. ready_cond (pr_klib R) (pl_status q) = Some c \<and> cnd_reason c \<noteq> reasonReadOnly"
    using ready_error [OF assms(1), of m reasonSyncFailed err] by (auto simp: assms(7))
qed (use assms server_error_retry in auto)

text \<open>
  C33: a rename can lose the pipeline: when the old pipeline was deleted and the upsert under
  the new name then fails with a server error, the reconcile asks for a retry, but the status
  it wrote (no ID, generation observed) makes every later reconcile do nothing: the pipeline
  is gone from Fleet Management until the spec changes.
\<close>

theorem rename_failure_is_never_retried:
  assumes "klib_ok (pr_klib R)" "active R p" "pe_Get E [PcGet req] = Inr p"
    and "migration_due R (backfillSyncedName p)"
    and "pst_ObservedGeneration (pl_status p) = om_generation (pl_meta p)"
    and "\<And>tr r. pe_UpsertPipeline E (tr @ [PcFleetUpsert r]) =
           (if ur_ValidateOnly r then Inr api else Inl err)"
    and "server_error err"
    and "\<And>tr. pe_DeletePipeline E tr = None" "\<And>tr. pe_StatusUpdate E tr = None"
  shows "PcFleetDelete (pst_ID (pl_status p)) \<in> set (rr_trace (pipeline_Reconcile R E req)) \<and>
         rr_err (pipeline_Reconcile R E req) = Some err \<and>
         (\<exists>q. PcStatusUpdate q \<in> set (rr_trace (pipeline_Reconcile R E req)) \<and>
            (\<forall>E' req'. pe_Get E' [PcGet req'] = Inr q \<longrightarrow>
               pipeline_Reconcile R E' req' = ret [PcGet req'] done_result None outcomeNoOp))"
proof -
  define b where "b = backfillSyncedName p"
  define m where "m = b\<lparr>pl_status := (pl_status b)\<lparr>pst_ID := []\<rparr>\<rparr>"
  define dry where "dry = (buildUpsertRequest R b)\<lparr>ur_ValidateOnly := True\<rparr>"
  define tr where "tr = pipeline_emitEvent R EventWarning ''SyncFailed''
     (pipeline_emitEvent R EventNormal ''Migrated''
        [PcGet req, PcFleetUpsert dry, PcFleetDelete (pst_ID (pl_status b))] @
      [PcFleetUpsert (buildUpsertRequest R m)])"
  have mp: "pl_meta m = pl_meta p" "pl_spec m = pl_spec p" by (simp_all add: m_def b_def)
  have "pe_UpsertPipeline E [PcGet req, PcFleetUpsert dry] = Inr api"
    using assms(6) [of "[PcGet req]" dry] by (simp add: dry_def)
  moreover have "\<not> ur_ValidateOnly (buildUpsertRequest R m)"
    by (simp add: buildUpsertRequest_def)
  ultimately have "pipeline_reconcileNormal R E b [PcGet req] =
      pipeline_updateStatusError R E m reasonSyncFailed err tr"
    using assms(4,6,8) handleAPIError_server_error [OF assms(7)]
    by (simp add: pipeline_reconcileNormal_def migratePipelineName_def b_def [symmetric]
        dry_def [symmetric] m_def [symmetric] tr_def Let_def)
  then have run: "pipeline_Reconcile R E req =
      pipeline_updateStatusError R E m reasonSyncFailed err tr"
    using active_reconcile [OF assms(2,3)] assms(4) by (simp add: b_def)
  note retry = updateStatusError_retry [where E = E, OF assms(9) server_error_retry [OF assms(7)]]
  define q where "q = m\<lparr>pl_status := error_status (pr_klib R) m reasonSyncFailed err\<rparr>"
  have "pst_ID (pl_status q) = []" by (simp add: q_def m_def)
  then have "\<not> migration_due R (backfillSyncedName q)" by (simp add: migration_due_def)
  then have "\<forall>E' req'. pe_Get E' [PcGet req'] = Inr q \<longrightarrow>
      pipeline_Reconcile R E' req' = ret [PcGet req'] done_result None outcomeNoOp"
    using error_then_noop [OF assms(1,2) mp assms(7)] assms(5) by (simp add: q_def m_def b_def)
  moreover have "PcFleetDelete (pst_ID (pl_status p)) \<in> set tr"
    by (auto simp: tr_def b_def pipeline_emitEvent_def)
  ultimately show ?thesis
    unfolding run using retry [where R = R and p = m and tr = tr] by (auto simp: q_def)
qed

text \<open>
  The same happens on a change of ownership: when a pipeline imported read-only is switched
  to adopt (an annotation, so the generation does not change) and the first upsert fails with a
  server error, no later reconcile applies the spec, although the error asked for a retry.
\<close>

theorem adopt_failure_is_never_retried:
  assumes "klib_ok (pr_klib R)" "active R p" "pe_Get E [PcGet req] = Inr p"
    and "ready_cond (pr_klib R) (pl_status p) = Some c" "cnd_reason c = reasonReadOnly"
    and "pst_ObservedGeneration (pl_status p) = om_generation (pl_meta p)"
    and "\<not> migration_due R (backfillSyncedName p)"
    and "\<And>tr. pe_UpsertPipeline E tr = Inl err" "server_error err"
    and "\<And>tr. pe_StatusUpdate E tr = None"
  shows "rr_err (pipeline_Reconcile R E req) = Some err \<and>
         (\<exists>q. PcStatusUpdate q \<in> set (rr_trace (pipeline_Reconcile R E req)) \<and>
            (\<forall>E' req'. pe_Get E' [PcGet req'] = Inr q \<longrightarrow>
               pipeline_Reconcile R E' req' = ret [PcGet req'] done_result None outcomeNoOp))"
proof -
  define b where "b = backfillSyncedName p"
  define tr where "tr = pipeline_emitEvent R EventWarning ''SyncFailed''
     [PcGet req, PcFleetUpsert (buildUpsertRequest R b)]"
  have mp: "pl_meta b = pl_meta p" "pl_spec b = pl_spec p" by (simp_all add: b_def)
  have "\<not> pipelineReconcileModeObserved (pr_klib R) (backfillSyncedName p) False"
    using assms(4,5) by (simp add: pipelineReconcileModeObserved_def ready_cond_def)
  then have "pipeline_Reconcile R E req = pipeline_reconcileNormal R E b [PcGet req]"
    using active_reconcile [OF assms(2,3)] by (simp add: b_def)
  also have "\<dots> = pipeline_updateStatusError R E b reasonSyncFailed err tr"
    using assms(7,8) handleAPIError_server_error [OF assms(9)]
    by (simp add: pipeline_reconcileNormal_def migratePipelineName_def b_def [symmetric] tr_def Let_def)
  finally have run: "pipeline_Reconcile R E req =
      pipeline_updateStatusError R E b reasonSyncFailed err tr" .
  note retry = updateStatusError_retry [where E = E, OF assms(10) server_error_retry [OF assms(9)]]
  define q where "q = b\<lparr>pl_status := error_status (pr_klib R) b reasonSyncFailed err\<rparr>"
  have "\<not> migration_due R (backfillSyncedName q)"
    using assms(7) migration_due_cong [of q b R] backfill_idem [of p] by (simp add: q_def b_def)
  then have "\<forall>E' req'. pe_Get E' [PcGet req'] = Inr q \<longrightarrow>
      pipeline_Reconcile R E' req' = ret [PcGet req'] done_result None outcomeNoOp"
    using error_then_noop [OF assms(1,2) mp assms(9)] assms(6) by (simp add: q_def b_def)
  then show ?thesis
    unfolding run using retry [where R = R and p = b and tr = tr] by (auto simp: q_def)
qed

section \<open>Witnesses\<close>

lemma renamed_cr_active: "active (sample_reconciler sc) renamed_cr"
  by (simp add: active_def renamed_cr_def sample_defs isPaused_def isReadOnly_def IsReadOnly_def)

lemma sample_klib_ok: "klib_ok (pr_klib (sample_reconciler sc))"
  by (simp add: sample_reconciler_def klib_ref_ok)

theorem managed_pipeline_converges_witness:
  "rr_outcome (pipeline_Reconcile (sample_reconciler NameScopeNamespace)
     (sample_env renamed_cr) sample_req) = reasonSynced"
proof -
  have "server_up (sample_env renamed_cr) sample_api"
    by (simp add: server_up_def sample_env_def sample_api_def)
  from managed_pipeline_converges [OF sample_klib_ok renamed_cr_active _ _ this] renamed_cr_due
  show ?thesis by (simp add: sample_env_def)
qed

definition failing_env :: "Pipeline \<Rightarrow> go_error \<Rightarrow> penv" where
  "failing_env p err =
     (sample_env p)\<lparr>pe_UpsertPipeline :=
        (\<lambda>tr. if ur_ValidateOnly (last_upsert tr) then Inr (sample_api (buildUpsertRequest (sample_reconciler []) renamed_cr))
              else Inl err)\<rparr>"

theorem rename_failure_is_never_retried_witness:
  "PcFleetDelete ''17'' \<in> set (rr_trace (pipeline_Reconcile (sample_reconciler NameScopeNamespace)
     (failing_env renamed_cr (FleetAPIError 503 ''UpsertPipeline'' ''down'' [] None)) sample_req))"
proof -
  let ?err = "FleetAPIError 503 ''UpsertPipeline'' ''down'' [] None"
  let ?api = "sample_api (buildUpsertRequest (sample_reconciler []) renamed_cr)"
  have "server_error ?err" by (simp add: server_error_def)
  from rename_failure_is_never_retried [OF sample_klib_ok renamed_cr_active _ renamed_cr_due _ _ this,
      of "failing_env renamed_cr ?err" sample_req ?api]
  show ?thesis by (simp add: failing_env_def sample_env_def renamed_cr_def sample_cr_def)
qed

definition imported_cr :: Pipeline where
  "imported_cr = sample_cr False [pipelineFinalizer] [(PipelineImportModeAnnotation, ''adopt'')] False
     [\<lparr>cnd_type = conditionTypeReady, cnd_status = CTrue, cnd_reason = reasonReadOnly,
       cnd_message = [], cnd_gen = 2\<rparr>]"

theorem adopt_failure_is_never_retried_witness:
  "rr_err (pipeline_Reconcile (sample_reconciler NameScopeNone)
     ((sample_env imported_cr)\<lparr>pe_UpsertPipeline :=
        (\<lambda>_. Inl (FleetAPIError 503 ''UpsertPipeline'' ''down'' [] None))\<rparr>) sample_req) =
   Some (FleetAPIError 503 ''UpsertPipeline'' ''down'' [] None)"
proof -
  let ?R = "sample_reconciler NameScopeNone"
  have a: "active ?R imported_cr"
    by (simp add: active_def imported_cr_def sample_defs isPaused_def isReadOnly_def IsReadOnly_def)
  have d: "\<not> migration_due ?R (backfillSyncedName imported_cr)"
    by (simp add: migration_due_def imported_cr_def sample_defs DesiredFleetName_def baseName_def
        EffectiveNameScope_def IsDiscovered_def IsReadOnly_def backfillSyncedName_def)
  have e: "server_error (FleetAPIError 503 ''UpsertPipeline'' ''down'' [] None)"
    by (simp add: server_error_def)
  have r: "ready_cond (pr_klib ?R) (pl_status imported_cr) =
      Some \<lparr>cnd_type = conditionTypeReady, cnd_status = CTrue, cnd_reason = reasonReadOnly,
            cnd_message = [], cnd_gen = 2\<rparr>"
    by (simp add: ready_cond_def imported_cr_def sample_defs cond_at_def)
  show ?thesis
    by (rule adopt_failure_is_never_retried [OF sample_klib_ok a _ r _ _ d _ e, THEN conjunct1])
      (simp_all add: sample_env_def imported_cr_def sample_cr_def)
qed

end
