(* ===== verification/Attr_Types.thy ===== *)
theory Attr_Types
  imports Attr_Merge Attr_Match Fleet_Client
begin

text \<open>
  \<open>api/v1alpha1\<close>: the resources of the attribute side of the operator (Collector,
  RemoteAttributePolicy, ExternalAttributeSync), the order in which policies take precedence
  as an instance of \<open>linorder\<close>, and the first-claim-wins map the layers are built with.
\<close>

section \<open>Resources\<close>

abbreviation CollectorTypeAlloy :: string where "CollectorTypeAlloy \<equiv> ''Alloy''"
abbreviation CollectorTypeOpenTelemetryCollector :: string where
  "CollectorTypeOpenTelemetryCollector \<equiv> ''OpenTelemetryCollector''"
abbreviation CollectorTypeUnspecified :: string where "CollectorTypeUnspecified \<equiv> ''Unspecified''"

abbreviation AttributeOwnerCollector :: string where "AttributeOwnerCollector \<equiv> ''Collector''"
abbreviation AttributeOwnerRemoteAttributePolicy :: string where
  "AttributeOwnerRemoteAttributePolicy \<equiv> ''RemoteAttributePolicy''"
abbreviation AttributeOwnerExternalAttributeSync :: string where
  "AttributeOwnerExternalAttributeSync \<equiv> ''ExternalAttributeSync''"

record AttributeOwnership =
  ao_Key :: string
  ao_OwnerKind :: string
  ao_OwnerName :: string
  ao_Value :: string

record CollectorSpec =
  cspec_ID :: string
  cspec_Name :: string
  cspec_Enabled :: "bool option"
  cspec_RemoteAttributes :: gomap

record CollectorStatus =
  cst_ObservedGeneration :: int
  cst_Registered :: bool
  cst_LastPing :: "int option"
  cst_Name :: string
  cst_Enabled :: "bool option"
  cst_CollectorType :: string
  cst_CreatedAt :: "int option"
  cst_UpdatedAt :: "int option"
  cst_MarkedInactiveAt :: "int option"
  cst_LocalAttributes :: gomap
  cst_EffectiveRemoteAttributes :: gomap
  cst_AttributeOwners :: "AttributeOwnership list"
  cst_Conditions :: "cond list"

record Collector =
  cl_meta :: objmeta
  cl_spec :: CollectorSpec
  cl_status :: CollectorStatus

record PolicySelector =
  psel_Matchers :: "string list"
  psel_CollectorIDs :: "string list"

record RemoteAttributePolicySpec =
  rapspec_Selector :: PolicySelector
  rapspec_Attributes :: gomap
  rapspec_Priority :: int

record RemoteAttributePolicyStatus =
  rapst_ObservedGeneration :: int
  rapst_MatchedCollectorIDs :: "string list"
  rapst_MatchedCount :: int
  rapst_Conditions :: "cond list"

record RemoteAttributePolicy =
  rap_meta :: objmeta
  rap_spec :: RemoteAttributePolicySpec
  rap_status :: RemoteAttributePolicyStatus

record HTTPSourceSpec =
  hss_URL :: string
  hss_Method :: string
  hss_RecordsPath :: string

record SQLSourceSpec =
  sss_Driver :: string
  sss_Query :: string

record SecretReference =
  sref_Name :: string
  sref_Namespace :: string

record ExternalSource =
  xsrc_Kind :: string
  xsrc_HTTP :: "HTTPSourceSpec option"
  xsrc_SQL :: "SQLSourceSpec option"
  xsrc_SecretRef :: "SecretReference option"

record AttributeMapping =
  am_CollectorIDField :: string
  am_AttributeFields :: gomap
  am_RequiredKeys :: "string list"

record ExternalAttributeSyncSpec =
  easspec_Source :: ExternalSource
  easspec_Schedule :: string
  easspec_Selector :: PolicySelector
  easspec_Mapping :: AttributeMapping
  easspec_AllowEmptyResults :: bool

record OwnedKeyEntry =
  oke_CollectorID :: string
  oke_Attributes :: gomap

record ExternalAttributeSyncStatus =
  easst_ObservedGeneration :: int
  easst_LastSyncTime :: "int option"
  easst_LastSuccessTime :: "int option"
  easst_RecordsSeen :: int
  easst_RecordsApplied :: int
  easst_OwnedKeys :: "OwnedKeyEntry list"
  easst_Conditions :: "cond list"

record ExternalAttributeSync =
  eas_meta :: objmeta
  eas_spec :: ExternalAttributeSyncSpec
  eas_status :: ExternalAttributeSyncStatus

definition CollectorTypeFromFleetAPI :: "string \<Rightarrow> string" where
  "CollectorTypeFromFleetAPI apiType =
     (if apiType = ''COLLECTOR_TYPE_ALLOY'' then CollectorTypeAlloy
      else if apiType = ''COLLECTOR_TYPE_OTEL'' then CollectorTypeOpenTelemetryCollector
      else CollectorTypeUnspecified)"

definition selector_of :: "PolicySelector \<Rightarrow> Selector" where
  "selector_of s = \<lparr>sel_Matchers = psel_Matchers s, sel_CollectorIDs = psel_CollectorIDs s\<rparr>"

abbreviation full_name :: "objmeta \<Rightarrow> string" where
  "full_name m \<equiv> om_namespace m @ ''/'' @ om_name m"

section \<open>Precedence of policies\<close>

text \<open>Higher priority first, equal priorities by namespaced name.\<close>

datatype policy_rank = PolicyRank (rank_priority: int) (rank_name: string)

instantiation policy_rank :: linorder
begin

definition less_eq_policy_rank :: "policy_rank \<Rightarrow> policy_rank \<Rightarrow> bool" where
  "less_eq_policy_rank a b \<longleftrightarrow>
     (if rank_priority a \<noteq> rank_priority b then rank_priority a > rank_priority b
      else rank_name a \<le> rank_name b)"

definition less_policy_rank :: "policy_rank \<Rightarrow> policy_rank \<Rightarrow> bool" where
  "less_policy_rank a b \<longleftrightarrow>
     (if rank_priority a \<noteq> rank_priority b then rank_priority a > rank_priority b
      else rank_name a < rank_name b)"

instance
proof
  fix x y z :: policy_rank
  show "x < y \<longleftrightarrow> x \<le> y \<and> \<not> y \<le> x"
    by (auto simp: less_eq_policy_rank_def less_policy_rank_def)
  show "x \<le> x"
    by (simp add: less_eq_policy_rank_def)
  show "x \<le> z" if "x \<le> y" "y \<le> z"
    using that by (auto simp: less_eq_policy_rank_def split: if_splits)
  show "x = y" if "x \<le> y" "y \<le> x"
    using that by (cases x; cases y) (auto simp: less_eq_policy_rank_def split: if_splits)
  show "x \<le> y \<or> y \<le> x"
    by (auto simp: less_eq_policy_rank_def)
qed

end

definition rank_of :: "RemoteAttributePolicy \<Rightarrow> policy_rank" where
  "rank_of p = PolicyRank (rapspec_Priority (rap_spec p)) (full_name (rap_meta p))"

interpretation rank_sort: key_sort "sort_key rank_of" rank_of
  by (rule key_sort_sort_key)

section \<open>First claim wins\<close>

text \<open>The loops that fill a layer: a key that is already claimed is skipped.\<close>

fun claim :: "string \<times> string \<Rightarrow> gomap \<Rightarrow> gomap" where
  "claim (k, v) resolved = (if has_key resolved k then resolved else map_put k v resolved)"

definition claim_all :: "gomap list \<Rightarrow> gomap" where
  "claim_all ms = fold (\<lambda>m resolved. fold claim m resolved) ms []"

lemma map_of_fold_claim:
  "map_of (fold claim m resolved) k =
     (case map_of resolved k of Some v \<Rightarrow> Some v | None \<Rightarrow> map_of m k)"
proof (induction m arbitrary: resolved)
  case (Cons kv m)
  then show ?case
    by (cases kv) (auto simp: has_key_map_of split: option.splits)
qed (simp split: option.splits)

lemma map_of_fold_claim_all:
  "map_of (fold (\<lambda>m resolved. fold claim m resolved) ms resolved) k =
     (case map_of resolved k of Some v \<Rightarrow> Some v
      | None \<Rightarrow> (case find (\<lambda>m. has_key m k) ms of None \<Rightarrow> None | Some m \<Rightarrow> map_of m k))"
proof (induction ms arbitrary: resolved)
  case (Cons m ms)
  then show ?case
    by (auto simp: map_of_fold_claim has_key_map_of split: option.splits)
qed (simp split: option.splits)

lemma map_of_claim_all:
  "map_of (claim_all ms) k =
     (case find (\<lambda>m. has_key m k) ms of None \<Rightarrow> None | Some m \<Rightarrow> map_of m k)"
  by (simp add: claim_all_def map_of_fold_claim_all)

end
