(* ===== verification/Collector_Controller.thy ===== *)
theory Collector_Controller
  imports Attr_Types
begin

text \<open>
  \<open>internal/controller/collector_controller.go\<close>: the Collector reconciler, the only writer of
  remote attributes to Fleet Management.  It gathers three layers (external syncs, the
  resource's own spec, policies), merges them, and sends the difference to the observed
  attributes.  The conventions are those of the Pipeline reconciler's model: calls so far in,
  calls extended out, the environment a parameter that answers each call.
\<close>

section \<open>Calls and environment\<close>

datatype ccall =
    CcGet nsname
  | CcListSyncs string
  | CcListPolicies string
  | CcUpdate Collector
  | CcStatusUpdate Collector
  | CcGetCollector string
  | CcBulkUpdate "string list" "operation list"
  | CcEvent event_type string

record cenv =
  ce_Get :: "ccall list \<Rightarrow> go_error + Collector"
  ce_ListSyncs :: "ccall list \<Rightarrow> go_error + ExternalAttributeSync list"
  ce_ListPolicies :: "ccall list \<Rightarrow> go_error + RemoteAttributePolicy list"
  ce_Update :: "ccall list \<Rightarrow> go_error option"
  ce_StatusUpdate :: "ccall list \<Rightarrow> go_error option"
  ce_GetCollector :: "ccall list \<Rightarrow> go_error + collector"
  ce_BulkUpdate :: "ccall list \<Rightarrow> go_error option"

record CollectorReconciler =
  cr_klib :: klib
  cr_regex :: regex
  cr_hasRecorder :: bool

abbreviation collectorFinalizer :: string where
  "collectorFinalizer \<equiv> ''collector.fleetmanagement.grafana.com/finalizer''"
abbreviation collectorReasonSynced :: string where "collectorReasonSynced \<equiv> ''Synced''"
abbreviation collectorReasonSyncFailed :: string where "collectorReasonSyncFailed \<equiv> ''SyncFailed''"
abbreviation collectorReasonNotRegistered :: string where
  "collectorReasonNotRegistered \<equiv> ''NotRegistered''"
abbreviation collectorReasonValidationError :: string where
  "collectorReasonValidationError \<equiv> ''ValidationError''"
abbreviation collectorReasonDeleteFailed :: string where
  "collectorReasonDeleteFailed \<equiv> ''DeleteFailed''"
abbreviation condReady :: string where "condReady \<equiv> ''Ready''"
abbreviation condSynced :: string where "condSynced \<equiv> ''Synced''"
abbreviation externalSyncConditionTruncated :: string where
  "externalSyncConditionTruncated \<equiv> ''Truncated''"

definition notRegisteredRequeueAfter :: int where "notRegisteredRequeueAfter = 30 * second"

definition collectorPeriodicResyncAfter :: int where "collectorPeriodicResyncAfter = 30 * minute"

definition collector_emitEvent ::
  "CollectorReconciler \<Rightarrow> event_type \<Rightarrow> string \<Rightarrow> ccall list \<Rightarrow> ccall list" where
  "collector_emitEvent R t reason tr = (if cr_hasRecorder R then tr @ [CcEvent t reason] else tr)"

section \<open>Layers\<close>

fun findOwnedEntry :: "OwnedKeyEntry list \<Rightarrow> string \<Rightarrow> OwnedKeyEntry option" where
  "findOwnedEntry [] collectorID = None"
| "findOwnedEntry (e # es) collectorID =
     (if oke_CollectorID e = collectorID then Some e else findOwnedEntry es collectorID)"

definition externalSyncOwnedKeysUsable :: "klib \<Rightarrow> ExternalAttributeSync \<Rightarrow> bool" where
  "externalSyncOwnedKeysUsable K s =
     (case FindStatusCondition K (easst_Conditions (eas_status s)) externalSyncConditionTruncated of
        None \<Rightarrow> True | Some c \<Rightarrow> cnd_status c \<noteq> CTrue)"

text \<open>The entries the loop uses, in the order of the sorted syncs, with their owners' names.\<close>

fun sync_entries :: "klib \<Rightarrow> string \<Rightarrow> ExternalAttributeSync list \<Rightarrow> (string \<times> gomap) list" where
  "sync_entries K cid [] = []"
| "sync_entries K cid (s # ss) =
     (if \<not> externalSyncOwnedKeysUsable K s then sync_entries K cid ss
      else case findOwnedEntry (easst_OwnedKeys (eas_status s)) cid of
             None \<Rightarrow> sync_entries K cid ss
           | Some entry \<Rightarrow> (full_name (eas_meta s), oke_Attributes entry) # sync_entries K cid ss)"

definition first_owner :: "string list \<Rightarrow> string" where
  "first_owner owners = (case owners of [] \<Rightarrow> [] | o1 # _ \<Rightarrow> o1)"

definition external_layer :: "klib \<Rightarrow> string \<Rightarrow> ExternalAttributeSync list \<Rightarrow> layer" where
  "external_layer K cid items =
     (let syncs = sort_key (\<lambda>s. full_name (eas_meta s)) items;
          es = sync_entries K cid syncs
      in \<lparr>ly_Kind = AttributeOwnerExternalAttributeSync,
          ly_Owner = first_owner (map fst es),
          ly_Attrs = claim_all (map snd es)\<rparr>)"

definition externalSyncLayerForCollector ::
  "CollectorReconciler \<Rightarrow> cenv \<Rightarrow> Collector \<Rightarrow> ccall list \<Rightarrow> ccall list \<times> (go_error + layer)" where
  "externalSyncLayerForCollector R E c tr =
     (let tr = tr @ [CcListSyncs (om_namespace (cl_meta c))]
      in case ce_ListSyncs E tr of
           Inl err \<Rightarrow> (tr, Inl (WrapError ''listing ExternalAttributeSync: '' err []))
         | Inr items \<Rightarrow> (tr, Inr (external_layer (cr_klib R) (cspec_ID (cl_spec c)) items)))"

definition matched_policies ::
  "regex \<Rightarrow> string \<Rightarrow> gomap \<Rightarrow> RemoteAttributePolicy list \<Rightarrow> RemoteAttributePolicy list" where
  "matched_policies rx cid localAttrs items =
     sort_key rank_of
       (filter (\<lambda>p. Match rx (selector_of (rapspec_Selector (rap_spec p))) cid localAttrs) items)"

definition policy_layer :: "regex \<Rightarrow> string \<Rightarrow> gomap \<Rightarrow> RemoteAttributePolicy list \<Rightarrow> layer" where
  "policy_layer rx cid localAttrs items =
     (let matches = matched_policies rx cid localAttrs items
      in \<lparr>ly_Kind = AttributeOwnerRemoteAttributePolicy,
          ly_Owner = first_owner (map (\<lambda>p. full_name (rap_meta p)) matches),
          ly_Attrs = claim_all (map (\<lambda>p. rapspec_Attributes (rap_spec p)) matches)\<rparr>)"

definition policyLayerForCollector ::
  "CollectorReconciler \<Rightarrow> cenv \<Rightarrow> Collector \<Rightarrow> gomap \<Rightarrow> ccall list \<Rightarrow>
     ccall list \<times> (go_error + layer)" where
  "policyLayerForCollector R E c localAttrs tr =
     (let tr = tr @ [CcListPolicies (om_namespace (cl_meta c))]
      in case ce_ListPolicies E tr of
           Inl err \<Rightarrow> (tr, Inl (WrapError ''listing RemoteAttributePolicy: '' err []))
         | Inr items \<Rightarrow> (tr, Inr (policy_layer (cr_regex R) (cspec_ID (cl_spec c)) localAttrs items)))"

definition spec_layer :: "Collector \<Rightarrow> layer" where
  "spec_layer c =
     \<lparr>ly_Kind = AttributeOwnerCollector,
      ly_Owner = full_name (cl_meta c),
      ly_Attrs = cspec_RemoteAttributes (cl_spec c)\<rparr>"

section \<open>Helpers\<close>

definition allOwnedKeys :: "AttributeOwnership list \<Rightarrow> string list" where
  "allOwnedKeys owners = sort (map ao_Key owners)"

definition ownersFromMerge :: "KeyOwnership list \<Rightarrow> AttributeOwnership list" where
  "ownersFromMerge xs =
     map (\<lambda>x. \<lparr>ao_Key = ko_Key x, ao_OwnerKind = ko_Kind x, ao_OwnerName = ko_Owner x,
               ao_Value = ko_Value x\<rparr>) xs"

definition mapsEqual :: "gomap \<Rightarrow> gomap \<Rightarrow> bool" where
  "mapsEqual a b =
     (if length a \<noteq> length b then False
      else list_all (\<lambda>(k, v). map_of b k = Some v) a)"

definition owner_index :: "AttributeOwnership list \<Rightarrow> (string \<times> AttributeOwnership) list" where
  "owner_index a = fold (\<lambda>x idx. map_put (ao_Key x) x idx) a []"

definition ownerSlicesEqual :: "AttributeOwnership list \<Rightarrow> AttributeOwnership list \<Rightarrow> bool" where
  "ownerSlicesEqual a b =
     (if length a \<noteq> length b then False
      else list_all (\<lambda>x.
             case map_of (owner_index a) (ao_Key x) of
               None \<Rightarrow> False
             | Some other \<Rightarrow> ao_OwnerKind other = ao_OwnerKind x \<and>
                 ao_OwnerName other = ao_OwnerName x \<and> ao_Value other = ao_Value x) b)"

definition collectorStatusConditionMatches ::
  "klib \<Rightarrow> cond list \<Rightarrow> string \<Rightarrow> string \<Rightarrow> string \<Rightarrow> int \<Rightarrow> bool" where
  "collectorStatusConditionMatches K conds t reason message gen =
     (case FindStatusCondition K conds t of
        None \<Rightarrow> False
      | Some c \<Rightarrow> cnd_status c = CFalse \<and> cnd_reason c = reason \<and> cnd_message c = message \<and>
                 cnd_gen c = gen)"

definition cset_cond :: "klib \<Rightarrow> cond \<Rightarrow> CollectorStatus \<Rightarrow> CollectorStatus" where
  "cset_cond K c st = st\<lparr>cst_Conditions := SetStatusCondition K (cst_Conditions st) c\<rparr>"

section \<open>Status updates\<close>

text \<open>The status write that ends a method, with its conflict and error branches.\<close>

definition live_last_ping :: "Collector \<Rightarrow> collector \<Rightarrow> int option" where
  "live_last_ping c live =
     (case fc_UpdatedAt live of None \<Rightarrow> cst_LastPing (cl_status c) | Some t \<Rightarrow> Some t)"

definition ready_at_generation :: "Collector \<Rightarrow> bool" where
  "ready_at_generation c =
     list_ex (\<lambda>d. cnd_type d = condReady \<and> cnd_status d = CTrue \<and>
                 cnd_gen d = om_generation (cl_meta c)) (cst_Conditions (cl_status c))"

definition noop_status ::
  "Collector \<Rightarrow> collector \<Rightarrow> gomap \<Rightarrow> AttributeOwnership list \<Rightarrow> bool" where
  "noop_status c live desired newOwners \<longleftrightarrow>
     ready_at_generation c \<and>
     cst_ObservedGeneration (cl_status c) = om_generation (cl_meta c) \<and>
     cst_Registered (cl_status c) \<and>
     cst_Name (cl_status c) = fc_Name live \<and>
     cst_Enabled (cl_status c) = fc_Enabled live \<and>
     cst_CollectorType (cl_status c) = CollectorTypeFromFleetAPI (fc_CollectorType live) \<and>
     cst_CreatedAt (cl_status c) = fc_CreatedAt live \<and>
     cst_UpdatedAt (cl_status c) = fc_UpdatedAt live \<and>
     cst_MarkedInactiveAt (cl_status c) = fc_MarkedInactiveAt live \<and>
     cst_LastPing (cl_status c) = live_last_ping c live \<and>
     mapsEqual (cst_LocalAttributes (cl_status c)) (fc_LocalAttributes live) \<and>
     mapsEqual (cst_EffectiveRemoteAttributes (cl_status c)) desired \<and>
     ownerSlicesEqual (cst_AttributeOwners (cl_status c)) newOwners"

definition collector_success_status ::
  "klib \<Rightarrow> Collector \<Rightarrow> collector \<Rightarrow> gomap \<Rightarrow> AttributeOwnership list \<Rightarrow> CollectorStatus" where
  "collector_success_status K c live desired newOwners =
     (let gen = om_generation (cl_meta c);
          st = (cl_status c)
            \<lparr>cst_ObservedGeneration := gen,
             cst_Registered := True,
             cst_Name := fc_Name live,
             cst_Enabled := fc_Enabled live,
             cst_CollectorType := CollectorTypeFromFleetAPI (fc_CollectorType live),
             cst_CreatedAt := fc_CreatedAt live,
             cst_UpdatedAt := fc_UpdatedAt live,
             cst_MarkedInactiveAt := fc_MarkedInactiveAt live,
             cst_LocalAttributes := fc_LocalAttributes live,
             cst_EffectiveRemoteAttributes := desired,
             cst_AttributeOwners := newOwners,
             cst_LastPing := live_last_ping c live\<rparr>;
          st = cset_cond K \<lparr>cnd_type = condReady, cnd_status = CTrue, cnd_reason = collectorReasonSynced,
                            cnd_message = ''Collector successfully synced to Fleet Management'',
                            cnd_gen = gen\<rparr> st
      in cset_cond K \<lparr>cnd_type = condSynced, cnd_status = CTrue, cnd_reason = collectorReasonSynced,
                       cnd_message = ''Reconciled '' @ show_nat (length desired) @
                         '' remote attribute(s) on collector '' @ go_quote (cspec_ID (cl_spec c)),
                       cnd_gen = gen\<rparr> st)"

definition collector_updateStatusSuccess ::
  "CollectorReconciler \<Rightarrow> cenv \<Rightarrow> Collector \<Rightarrow> collector \<Rightarrow> gomap \<Rightarrow> KeyOwnership list \<Rightarrow>
     ccall list \<Rightarrow> ccall rres" where
  "collector_updateStatusSuccess R E c live desired owners tr =
     (let newOwners = ownersFromMerge owners
      in if noop_status c live desired newOwners
         then ret tr (requeue_after collectorPeriodicResyncAfter) None outcomeNoOp
         else
           (let c' = c\<lparr>cl_status := collector_success_status (cr_klib R) c live desired newOwners\<rparr>;
                tr = tr @ [CcStatusUpdate c']
            in case ce_StatusUpdate E tr of
                 Some err \<Rightarrow>
                   if is_conflict err then ret tr requeue_now None outcomeNoOp
                   else ret tr done_result (Some err) collectorReasonSyncFailed
               | None \<Rightarrow>
                   ret (collector_emitEvent R EventNormal ''Synced'' tr)
                     (requeue_after collectorPeriodicResyncAfter) None collectorReasonSynced))"

definition not_registered_message :: "Collector \<Rightarrow> string" where
  "not_registered_message c =
     ''Collector '' @ go_quote (cspec_ID (cl_spec c)) @ '' has not yet registered with Fleet Management''"

text \<open>The result and error only; the caller sets the outcome.\<close>

definition updateStatusNotRegistered ::
  "CollectorReconciler \<Rightarrow> cenv \<Rightarrow> Collector \<Rightarrow> ccall list \<Rightarrow>
     ccall list \<times> ctrl_result \<times> go_error option" where
  "updateStatusNotRegistered R E c tr =
     (let K = cr_klib R;
          gen = om_generation (cl_meta c);
          readyMessage = not_registered_message c;
          conds = cst_Conditions (cl_status c)
      in if cst_ObservedGeneration (cl_status c) = gen \<and>
            \<not> cst_Registered (cl_status c) \<and>
            collectorStatusConditionMatches K conds condReady collectorReasonNotRegistered readyMessage gen \<and>
            collectorStatusConditionMatches K conds condSynced collectorReasonNotRegistered
              ''Awaiting collector registration'' gen
         then (tr, requeue_after notRegisteredRequeueAfter, None)
         else
           (let st = (cl_status c)\<lparr>cst_ObservedGeneration := gen, cst_Registered := False\<rparr>;
                st = cset_cond K \<lparr>cnd_type = condReady, cnd_status = CFalse,
                       cnd_reason = collectorReasonNotRegistered, cnd_message = readyMessage,
                       cnd_gen = gen\<rparr> st;
                st = cset_cond K \<lparr>cnd_type = condSynced, cnd_status = CFalse,
                       cnd_reason = collectorReasonNotRegistered,
                       cnd_message = ''Awaiting collector registration'', cnd_gen = gen\<rparr> st;
                tr = tr @ [CcStatusUpdate (c\<lparr>cl_status := st\<rparr>)]
            in case ce_StatusUpdate E tr of
                 Some err \<Rightarrow>
                   if is_conflict err then (tr, requeue_now, None) else (tr, done_result, Some err)
               | None \<Rightarrow> (tr, requeue_after notRegisteredRequeueAfter, None)))"

definition collector_updateStatusError ::
  "CollectorReconciler \<Rightarrow> cenv \<Rightarrow> Collector \<Rightarrow> string \<Rightarrow> go_error \<Rightarrow> ccall list \<Rightarrow> ccall rres" where
  "collector_updateStatusError R E c reason originalErr tr =
     (let K = cr_klib R;
          gen = om_generation (cl_meta c);
          formatted = formatConditionMessage reason originalErr;
          conds = cst_Conditions (cl_status c);
          finish = (\<lambda>tr. if \<not> shouldRetry originalErr reason then ret tr done_result None reason
                         else ret tr done_result (Some originalErr) reason)
      in if cst_ObservedGeneration (cl_status c) = gen \<and>
            collectorStatusConditionMatches K conds condReady reason formatted gen \<and>
            collectorStatusConditionMatches K conds condSynced reason formatted gen
         then finish tr
         else
           (let st = (cl_status c)\<lparr>cst_ObservedGeneration := gen\<rparr>;
                st = cset_cond K \<lparr>cnd_type = condReady, cnd_status = CFalse, cnd_reason = reason,
                                  cnd_message = formatted, cnd_gen = gen\<rparr> st;
                st = cset_cond K \<lparr>cnd_type = condSynced, cnd_status = CFalse, cnd_reason = reason,
                                  cnd_message = formatted, cnd_gen = gen\<rparr> st;
                tr = tr @ [CcStatusUpdate (c\<lparr>cl_status := st\<rparr>)]
            in if (case ce_StatusUpdate E tr of None \<Rightarrow> False | Some e \<Rightarrow> is_conflict e)
               then ret tr requeue_now None outcomeNoOp
               else finish tr))"

definition collector_handleAPIError ::
  "CollectorReconciler \<Rightarrow> cenv \<Rightarrow> Collector \<Rightarrow> go_error \<Rightarrow> ccall list \<Rightarrow> ccall rres" where
  "collector_handleAPIError R E c err tr =
     (case as_fleet err of
        Some apiErr \<Rightarrow>
          if fae_status apiErr = 400 then
            collector_updateStatusError R E c collectorReasonValidationError err
              (collector_emitEvent R EventWarning ''SyncFailed'' tr)
          else if fae_status apiErr = 429 then
            ret (collector_emitEvent R EventWarning ''RateLimited'' tr) (requeue_after (10 * second)) None
              outcomeRateLimited
          else
            collector_updateStatusError R E c collectorReasonSyncFailed err
              (collector_emitEvent R EventWarning ''SyncFailed'' tr)
      | None \<Rightarrow>
          collector_updateStatusError R E c collectorReasonSyncFailed err
            (collector_emitEvent R EventWarning ''SyncFailed'' tr))"

section \<open>Reconcile\<close>

definition is_fleet_not_found :: "go_error \<Rightarrow> bool" where
  "is_fleet_not_found err =
     (case as_fleet err of None \<Rightarrow> False | Some apiErr \<Rightarrow> fae_status apiErr = 404)"

text \<open>From the three layers on: merge, difference, write, status.\<close>

definition apply_layers ::
  "CollectorReconciler \<Rightarrow> cenv \<Rightarrow> Collector \<Rightarrow> collector \<Rightarrow> layer list \<Rightarrow> ccall list \<Rightarrow> ccall rres" where
  "apply_layers R E c live layers tr =
     (let (desired, owners) = Merge layers;
          previouslyOwned = allOwnedKeys (cst_AttributeOwners (cl_status c));
          ops = Diff desired (fc_RemoteAttributes live) previouslyOwned
      in if ops \<noteq> [] then
           (let tr = tr @ [CcBulkUpdate [cspec_ID (cl_spec c)] ops]
            in case ce_BulkUpdate E tr of
                 Some err \<Rightarrow> collector_handleAPIError R E c err tr
               | None \<Rightarrow>
                   collector_updateStatusSuccess R E c live desired owners
                     (collector_emitEvent R EventNormal ''AttributesUpdated'' tr))
         else collector_updateStatusSuccess R E c live desired owners tr)"

definition collector_reconcileNormal ::
  "CollectorReconciler \<Rightarrow> cenv \<Rightarrow> Collector \<Rightarrow> ccall list \<Rightarrow> ccall rres" where
  "collector_reconcileNormal R E c tr =
     (let tr = tr @ [CcGetCollector (cspec_ID (cl_spec c))]
      in case ce_GetCollector E tr of
           Inl err \<Rightarrow>
             if is_fleet_not_found err then
               (case updateStatusNotRegistered R E c
                       (collector_emitEvent R EventWarning ''NotRegistered'' tr) of
                  (tr, result, Some statusErr) \<Rightarrow>
                    ret tr done_result (Some statusErr) collectorReasonSyncFailed
                | (tr, result, None) \<Rightarrow> ret tr result None collectorReasonNotRegistered)
             else collector_handleAPIError R E c err tr
         | Inr live \<Rightarrow>
             (case externalSyncLayerForCollector R E c tr of
                (tr, Inl err) \<Rightarrow>
                  collector_updateStatusError R E c collectorReasonSyncFailed err tr
              | (tr, Inr externalLayer) \<Rightarrow>
                  (case policyLayerForCollector R E c (fc_LocalAttributes live) tr of
                     (tr, Inl err) \<Rightarrow>
                       collector_updateStatusError R E c collectorReasonSyncFailed err tr
                   | (tr, Inr policyLayer) \<Rightarrow>
                       apply_layers R E c live [externalLayer, spec_layer c, policyLayer] tr)))"

definition removal_ops :: "string list \<Rightarrow> operation list" where
  "removal_ops owned = map (\<lambda>key. mk_op OpRemove (''/remote_attributes/'' @ key) []) owned"

definition collector_removeFinalizer ::
  "CollectorReconciler \<Rightarrow> cenv \<Rightarrow> Collector \<Rightarrow> ccall list \<Rightarrow> ccall rres" where
  "collector_removeFinalizer R E c tr =
     (let c = c\<lparr>cl_meta := (cl_meta c)\<lparr>om_finalizers :=
                 RemoveFinalizer (cr_klib R) (om_finalizers (cl_meta c)) collectorFinalizer\<rparr>\<rparr>;
          tr = tr @ [CcUpdate c]
      in case ce_Update E tr of
           Some err \<Rightarrow> ret tr done_result (Some err) collectorReasonSyncFailed
         | None \<Rightarrow> ret tr done_result None outcomeDeleted)"

definition collector_reconcileDelete ::
  "CollectorReconciler \<Rightarrow> cenv \<Rightarrow> Collector \<Rightarrow> ccall list \<Rightarrow> ccall rres" where
  "collector_reconcileDelete R E c tr =
     (if \<not> ContainsFinalizer (cr_klib R) (om_finalizers (cl_meta c)) collectorFinalizer
      then ret tr done_result None outcomeNoOp
      else
        (let owned = allOwnedKeys (cst_AttributeOwners (cl_status c))
         in if owned \<noteq> [] then
              (let tr = tr @ [CcBulkUpdate [cspec_ID (cl_spec c)] (removal_ops owned)]
               in case ce_BulkUpdate E tr of
                    Some err \<Rightarrow>
                      if is_fleet_not_found err
                      then collector_removeFinalizer R E c (collector_emitEvent R EventNormal ''Deleted'' tr)
                      else collector_updateStatusError R E c collectorReasonDeleteFailed err
                             (collector_emitEvent R EventWarning ''DeleteFailed'' tr)
                  | None \<Rightarrow> collector_removeFinalizer R E c tr)
            else collector_removeFinalizer R E c tr))"

definition collector_Reconcile :: "CollectorReconciler \<Rightarrow> cenv \<Rightarrow> nsname \<Rightarrow> ccall rres" where
  "collector_Reconcile R E req =
     (let tr = [CcGet req]
      in case ce_Get E tr of
           Inl err \<Rightarrow>
             if is_not_found err then ret tr done_result None outcomeNotFound
             else ret tr done_result (Some err) collectorReasonSyncFailed
         | Inr c \<Rightarrow>
             if om_deleting (cl_meta c) then collector_reconcileDelete R E c tr
             else if \<not> ContainsFinalizer (cr_klib R) (om_finalizers (cl_meta c)) collectorFinalizer then
               (let c = c\<lparr>cl_meta := (cl_meta c)\<lparr>om_finalizers :=
                           AddFinalizer (cr_klib R) (om_finalizers (cl_meta c)) collectorFinalizer\<rparr>\<rparr>;
                    tr = tr @ [CcUpdate c]
                in case ce_Update E tr of
                     Some err \<Rightarrow> ret tr done_result (Some err) collectorReasonSyncFailed
                   | None \<Rightarrow> ret tr done_result None outcomeNoOp)
             else collector_reconcileNormal R E c tr)"

section \<open>Watches\<close>

definition collectorIDsFromOwnedKeys :: "OwnedKeyEntry list \<Rightarrow> string set" where
  "collectorIDsFromOwnedKeys entries = set (filter (\<lambda>i. i \<noteq> []) (map oke_CollectorID entries))"

text \<open>\<open>collectors\<close> is the answer of the list call, or its error.\<close>

definition collectorsTouchedBySync ::
  "ExternalAttributeSync \<Rightarrow> go_error + Collector list \<Rightarrow> nsname list" where
  "collectorsTouchedBySync s collectors =
     (let touchedIDs = collectorIDsFromOwnedKeys (easst_OwnedKeys (eas_status s))
      in if touchedIDs = {} then []
         else case collectors of
                Inl err \<Rightarrow> []
              | Inr items \<Rightarrow>
                  map (\<lambda>c. key_of (cl_meta c)) (filter (\<lambda>c. cspec_ID (cl_spec c) \<in> touchedIDs) items))"

definition collectorsMatchedByPolicy ::
  "regex \<Rightarrow> RemoteAttributePolicy \<Rightarrow> go_error + Collector list \<Rightarrow> nsname list" where
  "collectorsMatchedByPolicy rx p collectors =
     (case collectors of
        Inl err \<Rightarrow> []
      | Inr items \<Rightarrow>
          map (\<lambda>c. key_of (cl_meta c))
            (filter (\<lambda>c. Match rx (selector_of (rapspec_Selector (rap_spec p))) (cspec_ID (cl_spec c))
                              (cst_LocalAttributes (cl_status c))) items))"

definition deletionTimestampChanged :: "objmeta \<Rightarrow> objmeta \<Rightarrow> bool" where
  "deletionTimestampChanged oldObj newObj \<longleftrightarrow> om_deleting oldObj \<noteq> om_deleting newObj"

definition policy_update_passes :: "RemoteAttributePolicy \<Rightarrow> RemoteAttributePolicy \<Rightarrow> bool" where
  "policy_update_passes oldP newP \<longleftrightarrow>
     om_generation (rap_meta oldP) \<noteq> om_generation (rap_meta newP) \<or>
     deletionTimestampChanged (rap_meta oldP) (rap_meta newP)"

end
