(* ===== verification/Collector_Sync.thy ===== *)
theory Collector_Sync
  imports Collector_Controller
begin

text \<open>
  What the Collector reconciler guarantees: which attribute values it makes Fleet Management
  hold and whose they are, that it settles, and what its deletion path removes.
\<close>

section \<open>Precedence\<close>

lemma find_sort_key_least:
  assumes "find P (sort_key f xs) = Some x"
  shows "x \<in> set xs \<and> P x \<and> (\<forall>y \<in> set xs. P y \<longrightarrow> f x \<le> f y)"
proof -
  have "find P ys = Some x \<Longrightarrow> sorted (map f ys) \<Longrightarrow>
          x \<in> set ys \<and> P x \<and> (\<forall>y \<in> set ys. P y \<longrightarrow> f x \<le> f y)" for ys
    by (induction ys) (auto split: if_splits)
  from this [OF assms] show ?thesis by simp
qed

lemma find_map: "find P (map f xs) = map_option f (find (P \<circ> f) xs)"
  by (induction xs) auto

text \<open>
  C27: among the policies that match a collector, each key takes its value from the policy of
  the highest priority that has the key, ties broken by the smaller namespaced name.
\<close>

theorem policy_precedence:
  assumes "map_of (ly_Attrs (policy_layer rx cid localAttrs items)) k = Some v"
  shows "\<exists>p \<in> set items. Match rx (selector_of (rapspec_Selector (rap_spec p))) cid localAttrs \<and>
           map_of (rapspec_Attributes (rap_spec p)) k = Some v \<and>
           list_all (\<lambda>q. Match rx (selector_of (rapspec_Selector (rap_spec q))) cid localAttrs \<and>
                has_key (rapspec_Attributes (rap_spec q)) k \<longrightarrow>
                rapspec_Priority (rap_spec q) < rapspec_Priority (rap_spec p) \<or>
                (rapspec_Priority (rap_spec q) = rapspec_Priority (rap_spec p) \<and>
                 full_name (rap_meta p) \<le> full_name (rap_meta q))) items"
proof -
  let ?hit = "\<lambda>p. has_key (rapspec_Attributes (rap_spec p)) k"
  let ?match = "\<lambda>p. Match rx (selector_of (rapspec_Selector (rap_spec p))) cid localAttrs"
  obtain p where p: "find ?hit (sort_key rank_of (filter ?match items)) = Some p"
    "map_of (rapspec_Attributes (rap_spec p)) k = Some v"
    using assms
    by (auto simp: policy_layer_def matched_policies_def map_of_claim_all find_map comp_def Let_def
        split: option.splits)
  from find_sort_key_least [OF p(1)]
  have "p \<in> set items" "?match p"
    and le: "\<And>q. q \<in> set items \<Longrightarrow> ?match q \<Longrightarrow> ?hit q \<Longrightarrow> rank_of p \<le> rank_of q"
    by auto
  moreover have "rapspec_Priority (rap_spec q) < rapspec_Priority (rap_spec p) \<or>
      (rapspec_Priority (rap_spec q) = rapspec_Priority (rap_spec p) \<and>
       full_name (rap_meta p) \<le> full_name (rap_meta q))"
    if "q \<in> set items" "?match q" "?hit q" for q
    using le [OF that] by (auto simp: less_eq_policy_rank_def rank_of_def split: if_splits)
  ultimately show ?thesis
    using p(2) by (auto simp: list_all_iff)
qed

section \<open>The operations sent\<close>

text \<open>The value the three layers want for a key, by descending precedence.\<close>

definition wanted :: "layer list \<Rightarrow> string \<rightharpoonup> string" where
  "wanted layers k = (case claimant layers k of None \<Rightarrow> None | Some L \<Rightarrow> map_of (ly_Attrs L) k)"

lemma wanted_three:
  "wanted [a, b, c] k =
     (case map_of (ly_Attrs a) k of Some v \<Rightarrow> Some v
      | None \<Rightarrow> (case map_of (ly_Attrs b) k of Some v \<Rightarrow> Some v | None \<Rightarrow> map_of (ly_Attrs c) k))"
  by (auto simp: wanted_def claimant_def has_key_map_of split: option.splits)

definition collector_layers ::
  "CollectorReconciler \<Rightarrow> Collector \<Rightarrow> collector \<Rightarrow> ExternalAttributeSync list \<Rightarrow>
     RemoteAttributePolicy list \<Rightarrow> layer list" where
  "collector_layers R c live syncs policies =
     [external_layer (cr_klib R) (cspec_ID (cl_spec c)) syncs, spec_layer c,
      policy_layer (cr_regex R) (cspec_ID (cl_spec c)) (fc_LocalAttributes live) policies]"

lemma set_allOwnedKeys [simp]: "set (allOwnedKeys owners) = ao_Key ` set owners"
  by (simp add: allOwnedKeys_def)

fun is_bulk :: "ccall \<Rightarrow> bool" where
  "is_bulk (CcBulkUpdate ids ops) = True"
| "is_bulk _ = False"

abbreviation gather :: "nsname \<Rightarrow> Collector \<Rightarrow> ccall list" where
  "gather req c \<equiv> [CcGet req, CcGetCollector (cspec_ID (cl_spec c)),
     CcListSyncs (om_namespace (cl_meta c)), CcListPolicies (om_namespace (cl_meta c))]"

definition quiet :: "(ccall \<Rightarrow> bool) \<Rightarrow> bool" where
  "quiet Q \<longleftrightarrow> (\<forall>t r. Q (CcEvent t r)) \<and> (\<forall>c. Q (CcStatusUpdate c))"

lemma quietD [simp]: "quiet Q \<Longrightarrow> Q (CcEvent t r)" "quiet Q \<Longrightarrow> Q (CcStatusUpdate c)"
  by (simp_all add: quiet_def)

lemma quiet_not_bulk [simp]: "quiet (\<lambda>c. \<not> is_bulk c)"
  by (simp add: quiet_def)

lemma cl_emit_extends [trace_intros]:
  "quiet Q \<Longrightarrow> extends Q tr0 tr \<Longrightarrow> extends Q tr0 (collector_emitEvent R t r tr)"
  by (auto simp: collector_emitEvent_def intro!: trace_intros)

lemma cl_updateStatusSuccess_extends [trace_intros]:
  "quiet Q \<Longrightarrow> extends Q tr0 tr \<Longrightarrow>
   extends Q tr0 (rr_trace (collector_updateStatusSuccess R E c live desired owners tr))"
  by (auto simp: collector_updateStatusSuccess_def Let_def split: option.splits intro!: trace_intros)

lemma cl_updateStatusNotRegistered_extends [trace_intros]:
  "quiet Q \<Longrightarrow> extends Q tr0 tr \<Longrightarrow> extends Q tr0 (fst (updateStatusNotRegistered R E c tr))"
  by (auto simp: updateStatusNotRegistered_def Let_def split: option.splits intro!: trace_intros)

lemma cl_updateStatusError_extends [trace_intros]:
  "quiet Q \<Longrightarrow> extends Q tr0 tr \<Longrightarrow>
   extends Q tr0 (rr_trace (collector_updateStatusError R E c reason err tr))"
  by (auto simp: collector_updateStatusError_def Let_def split: option.splits intro!: trace_intros)

lemma cl_handleAPIError_extends [trace_intros]:
  "quiet Q \<Longrightarrow> extends Q tr0 tr \<Longrightarrow>
   extends Q tr0 (rr_trace (collector_handleAPIError R E c err tr))"
  by (auto simp: collector_handleAPIError_def Let_def split: option.splits intro!: trace_intros)

lemma apply_layers_extends:
  assumes "quiet Q" "extends Q tr0 tr"
    and "Q (CcBulkUpdate [cspec_ID (cl_spec c)]
              (Diff (fst (Merge layers)) (fc_RemoteAttributes live)
                 (allOwnedKeys (cst_AttributeOwners (cl_status c)))))"
  shows "extends Q tr0 (rr_trace (apply_layers R E c live layers tr))"
  using assms
  by (auto simp: apply_layers_def Let_def split: prod.splits option.splits intro!: trace_intros)

lemma cl_notRegistered_extends:
  "updateStatusNotRegistered R E c tr = (tr', x) \<Longrightarrow> quiet Q \<Longrightarrow> extends Q tr0 tr \<Longrightarrow>
   extends Q tr0 tr'"
  using cl_updateStatusNotRegistered_extends [of Q tr0 tr R E c] by simp

text \<open>The one bulk update of a reconcile, and what it was computed from.\<close>

definition bulk_from ::
  "CollectorReconciler \<Rightarrow> cenv \<Rightarrow> Collector \<Rightarrow> ccall list \<Rightarrow> string list \<Rightarrow> operation list \<Rightarrow> bool" where
  "bulk_from R E c tr ids ops \<longleftrightarrow>
     (\<exists>live syncs policies.
        ce_GetCollector E (tr @ [CcGetCollector (cspec_ID (cl_spec c))]) = Inr live \<and>
        ce_ListSyncs E (tr @ [CcGetCollector (cspec_ID (cl_spec c)),
          CcListSyncs (om_namespace (cl_meta c))]) = Inr syncs \<and>
        ce_ListPolicies E (tr @ [CcGetCollector (cspec_ID (cl_spec c)),
          CcListSyncs (om_namespace (cl_meta c)), CcListPolicies (om_namespace (cl_meta c))]) =
            Inr policies \<and>
        ids = [cspec_ID (cl_spec c)] \<and>
        ops = Diff (fst (Merge (collector_layers R c live syncs policies)))
                (fc_RemoteAttributes live) (allOwnedKeys (cst_AttributeOwners (cl_status c))))"

lemma reconcileNormal_extends_bulk:
  assumes "quiet Q" "Q (CcGetCollector (cspec_ID (cl_spec c)))"
    and "Q (CcListSyncs (om_namespace (cl_meta c)))" "Q (CcListPolicies (om_namespace (cl_meta c)))"
    and "\<And>ids ops. bulk_from R E c tr ids ops \<Longrightarrow> Q (CcBulkUpdate ids ops)"
  shows "extends Q tr (rr_trace (collector_reconcileNormal R E c tr))"
proof (cases "ce_GetCollector E (tr @ [CcGetCollector (cspec_ID (cl_spec c))])")
  case (Inl err)
  then show ?thesis
    using assms(1,2)
    by (auto simp: collector_reconcileNormal_def Let_def split: prod.splits option.splits
        intro!: trace_intros elim!: cl_notRegistered_extends)
next
  case live: (Inr live)
  let ?tr2 = "tr @ [CcGetCollector (cspec_ID (cl_spec c)), CcListSyncs (om_namespace (cl_meta c))]"
  let ?tr3 = "tr @ [CcGetCollector (cspec_ID (cl_spec c)), CcListSyncs (om_namespace (cl_meta c)),
    CcListPolicies (om_namespace (cl_meta c))]"
  have e3: "extends Q tr ?tr3" and e2: "extends Q tr ?tr2"
    using assms(2-4) by (auto intro!: trace_intros)
  show ?thesis
  proof (cases "ce_ListSyncs E ?tr2")
    case (Inl err)
    with live assms(1) e2 show ?thesis
      by (auto simp: collector_reconcileNormal_def externalSyncLayerForCollector_def Let_def
          intro!: cl_updateStatusError_extends)
  next
    case syncs: (Inr syncs)
    show ?thesis
    proof (cases "ce_ListPolicies E ?tr3")
      case (Inl err)
      with live syncs assms(1) e3 show ?thesis
        by (auto simp: collector_reconcileNormal_def externalSyncLayerForCollector_def
            policyLayerForCollector_def Let_def intro!: cl_updateStatusError_extends)
    next
      case policies: (Inr policies)
      have "bulk_from R E c tr [cspec_ID (cl_spec c)]
              (Diff (fst (Merge (collector_layers R c live syncs policies)))
                (fc_RemoteAttributes live) (allOwnedKeys (cst_AttributeOwners (cl_status c))))"
        unfolding bulk_from_def using live syncs policies by blast
      from assms(5) [OF this]
      have "extends Q tr (rr_trace (apply_layers R E c live (collector_layers R c live syncs policies) ?tr3))"
        using assms(1) e3 by (intro apply_layers_extends)
      with live syncs policies show ?thesis
        by (simp add: collector_reconcileNormal_def externalSyncLayerForCollector_def
            policyLayerForCollector_def collector_layers_def Let_def)
    qed
  qed
qed

lemma bulk_of_reconcile:
  assumes "ce_Get E [CcGet req] = Inr c" "\<not> om_deleting (cl_meta c)"
    and "CcBulkUpdate ids ops \<in> set (rr_trace (collector_Reconcile R E req))"
  shows "bulk_from R E c [CcGet req] ids ops"
proof -
  let ?Q = "\<lambda>x. \<forall>ids ops. x = CcBulkUpdate ids ops \<longrightarrow> bulk_from R E c [CcGet req] ids ops"
  have "extends ?Q [CcGet req] (rr_trace (collector_reconcileNormal R E c [CcGet req]))"
    by (rule reconcileNormal_extends_bulk) (auto simp: quiet_def)
  from extends_set [OF this] assms show ?thesis
    by (auto simp: collector_Reconcile_def Let_def split: if_splits option.splits)
qed

text \<open>
  C8: the operations a reconcile sends move Fleet Management exactly to the wanted state: it
  addresses this collector only, and once the server has applied them every key has the value
  of its highest layer (external syncs over the resource's spec over policies), every key
  owned before and no longer wanted is gone, and every other key is untouched.
\<close>

theorem collector_update_reaches_wanted:
  assumes "ce_Get E [CcGet req] = Inr c" "\<not> om_deleting (cl_meta c)"
    and "CcBulkUpdate ids ops \<in> set (rr_trace (collector_Reconcile R E req))"
  shows "\<exists>live syncs policies.
           ids = [cspec_ID (cl_spec c)] \<and>
           ce_GetCollector E [CcGet req, CcGetCollector (cspec_ID (cl_spec c))] = Inr live \<and>
           ce_ListSyncs E [CcGet req, CcGetCollector (cspec_ID (cl_spec c)),
             CcListSyncs (om_namespace (cl_meta c))] = Inr syncs \<and>
           ce_ListPolicies E (gather req c) = Inr policies \<and>
           (\<forall>k. apply_ops ops (map_of (fc_RemoteAttributes live)) k =
              (case wanted (collector_layers R c live syncs policies) k of
                 Some v \<Rightarrow> Some v
               | None \<Rightarrow> if k \<in> ao_Key ` set (cst_AttributeOwners (cl_status c)) then None
                         else map_of (fc_RemoteAttributes live) k))"
proof -
  obtain live syncs policies where b:
    "ce_GetCollector E [CcGet req, CcGetCollector (cspec_ID (cl_spec c))] = Inr live"
    "ce_ListSyncs E [CcGet req, CcGetCollector (cspec_ID (cl_spec c)),
       CcListSyncs (om_namespace (cl_meta c))] = Inr syncs"
    "ce_ListPolicies E (gather req c) = Inr policies"
    "ids = [cspec_ID (cl_spec c)]"
    "ops = Diff (fst (Merge (collector_layers R c live syncs policies)))
             (fc_RemoteAttributes live) (allOwnedKeys (cst_AttributeOwners (cl_status c)))"
    using bulk_of_reconcile [OF assms] by (auto simp: bulk_from_def)
  have "apply_ops ops (map_of (fc_RemoteAttributes live)) k =
      (case wanted (collector_layers R c live syncs policies) k of
         Some v \<Rightarrow> Some v
       | None \<Rightarrow> if k \<in> ao_Key ` set (cst_AttributeOwners (cl_status c)) then None
                 else map_of (fc_RemoteAttributes live) k)" for k
    unfolding b(5)
    by (simp add: keyed_Diff_apply gomap_ok_Merge Merge_lookup wanted_def)
  with b show ?thesis by blast
qed

section \<open>Settling\<close>

lemma mapsEqual_refl: "gomap_ok m \<Longrightarrow> mapsEqual m m"
  by (auto simp: mapsEqual_def gomap_ok_def list_all_iff)

lemma owner_index_other:
  "k \<notin> ao_Key ` set xs \<Longrightarrow>
   map_of (fold (\<lambda>x idx. map_put (ao_Key x) x idx) xs idx) k = map_of idx k"
  by (induction xs arbitrary: idx) auto

lemma owner_index_in:
  "distinct (map ao_Key xs) \<Longrightarrow> x \<in> set xs \<Longrightarrow>
   map_of (fold (\<lambda>x idx. map_put (ao_Key x) x idx) xs idx) (ao_Key x) = Some x"
proof (induction xs arbitrary: idx)
  case (Cons y ys)
  then show ?case
    by (cases "x \<in> set ys") (auto simp: owner_index_other)
qed simp

lemma owner_index_lookup:
  "distinct (map ao_Key xs) \<Longrightarrow> x \<in> set xs \<Longrightarrow> map_of (owner_index xs) (ao_Key x) = Some x"
  unfolding owner_index_def by (rule owner_index_in)

lemma ownerSlicesEqual_refl: "distinct (map ao_Key xs) \<Longrightarrow> ownerSlicesEqual xs xs"
  by (auto simp: ownerSlicesEqual_def list_all_iff owner_index_lookup)

lemma ownersFromMerge_keys: "map ao_Key (ownersFromMerge xs) = map ko_Key xs"
  by (simp add: ownersFromMerge_def)

lemma cset_cond_simps [simp]:
  "cst_ObservedGeneration (cset_cond K c st) = cst_ObservedGeneration st"
  "cst_Registered (cset_cond K c st) = cst_Registered st"
  "cst_LastPing (cset_cond K c st) = cst_LastPing st"
  "cst_Name (cset_cond K c st) = cst_Name st"
  "cst_Enabled (cset_cond K c st) = cst_Enabled st"
  "cst_CollectorType (cset_cond K c st) = cst_CollectorType st"
  "cst_CreatedAt (cset_cond K c st) = cst_CreatedAt st"
  "cst_UpdatedAt (cset_cond K c st) = cst_UpdatedAt st"
  "cst_MarkedInactiveAt (cset_cond K c st) = cst_MarkedInactiveAt st"
  "cst_LocalAttributes (cset_cond K c st) = cst_LocalAttributes st"
  "cst_EffectiveRemoteAttributes (cset_cond K c st) = cst_EffectiveRemoteAttributes st"
  "cst_AttributeOwners (cset_cond K c st) = cst_AttributeOwners st"
  "cst_Conditions (cset_cond K c st) = SetStatusCondition K (cst_Conditions st) c"
  by (simp_all add: cset_cond_def)

lemma cond_at_mem: "cond_at cs t = Some c \<Longrightarrow> c \<in> set cs \<and> cnd_type c = t"
  unfolding cond_at_def by (metis (mono_tags, lifting) find_Some_iff nth_mem)

lemma ready_after_success:
  assumes "klib_ok K"
  shows "ready_at_generation (c\<lparr>cl_status := collector_success_status K c live desired newOwners\<rparr>)"
proof -
  let ?cs = "cst_Conditions (collector_success_status K c live desired newOwners)"
  let ?r = "\<lparr>cnd_type = condReady, cnd_status = CTrue, cnd_reason = collectorReasonSynced,
     cnd_message = ''Collector successfully synced to Fleet Management'',
     cnd_gen = om_generation (cl_meta c)\<rparr>"
  have "cond_at ?cs condReady = Some ?r"
    by (simp add: collector_success_status_def klib_set [OF assms] Let_def)
  from cond_at_mem [OF this] have r: "?r \<in> set ?cs" by simp
  show ?thesis
    unfolding ready_at_generation_def list_ex_iff using r by (intro bexI [of _ ?r]) simp_all
qed

text \<open>
  The Collector as the API server stores it, its times cut to the second, and the live state
  whose times are whole seconds.
\<close>

definition stored_collector :: "Collector \<Rightarrow> Collector" where
  "stored_collector q =
     q\<lparr>cl_status := (cl_status q)
         \<lparr>cst_LastPing := map_option stored_time (cst_LastPing (cl_status q)),
          cst_CreatedAt := map_option stored_time (cst_CreatedAt (cl_status q)),
          cst_UpdatedAt := map_option stored_time (cst_UpdatedAt (cl_status q)),
          cst_MarkedInactiveAt := map_option stored_time (cst_MarkedInactiveAt (cl_status q))\<rparr>\<rparr>"

definition whole_seconds :: "collector \<Rightarrow> bool" where
  "whole_seconds live \<longleftrightarrow>
     map_option stored_time (fc_CreatedAt live) = fc_CreatedAt live \<and>
     map_option stored_time (fc_UpdatedAt live) = fc_UpdatedAt live \<and>
     map_option stored_time (fc_MarkedInactiveAt live) = fc_MarkedInactiveAt live"

lemma stored_collector_simps [simp]:
  "cl_meta (stored_collector q) = cl_meta q"
  "cl_spec (stored_collector q) = cl_spec q"
  "cst_Conditions (cl_status (stored_collector q)) = cst_Conditions (cl_status q)"
  "cst_AttributeOwners (cl_status (stored_collector q)) = cst_AttributeOwners (cl_status q)"
  "ready_at_generation (stored_collector q) = ready_at_generation q"
  by (simp_all add: stored_collector_def ready_at_generation_def)

lemma map_option_stored_idem [simp]:
  "map_option stored_time (map_option stored_time t) = map_option stored_time t"
  by (cases t) simp_all

lemma noop_after_success:
  assumes "klib_ok K" "gomap_ok (fc_LocalAttributes live)"
    and "live' = live\<lparr>fc_RemoteAttributes := remote\<rparr>"
    and "q = c\<lparr>cl_status := collector_success_status K c live (fst (Merge layers))
                 (ownersFromMerge (snd (Merge layers)))\<rparr>"
  shows "noop_status (stored_collector q) live' (fst (Merge layers)) (ownersFromMerge (snd (Merge layers)))
           \<longleftrightarrow> whole_seconds live"
proof -
  have "ready_at_generation q"
    unfolding assms(4) by (rule ready_after_success [OF assms(1)])
  moreover have "ownerSlicesEqual (ownersFromMerge (snd (Merge layers)))
      (ownersFromMerge (snd (Merge layers)))"
    by (rule ownerSlicesEqual_refl) (simp add: ownersFromMerge_keys Merge_owners_distinct)
  moreover have ping: "cst_LastPing (cl_status (stored_collector q)) = live_last_ping (stored_collector q) live' \<longleftrightarrow>
      map_option stored_time (fc_UpdatedAt live) = fc_UpdatedAt live"
    by (auto simp: stored_collector_def assms(3,4) collector_success_status_def live_last_ping_def
        Let_def split: option.splits)
  moreover have stored:
    "cl_meta q = cl_meta c"
    "cst_ObservedGeneration (cl_status (stored_collector q)) = om_generation (cl_meta c)"
    "cst_Registered (cl_status (stored_collector q))"
    "cst_Name (cl_status (stored_collector q)) = fc_Name live"
    "cst_Enabled (cl_status (stored_collector q)) = fc_Enabled live"
    "cst_CollectorType (cl_status (stored_collector q)) = CollectorTypeFromFleetAPI (fc_CollectorType live)"
    "cst_CreatedAt (cl_status (stored_collector q)) = map_option stored_time (fc_CreatedAt live)"
    "cst_UpdatedAt (cl_status (stored_collector q)) = map_option stored_time (fc_UpdatedAt live)"
    "cst_MarkedInactiveAt (cl_status (stored_collector q)) = map_option stored_time (fc_MarkedInactiveAt live)"
    "cst_LocalAttributes (cl_status (stored_collector q)) = fc_LocalAttributes live"
    "cst_EffectiveRemoteAttributes (cl_status (stored_collector q)) = fst (Merge layers)"
    "cst_AttributeOwners (cl_status q) = ownersFromMerge (snd (Merge layers))"
    by (simp_all add: stored_collector_def assms(4) collector_success_status_def Let_def)
  ultimately show ?thesis
    using assms(2) unfolding noop_status_def ping
    by (auto simp: whole_seconds_def stored assms(3) mapsEqual_refl gomap_ok_Merge)
qed

text \<open>A second success status differs from the first in nothing that is stored.\<close>

lemma success_status_again:
  assumes "klib_ok K"
    and "q = c\<lparr>cl_status := collector_success_status K c live desired newOwners\<rparr>"
    and "q' = (stored_collector q)\<lparr>cl_status := collector_success_status K (stored_collector q)
                 (live\<lparr>fc_RemoteAttributes := remote\<rparr>) desired newOwners\<rparr>"
  shows "(stored_collector q')\<lparr>cl_status := (cl_status (stored_collector q'))\<lparr>cst_Conditions := []\<rparr>\<rparr> =
         (stored_collector q)\<lparr>cl_status := (cl_status (stored_collector q))\<lparr>cst_Conditions := []\<rparr>\<rparr>"
    and "cond_at (cst_Conditions (cl_status q')) t = cond_at (cst_Conditions (cl_status q)) t"
  using assms(1)
  by (auto simp: assms(2,3) stored_collector_def collector_success_status_def live_last_ping_def klib_set
      cset_cond_def Let_def split: option.splits)

text \<open>What the servers answer when everything works and the inputs are given.\<close>

definition answers ::
  "cenv \<Rightarrow> Collector \<Rightarrow> collector \<Rightarrow> ExternalAttributeSync list \<Rightarrow> RemoteAttributePolicy list \<Rightarrow> bool" where
  "answers E c live syncs policies \<longleftrightarrow>
     (\<forall>tr. ce_Get E tr = Inr c) \<and> (\<forall>tr. ce_GetCollector E tr = Inr live) \<and>
     (\<forall>tr. ce_ListSyncs E tr = Inr syncs) \<and> (\<forall>tr. ce_ListPolicies E tr = Inr policies) \<and>
     (\<forall>tr. ce_BulkUpdate E tr = None) \<and> (\<forall>tr. ce_StatusUpdate E tr = None)"

abbreviation cl_active :: "CollectorReconciler \<Rightarrow> Collector \<Rightarrow> bool" where
  "cl_active R c \<equiv> \<not> om_deleting (cl_meta c) \<and>
     ContainsFinalizer (cr_klib R) (om_finalizers (cl_meta c)) collectorFinalizer"

lemma reconcile_answers:
  assumes "cl_active R c" "answers E c live syncs policies"
  shows "collector_Reconcile R E req =
           apply_layers R E c live (collector_layers R c live syncs policies) (gather req c)"
  using assms
  by (simp add: collector_Reconcile_def collector_reconcileNormal_def externalSyncLayerForCollector_def
      policyLayerForCollector_def collector_layers_def answers_def Let_def)

text \<open>The remote attributes after the calls of a reconcile.\<close>

definition served :: "ccall list \<Rightarrow> (string \<rightharpoonup> string) \<Rightarrow> (string \<rightharpoonup> string)" where
  "served tr m = fold (\<lambda>x m. case x of CcBulkUpdate ids ops \<Rightarrow> apply_ops ops m | _ \<Rightarrow> m) tr m"

lemma served_simps [simp]:
  "served [] m = m"
  "served (tr @ tr') m = served tr' (served tr m)"
  "served (CcBulkUpdate ids ops # tr) m = served tr (apply_ops ops m)"
  "\<not> is_bulk x \<Longrightarrow> served (x # tr) m = served tr m"
  by (simp_all add: served_def) (cases x; simp)

lemma served_emit [simp]: "served (collector_emitEvent R t r tr) m = served tr m"
  by (simp add: collector_emitEvent_def)

lemma apply_ops_Nil [simp]: "apply_ops [] m = m"
  by (simp add: apply_ops_def)

lemma Diff_after_apply:
  assumes "gomap_ok desired" "\<And>k. map_of remote' k =
      apply_ops (Diff desired remote owned) (map_of remote) k"
    and "set owned' \<subseteq> fst ` set desired"
  shows "Diff desired remote' owned' = []"
  unfolding Diff_Nil_iff [OF assms(1)]
proof (intro conjI allI impI)
  show "map_of remote' k = Some v" if "map_of desired k = Some v" for k v
    using that assms(2) by (simp add: keyed_Diff_apply [OF assms(1)])
  show "has_key desired k" if "k \<in> set owned'" for k
    using that assms(3) by (auto simp: has_key_def)
qed

lemma written_status:
  assumes "answers E c live syncs policies"
    and "CcStatusUpdate q \<in> set (rr_trace (apply_layers R E c live layers (gather req c)))"
  shows "q = c\<lparr>cl_status := collector_success_status (cr_klib R) c live (fst (Merge layers))
                 (ownersFromMerge (snd (Merge layers)))\<rparr>"
  using assms
  by (auto simp: apply_layers_def collector_updateStatusSuccess_def collector_emitEvent_def answers_def
      Let_def split: prod.splits if_splits)

lemma served_apply_layers:
  assumes "answers E c live syncs policies"
  shows "served (rr_trace (apply_layers R E c live layers (gather req c))) m =
           apply_ops (Diff (fst (Merge layers)) (fc_RemoteAttributes live)
             (allOwnedKeys (cst_AttributeOwners (cl_status c)))) m"
  using assms
  by (simp add: apply_layers_def collector_updateStatusSuccess_def answers_def
      Let_def split: prod.splits if_splits)

text \<open>
  C24: the reconciler settles.  When the servers accept what it sends, then on the status it
  wrote, as the API server stores it (times cut to the second), on the remote attributes its
  operations produce and on otherwise unchanged inputs the next reconcile sends nothing to
  Fleet Management.  When the times Fleet Management reports are whole seconds it writes
  nothing at all and ends as a no-op.  When one of them is not, the reconciler compares it to
  the stored second, takes the status for outdated and writes it again: exactly once, and with
  no change to what is stored.
\<close>

theorem collector_settles:
  assumes "klib_ok (cr_klib R)" "cl_active R c" "answers E c live syncs policies"
    and "gomap_ok (fc_LocalAttributes live)"
    and "CcStatusUpdate q \<in> set (rr_trace (collector_Reconcile R E req))"
    and "map_of remote' = served (rr_trace (collector_Reconcile R E req)) (map_of (fc_RemoteAttributes live))"
    and "answers E' (stored_collector q) (live\<lparr>fc_RemoteAttributes := remote'\<rparr>) syncs policies"
  shows "if whole_seconds live
         then collector_Reconcile R E' req =
                ret (gather req c) (requeue_after collectorPeriodicResyncAfter) None outcomeNoOp
         else \<exists>q'. collector_Reconcile R E' req =
                ret (collector_emitEvent R EventNormal ''Synced'' (gather req c @ [CcStatusUpdate q']))
                  (requeue_after collectorPeriodicResyncAfter) None collectorReasonSynced \<and>
              (stored_collector q')\<lparr>cl_status := (cl_status (stored_collector q'))\<lparr>cst_Conditions := []\<rparr>\<rparr> =
              (stored_collector q)\<lparr>cl_status := (cl_status (stored_collector q))\<lparr>cst_Conditions := []\<rparr>\<rparr> \<and>
              (\<forall>t. cond_at (cst_Conditions (cl_status q')) t = cond_at (cst_Conditions (cl_status q)) t)"
proof -
  define layers where "layers = collector_layers R c live syncs policies"
  let ?live = "live\<lparr>fc_RemoteAttributes := remote'\<rparr>"
  let ?desired = "fst (Merge layers)" and ?owners = "ownersFromMerge (snd (Merge layers))"
  have run: "collector_Reconcile R E req = apply_layers R E c live layers (gather req c)"
    using reconcile_answers [OF assms(2,3)] by (simp add: layers_def)
  have q: "q = c\<lparr>cl_status := collector_success_status (cr_klib R) c live ?desired ?owners\<rparr>"
    using written_status [OF assms(3)] assms(5) run by simp
  have same: "collector_layers R (stored_collector q) ?live syncs policies = layers"
    by (simp add: collector_layers_def layers_def spec_layer_def q stored_collector_def)
  have keys: "ao_Key ` set (cst_AttributeOwners (cl_status q)) = ko_Key ` set (snd (Merge layers))"
    by (simp add: q collector_success_status_def ownersFromMerge_def image_image Let_def)
  have quiet: "Diff ?desired remote' (allOwnedKeys (cst_AttributeOwners (cl_status q))) = []"
  proof (rule Diff_after_apply)
    show "map_of remote' k = apply_ops (Diff ?desired (fc_RemoteAttributes live)
             (allOwnedKeys (cst_AttributeOwners (cl_status c)))) (map_of (fc_RemoteAttributes live)) k" for k
      using assms(6) by (simp add: run served_apply_layers [OF assms(3)])
    show "set (allOwnedKeys (cst_AttributeOwners (cl_status q))) \<subseteq> fst ` set ?desired"
      using Merge_owner_keys [of layers] by (simp add: keys)
  qed (rule gomap_ok_Merge)
  have active: "cl_active R (stored_collector q)" using assms(2) by (simp add: q)
  have "cl_meta q = cl_meta c" "cl_spec q = cl_spec c" by (simp_all add: q)
  then have next_run: "collector_Reconcile R E' req =
      collector_updateStatusSuccess R E' (stored_collector q) ?live ?desired (snd (Merge layers)) (gather req c)"
    using reconcile_answers [OF active assms(7), of req, unfolded same] quiet
    by (simp add: apply_layers_def split: prod.splits)
  have noop: "noop_status (stored_collector q) ?live ?desired ?owners \<longleftrightarrow> whole_seconds live"
    by (rule noop_after_success [OF assms(1,4) refl q])
  show ?thesis
  proof (cases "whole_seconds live")
    case True
    then show ?thesis using noop by (simp add: next_run collector_updateStatusSuccess_def)
  next
    case False
    have accepted: "ce_StatusUpdate E' tr = None" for tr using assms(7) by (simp add: answers_def)
    let ?q' = "(stored_collector q)\<lparr>cl_status := collector_success_status (cr_klib R) (stored_collector q)
                 ?live ?desired ?owners\<rparr>"
    have "collector_Reconcile R E' req =
        ret (collector_emitEvent R EventNormal ''Synced'' (gather req c @ [CcStatusUpdate ?q']))
          (requeue_after collectorPeriodicResyncAfter) None collectorReasonSynced"
      using False noop by (simp add: next_run collector_updateStatusSuccess_def accepted Let_def)
    with success_status_again [OF assms(1) q refl, of remote'] show ?thesis
      unfolding if_not_P [OF False] by blast
  qed
qed

section \<open>Registration and deletion\<close>

text \<open>
  For a collector that has not registered, Fleet Management is asked and nothing is sent
  to it; without a failing status write the reconcile ends without an error and is repeated
  after 30 seconds (at once after a status conflict).
\<close>

theorem not_registered_waits:
  assumes "ce_Get E [CcGet req] = Inr c" "cl_active R c"
    and "ce_GetCollector E [CcGet req, CcGetCollector (cspec_ID (cl_spec c))] = Inl err"
    and "is_fleet_not_found err"
    and "\<And>tr e. ce_StatusUpdate E tr = Some e \<Longrightarrow> is_conflict e"
  shows "\<not> list_ex is_bulk (rr_trace (collector_Reconcile R E req)) \<and>
         rr_err (collector_Reconcile R E req) = None \<and>
         rr_outcome (collector_Reconcile R E req) = collectorReasonNotRegistered \<and>
         rr_result (collector_Reconcile R E req) \<in> {requeue_after (30 * second), requeue_now}"
proof -
  let ?tr = "collector_emitEvent R EventWarning ''NotRegistered''
               [CcGet req, CcGetCollector (cspec_ID (cl_spec c))]"
  obtain tr' res e where u: "updateStatusNotRegistered R E c ?tr = (tr', res, e)"
    by (cases "updateStatusNotRegistered R E c ?tr")
  have "e = None \<and> res \<in> {requeue_after (30 * second), requeue_now}"
    using u assms(5)
    by (auto simp: updateStatusNotRegistered_def Let_def notRegisteredRequeueAfter_def
        split: if_splits option.splits)
  moreover have "extends (\<lambda>x. \<not> is_bulk x) [CcGet req, CcGetCollector (cspec_ID (cl_spec c))] tr'"
    using u by (rule cl_notRegistered_extends) (auto intro!: trace_intros)
  then have "\<not> list_ex is_bulk tr'"
    by (auto simp: extends_def list_ex_iff list_all_iff)
  moreover have "collector_Reconcile R E req =
      (case e of Some statusErr \<Rightarrow> ret tr' done_result (Some statusErr) collectorReasonSyncFailed
       | None \<Rightarrow> ret tr' res None collectorReasonNotRegistered)"
    using assms(1-4) u
    by (simp add: collector_Reconcile_def collector_reconcileNormal_def Let_def split: option.splits)
  ultimately show ?thesis by simp
qed

lemma path_key_plain:
  "CHR ''/'' \<notin> set k \<Longrightarrow> CHR ''~'' \<notin> set k \<Longrightarrow> path_key (''/remote_attributes/'' @ k) = Some k"
proof -
  assume a: "CHR ''/'' \<notin> set k" "CHR ''~'' \<notin> set k"
  have "json_unescape s = s" if "CHR ''~'' \<notin> set s" for s
    using that by (induction s) (auto simp: json_unescape_other)
  with a show ?thesis using has_prefix_append [of remote_prefix k] by (simp add: path_key_def)
qed

lemma path_key_slash:
  "CHR ''/'' \<in> set k \<Longrightarrow> path_key (''/remote_attributes/'' @ k) = None"
  using has_prefix_append [of remote_prefix k] by (simp add: path_key_def)

lemma removal_applied:
  assumes "\<And>k. k \<in> set owned \<Longrightarrow> CHR ''/'' \<notin> set k \<and> CHR ''~'' \<notin> set k"
  shows "apply_ops (removal_ops owned) m k = (if k \<in> set owned then None else m k)"
  using assms
proof (induction owned arbitrary: m)
  case (Cons j owned)
  have "path_key (''/remote_attributes/'' @ j) = Some j"
    using Cons.prems [of j] by (intro path_key_plain) simp_all
  moreover have "apply_ops (removal_ops owned) (m(j := None)) k =
      (if k \<in> set owned then None else (m(j := None)) k)"
    using Cons by simp
  ultimately show ?case
    by (simp add: removal_ops_def apply_ops_def apply_op_def)
qed (simp add: removal_ops_def apply_ops_def)

text \<open>
  C25: deleting the resource gives the collector back its attributes: the finalizer is removed
  only after Fleet Management accepted (or no longer knows the collector) the removal of every
  key in the status, and those operations remove exactly these keys, provided no key contains
  \<open>/\<close> or \<open>~\<close>.
\<close>

theorem delete_removes_owned:
  assumes "ce_Get E [CcGet req] = Inr c" "om_deleting (cl_meta c)"
    and "cst_AttributeOwners (cl_status c) \<noteq> []"
    and "\<And>k. k \<in> ao_Key ` set (cst_AttributeOwners (cl_status c)) \<Longrightarrow>
           CHR ''/'' \<notin> set k \<and> CHR ''~'' \<notin> set k"
    and "CcUpdate d \<in> set (rr_trace (collector_Reconcile R E req))"
  shows "\<exists>ops. CcBulkUpdate [cspec_ID (cl_spec c)] ops \<in> set (rr_trace (collector_Reconcile R E req)) \<and>
           (case ce_BulkUpdate E [CcGet req, CcBulkUpdate [cspec_ID (cl_spec c)] ops] of
              None \<Rightarrow> True | Some err \<Rightarrow> is_fleet_not_found err) \<and>
           (\<forall>m k. apply_ops ops m k =
              (if k \<in> ao_Key ` set (cst_AttributeOwners (cl_status c)) then None else m k))"
proof -
  define owned where "owned = allOwnedKeys (cst_AttributeOwners (cl_status c))"
  let ?tr = "[CcGet req, CcBulkUpdate [cspec_ID (cl_spec c)] (removal_ops owned)]"
  have ne: "owned \<noteq> []"
    using assms(3) by (metis image_is_empty owned_def set_allOwnedKeys set_empty)
  have run: "collector_Reconcile R E req = collector_reconcileDelete R E c [CcGet req]"
    using assms(1,2) by (simp add: collector_Reconcile_def)
  have fin: "ContainsFinalizer (cr_klib R) (om_finalizers (cl_meta c)) collectorFinalizer"
    using assms(5) run by (auto simp: collector_reconcileDelete_def split: if_splits)
  have noupd: "CcUpdate d \<notin> set (rr_trace (collector_updateStatusError R E c reason err
      (collector_emitEvent R t r ?tr)))" for reason err t r
  proof -
    have "extends (\<lambda>x. \<forall>d. x \<noteq> CcUpdate d) ?tr
        (rr_trace (collector_updateStatusError R E c reason err (collector_emitEvent R t r ?tr)))"
      by (auto simp: quiet_def intro!: trace_intros)
    from extends_set [OF this] show ?thesis by auto
  qed
  have ok: "case ce_BulkUpdate E ?tr of None \<Rightarrow> True | Some err \<Rightarrow> is_fleet_not_found err"
    using assms(5) ne fin noupd
    by (auto simp: run collector_reconcileDelete_def owned_def [symmetric] Let_def
        split: option.splits if_splits)
  moreover have "CcBulkUpdate [cspec_ID (cl_spec c)] (removal_ops owned) \<in>
      set (rr_trace (collector_Reconcile R E req))"
    using ne fin ok
    by (auto simp: run collector_reconcileDelete_def collector_removeFinalizer_def
        collector_emitEvent_def owned_def [symmetric] Let_def split: option.splits if_splits)
  moreover have "apply_ops (removal_ops owned) m k =
      (if k \<in> ao_Key ` set (cst_AttributeOwners (cl_status c)) then None else m k)" for m k
    using removal_applied [of owned m k] assms(4) by (simp add: owned_def)
  ultimately show ?thesis by blast
qed

text \<open>
  An owned key that contains a slash is left behind: the deletion path writes the key into
  the path unescaped, so its operation does not address the attribute, while the operation the
  normal path would send removes it.
\<close>

theorem delete_leaves_slashed_key:
  assumes "CHR ''/'' \<in> set k" "m k = Some v"
  shows "apply_ops (removal_ops [k]) m k = Some v \<and>
         apply_ops [mk_op OpRemove (remoteAttrPath k) []] m k = None"
  using assms path_key_slash [OF assms(1)]
  by (simp add: removal_ops_def apply_ops_def apply_op_def)

section \<open>Witnesses\<close>

definition cl_reconciler :: CollectorReconciler where
  "cl_reconciler = \<lparr>cr_klib = klib_ref, cr_regex = (\<lambda>_. None), cr_hasRecorder = True\<rparr>"

definition cl_sample :: "bool \<Rightarrow> string list \<Rightarrow> Collector" where
  "cl_sample deleting owned =
     \<lparr>cl_meta = \<lparr>om_namespace = ''ns'', om_name = ''edge'', om_generation = 1, om_deleting = deleting,
                 om_finalizers = [collectorFinalizer], om_labels = [], om_annotations = []\<rparr>,
      cl_spec = \<lparr>cspec_ID = ''edge-1'', cspec_Name = [], cspec_Enabled = None,
                 cspec_RemoteAttributes = [(''env'', ''prod'')]\<rparr>,
      cl_status = \<lparr>cst_ObservedGeneration = 0, cst_Registered = False, cst_LastPing = None,
                   cst_Name = [], cst_Enabled = None, cst_CollectorType = [], cst_CreatedAt = None,
                   cst_UpdatedAt = None, cst_MarkedInactiveAt = None, cst_LocalAttributes = [],
                   cst_EffectiveRemoteAttributes = [],
                   cst_AttributeOwners = map (\<lambda>k. \<lparr>ao_Key = k, ao_OwnerKind = AttributeOwnerCollector,
                      ao_OwnerName = ''ns/edge'', ao_Value = ''v''\<rparr>) owned,
                   cst_Conditions = []\<rparr>\<rparr>"

definition cl_live :: "gomap \<Rightarrow> collector" where
  "cl_live remote =
     \<lparr>fc_ID = ''edge-1'', fc_Name = ''edge'', fc_Enabled = None, fc_RemoteAttributes = remote,
      fc_LocalAttributes = [(''os'', ''linux'')], fc_CollectorType = collectorTypeAlloy,
      fc_CreatedAt = None, fc_UpdatedAt = Some 5000000000, fc_MarkedInactiveAt = None\<rparr>"

definition cl_env :: "Collector \<Rightarrow> collector \<Rightarrow> cenv" where
  "cl_env c live =
     \<lparr>ce_Get = (\<lambda>_. Inr c), ce_ListSyncs = (\<lambda>_. Inr []), ce_ListPolicies = (\<lambda>_. Inr []),
      ce_Update = (\<lambda>_. None), ce_StatusUpdate = (\<lambda>_. None), ce_GetCollector = (\<lambda>_. Inr live),
      ce_BulkUpdate = (\<lambda>_. None)\<rparr>"

definition cl_req :: nsname where "cl_req = \<lparr>nn_namespace = ''ns'', nn_name = ''edge''\<rparr>"

lemmas cl_sample_defs = cl_reconciler_def cl_sample_def cl_live_def cl_env_def klib_ref_def

lemma cl_env_answers: "answers (cl_env c live) c live [] []"
  by (simp add: answers_def cl_env_def)

lemma cl_sample_active: "cl_active cl_reconciler (cl_sample False owned)"
  by (simp add: cl_sample_defs)

abbreviation cl_remote :: gomap where "cl_remote \<equiv> [(''env'', ''dev''), (''team'', ''x'')]"

lemma cl_sample_desired:
  "fst (Merge (collector_layers cl_reconciler (cl_sample deleting owned) (cl_live remote) [] [])) =
     [(''env'', ''prod'')]"
  by (simp add: Merge_fst merge_loop_def merge_layer_def collector_layers_def external_layer_def
      policy_layer_def matched_policies_def spec_layer_def claim_all_def first_owner_def has_key_def
      cl_sample_def)

lemma cl_sample_run:
  "collector_Reconcile cl_reconciler (cl_env (cl_sample False []) (cl_live cl_remote)) cl_req =
   apply_layers cl_reconciler (cl_env (cl_sample False []) (cl_live cl_remote)) (cl_sample False [])
     (cl_live cl_remote) (collector_layers cl_reconciler (cl_sample False []) (cl_live cl_remote) [] [])
     (gather cl_req (cl_sample False []))"
  by (rule reconcile_answers [OF cl_sample_active cl_env_answers])

lemma cl_sample_diff:
  "Diff [(''env'', ''prod'')] cl_remote (allOwnedKeys (cst_AttributeOwners (cl_status (cl_sample d [])))) =
     [mk_op OpReplace (remoteAttrPath ''env'') ''prod'']"
  by (simp add: Diff_def diff_ops_def set_op_def allOwnedKeys_def cl_sample_def)

lemma cl_sample_bulk:
  "CcBulkUpdate [''edge-1''] [mk_op OpReplace (remoteAttrPath ''env'') ''prod''] \<in>
     set (rr_trace (collector_Reconcile cl_reconciler
       (cl_env (cl_sample False []) (cl_live cl_remote)) cl_req))"
  unfolding cl_sample_run apply_layers_def
  using cl_sample_desired [of False "[]" cl_remote] cl_sample_diff [of False]
  by (auto simp: cl_live_def cl_env_def collector_updateStatusSuccess_def collector_emitEvent_def
      cl_reconciler_def Let_def cl_sample_def split: prod.splits)

theorem collector_update_reaches_wanted_witness:
  "apply_ops [mk_op OpReplace (remoteAttrPath ''env'') ''prod''] (map_of cl_remote) ''env'' = Some ''prod''"
proof -
  let ?E = "cl_env (cl_sample False []) (cl_live cl_remote)"
  have "ce_Get ?E [CcGet cl_req] = Inr (cl_sample False [])" by (simp add: cl_env_def)
  moreover have "\<not> om_deleting (cl_meta (cl_sample False []))" by (simp add: cl_sample_def)
  ultimately obtain live syncs policies where
    w: "ce_GetCollector ?E [CcGet cl_req, CcGetCollector (cspec_ID (cl_spec (cl_sample False [])))] = Inr live"
    "ce_ListSyncs ?E [CcGet cl_req, CcGetCollector (cspec_ID (cl_spec (cl_sample False []))),
       CcListSyncs (om_namespace (cl_meta (cl_sample False [])))] = Inr syncs"
    "ce_ListPolicies ?E (gather cl_req (cl_sample False [])) = Inr policies"
    "\<And>k. apply_ops [mk_op OpReplace (remoteAttrPath ''env'') ''prod''] (map_of (fc_RemoteAttributes live)) k =
       (case wanted (collector_layers cl_reconciler (cl_sample False []) live syncs policies) k of
          Some v \<Rightarrow> Some v
        | None \<Rightarrow> if k \<in> ao_Key ` set (cst_AttributeOwners (cl_status (cl_sample False []))) then None
                  else map_of (fc_RemoteAttributes live) k)"
    using collector_update_reaches_wanted [OF _ _ cl_sample_bulk] by blast
  have "live = cl_live cl_remote" "syncs = []" "policies = []"
    using w(1-3) by (simp_all add: cl_env_def)
  moreover have "wanted (collector_layers cl_reconciler (cl_sample False []) (cl_live cl_remote) [] []) ''env'' =
      Some ''prod''"
    using Merge_lookup [of "collector_layers cl_reconciler (cl_sample False []) (cl_live cl_remote) [] []" "''env''"]
    by (simp add: wanted_def cl_sample_desired)
  ultimately show ?thesis using w(4) [of "''env''"] by (simp add: cl_live_def)
qed

definition cl_written :: Collector where
  "cl_written =
     (let c = cl_sample False []; live = cl_live cl_remote;
          layers = collector_layers cl_reconciler c live [] []
      in c\<lparr>cl_status := collector_success_status klib_ref c live
           (fst (Merge layers)) (ownersFromMerge (snd (Merge layers)))\<rparr>)"

theorem collector_settles_witness:
  "rr_outcome (collector_Reconcile cl_reconciler
     (cl_env (stored_collector cl_written) (cl_live [(''env'', ''prod''), (''team'', ''x'')])) cl_req) = outcomeNoOp"
proof -
  let ?c = "cl_sample False []" and ?live = "cl_live cl_remote"
  let ?E = "cl_env ?c ?live"
  have live': "cl_live [(''env'', ''prod''), (''team'', ''x'')] =
      ?live\<lparr>fc_RemoteAttributes := [(''env'', ''prod''), (''team'', ''x'')]\<rparr>"
    by (simp add: cl_live_def)
  have K: "klib_ok (cr_klib cl_reconciler)" by (simp add: cl_reconciler_def klib_ref_ok)
  have L: "gomap_ok (fc_LocalAttributes ?live)" by (simp add: cl_live_def)
  have W: "CcStatusUpdate cl_written \<in> set (rr_trace (collector_Reconcile cl_reconciler ?E cl_req))"
    unfolding cl_sample_run apply_layers_def cl_written_def
    by (auto simp: cl_env_def collector_updateStatusSuccess_def noop_status_def ready_at_generation_def
        cl_sample_def collector_emitEvent_def cl_reconciler_def Let_def split: prod.splits)
  have S: "map_of [(''env'', ''prod''), (''team'', ''x'')] =
      served (rr_trace (collector_Reconcile cl_reconciler ?E cl_req)) (map_of (fc_RemoteAttributes ?live))"
    unfolding cl_sample_run served_apply_layers [OF cl_env_answers] cl_sample_desired
    by (simp add: cl_live_def cl_sample_diff apply_ops_def apply_op_def fun_upd_twist)
  have T: "whole_seconds ?live" by (simp add: whole_seconds_def cl_live_def stored_time_def second_def)
  from collector_settles [OF K cl_sample_active cl_env_answers L W S cl_env_answers] T
  show ?thesis by (simp add: live')
qed

theorem not_registered_waits_witness:
  "rr_outcome (collector_Reconcile cl_reconciler
     ((cl_env (cl_sample False []) (cl_live []))\<lparr>ce_GetCollector :=
        (\<lambda>_. Inl (FleetAPIError 404 ''GetCollector'' ''gone'' ''edge-1'' None))\<rparr>) cl_req) =
   collectorReasonNotRegistered"
proof -
  have "is_fleet_not_found (FleetAPIError 404 ''GetCollector'' ''gone'' ''edge-1'' None)"
    by (simp add: is_fleet_not_found_def)
  from not_registered_waits [OF _ cl_sample_active _ this,
      of "(cl_env (cl_sample False []) (cl_live []))\<lparr>ce_GetCollector :=
        (\<lambda>_. Inl (FleetAPIError 404 ''GetCollector'' ''gone'' ''edge-1'' None))\<rparr>" cl_req "[]"]
  show ?thesis by (simp add: cl_env_def)
qed

theorem delete_removes_owned_witness:
  "\<exists>ops. CcBulkUpdate [''edge-1''] ops \<in> set (rr_trace (collector_Reconcile cl_reconciler
       (cl_env (cl_sample True [''env'']) (cl_live cl_remote)) cl_req)) \<and>
     apply_ops ops (map_of cl_remote) ''env'' = None"
proof -
  let ?c = "cl_sample True [''env'']"
  let ?E = "cl_env ?c (cl_live cl_remote)"
  have get: "ce_Get ?E [CcGet cl_req] = Inr ?c" by (simp add: cl_env_def)
  have del: "om_deleting (cl_meta ?c)" by (simp add: cl_sample_def)
  have own: "cst_AttributeOwners (cl_status ?c) \<noteq> []" by (simp add: cl_sample_def)
  have keys: "ao_Key ` set (cst_AttributeOwners (cl_status ?c)) = {''env''}"
    by (simp add: cl_sample_def)
  have "\<exists>d. CcUpdate d \<in> set (rr_trace (collector_Reconcile cl_reconciler ?E cl_req))"
    by (auto simp: collector_Reconcile_def collector_reconcileDelete_def collector_removeFinalizer_def
        cl_sample_defs allOwnedKeys_def Let_def)
  then obtain d where d: "CcUpdate d \<in> set (rr_trace (collector_Reconcile cl_reconciler ?E cl_req))"
    by blast
  show ?thesis
    using delete_removes_owned [OF get del own _ d]
    by (auto simp: keys cl_sample_def)
qed

theorem delete_leaves_slashed_key_witness:
  "apply_ops (removal_ops [''team/a'']) (map_of [(''team/a'', ''x'')]) ''team/a'' = Some ''x''"
  using delete_leaves_slashed_key [of "''team/a''" "map_of [(''team/a'', ''x'')]" "''x''"] by simp

definition sample_policy :: "string \<Rightarrow> int \<Rightarrow> gomap \<Rightarrow> RemoteAttributePolicy" where
  "sample_policy name prio attrs =
     \<lparr>rap_meta = \<lparr>om_namespace = ''ns'', om_name = name, om_generation = 1, om_deleting = False,
                  om_finalizers = [], om_labels = [], om_annotations = []\<rparr>,
      rap_spec = \<lparr>rapspec_Selector = \<lparr>psel_Matchers = [], psel_CollectorIDs = [''edge-1'']\<rparr>,
                  rapspec_Attributes = attrs, rapspec_Priority = prio\<rparr>,
      rap_status = \<lparr>rapst_ObservedGeneration = 0, rapst_MatchedCollectorIDs = [],
                    rapst_MatchedCount = 0, rapst_Conditions = []\<rparr>\<rparr>"

theorem policy_precedence_witness:
  "\<exists>p \<in> set [sample_policy ''a'' 1 [(''env'', ''dev'')], sample_policy ''b'' 5 [(''env'', ''prod'')]].
     map_of (rapspec_Attributes (rap_spec p)) ''env'' = Some ''prod''"
proof -
  let ?items = "[sample_policy ''a'' 1 [(''env'', ''dev'')], sample_policy ''b'' 5 [(''env'', ''prod'')]]"
  have "map_of (ly_Attrs (policy_layer (\<lambda>_. None) ''edge-1'' [] ?items)) ''env'' = Some ''prod''"
    by (simp add: policy_layer_def matched_policies_def sample_policy_def Match_def selector_of_def
        rank_of_def less_eq_policy_rank_def claim_all_def has_key_def)
  from policy_precedence [OF this] show ?thesis by blast
qed

end
