(* ===== verification/Watch_Index.thy ===== *)
theory Watch_Index
  imports Collector_Sync
begin

text \<open>
  The watch on Collectors that \<open>policy_controller.go\<close> and \<open>external_sync_controller.go\<close>
  have in common: an object is indexed under the keys its matchers mention (and under two
  sentinels), a Collector event asks the index for every key the Collector carries and
  enqueues what it answers.  The contract of the index extractor is the locale
  \<open>watch_index\<close>; both controllers interpret it on their own extractor.
\<close>

section \<open>Collector attributes seen by a selector\<close>

definition buildSelectorAttrs :: "Collector \<Rightarrow> gomap" where
  "buildSelectorAttrs c = map_put ''collector.id'' (cspec_ID (cl_spec c)) (cst_LocalAttributes (cl_status c))"

lemma get_str_map_put: "get_str (map_put j v m) k = (if k = j then v else get_str m k)"
  by (simp add: get_str_def)

lemma matchOne_synthetic:
  "matchOne rx m cid (map_put ''collector.id'' x attrs) = matchOne rx m cid attrs"
  by (cases "matcherPattern m") (auto simp: matchOne_def get_str_map_put Let_def split: match_op.splits option.splits)

lemma Match_synthetic: "Match rx s cid (map_put ''collector.id'' x attrs) = Match rx s cid attrs"
  by (simp add: Match_iff matchOne_synthetic)

text \<open>Go's conversion of a length to \<open>int32\<close>.\<close>

definition int32_of :: "nat \<Rightarrow> int" where
  "int32_of n = (int n + 2 ^ 31) mod 2 ^ 32 - 2 ^ 31"

lemma int32_of_small: "n < 2 ^ 31 \<Longrightarrow> int32_of n = int n"
  by (simp add: int32_of_def)

section \<open>The handler\<close>

text \<open>The keys the handler queries, as a set of keys: the order of a map iteration.\<close>

definition collector_watch_keys :: "Collector \<Rightarrow> string list" where
  "collector_watch_keys c =
     List.insert SyntheticCollectorIDsOnlyKey
       (List.insert SyntheticHasNegationKey
         (List.insert ''collector.id''
           (fold List.insert (map fst (cst_LocalAttributes (cl_status c)))
             (fold List.insert (map fst (cspec_RemoteAttributes (cl_spec c))) []))))"

text \<open>\<open>lister key\<close> is the answer of the indexed list call for that key.\<close>

fun collect_requests ::
  "('a \<Rightarrow> nsname) \<Rightarrow> (string \<Rightarrow> go_error + 'a list) \<Rightarrow> string list \<Rightarrow> nsname list \<Rightarrow> nsname list" where
  "collect_requests name_of lister [] reqs = reqs"
| "collect_requests name_of lister (key # keys) reqs =
     (case lister key of
        Inl err \<Rightarrow> collect_requests name_of lister keys reqs
      | Inr items \<Rightarrow>
          collect_requests name_of lister keys
            (fold (\<lambda>p reqs. let nn = name_of p in if nn \<in> set reqs then reqs else reqs @ [nn]) items reqs))"

text \<open>The documented meaning of an indexed list: the objects whose extracted keys have the key.\<close>

definition index_answers ::
  "('a \<Rightarrow> string list) \<Rightarrow> (string \<Rightarrow> go_error + 'a list) \<Rightarrow> 'a list \<Rightarrow> bool" where
  "index_answers index_keys lister items \<longleftrightarrow>
     (\<forall>key. lister key = Inr (filter (\<lambda>p. key \<in> set (index_keys p)) items))"

definition index_of :: "('a \<Rightarrow> string list) \<Rightarrow> 'a list \<Rightarrow> string \<Rightarrow> go_error + 'a list" where
  "index_of index_keys items key = Inr (filter (\<lambda>p. key \<in> set (index_keys p)) items)"

lemma index_of_answers: "index_answers index_keys (index_of index_keys items) items"
  by (simp add: index_answers_def index_of_def)

lemma set_fold_requests:
  "set (fold (\<lambda>p reqs. let nn = name_of p in if nn \<in> set reqs then reqs else reqs @ [nn]) items reqs) =
   set reqs \<union> name_of ` set items"
  by (induction items arbitrary: reqs) (auto simp: Let_def)

lemma set_collect_requests:
  assumes "index_answers index_keys lister items"
  shows "set (collect_requests name_of lister keys reqs) =
           set reqs \<union> {name_of p | p. p \<in> set items \<and> (\<exists>key \<in> set keys. key \<in> set (index_keys p))}"
  using assms
  by (induction keys arbitrary: reqs) (auto simp: index_answers_def set_fold_requests)

lemma set_watch_keys:
  "set (collector_watch_keys c) =
     {SyntheticCollectorIDsOnlyKey, SyntheticHasNegationKey, ''collector.id''} \<union>
     fst ` set (cst_LocalAttributes (cl_status c)) \<union> fst ` set (cspec_RemoteAttributes (cl_spec c))"
  by (auto simp: collector_watch_keys_def set_fold_insert)

section \<open>The contract of an extractor\<close>

locale watch_index =
  fixes index_keys :: "'a \<Rightarrow> string list"
    and selector :: "'a \<Rightarrow> PolicySelector"
    and name_of :: "'a \<Rightarrow> nsname"
  assumes index_matchers: "set (MatcherKeys (psel_Matchers (selector p))) \<subseteq> set (index_keys p)"
    and index_ids_only: "psel_Matchers (selector p) = [] \<Longrightarrow> psel_CollectorIDs (selector p) \<noteq> [] \<Longrightarrow>
          SyntheticCollectorIDsOnlyKey \<in> set (index_keys p)"
    and index_mixed: "psel_Matchers (selector p) \<noteq> [] \<Longrightarrow>
          set (index_keys p) \<subseteq> set (MatcherKeys (psel_Matchers (selector p)))"
begin

abbreviation wakes :: "(string \<Rightarrow> go_error + 'a list) \<Rightarrow> Collector \<Rightarrow> nsname list" where
  "wakes lister c \<equiv> collect_requests name_of lister (collector_watch_keys c) []"

lemma in_requests:
  assumes "index_answers index_keys lister items" "p \<in> set items"
    and "key \<in> set (collector_watch_keys c)" "key \<in> set (index_keys p)"
  shows "name_of p \<in> set (wakes lister c)"
  unfolding set_collect_requests [OF assms(1)] using assms(2-4) by auto

lemma wakes_ids_only:
  assumes "index_answers index_keys lister items" "p \<in> set items"
    and "psel_Matchers (selector p) = []" "psel_CollectorIDs (selector p) \<noteq> []"
  shows "name_of p \<in> set (wakes lister c)"
  by (rule in_requests [OF assms(1,2) _ index_ids_only [OF assms(3,4)]]) (simp add: set_watch_keys)

lemma wakes_matcher:
  assumes "index_answers index_keys lister items" "p \<in> set items"
    and "m \<in> set (psel_Matchers (selector p))"
    and "is_negation m \<or> MatcherUsesKey m ''collector.id'' \<or>
         list_ex (MatcherUsesKey m) (map fst (cst_LocalAttributes (cl_status c)))"
  shows "name_of p \<in> set (wakes lister c)"
proof -
  have "\<exists>key. key \<in> set (collector_watch_keys c) \<and> key \<in> set (MatcherKeys (psel_Matchers (selector p)))"
  proof (cases "is_negation m")
    case True
    with assms(3) show ?thesis
      by (intro exI [of _ SyntheticHasNegationKey]) (auto simp: set_watch_keys set_MatcherKeys)
  next
    case False
    with assms(3,4) show ?thesis by (auto simp: set_watch_keys set_MatcherKeys list_ex_iff)
  qed
  then show ?thesis
    using index_matchers by (auto intro: in_requests [OF assms(1,2)])
qed

lemma wakes_matching:
  assumes "index_answers index_keys lister items" "p \<in> set items"
    and "Match rx (selector_of (selector p)) cid attrs"
    and "psel_Matchers (selector p) = [] \<or>
         list_ex (\<lambda>m. is_negation m \<or> MatcherUsesKey m ''collector.id'' \<or>
            list_ex (MatcherUsesKey m) (map fst (cst_LocalAttributes (cl_status c))))
           (psel_Matchers (selector p))"
  shows "name_of p \<in> set (wakes lister c)"
proof (cases "psel_Matchers (selector p) = []")
  case True
  then have "psel_CollectorIDs (selector p) \<noteq> []"
    using assms(3) by (auto simp: Match_def selector_of_def split: if_splits)
  with True show ?thesis by (rule wakes_ids_only [OF assms(1,2)])
next
  case False
  with assms(4) obtain m where "m \<in> set (psel_Matchers (selector p))"
    "is_negation m \<or> MatcherUsesKey m ''collector.id'' \<or>
     list_ex (MatcherUsesKey m) (map fst (cst_LocalAttributes (cl_status c)))"
    by (auto simp: list_ex_iff)
  then show ?thesis by (rule wakes_matcher [OF assms(1,2)])
qed

lemma misses_mixed:
  assumes "index_answers index_keys lister items" "p \<in> set items"
    and "distinct (map name_of items)"
    and "psel_Matchers (selector p) \<noteq> []"
    and "list_all (\<lambda>m. \<not> is_negation m \<and> list_all (\<lambda>k. \<not> MatcherUsesKey m k) (collector_watch_keys c))
           (psel_Matchers (selector p))"
  shows "name_of p \<notin> set (wakes lister c)"
proof -
  have "key \<notin> set (index_keys p)" if "key \<in> set (collector_watch_keys c)" for key
    using assms(5) that index_mixed [OF assms(4)] by (auto simp: set_MatcherKeys list_all_iff)
  moreover have "q = p" if "q \<in> set items" "name_of q = name_of p" for q
    using assms(2,3) that by (auto simp: distinct_map inj_on_def)
  ultimately show ?thesis
    unfolding set_collect_requests [OF assms(1)] by fastforce
qed

end

end
