(* ===== verification/Policy_Controller.thy ===== *)
theory Policy_Controller
  imports Watch_Index
begin

text \<open>
  \<open>internal/controller/policy_controller.go\<close>: the RemoteAttributePolicy reconciler, which only
  maintains the policy's status, and the index that decides which policies a change of a
  Collector wakes up.  It makes no call on Fleet Management.
\<close>

section \<open>Calls and environment\<close>

datatype pocall =
    PoGet nsname
  | PoListCollectors string
  | PoStatusUpdate RemoteAttributePolicy
  | PoEvent event_type string

record poenv =
  po_Get :: "pocall list \<Rightarrow> go_error + RemoteAttributePolicy"
  po_ListCollectors :: "pocall list \<Rightarrow> go_error + Collector list"
  po_StatusUpdate :: "pocall list \<Rightarrow> go_error option"

record RemoteAttributePolicyReconciler =
  por_klib :: klib
  por_regex :: regex
  por_hasRecorder :: bool

abbreviation policyReasonMatched :: string where "policyReasonMatched \<equiv> ''Matched''"
abbreviation policyReasonNoMatch :: string where "policyReasonNoMatch \<equiv> ''NoMatch''"
abbreviation policyReasonListFailed :: string where "policyReasonListFailed \<equiv> ''ListFailed''"
abbreviation policyConditionTypeTruncated :: string where "policyConditionTypeTruncated \<equiv> ''Truncated''"
abbreviation policyConditionReasonTruncated :: string where
  "policyConditionReasonTruncated \<equiv> ''MatchedIDsTruncated''"
abbreviation policyConditionReasonNotTruncated :: string where
  "policyConditionReasonNotTruncated \<equiv> ''NotTruncated''"

definition maxMatchedIDs :: nat where "maxMatchedIDs = 1000"

definition policy_emitEvent ::
  "RemoteAttributePolicyReconciler \<Rightarrow> event_type \<Rightarrow> string \<Rightarrow> pocall list \<Rightarrow> pocall list" where
  "policy_emitEvent R t reason tr = (if por_hasRecorder R then tr @ [PoEvent t reason] else tr)"

section \<open>The matched set\<close>

fun evaluate_loop ::
  "regex \<Rightarrow> Selector \<Rightarrow> Collector list \<Rightarrow> string list \<Rightarrow> string list \<Rightarrow> string list" where
  "evaluate_loop rx sel [] seen matched = matched"
| "evaluate_loop rx sel (c # cs) seen matched =
     (if \<not> Match rx sel (cspec_ID (cl_spec c)) (buildSelectorAttrs c)
      then evaluate_loop rx sel cs seen matched
      else if cspec_ID (cl_spec c) \<in> set seen then evaluate_loop rx sel cs seen matched
      else evaluate_loop rx sel cs (cspec_ID (cl_spec c) # seen) (matched @ [cspec_ID (cl_spec c)]))"

definition evaluatePolicySelector ::
  "regex \<Rightarrow> RemoteAttributePolicy \<Rightarrow> Collector list \<Rightarrow> string list" where
  "evaluatePolicySelector rx p collectors =
     sort (evaluate_loop rx (selector_of (rapspec_Selector (rap_spec p))) collectors [] [])"

definition policyTruncatedConditionMatches :: "klib \<Rightarrow> RemoteAttributePolicy \<Rightarrow> bool \<Rightarrow> bool" where
  "policyTruncatedConditionMatches K p want =
     (case FindStatusCondition K (rapst_Conditions (rap_status p)) policyConditionTypeTruncated of
        None \<Rightarrow> \<not> want
      | Some c \<Rightarrow> if want then cnd_status c = CTrue else cnd_status c = CFalse)"

definition stringSlicesEqual :: "string list \<Rightarrow> string list \<Rightarrow> bool" where
  "stringSlicesEqual a b =
     (if length a \<noteq> length b then False else list_all2 (\<lambda>x y. x = y) a b)"

definition policyMatchedOutcome :: "nat \<Rightarrow> bool \<Rightarrow> ctrl_result \<Rightarrow> go_error option \<Rightarrow> string" where
  "policyMatchedOutcome matchedCount truncated result err =
     (if err \<noteq> None then policyReasonListFailed
      else if rs_requeue result \<or> rs_after result > 0 then ''NoOp''
      else if truncated then policyConditionReasonTruncated
      else if matchedCount > 0 then policyReasonMatched
      else policyReasonNoMatch)"

section \<open>Status\<close>

definition rset_cond :: "klib \<Rightarrow> cond \<Rightarrow> RemoteAttributePolicyStatus \<Rightarrow> RemoteAttributePolicyStatus" where
  "rset_cond K c st = st\<lparr>rapst_Conditions := SetStatusCondition K (rapst_Conditions st) c\<rparr>"

definition truncated_cond :: "int \<Rightarrow> bool \<Rightarrow> cond" where
  "truncated_cond gen truncated =
     (if truncated
      then \<lparr>cnd_type = policyConditionTypeTruncated, cnd_status = CTrue,
            cnd_reason = policyConditionReasonTruncated,
            cnd_message = ''matchedCollectorIDs truncated to '' @ show_nat maxMatchedIDs @
              '' entries; full count in status.matchedCount'', cnd_gen = gen\<rparr>
      else \<lparr>cnd_type = policyConditionTypeTruncated, cnd_status = CFalse,
            cnd_reason = policyConditionReasonNotTruncated, cnd_message = [], cnd_gen = gen\<rparr>)"

definition matched_conds :: "int \<Rightarrow> nat \<Rightarrow> cond \<times> cond" where
  "matched_conds gen n =
     (if n > 0
      then (let message = ''Policy matches '' @ show_nat n @ '' collector(s)''
            in (\<lparr>cnd_type = condReady, cnd_status = CTrue, cnd_reason = policyReasonMatched,
                 cnd_message = message, cnd_gen = gen\<rparr>,
                \<lparr>cnd_type = condSynced, cnd_status = CTrue, cnd_reason = policyReasonMatched,
                 cnd_message = message, cnd_gen = gen\<rparr>))
      else (\<lparr>cnd_type = condReady, cnd_status = CFalse, cnd_reason = policyReasonNoMatch,
             cnd_message = ''Policy selector did not match any Collector in this namespace'',
             cnd_gen = gen\<rparr>,
            \<lparr>cnd_type = condSynced, cnd_status = CTrue, cnd_reason = policyReasonNoMatch,
             cnd_message = ''Selector evaluated successfully (no collectors matched)'',
             cnd_gen = gen\<rparr>))"

definition matched_status ::
  "klib \<Rightarrow> RemoteAttributePolicy \<Rightarrow> string list \<Rightarrow> RemoteAttributePolicyStatus" where
  "matched_status K p matchedIDs =
     (let gen = om_generation (rap_meta p);
          st = (rap_status p)\<lparr>rapst_ObservedGeneration := gen,
                              rapst_MatchedCount := int32_of (length matchedIDs)\<rparr>;
          truncated = length matchedIDs > maxMatchedIDs;
          capped = (if truncated then take maxMatchedIDs matchedIDs else matchedIDs);
          st = rset_cond K (truncated_cond gen truncated) st;
          st = st\<lparr>rapst_MatchedCollectorIDs := capped\<rparr>;
          st = rset_cond K (fst (matched_conds gen (length matchedIDs))) st
      in rset_cond K (snd (matched_conds gen (length matchedIDs))) st)"

definition updateStatusMatched ::
  "RemoteAttributePolicyReconciler \<Rightarrow> poenv \<Rightarrow> RemoteAttributePolicy \<Rightarrow> string list \<Rightarrow> pocall list \<Rightarrow>
     pocall list \<times> ctrl_result \<times> go_error option" where
  "updateStatusMatched R E p matchedIDs tr =
     (let tr = (if length matchedIDs > maxMatchedIDs then policy_emitEvent R EventWarning ''Truncated'' tr
                else tr);
          tr = tr @ [PoStatusUpdate (p\<lparr>rap_status := matched_status (por_klib R) p matchedIDs\<rparr>)]
      in case po_StatusUpdate E tr of
           Some err \<Rightarrow>
             if is_conflict err then (tr, requeue_now, None) else (tr, done_result, Some err)
         | None \<Rightarrow>
             (let tr = (if matchedIDs \<noteq> [] then policy_emitEvent R EventNormal ''Synced'' tr
                        else policy_emitEvent R EventWarning ''NoMatch'' tr)
              in (tr, done_result, None)))"

definition policy_error_status ::
  "klib \<Rightarrow> RemoteAttributePolicy \<Rightarrow> string \<Rightarrow> go_error \<Rightarrow> RemoteAttributePolicyStatus" where
  "policy_error_status K p reason originalErr =
     (let gen = om_generation (rap_meta p);
          message = reason @ '': '' @ err_text originalErr;
          st = (rap_status p)\<lparr>rapst_ObservedGeneration := gen\<rparr>;
          st = rset_cond K \<lparr>cnd_type = condReady, cnd_status = CFalse, cnd_reason = reason,
                            cnd_message = message, cnd_gen = gen\<rparr> st
      in rset_cond K \<lparr>cnd_type = condSynced, cnd_status = CFalse, cnd_reason = reason,
                       cnd_message = message, cnd_gen = gen\<rparr> st)"

definition policy_updateStatusError ::
  "RemoteAttributePolicyReconciler \<Rightarrow> poenv \<Rightarrow> RemoteAttributePolicy \<Rightarrow> string \<Rightarrow> go_error \<Rightarrow>
     pocall list \<Rightarrow> pocall list \<times> ctrl_result \<times> go_error option" where
  "policy_updateStatusError R E p reason originalErr tr =
     (let tr = tr @ [PoStatusUpdate
            (p\<lparr>rap_status := policy_error_status (por_klib R) p reason originalErr\<rparr>)]
      in if (case po_StatusUpdate E tr of None \<Rightarrow> False | Some e \<Rightarrow> is_conflict e)
         then (tr, requeue_now, None)
         else (tr, done_result, Some originalErr))"

section \<open>Reconcile\<close>

definition policy_up_to_date :: "klib \<Rightarrow> RemoteAttributePolicy \<Rightarrow> string list \<Rightarrow> bool" where
  "policy_up_to_date K p matchedIDs =
     (let cappedLen = min (length matchedIDs) maxMatchedIDs;
          wantTruncated = length matchedIDs > maxMatchedIDs;
          st = rap_status p
      in rapst_ObservedGeneration st = om_generation (rap_meta p) \<and>
         rapst_MatchedCount st = int32_of (length matchedIDs) \<and>
         length (rapst_MatchedCollectorIDs st) = cappedLen \<and>
         stringSlicesEqual (rapst_MatchedCollectorIDs st) (take cappedLen matchedIDs) \<and>
         policyTruncatedConditionMatches K p wantTruncated)"

definition policy_Reconcile :: "RemoteAttributePolicyReconciler \<Rightarrow> poenv \<Rightarrow> nsname \<Rightarrow> pocall rres" where
  "policy_Reconcile R E req =
     (let tr = [PoGet req]
      in case po_Get E tr of
           Inl err \<Rightarrow>
             if is_not_found err then ret tr done_result None outcomeNotFound
             else ret tr done_result (Some err) policyReasonListFailed
         | Inr p \<Rightarrow>
             (let tr = tr @ [PoListCollectors (om_namespace (rap_meta p))]
              in case po_ListCollectors E tr of
                   Inl err \<Rightarrow>
                     (case policy_updateStatusError R E p policyReasonListFailed err
                             (policy_emitEvent R EventWarning ''ListFailed'' tr) of
                        (tr, result, e) \<Rightarrow> ret tr result e policyReasonListFailed)
                 | Inr collectors \<Rightarrow>
                     (let matchedIDs = evaluatePolicySelector (por_regex R) p collectors
                      in if policy_up_to_date (por_klib R) p matchedIDs
                         then ret tr done_result None outcomeNoOp
                         else
                           (case updateStatusMatched R E p matchedIDs tr of
                              (tr, result, e) \<Rightarrow>
                                ret tr result e
                                  (policyMatchedOutcome (length matchedIDs)
                                     (length matchedIDs > maxMatchedIDs) result e)))))"

section \<open>The watch index\<close>

definition policy_index_keys :: "RemoteAttributePolicy \<Rightarrow> string list" where
  "policy_index_keys p =
     (let sel = rapspec_Selector (rap_spec p);
          keys = MatcherKeys (psel_Matchers sel)
      in if psel_Matchers sel = [] \<and> psel_CollectorIDs sel \<noteq> []
         then keys @ [SyntheticCollectorIDsOnlyKey] else keys)"

definition mapCollectorToAffectedPolicies ::
  "(string \<Rightarrow> go_error + RemoteAttributePolicy list) \<Rightarrow> Collector \<Rightarrow> nsname list" where
  "mapCollectorToAffectedPolicies lister c = collect_requests (\<lambda>p. key_of (rap_meta p)) lister (collector_watch_keys c) []"

interpretation policy_index: watch_index policy_index_keys "\<lambda>p. rapspec_Selector (rap_spec p)"
  "\<lambda>p. key_of (rap_meta p)"
  by unfold_locales (auto simp: policy_index_keys_def Let_def)

section \<open>The matched set is exact\<close>

abbreviation policy_matches :: "regex \<Rightarrow> RemoteAttributePolicy \<Rightarrow> string \<Rightarrow> gomap \<Rightarrow> bool" where
  "policy_matches rx p cid attrs \<equiv> Match rx (selector_of (rapspec_Selector (rap_spec p))) cid attrs"

lemma evaluate_loop_spec:
  "set seen = set matched \<Longrightarrow> distinct matched \<Longrightarrow>
   distinct (evaluate_loop rx sel cs seen matched) \<and>
   set (evaluate_loop rx sel cs seen matched) =
     set matched \<union> {cspec_ID (cl_spec c) | c. c \<in> set cs \<and>
        Match rx sel (cspec_ID (cl_spec c)) (cst_LocalAttributes (cl_status c))}"
proof (induction cs arbitrary: seen matched)
  case (Cons c cs)
  let ?id = "cspec_ID (cl_spec c)"
  have sets: "{cspec_ID (cl_spec d) | d. d \<in> set (c # cs) \<and>
        Match rx sel (cspec_ID (cl_spec d)) (cst_LocalAttributes (cl_status d))} =
      (if Match rx sel ?id (cst_LocalAttributes (cl_status c)) then {?id} else {}) \<union>
      {cspec_ID (cl_spec d) | d. d \<in> set cs \<and>
        Match rx sel (cspec_ID (cl_spec d)) (cst_LocalAttributes (cl_status d))}"
    by auto
  have m: "Match rx sel ?id (buildSelectorAttrs c) = Match rx sel ?id (cst_LocalAttributes (cl_status c))"
    by (simp add: buildSelectorAttrs_def Match_synthetic)
  show ?case
    using Cons.IH [of seen matched] Cons.IH [of "?id # seen" "matched @ [?id]"] Cons.prems
    unfolding sets by (auto simp: m)
qed simp

lemma evaluate_exact:
  "set (evaluatePolicySelector rx p collectors) =
     {cspec_ID (cl_spec c) | c. c \<in> set collectors \<and>
        policy_matches rx p (cspec_ID (cl_spec c)) (cst_LocalAttributes (cl_status c))}"
  "distinct (evaluatePolicySelector rx p collectors)" "sorted (evaluatePolicySelector rx p collectors)"
  using evaluate_loop_spec [of "[]" "[]" rx "selector_of (rapspec_Selector (rap_spec p))" collectors]
  by (simp_all add: evaluatePolicySelector_def)

text \<open>
  C29: the matched IDs of a policy are the IDs of exactly the collectors its selector matches,
  each once and in ascending order, whatever the order of the list; and they agree with the
  Collector reconciler: a policy lists a collector exactly when that reconciler includes the
  policy in the collector's policy layer.
\<close>

theorem policy_matched_exact:
  "evaluatePolicySelector rx p collectors =
     sorted_list_of_set {cspec_ID (cl_spec c) | c. c \<in> set collectors \<and>
        p \<in> set (matched_policies rx (cspec_ID (cl_spec c)) (cst_LocalAttributes (cl_status c)) [p])}"
proof -
  have "{cspec_ID (cl_spec c) | c. c \<in> set collectors \<and>
        p \<in> set (matched_policies rx (cspec_ID (cl_spec c)) (cst_LocalAttributes (cl_status c)) [p])} =
      set (evaluatePolicySelector rx p collectors)"
    by (auto simp: evaluate_exact(1) matched_policies_def)
  with evaluate_exact(2,3) [of rx p collectors] show ?thesis
    by (simp add: sorted_list_of_set.idem_if_sorted_distinct)
qed

section \<open>The status\<close>

lemma rset_cond_simps [simp]:
  "rapst_ObservedGeneration (rset_cond K c st) = rapst_ObservedGeneration st"
  "rapst_MatchedCollectorIDs (rset_cond K c st) = rapst_MatchedCollectorIDs st"
  "rapst_MatchedCount (rset_cond K c st) = rapst_MatchedCount st"
  "rapst_Conditions (rset_cond K c st) = SetStatusCondition K (rapst_Conditions st) c"
  by (simp_all add: rset_cond_def)

lemma policy_Reconcile_eq:
  assumes "po_Get E [PoGet req] = Inr p"
    and "po_ListCollectors E [PoGet req, PoListCollectors (om_namespace (rap_meta p))] = Inr collectors"
  shows "policy_Reconcile R E req =
     (let tr = [PoGet req, PoListCollectors (om_namespace (rap_meta p))];
          matchedIDs = evaluatePolicySelector (por_regex R) p collectors
      in if policy_up_to_date (por_klib R) p matchedIDs then ret tr done_result None outcomeNoOp
         else case updateStatusMatched R E p matchedIDs tr of
                (tr, result, e) \<Rightarrow>
                  ret tr result e
                    (policyMatchedOutcome (length matchedIDs) (length matchedIDs > maxMatchedIDs) result e))"
  using assms by (simp add: policy_Reconcile_def Let_def)

lemma policy_written:
  assumes "po_Get E [PoGet req] = Inr p"
    and "po_ListCollectors E [PoGet req, PoListCollectors (om_namespace (rap_meta p))] = Inr collectors"
    and "PoStatusUpdate q \<in> set (rr_trace (policy_Reconcile R E req))"
  shows "q = p\<lparr>rap_status := matched_status (por_klib R) p (evaluatePolicySelector (por_regex R) p collectors)\<rparr>"
  using assms(3) unfolding policy_Reconcile_eq [OF assms(1,2)]
  by (auto simp: updateStatusMatched_def policy_emitEvent_def Let_def split: if_splits option.splits)

lemma matched_status_simps [simp]:
  "rapst_ObservedGeneration (matched_status K p ids) = om_generation (rap_meta p)"
  "rapst_MatchedCount (matched_status K p ids) = int32_of (length ids)"
  "rapst_MatchedCollectorIDs (matched_status K p ids) = take maxMatchedIDs ids"
  by (simp_all add: matched_status_def Let_def)

lemma matched_cond_types [simp]:
  "cnd_type (truncated_cond gen b) = policyConditionTypeTruncated"
  "cnd_type (fst (matched_conds gen n)) = condReady"
  "cnd_type (snd (matched_conds gen n)) = condSynced"
  by (simp_all add: truncated_cond_def matched_conds_def Let_def)

lemma matched_status_conds:
  assumes "klib_ok K"
  shows "cond_at (rapst_Conditions (matched_status K p ids)) policyConditionTypeTruncated =
           Some (truncated_cond (om_generation (rap_meta p)) (length ids > maxMatchedIDs))"
    and "cond_at (rapst_Conditions (matched_status K p ids)) condReady =
           Some (fst (matched_conds (om_generation (rap_meta p)) (length ids)))"
  by (simp_all add: matched_status_def klib_set [OF assms] Let_def)

text \<open>
  C30: what a status write says is true: the first 1000 matched IDs, the full count, the
  condition \<open>Truncated\<close> exactly when IDs are missing, and \<open>Ready\<close> exactly when something
  matched.  And every later reconcile that reads this status and lists collectors of which the
  selector matches the same IDs reads the policy and the list and does nothing more.
\<close>

theorem policy_status_faithful:
  assumes "klib_ok (por_klib R)" "po_Get E [PoGet req] = Inr p"
    and "po_ListCollectors E [PoGet req, PoListCollectors (om_namespace (rap_meta p))] = Inr collectors"
    and "PoStatusUpdate q \<in> set (rr_trace (policy_Reconcile R E req))"
    and "length collectors < 2 ^ 31"
    and "ids = evaluatePolicySelector (por_regex R) p collectors"
  shows "rapst_MatchedCollectorIDs (rap_status q) = take 1000 ids \<and>
         rapst_MatchedCount (rap_status q) = int (length ids) \<and>
         (\<exists>c. cond_at (rapst_Conditions (rap_status q)) ''Truncated'' = Some c \<and>
            (cnd_status c = CTrue \<longleftrightarrow> length ids > 1000)) \<and>
         (\<exists>c. cond_at (rapst_Conditions (rap_status q)) ''Ready'' = Some c \<and>
            (cnd_status c = CTrue \<longleftrightarrow> ids \<noteq> [])) \<and>
         (\<forall>E' req' collectors'.
            po_Get E' [PoGet req'] = Inr q \<longrightarrow>
            po_ListCollectors E' [PoGet req', PoListCollectors (om_namespace (rap_meta p))] = Inr collectors' \<longrightarrow>
            evaluatePolicySelector (por_regex R) p collectors' = ids \<longrightarrow>
            policy_Reconcile R E' req' =
              ret [PoGet req', PoListCollectors (om_namespace (rap_meta p))] done_result None outcomeNoOp)"
proof -
  have q: "q = p\<lparr>rap_status := matched_status (por_klib R) p ids\<rparr>"
    using policy_written [OF assms(2-4)] assms(6) by simp
  have "length ids \<le> length collectors"
  proof -
    have "length ids = card (set ids)"
      using evaluate_exact(2) assms(6) by (simp add: distinct_card)
    also have "\<dots> \<le> card ((\<lambda>c. cspec_ID (cl_spec c)) ` set collectors)"
      unfolding assms(6) evaluate_exact(1) by (rule card_mono) auto
    also have "\<dots> \<le> length collectors"
      using card_image_le card_length by (meson List.finite_set le_trans)
    finally show ?thesis .
  qed
  then have n: "int32_of (length ids) = int (length ids)"
    using assms(5) by (intro int32_of_small) simp
  note conds = matched_status_conds [OF assms(1), of p ids]
  have up: "policy_up_to_date (por_klib R) q ids"
    using conds(1)
    by (simp add: policy_up_to_date_def policyTruncatedConditionMatches_def klib_find [OF assms(1)] q
        truncated_cond_def stringSlicesEqual_def Let_def flip: list_all2_eq)
  have settled: "policy_Reconcile R E' req' =
      ret [PoGet req', PoListCollectors (om_namespace (rap_meta p))] done_result None outcomeNoOp"
    if "po_Get E' [PoGet req'] = Inr q"
      "po_ListCollectors E' [PoGet req', PoListCollectors (om_namespace (rap_meta p))] = Inr collectors'"
      "evaluatePolicySelector (por_regex R) p collectors' = ids" for E' req' collectors'
  proof -
    have "evaluatePolicySelector (por_regex R) q collectors' = ids" "rap_meta q = rap_meta p"
      using that(3) by (simp_all add: q evaluatePolicySelector_def)
    then show ?thesis
      using policy_Reconcile_eq [OF that(1), of collectors' R] that(2) up by simp
  qed
  have "rapst_MatchedCollectorIDs (rap_status q) = take 1000 ids"
    "rapst_MatchedCount (rap_status q) = int (length ids)"
    using n by (simp_all add: q maxMatchedIDs_def)
  moreover have "\<exists>c. cond_at (rapst_Conditions (rap_status q)) ''Truncated'' = Some c \<and>
      (cnd_status c = CTrue \<longleftrightarrow> length ids > 1000)"
    using conds(1) by (simp add: q truncated_cond_def maxMatchedIDs_def)
  moreover have "\<exists>c. cond_at (rapst_Conditions (rap_status q)) ''Ready'' = Some c \<and>
      (cnd_status c = CTrue \<longleftrightarrow> ids \<noteq> [])"
    using conds(2) by (simp add: q matched_conds_def Let_def)
  ultimately show ?thesis using settled by blast
qed

text \<open>
  A failed list leaves a mark that success does not remove: after the reconcile recorded
  \<open>ListFailed\<close> with \<open>Ready\<close> false on an up-to-date policy, the next reconcile, although its
  list succeeds with the same collectors, takes the policy as reconciled and leaves \<open>Ready\<close>
  false.
\<close>

theorem list_failure_sticks:
  assumes "klib_ok (por_klib R)"
    and "policy_up_to_date (por_klib R) p (evaluatePolicySelector (por_regex R) p collectors)"
    and "po_Get E [PoGet req] = Inr p"
    and "po_ListCollectors E [PoGet req, PoListCollectors (om_namespace (rap_meta p))] = Inl err"
    and "po_Get E' [PoGet req] = Inr q"
    and "po_ListCollectors E' [PoGet req, PoListCollectors (om_namespace (rap_meta q))] = Inr collectors"
    and "PoStatusUpdate q \<in> set (rr_trace (policy_Reconcile R E req))"
  shows "(\<exists>c. cond_at (rapst_Conditions (rap_status q)) ''Ready'' = Some c \<and>
            cnd_status c = CFalse \<and> cnd_reason c = policyReasonListFailed) \<and>
         rr_trace (policy_Reconcile R E' req) = [PoGet req, PoListCollectors (om_namespace (rap_meta q))] \<and>
         rr_outcome (policy_Reconcile R E' req) = outcomeNoOp"
proof -
  have q: "q = p\<lparr>rap_status := policy_error_status (por_klib R) p policyReasonListFailed err\<rparr>"
    using assms(3,4,7)
    by (auto simp: policy_Reconcile_def policy_updateStatusError_def policy_emitEvent_def Let_def
        split: if_splits option.splits)
  have "evaluatePolicySelector (por_regex R) q collectors = evaluatePolicySelector (por_regex R) p collectors"
    by (simp add: evaluatePolicySelector_def q)
  moreover have "policy_up_to_date (por_klib R) q ids" if "policy_up_to_date (por_klib R) p ids" for ids
    using that
    by (simp add: policy_up_to_date_def policyTruncatedConditionMatches_def klib_find [OF assms(1)]
        klib_set [OF assms(1)] q policy_error_status_def Let_def)
  ultimately have "policy_up_to_date (por_klib R) q (evaluatePolicySelector (por_regex R) q collectors)"
    using assms(2) by simp
  then show ?thesis
    unfolding policy_Reconcile_eq [OF assms(5,6)]
    by (simp add: q policy_error_status_def klib_set [OF assms(1)] Let_def)
qed

section \<open>Which policies a collector wakes\<close>

text \<open>
  C32: the index wakes every policy it was built for: a change of a collector enqueues each
  policy that lists IDs only, or that matches it and has a negated matcher, a matcher on
  \<open>collector.id\<close>, or a matcher on a key the collector has.
\<close>

theorem watch_index_complete:
  assumes "index_answers policy_index_keys lister policies" "p \<in> set policies"
    and "policy_matches rx p (cspec_ID (cl_spec c)) (cst_LocalAttributes (cl_status c))"
    and "psel_Matchers (rapspec_Selector (rap_spec p)) = [] \<or>
         list_ex (\<lambda>m. is_negation m \<or> MatcherUsesKey m ''collector.id'' \<or>
            list_ex (MatcherUsesKey m) (map fst (cst_LocalAttributes (cl_status c))))
           (psel_Matchers (rapspec_Selector (rap_spec p)))"
  shows "key_of (rap_meta p) \<in> set (mapCollectorToAffectedPolicies lister c)"
  unfolding mapCollectorToAffectedPolicies_def by (rule policy_index.wakes_matching [OF assms])

text \<open>
  And the policies it misses: a policy that lists a collector by ID and also has matchers,
  none negated and none on a key the collector carries, matches the collector but is not woken
  by its changes.
\<close>

theorem watch_index_misses:
  assumes "index_answers policy_index_keys lister policies" "p \<in> set policies"
    and "distinct (map (\<lambda>p. key_of (rap_meta p)) policies)"
    and "cspec_ID (cl_spec c) \<in> set (psel_CollectorIDs (rapspec_Selector (rap_spec p)))"
    and "psel_Matchers (rapspec_Selector (rap_spec p)) \<noteq> []"
    and "list_all (\<lambda>m. \<not> is_negation m \<and> list_all (\<lambda>k. \<not> MatcherUsesKey m k) (collector_watch_keys c))
           (psel_Matchers (rapspec_Selector (rap_spec p)))"
  shows "policy_matches rx p (cspec_ID (cl_spec c)) (cst_LocalAttributes (cl_status c)) \<and>
         key_of (rap_meta p) \<notin> set (mapCollectorToAffectedPolicies lister c)"
  using assms(4) policy_index.misses_mixed [OF assms(1-3,5,6)]
  by (simp add: Match_def selector_of_def mapCollectorToAffectedPolicies_def)

section \<open>Witnesses\<close>

definition po_reconciler :: RemoteAttributePolicyReconciler where
  "po_reconciler = \<lparr>por_klib = klib_ref, por_regex = (\<lambda>_. None), por_hasRecorder = True\<rparr>"

definition po_env :: "RemoteAttributePolicy \<Rightarrow> go_error + Collector list \<Rightarrow> poenv" where
  "po_env p answer =
     \<lparr>po_Get = (\<lambda>_. Inr p), po_ListCollectors = (\<lambda>_. answer), po_StatusUpdate = (\<lambda>_. None)\<rparr>"

definition ids_policy :: RemoteAttributePolicy where
  "ids_policy = sample_policy ''a'' 1 [(''env'', ''dev'')]"

lemma ids_policy_matched:
  "evaluatePolicySelector rx ids_policy [cl_sample False []] = [''edge-1'']"
  by (simp add: evaluatePolicySelector_def ids_policy_def sample_policy_def Match_def selector_of_def
      cl_sample_def)

lemma po_klib_ok: "klib_ok (por_klib po_reconciler)"
  by (simp add: po_reconciler_def klib_ref_ok)

definition ids_policy_written :: RemoteAttributePolicy where
  "ids_policy_written = ids_policy\<lparr>rap_status := matched_status klib_ref ids_policy [''edge-1'']\<rparr>"

lemma ids_policy_writes:
  "PoStatusUpdate ids_policy_written \<in> set (rr_trace (policy_Reconcile po_reconciler
     (po_env ids_policy (Inr [cl_sample False []])) cl_req))"
proof -
  have "\<not> policy_up_to_date klib_ref ids_policy [''edge-1'']"
    by (simp add: policy_up_to_date_def ids_policy_def sample_policy_def)
  then show ?thesis
    by (auto simp: policy_Reconcile_def po_env_def ids_policy_matched po_reconciler_def
        updateStatusMatched_def ids_policy_written_def policy_emitEvent_def Let_def)
qed

theorem policy_status_faithful_witness:
  "rapst_MatchedCollectorIDs (rap_status ids_policy_written) = [''edge-1''] \<and>
   rr_outcome (policy_Reconcile po_reconciler (po_env ids_policy_written (Inr [cl_sample False []])) cl_req) =
     outcomeNoOp"
proof -
  let ?E = "po_env ids_policy (Inr [cl_sample False []])"
  have g: "po_Get ?E [PoGet cl_req] = Inr ids_policy"
    and l: "po_ListCollectors ?E [PoGet cl_req, PoListCollectors (om_namespace (rap_meta ids_policy))] =
      Inr [cl_sample False []]" and n: "length [cl_sample False []] < 2 ^ 31"
    by (simp_all add: po_env_def)
  note faithful = policy_status_faithful [OF po_klib_ok g l ids_policy_writes n refl]
  have "rapst_MatchedCollectorIDs (rap_status ids_policy_written) = [''edge-1'']"
    using faithful by (simp add: ids_policy_matched)
  moreover have "policy_Reconcile po_reconciler (po_env ids_policy_written (Inr [cl_sample False []])) cl_req =
      ret [PoGet cl_req, PoListCollectors (om_namespace (rap_meta ids_policy))] done_result None outcomeNoOp"
    using faithful by (elim conjE allE impE) (auto simp: po_env_def)
  ultimately show ?thesis by simp
qed

lemma ids_policy_up_to_date: "policy_up_to_date klib_ref ids_policy_written [''edge-1'']"
proof -
  note c = matched_status_conds(1) [OF klib_ref_ok, of ids_policy "[''edge-1'']"]
  show ?thesis
    by (simp add: policy_up_to_date_def ids_policy_written_def stringSlicesEqual_def
        policyTruncatedConditionMatches_def klib_find [OF klib_ref_ok] c maxMatchedIDs_def
        truncated_cond_def)
qed

definition ids_policy_failed :: RemoteAttributePolicy where
  "ids_policy_failed = ids_policy_written\<lparr>rap_status :=
     policy_error_status klib_ref ids_policy_written policyReasonListFailed (PlainError ''timeout'')\<rparr>"

theorem list_failure_sticks_witness:
  "rr_outcome (policy_Reconcile po_reconciler
     (po_env ids_policy_failed (Inr [cl_sample False []])) cl_req) = outcomeNoOp"
proof -
  let ?p = "ids_policy_written"
  let ?E = "po_env ?p (Inl (PlainError ''timeout''))"
  let ?E' = "po_env ids_policy_failed (Inr [cl_sample False []])"
  have ev: "evaluatePolicySelector rx ?p cs = evaluatePolicySelector rx ids_policy cs" for rx cs
    by (simp add: evaluatePolicySelector_def ids_policy_written_def)
  have up: "policy_up_to_date (por_klib po_reconciler) ?p
      (evaluatePolicySelector (por_regex po_reconciler) ?p [cl_sample False []])"
    using ids_policy_up_to_date by (simp add: ev ids_policy_matched po_reconciler_def)
  have w: "PoStatusUpdate ids_policy_failed \<in> set (rr_trace (policy_Reconcile po_reconciler ?E cl_req))"
    by (simp add: policy_Reconcile_def policy_updateStatusError_def po_env_def po_reconciler_def
        ids_policy_failed_def policy_emitEvent_def Let_def)
  show ?thesis
    using list_failure_sticks [OF po_klib_ok up _ _ _ _ w, of "PlainError ''timeout''" ?E']
    by (simp add: po_env_def)
qed

theorem watch_index_complete_witness:
  "key_of (rap_meta ids_policy) \<in> set (mapCollectorToAffectedPolicies (index_of policy_index_keys [ids_policy]) (cl_sample False []))"
  using watch_index_complete [OF index_of_answers, of ids_policy "[ids_policy]" "\<lambda>_. None" "cl_sample False []"]
  by (simp add: ids_policy_def sample_policy_def Match_def selector_of_def cl_sample_def)

definition mixed_policy :: RemoteAttributePolicy where
  "mixed_policy =
     ids_policy\<lparr>rap_spec := (rap_spec ids_policy)\<lparr>rapspec_Selector :=
       \<lparr>psel_Matchers = [''team=a''], psel_CollectorIDs = [''edge-1'']\<rparr>\<rparr>\<rparr>"

theorem watch_index_misses_witness:
  "policy_matches (\<lambda>_. None) mixed_policy ''edge-1'' [] \<and>
   key_of (rap_meta mixed_policy) \<notin>
     set (mapCollectorToAffectedPolicies (index_of policy_index_keys [mixed_policy]) (cl_sample False []))"
proof -
  have m: "matcherPattern ''team=a'' = Some (''team'', MEq, ''a'')" by code_simp
  have "list_all (\<lambda>m. \<not> is_negation m \<and> list_all (\<lambda>k. \<not> MatcherUsesKey m k)
      (collector_watch_keys (cl_sample False []))) (psel_Matchers (rapspec_Selector (rap_spec mixed_policy)))"
    by (simp add: mixed_policy_def is_negation_def MatcherUsesKey_def m collector_watch_keys_def
        cl_sample_def SyntheticHasNegationKey_def SyntheticCollectorIDsOnlyKey_def)
  from watch_index_misses [OF index_of_answers _ _ _ _ this, of "[mixed_policy]" "\<lambda>_. None"]
  show ?thesis by (simp add: mixed_policy_def cl_sample_def)
qed

end
