(* ===== verification/Sources.thy ===== *)
theory Sources
  imports Go_Prelude "HOL-Library.Signed_Division"
begin

text \<open>
  \<open>pkg/sources/source.go\<close>: a record of an external source is a map from field names to
  dynamically typed values, and \<open>FieldString\<close> the coercion of a field to a string.  Integers
  keep their width.  A float is its bit pattern (a \<open>float32\<close> the pattern of the \<open>float64\<close> it
  converts to); how \<open>strconv\<close> prints one is a parameter.
\<close>

datatype field_value =
    FString string
  | FBool bool
  | FInt "64 word"
  | FInt32 "32 word"
  | FInt64 "64 word"
  | FFloat64 "64 word"
  | FFloat32 "64 word"
  | FNil
  | FOther

type_synonym source_record = "(string \<times> field_value) list"

section \<open>Decimal integers\<close>

text \<open>Go's \<open>/\<close> and \<open>%\<close> on \<open>int64\<close> truncate towards zero.\<close>

definition go_div :: "64 word \<Rightarrow> 64 word \<Rightarrow> 64 word" where
  "go_div a b = word_of_int (sint a sdiv sint b)"

definition go_mod :: "64 word \<Rightarrow> 64 word \<Rightarrow> 64 word" where
  "go_mod a b = word_of_int (sint a smod sint b)"

text \<open>The loop writes into the buffer from its end: \<open>buf\<close> is the part already written.\<close>

lemma sint_of_int64: "- (2 ^ 63) \<le> i \<Longrightarrow> i < 2 ^ 63 \<Longrightarrow> sint (word_of_int i :: 64 word) = i"
  by (simp add: sint_sbintrunc' signed_take_bit_int_eq_self)

lemma sint_range64: "- (2 ^ 63) \<le> sint (v :: 64 word)" "sint v < 2 ^ 63"
  using sint_ge [of v] sint_lt [of v] by simp_all

lemma go_div_10: "0 < sint v \<Longrightarrow> sint (go_div v 10) = sint v div 10"
proof -
  assume v: "0 < sint v"
  have "sint v sdiv sint (10 :: 64 word) = sint v div 10"
    using v by (simp add: signed_divide_int_def)
  moreover have "sint (word_of_int (sint v div 10) :: 64 word) = sint v div 10"
    using v sint_range64 [of v] by (intro sint_of_int64) auto
  ultimately show ?thesis by (simp add: go_div_def)
qed

function digits_loop :: "64 word \<Rightarrow> string \<Rightarrow> string" where
  "digits_loop v buf =
     (if 0 <s v then digits_loop (go_div v 10) (char_of (48 + unat (go_mod v 10)) # buf) else buf)"
  by auto

termination
proof (relation "measure (\<lambda>(v, buf). nat (sint v))")
  fix v :: "64 word" and buf :: string
  assume "0 <s v"
  then have "0 < sint v" by (simp add: word_sless_alt)
  then show "((go_div v 10, char_of (48 + unat (go_mod v 10)) # buf), (v, buf)) \<in> measure (\<lambda>(v, buf). nat (sint v))"
    by (simp add: go_div_10)
qed simp

declare digits_loop.simps [simp del]

definition formatInt64 :: "64 word \<Rightarrow> string" where
  "formatInt64 v =
     (if v = 0 then ''0''
      else let negative = v <s 0;
               v = (if negative then - v else v);
               buf = digits_loop v []
           in if negative then CHR ''-'' # buf else buf)"

section \<open>Fields\<close>

definition FieldString :: "(64 word \<Rightarrow> string) \<Rightarrow> source_record \<Rightarrow> string \<Rightarrow> string option" where
  "FieldString formatFloat r key =
     (case map_of r key of
        None \<Rightarrow> None
      | Some v \<Rightarrow>
          (case v of
             FString s \<Rightarrow> Some s
           | FBool b \<Rightarrow> Some (if b then ''true'' else ''false'')
           | FInt i \<Rightarrow> Some (formatInt64 i)
           | FInt32 i \<Rightarrow> Some (formatInt64 (scast i))
           | FInt64 i \<Rightarrow> Some (formatInt64 i)
           | FFloat64 f \<Rightarrow> Some (formatFloat f)
           | FFloat32 f \<Rightarrow> Some (formatFloat f)
           | FNil \<Rightarrow> None
           | FOther \<Rightarrow> None))"

section \<open>The integers are printed in decimal\<close>

lemma digit_char: "0 < sint v \<Longrightarrow> unat (go_mod v 10) = nat (sint v mod 10)"
proof -
  assume v: "0 < sint v"
  have "sint v smod sint (10 :: 64 word) = sint v mod 10"
    using v by (simp add: signed_modulo_int_def signed_divide_int_def minus_div_mult_eq_mod)
  moreover have "uint (word_of_int (sint v mod 10) :: 64 word) = sint v mod 10"
  proof -
    have "0 \<le> sint v mod 10" "sint v mod 10 < 10" by simp_all
    then show ?thesis by (simp add: uint_word_of_int)
  qed
  ultimately show ?thesis by (simp add: go_mod_def flip: nat_uint_eq)
qed

lemma digits_loop_stop: "sint v \<le> 0 \<Longrightarrow> digits_loop v buf = buf"
  by (subst digits_loop.simps) (simp add: word_sless_alt)

lemma digits_loop_show: "0 < sint v \<Longrightarrow> digits_loop v buf = show_nat (nat (sint v)) @ buf"
proof (induction v buf rule: digits_loop.induct)
  case (1 v buf)
  have s: "0 <s v" using 1(2) by (simp add: word_sless_alt)
  have d: "sint (go_div v 10) = sint v div 10" using 1(2) by (rule go_div_10)
  have step: "digits_loop v buf = digits_loop (go_div v 10) (char_of (48 + nat (sint v mod 10)) # buf)"
    using s 1(2) by (subst digits_loop.simps) (simp add: digit_char)
  show ?case
  proof (cases "sint v < 10")
    case True
    with 1(2) have "sint v div 10 = 0" "sint v mod 10 = sint v" by auto
    moreover have "nat (sint v) < 10" using True by simp
    ultimately show ?thesis
      using d step by (simp add: digits_loop_stop show_nat.simps [of "nat (sint v)"])
  next
    case False
    then have "0 < sint (go_div v 10)" using d by simp
    moreover have "\<not> nat (sint v) < 10" using False by simp
    ultimately show ?thesis
      using 1(1) s step d digit_char [OF 1(2)]
      by (simp add: nat_div_distrib nat_mod_distrib show_nat.simps [of "nat (sint v)"])
  qed
qed

lemma length_show_nat: "n < 10 ^ k \<Longrightarrow> 0 < k \<Longrightarrow> length (show_nat n) \<le> k"
proof (induction k arbitrary: n)
  case (Suc k)
  show ?case
  proof (cases "n < 10")
    case True
    then show ?thesis by (simp add: show_nat.simps)
  next
    case False
    with Suc.prems have k: "0 < k" by (cases k) auto
    have "n div 10 < 10 ^ k" using Suc.prems by auto
    from Suc.IH [OF this k] False show ?thesis by (subst show_nat.simps) simp
  qed
qed simp

lemma sint_neg64: "sint v \<noteq> - (2 ^ 63) \<Longrightarrow> sint (- v :: 64 word) = - sint v"
proof -
  assume "sint v \<noteq> - (2 ^ 63)"
  moreover have "sint (- v) = sint (word_of_int (- sint v) :: 64 word)" by simp
  ultimately show ?thesis
    using sint_range64 [of v] sint_of_int64 [of "- sint v"] by linarith
qed

lemma sint_min_int64: "sint v = - (2 ^ 63) \<Longrightarrow> v = - (2 ^ 63 :: 64 word)"
proof -
  assume "sint v = - (2 ^ 63)"
  then have "(of_int (sint v) :: 64 word) = of_int (- (2 ^ 63))" by (rule arg_cong)
  then show ?thesis by simp
qed

text \<open>
  Integers are printed in decimal with at most twenty bytes, the size of the buffer,
  except the least \<open>int64\<close>: its negation is itself, the loop does not run, and the field
  becomes a bare minus sign.
\<close>

theorem formatInt64_decimal:
  "formatInt64 v = (if sint v = - (2 ^ 63) then ''-'' else show_int (sint v)) \<and>
   length (formatInt64 v) \<le> 20"
proof (cases "sint v = - (2 ^ 63)")
  case True
  then have "v = - (2 ^ 63)" by (rule sint_min_int64)
  moreover have "digits_loop (- (- (2 ^ 63))) [] = []" by (rule digits_loop_stop) simp
  ultimately show ?thesis using True by (simp add: formatInt64_def word_sless_alt)
next
  case False
  show ?thesis
  proof (cases "v = 0")
    case True
    have "CHR ''0'' = char_of (48 :: nat)" by code_simp
    with True show ?thesis by (simp add: formatInt64_def show_int_def show_nat.simps)
  next
    case nz: False
    define a where "a = (if v <s 0 then - v else v)"
    have "sint v \<noteq> 0" using nz by (simp add: signed_eq_0_iff)
    then have a: "0 < sint a" "sint a = \<bar>sint v\<bar>"
      using sint_neg64 [OF False] by (auto simp: a_def word_sless_alt)
    have f: "formatInt64 v = show_int (sint v)"
      using nz a digits_loop_show [OF a(1), of "[]"]
      by (auto simp: formatInt64_def a_def show_int_def word_sless_alt Let_def split: if_splits)
    have "nat \<bar>sint v\<bar> < 10 ^ 19" using sint_range64 [of v] by auto
    from length_show_nat [OF this] have "length (show_nat (nat \<bar>sint v\<bar>)) \<le> 19" by simp
    with f False show ?thesis by (auto simp: show_int_def split: if_splits)
  qed
qed

end
