(* ===== verification/Netguard.thy ===== *)
theory Netguard
  imports Go_Prelude
begin

unbundle bit_operations_syntax

text \<open>
  \<open>pkg/netguard\<close>: the denylist of destinations, on addresses as machine words, and its two
  enforcement points, the check of a host name at admission and the hook of the dialer.  The
  two parsers of the standard library, \<open>netip.ParseAddr\<close> and \<open>net.SplitHostPort\<close>, are
  parameters.
\<close>

section \<open>Addresses\<close>

text \<open>\<open>netip.Addr\<close>: an IPv4 address, or an IPv6 address with its zone.\<close>

datatype ip_addr = V4 "32 word" | V6 "128 word" string

text \<open>\<open>v4(i)\<close> is the i-th byte, \<open>v6u16(0)\<close> the first 16 bits.\<close>

definition v4_byte :: "nat \<Rightarrow> 32 word \<Rightarrow> 32 word" where
  "v4_byte i a = drop_bit (24 - 8 * i) a AND 255"

definition v6_head :: "128 word \<Rightarrow> 128 word" where
  "v6_head a = drop_bit 112 a"

fun Unmap :: "ip_addr \<Rightarrow> ip_addr" where
  "Unmap (V4 a) = V4 a"
| "Unmap (V6 a z) = (if drop_bit 32 a = 0xffff then V4 (ucast a) else V6 a z)"

fun IsLoopback :: "ip_addr \<Rightarrow> bool" where
  "IsLoopback (V4 a) = (v4_byte 0 a = 127)"
| "IsLoopback (V6 a z) = (a = 1)"

fun IsPrivate :: "ip_addr \<Rightarrow> bool" where
  "IsPrivate (V4 a) =
     (v4_byte 0 a = 10 \<or> (v4_byte 0 a = 172 \<and> v4_byte 1 a AND 0xf0 = 16) \<or>
      (v4_byte 0 a = 192 \<and> v4_byte 1 a = 168))"
| "IsPrivate (V6 a z) = (drop_bit 120 a AND 0xfe = 0xfc)"

fun IsLinkLocalUnicast :: "ip_addr \<Rightarrow> bool" where
  "IsLinkLocalUnicast (V4 a) = (v4_byte 0 a = 169 \<and> v4_byte 1 a = 254)"
| "IsLinkLocalUnicast (V6 a z) = (v6_head a AND 0xffc0 = 0xfe80)"

fun IsLinkLocalMulticast :: "ip_addr \<Rightarrow> bool" where
  "IsLinkLocalMulticast (V4 a) = (v4_byte 0 a = 224 \<and> v4_byte 1 a = 0 \<and> v4_byte 2 a = 0)"
| "IsLinkLocalMulticast (V6 a z) = (v6_head a AND 0xff0f = 0xff02)"

fun IsUnspecified :: "ip_addr \<Rightarrow> bool" where
  "IsUnspecified (V4 a) = (a = 0)"
| "IsUnspecified (V6 a z) = (a = 0 \<and> z = [])"

definition IsDisallowedIP :: "ip_addr \<Rightarrow> bool" where
  "IsDisallowedIP addr0 =
     (let addr = Unmap addr0
      in IsLoopback addr \<or> IsPrivate addr \<or> IsLinkLocalUnicast addr \<or>
         IsLinkLocalMulticast addr \<or> IsUnspecified addr)"

section \<open>The check of a host name\<close>

definition ErrDisallowedDestination :: go_error where
  "ErrDisallowedDestination = PlainError ''destination is not allowed''"

text \<open>\<open>errors.Is(err, ErrDisallowedDestination)\<close>.\<close>

fun is_disallowed :: "go_error \<Rightarrow> bool" where
  "is_disallowed (WrapError pre e post) = is_disallowed e"
| "is_disallowed e = (e = ErrDisallowedDestination)"

definition trim_prefix :: "string \<Rightarrow> string \<Rightarrow> string" where
  "trim_prefix s p = (if has_prefix s p then drop (length p) s else s)"

definition internal_name :: "string \<Rightarrow> bool" where
  "internal_name host \<longleftrightarrow>
     host = ''localhost'' \<or> has_suffix host ''.localhost'' \<or> has_suffix host ''.local'' \<or>
     has_suffix host ''.svc'' \<or> has_suffix host ''.cluster.local''"

definition ValidateHostname :: "(string \<Rightarrow> ip_addr option) \<Rightarrow> string \<Rightarrow> go_error option" where
  "ValidateHostname ParseAddr host0 =
     (let host = to_lower (trim_suffix (trim_space host0) ''.'')
      in if host = [] then Some (WrapError [] ErrDisallowedDestination '': host is empty'')
         else
           (let literal = trim_suffix (trim_prefix host ''['') '']''
            in case ParseAddr literal of
                 Some addr \<Rightarrow>
                   if IsDisallowedIP addr
                   then Some (WrapError [] ErrDisallowedDestination
                          ('': '' @ go_quote host @ '' resolves to a disallowed IP''))
                   else None
               | None \<Rightarrow>
                   if internal_name host
                   then Some (WrapError [] ErrDisallowedDestination
                          ('': '' @ go_quote host @ '' is an internal name''))
                   else None))"

section \<open>The hook of the dialer\<close>

text \<open>The \<open>Control\<close> hook \<open>GuardedDialContext\<close> installs; \<open>None\<close> lets the dial proceed.\<close>

definition dial_control ::
    "(string \<Rightarrow> go_error + string \<times> string) \<Rightarrow> (string \<Rightarrow> go_error + ip_addr) \<Rightarrow> string \<Rightarrow> go_error option" where
  "dial_control SplitHostPort ParseAddr address =
     (case SplitHostPort address of
        Inl err \<Rightarrow>
          Some (WrapError [] ErrDisallowedDestination
            ('': cannot parse dial address '' @ go_quote address @ '': '' @ err_text err))
      | Inr (host, _) \<Rightarrow>
          (case ParseAddr host of
             Inl err \<Rightarrow>
               Some (WrapError [] ErrDisallowedDestination
                 ('': dial address '' @ go_quote host @ '' is not an IP literal: '' @ err_text err))
           | Inr addr \<Rightarrow>
               if IsDisallowedIP addr
               then Some (WrapError [] ErrDisallowedDestination ('': refusing to dial '' @ go_quote address))
               else None))"

section \<open>The ranges\<close>

lemma v4_byte_take: "v4_byte i a = take_bit 8 (drop_bit (24 - 8 * i) a)"
  unfolding v4_byte_def take_bit_eq_mask by (simp add: mask_eq_exp_minus_1)

lemma unat_v4_byte: "unat (v4_byte i a) = unat a div 2 ^ (24 - 8 * i) mod 2 ^ 8"
  unfolding v4_byte_take unsigned_take_bit_eq unat_drop_bit_eq
  unfolding take_bit_eq_mod drop_bit_eq_div ..

lemma v4_byte_iff:
  "v4_byte i a = numeral c \<longleftrightarrow> unat a div 2 ^ (24 - 8 * i) mod 256 = unat (numeral c :: 32 word)"
  "v4_byte i a = 0 \<longleftrightarrow> unat a div 2 ^ (24 - 8 * i) mod 256 = 0"
  using unat_v4_byte [of i a] by (simp_all add: word_unat_eq_iff)

lemma nibble:
  fixes b :: "32 word"
  assumes "unat b < 256"
  shows "b AND 0xf0 = 16 \<longleftrightarrow> 16 \<le> unat b \<and> unat b < 32"
proof -
  have b: "take_bit 8 b = b"
    using assms unfolding word_unat_eq_iff unsigned_take_bit_eq
    by (intro take_bit_nat_eq_self) simp
  have "(0xf0 :: 32 word) = push_bit 4 (mask 4)"
    by (simp add: mask_eq_exp_minus_1)
  then have "b AND 0xf0 = take_bit 8 b AND push_bit 4 (mask 4)" by (simp only: b)
  also have "\<dots> = push_bit 4 (drop_bit 4 (take_bit 8 b))"
    by (rule bit_word_eqI) (auto simp: bit_simps)
  finally have e: "b AND 0xf0 = push_bit 4 (drop_bit 4 b)" by (simp only: b)
  have "unat (b AND 0xf0) = unat b div 2 ^ 4 * 2 ^ 4 mod 2 ^ 32"
    unfolding e unsigned_push_bit_eq unat_drop_bit_eq
    unfolding push_bit_eq_mult take_bit_eq_mod drop_bit_eq_div by simp
  also have "\<dots> = unat b div 16 * 16" using assms by simp
  finally have "unat (b AND 0xf0) = unat b div 16 * 16" .
  moreover have "b AND 0xf0 = 16 \<longleftrightarrow> unat (b AND 0xf0) = 16"
    by (simp only: word_unat_eq_iff) simp
  ultimately show ?thesis by auto
qed

text \<open>The addresses \<open>a.b.c.d\<close> that are refused, as numbers.\<close>

definition in_block :: "nat \<Rightarrow> nat \<Rightarrow> nat \<Rightarrow> bool" where
  "in_block base bits n \<longleftrightarrow> base \<le> n \<and> n < base + 2 ^ bits"

definition dotted :: "nat \<Rightarrow> nat \<Rightarrow> nat \<Rightarrow> nat \<Rightarrow> nat" where
  "dotted a b c d = ((a * 256 + b) * 256 + c) * 256 + d"

definition internal_v4 :: "nat \<Rightarrow> bool" where
  "internal_v4 n \<longleftrightarrow>
     n = 0 \<or> in_block (dotted 10 0 0 0) 24 n \<or> in_block (dotted 127 0 0 0) 24 n \<or>
     in_block (dotted 169 254 0 0) 16 n \<or> in_block (dotted 172 16 0 0) 20 n \<or>
     in_block (dotted 192 168 0 0) 16 n \<or> in_block (dotted 224 0 0 0) 8 n"

lemma in_block_div: "in_block (q * 2 ^ bits) bits n \<longleftrightarrow> n div 2 ^ bits = q"
proof -
  have "n div 2 ^ bits = q \<longleftrightarrow> q \<le> n div 2 ^ bits \<and> n div 2 ^ bits < Suc q" by auto
  also have "\<dots> \<longleftrightarrow> q * 2 ^ bits \<le> n \<and> n < Suc q * 2 ^ bits"
    by (simp add: less_eq_div_iff_mult_less_eq div_less_iff_less_mult)
  finally show ?thesis by (simp add: in_block_def add.commute)
qed

lemma two_digits:
  fixes m :: nat
  assumes "b' < m" "c' < m"
  shows "m * b + b' = m * c + c' \<longleftrightarrow> b = c \<and> b' = c'"
proof
  assume e: "m * b + b' = m * c + c'"
  have "b = (m * b + b') div m" "c = (m * c + c') div m" using assms by simp_all
  with e show "b = c \<and> b' = c'" by simp
qed simp

lemma digits_256:
  fixes n :: nat
  shows "n div 2 ^ 16 = 256 * (n div 2 ^ 24) + n div 2 ^ 16 mod 256"
    and "n div 2 ^ 8 = 256 * (n div 2 ^ 16) + n div 2 ^ 8 mod 256"
proof -
  have "n div 2 ^ 24 = n div 2 ^ 16 div 256" "n div 2 ^ 16 = n div 2 ^ 8 div 256"
    by (simp_all flip: div_mult2_eq)
  then show "n div 2 ^ 16 = 256 * (n div 2 ^ 24) + n div 2 ^ 16 mod 256"
    "n div 2 ^ 8 = 256 * (n div 2 ^ 16) + n div 2 ^ 8 mod 256" by simp_all
qed

lemma IsDisallowedIP_V4:
  "IsDisallowedIP (V4 w) \<longleftrightarrow> internal_v4 (unat w)"
proof -
  define n where "n = unat w"
  have lt: "n div 2 ^ 24 < 256" using unsigned_less [of w, where ?'a = nat] by (simp add: n_def)
  define b0 b1 b2 where "b0 = n div 2 ^ 24" and "b1 = n div 2 ^ 16 mod 256" and "b2 = n div 2 ^ 8 mod 256"
  have b12: "b1 < 256" "b2 < 256" by (simp_all add: b1_def b2_def)
  have d16: "n div 2 ^ 16 = 256 * b0 + b1" and d8: "n div 2 ^ 8 = 256 * (256 * b0 + b1) + b2"
    using digits_256 [of n] by (simp_all add: b0_def b1_def b2_def)
  have d20: "n div 2 ^ 20 = 16 * b0 + b1 div 16"
  proof -
    have "n div 2 ^ 20 = n div 2 ^ 16 div 16" by (simp flip: div_mult2_eq)
    also have "\<dots> = 16 * b0 + b1 div 16" unfolding d16 by simp
    finally show ?thesis .
  qed
  have d20': "16 * b0 + b1 div 16 = 2753 \<longleftrightarrow> b0 = 172 \<and> 16 \<le> b1 \<and> b1 < 32"
    using two_digits [of "b1 div 16" 16 1 b0 172] b12(1) by (simp add: div_nat_eqI) linarith
  have bytes: "unat (v4_byte 0 w) = b0" "unat (v4_byte 1 w) = b1" "unat (v4_byte 2 w) = b2"
    using lt by (simp_all add: unat_v4_byte b0_def b1_def b2_def n_def)
  have eq: "v4_byte i w = numeral c \<longleftrightarrow> unat (v4_byte i w) = unat (numeral c :: 32 word)"
    "v4_byte i w = 0 \<longleftrightarrow> unat (v4_byte i w) = 0" for i c
    by (simp_all only: word_unat_eq_iff) simp
  have nb: "v4_byte 1 w AND 0xf0 = 16 \<longleftrightarrow> 16 \<le> b1 \<and> b1 < 32"
    using nibble [of "v4_byte 1 w"] b12 bytes(2) by simp
  have z: "w = 0 \<longleftrightarrow> n = 0" by (simp add: word_unat_eq_iff n_def)
  have blocks:
    "in_block (dotted 10 0 0 0) 24 n \<longleftrightarrow> b0 = 10" "in_block (dotted 127 0 0 0) 24 n \<longleftrightarrow> b0 = 127"
    "in_block (dotted 169 254 0 0) 16 n \<longleftrightarrow> b0 = 169 \<and> b1 = 254"
    "in_block (dotted 192 168 0 0) 16 n \<longleftrightarrow> b0 = 192 \<and> b1 = 168"
    "in_block (dotted 172 16 0 0) 20 n \<longleftrightarrow> b0 = 172 \<and> 16 \<le> b1 \<and> b1 < 32"
    "in_block (dotted 224 0 0 0) 8 n \<longleftrightarrow> b0 = 224 \<and> b1 = 0 \<and> b2 = 0"
    using in_block_div [of 10 24 n, folded b0_def] in_block_div [of 127 24 n, folded b0_def] in_block_div [of 43518 16 n, unfolded d16]
      in_block_div [of 49320 16 n, unfolded d16] in_block_div [of 2753 20 n, unfolded d20]
      in_block_div [of 14680064 8 n, unfolded d8] b12
      two_digits [of b1 256 254 b0 169] two_digits [of b1 256 168 b0 192] d20'
      two_digits [of b1 256 0 b0 224] two_digits [of b2 256 0 "256 * b0 + b1" "256 * 224"]
    by (simp_all add: dotted_def)
  show ?thesis
    unfolding internal_v4_def IsDisallowedIP_def Let_def Unmap.simps IsLoopback.simps IsPrivate.simps
      IsLinkLocalUnicast.simps IsLinkLocalMulticast.simps IsUnspecified.simps nb eq bytes z
      n_def [symmetric] blocks by simp blast
qed

lemma Unmap_mapped: "Unmap (V6 (push_bit 32 0xffff OR ucast (w :: 32 word)) z) = V4 w"
proof -
  let ?a = "push_bit 32 0xffff OR ucast w :: 128 word"
  have f: "(0xffff :: 128 word) = mask 16" by (simp add: mask_eq_exp_minus_1)
  have "drop_bit 32 ?a = (0xffff :: 128 word)"
    unfolding f by (rule bit_word_eqI) (auto simp: bit_simps dest: bit_imp_le_length)
  moreover have "ucast ?a = w"
    unfolding f by (rule bit_word_eqI) (auto simp: bit_simps)
  ultimately show ?thesis by simp
qed

text \<open>
  C21: the hook of the dialer refuses every internal IPv4 destination.  A dial proceeds only
  when the resolved address parses, and then it is outside the loopback, private, link-local
  and unspecified blocks, as an IPv4 address and in its IPv6-mapped form.
\<close>

theorem dial_refuses_internal:
  assumes "dial_control SplitHostPort ParseAddr address = None"
  shows "\<exists>host port addr. SplitHostPort address = Inr (host, port) \<and> ParseAddr host = Inr addr \<and>
           \<not> IsDisallowedIP addr \<and>
           (\<forall>w z. addr \<in> {V4 w, V6 (push_bit 32 0xffff OR ucast w) z} \<longrightarrow> \<not> internal_v4 (unat w))"
proof -
  obtain host port addr where h: "SplitHostPort address = Inr (host, port)" "ParseAddr host = Inr addr"
    "\<not> IsDisallowedIP addr"
    using assms by (auto simp: dial_control_def split: sum.splits if_splits)
  have "\<not> internal_v4 (unat w)" if "addr \<in> {V4 w, V6 (push_bit 32 0xffff OR ucast w) z}" for w z
  proof -
    have "IsDisallowedIP addr = IsDisallowedIP (V4 w)"
      using that Unmap_mapped [of w z] unfolding IsDisallowedIP_def Let_def by auto
    with h(3) show ?thesis by (simp add: IsDisallowedIP_V4)
  qed
  with h show ?thesis by blast
qed

theorem dial_refuses_internal_witness:
  "dial_control (\<lambda>a. Inr (a, ''443'')) (\<lambda>_. Inr (V4 0x01010101)) ''1.1.1.1'' = None \<and> \<not> internal_v4 0x01010101"
proof -
  let ?P = "\<lambda>_ :: string. Inr (V4 0x01010101) :: go_error + ip_addr"
    and ?S = "\<lambda>a :: string. Inr (a, ''443'') :: go_error + string \<times> string"
  have d: "dial_control ?S ?P ''1.1.1.1'' = None"
    by (simp add: dial_control_def IsDisallowedIP_V4 internal_v4_def in_block_def dotted_def)
  from dial_refuses_internal [OF d] have "\<not> internal_v4 (unat (0x01010101 :: 32 word))" by auto
  with d show ?thesis by simp
qed

text \<open>The check at admission and the errors it gives.\<close>

lemma ValidateHostname_disallowed:
  "ValidateHostname ParseAddr host = Some err \<Longrightarrow> is_disallowed err"
  by (auto simp: ValidateHostname_def Let_def ErrDisallowedDestination_def split: if_splits option.splits)

end
