(* ===== verification/Http_Source.thy ===== *)
theory Http_Source
  imports Sources Netguard
begin

text \<open>
  \<open>pkg/sources/http/source.go\<close>: the HTTP/JSON source.  The HTTP client of the standard library is
  a parameter (a request gives an error or a response); so are the URL and JSON parsers, the
  canonical form of header names and the Base64 encoding of basic authentication.
\<close>

section \<open>Data\<close>

datatype json =
    JNull
  | JBool bool
  | JNumber "64 word"
  | JString string
  | JArray "json list"
  | JObject "(string \<times> json) list"

text \<open>The components of a \<open>*url.URL\<close> the source reads; \<open>su_User\<close> is \<open>parsed.User != nil\<close>.\<close>

record source_url =
  su_Scheme :: string
  su_Host :: string
  su_User :: bool
  su_Redacted :: string

record http_lib =
  hl_ParseURL :: "string \<Rightarrow> go_error + source_url"
  hl_ParseAddr :: "string \<Rightarrow> ip_addr option"
  hl_canonical :: "string \<Rightarrow> string"
  hl_base64 :: "string \<Rightarrow> string"
  hl_json :: "string \<Rightarrow> go_error + json"

text \<open>
  A response body as its reader delivers it: the bytes, and the error (if any) it ends with
  instead of the end of the stream.
\<close>

record http_response =
  hr_StatusCode :: int
  hr_bytes :: string
  hr_fail :: "go_error option"

record http_request =
  hq_Method :: string
  hq_URL :: string
  hq_Headers :: gomap

record http_client =
  hc_NewRequest :: "string \<Rightarrow> string \<Rightarrow> go_error option"
  hc_Do :: "http_request \<Rightarrow> go_error + http_response"

record http_config =
  hcfg_URL :: string
  hcfg_Method :: string
  hcfg_RecordsPath :: string
  hcfg_BearerToken :: string
  hcfg_Username :: string
  hcfg_Password :: string
  hcfg_Headers :: gomap
  hcfg_Timeout :: int

record http_source =
  hs_cfg :: http_config
  hs_redactedURL :: string

definition http_defaultTimeout :: int where "http_defaultTimeout = 30 * second"

definition bodyExcerptLimit :: int where "bodyExcerptLimit = 200"

definition successfulBodyLimit :: int where "successfulBodyLimit = 10 * 1024 * 1024"

definition maxRedirects :: nat where "maxRedirects = 10"

text \<open>
  \<open>strings.ToUpper\<close>: the dotless i (U+0131) and the long s (U+017F) are the only characters
  beyond ASCII whose upper case is ASCII.
\<close>

definition upper_char :: "char \<Rightarrow> char" where
  "upper_char c = (if is_lower c then char_of ((of_char c :: nat) - 32) else c)"

fun to_upper :: "string \<Rightarrow> string" where
  "to_upper [] = []"
| "to_upper (c # s) =
     (if has_prefix (c # s) [CHR 0xC4, CHR 0xB1] then CHR ''I'' # to_upper (drop 1 s)
      else if has_prefix (c # s) [CHR 0xC5, CHR 0xBF] then CHR ''S'' # to_upper (drop 1 s)
      else upper_char c # to_upper s)"

section \<open>Construction\<close>

definition configHasCredentials :: "http_config \<Rightarrow> bool" where
  "configHasCredentials cfg \<longleftrightarrow>
     hcfg_BearerToken cfg \<noteq> [] \<or> hcfg_Username cfg \<noteq> [] \<or> hcfg_Password cfg \<noteq> []"

definition NewHTTP :: "http_lib \<Rightarrow> http_config \<Rightarrow> go_error + http_source" where
  "NewHTTP L cfg =
     (if trim_space (hcfg_URL cfg) = [] then Inl (PlainError ''httpsource: URL is required'')
      else
        (case hl_ParseURL L (hcfg_URL cfg) of
           Inl err \<Rightarrow> Inl (WrapError (''httpsource: invalid URL '' @ go_quote (hcfg_URL cfg) @ '': '') err [])
         | Inr parsed \<Rightarrow>
             if su_Scheme parsed \<noteq> ''http'' \<and> su_Scheme parsed \<noteq> ''https'' then
               Inl (PlainError (''httpsource: URL scheme must be http or https, got '' @
                 go_quote (su_Scheme parsed)))
             else if su_Host parsed = [] then
               Inl (PlainError (''httpsource: URL must include a host: '' @ go_quote (hcfg_URL cfg)))
             else if su_Scheme parsed \<noteq> ''https'' \<and> (configHasCredentials cfg \<or> su_User parsed) then
               Inl (PlainError ''httpsource: URL scheme must be https when credentials are configured'')
             else
               (let m = to_upper (trim_space (hcfg_Method cfg))
                in if m \<notin> {'''', ''GET'', ''POST''} then
                     Inl (PlainError (''httpsource: unsupported method '' @ go_quote (hcfg_Method cfg) @
                       '' (only GET and POST are allowed)''))
                   else
                     Inr \<lparr>hs_cfg = cfg\<lparr>hcfg_Method := (if m = [] then ''GET'' else m),
                                        hcfg_Timeout := (if hcfg_Timeout cfg \<le> 0 then http_defaultTimeout
                                                         else hcfg_Timeout cfg)\<rparr>,
                          hs_redactedURL = su_Redacted parsed\<rparr>)))"

text \<open>The redirect hook of the client, on the host name of the target and the hops so far.\<close>

definition CheckRedirect :: "http_lib \<Rightarrow> string \<Rightarrow> nat \<Rightarrow> go_error option" where
  "CheckRedirect L hostname via =
     (if via \<ge> maxRedirects then Some (PlainError ''httpsource: stopped after 10 redirects'')
      else
        (case ValidateHostname (hl_ParseAddr L) hostname of
           Some err \<Rightarrow>
             if is_disallowed err then
               Some (PlainError (''httpsource: refusing redirect to '' @ go_quote hostname @
                 '': destination is not allowed''))
             else Some (WrapError (''httpsource: refusing redirect to '' @ go_quote hostname @ '': '') err [])
         | None \<Rightarrow> None))"

section \<open>Bodies\<close>

text \<open>\<open>io.ReadAll(io.LimitReader(r, n))\<close>: the limit hides what comes after \<open>n\<close> bytes.\<close>

definition read_limited :: "http_response \<Rightarrow> nat \<Rightarrow> string \<times> go_error option" where
  "read_limited r n =
     (if length (hr_bytes r) \<ge> n then (take n (hr_bytes r), None) else (hr_bytes r, hr_fail r))"

definition readLimitedBody :: "http_response \<Rightarrow> int \<Rightarrow> go_error + string" where
  "readLimitedBody r limit =
     (if limit \<le> 0 then Inl (PlainError ''httpsource: response body limit must be positive'')
      else
        (case read_limited r (nat (limit + 1)) of
           (_, Some err) \<Rightarrow> Inl (WrapError ''httpsource: read response body: '' err [])
         | (body, None) \<Rightarrow>
             if int (length body) > limit then
               Inl (PlainError (''httpsource: response body exceeds '' @ show_int limit @ '' byte limit''))
             else Inr body))"

definition readBodyExcerpt :: "http_response \<Rightarrow> int \<Rightarrow> string" where
  "readBodyExcerpt r limit =
     (if limit \<le> 0 then []
      else
        (case read_limited r (nat limit) of
           (buf, Some _) \<Rightarrow> trim_space buf
         | (buf, None) \<Rightarrow>
             replace_char (CHR 0x09) '' '' (replace_char (CHR 0x0D) '' ''
               (replace_char (CHR 0x0A) '' '' (trim_space buf)))))"

section \<open>The records path\<close>

fun jsonKindName :: "json \<Rightarrow> string" where
  "jsonKindName JNull = ''null''"
| "jsonKindName (JBool _) = ''boolean''"
| "jsonKindName (JNumber _) = ''number''"
| "jsonKindName (JString _) = ''string''"
| "jsonKindName (JArray _) = ''array''"
| "jsonKindName (JObject _) = ''object''"

text \<open>\<open>strings.Split(s, ".")\<close>.\<close>

fun split_dots :: "string \<Rightarrow> string list" where
  "split_dots [] = [[]]"
| "split_dots (c # s) =
     (if c = CHR ''.'' then [] # split_dots s
      else case split_dots s of [] \<Rightarrow> [[c]] | p # ps \<Rightarrow> (c # p) # ps)"

fun walk_steps :: "string \<Rightarrow> nat \<Rightarrow> string list \<Rightarrow> json \<Rightarrow> go_error + json" where
  "walk_steps recordsPath i [] current = Inr current"
| "walk_steps recordsPath i (stp # steps) current =
     (if stp = [] then
        Inl (PlainError (''httpsource: recordsPath '' @ go_quote recordsPath @
          '' has an empty key at position '' @ show_nat i))
      else
        (case current of
           JObject obj \<Rightarrow>
             (case map_of obj stp of
                None \<Rightarrow>
                  Inl (PlainError (''httpsource: recordsPath '' @ go_quote recordsPath @ '': key '' @
                    go_quote stp @ '' not found in response''))
              | Some nxt \<Rightarrow> walk_steps recordsPath (Suc i) steps nxt)
         | _ \<Rightarrow>
             Inl (PlainError (''httpsource: recordsPath '' @ go_quote recordsPath @
               '': expected object at step '' @ go_quote stp @ '', got '' @ jsonKindName current))))"

definition walkRecordsPath :: "json \<Rightarrow> string \<Rightarrow> go_error + json list" where
  "walkRecordsPath decoded recordsPath0 =
     (let recordsPath = trim_space recordsPath0
      in if recordsPath = [] then
           (case decoded of
              JArray arr \<Rightarrow> Inr arr
            | _ \<Rightarrow>
                Inl (PlainError (''httpsource: response root is not a JSON array (got '' @
                  jsonKindName decoded @ ''); set recordsPath to descend into the body'')))
         else
           (case walk_steps recordsPath 0 (split_dots recordsPath) decoded of
              Inl err \<Rightarrow> Inl err
            | Inr (JArray arr) \<Rightarrow> Inr arr
            | Inr current \<Rightarrow>
                Inl (PlainError (''httpsource: recordsPath '' @ go_quote recordsPath @
                  '': terminal value is not a JSON array, got '' @ jsonKindName current))))"

section \<open>Fetch\<close>

text \<open>A JSON value as the dynamic value of a record field.\<close>

fun json_field :: "json \<Rightarrow> field_value" where
  "json_field JNull = FNil"
| "json_field (JBool b) = FBool b"
| "json_field (JNumber f) = FFloat64 f"
| "json_field (JString s) = FString s"
| "json_field (JArray _) = FOther"
| "json_field (JObject _) = FOther"

fun object_records :: "json list \<Rightarrow> source_record list" where
  "object_records [] = []"
| "object_records (elem # arr) =
     (case elem of
        JObject obj \<Rightarrow> map (\<lambda>(k, v). (k, json_field v)) obj # object_records arr
      | _ \<Rightarrow> object_records arr)"

definition request_headers :: "http_lib \<Rightarrow> http_config \<Rightarrow> gomap" where
  "request_headers L cfg =
     (let h = fold (\<lambda>(k, v) h. map_put (hl_canonical L k) v h) (hcfg_Headers cfg) [];
          h = map_put ''Accept'' ''application/json'' h
      in if hcfg_BearerToken cfg \<noteq> [] then map_put ''Authorization'' (''Bearer '' @ hcfg_BearerToken cfg) h
         else if hcfg_Username cfg \<noteq> [] \<and> hcfg_Password cfg \<noteq> [] then
           map_put ''Authorization''
             (''Basic '' @ hl_base64 L (hcfg_Username cfg @ '':'' @ hcfg_Password cfg)) h
         else h)"

definition http_Fetch :: "http_lib \<Rightarrow> http_client \<Rightarrow> http_source \<Rightarrow> go_error + source_record list" where
  "http_Fetch L C s =
     (let cfg = hs_cfg s; m = hcfg_Method cfg
      in case hc_NewRequest C m (hcfg_URL cfg) of
           Some err \<Rightarrow> Inl (WrapError ''httpsource: build request: '' err [])
         | None \<Rightarrow>
             (case hc_Do C \<lparr>hq_Method = m, hq_URL = hcfg_URL cfg, hq_Headers = request_headers L cfg\<rparr> of
                Inl err \<Rightarrow> Inl (WrapError (''httpsource: '' @ m @ '' '' @ hs_redactedURL s @ '': '') err [])
              | Inr resp \<Rightarrow>
                  if hr_StatusCode resp < 200 \<or> hr_StatusCode resp \<ge> 300 then
                    Inl (PlainError (''httpsource: '' @ m @ '' '' @ hs_redactedURL s @ '': status '' @
                      show_int (hr_StatusCode resp) @ '': '' @ readBodyExcerpt resp bodyExcerptLimit))
                  else
                    (case readLimitedBody resp successfulBodyLimit of
                       Inl err \<Rightarrow> Inl err
                     | Inr body \<Rightarrow>
                         (case hl_json L body of
                            Inl err \<Rightarrow> Inl (WrapError ''httpsource: decode JSON: '' err [])
                          | Inr decoded \<Rightarrow>
                              (case walkRecordsPath decoded (hcfg_RecordsPath cfg) of
                                 Inl err \<Rightarrow> Inl err
                               | Inr arr \<Rightarrow> Inr (object_records arr))))))"

section \<open>What a fetch returns\<close>

text \<open>The value at a path of non-empty keys.\<close>

fun json_at :: "string list \<Rightarrow> json \<Rightarrow> json option" where
  "json_at [] v = Some v"
| "json_at (k # ks) v =
     (case v of
        JObject m \<Rightarrow> if k = [] then None else (case map_of m k of None \<Rightarrow> None | Some w \<Rightarrow> json_at ks w)
      | _ \<Rightarrow> None)"

definition path_steps :: "string \<Rightarrow> string list" where
  "path_steps p = (if trim_space p = [] then [] else split_dots (trim_space p))"

lemma walk_steps_json_at: "walk_steps rp i ks v = Inr w \<longleftrightarrow> json_at ks v = Some w"
  by (induction ks arbitrary: i v) (auto split: json.splits option.splits)

lemma split_dots_join: "str_join (split_dots s) ''.'' = s \<and> split_dots s \<noteq> []"
proof (induction s)
  case (Cons c s)
  then obtain q qs where "split_dots s = q # qs" "str_join (q # qs) ''.'' = s" by (cases "split_dots s") auto
  then show ?case by (cases qs) auto
qed simp

lemma split_dots_plain: "q \<in> set (split_dots s) \<Longrightarrow> CHR ''.'' \<notin> set q"
proof (induction s arbitrary: q)
  case (Cons c s)
  then show ?case by (cases "split_dots s") (auto split: if_splits)
qed simp

lemma walkRecordsPath_Inr:
  "walkRecordsPath decoded p = Inr arr \<longleftrightarrow> json_at (path_steps p) decoded = Some (JArray arr)"
proof (cases "trim_space p = []")
  case True
  then show ?thesis by (cases decoded) (simp_all add: walkRecordsPath_def path_steps_def)
next
  case False
  let ?w = "walk_steps (trim_space p) 0 (split_dots (trim_space p)) decoded"
  have "walkRecordsPath decoded p = Inr arr \<longleftrightarrow> ?w = Inr (JArray arr)"
    using False by (simp add: walkRecordsPath_def Let_def split: sum.split json.split)
  then show ?thesis using False by (simp add: path_steps_def walk_steps_json_at)
qed

lemma readLimitedBody_Inr:
  assumes "0 < limit"
  shows "readLimitedBody r limit = Inr body \<longleftrightarrow>
           body = hr_bytes r \<and> hr_fail r = None \<and> int (length (hr_bytes r)) \<le> limit"
proof -
  have n: "nat (limit + 1) \<le> length (hr_bytes r) \<longleftrightarrow> limit < int (length (hr_bytes r))"
    using assms by linarith
  show ?thesis
    using assms n by (auto simp: readLimitedBody_def read_limited_def split: option.splits if_splits)
qed

lemma readLimitedBody_success:
  "readLimitedBody r successfulBodyLimit = Inr body \<longleftrightarrow>
     body = hr_bytes r \<and> hr_fail r = None \<and> int (length (hr_bytes r)) \<le> successfulBodyLimit"
  by (rule readLimitedBody_Inr) (simp add: successfulBodyLimit_def)

lemma http_Fetch_Inr:
  "http_Fetch L C s = Inr recs \<longleftrightarrow>
     (\<exists>resp body decoded arr.
        hc_NewRequest C (hcfg_Method (hs_cfg s)) (hcfg_URL (hs_cfg s)) = None \<and>
        hc_Do C \<lparr>hq_Method = hcfg_Method (hs_cfg s), hq_URL = hcfg_URL (hs_cfg s),
                 hq_Headers = request_headers L (hs_cfg s)\<rparr> = Inr resp \<and>
        200 \<le> hr_StatusCode resp \<and> hr_StatusCode resp < 300 \<and>
        readLimitedBody resp successfulBodyLimit = Inr body \<and>
        hl_json L body = Inr decoded \<and>
        walkRecordsPath decoded (hcfg_RecordsPath (hs_cfg s)) = Inr arr \<and>
        recs = object_records arr)"
  unfolding http_Fetch_def Let_def by (auto split: option.split sum.split)

text \<open>
  What a fetch of the HTTP source returns.  It succeeds exactly when the request can be built
  and sent, the status is a 2xx, the body is read to its end within the ten-megabyte limit (a
  longer one is refused, never cut) and is JSON in which the records path, split at its dots,
  leads through objects to an array; the records are the objects of that array, in order.  The
  split is exact: the steps carry no dot and join to the path again.
\<close>

theorem http_fetch_exact:
  "(http_Fetch L C s = Inr recs \<longleftrightarrow>
      (\<exists>resp decoded arr.
         hc_NewRequest C (hcfg_Method (hs_cfg s)) (hcfg_URL (hs_cfg s)) = None \<and>
         hc_Do C \<lparr>hq_Method = hcfg_Method (hs_cfg s), hq_URL = hcfg_URL (hs_cfg s),
                  hq_Headers = request_headers L (hs_cfg s)\<rparr> = Inr resp \<and>
         200 \<le> hr_StatusCode resp \<and> hr_StatusCode resp < 300 \<and>
         hr_fail resp = None \<and> length (hr_bytes resp) \<le> 10 * 1024 * 1024 \<and>
         hl_json L (hr_bytes resp) = Inr decoded \<and>
         json_at (path_steps (hcfg_RecordsPath (hs_cfg s))) decoded = Some (JArray arr) \<and>
         recs = object_records arr)) \<and>
   str_join (split_dots p) ''.'' = p \<and> (\<nexists>x. x \<in> set (split_dots p) \<and> CHR ''.'' \<in> set x)"
proof -
  have n: "int (length b) \<le> successfulBodyLimit \<longleftrightarrow> length b \<le> 10 * 1024 * 1024" for b :: string
    by (simp add: successfulBodyLimit_def)
  show ?thesis
    unfolding http_Fetch_Inr walkRecordsPath_Inr readLimitedBody_success n
    using split_dots_join split_dots_plain by blast
qed

lemma NewHTTP_cfg:
  assumes "NewHTTP L cfg = Inr s"
  obtains u m t where "hs_cfg s = cfg\<lparr>hcfg_Method := m, hcfg_Timeout := t\<rparr>"
    "hl_ParseURL L (hcfg_URL cfg) = Inr u" "su_Scheme u \<in> {''http'', ''https''}" "su_Host u \<noteq> []"
    "configHasCredentials cfg \<or> su_User u \<Longrightarrow> su_Scheme u = ''https''"
    "m \<in> {''GET'', ''POST''}" "0 < t" "hs_redactedURL s = su_Redacted u"
proof -
  obtain u where u: "hl_ParseURL L (hcfg_URL cfg) = Inr u"
    using assms by (cases "hl_ParseURL L (hcfg_URL cfg)") (simp_all add: NewHTTP_def split: if_splits)
  let ?m = "to_upper (trim_space (hcfg_Method cfg))"
  let ?mm = "if ?m = [] then ''GET'' else ?m"
  let ?t = "if hcfg_Timeout cfg \<le> 0 then http_defaultTimeout else hcfg_Timeout cfg"
  have s: "s = \<lparr>hs_cfg = cfg\<lparr>hcfg_Method := ?mm, hcfg_Timeout := ?t\<rparr>, hs_redactedURL = su_Redacted u\<rparr>"
    and g: "su_Scheme u \<in> {''http'', ''https''}" "su_Host u \<noteq> []" "?m \<in> {'''', ''GET'', ''POST''}"
      "configHasCredentials cfg \<or> su_User u \<Longrightarrow> su_Scheme u = ''https''"
    using assms u unfolding NewHTTP_def Let_def by (simp_all split: if_split_asm)
  have t: "0 < ?t" by (simp add: http_defaultTimeout_def second_def)
  have m: "?mm \<in> {''GET'', ''POST''}" using g(3) by auto
  show thesis by (rule that [OF _ u g(1,2) g(4) m t]) (simp_all add: s)
qed

lemma credentials_need_https:
  assumes "NewHTTP L cfg = Inr s" "hcfg_Headers cfg = []"
    and "has_key (request_headers L (hs_cfg s)) ''Authorization''"
  shows "\<exists>u. hl_ParseURL L (hcfg_URL cfg) = Inr u \<and> su_Scheme u = ''https'' \<and> hcfg_URL (hs_cfg s) = hcfg_URL cfg"
  using assms(1)
proof (rule NewHTTP_cfg)
  fix u m t
  assume c: "hs_cfg s = cfg\<lparr>hcfg_Method := m, hcfg_Timeout := t\<rparr>"
    and u: "hl_ParseURL L (hcfg_URL cfg) = Inr u"
    and q: "configHasCredentials cfg \<or> su_User u \<Longrightarrow> su_Scheme u = ''https''"
  have "hcfg_BearerToken cfg = [] \<Longrightarrow> hcfg_Username cfg = [] \<Longrightarrow>
      request_headers L (hs_cfg s) = [(''Accept'', ''application/json'')]"
    by (simp add: c request_headers_def Let_def assms(2))
  then have "configHasCredentials cfg"
    using assms(3) by (auto simp: configHasCredentials_def has_key_def)
  then show ?thesis using u q c by simp
qed

text \<open>The hook looks at the host and the number of hops, not at the scheme of the target.\<close>

lemma redirect_allowed_iff:
  "CheckRedirect L hostname via = None \<longleftrightarrow> via < 10 \<and> ValidateHostname (hl_ParseAddr L) hostname = None"
  by (auto simp: CheckRedirect_def maxRedirects_def split: option.splits)

end
