(* ===== verification/SQL_Guard.thy ===== *)
theory SQL_Guard
  imports Go_Prelude
begin

text \<open>
  The guard on SQL queries in \<open>api/v1alpha1/external_sync_webhook.go\<close>: the tokenizer, the
  denylist of keywords and the scanner that looks for the final \<open>SELECT\<close> of a \<open>WITH\<close> query.
  The scanner's unbounded loop is a partial function; that it returns, and the language it
  accepts, are theorems.
\<close>

section \<open>Tokens\<close>

text \<open>
  \<open>for _, r := range query\<close>: the length of the UTF-8 encoding in front, 0 when it is invalid
  (then one byte is consumed and the rune is U+FFFD, which is no letter).
\<close>

definition byte_in :: "nat \<Rightarrow> nat \<Rightarrow> string \<Rightarrow> nat \<Rightarrow> bool" where
  "byte_in lo hi s i \<longleftrightarrow> i < length s \<and> lo \<le> (of_char (s ! i) :: nat) \<and> (of_char (s ! i) :: nat) \<le> hi"

definition rune_len :: "string \<Rightarrow> nat" where
  "rune_len s =
     (if byte_in 0 0x7F s 0 then 1
      else if byte_in 0xC2 0xDF s 0 then (if byte_in 0x80 0xBF s 1 then 2 else 0)
      else if byte_in 0xE0 0xEF s 0 then
        (if byte_in (if byte_in 0xE0 0xE0 s 0 then 0xA0 else 0x80)
                    (if byte_in 0xED 0xED s 0 then 0x9F else 0xBF) s 1 \<and> byte_in 0x80 0xBF s 2
         then 3 else 0)
      else if byte_in 0xF0 0xF4 s 0 then
        (if byte_in (if byte_in 0xF0 0xF0 s 0 then 0x90 else 0x80)
                    (if byte_in 0xF4 0xF4 s 0 then 0x8F else 0xBF) s 1 \<and> byte_in 0x80 0xBF s 2 \<and>
            byte_in 0x80 0xBF s 3
         then 4 else 0)
      else 0)"

text \<open>\<open>unicode.IsLetter(r) || unicode.IsDigit(r)\<close>; the tables beyond ASCII are a parameter.\<close>

definition letter_or_digit :: "(string \<Rightarrow> bool) \<Rightarrow> string \<Rightarrow> bool" where
  "letter_or_digit uc r =
     (case r of [c] \<Rightarrow> is_lower c \<or> is_upper c \<or> is_digit c | _ \<Rightarrow> uc r)"

definition flush_token :: "string \<Rightarrow> string list \<Rightarrow> string list" where
  "flush_token b tokens = (if b = [] then tokens else tokens @ [to_lower b])"

function sql_scan :: "(string \<Rightarrow> bool) \<Rightarrow> string \<Rightarrow> string \<Rightarrow> string list \<Rightarrow> string list" where
  "sql_scan uc [] b tokens = flush_token b tokens"
| "sql_scan uc (c # s) b tokens =
     (let n = rune_len (c # s); r = take n (c # s); rest = drop (n - 1) s
      in if r \<in> {''('', '')'', '',''} then sql_scan uc rest [] (flush_token b tokens @ [r])
         else if n \<noteq> 0 \<and> (r = ''_'' \<or> letter_or_digit uc r) then sql_scan uc rest (b @ r) tokens
         else sql_scan uc rest [] (flush_token b tokens))"
  by pat_completeness auto
termination
  by (relation "measure (\<lambda>(uc, s, b, tokens). length s)") auto

definition sqlTokens :: "(string \<Rightarrow> bool) \<Rightarrow> string \<Rightarrow> string list" where
  "sqlTokens uc query = sql_scan uc query [] []"

section \<open>The scanner of WITH queries\<close>

function skip_loop :: "string list \<Rightarrow> nat \<Rightarrow> int \<Rightarrow> int" where
  "skip_loop tokens i depth =
     (if i < length tokens then
        (if tokens ! i = ''('' then skip_loop tokens (i + 1) (depth + 1)
         else if tokens ! i = '')'' then
           (if depth - 1 = 0 then int i + 1 else skip_loop tokens (i + 1) (depth - 1))
         else skip_loop tokens (i + 1) depth)
      else - 1)"
  by pat_completeness auto
termination
  by (relation "measure (\<lambda>(tokens, i, depth). length tokens - i)") auto

declare skip_loop.simps [simp del]

definition skipSQLBalancedParens :: "string list \<Rightarrow> nat \<Rightarrow> int" where
  "skipSQLBalancedParens tokens start = skip_loop tokens start 0"

definition isSQLIdentifierToken :: "string \<Rightarrow> bool" where
  "isSQLIdentifierToken tok \<longleftrightarrow> tok \<noteq> [] \<and> tok \<noteq> ''('' \<and> tok \<noteq> '')'' \<and> tok \<noteq> '',''"

text \<open>The body of the \<open>for\<close> from the second parenthesis on.\<close>

partial_function (option) with_loop :: "string list \<Rightarrow> nat \<Rightarrow> bool option" where
  "with_loop tokens i =
     (if i \<ge> length tokens \<or> \<not> isSQLIdentifierToken (tokens ! i) then Some False
      else
        (let i = i + 1;
             next1 = (if i < length tokens \<and> tokens ! i = ''('' then skipSQLBalancedParens tokens i
                      else int i)
         in if next1 < 0 then Some False
            else
              (let i = nat next1
               in if i \<ge> length tokens \<or> tokens ! i \<noteq> ''as'' then Some False
                  else
                    (let i = i + 1
                     in if i \<ge> length tokens \<or> tokens ! i \<noteq> ''('' then Some False
                        else
                          (let next2 = skipSQLBalancedParens tokens i
                           in if next2 < 0 then Some False
                              else
                                (let i = nat next2
                                 in if i < length tokens \<and> tokens ! i = '',''
                                    then with_loop tokens (i + 1)
                                    else Some (i < length tokens \<and> tokens ! i = ''select'')))))))"

declare with_loop.simps [code]

text \<open>The loop returns (\<open>with_loop_language\<close> below), so \<open>None\<close> stands for nothing.\<close>

definition withQueryHasFinalSelect :: "string list \<Rightarrow> bool" where
  "withQueryHasFinalSelect tokens =
     (let i = (if 1 < length tokens \<and> tokens ! 1 = ''recursive'' then 2 else 1)
      in case with_loop tokens i of Some b \<Rightarrow> b | None \<Rightarrow> False)"

section \<open>The guard\<close>

definition externalSyncDisallowedSQLTokens :: "string list" where
  "externalSyncDisallowedSQLTokens =
     [''alter'', ''analyze'', ''call'', ''create'', ''delete'', ''drop'', ''execute'', ''grant'',
      ''insert'', ''merge'', ''revoke'', ''truncate'', ''update'', ''vacuum'']"

definition validateReadOnlySQLQuery :: "(string \<Rightarrow> bool) \<Rightarrow> string \<Rightarrow> go_error option" where
  "validateReadOnlySQLQuery uc query =
     (if contains_str query '';'' then Some (PlainError ''multiple statements are not allowed'')
      else
        (let tokens = sqlTokens uc query
         in if tokens = [] then Some (PlainError ''query is empty'')
            else case find (\<lambda>tok. tok \<in> set externalSyncDisallowedSQLTokens) tokens of
                   Some tok \<Rightarrow> Some (PlainError (''disallowed SQL keyword '' @ go_quote tok))
                 | None \<Rightarrow>
                     if hd tokens = ''select'' then None
                     else if hd tokens = ''with'' then
                       (if withQueryHasFinalSelect tokens then None
                        else Some (PlainError ''WITH query must end in a SELECT''))
                     else Some (PlainError ''query must start with SELECT or WITH'')))"

section \<open>Balanced groups\<close>

fun paren :: "string \<Rightarrow> int" where
  "paren t = (if t = ''('' then 1 else if t = '')'' then - 1 else 0)"

definition depth_of :: "string list \<Rightarrow> int" where
  "depth_of ts = sum_list (map paren ts)"

text \<open>\<open>closes d g\<close>: after \<open>d\<close> open parentheses, \<open>g\<close> ends with the one that closes the first.\<close>

definition closes :: "int \<Rightarrow> string list \<Rightarrow> bool" where
  "closes d g \<longleftrightarrow> g \<noteq> [] \<and> d + depth_of g = 0 \<and> (\<forall>n < length g. 0 < d + depth_of (take n g))"

definition group :: "string list \<Rightarrow> bool" where
  "group g \<longleftrightarrow> (\<exists>g'. g = ''('' # g' \<and> closes 1 g')"

lemma depth_of_simps [simp]: "depth_of [] = 0" "depth_of (t # ts) = paren t + depth_of ts"
  by (simp_all add: depth_of_def)

lemma closes_Cons:
  "0 < d \<Longrightarrow> closes d (t # g) \<longleftrightarrow> (if d + paren t = 0 then g = [] else closes (d + paren t) g)"
proof -
  assume d: "0 < d"
  have all: "(\<forall>n < Suc (length g). 0 < d + depth_of (take n (t # g))) \<longleftrightarrow>
             (\<forall>n < length g. 0 < d + paren t + depth_of (take n g))"
    using d by (simp add: All_less_Suc2 add.assoc)
  show ?thesis
  proof (cases "d + paren t = 0")
    case True
    have "g = []" if "\<forall>n < length g. 0 < d + paren t + depth_of (take n g)"
      using that [rule_format, of 0] True by (cases g) auto
    with True d show ?thesis unfolding closes_def length_Cons all by auto
  next
    case False
    with d show ?thesis unfolding closes_def length_Cons all by (cases g) (auto simp: add.assoc)
  qed
qed

text \<open>The scanner stops right after the first group, and fails when there is none.\<close>

lemma skip_loop_sound:
  assumes "0 < d" "i \<le> length tokens"
  shows "(\<exists>g rest. drop i tokens = g @ rest \<and> closes d g \<and> skip_loop tokens i d = int (i + length g)) \<or>
         ((\<nexists>g rest. drop i tokens = g @ rest \<and> closes d g) \<and> skip_loop tokens i d = - 1)"
  using assms
proof (induction tokens i d rule: skip_loop.induct)
  case (1 tokens i d)
  show ?case
  proof (cases "i < length tokens")
    case False
    with 1 show ?thesis by (auto simp: skip_loop.simps closes_def)
  next
    case True
    let ?t = "tokens ! i"
    have dr: "drop i tokens = ?t # drop (i + 1) tokens" using Cons_nth_drop_Suc [OF True] by simp
    have step: "(\<exists>g rest. drop i tokens = g @ rest \<and> closes d g \<and> P (length g)) \<longleftrightarrow>
        (\<exists>g rest. drop (i + 1) tokens = g @ rest \<and> closes (d + paren ?t) g \<and> P (Suc (length g)))"
      if nz: "d + paren ?t \<noteq> 0" for P
    proof
      assume "\<exists>g rest. drop i tokens = g @ rest \<and> closes d g \<and> P (length g)"
      then obtain g rest where g: "?t # drop (i + 1) tokens = g @ rest" "closes d g" "P (length g)"
        unfolding dr by blast
      then obtain g' where g': "g = ?t # g'" by (cases g) (auto simp: closes_def)
      with g nz 1(4) have "drop (i + 1) tokens = g' @ rest" "closes (d + paren ?t) g'" "P (Suc (length g'))"
        by (auto simp: closes_Cons)
      then show "\<exists>g rest. drop (i + 1) tokens = g @ rest \<and> closes (d + paren ?t) g \<and> P (Suc (length g))"
        by blast
    next
      assume "\<exists>g rest. drop (i + 1) tokens = g @ rest \<and> closes (d + paren ?t) g \<and> P (Suc (length g))"
      then obtain g rest where g: "drop (i + 1) tokens = g @ rest" "closes (d + paren ?t) g" "P (Suc (length g))"
        by blast
      with nz 1(4) have "closes d (?t # g)" by (simp add: closes_Cons)
      with g show "\<exists>g rest. drop i tokens = g @ rest \<and> closes d g \<and> P (length g)"
        unfolding dr by (intro exI [of _ "?t # g"] exI [of _ rest]) simp
    qed
    show ?thesis
    proof (cases "d + paren ?t = 0")
      case zero: True
      then have t: "?t = '')''" "d = 1" using 1(4) by (auto split: if_splits)
      then have "closes d [?t]" by (simp add: closes_Cons)
      moreover have "skip_loop tokens i d = int (i + length [?t])"
        using True t by (simp add: skip_loop.simps)
      ultimately show ?thesis
        using dr by (intro disjI1 exI [of _ "[?t]"] exI [of _ "drop (i + 1) tokens"]) simp
    next
      case nz: False
      have pos: "0 < d + paren ?t" using nz 1(4) by (auto split: if_splits)
      have sk: "skip_loop tokens i d = skip_loop tokens (i + 1) (d + paren ?t)"
        using True nz by (subst skip_loop.simps) auto
      have IH: "(\<exists>g rest. drop (i + 1) tokens = g @ rest \<and> closes (d + paren ?t) g \<and>
                   skip_loop tokens (i + 1) (d + paren ?t) = int (i + 1 + length g)) \<or>
                ((\<nexists>g rest. drop (i + 1) tokens = g @ rest \<and> closes (d + paren ?t) g) \<and>
                   skip_loop tokens (i + 1) (d + paren ?t) = - 1)"
        using 1(1) [OF True] 1(2) [OF True] 1(3) [OF True] nz pos True by (auto split: if_splits)
      show ?thesis
        using IH step [OF nz, of "\<lambda>n. skip_loop tokens i d = int (i + n)"] step [OF nz, of "\<lambda>_. True"]
        unfolding sk by auto
    qed
  qed
qed

lemma closes_unique:
  "closes d g \<Longrightarrow> closes d g' \<Longrightarrow> g @ rest = g' @ rest' \<Longrightarrow> 0 < d \<Longrightarrow> g = g' \<and> rest = rest'"
proof (induction g arbitrary: d g')
  case (Cons t g)
  then obtain g'' where g'': "g' = t # g''" by (cases g') (auto simp: closes_def)
  show ?case
  proof (cases "d + paren t = 0")
    case True
    with Cons.prems g'' show ?thesis by (simp add: closes_Cons)
  next
    case False
    then have "0 < d + paren t" using Cons.prems(4) by (auto split: if_splits)
    with False Cons.prems g'' Cons.IH [of "d + paren t" g''] show ?thesis by (simp add: closes_Cons)
  qed
qed (simp add: closes_def)

lemma group_unique:
  assumes "group g" "group g'" "g @ rest = g' @ rest'"
  shows "g = g' \<and> rest = rest'"
proof -
  obtain h h' where h: "g = ''('' # h" "closes 1 h" "g' = ''('' # h'" "closes 1 h'"
    using assms(1,2) by (auto simp: group_def)
  from closes_unique [OF h(2,4), of rest rest'] assms(3) h show ?thesis by simp
qed

lemma skip_group:
  assumes "drop i tokens = ''('' # ts"
  obtains (found) g rest where "drop i tokens = g @ rest" "group g"
      "skipSQLBalancedParens tokens i = int (i + length g)"
  | (none) "\<nexists>g rest. drop i tokens = g @ rest \<and> group g" "skipSQLBalancedParens tokens i = - 1"
proof -
  have i: "i < length tokens" using assms by (metis drop_eq_Nil2 leI list.distinct(1))
  have n: "tokens ! i = ''(''" "drop (i + 1) tokens = ts"
    using Cons_nth_drop_Suc [OF i] assms by simp_all
  have s: "skipSQLBalancedParens tokens i = skip_loop tokens (i + 1) 1"
    unfolding skipSQLBalancedParens_def using i n(1) by (subst skip_loop.simps) simp
  have "(\<exists>g rest. ts = g @ rest \<and> closes 1 g \<and> skip_loop tokens (i + 1) 1 = int (i + 1 + length g)) \<or>
        ((\<nexists>g rest. ts = g @ rest \<and> closes 1 g) \<and> skip_loop tokens (i + 1) 1 = - 1)"
    using skip_loop_sound [of 1 "i + 1" tokens] i n(2) by simp
  then show ?thesis
  proof (elim disjE exE conjE)
    fix g rest
    assume "ts = g @ rest" "closes 1 g" "skip_loop tokens (i + 1) 1 = int (i + 1 + length g)"
    then show ?thesis
      using assms s by (intro found [of "''('' # g" rest]) (simp_all add: group_def)
  next
    assume no: "\<nexists>g rest. ts = g @ rest \<and> closes 1 g" "skip_loop tokens (i + 1) 1 = - 1"
    have "\<nexists>g rest. drop i tokens = g @ rest \<and> group g"
      using no(1) unfolding assms group_def by fastforce
    with no(2) s show ?thesis by (intro none) simp_all
  qed
qed

section \<open>The language of WITH queries\<close>

text \<open>
  The common table expressions of a query and the \<open>SELECT\<close> after them: a name, an optional group
  of columns, \<open>AS\<close>, a group.
\<close>

inductive cte_list :: "string list \<Rightarrow> bool" where
  last_cte: "isSQLIdentifierToken t \<Longrightarrow> cols = [] \<or> group cols \<Longrightarrow> group g \<Longrightarrow>
    cte_list (t # cols @ ''as'' # g @ ''select'' # rest)"
| more_ctes: "isSQLIdentifierToken t \<Longrightarrow> cols = [] \<or> group cols \<Longrightarrow> group g \<Longrightarrow> cte_list rest \<Longrightarrow>
    cte_list (t # cols @ ''as'' # g @ '','' # rest)"

lemma group_Cons: "group g \<Longrightarrow> \<exists>g'. g = ''('' # g'"
  by (auto simp: group_def)

lemma cte_list_shape:
  assumes "cte_list ts"
  obtains t cols g rest where "ts = t # cols @ ''as'' # g @ rest" "isSQLIdentifierToken t"
    "cols = [] \<or> group cols" "group g"
    "(\<exists>r. rest = ''select'' # r) \<or> (\<exists>r. rest = '','' # r \<and> cte_list r)"
  using assms by cases (blast intro: that)+

text \<open>The shape is unique, so each refusal of the scanner is final.\<close>

definition cte_tail :: "string list \<Rightarrow> bool" where
  "cte_tail rest \<longleftrightarrow> (\<exists>r. rest = ''select'' # r) \<or> (\<exists>r. rest = '','' # r \<and> cte_list r)"

lemma cte_list_cols:
  assumes "(cols = [] \<and> (\<forall>r. ts \<noteq> ''('' # r)) \<or> group cols"
  shows "cte_list (t # cols @ ts) \<longleftrightarrow>
           isSQLIdentifierToken t \<and> (\<exists>g rest. ts = ''as'' # g @ rest \<and> group g \<and> cte_tail rest)"
proof
  assume "cte_list (t # cols @ ts)"
  then obtain cols' g rest where c: "cols @ ts = cols' @ ''as'' # g @ rest" "isSQLIdentifierToken t"
    "cols' = [] \<or> group cols'" "group g" "cte_tail rest"
    by (elim cte_list_shape) (auto simp: cte_tail_def)
  have "ts = ''as'' # g @ rest"
    using assms c(3)
  proof (elim disjE conjE)
    assume "cols' = []" "group cols"
    with c(1) group_Cons [of cols] show ?thesis by auto
  next
    assume "cols = []" "\<forall>r. ts \<noteq> ''('' # r" "group cols'"
    with c(1) group_Cons [of cols'] show ?thesis by auto
  next
    assume "group cols" "group cols'"
    with c(1) group_unique [of cols cols' ts "''as'' # g @ rest"] show ?thesis by simp
  qed (use c(1) in simp)
  with c show "isSQLIdentifierToken t \<and> (\<exists>g rest. ts = ''as'' # g @ rest \<and> group g \<and> cte_tail rest)"
    by blast
next
  assume "isSQLIdentifierToken t \<and> (\<exists>g rest. ts = ''as'' # g @ rest \<and> group g \<and> cte_tail rest)"
  then show "cte_list (t # cols @ ts)"
    using assms by (auto simp: cte_tail_def intro: last_cte more_ctes)
qed

lemma cte_group:
  "group g \<Longrightarrow> (\<exists>g' rest'. g @ rest = g' @ rest' \<and> group g' \<and> cte_tail rest') \<longleftrightarrow> cte_tail rest"
  using group_unique by blast

lemma drop_nth: "i < length xs \<Longrightarrow> drop i xs = xs ! i # drop (i + 1) xs"
  by (simp add: Cons_nth_drop_Suc)

lemma drop_append_group:
  "drop i tokens = g @ rest \<Longrightarrow> drop (i + length g) tokens = rest"
  by (metis add.commute append_eq_conv_conj drop_drop)

text \<open>The end of an iteration: the token after the second group.\<close>

lemma with_loop_end:
  assumes "with_loop tokens (m + 1) = Some (cte_list (drop (m + 1) tokens))"
  shows "(if m < length tokens \<and> tokens ! m = '','' then with_loop tokens (m + 1)
          else Some (m < length tokens \<and> tokens ! m = ''select'')) = Some (cte_tail (drop m tokens))"
proof (cases "m < length tokens")
  case True
  with assms show ?thesis by (auto simp: cte_tail_def drop_nth)
qed (simp add: cte_tail_def)

lemma nat_int_add1: "nat (1 + (int j + int n)) = Suc (j + n)"
  by linarith

text \<open>The second half of an iteration, from the place where \<open>AS\<close> must stand.\<close>

definition as_part :: "string list \<Rightarrow> nat \<Rightarrow> bool option" where
  "as_part tokens i =
     (if i \<ge> length tokens \<or> tokens ! i \<noteq> ''as'' then Some False
      else
        (let i = i + 1
         in if i \<ge> length tokens \<or> tokens ! i \<noteq> ''('' then Some False
            else
              (let next2 = skipSQLBalancedParens tokens i
               in if next2 < 0 then Some False
                  else
                    (let i = nat next2
                     in if i < length tokens \<and> tokens ! i = '',''
                        then with_loop tokens (i + 1)
                        else Some (i < length tokens \<and> tokens ! i = ''select'')))))"

lemma with_loop_as_part:
  "with_loop tokens i =
     (if i \<ge> length tokens \<or> \<not> isSQLIdentifierToken (tokens ! i) then Some False
      else
        (let next1 = (if i + 1 < length tokens \<and> tokens ! (i + 1) = ''(''
                      then skipSQLBalancedParens tokens (i + 1) else int (i + 1))
         in if next1 < 0 then Some False else as_part tokens (nat next1)))"
  by (subst with_loop.simps) (simp only: as_part_def Let_def)

lemma as_part_language:
  assumes "\<And>m. j < m \<Longrightarrow> with_loop tokens m = Some (cte_list (drop m tokens))"
  shows "as_part tokens j =
           Some (\<exists>g rest. drop j tokens = ''as'' # g @ rest \<and> group g \<and> cte_tail rest)"
proof (cases "j + 1 < length tokens \<and> tokens ! j = ''as'' \<and> tokens ! (j + 1) = ''(''")
  case False
  have "\<not> (\<exists>g rest. drop j tokens = ''as'' # g @ rest \<and> group g \<and> cte_tail rest)"
  proof
    assume "\<exists>g rest. drop j tokens = ''as'' # g @ rest \<and> group g \<and> cte_tail rest"
    then obtain g' rest where d: "drop j tokens = ''as'' # ''('' # g' @ rest"
      using group_Cons by fastforce
    then have "j < length tokens" "j + 1 < length tokens"
      by (metis drop_eq_Nil2 leI list.distinct(1))
        (metis d drop_Suc_Cons drop_drop drop_eq_Nil2 leI list.distinct(1) One_nat_def drop0 plus_1_eq_Suc)
    with d False show False by (simp add: drop_nth)
  qed
  with False show ?thesis by (auto simp: as_part_def)
next
  case True
  then have d: "drop j tokens = ''as'' # drop (j + 1) tokens"
    "drop (j + 1) tokens = ''('' # drop (j + 2) tokens"
    using drop_nth [of j tokens] drop_nth [of "j + 1" tokens] by simp_all
  from d(2) show ?thesis
  proof (cases rule: skip_group)
    case (found g rest)
    let ?m = "j + 1 + length g"
    have "as_part tokens j =
        (if ?m < length tokens \<and> tokens ! ?m = '','' then with_loop tokens (?m + 1)
         else Some (?m < length tokens \<and> tokens ! ?m = ''select''))"
      using True found(3) nat_int_add1 [of j "length g"] by (simp add: as_part_def Let_def)
    also have "\<dots> = Some (cte_tail rest)"
      using with_loop_end [of tokens ?m] assms [of "?m + 1"] drop_append_group [OF found(1)] by simp
    also have "cte_tail rest \<longleftrightarrow> (\<exists>g rest. drop j tokens = ''as'' # g @ rest \<and> group g \<and> cte_tail rest)"
      using cte_group [OF found(2), of rest] d(1) found(1) by simp
    finally show ?thesis .
  next
    case none
    with True d(1) show ?thesis by (auto simp: as_part_def Let_def)
  qed
qed

lemma with_loop_language: "with_loop tokens i = Some (cte_list (drop i tokens))"
proof (induction "length tokens - i" arbitrary: i rule: less_induct)
  case less
  show ?case
  proof (cases "i < length tokens \<and> isSQLIdentifierToken (tokens ! i)")
    case False
    have "\<not> cte_list (drop i tokens)"
      using False by (cases "i < length tokens") (auto simp: drop_nth elim: cte_list.cases)
    moreover have "with_loop tokens i = Some False"
      using False by (subst with_loop_as_part) auto
    ultimately show ?thesis by simp
  next
    case True
    then have d: "drop i tokens = tokens ! i # drop (i + 1) tokens" by (simp add: drop_nth)
    have IH: "with_loop tokens m = Some (cte_list (drop m tokens))" if "i < m" for m
    proof -
      have "length tokens - m < length tokens - i" using that True by linarith
      then show ?thesis by (rule less)
    qed
    have IH': "as_part tokens j = Some (\<exists>g rest. drop j tokens = ''as'' # g @ rest \<and> group g \<and> cte_tail rest)"
      if "i < j" for j
      using as_part_language [of j tokens] IH that by simp
    show ?thesis
    proof (cases "i + 1 < length tokens \<and> tokens ! (i + 1) = ''(''")
      case False
      then have nogroup: "\<forall>r. drop (i + 1) tokens \<noteq> ''('' # r"
        using drop_nth [of "i + 1" tokens] by (cases "i + 1 < length tokens") auto
      have "with_loop tokens i = as_part tokens (i + 1)"
        using True False nat_int_add1 [of i 0] by (subst with_loop_as_part) (auto simp: Let_def)
      with IH' [of "i + 1"] cte_list_cols [of "[]" "drop (i + 1) tokens" "tokens ! i"] nogroup True
      show ?thesis unfolding d by simp
    next
      case paren: True
      then have d2: "drop (i + 1) tokens = ''('' # drop (i + 2) tokens"
        using drop_nth [of "i + 1" tokens] by simp
      then show ?thesis
      proof (cases rule: skip_group)
        case (found g rest)
        let ?j = "i + 1 + length g"
        have "with_loop tokens i = as_part tokens ?j"
          using True paren found(3) nat_int_add1 [of i "length g"]
          by (subst with_loop_as_part) (simp add: Let_def)
        moreover have "drop ?j tokens = rest" by (rule drop_append_group [OF found(1)])
        ultimately show ?thesis
          using IH' [of ?j] cte_list_cols [of g rest "tokens ! i"] found(1,2) True unfolding d by simp
      next
        case none
        have "\<not> cte_list (drop i tokens)"
        proof
          assume "cte_list (drop i tokens)"
          then obtain cols r where "drop (i + 1) tokens = cols @ ''as'' # r" "cols = [] \<or> group cols"
            unfolding d by (elim cte_list_shape) auto
          with none(1) d2 show False by auto
        qed
        moreover have "with_loop tokens i = Some False"
          using True paren none(2) by (subst with_loop_as_part) (simp add: Let_def)
        ultimately show ?thesis by simp
      qed
    qed
  qed
qed

section \<open>What the guard admits\<close>

lemma find_None_disjoint: "find (\<lambda>t. t \<in> A) ts = None \<longleftrightarrow> set ts \<inter> A = {}"
  by (auto simp: find_None_iff)

text \<open>
  C22: the scanner's loop returns on every query, and the guard admits exactly the queries
  without a semicolon and without a denied keyword whose tokens start with \<open>SELECT\<close>, or with
  \<open>WITH\<close> (perhaps \<open>RECURSIVE\<close>), a list of common table expressions and \<open>SELECT\<close>.
\<close>

theorem sql_guard_language:
  "(\<exists>b. with_loop (sqlTokens uc query) i = Some b) \<and>
   (validateReadOnlySQLQuery uc query = None \<longleftrightarrow>
      \<not> contains_str query '';'' \<and>
      set (sqlTokens uc query) \<inter> set externalSyncDisallowedSQLTokens = {} \<and>
      (case sqlTokens uc query of
         [] \<Rightarrow> False
       | t # ts \<Rightarrow> t = ''select'' \<or>
           (t = ''with'' \<and>
            cte_list (case ts of [] \<Rightarrow> [] | u # us \<Rightarrow> if u = ''recursive'' then us else ts))))"
proof -
  have w: "withQueryHasFinalSelect (t # ts) \<longleftrightarrow>
      cte_list (case ts of [] \<Rightarrow> [] | u # us \<Rightarrow> if u = ''recursive'' then us else ts)" for t ts
    by (cases ts) (auto simp: withQueryHasFinalSelect_def with_loop_language numeral_2_eq_2)
  show ?thesis
    by (cases "sqlTokens uc query")
      (auto simp: validateReadOnlySQLQuery_def Let_def with_loop_language w
        find_None_disjoint [symmetric] split: option.splits)
qed

text \<open>
  A query of the last form, and one the denylist does not stop although it writes a table:
  \<open>SELECT ... INTO\<close>.
\<close>

lemma with_query_admitted:
  "validateReadOnlySQLQuery uc ''WITH a (x) AS (SELECT 1), b AS (SELECT (2)) SELECT x FROM a'' = None"
  by code_simp

lemma select_into_admitted:
  "validateReadOnlySQLQuery uc ''SELECT id INTO stolen FROM fleet'' = None"
  by code_simp

end
