(* ===== verification/Sql_Source.thy ===== *)
theory Sql_Source
  imports Sources SQL_Guard
begin

text \<open>
  \<open>pkg/sources/sql/source.go\<close>: the SQL source.  \<open>database/sql\<close> is a parameter: each answer is a
  function of the calls made so far, which the model records.  A handle is named by the number of
  calls before the \<open>sql.Open\<close> that returned it, a row set by the number of calls before its query.
\<close>

section \<open>Data\<close>

record sql_config =
  scfg_Driver :: string
  scfg_Query :: string
  scfg_DSN :: string
  scfg_Timeout :: int

record sql_source =
  ss_cfg :: sql_config
  ss_db :: "nat option"

definition sql_defaultTimeout :: int where "sql_defaultTimeout = 30 * second"

definition defaultMaxOpenConns :: int where "defaultMaxOpenConns = 4"

definition defaultMaxIdleConns :: int where "defaultMaxIdleConns = 2"

definition defaultConnMaxLifetime :: int where "defaultConnMaxLifetime = 30 * minute"

definition defaultConnMaxIdleTime :: int where "defaultConnMaxIdleTime = 5 * minute"

definition supportedDrivers :: "string list" where "supportedDrivers = [''postgres'', ''mysql'']"

text \<open>What \<open>Scan\<close> stores into an \<open>any\<close>; \<open>SqlOther\<close> carries the \<open>%v\<close> text of the value.\<close>

datatype sql_value =
    SqlNil
  | SqlBytes string
  | SqlString string
  | SqlBool bool
  | SqlInt64 "64 word"
  | SqlFloat64 "64 word"
  | SqlOther string

text \<open>
  A row set as the driver delivers it: the column names, the rows \<open>Next\<close> steps over (each scanned
  into one value per column, or an error) and the error \<open>Err\<close> reports after the last.
\<close>

record sql_rows =
  sr_Columns :: "go_error + string list"
  sr_Rows :: "(go_error + sql_value list) list"
  sr_Err :: "go_error option"

text \<open>The deadline of a ping or a query is that of the context it is given.\<close>

datatype sql_call =
    SqlNow
  | SqlOpen string string
  | SqlSetMaxOpenConns nat int
  | SqlSetMaxIdleConns nat int
  | SqlSetConnMaxLifetime nat int
  | SqlSetConnMaxIdleTime nat int
  | SqlPing nat int
  | SqlQuery nat int string
  | SqlRowsClose nat
  | SqlClose nat

record sql_env =
  sq_Now :: "sql_call list \<Rightarrow> int"
  sq_Open :: "sql_call list \<Rightarrow> go_error option"
  sq_Ping :: "sql_call list \<Rightarrow> go_error option"
  sq_Query :: "sql_call list \<Rightarrow> go_error + sql_rows"
  sq_Close :: "sql_call list \<Rightarrow> go_error option"

section \<open>Construction\<close>

definition disallowedSQLTokens :: "string list" where
  "disallowedSQLTokens =
     [''alter'', ''analyze'', ''call'', ''create'', ''delete'', ''drop'', ''execute'', ''grant'',
      ''insert'', ''merge'', ''revoke'', ''truncate'', ''update'', ''vacuum'']"

text \<open>
  The tokenizer and the \<open>WITH\<close> scanner of the package are those of the webhook, text for text
  (\<open>SQL_Guard\<close>).
\<close>

definition validateReadOnlyQuery :: "(string \<Rightarrow> bool) \<Rightarrow> string \<Rightarrow> go_error option" where
  "validateReadOnlyQuery uc query =
     (if contains_str query '';'' then Some (PlainError ''multiple statements are not allowed'')
      else
        (let tokens = sqlTokens uc query
         in if tokens = [] then Some (PlainError ''query is empty'')
            else case find (\<lambda>tok. tok \<in> set disallowedSQLTokens) tokens of
                   Some tok \<Rightarrow> Some (PlainError (''disallowed SQL keyword '' @ go_quote tok))
                 | None \<Rightarrow>
                     if hd tokens = ''select'' then None
                     else if hd tokens = ''with'' then
                       (if withQueryHasFinalSelect tokens then None
                        else Some (PlainError ''WITH query must end in a SELECT''))
                     else Some (PlainError ''query must start with SELECT or WITH'')))"

definition NewSQL :: "(string \<Rightarrow> bool) \<Rightarrow> sql_config \<Rightarrow> go_error + sql_source" where
  "NewSQL uc cfg =
     (let driver = to_lower (trim_space (scfg_Driver cfg))
      in if driver = [] then Inl (PlainError ''sqlsource: driver is required'')
         else if driver \<notin> set supportedDrivers then
           Inl (PlainError (''sqlsource: unsupported driver '' @ go_quote (scfg_Driver cfg) @
             '' (supported: postgres, mysql)''))
         else if trim_space (scfg_Query cfg) = [] then Inl (PlainError ''sqlsource: query is required'')
         else
           (case validateReadOnlyQuery uc (scfg_Query cfg) of
              Some err \<Rightarrow>
                Inl (WrapError ''sqlsource: query must be a single read-only SELECT statement: '' err [])
            | None \<Rightarrow>
                if trim_space (scfg_DSN cfg) = [] then Inl (PlainError ''sqlsource: DSN is required'')
                else
                  Inr \<lparr>ss_cfg = cfg\<lparr>scfg_Driver := driver,
                                     scfg_Timeout := (if scfg_Timeout cfg \<le> 0 then sql_defaultTimeout
                                                      else scfg_Timeout cfg)\<rparr>,
                       ss_db = None\<rparr>))"

section \<open>The handle\<close>

definition configurePool :: "nat \<Rightarrow> sql_call list \<Rightarrow> sql_call list" where
  "configurePool db tr =
     tr @ [SqlSetMaxOpenConns db defaultMaxOpenConns, SqlSetMaxIdleConns db defaultMaxIdleConns,
           SqlSetConnMaxLifetime db defaultConnMaxLifetime,
           SqlSetConnMaxIdleTime db defaultConnMaxIdleTime]"

definition sql_handle ::
    "sql_env \<Rightarrow> int \<Rightarrow> sql_source \<Rightarrow> sql_call list \<Rightarrow> sql_call list \<times> sql_source \<times> (go_error + nat)" where
  "sql_handle E ctx s tr =
     (case ss_db s of
        Some db \<Rightarrow> (tr, s, Inr db)
      | None \<Rightarrow>
          (let db = length tr;
               tr = tr @ [SqlOpen (scfg_Driver (ss_cfg s)) (scfg_DSN (ss_cfg s))]
           in case sq_Open E tr of
                Some err \<Rightarrow>
                  (tr, s, Inl (WrapError (''sqlsource: open '' @ scfg_Driver (ss_cfg s) @ '': '') err []))
              | None \<Rightarrow>
                  (let tr = configurePool db tr @ [SqlPing db ctx]
                   in case sq_Ping E tr of
                        Some err \<Rightarrow>
                          (tr @ [SqlClose db], s,
                           Inl (WrapError (''sqlsource: ping '' @ scfg_Driver (ss_cfg s) @ '': '') err []))
                      | None \<Rightarrow> (tr, s\<lparr>ss_db := Some db\<rparr>, Inr db))))"

text \<open>
  The deadline of the context a fetch works under, for a caller with deadline \<open>dl\<close> (\<open>None\<close>: none).
  \<open>context.WithTimeout\<close> reads the clock again and keeps an earlier deadline of its parent.
\<close>

definition fetchContext ::
    "sql_env \<Rightarrow> sql_source \<Rightarrow> int option \<Rightarrow> sql_call list \<Rightarrow> sql_call list \<times> int" where
  "fetchContext E s dl tr =
     (case dl of
        Some d \<Rightarrow>
          (let tr = tr @ [SqlNow]
           in if d - sq_Now E tr \<le> scfg_Timeout (ss_cfg s) then (tr, d)
              else (let tr = tr @ [SqlNow] in (tr, min d (sq_Now E tr + scfg_Timeout (ss_cfg s)))))
      | None \<Rightarrow> (let tr = tr @ [SqlNow] in (tr, sq_Now E tr + scfg_Timeout (ss_cfg s))))"

section \<open>Rows\<close>

fun sql_normalize :: "sql_value \<Rightarrow> field_value" where
  "sql_normalize SqlNil = FNil"
| "sql_normalize (SqlBytes x) = FString x"
| "sql_normalize (SqlString x) = FString x"
| "sql_normalize (SqlBool x) = FBool x"
| "sql_normalize (SqlInt64 x) = FInt64 x"
| "sql_normalize (SqlFloat64 x) = FFloat64 x"
| "sql_normalize (SqlOther x) = FString x"

fun row_record :: "string list \<Rightarrow> sql_value list \<Rightarrow> source_record \<Rightarrow> source_record" where
  "row_record (col # cols) (raw # raws) rec =
     (let v = sql_normalize raw
      in if v = FNil then row_record cols raws rec else row_record cols raws (map_put col v rec))"
| "row_record _ _ rec = rec"

fun rows_loop ::
    "string list \<Rightarrow> (go_error + sql_value list) list \<Rightarrow> source_record list \<Rightarrow>
       go_error + source_record list" where
  "rows_loop cols [] out = Inr out"
| "rows_loop cols (row # rows) out =
     (case row of
        Inl err \<Rightarrow> Inl (WrapError ''sqlsource: scan: '' err [])
      | Inr raw \<Rightarrow> rows_loop cols rows (out @ [row_record cols raw []]))"

definition read_rows :: "sql_rows \<Rightarrow> go_error + source_record list" where
  "read_rows rows =
     (case sr_Columns rows of
        Inl err \<Rightarrow> Inl (WrapError ''sqlsource: columns: '' err [])
      | Inr cols \<Rightarrow>
          (case rows_loop cols (sr_Rows rows) [] of
             Inl err \<Rightarrow> Inl err
           | Inr out \<Rightarrow>
               (case sr_Err rows of
                  Some err \<Rightarrow> Inl (WrapError ''sqlsource: rows: '' err [])
                | None \<Rightarrow> Inr out)))"

section \<open>Fetch and Close\<close>

text \<open>The deferred \<open>rows.Close\<close> runs on every way out after the query.\<close>

definition sql_Fetch ::
    "sql_env \<Rightarrow> int option \<Rightarrow> sql_source \<Rightarrow> sql_call list \<Rightarrow>
       sql_call list \<times> sql_source \<times> (go_error + source_record list)" where
  "sql_Fetch E dl s tr =
     (case fetchContext E s dl tr of
        (tr, ctx) \<Rightarrow>
          (case sql_handle E ctx s tr of
             (tr, s, Inl err) \<Rightarrow> (tr, s, Inl err)
           | (tr, s, Inr db) \<Rightarrow>
               (let rows_id = length tr;
                    tr = tr @ [SqlQuery db ctx (scfg_Query (ss_cfg s))]
                in case sq_Query E tr of
                     Inl err \<Rightarrow> (tr, s, Inl (WrapError ''sqlsource: query: '' err []))
                   | Inr rows \<Rightarrow> (tr @ [SqlRowsClose rows_id], s, read_rows rows))))"

definition sql_Close ::
    "sql_env \<Rightarrow> sql_source \<Rightarrow> sql_call list \<Rightarrow> sql_call list \<times> go_error option" where
  "sql_Close E s tr =
     (case ss_db s of
        None \<Rightarrow> (tr, None)
      | Some db \<Rightarrow>
          (let tr = tr @ [SqlClose db]
           in case sq_Close E tr of
                Some err \<Rightarrow> (tr, Some (WrapError ''sqlsource: close: '' err []))
              | None \<Rightarrow> (tr, None)))"

section \<open>Every handle and every row set is closed exactly once\<close>

text \<open>The life of a source: fetches under the callers' deadlines, then \<open>Close\<close>.\<close>

fun sql_fetches ::
    "sql_env \<Rightarrow> int option list \<Rightarrow> sql_source \<Rightarrow> sql_call list \<Rightarrow> sql_call list \<times> sql_source" where
  "sql_fetches E [] s tr = (tr, s)"
| "sql_fetches E (dl # dls) s tr =
     (case sql_Fetch E dl s tr of (tr, s, _) \<Rightarrow> sql_fetches E dls s tr)"

definition sql_session :: "sql_env \<Rightarrow> int option list \<Rightarrow> sql_source \<Rightarrow> sql_call list" where
  "sql_session E dls s = (case sql_fetches E dls s [] of (tr, s) \<Rightarrow> fst (sql_Close E s tr))"

text \<open>The handles and the row sets the library handed out.\<close>

definition opened :: "sql_env \<Rightarrow> sql_call list \<Rightarrow> nat set" where
  "opened E tr = {n. n < length tr \<and> (\<exists>d t. tr ! n = SqlOpen d t) \<and> sq_Open E (take (Suc n) tr) = None}"

definition queried :: "sql_env \<Rightarrow> sql_call list \<Rightarrow> nat set" where
  "queried E tr =
     {n. n < length tr \<and> (\<exists>db t q. tr ! n = SqlQuery db t q) \<and> (\<exists>rows. sq_Query E (take (Suc n) tr) = Inr rows)}"

lemma opened_Nil [simp]: "opened E [] = {}"
  by (simp add: opened_def)

lemma queried_Nil [simp]: "queried E [] = {}"
  by (simp add: queried_def)

lemma opened_snoc:
  "opened E (tr @ [c]) =
     opened E tr \<union> (if (\<exists>d t. c = SqlOpen d t) \<and> sq_Open E (tr @ [c]) = None then {length tr} else {})"
  by (auto simp: opened_def nth_append less_Suc_eq)

lemma queried_snoc:
  "queried E (tr @ [c]) =
     queried E tr \<union> (if (\<exists>db t q. c = SqlQuery db t q) \<and> (\<exists>rows. sq_Query E (tr @ [c]) = Inr rows)
                     then {length tr} else {})"
  by (auto simp: queried_def nth_append less_Suc_eq)

lemma opened_less: "n \<in> opened E tr \<Longrightarrow> n < length tr"
  by (simp add: opened_def)

lemma queried_less: "n \<in> queried E tr \<Longrightarrow> n < length tr"
  by (simp add: queried_def)

lemma count_snoc: "count_list (tr @ [c]) x = count_list tr x + (if c = x then 1 else 0)"
  by (simp add: count_list_append)

text \<open>
  Between two operations every handle but the one the source holds is closed, every row set is,
  and what a query or a ping works on was open then.
\<close>

definition in_use :: "sql_call \<Rightarrow> nat set" where
  "in_use c = (case c of SqlPing db _ \<Rightarrow> {db} | SqlQuery db _ _ \<Rightarrow> {db} | _ \<Rightarrow> {})"

definition handles_balanced :: "sql_env \<Rightarrow> nat option \<Rightarrow> sql_call list \<Rightarrow> bool" where
  "handles_balanced E held tr \<longleftrightarrow>
     (\<forall>n. count_list tr (SqlClose n) = (if n \<in> opened E tr \<and> held \<noteq> Some n then 1 else 0)) \<and>
     (\<forall>n. held = Some n \<longrightarrow> n \<in> opened E tr)"

definition rows_balanced :: "sql_env \<Rightarrow> sql_call list \<Rightarrow> bool" where
  "rows_balanced E tr \<longleftrightarrow>
     (\<forall>n. count_list tr (SqlRowsClose n) = (if n \<in> queried E tr then 1 else 0))"

definition no_use_after_close :: "sql_call list \<Rightarrow> bool" where
  "no_use_after_close tr \<longleftrightarrow>
     (\<forall>i db. i < length tr \<longrightarrow> db \<in> in_use (tr ! i) \<longrightarrow> SqlClose db \<notin> set (take i tr))"

lemma no_use_snoc:
  "no_use_after_close (tr @ [c]) \<longleftrightarrow>
     no_use_after_close tr \<and> (\<forall>db \<in> in_use c. SqlClose db \<notin> set tr)"
  by (auto simp: no_use_after_close_def nth_append less_Suc_eq)

lemmas balance_defs = handles_balanced_def rows_balanced_def
lemmas balance_steps = opened_snoc queried_snoc count_snoc no_use_snoc in_use_def

definition sql_inv :: "sql_env \<Rightarrow> nat option \<Rightarrow> sql_call list \<Rightarrow> bool" where
  "sql_inv E held tr \<longleftrightarrow> handles_balanced E held tr \<and> rows_balanced E tr \<and> no_use_after_close tr"

text \<open>How each call moves the invariant.\<close>

lemma sql_inv_quiet:
  assumes "sql_inv E held tr"
    and "\<nexists>d t. c = SqlOpen d t" "\<nexists>db t q. c = SqlQuery db t q" "\<nexists>n. c = SqlClose n" "\<nexists>n. c = SqlRowsClose n"
    and "in_use c \<subseteq> set_option held"
  shows "sql_inv E held (tr @ [c])"
proof -
  have "opened E (tr @ [c]) = opened E tr" "queried E (tr @ [c]) = queried E tr"
    using assms(2,3) by (simp_all add: opened_snoc queried_snoc)
  moreover have "count_list (tr @ [c]) (SqlClose n) = count_list tr (SqlClose n)"
      "count_list (tr @ [c]) (SqlRowsClose n) = count_list tr (SqlRowsClose n)" for n
    using assms(4,5) by (simp_all add: count_snoc)
  moreover have "\<forall>db \<in> in_use c. SqlClose db \<notin> set tr"
    using assms(1,6) by (auto simp: sql_inv_def handles_balanced_def count_list_0_iff [symmetric])
  ultimately show ?thesis
    using assms(1) by (simp add: sql_inv_def balance_defs no_use_snoc)
qed

lemma sql_inv_closes_known:
  assumes "sql_inv E held tr" "length tr \<le> n"
  shows "count_list tr (SqlClose n) = 0" "count_list tr (SqlRowsClose n) = 0"
  using assms opened_less [of n E tr] queried_less [of n E tr]
  by (auto simp: sql_inv_def balance_defs simp del: count_list_0_iff)

lemma sql_inv_open:
  assumes "sql_inv E None tr"
  shows "sql_inv E (if sq_Open E (tr @ [SqlOpen d t]) = None then Some (length tr) else None) (tr @ [SqlOpen d t])"
  using assms sql_inv_closes_known [OF assms order_refl] opened_less [of "length tr" E tr]
  by (auto simp: sql_inv_def balance_defs balance_steps simp del: count_list_0_iff)

lemma sql_inv_close:
  assumes "sql_inv E (Some db) tr"
  shows "sql_inv E None (tr @ [SqlClose db])"
  using assms by (auto simp: sql_inv_def balance_defs balance_steps simp del: count_list_0_iff)

lemma sql_inv_query:
  assumes "sql_inv E (Some db) tr"
  shows "sq_Query E (tr @ [SqlQuery db t q]) = Inl e \<Longrightarrow> sql_inv E (Some db) (tr @ [SqlQuery db t q])"
    and "sq_Query E (tr @ [SqlQuery db t q]) = Inr rows \<Longrightarrow>
           sql_inv E (Some db) (tr @ [SqlQuery db t q, SqlRowsClose (length tr)])"
proof -
  have c: "SqlClose db \<notin> set tr"
    using assms by (auto simp: sql_inv_def handles_balanced_def count_list_0_iff [symmetric])
  then show "sq_Query E (tr @ [SqlQuery db t q]) = Inl e \<Longrightarrow> sql_inv E (Some db) (tr @ [SqlQuery db t q])"
    using assms by (auto simp: sql_inv_def balance_defs balance_steps simp del: count_list_0_iff)
  have two: "tr @ [SqlQuery db t q, SqlRowsClose (length tr)] = (tr @ [SqlQuery db t q]) @ [SqlRowsClose (length tr)]"
    by simp
  show "sql_inv E (Some db) (tr @ [SqlQuery db t q, SqlRowsClose (length tr)])"
    if "sq_Query E (tr @ [SqlQuery db t q]) = Inr rows"
    unfolding two
    using assms c that sql_inv_closes_known [OF assms order_refl] queried_less [of "length tr" E tr]
    by (auto simp: sql_inv_def balance_defs balance_steps simp del: count_list_0_iff append_assoc)
qed

lemma sql_inv_now: "sql_inv E held tr \<Longrightarrow> sql_inv E held (tr @ [SqlNow])"
  by (rule sql_inv_quiet) (simp_all add: in_use_def)

lemma sql_inv_fetchContext:
  "fetchContext E s dl tr = (tr', ctx) \<Longrightarrow> sql_inv E held tr \<Longrightarrow> sql_inv E held tr'"
  using sql_inv_now [of E held tr] sql_inv_now [of E held "tr @ [SqlNow]"]
  by (auto simp: fetchContext_def Let_def split: option.splits if_splits)

lemma sql_inv_pool:
  assumes "sql_inv E (Some db) tr"
  shows "sql_inv E (Some db) (configurePool db tr @ [SqlPing db ctx])"
proof -
  have "sql_inv E (Some db) ((((tr @ [SqlSetMaxOpenConns db defaultMaxOpenConns])
      @ [SqlSetMaxIdleConns db defaultMaxIdleConns]) @ [SqlSetConnMaxLifetime db defaultConnMaxLifetime])
      @ [SqlSetConnMaxIdleTime db defaultConnMaxIdleTime])"
    by (intro sql_inv_quiet assms) (simp_all add: in_use_def)
  then have "sql_inv E (Some db) (configurePool db tr)" by (simp add: configurePool_def)
  then show ?thesis by (rule sql_inv_quiet) (simp_all add: in_use_def)
qed

lemma sql_inv_handle:
  assumes "sql_handle E ctx s tr = (tr', s', r)" "sql_inv E (ss_db s) tr"
  shows "sql_inv E (ss_db s') tr'" "r = Inr db \<Longrightarrow> ss_db s' = Some db" "ss_cfg s' = ss_cfg s"
proof -
  note inv = assms(2)
  have "sql_inv E (ss_db s') tr' \<and> (r = Inr db \<longrightarrow> ss_db s' = Some db) \<and> ss_cfg s' = ss_cfg s"
  proof (cases "ss_db s")
    case (Some h)
    then show ?thesis using assms by (auto simp: sql_handle_def)
  next
    case None
    let ?o = "SqlOpen (scfg_Driver (ss_cfg s)) (scfg_DSN (ss_cfg s))"
    have op: "sql_inv E (if sq_Open E (tr @ [?o]) = None then Some (length tr) else None) (tr @ [?o])"
      using inv None by (intro sql_inv_open) simp
    show ?thesis
    proof (cases "sq_Open E (tr @ [?o])")
      case (Some err)
      then show ?thesis using op None assms(1) by (auto simp: sql_handle_def Let_def)
    next
      case opened: None
      let ?p = "configurePool (length tr) (tr @ [?o]) @ [SqlPing (length tr) ctx]"
      have p: "sql_inv E (Some (length tr)) ?p" using op opened by (intro sql_inv_pool) simp
      from sql_inv_close [OF p] p show ?thesis
        using None opened assms(1) by (auto simp: sql_handle_def Let_def split: option.splits)
    qed
  qed
  then show "sql_inv E (ss_db s') tr'" "r = Inr db \<Longrightarrow> ss_db s' = Some db" "ss_cfg s' = ss_cfg s"
    by blast+
qed

lemma sql_inv_Fetch:
  assumes "sql_Fetch E dl s tr = (tr', s', r)" "sql_inv E (ss_db s) tr"
  shows "sql_inv E (ss_db s') tr'"
proof -
  obtain tr1 ctx where c: "fetchContext E s dl tr = (tr1, ctx)" by fastforce
  obtain tr2 s2 h where h: "sql_handle E ctx s tr1 = (tr2, s2, h)" by (metis prod_cases3)
  note i1 = sql_inv_fetchContext [OF c assms(2)]
  note i2 = sql_inv_handle [OF h i1]
  show ?thesis
  proof (cases h)
    case (Inl e)
    then show ?thesis using assms(1) c h i2(1) by (simp add: sql_Fetch_def)
  next
    case (Inr db)
    with i2 have "sql_inv E (Some db) tr2" "ss_db s2 = Some db" by auto
    with sql_inv_query [OF this(1)] show ?thesis
      using assms(1) c h Inr by (auto simp: sql_Fetch_def Let_def split: sum.splits)
  qed
qed

lemma sql_inv_fetches:
  "sql_fetches E dls s tr = (tr', s') \<Longrightarrow> sql_inv E (ss_db s) tr \<Longrightarrow> sql_inv E (ss_db s') tr'"
proof (induction dls arbitrary: s tr)
  case (Cons dl dls)
  obtain tr1 s1 r where f: "sql_Fetch E dl s tr = (tr1, s1, r)" by (metis prod_cases3)
  show ?case using Cons f sql_inv_Fetch [OF f] by simp
qed simp

lemma NewSQL_no_handle: "NewSQL uc cfg = Inr s \<Longrightarrow> ss_db s = None"
  by (auto simp: NewSQL_def Let_def split: if_splits option.splits)

text \<open>
  C36: whatever the database answers, the life of a constructed SQL source (any number of
  fetches, then \<open>Close\<close>) closes each handle it opened and each row set it was given exactly once
  and nothing else, and never pings or queries a handle it has closed.
\<close>

theorem sql_source_leaks_nothing:
  assumes "NewSQL uc cfg = Inr s"
  shows "let tr = sql_session E dls s
    in count_list tr (SqlClose n) = (if n \<in> opened E tr then 1 else 0) \<and>
       count_list tr (SqlRowsClose n) = (if n \<in> queried E tr then 1 else 0) \<and>
       (i < length tr \<and> db \<in> in_use (tr ! i) \<longrightarrow> SqlClose db \<notin> set (take i tr))"
proof -
  obtain tr1 s1 where f: "sql_fetches E dls s [] = (tr1, s1)" by fastforce
  have "sql_inv E (ss_db s) []"
    using NewSQL_no_handle [OF assms(1)] by (simp add: sql_inv_def balance_defs no_use_after_close_def)
  from sql_inv_fetches [OF f this] have "sql_inv E (ss_db s1) tr1" .
  then have "sql_inv E None (sql_session E dls s)"
    unfolding sql_session_def f
    by (auto simp: sql_Close_def Let_def intro: sql_inv_close split: option.splits)
  then show ?thesis
    by (simp add: sql_inv_def balance_defs no_use_after_close_def Let_def)
qed

text \<open>A server that refuses the first ping and then answers one row.\<close>

definition flaky_db :: sql_env where
  "flaky_db =
     \<lparr>sq_Now = (\<lambda>tr. int (length tr)), sq_Open = (\<lambda>tr. None),
      sq_Ping = (\<lambda>tr. if length tr < 8 then Some (PlainError ''refused'') else None),
      sq_Query = (\<lambda>tr. Inr \<lparr>sr_Columns = Inr [''id'', ''team'', ''zone''],
                            sr_Rows = [Inr [SqlBytes ''edge-1'', SqlString ''core'', SqlNil]],
                            sr_Err = None\<rparr>),
      sq_Close = (\<lambda>tr. None)\<rparr>"

definition fleet_db :: sql_config where
  "fleet_db = \<lparr>scfg_Driver = '' Postgres'', scfg_Query = ''SELECT id, team, zone FROM fleet'',
               scfg_DSN = ''postgres://fleet'', scfg_Timeout = 0\<rparr>"

definition fleet_source :: sql_source where
  "fleet_source = \<lparr>ss_cfg = fleet_db\<lparr>scfg_Driver := ''postgres'', scfg_Timeout := 30 * second\<rparr>, ss_db = None\<rparr>"

lemma fleet_source_built: "NewSQL (\<lambda>_. False) fleet_db = Inr fleet_source"
  by code_simp

theorem sql_source_leaks_nothing_witness:
  "length (sql_session flaky_db [None, None] fleet_source) = 18 \<and>
   (\<forall>n. count_list (sql_session flaky_db [None, None] fleet_source) (SqlClose n) =
          (if n \<in> opened flaky_db (sql_session flaky_db [None, None] fleet_source) then 1 else 0))"
proof -
  have "length (sql_session flaky_db [None, None] fleet_source) = 18" by code_simp
  then show ?thesis
    using sql_source_leaks_nothing [OF fleet_source_built, unfolded Let_def] by blast
qed

section \<open>The fields of a record\<close>

lemma row_record_other: "k \<notin> set cols \<Longrightarrow> map_of (row_record cols raws rec) k = map_of rec k"
  by (induction cols raws rec rule: row_record.induct) (auto simp: Let_def)

lemma row_record_field:
  "distinct cols \<Longrightarrow> length raws = length cols \<Longrightarrow> i < length cols \<Longrightarrow> cols ! i \<notin> fst ` set rec \<Longrightarrow>
     map_of (row_record cols raws rec) (cols ! i) =
       (if raws ! i = SqlNil then None else Some (sql_normalize (raws ! i)))"
proof (induction cols raws rec arbitrary: i rule: row_record.induct)
  case (1 col cols raw raws rec)
  have n: "sql_normalize raw = FNil \<longleftrightarrow> raw = SqlNil" by (cases raw) simp_all
  show ?case
  proof (cases i)
    case 0
    with 1(3,6) show ?thesis by (auto simp: n Let_def row_record_other map_of_eq_None_iff)
  next
    case (Suc j)
    with 1(3) have "cols ! j \<noteq> col" using 1(5) by auto
    with Suc 1 show ?thesis by (auto simp: Let_def n)
  qed
qed simp_all

lemma sql_null_is_absent:
  assumes "distinct cols" "length raws = length cols" "i < length cols" "raws ! i = SqlNil"
  shows "FieldString fmt (row_record cols raws []) (cols ! i) = None"
  using row_record_field [OF assms(1-3), of "[]"] assms(4) by (simp add: FieldString_def)

text \<open>The deadline of a fetch is never later than the caller's nor than the timeout from now.\<close>

lemma fetchContext_bound:
  assumes "fetchContext E s dl tr = (tr', ctx)"
  shows "ctx \<le> sq_Now E tr' + scfg_Timeout (ss_cfg s)" "dl = Some d \<Longrightarrow> ctx \<le> d"
  using assms by (auto simp: fetchContext_def Let_def split: option.splits if_splits)

end
