(* ===== verification/External_Sync.thy ===== *)
theory External_Sync
  imports Watch_Index Sources Complex_Main
begin

text \<open>
  \<open>internal/controller/external_sync_controller.go\<close>: the ExternalAttributeSync reconciler.  It
  fetches records from an external source, projects them through the mapping of the spec to
  attributes of the selected collectors, and publishes the claim in \<open>status.ownedKeys\<close>, which
  the Collector reconciler reads.  The conventions are those of the other reconcilers; reading
  the clock is a call too (\<open>XNow\<close>), and so is closing the source on the way out.
\<close>

section \<open>Calls and environment\<close>

text \<open>The Secret of \<open>k8s.io/api/core/v1\<close>: the controller looks at its name only.\<close>

record Secret =
  sec_Namespace :: string
  sec_Name :: string
  sec_Data :: gomap

datatype xcall =
    XGet nsname
  | XNow
  | XGetSecret nsname
  | XFactory ExternalSource "Secret option"
  | XWait string
  | XFetch
  | XClose
  | XListCollectors string
  | XStatusUpdate ExternalAttributeSync
  | XEvent event_type string

record xenv =
  xe_Get :: "xcall list \<Rightarrow> go_error + ExternalAttributeSync"
  xe_Now :: "xcall list \<Rightarrow> int"
  xe_GetSecret :: "xcall list \<Rightarrow> go_error + Secret"
  xe_Factory :: "xcall list \<Rightarrow> go_error option"
  xe_Wait :: "xcall list \<Rightarrow> go_error option"
  xe_Fetch :: "xcall list \<Rightarrow> go_error + source_record list"
  xe_ListCollectors :: "xcall list \<Rightarrow> go_error + Collector list"
  xe_StatusUpdate :: "xcall list \<Rightarrow> go_error option"

text \<open>
  The parts of libraries the controller calls: \<open>time.ParseDuration\<close> (\<open>None\<close> for an error), the
  cron parser and the schedules it returns, \<open>url.Parse\<close> (scheme and host), and the float
  formatting of \<open>strconv\<close>.
\<close>

type_synonym cron_parser = "string \<Rightarrow> go_error + (int \<Rightarrow> int)"

record xlib =
  xl_ParseDuration :: "string \<Rightarrow> int option"
  xl_defaultCronParser :: cron_parser
  xl_ParseURL :: "string \<Rightarrow> (string \<times> string) option"
  xl_formatFloat :: "64 word \<Rightarrow> string"

text \<open>\<open>xr_hasFactory\<close> is \<open>r.Factory != nil\<close>; the rate is tokens per second.\<close>

record ExternalAttributeSyncReconciler =
  xr_klib :: klib
  xr_regex :: regex
  xr_lib :: xlib
  xr_hasRecorder :: bool
  xr_hasFactory :: bool
  xr_CronParser :: cron_parser
  xr_SourceTargetRate :: rat
  xr_SourceTargetBurst :: int
  xr_SecretLabelSelector :: string

abbreviation externalSyncReasonSynced :: string where "externalSyncReasonSynced \<equiv> ''Synced''"
abbreviation externalSyncReasonSourceFailed :: string where
  "externalSyncReasonSourceFailed \<equiv> ''SourceFailed''"
abbreviation externalSyncReasonStalled :: string where "externalSyncReasonStalled \<equiv> ''Stalled''"
abbreviation externalSyncReasonScheduleErr :: string where
  "externalSyncReasonScheduleErr \<equiv> ''InvalidSchedule''"
abbreviation externalSyncReasonOwnedKeysExceeded :: string where
  "externalSyncReasonOwnedKeysExceeded \<equiv> ''OwnedKeysExceeded''"
abbreviation externalSyncConditionStalled :: string where "externalSyncConditionStalled \<equiv> ''Stalled''"
abbreviation externalSyncReasonNotTruncated :: string where
  "externalSyncReasonNotTruncated \<equiv> ''NotTruncated''"
abbreviation ExternalSourceKindHTTP :: string where "ExternalSourceKindHTTP \<equiv> ''HTTP''"
abbreviation ExternalSourceKindSQL :: string where "ExternalSourceKindSQL \<equiv> ''SQL''"

definition maxOwnedKeys :: nat where "maxOwnedKeys = 1000"

definition defaultExternalSyncRequeueOnError :: int where
  "defaultExternalSyncRequeueOnError = 30 * second"

definition sync_emitEvent ::
  "ExternalAttributeSyncReconciler \<Rightarrow> event_type \<Rightarrow> string \<Rightarrow> xcall list \<Rightarrow> xcall list" where
  "sync_emitEvent R t reason tr = (if xr_hasRecorder R then tr @ [XEvent t reason] else tr)"

section \<open>Schedule, secret and rate limit\<close>

definition sync_parser :: "ExternalAttributeSyncReconciler \<Rightarrow> cron_parser" where
  "sync_parser R =
     (case xr_CronParser R ''* * * * *'' of
        Inr sched \<Rightarrow> xr_CronParser R
      | Inl err \<Rightarrow> xl_defaultCronParser (xr_lib R))"

definition sync_scheduleNext ::
  "ExternalAttributeSyncReconciler \<Rightarrow> string \<Rightarrow> int \<Rightarrow> go_error + int" where
  "sync_scheduleNext R schedule now =
     (case xl_ParseDuration (xr_lib R) schedule of
        Some d \<Rightarrow>
          if d \<le> 0
          then Inl (PlainError (''schedule duration must be positive, got '' @ go_quote schedule))
          else Inr (now + d)
      | None \<Rightarrow>
          (case sync_parser R schedule of
             Inl err \<Rightarrow>
               Inl (WrapError (''schedule '' @ go_quote schedule @
                 '' is neither a valid duration nor a valid cron expression: '') err [])
           | Inr sched \<Rightarrow> Inr (sched now)))"

definition show_nsname :: "nsname \<Rightarrow> string" where
  "show_nsname n = nn_namespace n @ ''/'' @ nn_name n"

definition resolveSecret ::
  "ExternalAttributeSyncReconciler \<Rightarrow> xenv \<Rightarrow> ExternalAttributeSync \<Rightarrow> xcall list \<Rightarrow>
     xcall list \<times> (go_error + Secret option)" where
  "resolveSecret R E s tr =
     (case xsrc_SecretRef (easspec_Source (eas_spec s)) of
        None \<Rightarrow> (tr, Inr None)
      | Some ref \<Rightarrow>
          if sref_Name ref = [] then (tr, Inr None)
          else
            (let ns = (if sref_Namespace ref = [] then om_namespace (eas_meta s) else sref_Namespace ref)
             in if ns \<noteq> om_namespace (eas_meta s)
                then (tr, Inl (PlainError (''secretRef '' @ ns @ ''/'' @ sref_Name ref @
                       '' is outside ExternalAttributeSync namespace '' @ go_quote (om_namespace (eas_meta s)))))
                else
                  (let key = \<lparr>nn_namespace = ns, nn_name = sref_Name ref\<rparr>;
                       tr = tr @ [XGetSecret key]
                   in case xe_GetSecret E tr of
                        Inr secret \<Rightarrow> (tr, Inr (Some secret))
                      | Inl err \<Rightarrow>
                          if is_not_found err \<and> xr_SecretLabelSelector R \<noteq> []
                          then (tr, Inl (WrapError (''get secret '' @ show_nsname key @ '': '') err
                                 ('' (the operator's Secret cache is scoped to label selector '' @
                                  go_quote (xr_SecretLabelSelector R) @
                                  ''; ensure the referenced Secret carries a matching label)'')))
                          else (tr, Inl (WrapError (''get secret '' @ show_nsname key @ '': '') err [])))))"

definition sourceTargetKey :: "xlib \<Rightarrow> string \<Rightarrow> ExternalSource \<Rightarrow> string" where
  "sourceTargetKey L syncNamespace spec =
     (if xsrc_Kind spec = ExternalSourceKindHTTP then
        (case xsrc_HTTP spec of
           None \<Rightarrow> ''http:''
         | Some h \<Rightarrow>
             (case xl_ParseURL L (hss_URL h) of
                None \<Rightarrow> ''http:'' @ hss_URL h
              | Some (scheme, host) \<Rightarrow>
                  if host = [] then ''http:'' @ hss_URL h
                  else ''http:'' @ scheme @ ''://'' @ host))
      else if xsrc_Kind spec = ExternalSourceKindSQL then
        (case xsrc_SecretRef spec of
           Some ref \<Rightarrow>
             (let ns = (if sref_Namespace ref = [] then syncNamespace else sref_Namespace ref)
              in ''sql:'' @ ns @ ''/'' @ sref_Name ref)
         | None \<Rightarrow>
             (case xsrc_SQL spec of
                Some q \<Rightarrow> ''sql:driver='' @ sss_Driver q
              | None \<Rightarrow> ''sql:''))
      else xsrc_Kind spec)"

text \<open>
  The shared map of limiters: a limiter is identified by its key and is what
  \<open>rate.NewLimiter\<close> was given.  The map is guarded by a mutex, so one call is one step.
\<close>

record limiter =
  lim_rate :: rat
  lim_burst :: int

definition limiterForSource ::
  "ExternalAttributeSyncReconciler \<Rightarrow> string \<Rightarrow> ExternalSource \<Rightarrow> (string \<times> limiter) list \<Rightarrow>
     (string \<times> limiter) list \<times> (string \<times> limiter) option" where
  "limiterForSource R syncNamespace spec limiters =
     (if xr_SourceTargetRate R \<le> 0 then (limiters, None)
      else
        (let burst = (if xr_SourceTargetBurst R \<le> 0 then 4 else xr_SourceTargetBurst R);
             key = sourceTargetKey (xr_lib R) syncNamespace spec
         in case map_of limiters key of
              Some l \<Rightarrow> (limiters, Some (key, l))
            | None \<Rightarrow>
                (let l = \<lparr>lim_rate = xr_SourceTargetRate R, lim_burst = burst\<rparr>
                 in (map_put key l limiters, Some (key, l)))))"

section \<open>Projection\<close>

definition hasAllRequired :: "source_record \<Rightarrow> string list \<Rightarrow> bool" where
  "hasAllRequired r required = list_all (\<lambda>k. has_key r k) required"

text \<open>The attributes of one record: \<open>for attrKey, sourceField := range mapping.AttributeFields\<close>.\<close>

definition record_attrs :: "(64 word \<Rightarrow> string) \<Rightarrow> gomap \<Rightarrow> source_record \<Rightarrow> gomap" where
  "record_attrs formatFloat flds rec =
     fold (\<lambda>(attrKey, sourceField) attrs.
             case FieldString formatFloat rec sourceField of
               None \<Rightarrow> attrs
             | Some v \<Rightarrow> map_put attrKey v attrs) flds []"

fun project_loop ::
  "(64 word \<Rightarrow> string) \<Rightarrow> AttributeMapping \<Rightarrow> string list \<Rightarrow> source_record list \<Rightarrow>
     (string \<times> gomap) list \<Rightarrow> nat \<Rightarrow> (string \<times> gomap) list \<times> nat" where
  "project_loop ff mapping matched [] out applied = (out, applied)"
| "project_loop ff mapping matched (rec # recs) out applied =
     (case FieldString ff rec (am_CollectorIDField mapping) of
        None \<Rightarrow> project_loop ff mapping matched recs out applied
      | Some idVal \<Rightarrow>
          if idVal = [] then project_loop ff mapping matched recs out applied
          else if \<not> hasAllRequired rec (am_RequiredKeys mapping)
          then project_loop ff mapping matched recs out applied
          else if idVal \<notin> set matched then project_loop ff mapping matched recs out applied
          else
            (let attrs = record_attrs ff (am_AttributeFields mapping) rec
             in if attrs = [] then project_loop ff mapping matched recs out applied
                else project_loop ff mapping matched recs (map_put idVal attrs out) (applied + 1)))"

definition projectRecords ::
  "(64 word \<Rightarrow> string) \<Rightarrow> source_record list \<Rightarrow> ExternalAttributeSync \<Rightarrow> string list \<Rightarrow>
     go_error + (string \<times> gomap) list \<times> nat" where
  "projectRecords ff records s matched =
     (let mapping = easspec_Mapping (eas_spec s)
      in if am_CollectorIDField mapping = []
         then Inl (PlainError
                ''spec.mapping.collectorIDField is empty (webhook should have rejected this)'')
         else Inr (project_loop ff mapping matched records [] 0))"

definition matched_ids :: "regex \<Rightarrow> PolicySelector \<Rightarrow> Collector list \<Rightarrow> string list" where
  "matched_ids rx sel collectors =
     fold (\<lambda>c out. if Match rx (selector_of sel) (cspec_ID (cl_spec c)) (buildSelectorAttrs c)
                   then List.insert (cspec_ID (cl_spec c)) out else out) collectors []"

definition matchedCollectors ::
  "ExternalAttributeSyncReconciler \<Rightarrow> xenv \<Rightarrow> ExternalAttributeSync \<Rightarrow> xcall list \<Rightarrow>
     xcall list \<times> (go_error + string list)" where
  "matchedCollectors R E s tr =
     (let tr = tr @ [XListCollectors (om_namespace (eas_meta s))]
      in case xe_ListCollectors E tr of
           Inl err \<Rightarrow> (tr, Inl (WrapError ''list collectors: '' err []))
         | Inr items \<Rightarrow> (tr, Inr (matched_ids (xr_regex R) (easspec_Selector (eas_spec s)) items)))"

definition ownedKeysToStatus :: "(string \<times> gomap) list \<Rightarrow> OwnedKeyEntry list \<times> bool" where
  "ownedKeysToStatus owned =
     (if length owned > maxOwnedKeys then ([], True)
      else (map (\<lambda>i. \<lparr>oke_CollectorID = i,
                      oke_Attributes = (case map_of owned i of None \<Rightarrow> [] | Some a \<Rightarrow> a)\<rparr>)
              (sort (map fst owned)), False))"

text \<open>Reading a Go map at an absent key gives the zero value: \<open>get_str\<close>.\<close>

definition ownedKeyEntriesEqual :: "OwnedKeyEntry list \<Rightarrow> OwnedKeyEntry list \<Rightarrow> bool" where
  "ownedKeyEntriesEqual a b =
     (if length a \<noteq> length b then False
      else list_all2 (\<lambda>x y.
        oke_CollectorID x = oke_CollectorID y \<and>
        length (oke_Attributes x) = length (oke_Attributes y) \<and>
        list_all (\<lambda>(k, v). get_str (oke_Attributes y) k = v) (oke_Attributes x)) a b)"

definition sync_update_passes :: "ExternalAttributeSync \<Rightarrow> ExternalAttributeSync \<Rightarrow> bool" where
  "sync_update_passes oldS newS \<longleftrightarrow>
     om_generation (eas_meta oldS) \<noteq> om_generation (eas_meta newS) \<or>
     deletionTimestampChanged (eas_meta oldS) (eas_meta newS) \<or>
     \<not> ownedKeyEntriesEqual (easst_OwnedKeys (eas_status oldS)) (easst_OwnedKeys (eas_status newS))"

section \<open>Status\<close>

definition setReadyCondition :: "klib \<Rightarrow> cond list \<Rightarrow> int \<Rightarrow> bool \<Rightarrow> string \<Rightarrow> string \<Rightarrow> cond list" where
  "setReadyCondition K conds gen ready reason message =
     SetStatusCondition K conds
       \<lparr>cnd_type = condReady, cnd_status = (if ready then CTrue else CFalse), cnd_reason = reason,
        cnd_message = message, cnd_gen = gen\<rparr>"

definition setSyncedCondition :: "klib \<Rightarrow> cond list \<Rightarrow> int \<Rightarrow> bool \<Rightarrow> string \<Rightarrow> string \<Rightarrow> cond list" where
  "setSyncedCondition K conds gen synced reason message =
     SetStatusCondition K conds
       \<lparr>cnd_type = condSynced, cnd_status = (if synced then CTrue else CFalse), cnd_reason = reason,
        cnd_message = message, cnd_gen = gen\<rparr>"

definition setStalledCondition :: "klib \<Rightarrow> cond list \<Rightarrow> int \<Rightarrow> bool \<Rightarrow> string \<Rightarrow> cond list" where
  "setStalledCondition K conds gen stalled message =
     SetStatusCondition K conds
       \<lparr>cnd_type = externalSyncConditionStalled, cnd_status = (if stalled then CTrue else CFalse),
        cnd_reason = (if stalled then externalSyncReasonStalled else externalSyncReasonSynced),
        cnd_message = (if stalled then message else ''Source not stalled''), cnd_gen = gen\<rparr>"

definition externalSyncConditionMatches ::
  "klib \<Rightarrow> cond list \<Rightarrow> string \<Rightarrow> cond_status \<Rightarrow> string \<Rightarrow> int \<Rightarrow> bool" where
  "externalSyncConditionMatches K conds t status reason gen =
     (case FindStatusCondition K conds t of
        None \<Rightarrow> False
      | Some c \<Rightarrow> cnd_status c = status \<and> cnd_reason c = reason \<and> cnd_gen c = gen)"

definition externalSyncTruncatedConditionMatches :: "klib \<Rightarrow> ExternalAttributeSync \<Rightarrow> bool \<Rightarrow> bool" where
  "externalSyncTruncatedConditionMatches K s want =
     (case FindStatusCondition K (easst_Conditions (eas_status s)) externalSyncConditionTruncated of
        None \<Rightarrow> \<not> want
      | Some c \<Rightarrow> if want then cnd_status c = CTrue else cnd_status c = CFalse)"

definition externalSyncStalledIsFalse :: "klib \<Rightarrow> ExternalAttributeSync \<Rightarrow> bool" where
  "externalSyncStalledIsFalse K s =
     (case FindStatusCondition K (easst_Conditions (eas_status s)) externalSyncConditionStalled of
        None \<Rightarrow> True | Some c \<Rightarrow> cnd_status c = CFalse)"

definition externalSyncReadyAndSyncedAreTrue :: "klib \<Rightarrow> ExternalAttributeSync \<Rightarrow> bool" where
  "externalSyncReadyAndSyncedAreTrue K s =
     (case FindStatusCondition K (easst_Conditions (eas_status s)) condReady of
        None \<Rightarrow> False
      | Some ready \<Rightarrow>
          if cnd_status ready \<noteq> CTrue then False
          else case FindStatusCondition K (easst_Conditions (eas_status s)) condSynced of
                 None \<Rightarrow> False | Some synced \<Rightarrow> cnd_status synced = CTrue)"

definition externalSyncStatusUnchanged ::
  "klib \<Rightarrow> ExternalAttributeSync \<Rightarrow> nat \<Rightarrow> nat \<Rightarrow> OwnedKeyEntry list \<Rightarrow> bool \<Rightarrow> bool" where
  "externalSyncStatusUnchanged K s recordsSeen recordsApplied ownedStatus truncated \<longleftrightarrow>
     easst_ObservedGeneration (eas_status s) = om_generation (eas_meta s) \<and>
     easst_RecordsSeen (eas_status s) = int32_of recordsSeen \<and>
     easst_RecordsApplied (eas_status s) = int32_of recordsApplied \<and>
     ownedKeyEntriesEqual (easst_OwnedKeys (eas_status s)) ownedStatus \<and>
     externalSyncTruncatedConditionMatches K s truncated \<and>
     externalSyncStalledIsFalse K s \<and>
     externalSyncReadyAndSyncedAreTrue K s"

definition externalSyncCapExceededStatusUnchanged ::
  "klib \<Rightarrow> ExternalAttributeSync \<Rightarrow> nat \<Rightarrow> nat \<Rightarrow> bool" where
  "externalSyncCapExceededStatusUnchanged K s recordsSeen recordsApplied \<longleftrightarrow>
     (let gen = om_generation (eas_meta s); conds = easst_Conditions (eas_status s)
      in easst_ObservedGeneration (eas_status s) = gen \<and>
         easst_RecordsSeen (eas_status s) = int32_of recordsSeen \<and>
         easst_RecordsApplied (eas_status s) = int32_of recordsApplied \<and>
         easst_OwnedKeys (eas_status s) = [] \<and>
         externalSyncConditionMatches K conds externalSyncConditionTruncated CTrue
           externalSyncReasonOwnedKeysExceeded gen \<and>
         externalSyncConditionMatches K conds condReady CFalse externalSyncReasonOwnedKeysExceeded gen \<and>
         externalSyncConditionMatches K conds condSynced CFalse externalSyncReasonOwnedKeysExceeded gen \<and>
         externalSyncStalledIsFalse K s)"

definition durationUntil :: "int \<Rightarrow> int \<Rightarrow> int" where
  "durationUntil now t = (let d = t - now in if d < 0 then second else d)"

text \<open>The four statuses the reconciler writes.\<close>

definition sync_error_status ::
  "klib \<Rightarrow> ExternalAttributeSync \<Rightarrow> int \<Rightarrow> string \<Rightarrow> go_error \<Rightarrow> ExternalAttributeSyncStatus" where
  "sync_error_status K s now reason originalErr =
     (let gen = om_generation (eas_meta s);
          message = reason @ '': '' @ err_text originalErr;
          conds = setReadyCondition K (easst_Conditions (eas_status s)) gen False reason message
      in (eas_status s)
           \<lparr>easst_LastSyncTime := Some now, easst_ObservedGeneration := gen,
            easst_Conditions := setSyncedCondition K conds gen False reason message\<rparr>)"

definition empty_result_status ::
  "klib \<Rightarrow> ExternalAttributeSync \<Rightarrow> int \<Rightarrow> nat \<Rightarrow> ExternalAttributeSyncStatus" where
  "empty_result_status K s now recordsSeen =
     (let gen = om_generation (eas_meta s);
          conds = setStalledCondition K (easst_Conditions (eas_status s)) gen True
                    ''Source returned 0 records; OwnedKeys claim preserved'';
          conds = setReadyCondition K conds gen False externalSyncReasonStalled
                    ''Source returned 0 records; previous OwnedKeys claim preserved''
      in (eas_status s)
           \<lparr>easst_LastSyncTime := Some now, easst_RecordsSeen := int32_of recordsSeen,
            easst_ObservedGeneration := gen,
            easst_Conditions := setSyncedCondition K conds gen False externalSyncReasonStalled
              ''Source returned 0 records''\<rparr>)"

definition cap_exceeded_status ::
  "klib \<Rightarrow> ExternalAttributeSync \<Rightarrow> int \<Rightarrow> nat \<Rightarrow> nat \<Rightarrow> nat \<Rightarrow> ExternalAttributeSyncStatus" where
  "cap_exceeded_status K s now recordsSeen recordsApplied ownedLen =
     (let gen = om_generation (eas_meta s);
          message = ''Computed '' @ show_nat ownedLen @
            '' owned collector entries, which exceeds maxOwnedKeys='' @ show_nat maxOwnedKeys @
            ''; status.ownedKeys was cleared to avoid publishing a partial handoff'';
          conds = SetStatusCondition K (easst_Conditions (eas_status s))
                    \<lparr>cnd_type = externalSyncConditionTruncated, cnd_status = CTrue,
                     cnd_reason = externalSyncReasonOwnedKeysExceeded, cnd_message = message, cnd_gen = gen\<rparr>;
          conds = setStalledCondition K conds gen False [];
          conds = setReadyCondition K conds gen False externalSyncReasonOwnedKeysExceeded message
      in (eas_status s)
           \<lparr>easst_LastSyncTime := Some now, easst_RecordsSeen := int32_of recordsSeen,
            easst_RecordsApplied := int32_of recordsApplied, easst_OwnedKeys := [],
            easst_ObservedGeneration := gen,
            easst_Conditions := setSyncedCondition K conds gen False
              externalSyncReasonOwnedKeysExceeded message\<rparr>)"

definition sync_success_status ::
  "klib \<Rightarrow> ExternalAttributeSync \<Rightarrow> int \<Rightarrow> nat \<Rightarrow> nat \<Rightarrow> OwnedKeyEntry list \<Rightarrow> nat \<Rightarrow>
     ExternalAttributeSyncStatus" where
  "sync_success_status K s now recordsSeen recordsApplied ownedStatus ownedLen =
     (let gen = om_generation (eas_meta s);
          conds = SetStatusCondition K (easst_Conditions (eas_status s))
                    \<lparr>cnd_type = externalSyncConditionTruncated, cnd_status = CFalse,
                     cnd_reason = externalSyncReasonNotTruncated, cnd_message = [], cnd_gen = gen\<rparr>;
          conds = setStalledCondition K conds gen False [];
          conds = setReadyCondition K conds gen True externalSyncReasonSynced
                    (''Fetched '' @ show_nat recordsSeen @ '' records, applied '' @
                     show_nat recordsApplied @ '' to '' @ show_nat ownedLen @ '' collector(s)'')
      in (eas_status s)
           \<lparr>easst_LastSyncTime := Some now, easst_LastSuccessTime := Some now,
            easst_RecordsSeen := int32_of recordsSeen, easst_RecordsApplied := int32_of recordsApplied,
            easst_OwnedKeys := ownedStatus, easst_ObservedGeneration := gen,
            easst_Conditions := setSyncedCondition K conds gen True externalSyncReasonSynced
              ''Source synced successfully''\<rparr>)"

definition sync_updateStatusError ::
  "ExternalAttributeSyncReconciler \<Rightarrow> xenv \<Rightarrow> ExternalAttributeSync \<Rightarrow> string \<Rightarrow> go_error \<Rightarrow>
     xcall list \<Rightarrow> xcall list \<times> ctrl_result \<times> go_error option" where
  "sync_updateStatusError R E s reason originalErr tr =
     (let tr = tr @ [XNow];
          st = sync_error_status (xr_klib R) s (xe_Now E tr) reason originalErr;
          tr = tr @ [XStatusUpdate (s\<lparr>eas_status := st\<rparr>)]
      in if (case xe_StatusUpdate E tr of None \<Rightarrow> False | Some e \<Rightarrow> is_conflict e)
         then (tr, requeue_now, None)
         else (tr, done_result, Some originalErr))"

section \<open>Reconcile\<close>

text \<open>\<open>return ctrl.Result{RequeueAfter: durationUntil(nextRun)}, nil\<close>, which reads the clock.\<close>

definition at_schedule :: "xenv \<Rightarrow> int \<Rightarrow> string \<Rightarrow> xcall list \<Rightarrow> xcall rres" where
  "at_schedule E nextRun outcome tr =
     (let tr = tr @ [XNow] in ret tr (requeue_after (durationUntil (xe_Now E tr) nextRun)) None outcome)"

text \<open>A failure of the secret, the factory or the fetch: status, then the error or the fixed delay.\<close>

definition source_failed ::
  "ExternalAttributeSyncReconciler \<Rightarrow> xenv \<Rightarrow> ExternalAttributeSync \<Rightarrow> go_error \<Rightarrow> xcall list \<Rightarrow>
     xcall rres" where
  "source_failed R E s err tr =
     (case sync_updateStatusError R E s externalSyncReasonSourceFailed err
             (sync_emitEvent R EventWarning ''SourceFailed'' tr) of
        (tr, _, Some statusErr) \<Rightarrow> ret tr done_result (Some statusErr) externalSyncReasonSourceFailed
      | (tr, _, None) \<Rightarrow>
          ret tr (requeue_after defaultExternalSyncRequeueOnError) None externalSyncReasonSourceFailed)"

text \<open>The status write of the three paths that reach the schedule, and what follows it.\<close>

definition sync_write ::
  "ExternalAttributeSyncReconciler \<Rightarrow> xenv \<Rightarrow> ExternalAttributeSync \<Rightarrow> ExternalAttributeSyncStatus \<Rightarrow>
     (xcall list \<Rightarrow> xcall rres) \<Rightarrow> xcall list \<Rightarrow> xcall rres" where
  "sync_write R E s st after tr =
     (let tr = tr @ [XStatusUpdate (s\<lparr>eas_status := st\<rparr>)]
      in case xe_StatusUpdate E tr of
           Some err \<Rightarrow>
             if is_conflict err then ret tr requeue_now None outcomeNoOp
             else ret tr done_result (Some err) externalSyncReasonSourceFailed
         | None \<Rightarrow> after tr)"

text \<open>From the projection on.\<close>

definition publish_claim ::
  "ExternalAttributeSyncReconciler \<Rightarrow> xenv \<Rightarrow> ExternalAttributeSync \<Rightarrow> int \<Rightarrow> source_record list \<Rightarrow>
     (string \<times> gomap) list \<Rightarrow> nat \<Rightarrow> xcall list \<Rightarrow> xcall rres" where
  "publish_claim R E s nextRun records owned recordsApplied tr =
     (let K = xr_klib R;
          tr = tr @ [XNow];
          now = xe_Now E tr
      in if \<not> easspec_AllowEmptyResults (eas_spec s) \<and> records = [] \<and>
            easst_RecordsApplied (eas_status s) > 0
         then sync_write R E s (empty_result_status K s now (length records))
                (at_schedule E nextRun externalSyncReasonStalled)
                (sync_emitEvent R EventWarning ''Stalled'' tr)
         else
           (let (ownedStatus, exceeded) = ownedKeysToStatus owned
            in if exceeded then
                 (if externalSyncCapExceededStatusUnchanged K s (length records) recordsApplied
                  then at_schedule E nextRun outcomeNoOp tr
                  else sync_write R E s
                         (cap_exceeded_status K s now (length records) recordsApplied (length owned))
                         (at_schedule E nextRun externalSyncReasonOwnedKeysExceeded)
                         (sync_emitEvent R EventWarning ''OwnedKeysExceeded'' tr))
               else if externalSyncStatusUnchanged K s (length records) recordsApplied ownedStatus False
               then at_schedule E nextRun outcomeNoOp tr
               else sync_write R E s
                      (sync_success_status K s now (length records) recordsApplied ownedStatus (length owned))
                      (\<lambda>tr. at_schedule E nextRun externalSyncReasonSynced
                              (sync_emitEvent R EventNormal ''Synced'' tr)) tr))"

text \<open>From the constructed source on, before the deferred \<open>Close\<close>; \<open>limiters\<close> is the shared map.\<close>

definition with_source ::
  "ExternalAttributeSyncReconciler \<Rightarrow> xenv \<Rightarrow> (string \<times> limiter) list \<Rightarrow> ExternalAttributeSync \<Rightarrow> int \<Rightarrow>
     xcall list \<Rightarrow> xcall rres" where
  "with_source R E limiters s nextRun tr =
     (let lim' = snd (limiterForSource R (om_namespace (eas_meta s)) (easspec_Source (eas_spec s)) limiters);
          tr = (case lim' of None \<Rightarrow> tr | Some (key, _) \<Rightarrow> tr @ [XWait key])
      in case (if lim' = None then None else xe_Wait E tr) of
           Some waitErr \<Rightarrow> ret tr done_result (Some waitErr) externalSyncReasonSourceFailed
         | None \<Rightarrow>
             (let tr = tr @ [XFetch]
              in case xe_Fetch E tr of
                   Inl err \<Rightarrow> source_failed R E s err tr
                 | Inr records \<Rightarrow>
                     (case matchedCollectors R E s tr of
                        (tr, Inl err) \<Rightarrow> ret tr done_result (Some err) externalSyncReasonSourceFailed
                      | (tr, Inr matched) \<Rightarrow>
                          (case projectRecords (xl_formatFloat (xr_lib R)) records s matched of
                             Inl projectionErr \<Rightarrow>
                               (case sync_updateStatusError R E s externalSyncReasonSourceFailed projectionErr tr of
                                  (tr, result, err) \<Rightarrow> ret tr result err externalSyncReasonSourceFailed)
                           | Inr (owned, recordsApplied) \<Rightarrow>
                               publish_claim R E s nextRun records owned recordsApplied tr))))"

text \<open>The deferred \<open>src.Close()\<close>, whose error is dropped.\<close>

definition with_close :: "xcall rres \<Rightarrow> xcall rres" where
  "with_close r = r\<lparr>rr_trace := rr_trace r @ [XClose]\<rparr>"

definition sync_Reconcile ::
  "ExternalAttributeSyncReconciler \<Rightarrow> xenv \<Rightarrow> (string \<times> limiter) list \<Rightarrow> nsname \<Rightarrow> xcall rres" where
  "sync_Reconcile R E limiters req =
     (let tr = [XGet req]
      in case xe_Get E tr of
           Inl err \<Rightarrow>
             if is_not_found err then ret tr done_result None outcomeNotFound
             else ret tr done_result (Some err) externalSyncReasonSourceFailed
         | Inr s \<Rightarrow>
             (let tr = tr @ [XNow]
              in case sync_scheduleNext R (easspec_Schedule (eas_spec s)) (xe_Now E tr) of
                   Inl scheduleErr \<Rightarrow>
                     (case sync_updateStatusError R E s externalSyncReasonScheduleErr scheduleErr
                             (sync_emitEvent R EventWarning ''SourceFailed'' tr) of
                        (tr, result, err) \<Rightarrow> ret tr result err externalSyncReasonScheduleErr)
                 | Inr nextRun \<Rightarrow>
                     (case resolveSecret R E s tr of
                        (tr, Inl err) \<Rightarrow> source_failed R E s err tr
                      | (tr, Inr secret) \<Rightarrow>
                          if \<not> xr_hasFactory R then
                            (case sync_updateStatusError R E s externalSyncReasonSourceFailed
                                    (PlainError ''no SourceFactory registered for ExternalAttributeSync controller'') tr of
                               (tr, result, err) \<Rightarrow> ret tr result err externalSyncReasonSourceFailed)
                          else
                            (let tr = tr @ [XFactory (easspec_Source (eas_spec s)) secret]
                             in case xe_Factory E tr of
                                  Some err \<Rightarrow> source_failed R E s err tr
                                | None \<Rightarrow> with_close (with_source R E limiters s nextRun tr)))))"

section \<open>Watches\<close>

definition sync_index_keys :: "ExternalAttributeSync \<Rightarrow> string list" where
  "sync_index_keys s =
     (let sel = easspec_Selector (eas_spec s);
          keys = MatcherKeys (psel_Matchers sel)
      in if psel_Matchers sel = [] \<and> psel_CollectorIDs sel \<noteq> []
         then keys @ [SyntheticCollectorIDsOnlyKey] else keys)"

definition mapCollectorToAffectedSyncs ::
  "(string \<Rightarrow> go_error + ExternalAttributeSync list) \<Rightarrow> Collector \<Rightarrow> nsname list" where
  "mapCollectorToAffectedSyncs lister c =
     collect_requests (\<lambda>s. key_of (eas_meta s)) lister (collector_watch_keys c) []"

interpretation sync_index: watch_index sync_index_keys "\<lambda>s. easspec_Selector (eas_spec s)"
  "\<lambda>s. key_of (eas_meta s)"
  by unfold_locales (auto simp: sync_index_keys_def Let_def)

definition syncsReferencingSecret ::
  "Secret \<Rightarrow> go_error + ExternalAttributeSync list \<Rightarrow> nsname list" where
  "syncsReferencingSecret secret syncs =
     (case syncs of
        Inl err \<Rightarrow> []
      | Inr items \<Rightarrow>
          map (\<lambda>s. key_of (eas_meta s))
            (filter (\<lambda>s. case xsrc_SecretRef (easspec_Source (eas_spec s)) of
                           None \<Rightarrow> False
                         | Some ref \<Rightarrow>
                             sref_Name ref = sec_Name secret \<and>
                             (if sref_Namespace ref = [] then om_namespace (eas_meta s)
                              else sref_Namespace ref) = sec_Namespace secret) items))"

end
