(* ===== verification/Sync_Claims.thy ===== *)
theory Sync_Claims
  imports External_Sync
begin

text \<open>
  What the ExternalAttributeSync reconciler guarantees: the published claim is exactly the
  projection of the fetched records onto the selected collectors, or nothing when it is too
  large, a failing or empty source does not change it, and a settled status is not rewritten.
\<close>

section \<open>Projection\<close>

text \<open>What one record claims, and the claim of all records: the last one wins.\<close>

definition record_claim ::
  "(64 word \<Rightarrow> string) \<Rightarrow> AttributeMapping \<Rightarrow> string set \<Rightarrow> source_record \<Rightarrow> (string \<times> gomap) option" where
  "record_claim ff mapping matched rec =
     (case FieldString ff rec (am_CollectorIDField mapping) of
        None \<Rightarrow> None
      | Some i \<Rightarrow>
          if i \<noteq> [] \<and> (\<forall>k \<in> set (am_RequiredKeys mapping). has_key rec k) \<and> i \<in> matched \<and>
             record_attrs ff (am_AttributeFields mapping) rec \<noteq> []
          then Some (i, record_attrs ff (am_AttributeFields mapping) rec) else None)"

definition claims ::
  "(64 word \<Rightarrow> string) \<Rightarrow> AttributeMapping \<Rightarrow> string set \<Rightarrow> source_record list \<Rightarrow> (string \<times> gomap) list" where
  "claims ff mapping matched records = List.map_filter (record_claim ff mapping matched) records"

definition claimed ::
  "(64 word \<Rightarrow> string) \<Rightarrow> AttributeMapping \<Rightarrow> string set \<Rightarrow> source_record list \<Rightarrow> string \<rightharpoonup> gomap" where
  "claimed ff mapping matched records = map_of (rev (claims ff mapping matched records))"

lemma claims_Nil [simp]: "claims ff mapping matched [] = []"
  by (simp add: claims_def map_filter_simps)

lemma claims_Cons:
  "claims ff mapping matched (rec # recs) =
     (case record_claim ff mapping matched rec of None \<Rightarrow> [] | Some c \<Rightarrow> [c]) @ claims ff mapping matched recs"
  by (simp add: claims_def map_filter_simps split: option.splits)

lemma project_loop_step:
  "project_loop ff mapping matched (rec # recs) out n =
     (case record_claim ff mapping (set matched) rec of
        None \<Rightarrow> project_loop ff mapping matched recs out n
      | Some (i, attrs) \<Rightarrow> project_loop ff mapping matched recs (map_put i attrs out) (n + 1))"
  by (auto simp: record_claim_def hasAllRequired_def list_all_iff Let_def split: option.splits)

declare project_loop.simps(2) [simp del]

lemma project_loop_spec:
  assumes "gomap_ok out"
  shows "gomap_ok (fst (project_loop ff mapping matched recs out n)) \<and>
         map_of (fst (project_loop ff mapping matched recs out n)) =
           map_of out ++ claimed ff mapping (set matched) recs \<and>
         snd (project_loop ff mapping matched recs out n) =
           n + length (claims ff mapping (set matched) recs)"
  using assms
proof (induction recs arbitrary: out n)
  case (Cons rec recs)
  show ?case
  proof (cases "record_claim ff mapping (set matched) rec")
    case None
    with Cons show ?thesis by (simp add: project_loop_step claimed_def claims_Cons)
  next
    case (Some c)
    obtain i attrs where c: "c = (i, attrs)" by (cases c)
    have "gomap_ok (map_put i attrs out)" using Cons.prems by simp
    note IH = Cons.IH [OF this, of "n + 1"]
    have "map_of out ++ claimed ff mapping (set matched) (rec # recs) =
        map_of (map_put i attrs out) ++ claimed ff mapping (set matched) recs"
      by (rule ext) (auto simp: claimed_def claims_Cons Some c map_add_def split: option.splits)
    with IH show ?thesis
      by (simp only: project_loop_step Some c claims_Cons option.case prod.case) (simp add: fun_upd_def)
  qed
qed (simp add: claimed_def)

lemma record_attrs_ok: "gomap_ok (record_attrs ff flds rec)"
proof -
  have "gomap_ok attrs \<Longrightarrow> gomap_ok (fold (\<lambda>(attrKey, sourceField) attrs.
      case FieldString ff rec sourceField of None \<Rightarrow> attrs | Some v \<Rightarrow> map_put attrKey v attrs) flds attrs)"
    for attrs :: gomap
    by (induction flds arbitrary: attrs) (auto split: option.splits)
  then show ?thesis by (simp add: record_attrs_def)
qed

lemma claimed_ok:
  "claimed ff mapping matched records i = Some attrs \<Longrightarrow> gomap_ok attrs \<and> attrs \<noteq> [] \<and> i \<in> matched"
  unfolding claimed_def
  by (drule map_of_SomeD)
     (auto simp: claims_def map_filter_def record_claim_def record_attrs_ok split: option.splits if_splits)

lemma record_attrs_lookup:
  assumes "gomap_ok flds"
  shows "map_of (record_attrs ff flds rec) k =
     (case map_of flds k of None \<Rightarrow> None | Some f \<Rightarrow> FieldString ff rec f)"
proof -
  have "gomap_ok flds \<Longrightarrow> map_of (fold (\<lambda>(attrKey, sourceField) attrs.
      case FieldString ff rec sourceField of None \<Rightarrow> attrs | Some v \<Rightarrow> map_put attrKey v attrs) flds attrs) k =
    (case map_of flds k of None \<Rightarrow> map_of attrs k
     | Some f \<Rightarrow> (case FieldString ff rec f of None \<Rightarrow> map_of attrs k | Some v \<Rightarrow> Some v))"
    for attrs :: gomap
  proof (induction flds arbitrary: attrs)
    case (Cons f flds)
    obtain j g where f: "f = (j, g)" by (cases f)
    have "map_of flds j = None" using Cons.prems by (simp add: f map_of_eq_None_iff)
    with Cons f show ?case by (auto split: option.splits)
  qed simp
  from this [OF assms, of "[]"] show ?thesis
    by (simp add: record_attrs_def split: option.splits)
qed

section \<open>The owned keys of the status\<close>

definition claim_entries :: "(string \<rightharpoonup> gomap) \<Rightarrow> OwnedKeyEntry list" where
  "claim_entries m =
     map (\<lambda>i. \<lparr>oke_CollectorID = i, oke_Attributes = the (m i)\<rparr>) (sorted_list_of_set (dom m))"

lemma card_dom_map_of: "gomap_ok m \<Longrightarrow> card (dom (map_of m)) = length m"
  unfolding gomap_ok_def dom_map_of_conv_image_fst
  by (metis distinct_card length_map list.set_map)

lemma ownedKeysToStatus_spec:
  assumes "gomap_ok owned"
  shows "ownedKeysToStatus owned =
     (if card (dom (map_of owned)) > maxOwnedKeys then ([], True)
      else (claim_entries (map_of owned), False))"
proof -
  have "sort (map fst owned) = sorted_list_of_set (dom (map_of owned))"
    using assms unfolding gomap_ok_def dom_map_of_conv_image_fst
    by (metis list.set_map sorted_list_of_set_sort_remdups distinct_remdups_id)
  moreover have "(case map_of owned i of None \<Rightarrow> [] | Some a \<Rightarrow> a) = the (map_of owned i)"
    if "i \<in> dom (map_of owned)" for i
    using that by auto
  ultimately show ?thesis
    by (auto simp: ownedKeysToStatus_def claim_entries_def card_dom_map_of [OF assms] finite_dom_map_of
        intro!: map_cong)
qed

lemma set_matched_ids:
  "set (matched_ids rx sel collectors) =
     {cspec_ID (cl_spec c) | c. c \<in> set collectors \<and>
        Match rx (selector_of sel) (cspec_ID (cl_spec c)) (cst_LocalAttributes (cl_status c))}"
proof -
  have "set (fold (\<lambda>c out. if Match rx (selector_of sel) (cspec_ID (cl_spec c)) (buildSelectorAttrs c)
        then List.insert (cspec_ID (cl_spec c)) out else out) cs out) =
      set out \<union> {cspec_ID (cl_spec c) | c. c \<in> set cs \<and>
        Match rx (selector_of sel) (cspec_ID (cl_spec c)) (cst_LocalAttributes (cl_status c))}" for cs out
    by (induction cs arbitrary: out) (auto simp: buildSelectorAttrs_def Match_synthetic)
  from this [of collectors "[]"] show ?thesis by (simp add: matched_ids_def)
qed

section \<open>The status writes of a reconcile\<close>

definition selected_ids :: "regex \<Rightarrow> ExternalAttributeSync \<Rightarrow> Collector list \<Rightarrow> string set" where
  "selected_ids rx s collectors =
     {cspec_ID (cl_spec c) | c. c \<in> set collectors \<and>
        Match rx (selector_of (easspec_Selector (eas_spec s))) (cspec_ID (cl_spec c))
          (cst_LocalAttributes (cl_status c))}"

abbreviation sync_claim ::
  "ExternalAttributeSyncReconciler \<Rightarrow> ExternalAttributeSync \<Rightarrow> source_record list \<Rightarrow> Collector list \<Rightarrow>
     string \<rightharpoonup> gomap" where
  "sync_claim R s records collectors \<equiv>
     claimed (xl_formatFloat (xr_lib R)) (easspec_Mapping (eas_spec s))
       (selected_ids (xr_regex R) s collectors) records"

lemma sync_updateStatusError_trace:
  "fst (sync_updateStatusError R E s reason err tr) =
     tr @ [XNow, XStatusUpdate (s\<lparr>eas_status :=
       sync_error_status (xr_klib R) s (xe_Now E (tr @ [XNow])) reason err\<rparr>)]"
  by (simp add: sync_updateStatusError_def Let_def)

text \<open>How a reconcile ends: either without a projection, or in \<open>publish_claim\<close>.\<close>

definition fetched ::
  "ExternalAttributeSyncReconciler \<Rightarrow> xenv \<Rightarrow> ExternalAttributeSync \<Rightarrow> xcall list \<Rightarrow>
     source_record list \<Rightarrow> Collector list \<Rightarrow> bool" where
  "fetched R E s pre records collectors \<longleftrightarrow>
     xe_Fetch E (pre @ [XFetch]) = Inr records \<and>
     xe_ListCollectors E (pre @ [XFetch, XListCollectors (om_namespace (eas_meta s))]) = Inr collectors"

abbreviation no_update :: "xcall list \<Rightarrow> bool" where
  "no_update tr \<equiv> list_all (\<lambda>c. case c of XStatusUpdate _ \<Rightarrow> False | _ \<Rightarrow> True) tr"

definition only_errors :: "klib \<Rightarrow> ExternalAttributeSync \<Rightarrow> xcall \<Rightarrow> bool" where
  "only_errors K s c =
     (case c of
        XStatusUpdate s' \<Rightarrow> \<exists>now reason err. s' = s\<lparr>eas_status := sync_error_status K s now reason err\<rparr>
      | _ \<Rightarrow> True)"

lemma only_errors_simps [simp]:
  "only_errors K s (XGet n)" "only_errors K s XNow" "only_errors K s (XGetSecret n)"
  "only_errors K s (XFactory sp x)" "only_errors K s (XWait k)" "only_errors K s XFetch"
  "only_errors K s XClose" "only_errors K s (XListCollectors ns)" "only_errors K s (XEvent t r)"
  "only_errors K s (XStatusUpdate (s\<lparr>eas_status := sync_error_status K s now reason err\<rparr>))"
  by (auto simp: only_errors_def)

lemma only_errors_no_update: "no_update tr \<Longrightarrow> list_all (only_errors K s) tr"
  by (auto simp: list_all_iff only_errors_def split: xcall.splits)

lemma only_errors_update:
  assumes "list_all (only_errors K s) tr" "XStatusUpdate s' \<in> set tr"
  shows "\<exists>now reason err. s' = s\<lparr>eas_status := sync_error_status K s now reason err\<rparr>"
proof -
  have "only_errors K s (XStatusUpdate s')" using assms by (simp add: list_all_iff)
  then show ?thesis by (simp add: only_errors_def)
qed

lemma no_update_emit [simp]: "no_update (sync_emitEvent R t r tr) = no_update tr"
  by (simp add: sync_emitEvent_def)

abbreviation failed_run :: "ExternalAttributeSyncReconciler \<Rightarrow> ExternalAttributeSync \<Rightarrow> xcall rres \<Rightarrow> bool" where
  "failed_run R s r \<equiv>
     list_all (only_errors (xr_klib R) s) (rr_trace r) \<and>
     rr_outcome r \<in> {externalSyncReasonSourceFailed, externalSyncReasonScheduleErr}"

lemma source_failed_errors: "no_update tr \<Longrightarrow> failed_run R s (source_failed R E s err tr)"
  by (auto simp: source_failed_def sync_updateStatusError_def Let_def only_errors_no_update
      split: option.splits)

text \<open>
  Before a fetch the factory has built the source, and nothing but the wait for the source's
  limiter lies between.
\<close>

definition waited :: "xcall list \<Rightarrow> xcall list \<Rightarrow> bool" where
  "waited tr pre \<longleftrightarrow> pre = tr \<or> (\<exists>key. pre = tr @ [XWait key])"

definition source_built :: "xenv \<Rightarrow> ExternalAttributeSync \<Rightarrow> xcall list \<Rightarrow> bool" where
  "source_built E s pre \<longleftrightarrow>
     (\<exists>tr secret. xe_Factory E (tr @ [XFactory (easspec_Source (eas_spec s)) secret]) = None \<and>
        waited (tr @ [XFactory (easspec_Source (eas_spec s)) secret]) pre)"

lemma with_source_cases:
  assumes "no_update tr"
  shows "failed_run R s (with_source R E limiters s nextRun tr) \<or>
    (\<exists>pre records collectors owned n. no_update pre \<and> waited tr pre \<and> fetched R E s pre records collectors \<and>
       projectRecords (xl_formatFloat (xr_lib R)) records s
         (matched_ids (xr_regex R) (easspec_Selector (eas_spec s)) collectors) = Inr (owned, n) \<and>
       with_source R E limiters s nextRun tr =
         publish_claim R E s nextRun records owned n
           (pre @ [XFetch, XListCollectors (om_namespace (eas_meta s))]))"
proof -
  define w where "w = snd (limiterForSource R (om_namespace (eas_meta s)) (easspec_Source (eas_spec s)) limiters)"
  define pre where "pre = (case w of None \<Rightarrow> tr | Some (key, _) \<Rightarrow> tr @ [XWait key])"
  have pre: "no_update pre" "waited tr pre" using assms by (auto simp: pre_def waited_def split: option.splits)
  let ?r = "with_source R E limiters s nextRun tr"
  have run: "?r = (case (if w = None then None else xe_Wait E pre) of
       Some waitErr \<Rightarrow> ret pre done_result (Some waitErr) externalSyncReasonSourceFailed
     | None \<Rightarrow> (case xe_Fetch E (pre @ [XFetch]) of
             Inl err \<Rightarrow> source_failed R E s err (pre @ [XFetch])
           | Inr records \<Rightarrow>
               (case matchedCollectors R E s (pre @ [XFetch]) of
                  (tr, Inl err) \<Rightarrow> ret tr done_result (Some err) externalSyncReasonSourceFailed
                | (tr, Inr matched) \<Rightarrow>
                    (case projectRecords (xl_formatFloat (xr_lib R)) records s matched of
                       Inl projectionErr \<Rightarrow>
                         (case sync_updateStatusError R E s externalSyncReasonSourceFailed projectionErr tr of
                            (tr, result, err) \<Rightarrow> ret tr result err externalSyncReasonSourceFailed)
                     | Inr (owned, recordsApplied) \<Rightarrow>
                         publish_claim R E s nextRun records owned recordsApplied tr))))"
    by (simp only: with_source_def Let_def w_def [symmetric] pre_def [symmetric] append.assoc append.simps)
  show ?thesis
  proof (cases "if w = None then None else xe_Wait E pre")
    case (Some e)
    then have "rr_trace ?r = pre \<and> rr_outcome ?r = externalSyncReasonSourceFailed" by (simp add: run)
    with pre show ?thesis by (simp add: only_errors_no_update)
  next
    case None
    note fetch = run [unfolded None option.case]
    show ?thesis
    proof (cases "xe_Fetch E (pre @ [XFetch])")
      case (Inl e)
      with source_failed_errors [of "pre @ [XFetch]" R s] pre show ?thesis by (simp add: fetch)
    next
      case records: (Inr records)
      let ?tr = "pre @ [XFetch, XListCollectors (om_namespace (eas_meta s))]"
      show ?thesis
      proof (cases "xe_ListCollectors E ?tr")
        case (Inl e)
        with pre records show ?thesis by (auto simp: fetch matchedCollectors_def only_errors_no_update)
      next
        case collectors: (Inr collectors)
        show ?thesis
        proof (cases "projectRecords (xl_formatFloat (xr_lib R)) records s
            (matched_ids (xr_regex R) (easspec_Selector (eas_spec s)) collectors)")
          case (Inl e)
          with pre records collectors show ?thesis
            by (auto simp: fetch matchedCollectors_def sync_updateStatusError_def Let_def only_errors_no_update)
        next
          case (Inr p)
          obtain owned n where p: "p = (owned, n)" by (cases p)
          from Inr records collectors have
            "?r = publish_claim R E s nextRun records owned n ?tr \<and> fetched R E s pre records collectors"
            by (simp add: fetch matchedCollectors_def fetched_def p)
          with pre Inr p show ?thesis by blast
        qed
      qed
    qed
  qed
qed

lemma sync_Reconcile_cases:
  assumes "xe_Get E [XGet req] = Inr s"
  shows "failed_run R s (sync_Reconcile R E limiters req) \<or>
    (\<exists>pre records collectors owned n nextRun. no_update pre \<and> source_built E s pre \<and> fetched R E s pre records collectors \<and>
       projectRecords (xl_formatFloat (xr_lib R)) records s
         (matched_ids (xr_regex R) (easspec_Selector (eas_spec s)) collectors) = Inr (owned, n) \<and>
       sync_Reconcile R E limiters req =
         with_close (publish_claim R E s nextRun records owned n
           (pre @ [XFetch, XListCollectors (om_namespace (eas_meta s))])))"
proof -
  let ?r = "sync_Reconcile R E limiters req"
  have secret: "no_update tr \<Longrightarrow> no_update (fst (resolveSecret R E s tr))" for tr
    by (auto simp: resolveSecret_def Let_def split: option.splits sum.splits)
  show ?thesis
  proof (cases "sync_scheduleNext R (easspec_Schedule (eas_spec s)) (xe_Now E [XGet req, XNow])")
    case (Inl e)
    then show ?thesis
      using assms
      by (auto simp: sync_Reconcile_def sync_updateStatusError_def Let_def only_errors_no_update)
  next
    case sched: (Inr nextRun)
    obtain tr x where x: "resolveSecret R E s [XGet req, XNow] = (tr, x)" by (cases "resolveSecret R E s [XGet req, XNow]")
    have tr: "no_update tr" using secret [of "[XGet req, XNow]"] by (simp add: x)
    show ?thesis
    proof (cases x)
      case (Inl e)
      with tr show ?thesis
        using assms sched source_failed_errors [OF tr, of R s] by (simp add: sync_Reconcile_def x)
    next
      case (Inr sec)
      let ?tr = "tr @ [XFactory (easspec_Source (eas_spec s)) sec]"
      consider (nofac) "\<not> xr_hasFactory R" | (fail) e where "xr_hasFactory R" "xe_Factory E ?tr = Some e"
        | (ok) "xr_hasFactory R" "xe_Factory E ?tr = None" by fastforce
      then show ?thesis
      proof cases
        case nofac
        with tr Inr show ?thesis
          using assms sched
          by (auto simp: sync_Reconcile_def x sync_updateStatusError_def Let_def only_errors_no_update)
      next
        case fail
        with tr Inr show ?thesis
          using assms sched source_failed_errors [of ?tr R s] by (simp add: sync_Reconcile_def x Let_def)
      next
        case ok
        then have run: "?r = with_close (with_source R E limiters s nextRun ?tr)"
          using assms sched Inr by (simp add: sync_Reconcile_def x Let_def)
        have "no_update ?tr" using tr by simp
        note cs = with_source_cases [OF this, of R s E limiters nextRun]
        show ?thesis
          using cs unfolding run
        proof (elim disjE exE conjE, goal_cases)
          case 1
          then show ?case by (auto simp: with_close_def)
        next
          case (2 pre records collectors owned n)
          with ok(2) have "source_built E s pre" unfolding source_built_def by blast
          with 2 show ?case by (intro disjI2) metis
        qed
      qed
    qed
  qed
qed

section \<open>What is published\<close>

abbreviation guarded :: "ExternalAttributeSync \<Rightarrow> source_record list \<Rightarrow> bool" where
  "guarded s records \<equiv>
     \<not> easspec_AllowEmptyResults (eas_spec s) \<and> records = [] \<and> easst_RecordsApplied (eas_status s) > 0"

lemma publish_claim_trace:
  "\<exists>post. rr_trace (publish_claim R E s nextRun records owned n tr) = tr @ post \<and>
     (\<forall>s'. XStatusUpdate s' \<in> set post \<longrightarrow>
        (let now = xe_Now E (tr @ [XNow])
         in s' = s\<lparr>eas_status :=
              (if guarded s records then empty_result_status (xr_klib R) s now (length records)
               else if snd (ownedKeysToStatus owned)
               then cap_exceeded_status (xr_klib R) s now (length records) n (length owned)
               else sync_success_status (xr_klib R) s now (length records) n
                      (fst (ownedKeysToStatus owned)) (length owned))\<rparr>))"
  by (cases "ownedKeysToStatus owned")
     (auto simp: publish_claim_def sync_write_def at_schedule_def sync_emitEvent_def Let_def
      split: option.splits)

lemma projected:
  assumes "projectRecords ff records s matched = Inr (owned, n)"
  shows "gomap_ok owned" "map_of owned = claimed ff (easspec_Mapping (eas_spec s)) (set matched) records"
    "n = length (claims ff (easspec_Mapping (eas_spec s)) (set matched) records)"
proof -
  have p: "project_loop ff (easspec_Mapping (eas_spec s)) matched records [] 0 = (owned, n)"
    using assms by (simp add: projectRecords_def Let_def split: if_splits)
  note spec = project_loop_spec [of "[]" ff "easspec_Mapping (eas_spec s)" matched records 0, unfolded p]
  show "gomap_ok owned" "map_of owned = claimed ff (easspec_Mapping (eas_spec s)) (set matched) records"
    "n = length (claims ff (easspec_Mapping (eas_spec s)) (set matched) records)"
    using spec by simp_all
qed

text \<open>What a run that reached the projection wrote.\<close>

lemma publish_update:
  assumes "no_update pre" "XStatusUpdate s' \<in> set (rr_trace (with_close
      (publish_claim R E s nextRun records owned n pre)))"
  shows "let now = xe_Now E (pre @ [XNow])
         in s' = s\<lparr>eas_status :=
              (if guarded s records then empty_result_status (xr_klib R) s now (length records)
               else if snd (ownedKeysToStatus owned)
               then cap_exceeded_status (xr_klib R) s now (length records) n (length owned)
               else sync_success_status (xr_klib R) s now (length records) n
                      (fst (ownedKeysToStatus owned)) (length owned))\<rparr>"
proof -
  obtain post where post: "rr_trace (publish_claim R E s nextRun records owned n pre) = pre @ post"
    and upd: "\<And>s'. XStatusUpdate s' \<in> set post \<Longrightarrow> let now = xe_Now E (pre @ [XNow])
         in s' = s\<lparr>eas_status :=
              (if guarded s records then empty_result_status (xr_klib R) s now (length records)
               else if snd (ownedKeysToStatus owned)
               then cap_exceeded_status (xr_klib R) s now (length records) n (length owned)
               else sync_success_status (xr_klib R) s now (length records) n
                      (fst (ownedKeysToStatus owned)) (length owned))\<rparr>"
    using publish_claim_trace [of R E s nextRun records owned n pre] by blast
  have "XStatusUpdate s' \<notin> set pre" using assms(1) by (auto simp: list_all_iff)
  then have "XStatusUpdate s' \<in> set post"
    using assms(2) by (simp add: with_close_def post)
  then show ?thesis by (rule upd)
qed

lemma setReadyCondition_at: "klib_ok K \<Longrightarrow> cond_at (setReadyCondition K conds gen b r m) t =
    (if t = condReady then Some \<lparr>cnd_type = condReady, cnd_status = (if b then CTrue else CFalse),
       cnd_reason = r, cnd_message = m, cnd_gen = gen\<rparr> else cond_at conds t)"
  by (simp add: setReadyCondition_def klib_set)

lemma setSyncedCondition_at: "klib_ok K \<Longrightarrow> cond_at (setSyncedCondition K conds gen b r m) t =
    (if t = condSynced then Some \<lparr>cnd_type = condSynced, cnd_status = (if b then CTrue else CFalse),
       cnd_reason = r, cnd_message = m, cnd_gen = gen\<rparr> else cond_at conds t)"
  by (simp add: setSyncedCondition_def klib_set)

lemma setStalledCondition_at: "klib_ok K \<Longrightarrow> cond_at (setStalledCondition K conds gen b m) t =
    (if t = externalSyncConditionStalled
     then Some \<lparr>cnd_type = externalSyncConditionStalled, cnd_status = (if b then CTrue else CFalse),
       cnd_reason = (if b then externalSyncReasonStalled else externalSyncReasonSynced),
       cnd_message = (if b then m else ''Source not stalled''), cnd_gen = gen\<rparr> else cond_at conds t)"
  by (simp add: setStalledCondition_def klib_set)

lemmas sync_conds = setReadyCondition_at setSyncedCondition_at setStalledCondition_at klib_set klib_find
lemmas sync_statuses = sync_error_status_def empty_result_status_def cap_exceeded_status_def
  sync_success_status_def Let_def

definition not_ready :: "ExternalAttributeSync \<Rightarrow> bool" where
  "not_ready s \<longleftrightarrow>
     (case cond_at (easst_Conditions (eas_status s)) condReady of
        None \<Rightarrow> False | Some c \<Rightarrow> cnd_status c = CFalse \<and> cnd_gen c = om_generation (eas_meta s))"

definition truncated_status :: "ExternalAttributeSync \<Rightarrow> bool option" where
  "truncated_status s =
     map_option (\<lambda>c. cnd_status c = CTrue)
       (cond_at (easst_Conditions (eas_status s)) externalSyncConditionTruncated)"

lemma publish_projection:
  assumes "klib_ok (xr_klib R)" "no_update tr"
    and "projectRecords (xl_formatFloat (xr_lib R)) records s
      (matched_ids (xr_regex R) (easspec_Selector (eas_spec s)) collectors) = Inr (owned, n)"
    and "XStatusUpdate s' \<in> set (rr_trace (with_close (publish_claim R E s nextRun records owned n tr)))"
  shows "(easst_OwnedKeys (eas_status s') = easst_OwnedKeys (eas_status s) \<and> not_ready s') \<or>
    (let m = sync_claim R s records collectors
     in if card (dom m) > maxOwnedKeys
        then easst_OwnedKeys (eas_status s') = [] \<and> truncated_status s' = Some True \<and>
             \<not> externalSyncOwnedKeysUsable (xr_klib R) s'
        else easst_OwnedKeys (eas_status s') = claim_entries m \<and> truncated_status s' = Some False \<and>
             externalSyncOwnedKeysUsable (xr_klib R) s')"
proof -
  note upd = publish_update [OF assms(2,4)]
  have ok: "gomap_ok owned" and m: "map_of owned = sync_claim R s records collectors"
    using projected [OF assms(3)] by (simp_all add: set_matched_ids selected_ids_def)
  show ?thesis
  proof (cases "guarded s records")
    case True
    with upd have "s' = s\<lparr>eas_status := empty_result_status (xr_klib R) s (xe_Now E (tr @ [XNow])) (length records)\<rparr>"
      by (simp only: Let_def if_True simp_thms)
    then show ?thesis by (simp add: not_ready_def sync_conds [OF assms(1)] sync_statuses)
  next
    case False
    with upd have s': "s' = s\<lparr>eas_status :=
        (if card (dom (map_of owned)) > maxOwnedKeys
         then cap_exceeded_status (xr_klib R) s (xe_Now E (tr @ [XNow])) (length records) n (length owned)
         else sync_success_status (xr_klib R) s (xe_Now E (tr @ [XNow])) (length records) n
                (claim_entries (map_of owned)) (length owned))\<rparr>"
      by (simp only: Let_def if_False simp_thms ownedKeysToStatus_spec [OF ok] split: if_split) simp
    show ?thesis
      unfolding s' m by (simp add: truncated_status_def externalSyncOwnedKeysUsable_def
          sync_conds [OF assms(1)] sync_statuses)
  qed
qed

lemma claim_entries_claimed:
  assumes "entry \<in> set (claim_entries m)" "finite (dom m)"
  shows "m (oke_CollectorID entry) = Some (oke_Attributes entry)"
  using assms by (auto simp: claim_entries_def)

lemma finite_dom_claimed: "finite (dom (claimed ff mapping matched records))"
  by (simp add: claimed_def finite_dom_map_of)

text \<open>A claim that differs from the old one, and is not empty, is a projection of fetched records.\<close>

lemma new_claim_published:
  assumes "klib_ok (xr_klib R)" "xe_Get E [XGet req] = Inr s"
    and upd: "XStatusUpdate s' \<in> set (rr_trace (sync_Reconcile R E limiters req))"
    and new: "easst_OwnedKeys (eas_status s') \<noteq> easst_OwnedKeys (eas_status s)"
      "easst_OwnedKeys (eas_status s') \<noteq> []"
  obtains pre records collectors where "source_built E s pre" "fetched R E s pre records collectors"
    "easst_OwnedKeys (eas_status s') = claim_entries (sync_claim R s records collectors)"
    "externalSyncOwnedKeysUsable (xr_klib R) s'"
proof -
  have "\<not> failed_run R s (sync_Reconcile R E limiters req)"
  proof
    assume "failed_run R s (sync_Reconcile R E limiters req)"
    then obtain now reason err where "s' = s\<lparr>eas_status := sync_error_status (xr_klib R) s now reason err\<rparr>"
      using upd by (blast dest: only_errors_update)
    then show False using new(1) by (simp add: sync_statuses)
  qed
  with sync_Reconcile_cases [OF assms(2), of R limiters]
  obtain pre records collectors owned n nextRun where pre: "no_update pre" "source_built E s pre"
    and fetched: "fetched R E s pre records collectors"
    and owned: "projectRecords (xl_formatFloat (xr_lib R)) records s
      (matched_ids (xr_regex R) (easspec_Selector (eas_spec s)) collectors) = Inr (owned, n)"
    and run: "sync_Reconcile R E limiters req = with_close (publish_claim R E s nextRun records owned n
      (pre @ [XFetch, XListCollectors (om_namespace (eas_meta s))]))"
    by blast
  have "no_update (pre @ [XFetch, XListCollectors (om_namespace (eas_meta s))])" using pre by simp
  from publish_projection [OF assms(1) this owned upd [unfolded run]] new
  have "easst_OwnedKeys (eas_status s') = claim_entries (sync_claim R s records collectors)"
    "externalSyncOwnedKeysUsable (xr_klib R) s'"
    by (auto simp: Let_def split: if_split_asm)
  with pre(2) fetched show thesis by (rule that)
qed

text \<open>
  C15: what a reconcile publishes.  Whenever it writes the status of an ExternalAttributeSync,
  the claim it writes is either the old one, marked not ready (a failed schedule, secret,
  source or mapping, or the empty-result guard), or the exact projection of the records
  fetched in this very reconcile onto the collectors the selector matches: one entry per
  collector with a claim, ascending, each with the attributes of the last usable record; and
  if there are more than a thousand entries, no entry at all and the Truncated condition,
  which makes the Collector reconciler ignore the claim.
\<close>

theorem claim_is_projection:
  assumes "klib_ok (xr_klib R)" "xe_Get E [XGet req] = Inr s"
    and "XStatusUpdate s' \<in> set (rr_trace (sync_Reconcile R E limiters req))"
  shows "(easst_OwnedKeys (eas_status s') = easst_OwnedKeys (eas_status s) \<and> not_ready s') \<or>
    (\<exists>pre records collectors post.
       rr_trace (sync_Reconcile R E limiters req) =
         pre @ [XFetch, XListCollectors (om_namespace (eas_meta s))] @ post \<and>
       fetched R E s pre records collectors \<and>
       (let m = sync_claim R s records collectors
        in if card (dom m) > maxOwnedKeys
           then easst_OwnedKeys (eas_status s') = [] \<and> truncated_status s' = Some True \<and>
                \<not> externalSyncOwnedKeysUsable (xr_klib R) s'
           else easst_OwnedKeys (eas_status s') = claim_entries m \<and> truncated_status s' = Some False \<and>
                externalSyncOwnedKeysUsable (xr_klib R) s'))"
  using sync_Reconcile_cases [OF assms(2), of R limiters]
proof (elim disjE [of "failed_run _ _ _"] exE conjE)
  assume "list_all (only_errors (xr_klib R) s) (rr_trace (sync_Reconcile R E limiters req))"
  with assms(3) obtain now reason err
    where "s' = s\<lparr>eas_status := sync_error_status (xr_klib R) s now reason err\<rparr>"
    by (blast dest: only_errors_update)
  then show ?thesis
    by (simp add: not_ready_def sync_conds [OF assms(1)] sync_statuses)
next
  fix pre records collectors owned n nextRun
  let ?tr = "pre @ [XFetch, XListCollectors (om_namespace (eas_meta s))]"
  assume pre: "no_update pre" and fetched: "fetched R E s pre records collectors"
    and owned: "projectRecords (xl_formatFloat (xr_lib R)) records s
      (matched_ids (xr_regex R) (easspec_Selector (eas_spec s)) collectors) = Inr (owned, n)"
    and run: "sync_Reconcile R E limiters req =
      with_close (publish_claim R E s nextRun records owned n ?tr)"
  obtain post where post: "rr_trace (publish_claim R E s nextRun records owned n ?tr) = ?tr @ post"
    using publish_claim_trace [of R E s nextRun records owned n ?tr] by blast
  have tr: "rr_trace (sync_Reconcile R E limiters req) = ?tr @ (post @ [XClose])"
    by (simp add: run with_close_def post)
  show ?thesis
    using publish_projection [OF assms(1) _ owned assms(3) [unfolded run]] pre fetched tr by fastforce
qed

end
