(* ===== verification/Sync_Safety.thy ===== *)
theory Sync_Safety
  imports Sync_Claims
begin

text \<open>
  Further guarantees of the ExternalAttributeSync reconciler: outages keep the claim, a settled
  status is left alone, the source is closed, what is retried when; and the comparison of owned
  keys with its blind spot.
\<close>

section \<open>Outages\<close>

text \<open>
  C16: while the source is down or returns nothing, the claim of a sync that does not allow
  empty results is kept: every status written in that time has the owned keys and the count
  of applied records it had before, so the guard is still armed for the next reconcile, and
  is not ready.
\<close>

theorem outage_keeps_claim:
  assumes "klib_ok (xr_klib R)" "xe_Get E [XGet req] = Inr s"
    and "\<not> easspec_AllowEmptyResults (eas_spec s)" "easst_RecordsApplied (eas_status s) > 0"
    and "\<And>tr records. xe_Fetch E tr = Inr records \<Longrightarrow> records = []"
    and "XStatusUpdate s' \<in> set (rr_trace (sync_Reconcile R E limiters req))"
  shows "easst_OwnedKeys (eas_status s') = easst_OwnedKeys (eas_status s) \<and>
         easst_RecordsApplied (eas_status s') = easst_RecordsApplied (eas_status s) \<and>
         eas_spec s' = eas_spec s \<and> not_ready s'"
  using sync_Reconcile_cases [OF assms(2), of R limiters]
proof (elim disjE [of "failed_run _ _ _"] exE conjE)
  assume "list_all (only_errors (xr_klib R) s) (rr_trace (sync_Reconcile R E limiters req))"
  with assms(6) obtain now reason err
    where "s' = s\<lparr>eas_status := sync_error_status (xr_klib R) s now reason err\<rparr>"
    by (blast dest: only_errors_update)
  then show ?thesis by (simp add: not_ready_def sync_conds [OF assms(1)] sync_statuses)
next
  fix pre records collectors owned n nextRun
  let ?tr = "pre @ [XFetch, XListCollectors (om_namespace (eas_meta s))]"
  assume pre: "no_update pre" and "fetched R E s pre records collectors"
    and run: "sync_Reconcile R E limiters req =
      with_close (publish_claim R E s nextRun records owned n ?tr)"
  then have "guarded s records" using assms(3-5) by (auto simp: fetched_def)
  moreover have "no_update ?tr" using pre by simp
  ultimately have "s' = s\<lparr>eas_status :=
      empty_result_status (xr_klib R) s (xe_Now E (?tr @ [XNow])) (length records)\<rparr>"
    using publish_update [of ?tr s' R E s nextRun records owned n] assms(6) run
    by (simp only: Let_def if_True simp_thms)
  then show ?thesis by (simp add: not_ready_def sync_conds [OF assms(1)] sync_statuses)
qed

section \<open>Comparing owned keys\<close>

definition plain_entry :: "OwnedKeyEntry \<Rightarrow> bool" where
  "plain_entry e \<longleftrightarrow> gomap_ok (oke_Attributes e) \<and> [] \<notin> snd ` set (oke_Attributes e)"

lemma attrs_equal_plain:
  assumes "gomap_ok a" "[] \<notin> snd ` set a" "gomap_ok b"
  shows "length a = length b \<and> list_all (\<lambda>(k, v). get_str b k = v) a \<longleftrightarrow> map_of a = map_of b"
proof
  assume eq: "map_of a = map_of b"
  have "length a = length b"
    using card_dom_map_of [OF assms(1)] card_dom_map_of [OF assms(3)] eq by simp
  moreover have "map_of a k = Some v" if "(k, v) \<in> set a" for k v
    using that assms(1) by (simp add: gomap_ok_def)
  ultimately show "length a = length b \<and> list_all (\<lambda>(k, v). get_str b k = v) a"
    by (auto simp: list_all_iff get_str_def simp flip: eq)
next
  assume "length a = length b \<and> list_all (\<lambda>(k, v). get_str b k = v) a"
  then have len: "length a = length b" and all: "\<And>k v. (k, v) \<in> set a \<Longrightarrow> get_str b k = v"
    by (auto simp: list_all_iff)
  have sub: "map_of b k = Some v" if "map_of a k = Some v" for k v
  proof -
    have "(k, v) \<in> set a" using that by (rule map_of_SomeD)
    with all [of k v] assms(2) have "get_str b k = v" "v \<noteq> []" by force+
    then show ?thesis by (auto simp: get_str_def split: option.splits)
  qed
  then have dom: "dom (map_of a) \<subseteq> dom (map_of b)" by auto
  have "card (dom (map_of b)) = card (dom (map_of a))"
    using len by (simp add: card_dom_map_of assms)
  with dom have "dom (map_of a) = dom (map_of b)"
    by (simp add: card_subset_eq finite_dom_map_of)
  with sub show "map_of a = map_of b"
    by (intro ext) (metis domIff option.exhaust_sel)
qed

lemma ownedKeyEntriesEqual_list_all2:
  "ownedKeyEntriesEqual as bs =
     list_all2 (\<lambda>x y. oke_CollectorID x = oke_CollectorID y \<and>
        length (oke_Attributes x) = length (oke_Attributes y) \<and>
        list_all (\<lambda>(k, v). get_str (oke_Attributes y) k = v) (oke_Attributes x)) as bs"
  unfolding ownedKeyEntriesEqual_def using list_all2_lengthD by auto

text \<open>
  The comparison that decides whether a status is written and whether the Collector
  reconciler is woken is exact on claims without empty values, but it reads an absent key as
  the empty value: two claims that differ in which key carries an empty value are equal to it,
  so the reconciler keeps the old claim.
\<close>

theorem owned_keys_comparison:
  "(list_all plain_entry as \<and> list_all (\<lambda>e. gomap_ok (oke_Attributes e)) bs \<longrightarrow>
      ownedKeyEntriesEqual as bs =
        list_all2 (\<lambda>a b. oke_CollectorID a = oke_CollectorID b \<and>
                         map_of (oke_Attributes a) = map_of (oke_Attributes b)) as bs) \<and>
   ownedKeyEntriesEqual [\<lparr>oke_CollectorID = i, oke_Attributes = [(k, [])]\<rparr>]
     [\<lparr>oke_CollectorID = i, oke_Attributes = [(k', [])]\<rparr>]"
proof (intro conjI impI)
  assume ok: "list_all plain_entry as \<and> list_all (\<lambda>e. gomap_ok (oke_Attributes e)) bs"
  have entry: "plain_entry a \<Longrightarrow> gomap_ok (oke_Attributes b) \<Longrightarrow>
      (length (oke_Attributes a) = length (oke_Attributes b) \<and>
       list_all (\<lambda>(k, v). get_str (oke_Attributes b) k = v) (oke_Attributes a)) =
      (map_of (oke_Attributes a) = map_of (oke_Attributes b))" for a b
    unfolding plain_entry_def by (rule attrs_equal_plain) simp_all
  from ok show "ownedKeyEntriesEqual as bs =
        list_all2 (\<lambda>a b. oke_CollectorID a = oke_CollectorID b \<and>
                         map_of (oke_Attributes a) = map_of (oke_Attributes b)) as bs"
    unfolding ownedKeyEntriesEqual_list_all2
  proof (induction as arbitrary: bs)
    case (Cons a as bs)
    then show ?case by (cases bs) (use entry in \<open>simp_all, blast\<close>)
  qed auto
qed (simp add: ownedKeyEntriesEqual_def get_str_def)

lemma claim_entries_equal_refl:
  "ownedKeyEntriesEqual (claim_entries (claimed ff mapping matched records))
     (claim_entries (claimed ff mapping matched records))"
proof -
  have "list_all (\<lambda>(k, v). get_str (oke_Attributes e) k = v) (oke_Attributes e)"
    if "e \<in> set (claim_entries (claimed ff mapping matched records))" for e
  proof -
    have fin: "finite (dom (claimed ff mapping matched records))"
      by (simp add: claimed_def finite_dom_map_of)
    from that obtain i attrs where "claimed ff mapping matched records i = Some attrs" "oke_Attributes e = attrs"
      using fin by (auto simp: claim_entries_def)
    then show ?thesis
      using claimed_ok [of ff mapping matched records i attrs]
      by (auto simp: list_all_iff get_str_def gomap_ok_def)
  qed
  then show ?thesis
    by (auto simp: ownedKeyEntriesEqual_def list_all2_same)
qed

section \<open>Settling\<close>

lemma publish_settled:
  assumes "klib_ok (xr_klib R)" "\<not> guarded s records"
    and "projectRecords ff records s matched = Inr (owned, n)"
    and "s' = s\<lparr>eas_status :=
              (if snd (ownedKeysToStatus owned)
               then cap_exceeded_status (xr_klib R) s now (length records) n (length owned)
               else sync_success_status (xr_klib R) s now (length records) n
                      (fst (ownedKeysToStatus owned)) (length owned))\<rparr>"
    and "records = [] \<longrightarrow> easspec_AllowEmptyResults (eas_spec s)"
  shows "rr_trace (publish_claim R E s' nextRun records owned n tr) = tr @ [XNow, XNow] \<and>
         rr_outcome (publish_claim R E s' nextRun records owned n tr) = outcomeNoOp"
proof -
  have g: "\<not> guarded s' records" using assms(4,5) by simp
  show ?thesis
  proof (cases "snd (ownedKeysToStatus owned)")
    case True
    have "externalSyncCapExceededStatusUnchanged (xr_klib R) s' (length records) n"
      unfolding assms(4) using True
      by (simp add: externalSyncCapExceededStatusUnchanged_def externalSyncConditionMatches_def
          externalSyncStalledIsFalse_def sync_conds [OF assms(1)] sync_statuses)
    with g True show ?thesis
      by (cases "ownedKeysToStatus owned") (simp add: publish_claim_def at_schedule_def Let_def del: de_Morgan_conj)
  next
    case False
    have refl: "ownedKeyEntriesEqual (fst (ownedKeysToStatus owned)) (fst (ownedKeysToStatus owned))"
      using False projected [OF assms(3)] claim_entries_equal_refl
      by (simp add: ownedKeysToStatus_spec split: if_splits)
    have "externalSyncStatusUnchanged (xr_klib R) s' (length records) n (fst (ownedKeysToStatus owned)) False"
      unfolding assms(4) using False refl
      by (simp add: externalSyncStatusUnchanged_def externalSyncTruncatedConditionMatches_def
          externalSyncReadyAndSyncedAreTrue_def externalSyncStalledIsFalse_def
          sync_conds [OF assms(1)] sync_statuses)
    with g False show ?thesis
      by (cases "ownedKeysToStatus owned") (simp add: publish_claim_def at_schedule_def Let_def del: de_Morgan_conj)
  qed
qed

text \<open>
  A settled sync is left alone: after a reconcile that got records (or is allowed to get
  none) and wrote its status, a reconcile of the object with that status, which fetches the
  same records and sees the same collectors, writes nothing; unless the secret, the source or
  the schedule fails it ends as a no-op.
\<close>

theorem sync_settles:
  assumes "klib_ok (xr_klib R)" "xe_Get E [XGet req] = Inr s"
    and "\<And>tr. xe_Fetch E tr = Inr records" "\<And>tr. xe_ListCollectors E tr = Inr collectors"
    and "records = [] \<longrightarrow> easspec_AllowEmptyResults (eas_spec s)"
    and "XStatusUpdate s' \<in> set (rr_trace (sync_Reconcile R E limiters req))"
    and "rr_outcome (sync_Reconcile R E limiters req) \<in>
           {externalSyncReasonSynced, externalSyncReasonOwnedKeysExceeded}"
    and "xe_Get E' [XGet req] = Inr s'"
    and "\<And>tr. xe_Fetch E' tr = Inr records" "\<And>tr. xe_ListCollectors E' tr = Inr collectors"
  shows "rr_outcome (sync_Reconcile R E' limiters' req) \<in>
           {externalSyncReasonSourceFailed, externalSyncReasonScheduleErr} \<or>
         rr_outcome (sync_Reconcile R E' limiters' req) = outcomeNoOp \<and>
         no_update (rr_trace (sync_Reconcile R E' limiters' req))"
proof -
  from sync_Reconcile_cases [OF assms(2), of R limiters] assms(7)
  obtain pre owned n nextRun where pre: "no_update pre"
    and proj: "projectRecords (xl_formatFloat (xr_lib R)) records s
      (matched_ids (xr_regex R) (easspec_Selector (eas_spec s)) collectors) = Inr (owned, n)"
    and run: "sync_Reconcile R E limiters req = with_close (publish_claim R E s nextRun records owned n
      (pre @ [XFetch, XListCollectors (om_namespace (eas_meta s))]))"
    using assms(3,4) by (auto simp: fetched_def)
  let ?tr = "pre @ [XFetch, XListCollectors (om_namespace (eas_meta s))]"
  have ng: "\<not> guarded s records" using assms(5) by blast
  have "no_update ?tr" using pre by simp
  from publish_update [OF this assms(6) [unfolded run]] ng
  have s': "s' = s\<lparr>eas_status :=
      (if snd (ownedKeysToStatus owned)
       then cap_exceeded_status (xr_klib R) s (xe_Now E (?tr @ [XNow])) (length records) n (length owned)
       else sync_success_status (xr_klib R) s (xe_Now E (?tr @ [XNow])) (length records) n
              (fst (ownedKeysToStatus owned)) (length owned))\<rparr>"
    by (simp only: Let_def if_False simp_thms)
  then have same: "eas_spec s' = eas_spec s" by simp
  have proj': "projectRecords ff records s' matched = projectRecords ff records s matched" for ff matched
    by (simp add: projectRecords_def same)
  from sync_Reconcile_cases [OF assms(8), of R limiters'] show ?thesis
  proof (elim disjE [of "failed_run _ _ _"] exE conjE)
    fix pre' records' collectors' owned' n' nextRun'
    assume pre': "no_update pre'" and "fetched R E' s' pre' records' collectors'"
      and proj2: "projectRecords (xl_formatFloat (xr_lib R)) records' s'
        (matched_ids (xr_regex R) (easspec_Selector (eas_spec s')) collectors') = Inr (owned', n')"
      and run': "sync_Reconcile R E' limiters' req = with_close (publish_claim R E' s' nextRun' records' owned' n'
        (pre' @ [XFetch, XListCollectors (om_namespace (eas_meta s'))]))"
    then have "records' = records" "collectors' = collectors"
      using assms(9,10) by (auto simp: fetched_def)
    with proj2 proj same have "owned' = owned" "n' = n" by (simp_all add: proj')
    with publish_settled [OF assms(1) ng proj s' assms(5), of E' nextRun'] pre'
    show ?thesis
      by (simp add: run' \<open>records' = records\<close> with_close_def)
  qed simp
qed

section \<open>Failures and resources\<close>

text \<open>
  The fixed thirty-second delay is not the retry cadence of a failing source: when the
  status write does not meet a conflict, every reconcile that ends in a source failure returns
  the error itself and asks for no delay, so the work queue's backoff applies.
\<close>

theorem failures_use_backoff:
  assumes "\<And>tr err. xe_StatusUpdate E tr = Some err \<Longrightarrow> \<not> is_conflict err"
    and "rr_outcome (sync_Reconcile R E limiters req) = externalSyncReasonSourceFailed"
  shows "rr_err (sync_Reconcile R E limiters req) \<noteq> None \<and>
         rr_result (sync_Reconcile R E limiters req) = done_result"
proof -
  have upd: "fst (snd (sync_updateStatusError R E s reason err tr)) = done_result"
      "snd (snd (sync_updateStatusError R E s reason err tr)) = Some err" for s reason err tr
    using assms(1) by (auto simp: sync_updateStatusError_def Let_def split: option.splits)
  have fail: "rr_err (source_failed R E s err tr) = Some err"
      "rr_result (source_failed R E s err tr) = done_result" for s err tr
    by (simp_all add: source_failed_def case_prod_beta upd)
  have status: "rr_outcome (sync_write R E s st after tr) = externalSyncReasonSourceFailed \<Longrightarrow>
      (\<And>tr. rr_outcome (after tr) \<noteq> externalSyncReasonSourceFailed) \<Longrightarrow>
      rr_err (sync_write R E s st after tr) \<noteq> None \<and> rr_result (sync_write R E s st after tr) = done_result"
    for s st after tr
    by (auto simp: sync_write_def Let_def split: option.splits if_splits)
  have sched: "rr_outcome (at_schedule E nextRun oc tr) = oc" for nextRun oc tr
    by (simp add: at_schedule_def Let_def)
  have publish: "rr_outcome (publish_claim R E s nextRun records owned n tr) = externalSyncReasonSourceFailed \<Longrightarrow>
      rr_err (publish_claim R E s nextRun records owned n tr) \<noteq> None \<and>
      rr_result (publish_claim R E s nextRun records owned n tr) = done_result" for s nextRun records owned n tr
    by (auto simp: publish_claim_def Let_def sched split: if_splits prod.splits dest!: status)
  have source: "rr_outcome (with_source R E limiters s nextRun tr) = externalSyncReasonSourceFailed \<Longrightarrow>
      rr_err (with_source R E limiters s nextRun tr) \<noteq> None \<and>
      rr_result (with_source R E limiters s nextRun tr) = done_result" for s nextRun tr
    by (auto simp: with_source_def Let_def case_prod_beta upd fail dest!: publish split: option.splits sum.splits if_splits)
  show ?thesis
    using assms(2)
    by (auto simp: sync_Reconcile_def Let_def case_prod_beta upd fail with_close_def dest!: source
        split: option.splits sum.splits if_splits)
qed

text \<open>Calls other than constructing and closing a source.\<close>

definition no_source_call :: "xcall \<Rightarrow> bool" where
  "no_source_call c \<longleftrightarrow> c \<noteq> XClose \<and> (case c of XFactory _ _ \<Rightarrow> False | _ \<Rightarrow> True)"

lemma no_source_call_simps [simp]:
  "no_source_call (XGet n)" "no_source_call XNow" "no_source_call (XGetSecret n)"
  "\<not> no_source_call (XFactory sp x)" "no_source_call (XWait k)" "no_source_call XFetch"
  "\<not> no_source_call XClose" "no_source_call (XListCollectors ns)" "no_source_call (XEvent t r)"
  "no_source_call (XStatusUpdate s)"
  by (simp_all add: no_source_call_def)

lemma sync_updateStatusError_quiet [trace_intros]:
  "extends no_source_call tr (fst (sync_updateStatusError R E s reason err tr))"
  by (auto simp: sync_updateStatusError_def Let_def extends_def)

lemma sync_emit_quiet [trace_intros]: "extends no_source_call tr (sync_emitEvent R t r tr)"
  by (auto simp: sync_emitEvent_def extends_def)

lemma source_failed_quiet [trace_intros]: "extends no_source_call tr (rr_trace (source_failed R E s err tr))"
proof -
  have "rr_trace (source_failed R E s err tr) =
      fst (sync_updateStatusError R E s externalSyncReasonSourceFailed err
        (sync_emitEvent R EventWarning ''SourceFailed'' tr))"
    by (auto simp: source_failed_def case_prod_beta split: option.splits)
  then show ?thesis by (auto intro: extends_trans trace_intros)
qed

lemma publish_claim_quiet [trace_intros]:
  "extends no_source_call tr (rr_trace (publish_claim R E s nextRun records owned n tr))"
  by (cases "ownedKeysToStatus owned")
     (auto simp: publish_claim_def sync_write_def at_schedule_def sync_emitEvent_def Let_def extends_def
      split: option.splits)

lemma with_source_quiet: "extends no_source_call tr (rr_trace (with_source R E limiters s nextRun tr))"
proof -
  have step: "extends no_source_call tr (rr_trace r)"
    if "extends no_source_call (tr @ new) (rr_trace r)" "list_all no_source_call new" for new r
    using that by (auto simp: extends_def)
  show ?thesis
    by (auto simp: with_source_def matchedCollectors_def Let_def case_prod_beta
        intro!: trace_intros step [OF source_failed_quiet] step [OF publish_claim_quiet]
          extends_append
        intro: extends_trans [OF extends_append sync_updateStatusError_quiet]
        split: option.splits sum.splits)
qed

lemma resolveSecret_quiet: "extends no_source_call tr (fst (resolveSecret R E s tr))"
  by (auto simp: resolveSecret_def Let_def extends_def split: option.splits sum.splits)

lemma unique_factory:
  assumes "list_all no_source_call xs" "list_all no_source_call ys"
    and "xs @ XFactory a b # ys = pre @ XFactory c d # post"
  shows "pre = xs \<and> c = a \<and> d = b"
  using assms
proof (induction xs arbitrary: pre)
  case Nil
  then show ?case by (cases pre) auto
next
  case (Cons x xs)
  then show ?case by (cases pre) auto
qed

text \<open>
  A constructed source is closed exactly once, as the last call of the reconcile, on every
  path; and nothing is closed when no source was constructed.
\<close>

theorem source_closed_once:
  "(\<exists>pre spec secret post.
      rr_trace (sync_Reconcile R E limiters req) = pre @ XFactory spec secret # post @ [XClose] \<and>
      xe_Factory E (pre @ [XFactory spec secret]) = None \<and>
      list_all no_source_call pre \<and> list_all no_source_call post) \<or>
   (XClose \<notin> set (rr_trace (sync_Reconcile R E limiters req)) \<and>
    (\<forall>pre spec secret post.
       rr_trace (sync_Reconcile R E limiters req) = pre @ XFactory spec secret # post \<longrightarrow>
       xe_Factory E (pre @ [XFactory spec secret]) \<noteq> None))"
proof -
  let ?r = "sync_Reconcile R E limiters req"
  have quiet: ?thesis if "list_all no_source_call (rr_trace ?r)"
    using that by (force simp: list_all_iff)
  show ?thesis
  proof (cases "xe_Get E [XGet req]")
    case (Inl e)
    then show ?thesis by (intro quiet) (simp add: sync_Reconcile_def Let_def)
  next
    case get: (Inr s)
    show ?thesis
    proof (cases "sync_scheduleNext R (easspec_Schedule (eas_spec s)) (xe_Now E [XGet req, XNow])")
      case (Inl e)
      have "extends no_source_call [XGet req, XNow] (rr_trace ?r)"
        using get Inl by (auto simp: sync_Reconcile_def case_prod_beta Let_def intro: extends_trans trace_intros)
      then show ?thesis by (intro quiet) (simp add: extends_all)
    next
      case sched: (Inr nextRun)
      obtain tr x where x: "resolveSecret R E s [XGet req, XNow] = (tr, x)"
        by (cases "resolveSecret R E s [XGet req, XNow]")
      have tr: "list_all no_source_call tr"
        using resolveSecret_quiet [of "[XGet req, XNow]" R E s] by (simp add: x extends_all)
      show ?thesis
      proof (cases x)
        case (Inl e)
        then have "extends no_source_call tr (rr_trace ?r)"
          using get sched by (auto simp: sync_Reconcile_def x Let_def intro: trace_intros)
        with tr show ?thesis by (intro quiet) (simp add: extends_all)
      next
        case sec: (Inr secret)
        let ?f = "XFactory (easspec_Source (eas_spec s)) secret"
        consider (nofac) "\<not> xr_hasFactory R" | (fail) e where "xr_hasFactory R" "xe_Factory E (tr @ [?f]) = Some e"
          | (ok) "xr_hasFactory R" "xe_Factory E (tr @ [?f]) = None" by fastforce
        then show ?thesis
        proof cases
          case nofac
          then have "extends no_source_call tr (rr_trace ?r)"
            using get sched sec by (auto simp: sync_Reconcile_def x case_prod_beta Let_def intro: trace_intros)
          with tr show ?thesis by (intro quiet) (simp add: extends_all)
        next
          case fail
          then have "rr_trace ?r = rr_trace (source_failed R E s e (tr @ [?f]))"
            using get sched sec by (simp add: sync_Reconcile_def x Let_def)
          moreover obtain post where "rr_trace (source_failed R E s e (tr @ [?f])) = tr @ ?f # post"
            and post: "list_all no_source_call post"
            using source_failed_quiet [of "tr @ [?f]" R E s e] by (auto simp: extends_def)
          ultimately have r: "rr_trace ?r = tr @ ?f # post" by simp
          have "XClose \<notin> set (rr_trace ?r)" using r tr post by (auto simp: list_all_iff)
          moreover have "xe_Factory E (pre @ [XFactory spec sec']) \<noteq> None"
            if "rr_trace ?r = pre @ XFactory spec sec' # post'" for pre spec sec' post'
            using unique_factory [OF tr post that [unfolded r]] fail(2) by simp
          ultimately show ?thesis by blast
        next
          case ok
          then have "?r = with_close (with_source R E limiters s nextRun (tr @ [?f]))"
            using get sched sec by (simp add: sync_Reconcile_def x Let_def)
          moreover obtain post where "rr_trace (with_source R E limiters s nextRun (tr @ [?f])) = tr @ ?f # post"
            and post: "list_all no_source_call post"
            using with_source_quiet [of "tr @ [?f]" R E limiters s nextRun] by (auto simp: extends_def)
          ultimately have "rr_trace ?r = tr @ ?f # post @ [XClose]" by (simp add: with_close_def)
          with ok(2) tr post show ?thesis by blast
        qed
      qed
    qed
  qed
qed

section \<open>Witnesses\<close>

definition sync_reconciler :: ExternalAttributeSyncReconciler where
  "sync_reconciler =
     \<lparr>xr_klib = klib_ref, xr_regex = (\<lambda>_. None),
      xr_lib = \<lparr>xl_ParseDuration = (\<lambda>_. Some minute), xl_defaultCronParser = (\<lambda>_. Inl (PlainError ''cron'')),
                xl_ParseURL = (\<lambda>_. None), xl_formatFloat = (\<lambda>_. ''0'')\<rparr>,
      xr_hasRecorder = False, xr_hasFactory = True, xr_CronParser = (\<lambda>_. Inl (PlainError ''cron'')),
      xr_SourceTargetRate = 0, xr_SourceTargetBurst = 0, xr_SecretLabelSelector = []\<rparr>"

definition sync_sample :: ExternalAttributeSync where
  "sync_sample =
     \<lparr>eas_meta = \<lparr>om_namespace = ''ns'', om_name = ''cmdb'', om_generation = 1, om_deleting = False,
                  om_finalizers = [], om_labels = [], om_annotations = []\<rparr>,
      eas_spec = \<lparr>easspec_Source = \<lparr>xsrc_Kind = ''HTTP'', xsrc_HTTP = None, xsrc_SQL = None, xsrc_SecretRef = None\<rparr>,
                  easspec_Schedule = ''1m'',
                  easspec_Selector = \<lparr>psel_Matchers = [], psel_CollectorIDs = [''edge-1'']\<rparr>,
                  easspec_Mapping = \<lparr>am_CollectorIDField = ''id'', am_AttributeFields = [(''team'', ''owner'')],
                                    am_RequiredKeys = []\<rparr>,
                  easspec_AllowEmptyResults = False\<rparr>,
      eas_status = \<lparr>easst_ObservedGeneration = 0, easst_LastSyncTime = None, easst_LastSuccessTime = None,
                    easst_RecordsSeen = 0, easst_RecordsApplied = 1,
                    easst_OwnedKeys = [\<lparr>oke_CollectorID = ''edge-1'', oke_Attributes = [(''team'', ''a'')]\<rparr>],
                    easst_Conditions = []\<rparr>\<rparr>"

definition sync_env :: "ExternalAttributeSync \<Rightarrow> go_error + source_record list \<Rightarrow> xenv" where
  "sync_env s records =
     \<lparr>xe_Get = (\<lambda>_. Inr s), xe_Now = (\<lambda>_. 7), xe_GetSecret = (\<lambda>_. Inl (PlainError ''secret'')),
      xe_Factory = (\<lambda>_. None), xe_Wait = (\<lambda>_. None), xe_Fetch = (\<lambda>_. records),
      xe_ListCollectors = (\<lambda>_. Inr [cl_sample False []]), xe_StatusUpdate = (\<lambda>_. None)\<rparr>"

abbreviation sync_req :: nsname where "sync_req \<equiv> \<lparr>nn_namespace = ''ns'', nn_name = ''cmdb''\<rparr>"

definition sync_records :: "source_record list" where
  "sync_records = [[(''id'', FString ''edge-1''), (''owner'', FString ''b'')]]"

lemma sync_sample_run:
  "sync_Reconcile sync_reconciler (sync_env s (Inr records)) [] sync_req =
     with_close (with_source sync_reconciler (sync_env s (Inr records)) [] s (7 + minute)
       [XGet sync_req, XNow, XFactory (easspec_Source (eas_spec s)) None])"
  if "xsrc_SecretRef (easspec_Source (eas_spec s)) = None"
  using that
  by (simp add: sync_Reconcile_def sync_env_def sync_scheduleNext_def sync_reconciler_def resolveSecret_def
      minute_def second_def Let_def)

lemma sync_sample_matched: "matched_ids rx (easspec_Selector (eas_spec sync_sample)) [cl_sample False []] = [''edge-1'']"
  by (simp add: matched_ids_def sync_sample_def cl_sample_def Match_def selector_of_def)

lemma sync_klib_ok: "klib_ok (xr_klib sync_reconciler)"
  by (simp add: sync_reconciler_def klib_ref_ok)

lemma sync_sample_projection:
  "projectRecords ff sync_records sync_sample [''edge-1''] = Inr ([(''edge-1'', [(''team'', ''b'')])], 1)"
  by (simp add: projectRecords_def project_loop_step record_claim_def sync_sample_def sync_records_def
      FieldString_def record_attrs_def Let_def)

definition sync_published :: ExternalAttributeSync where
  "sync_published = sync_sample\<lparr>eas_status := sync_success_status klib_ref sync_sample 7 1 1
     [\<lparr>oke_CollectorID = ''edge-1'', oke_Attributes = [(''team'', ''b'')]\<rparr>] 1\<rparr>"

lemma sync_sample_publishes:
  "sync_Reconcile sync_reconciler (sync_env sync_sample (Inr sync_records)) [] sync_req =
     ret [XGet sync_req, XNow, XFactory (easspec_Source (eas_spec sync_sample)) None, XFetch,
          XListCollectors ''ns'', XNow, XStatusUpdate sync_published, XNow, XClose]
       (requeue_after minute) None externalSyncReasonSynced"
proof -
  have ne: "sync_records \<noteq> []" "length sync_records = 1" by (simp_all add: sync_records_def)
  have own: "ownedKeysToStatus [(''edge-1'', [(''team'', ''b'')])] =
      ([\<lparr>oke_CollectorID = ''edge-1'', oke_Attributes = [(''team'', ''b'')]\<rparr>], False)"
    by (simp add: ownedKeysToStatus_def maxOwnedKeys_def)
  have un: "\<not> externalSyncStatusUnchanged K sync_sample m n os False" for K m n os
    by (simp add: externalSyncStatusUnchanged_def sync_sample_def)
  have src: "easspec_Source (eas_spec sync_sample) = \<lparr>xsrc_Kind = ''HTTP'', xsrc_HTTP = None, xsrc_SQL = None, xsrc_SecretRef = None\<rparr>"
    and ns: "om_namespace (eas_meta sync_sample) = ''ns''"
    by (simp_all add: sync_sample_def)
  show ?thesis
    by (subst sync_sample_run)
       (simp_all add: src ns with_source_def limiterForSource_def sync_env_def sync_reconciler_def matchedCollectors_def
        sync_sample_matched sync_sample_projection publish_claim_def ne own un sync_write_def at_schedule_def
        sync_emitEvent_def with_close_def durationUntil_def minute_def second_def ret_def sync_published_def Let_def)
qed

theorem claim_is_projection_witness:
  "easst_OwnedKeys (eas_status sync_published) = [\<lparr>oke_CollectorID = ''edge-1'', oke_Attributes = [(''team'', ''b'')]\<rparr>] \<and>
   truncated_status sync_published = Some False"
proof -
  have "xe_Get (sync_env sync_sample (Inr sync_records)) [XGet sync_req] = Inr sync_sample"
    by (simp add: sync_env_def)
  note t = claim_is_projection [OF sync_klib_ok this, of sync_published "[]"]
  have "XStatusUpdate sync_published \<in> set (rr_trace
      (sync_Reconcile sync_reconciler (sync_env sync_sample (Inr sync_records)) [] sync_req))"
    by (simp add: sync_sample_publishes)
  note t = t [OF this]
  have own: "easst_OwnedKeys (eas_status sync_published) = [\<lparr>oke_CollectorID = ''edge-1'', oke_Attributes = [(''team'', ''b'')]\<rparr>]"
      "easst_OwnedKeys (eas_status sync_sample) = [\<lparr>oke_CollectorID = ''edge-1'', oke_Attributes = [(''team'', ''a'')]\<rparr>]"
    by (simp_all add: sync_published_def sync_success_status_def sync_sample_def Let_def)
  show ?thesis using t unfolding own by (auto simp: Let_def split: if_splits)
qed

theorem outage_keeps_claim_witness:
  "easst_OwnedKeys (empty_result_status klib_ref sync_sample 7 0) = easst_OwnedKeys (eas_status sync_sample)"
proof -
  let ?E = "sync_env sync_sample (Inr [])"
  let ?s = "sync_sample\<lparr>eas_status := empty_result_status klib_ref sync_sample 7 0\<rparr>"
  have src: "easspec_Source (eas_spec sync_sample) = \<lparr>xsrc_Kind = ''HTTP'', xsrc_HTTP = None, xsrc_SQL = None, xsrc_SecretRef = None\<rparr>"
    and al: "\<not> easspec_AllowEmptyResults (eas_spec sync_sample)" "0 < easst_RecordsApplied (eas_status sync_sample)"
    by (simp_all add: sync_sample_def)
  have proj: "projectRecords ff [] sync_sample ids = Inr ([], 0)" for ff ids
    by (simp add: projectRecords_def sync_sample_def)
  have w: "XStatusUpdate ?s \<in> set (rr_trace (sync_Reconcile sync_reconciler ?E [] sync_req))"
    by (subst sync_sample_run)
       (simp_all add: src al proj with_source_def limiterForSource_def sync_env_def sync_reconciler_def matchedCollectors_def
        publish_claim_def sync_write_def at_schedule_def sync_emitEvent_def with_close_def Let_def)
  have "easst_OwnedKeys (eas_status ?s) = easst_OwnedKeys (eas_status sync_sample)"
    using outage_keeps_claim [OF sync_klib_ok _ al _ w] by (simp add: sync_env_def)
  then show ?thesis by simp
qed

theorem sync_settles_witness:
  "no_update (rr_trace (sync_Reconcile sync_reconciler (sync_env sync_published (Inr sync_records)) [] sync_req)) \<or>
   rr_outcome (sync_Reconcile sync_reconciler (sync_env sync_published (Inr sync_records)) [] sync_req)
     \<in> {externalSyncReasonSourceFailed, externalSyncReasonScheduleErr}"
proof -
  have w: "XStatusUpdate sync_published \<in> set (rr_trace
      (sync_Reconcile sync_reconciler (sync_env sync_sample (Inr sync_records)) [] sync_req))"
    by (simp add: sync_sample_publishes)
  show ?thesis
    using sync_settles [OF sync_klib_ok _ _ _ _ w, of sync_sample sync_records "[cl_sample False []]"
        "sync_env sync_published (Inr sync_records)" "[]"]
    by (auto simp: sync_sample_publishes) (auto simp: sync_env_def sync_records_def)
qed

theorem failures_use_backoff_witness:
  "rr_err (sync_Reconcile sync_reconciler (sync_env sync_sample (Inl (PlainError ''down''))) [] sync_req) \<noteq> None"
proof -
  let ?E = "sync_env sync_sample (Inl (PlainError ''down''))"
  have src: "easspec_Source (eas_spec sync_sample) = \<lparr>xsrc_Kind = ''HTTP'', xsrc_HTTP = None, xsrc_SQL = None, xsrc_SecretRef = None\<rparr>"
    by (simp add: sync_sample_def)
  have "rr_outcome (sync_Reconcile sync_reconciler ?E [] sync_req) = externalSyncReasonSourceFailed"
    by (simp add: sync_Reconcile_def sync_env_def sync_scheduleNext_def sync_reconciler_def resolveSecret_def src
        minute_def second_def with_close_def with_source_def limiterForSource_def source_failed_def
        sync_updateStatusError_def Let_def)
  from failures_use_backoff [OF _ this] show ?thesis by (simp add: sync_env_def)
qed

theorem owned_keys_comparison_witness:
  "\<not> ownedKeyEntriesEqual [\<lparr>oke_CollectorID = ''e'', oke_Attributes = [(''k'', ''v'')]\<rparr>]
       [\<lparr>oke_CollectorID = ''e'', oke_Attributes = [(''k'', ''w'')]\<rparr>]"
  using owned_keys_comparison [of "[\<lparr>oke_CollectorID = ''e'', oke_Attributes = [(''k'', ''v'')]\<rparr>]"
      "[\<lparr>oke_CollectorID = ''e'', oke_Attributes = [(''k'', ''w'')]\<rparr>]" "[]" "[]" "[]"]
  by (auto simp: plain_entry_def dest: map_upd_eqD1)

theorem source_closed_once_witness:
  "last (rr_trace (sync_Reconcile sync_reconciler (sync_env sync_sample (Inr sync_records)) [] sync_req)) = XClose"
proof -
  let ?r = "sync_Reconcile sync_reconciler (sync_env sync_sample (Inr sync_records)) [] sync_req"
  have "XClose \<in> set (rr_trace ?r)" by (simp add: sync_sample_publishes)
  with source_closed_once [of sync_reconciler "sync_env sync_sample (Inr sync_records)" "[]" sync_req]
  show ?thesis by auto
qed

end
