(* ===== verification/Matcher_Syntax.thy ===== *)
theory Matcher_Syntax
  imports Attr_Match
begin

text \<open>
  \<open>validateMatcherSyntax\<close> (\<open>api/v1alpha1/pipeline_webhook.go\<close>), the check every admission
  webhook runs on a matcher, and its relation to the evaluator's parser in \<open>Attr_Match\<close>: an
  admitted matcher parses there, so no admitted selector is dead on arrival for a syntactic
  reason.
\<close>

section \<open>The check\<close>

text \<open>
  \<open>^[a-zA-Z_][a-zA-Z0-9_.]*\s*(=|!=|=~|!~)\s*.+$\<close>.  The value must reach the end of the text
  without a newline, white space before it is free.
\<close>

definition rest_ok :: "string \<Rightarrow> bool" where
  "rest_ok r \<longleftrightarrow>
     takeWhile (\<lambda>c. c \<noteq> CHR 0x0A) (rev r) \<noteq> [] \<and>
     list_all re_space (dropWhile (\<lambda>c. c \<noteq> CHR 0x0A) (rev r))"

definition op_rest_ok :: "string \<Rightarrow> bool" where
  "op_rest_ok s =
     (if has_prefix s ''!='' \<or> has_prefix s ''!~'' then rest_ok (drop 2 s)
      else if has_prefix s ''=~'' then rest_ok (drop 2 s) \<or> rest_ok (drop 1 s)
      else has_prefix s ''='' \<and> rest_ok (drop 1 s))"

definition webhook_pattern :: "string \<Rightarrow> bool" where
  "webhook_pattern m =
     (case m of
        [] \<Rightarrow> False
      | c # s \<Rightarrow> key_start c \<and> op_rest_ok (dropWhile re_space (dropWhile key_char s)))"

definition validateMatcherSyntax :: "string \<Rightarrow> go_error option" where
  "validateMatcherSyntax matcher0 =
     (let matcher = trim_space matcher0
      in if matcher = [] then Some (PlainError ''matcher cannot be empty'')
         else if \<not> webhook_pattern matcher then
           Some (PlainError
             (''invalid Prometheus matcher syntax: '' @ matcher @ nl @
              ''Valid formats:'' @ nl @
              ''  - key=value (equals)'' @ nl @
              ''  - key!=value (not equals)'' @ nl @
              ''  - key=~regex (regex match)'' @ nl @
              ''  - key!~regex (regex not match)'' @ nl @
              ''Example: collector.os=linux, environment!=dev, team=~team-(a|b)''))
         else if contains_str matcher ''=='' then
           Some (PlainError (''use '' @ [CHR 0x27] @ ''='' @ [CHR 0x27] @ '' not '' @ [CHR 0x27] @
             ''=='' @ [CHR 0x27] @ '' for equality matching: '' @ matcher))
         else if count_list matcher (CHR ''='') > 1 \<and> \<not> contains_str matcher ''!='' \<and>
                 \<not> contains_str matcher ''=~'' \<and> \<not> contains_str matcher ''!~'' then
           Some (PlainError (''matcher contains multiple '' @ [CHR 0x27] @ ''='' @ [CHR 0x27] @
             '' operators - check syntax: '' @ matcher))
         else None)"

section \<open>The language of the check\<close>

definition webhook_parts :: "string \<Rightarrow> string \<Rightarrow> match_op \<Rightarrow> string \<Rightarrow> bool" where
  "webhook_parts m k op' v \<longleftrightarrow>
     (\<exists>w2 w3. m = k @ w2 @ op_text op' @ w3 @ v \<and> list_all re_space (w2 @ w3) \<and>
        k \<noteq> [] \<and> key_start (hd k) \<and> list_all key_char k \<and> v \<noteq> [] \<and> CHR 0x0A \<notin> set v)"

lemma rest_ok_iff:
  "rest_ok r \<longleftrightarrow> (\<exists>w v. r = w @ v \<and> list_all re_space w \<and> v \<noteq> [] \<and> CHR 0x0A \<notin> set v)"
proof
  let ?P = "\<lambda>c. c \<noteq> CHR 0x0A"
  assume r: "rest_ok r"
  have "r = rev (dropWhile ?P (rev r)) @ rev (takeWhile ?P (rev r))"
    by (metis rev_append rev_rev_ident takeWhile_dropWhile_id)
  moreover have "CHR 0x0A \<notin> set (rev (takeWhile ?P (rev r)))"
    using set_takeWhileD by fastforce
  ultimately show "\<exists>w v. r = w @ v \<and> list_all re_space w \<and> v \<noteq> [] \<and> CHR 0x0A \<notin> set v"
    using r unfolding rest_ok_def by (metis list_all_rev rev_is_Nil_conv)
next
  let ?P = "\<lambda>c. c \<noteq> CHR 0x0A"
  assume "\<exists>w v. r = w @ v \<and> list_all re_space w \<and> v \<noteq> [] \<and> CHR 0x0A \<notin> set v"
  then obtain w v where r: "r = w @ v" "list_all re_space w" "v \<noteq> []" "CHR 0x0A \<notin> set v" by blast
  have v: "\<And>c. c \<in> set (rev v) \<Longrightarrow> c \<noteq> CHR 0x0A" using r(4) by auto
  have t: "takeWhile ?P (rev r) = rev v @ takeWhile ?P (rev w)"
    using takeWhile_append2 [of "rev v" ?P "rev w"] v r(1) by simp
  have d: "dropWhile ?P (rev r) = dropWhile ?P (rev w)"
    using dropWhile_append2 [of "rev v" ?P "rev w"] v r(1) by simp
  have "list_all re_space (dropWhile ?P (rev w))"
    using r(2) by (auto simp: list_all_iff dest: set_dropWhileD)
  with t d r(3) show "rest_ok r" by (simp add: rest_ok_def)
qed

lemma op_rest_okI:
  assumes "has_prefix s (op_text t)" "rest_ok (drop (length (op_text t)) s)"
  shows "\<exists>op' r. s = op_text op' @ r \<and> rest_ok r"
  using assms(1)[unfolded has_prefix_split] assms(2) by blast

lemma op_rest_ok_iff:
  "op_rest_ok s \<longleftrightarrow> (\<exists>op' r. s = op_text op' @ r \<and> rest_ok r)"
proof
  have "has_prefix s ''=~'' \<Longrightarrow> has_prefix s ''=''" by (cases s) auto
  then show "op_rest_ok s \<Longrightarrow> \<exists>op' r. s = op_text op' @ r \<and> rest_ok r"
    using op_rest_okI [of s MNe] op_rest_okI [of s MNre] op_rest_okI [of s MRe] op_rest_okI [of s MEq]
    by (auto simp: op_rest_ok_def numeral_2_eq_2 split: if_splits)
next
  assume "\<exists>op' r. s = op_text op' @ r \<and> rest_ok r"
  then obtain op' r where s: "s = op_text op' @ r" and r: "rest_ok r" by blast
  then show "op_rest_ok s"
    by (cases op') (auto simp: op_rest_ok_def numeral_2_eq_2)
qed

text \<open>The regular expression of the webhooks, as a language, is what the check computes.\<close>

lemma webhook_pattern_language: "webhook_pattern m \<longleftrightarrow> (\<exists>k op' v. webhook_parts m k op' v)"
proof
  assume w: "webhook_pattern m"
  then obtain c s where m: "m = c # s" "key_start c" "op_rest_ok (dropWhile re_space (dropWhile key_char s))"
    by (auto simp: webhook_pattern_def split: list.splits)
  then obtain op' r where r: "dropWhile re_space (dropWhile key_char s) = op_text op' @ r" "rest_ok r"
    unfolding op_rest_ok_iff by blast
  then obtain w3 v where v: "r = w3 @ v" "list_all re_space w3" "v \<noteq> []" "CHR 0x0A \<notin> set v"
    unfolding rest_ok_iff by blast
  let ?k = "c # takeWhile key_char s" and ?w2 = "takeWhile re_space (dropWhile key_char s)"
  have "m = ?k @ ?w2 @ op_text op' @ w3 @ v"
    using m(1) r(1) v(1) by (metis append_Cons append_assoc takeWhile_dropWhile_id)
  moreover have "list_all re_space (?w2 @ w3)" "list_all key_char ?k"
    using v(2) key_start_key [OF m(2)] by (auto simp: list_all_iff dest: set_takeWhileD)
  ultimately have "webhook_parts m ?k op' v"
    unfolding webhook_parts_def using v(3,4) m(2)
    by (intro exI [of _ ?w2] exI [of _ w3]) simp
  then show "\<exists>k op' v. webhook_parts m k op' v" by blast
next
  assume "\<exists>k op' v. webhook_parts m k op' v"
  then obtain k op' v w2 w3 where m: "m = k @ w2 @ op_text op' @ w3 @ v"
    and ws: "list_all re_space w2" "list_all re_space w3"
    and k: "k \<noteq> []" "key_start (hd k)" "list_all key_char k"
    and v: "v \<noteq> []" "CHR 0x0A \<notin> set v"
    by (auto simp: webhook_parts_def)
  obtain c s where c: "k = c # s" using k(1) by (cases k) auto
  obtain d t where d: "op_text op' = d # t" using op_text_Cons by blast
  have nd: "\<not> re_space d" "\<not> key_char d" using op_text_hd [OF d] by auto
  let ?tail = "op_text op' @ w3 @ v"
  have "w2 @ ?tail = [] \<or> \<not> key_char (hd (w2 @ ?tail))"
    using nd d ws(1) re_space_not_key by (cases w2) auto
  then have 1: "dropWhile key_char (s @ w2 @ ?tail) = w2 @ ?tail"
    using key_run(2) [of s "w2 @ ?tail"] k(3) c by simp
  have 2: "dropWhile re_space (w2 @ ?tail) = ?tail"
    using dropWhile_append2 [of w2 re_space ?tail] ws(1) nd(1) d by (simp add: list_all_iff)
  have "op_rest_ok ?tail"
    unfolding op_rest_ok_iff rest_ok_iff using ws(2) v by blast
  with m c k(2) 1 2 show "webhook_pattern m" by (simp add: webhook_pattern_def)
qed

lemma webhook_parts_re_parts:
  assumes "webhook_parts m k op' v" "list_all re_space a" "list_all re_space b"
  shows "re_parts (a @ m @ b) k op' v"
proof -
  obtain w2 w3 where "m = k @ w2 @ op_text op' @ w3 @ v" "list_all re_space (w2 @ w3)"
    using assms(1) by (auto simp: webhook_parts_def)
  with assms show ?thesis
    unfolding re_parts_def webhook_parts_def
    by (intro exI [of _ a] exI [of _ w2] exI [of _ w3] exI [of _ b]) auto
qed

lemma validateMatcherSyntax_pattern:
  "validateMatcherSyntax m = None \<Longrightarrow> webhook_pattern (trim_space m)"
  by (auto simp: validateMatcherSyntax_def Let_def split: if_splits)

section \<open>Admitted matchers parse\<close>

lemma strip_front_split:
  "\<exists>a. s = a @ strip_front es n s \<and> set a \<subseteq> (\<Union>e \<in> set es. set e)"
proof (induction n arbitrary: s)
  case (Suc n)
  show ?case
  proof (cases "find (has_prefix s) es")
    case (Some e)
    then have e: "e \<in> set es" "has_prefix s e" by (auto simp: find_Some_iff)
    obtain a where a: "drop (length e) s = a @ strip_front es n (drop (length e) s)"
      "set a \<subseteq> (\<Union>e \<in> set es. set e)" using Suc.IH by blast
    have "s = (e @ a) @ strip_front es (Suc n) s"
      using e(2)[unfolded has_prefix_split] a(1) Some by simp
    with a(2) e(1) show ?thesis by (intro exI [of _ "e @ a"]) auto
  qed simp
qed simp

text \<open>What \<open>TrimSpace\<close> strips of a text the evaluator's \<open>\s\<close> strips too, unless the text has
  a vertical tab or a byte outside ASCII.\<close>

definition plain_char :: "char \<Rightarrow> bool" where
  "plain_char c \<longleftrightarrow> (of_char c :: nat) < 128 \<and> c \<noteq> CHR 0x0B"

lemma space_encodings_plain: "\<forall>e \<in> set space_encodings. \<forall>c \<in> set e. plain_char c \<longrightarrow> re_space c"
  by (simp add: space_encodings_def plain_char_def re_space_def)

lemma trim_space_split:
  "\<exists>a b. m = a @ trim_space m @ b \<and> set (a @ b) \<subseteq> (\<Union>e \<in> set space_encodings. set e)"
proof -
  let ?l = "strip_front space_encodings (length m) m"
  obtain a where a: "m = a @ ?l" "set a \<subseteq> (\<Union>e \<in> set space_encodings. set e)"
    using strip_front_split by blast
  obtain b where b: "rev ?l = b @ strip_front (map rev space_encodings) (length ?l) (rev ?l)"
    "set b \<subseteq> (\<Union>e \<in> set (map rev space_encodings). set e)"
    using strip_front_split by blast
  from b(1) have "?l = trim_space m @ rev b"
    unfolding trim_space_def Let_def by (metis rev_append rev_rev_ident)
  with a b(2) show ?thesis by (intro exI [of _ a] exI [of _ "rev b"]) auto
qed

lemma trim_space_plain:
  assumes "list_all plain_char m"
  obtains a b where "m = a @ trim_space m @ b" "list_all re_space a" "list_all re_space b"
proof -
  obtain a b where m: "m = a @ trim_space m @ b" "set (a @ b) \<subseteq> (\<Union>e \<in> set space_encodings. set e)"
    using trim_space_split by blast
  have "\<And>c. c \<in> set (a @ b) \<Longrightarrow> plain_char c"
    using assms m(1) by (metis UnI1 UnI2 UnE list_all_iff set_append)
  with m(2) space_encodings_plain have "\<And>c. c \<in> set (a @ b) \<Longrightarrow> re_space c" by blast
  with m(1) show ?thesis by (intro that [of a b]) (auto simp: list_all_iff)
qed

text \<open>
  A matcher that an admission webhook accepts is one the evaluator parses.  The webhook
  checks the matcher without its outer Unicode white space, the evaluator the matcher as it
  is, with the white space of its regular expression: so the claim is for matchers without
  vertical tabs and non-ASCII bytes; for the trimmed matcher it holds without exception.
\<close>

theorem admitted_matcher_parses:
  assumes "validateMatcherSyntax m = None"
  shows "matcherPattern (trim_space m) \<noteq> None \<and> (list_all plain_char m \<longrightarrow> matcherPattern m \<noteq> None)"
proof -
  obtain k op' v where w: "webhook_parts (trim_space m) k op' v"
    using validateMatcherSyntax_pattern [OF assms] unfolding webhook_pattern_language by blast
  have "matcherPattern (trim_space m) \<noteq> None"
    using matcherPattern_complete webhook_parts_re_parts [OF w, of "[]" "[]"] by fastforce
  moreover have "matcherPattern m \<noteq> None" if p: "list_all plain_char m"
  proof -
    obtain a b where "m = a @ trim_space m @ b" "list_all re_space a" "list_all re_space b"
      using trim_space_plain [OF p] .
    then show ?thesis using matcherPattern_complete webhook_parts_re_parts [OF w, of a b] by fastforce
  qed
  ultimately show ?thesis by blast
qed

theorem admitted_matcher_parses_witness:
  "matcherPattern '' team =~ a|b '' \<noteq> None"
proof -
  have "validateMatcherSyntax '' team =~ a|b '' = None" "list_all plain_char '' team =~ a|b ''"
    by code_simp+
  from admitted_matcher_parses [OF this(1)] this(2) show ?thesis by simp
qed

text \<open>The exception is real: a leading vertical tab is admitted and never matches anything.\<close>

lemma vertical_tab_admitted:
  "validateMatcherSyntax (CHR 0x0B # ''team=a'') = None \<and> matcherPattern (CHR 0x0B # ''team=a'') = None"
  by code_simp

text \<open>Neither webhook nor the check above compiles the expression of a regex matcher.\<close>

lemma invalid_regex_admitted:
  assumes "rx ''('' = None"
  shows "validateMatcherSyntax ''team=~('' = None \<and>
         matchOne rx ''team=~('' cid attrs = Inl (''invalid regex in matcher '' @ go_quote ''team=~('')"
proof -
  have "matcherPattern ''team=~('' = Some (''team'', MRe, ''('')" "validateMatcherSyntax ''team=~('' = None"
    by code_simp+
  with assms show ?thesis by (simp add: matchOne_def unquote_def)
qed

end
