(* ===== verification/Tenant_Checker.thy ===== *)
theory Tenant_Checker
  imports Attr_Match
begin

text \<open>
  \<open>internal/tenant/checker.go\<close> and \<open>api/v1alpha1/webhook_tenant.go\<close>: the check that binds a
  user to the matchers of the tenant policies that apply to him.  The interface
  \<open>MatcherChecker\<close> the webhooks call is a record of its two methods, its contract the locale
  \<open>tenancy\<close>; the concrete \<open>Checker\<close> is interpreted as an instance of it for every cluster
  state and every pattern of failing reads.
\<close>

section \<open>Data\<close>

abbreviation UserKind :: string where "UserKind \<equiv> ''User''"
abbreviation GroupKind :: string where "GroupKind \<equiv> ''Group''"
abbreviation ServiceAccountKind :: string where "ServiceAccountKind \<equiv> ''ServiceAccount''"
abbreviation serviceAccountUsernamePrefix :: string where
  "serviceAccountUsernamePrefix \<equiv> ''system:serviceaccount:''"

text \<open>\<open>rbacv1.Subject\<close>, \<open>authnv1.UserInfo\<close> and \<open>metav1.LabelSelector\<close>.\<close>

record Subject =
  sub_Kind :: string
  sub_Name :: string
  sub_Namespace :: string

record UserInfo =
  ui_Username :: string
  ui_UID :: string
  ui_Groups :: "string list"
  ui_Extra :: "(string \<times> string list) list"

record LabelSelectorRequirement =
  lsr_Key :: string
  lsr_Operator :: string
  lsr_Values :: "string list"

record LabelSelector =
  ls_MatchLabels :: gomap
  ls_MatchExpressions :: "LabelSelectorRequirement list"

record TenantPolicySpec =
  tps_Subjects :: "Subject list"
  tps_RequiredMatchers :: "string list"
  tps_NamespaceSelector :: "LabelSelector option"

record TenantPolicyStatus =
  tpst_ObservedGeneration :: int
  tpst_BoundSubjectCount :: int
  tpst_Conditions :: "cond list"

record TenantPolicy =
  tp_meta :: objmeta
  tp_spec :: TenantPolicySpec
  tp_status :: TenantPolicyStatus

text \<open>
  \<open>metav1.LabelSelectorAsSelector\<close> is library code: a parameter that either fails or gives
  the two methods the checker calls, \<open>Empty\<close> and \<open>Matches\<close>.
\<close>

record label_query =
  lq_Empty :: bool
  lq_Matches :: "gomap \<Rightarrow> bool"

type_synonym label_lib = "LabelSelector \<Rightarrow> go_error + label_query"

datatype tenant_call = ListTenantPolicies | GetNamespace string

text \<open>
  The checker's reader: what a read returns may depend on the reads before it.  The last field
  is the iteration order of the map the denial message is built from.
\<close>

record tenant_env =
  te_List :: "tenant_call list \<Rightarrow> go_error + TenantPolicy list"
  te_Namespace :: "tenant_call list \<Rightarrow> string \<Rightarrow> go_error + gomap"
  te_selector :: label_lib
  te_map_order :: "string list \<Rightarrow> string list"

section \<open>The checker\<close>

fun subjectMatchesUser :: "Subject list \<Rightarrow> UserInfo \<Rightarrow> bool" where
  "subjectMatchesUser [] info = False"
| "subjectMatchesUser (s # subjects) info =
     (if sub_Kind s = UserKind then
        (if sub_Name s \<noteq> [] \<and> sub_Name s = ui_Username info then True
         else subjectMatchesUser subjects info)
      else if sub_Kind s = GroupKind then
        (if sub_Name s \<in> set (ui_Groups info) then True else subjectMatchesUser subjects info)
      else if sub_Kind s = ServiceAccountKind then
        (if serviceAccountUsernamePrefix @ sub_Namespace s @ '':'' @ sub_Name s = ui_Username info
         then True else subjectMatchesUser subjects info)
      else subjectMatchesUser subjects info)"

definition namespaceMatches ::
    "tenant_env \<Rightarrow> LabelSelector option \<Rightarrow> string \<Rightarrow> tenant_call list \<Rightarrow>
       tenant_call list \<times> (go_error + bool)" where
  "namespaceMatches E sel0 namespace tr =
     (case sel0 of
        None \<Rightarrow> (tr, Inr True)
      | Some sel \<Rightarrow>
          (case te_selector E sel of
             Inl err \<Rightarrow> (tr, Inl (WrapError ''invalid namespaceSelector on TenantPolicy: '' err ''''))
           | Inr selector \<Rightarrow>
               if lq_Empty selector then (tr, Inr True)
               else let tr = tr @ [GetNamespace namespace]
                    in (case te_Namespace E tr namespace of
                          Inl err \<Rightarrow>
                            (tr, Inl (WrapError (''failed to get namespace '' @ go_quote namespace @
                               '' for TenantPolicy namespaceSelector: '') err ''''))
                        | Inr labels \<Rightarrow> (tr, Inr (lq_Matches selector labels)))))"

fun matched_policies_loop ::
    "tenant_env \<Rightarrow> UserInfo \<Rightarrow> string \<Rightarrow> TenantPolicy list \<Rightarrow> tenant_call list \<Rightarrow> TenantPolicy list \<Rightarrow>
       tenant_call list \<times> (go_error + TenantPolicy list)" where
  "matched_policies_loop E info namespace [] tr matched = (tr, Inr matched)"
| "matched_policies_loop E info namespace (p # ps) tr matched =
     (if \<not> subjectMatchesUser (tps_Subjects (tp_spec p)) info
      then matched_policies_loop E info namespace ps tr matched
      else case namespaceMatches E (tps_NamespaceSelector (tp_spec p)) namespace tr of
             (tr, Inl nsErr) \<Rightarrow> (tr, Inl nsErr)
           | (tr, Inr ok) \<Rightarrow>
               if \<not> ok then matched_policies_loop E info namespace ps tr matched
               else matched_policies_loop E info namespace ps tr (matched @ [p]))"

definition allowed_matchers :: "TenantPolicy list \<Rightarrow> string list" where
  "allowed_matchers matched =
     fold (\<lambda>p allowed. fold List.insert (tps_RequiredMatchers (tp_spec p)) allowed) matched []"

definition denial :: "tenant_env \<Rightarrow> TenantPolicy list \<Rightarrow> go_error" where
  "denial E matched =
     PlainError
       (''tenant policy denies this request: matchers must include at least one of ['' @
        str_join (te_map_order E (allowed_matchers matched)) '', '' @
        ''] (required by TenantPolicy: '' @
        str_join (map (\<lambda>p. om_name (tp_meta p)) matched) '', '' @ '')'')"

text \<open>A nil checker is \<open>None\<close>, and so is the request of a context that carries none.\<close>

definition Check ::
    "tenant_env option \<Rightarrow> UserInfo option \<Rightarrow> tenant_call list \<Rightarrow> string \<Rightarrow> string list \<Rightarrow>
       tenant_call list \<times> go_error option" where
  "Check c req tr namespace matchers =
     (case c of
        None \<Rightarrow> (tr, None)
      | Some E \<Rightarrow>
          (case req of
             None \<Rightarrow> (tr, None)
           | Some info \<Rightarrow>
               (let tr = tr @ [ListTenantPolicies]
                in case te_List E tr of
                     Inl err \<Rightarrow> (tr, Some (WrapError ''failed to list TenantPolicy resources: '' err ''''))
                   | Inr policies \<Rightarrow>
                       (case matched_policies_loop E info namespace policies tr [] of
                          (tr, Inl nsErr) \<Rightarrow> (tr, Some nsErr)
                        | (tr, Inr matched) \<Rightarrow>
                            if matched = [] then (tr, None)
                            else if list_ex (\<lambda>m. m \<in> set (allowed_matchers matched)) matchers
                            then (tr, None)
                            else (tr, Some (denial E matched))))))"

fun matches_loop ::
    "tenant_env \<Rightarrow> UserInfo \<Rightarrow> string \<Rightarrow> TenantPolicy list \<Rightarrow> tenant_call list \<Rightarrow>
       tenant_call list \<times> (go_error + bool)" where
  "matches_loop E info namespace [] tr = (tr, Inr False)"
| "matches_loop E info namespace (p # ps) tr =
     (if \<not> subjectMatchesUser (tps_Subjects (tp_spec p)) info
      then matches_loop E info namespace ps tr
      else case namespaceMatches E (tps_NamespaceSelector (tp_spec p)) namespace tr of
             (tr, Inl nsErr) \<Rightarrow> (tr, Inl nsErr)
           | (tr, Inr ok) \<Rightarrow> if ok then (tr, Inr True) else matches_loop E info namespace ps tr)"

definition Matches ::
    "tenant_env option \<Rightarrow> UserInfo option \<Rightarrow> tenant_call list \<Rightarrow> string \<Rightarrow>
       tenant_call list \<times> (go_error + bool)" where
  "Matches c req tr namespace =
     (case c of
        None \<Rightarrow> (tr, Inr False)
      | Some E \<Rightarrow>
          (case req of
             None \<Rightarrow> (tr, Inr False)
           | Some info \<Rightarrow>
               (let tr = tr @ [ListTenantPolicies]
                in case te_List E tr of
                     Inl err \<Rightarrow> (tr, Inl (WrapError ''failed to list TenantPolicy resources: '' err ''''))
                   | Inr policies \<Rightarrow> matches_loop E info namespace policies tr)))"

section \<open>The interface the webhooks call\<close>

record 'tr MatcherChecker =
  mc_Check :: "'tr \<Rightarrow> string \<Rightarrow> string list \<Rightarrow> 'tr \<times> go_error option"
  mc_Matches :: "'tr \<Rightarrow> string \<Rightarrow> 'tr \<times> (go_error + bool)"

definition runTenantChecks ::
    "'tr MatcherChecker option \<Rightarrow> 'tr \<Rightarrow> string \<Rightarrow> string list \<Rightarrow> string list \<Rightarrow>
       'tr \<times> go_error option" where
  "runTenantChecks checker tr namespace matchers collectorIDs =
     (case checker of
        None \<Rightarrow> (tr, None)
      | Some c \<Rightarrow>
          (case mc_Check c tr namespace matchers of
             (tr, Some err) \<Rightarrow> (tr, Some err)
           | (tr, None) \<Rightarrow>
               if collectorIDs = [] then (tr, None)
               else (case mc_Matches c tr namespace of
                       (tr, Inl err) \<Rightarrow> (tr, Some err)
                     | (tr, Inr matched) \<Rightarrow>
                         if \<not> matched then (tr, None)
                         else (tr, Some (PlainError
                           (''spec.selector.collectorIDs: Forbidden: users under a TenantPolicy '' @
                            ''may not select collectors by ID; use matchers instead''))))))"

text \<open>
  The contract: \<open>governed\<close> says whether some policy applies in the namespace and
  \<open>required\<close> which matchers these policies name.
\<close>

locale tenancy =
  fixes C :: "'tr MatcherChecker"
    and governed :: "string \<Rightarrow> bool"
    and required :: "string \<Rightarrow> string set"
  assumes Check_sound:
      "snd (mc_Check C tr ns ms) = None \<Longrightarrow> governed ns \<Longrightarrow> set ms \<inter> required ns \<noteq> {}"
    and Matches_exact: "snd (mc_Matches C tr ns) = Inr b \<Longrightarrow> b = governed ns"
begin

lemma runTenantChecks_sound:
  assumes "snd (runTenantChecks (Some C) tr ns ms ids) = None" "governed ns"
  shows "ids = [] \<and> set ms \<inter> required ns \<noteq> {}"
proof -
  have c: "snd (mc_Check C tr ns ms) = None"
    using assms(1) by (auto simp: runTenantChecks_def split: prod.splits option.splits)
  moreover have "ids = []"
  proof (rule ccontr)
    assume "ids \<noteq> []"
    with assms(1) c obtain b where "snd (mc_Matches C (fst (mc_Check C tr ns ms)) ns) = Inr b" "\<not> b"
      by (auto simp: runTenantChecks_def split: prod.splits option.splits sum.splits if_splits)
    with Matches_exact assms(2) show False by blast
  qed
  ultimately show ?thesis using Check_sound assms(2) by blast
qed

end

section \<open>The checker keeps the contract\<close>

text \<open>
  A cluster state: the policies and the labels of each namespace, and any pattern of reads
  that fail.
\<close>

record tenant_world =
  tw_policies :: "TenantPolicy list"
  tw_labels :: "string \<Rightarrow> gomap"
  tw_fault :: "tenant_call list \<Rightarrow> go_error option"
  tw_selector :: label_lib
  tw_map_order :: "string list \<Rightarrow> string list"

definition world_env :: "tenant_world \<Rightarrow> tenant_env" where
  "world_env W =
     \<lparr>te_List = (\<lambda>tr. case tw_fault W tr of Some e \<Rightarrow> Inl e | None \<Rightarrow> Inr (tw_policies W)),
      te_Namespace = (\<lambda>tr ns. case tw_fault W tr of Some e \<Rightarrow> Inl e | None \<Rightarrow> Inr (tw_labels W ns)),
      te_selector = tw_selector W,
      te_map_order = tw_map_order W\<rparr>"

definition selects :: "tenant_world \<Rightarrow> LabelSelector option \<Rightarrow> string \<Rightarrow> bool" where
  "selects W sel ns \<longleftrightarrow>
     (case sel of None \<Rightarrow> True
      | Some s \<Rightarrow> (case tw_selector W s of
                     Inl e \<Rightarrow> False
                   | Inr q \<Rightarrow> lq_Empty q \<or> lq_Matches q (tw_labels W ns)))"

definition applies :: "tenant_world \<Rightarrow> UserInfo \<Rightarrow> string \<Rightarrow> TenantPolicy \<Rightarrow> bool" where
  "applies W info ns p \<longleftrightarrow>
     subjectMatchesUser (tps_Subjects (tp_spec p)) info \<and>
     selects W (tps_NamespaceSelector (tp_spec p)) ns"

definition governed :: "tenant_world \<Rightarrow> UserInfo \<Rightarrow> string \<Rightarrow> bool" where
  "governed W info ns \<longleftrightarrow> (\<exists>p \<in> set (tw_policies W). applies W info ns p)"

definition required_matchers :: "tenant_world \<Rightarrow> UserInfo \<Rightarrow> string \<Rightarrow> string set" where
  "required_matchers W info ns =
     (\<Union>p \<in> {p \<in> set (tw_policies W). applies W info ns p}. set (tps_RequiredMatchers (tp_spec p)))"

definition checker_of :: "tenant_world \<Rightarrow> UserInfo option \<Rightarrow> tenant_call list MatcherChecker" where
  "checker_of W req =
     \<lparr>mc_Check = Check (Some (world_env W)) req, mc_Matches = Matches (Some (world_env W)) req\<rparr>"

lemma te_List_world: "te_List (world_env W) tr = (case tw_fault W tr of Some e \<Rightarrow> Inl e | None \<Rightarrow> Inr (tw_policies W))"
  by (simp add: world_env_def)

lemma namespaceMatches_world:
  "snd (namespaceMatches (world_env W) sel ns tr) = Inr b \<Longrightarrow> b = selects W sel ns"
  by (auto simp: namespaceMatches_def selects_def world_env_def Let_def
      split: option.splits sum.splits if_splits)

lemma matched_policies_loop_world:
  "snd (matched_policies_loop (world_env W) info ns ps tr acc) = Inr ms \<Longrightarrow>
   ms = acc @ filter (applies W info ns) ps"
proof (induction ps arbitrary: tr acc)
  case (Cons p ps)
  let ?sel = "tps_NamespaceSelector (tp_spec p)"
  show ?case
  proof (cases "subjectMatchesUser (tps_Subjects (tp_spec p)) info")
    case True
    with Cons.prems obtain tr' ok where ok: "namespaceMatches (world_env W) ?sel ns tr = (tr', Inr ok)"
      by (auto split: prod.splits sum.splits)
    then have "applies W info ns p = ok"
      using True namespaceMatches_world [of W ?sel ns tr ok] by (simp add: applies_def)
    with Cons.prems Cons.IH [of tr' acc] Cons.IH [of tr' "acc @ [p]"] True ok show ?thesis
      by (cases ok) simp_all
  next
    case False
    with Cons.prems Cons.IH [of tr acc] show ?thesis by (simp add: applies_def)
  qed
qed simp

lemma matches_loop_world:
  "snd (matches_loop (world_env W) info ns ps tr) = Inr b \<Longrightarrow> b \<longleftrightarrow> (\<exists>p \<in> set ps. applies W info ns p)"
proof (induction ps arbitrary: tr)
  case (Cons p ps)
  let ?sel = "tps_NamespaceSelector (tp_spec p)"
  show ?case
  proof (cases "subjectMatchesUser (tps_Subjects (tp_spec p)) info")
    case True
    with Cons.prems obtain tr' ok where ok: "namespaceMatches (world_env W) ?sel ns tr = (tr', Inr ok)"
      by (auto split: prod.splits sum.splits)
    then have "applies W info ns p = ok"
      using True namespaceMatches_world [of W ?sel ns tr ok] by (simp add: applies_def)
    with Cons.prems Cons.IH [of tr'] True ok show ?thesis by (cases ok) simp_all
  next
    case False
    with Cons.prems Cons.IH [of tr] show ?thesis by (simp add: applies_def)
  qed
qed simp

lemma set_allowed_matchers:
  "set (allowed_matchers ps) = (\<Union>p \<in> set ps. set (tps_RequiredMatchers (tp_spec p)))"
proof -
  have "set (fold (\<lambda>p allowed. fold List.insert (tps_RequiredMatchers (tp_spec p)) allowed) ps acc) =
          (\<Union>p \<in> set ps. set (tps_RequiredMatchers (tp_spec p))) \<union> set acc" for acc
    by (induction ps arbitrary: acc) (auto simp: set_fold_insert)
  then show ?thesis by (simp add: allowed_matchers_def)
qed

lemma Check_world:
  assumes "snd (Check (Some (world_env W)) (Some info) tr ns ms) = None"
  shows "governed W info ns \<Longrightarrow> set ms \<inter> required_matchers W info ns \<noteq> {}"
proof -
  assume g: "governed W info ns"
  let ?tr = "tr @ [ListTenantPolicies]"
  from assms have l: "te_List (world_env W) ?tr = Inr (tw_policies W)"
    by (auto simp: Check_def Let_def world_env_def split: option.splits)
  obtain tr' r where loop:
    "matched_policies_loop (world_env W) info ns (tw_policies W) ?tr [] = (tr', r)" by force
  with assms l obtain matched where r: "r = Inr matched"
    by (cases r) (simp_all add: Check_def Let_def)
  with loop have m: "matched = filter (applies W info ns) (tw_policies W)"
    using matched_policies_loop_world [of W info ns "tw_policies W" ?tr "[]" matched] by simp
  with g have "matched \<noteq> []" by (auto simp: governed_def filter_empty_conv)
  with assms l loop r have "\<exists>x \<in> set ms. x \<in> set (allowed_matchers matched)"
    by (auto simp: Check_def Let_def list_ex_iff split: if_splits)
  with m show ?thesis by (auto simp: set_allowed_matchers required_matchers_def)
qed

lemma Matches_world:
  assumes "snd (Matches (Some (world_env W)) (Some info) tr ns) = Inr b"
  shows "b = governed W info ns"
proof -
  have "snd (matches_loop (world_env W) info ns (tw_policies W) (tr @ [ListTenantPolicies])) = Inr b"
    using assms by (auto simp: Matches_def Let_def te_List_world split: option.splits)
  from matches_loop_world [OF this] show ?thesis by (simp add: governed_def)
qed

interpretation tenant: tenancy "checker_of W (Some info)" "governed W info" "required_matchers W info"
  for W info
proof
  show "set ms \<inter> required_matchers W info ns \<noteq> {}"
    if "snd (mc_Check (checker_of W (Some info)) tr ns ms) = None" "governed W info ns" for tr ns ms
    using Check_world that by (simp add: checker_of_def)
  show "b = governed W info ns"
    if "snd (mc_Matches (checker_of W (Some info)) tr ns) = Inr b" for tr ns b
    using Matches_world that by (simp add: checker_of_def)
qed

section \<open>What a reading cluster decides\<close>

text \<open>Every read succeeds and every namespace selector of a policy is valid.\<close>

definition healthy :: "tenant_world \<Rightarrow> bool" where
  "healthy W \<longleftrightarrow>
     (\<forall>tr. tw_fault W tr = None) \<and>
     (\<forall>p \<in> set (tw_policies W). \<forall>s e. tps_NamespaceSelector (tp_spec p) = Some s \<longrightarrow> tw_selector W s \<noteq> Inl e)"

lemma namespaceMatches_healthy:
  assumes "healthy W" "p \<in> set (tw_policies W)"
  shows "snd (namespaceMatches (world_env W) (tps_NamespaceSelector (tp_spec p)) ns tr) =
           Inr (selects W (tps_NamespaceSelector (tp_spec p)) ns)"
  using assms
  by (auto simp: healthy_def namespaceMatches_def selects_def world_env_def Let_def
      split: option.splits sum.splits)

lemma matched_policies_loop_healthy:
  assumes "healthy W"
  shows "set ps \<subseteq> set (tw_policies W) \<Longrightarrow>
    snd (matched_policies_loop (world_env W) info ns ps tr acc) = Inr (acc @ filter (applies W info ns) ps)"
proof (induction ps arbitrary: tr acc)
  case (Cons p ps)
  with namespaceMatches_healthy [OF assms, of p ns tr] show ?case
    by (auto simp: applies_def split: prod.splits)
qed simp

lemma matches_loop_healthy:
  assumes "healthy W"
  shows "set ps \<subseteq> set (tw_policies W) \<Longrightarrow>
    snd (matches_loop (world_env W) info ns ps tr) = Inr (\<exists>p \<in> set ps. applies W info ns p)"
proof (induction ps arbitrary: tr)
  case (Cons p ps)
  with namespaceMatches_healthy [OF assms, of p ns tr] show ?case
    by (auto simp: applies_def split: prod.splits)
qed simp

lemma Check_healthy:
  assumes "healthy W"
  shows "snd (Check (Some (world_env W)) (Some info) tr ns ms) = None \<longleftrightarrow>
           \<not> governed W info ns \<or> set ms \<inter> required_matchers W info ns \<noteq> {}"
proof -
  let ?tr = "tr @ [ListTenantPolicies]" and ?ps = "tw_policies W"
  let ?m = "filter (applies W info ns) ?ps"
  have loop: "snd (matched_policies_loop (world_env W) info ns ?ps ?tr []) = Inr ?m"
    using matched_policies_loop_healthy [OF assms, of ?ps info ns ?tr "[]"] by simp
  have "te_List (world_env W) ?tr = Inr ?ps" using assms by (simp add: te_List_world healthy_def)
  with loop have "snd (Check (Some (world_env W)) (Some info) tr ns ms) = None \<longleftrightarrow>
      ?m = [] \<or> (\<exists>x \<in> set ms. x \<in> set (allowed_matchers ?m))"
    by (auto simp: Check_def Let_def list_ex_iff split: prod.splits if_splits)
  moreover have "?m = [] \<longleftrightarrow> \<not> governed W info ns"
    by (auto simp: governed_def filter_empty_conv)
  moreover have "set (allowed_matchers ?m) = required_matchers W info ns"
    by (auto simp: set_allowed_matchers required_matchers_def)
  ultimately show ?thesis by auto
qed

lemma Matches_healthy:
  assumes "healthy W"
  shows "snd (Matches (Some (world_env W)) (Some info) tr ns) = Inr (governed W info ns)"
  using assms matches_loop_healthy [OF assms, of "tw_policies W" info ns "tr @ [ListTenantPolicies]"]
  by (simp add: Matches_def Let_def te_List_world healthy_def governed_def)

text \<open>
  C7: on a cluster whose reads succeed and whose policies are well formed, the tenant check
  admits a selector exactly when no policy applies to the user in the namespace, or it lists no
  collector by ID and names one of the matchers the applying policies require.
\<close>

theorem tenant_decision_exact:
  assumes "healthy W"
  shows "snd (runTenantChecks (Some (checker_of W (Some info))) tr ns ms ids) = None \<longleftrightarrow>
           \<not> governed W info ns \<or> (ids = [] \<and> set ms \<inter> required_matchers W info ns \<noteq> {})"
proof -
  let ?C = "checker_of W (Some info)"
  obtain tr' c where c: "mc_Check ?C tr ns ms = (tr', c)" by force
  obtain tr'' r where r: "mc_Matches ?C tr' ns = (tr'', r)" by force
  have "c = None \<longleftrightarrow> \<not> governed W info ns \<or> set ms \<inter> required_matchers W info ns \<noteq> {}"
    using Check_healthy [OF assms, of info tr ns ms] c by (simp add: checker_of_def)
  moreover have "r = Inr (governed W info ns)"
    using Matches_healthy [OF assms, of info tr' ns] r by (simp add: checker_of_def)
  ultimately show ?thesis using c r by (auto simp: runTenantChecks_def split: option.splits)
qed

definition billing_policy :: TenantPolicy where
  "billing_policy =
     \<lparr>tp_meta = \<lparr>om_namespace = [], om_name = ''billing'', om_generation = 1, om_deleting = False,
                om_finalizers = [], om_labels = [], om_annotations = []\<rparr>,
      tp_spec = \<lparr>tps_Subjects = [\<lparr>sub_Kind = GroupKind, sub_Name = ''team-billing'', sub_Namespace = []\<rparr>],
                 tps_RequiredMatchers = [''team=billing'', ''team=payments''],
                 tps_NamespaceSelector = None\<rparr>,
      tp_status = \<lparr>tpst_ObservedGeneration = 0, tpst_BoundSubjectCount = 0, tpst_Conditions = []\<rparr>\<rparr>"

definition billing_world :: tenant_world where
  "billing_world =
     \<lparr>tw_policies = [billing_policy], tw_labels = (\<lambda>_. []), tw_fault = (\<lambda>_. None),
      tw_selector = (\<lambda>_. Inl (PlainError ''invalid'')), tw_map_order = (\<lambda>xs. xs)\<rparr>"

definition billing_user :: UserInfo where
  "billing_user = \<lparr>ui_Username = ''ana'', ui_UID = ''1'', ui_Groups = [''team-billing''], ui_Extra = []\<rparr>"

lemma billing_governed: "governed billing_world billing_user ns"
  by (simp add: governed_def billing_world_def applies_def selects_def billing_policy_def billing_user_def)

lemma billing_healthy: "healthy billing_world"
  by (simp add: healthy_def billing_world_def billing_policy_def)

theorem tenant_decision_exact_witness:
  "snd (runTenantChecks (Some (checker_of billing_world (Some billing_user))) [] ''default''
          [''team=billing''] [''c1'']) \<noteq> None"
  using tenant_decision_exact [OF billing_healthy, of billing_user "[]" "''default''" "[''team=billing'']" "[''c1'']"]
    billing_governed by simp

end
