(* ===== verification/Tenant_Policy.thy ===== *)
theory Tenant_Policy
  imports Tenant_Checker Matcher_Syntax Watch_Index
begin

text \<open>
  The TenantPolicy resource itself: its admission webhook
  (\<open>api/v1alpha1/tenant_policy_webhook.go\<close>) and the reconciler that reports on it
  (\<open>internal/controller/tenant_policy_controller.go\<close>).
\<close>

section \<open>The webhook\<close>

abbreviation tenantPolicyMaxMatcherLength :: nat where "tenantPolicyMaxMatcherLength \<equiv> 200"

fun validateSubjects_loop :: "nat \<Rightarrow> Subject list \<Rightarrow> go_error option" where
  "validateSubjects_loop i [] = None"
| "validateSubjects_loop i (s # ss) =
     (if sub_Kind s = UserKind \<or> sub_Kind s = GroupKind then
        (if trim_space (sub_Name s) = [] then
           Some (PlainError (''spec.subjects['' @ show_nat i @ ''].name must be set for Kind='' @ sub_Kind s))
         else if sub_Namespace s \<noteq> [] then
           Some (PlainError (''spec.subjects['' @ show_nat i @ ''].namespace must be empty for Kind='' @
             sub_Kind s @ ''; namespaces are only meaningful for ServiceAccount subjects''))
         else validateSubjects_loop (Suc i) ss)
      else if sub_Kind s = ServiceAccountKind then
        (if trim_space (sub_Name s) = [] then
           Some (PlainError (''spec.subjects['' @ show_nat i @ ''].name must be set for Kind=ServiceAccount''))
         else if trim_space (sub_Namespace s) = [] then
           Some (PlainError (''spec.subjects['' @ show_nat i @
             ''].namespace is required for Kind=ServiceAccount''))
         else validateSubjects_loop (Suc i) ss)
      else
        Some (PlainError (''spec.subjects['' @ show_nat i @ ''].kind '' @ go_quote (sub_Kind s) @
          '' is invalid; must be one of User, Group, ServiceAccount'')))"

definition validateSubjects :: "TenantPolicy \<Rightarrow> go_error option" where
  "validateSubjects r =
     (if tps_Subjects (tp_spec r) = [] then
        Some (PlainError (''spec.subjects must contain at least one entry; '' @
          ''a TenantPolicy with no subjects matches no requests''))
      else validateSubjects_loop 0 (tps_Subjects (tp_spec r)))"

fun validateRequiredMatchers_loop :: "nat \<Rightarrow> string list \<Rightarrow> go_error option" where
  "validateRequiredMatchers_loop i [] = None"
| "validateRequiredMatchers_loop i (m # ms) =
     (if length m > tenantPolicyMaxMatcherLength then
        Some (PlainError (''spec.requiredMatchers['' @ show_nat i @ ''] exceeds 200 character limit (length: '' @
          show_nat (length m) @ ''): '' @ m))
      else case validateMatcherSyntax m of
             Some err \<Rightarrow>
               Some (WrapError (''spec.requiredMatchers['' @ show_nat i @ ''] has invalid syntax: '') err '''')
           | None \<Rightarrow> validateRequiredMatchers_loop (Suc i) ms)"

definition validateRequiredMatchers :: "TenantPolicy \<Rightarrow> go_error option" where
  "validateRequiredMatchers r =
     (if tps_RequiredMatchers (tp_spec r) = [] then
        Some (PlainError (''spec.requiredMatchers must contain at least one entry; '' @
          ''a TenantPolicy with no required matchers has no effect''))
      else validateRequiredMatchers_loop 0 (tps_RequiredMatchers (tp_spec r)))"

definition validateNamespaceSelector :: "label_lib \<Rightarrow> TenantPolicy \<Rightarrow> go_error option" where
  "validateNamespaceSelector L r =
     (case tps_NamespaceSelector (tp_spec r) of
        None \<Rightarrow> None
      | Some sel \<Rightarrow>
          (case L sel of
             Inl err \<Rightarrow> Some (WrapError ''spec.namespaceSelector is not a valid LabelSelector: '' err '''')
           | Inr _ \<Rightarrow> None))"

definition validateTenantPolicy :: "label_lib \<Rightarrow> TenantPolicy \<Rightarrow> go_error option" where
  "validateTenantPolicy L r =
     (case validateSubjects r of
        Some err \<Rightarrow> Some err
      | None \<Rightarrow>
          (case validateRequiredMatchers r of
             Some err \<Rightarrow> Some err
           | None \<Rightarrow>
               (case validateNamespaceSelector L r of
                  Some err \<Rightarrow> Some err
                | None \<Rightarrow> None)))"

definition tenantPolicyWarnings :: "TenantPolicy \<Rightarrow> string list" where
  "tenantPolicyWarnings r =
     (case tps_NamespaceSelector (tp_spec r) of
        None \<Rightarrow> []
      | Some sel \<Rightarrow>
          if ls_MatchLabels sel = [] \<and> ls_MatchExpressions sel = []
          then [''spec.namespaceSelector is empty; this policy applies to every namespace '' @
                ''(omit the field to make this explicit)'']
          else [])"

definition tenant_ValidateCreate :: "label_lib \<Rightarrow> TenantPolicy \<Rightarrow> string list \<times> go_error option" where
  "tenant_ValidateCreate L obj =
     (case validateTenantPolicy L obj of
        Some err \<Rightarrow> ([], Some err)
      | None \<Rightarrow> (tenantPolicyWarnings obj, None))"

definition tenant_ValidateUpdate ::
    "label_lib \<Rightarrow> TenantPolicy \<Rightarrow> TenantPolicy \<Rightarrow> string list \<times> go_error option" where
  "tenant_ValidateUpdate L oldObj newObj =
     (case validateTenantPolicy L newObj of
        Some err \<Rightarrow> ([], Some err)
      | None \<Rightarrow> (tenantPolicyWarnings newObj, None))"

definition tenant_ValidateDelete :: "TenantPolicy \<Rightarrow> string list \<times> go_error option" where
  "tenant_ValidateDelete obj = ([], None)"

section \<open>The reconciler\<close>

abbreviation tenantPolicyConditionTypeValid :: string where "tenantPolicyConditionTypeValid \<equiv> ''Valid''"
abbreviation tenantPolicyReasonValid :: string where "tenantPolicyReasonValid \<equiv> ''Valid''"
abbreviation tenantPolicyReasonParseError :: string where "tenantPolicyReasonParseError \<equiv> ''ParseError''"

fun required_matchers_syntax :: "nat \<Rightarrow> string list \<Rightarrow> go_error option" where
  "required_matchers_syntax i [] = None"
| "required_matchers_syntax i (m # ms) =
     (case validateMatcherSyntax m of
        Some err \<Rightarrow>
          Some (WrapError (''spec.requiredMatchers['' @ show_nat i @ ''] is malformed: '') err '''')
      | None \<Rightarrow> required_matchers_syntax (Suc i) ms)"

definition validateTenantPolicySpec :: "label_lib \<Rightarrow> TenantPolicy \<Rightarrow> go_error option" where
  "validateTenantPolicySpec L policy =
     (if tps_Subjects (tp_spec policy) = [] then
        Some (PlainError ''spec.subjects must contain at least one entry'')
      else if tps_RequiredMatchers (tp_spec policy) = [] then
        Some (PlainError ''spec.requiredMatchers must contain at least one entry'')
      else
        (case required_matchers_syntax 0 (tps_RequiredMatchers (tp_spec policy)) of
           Some err \<Rightarrow> Some err
         | None \<Rightarrow>
             (case tps_NamespaceSelector (tp_spec policy) of
                None \<Rightarrow> None
              | Some sel \<Rightarrow>
                  (case L sel of
                     Inl err \<Rightarrow>
                       Some (WrapError ''spec.namespaceSelector is not a valid LabelSelector: '' err '''')
                   | Inr _ \<Rightarrow> None))))"

definition conditionsAlreadyMatch :: "klib \<Rightarrow> TenantPolicy \<Rightarrow> go_error option \<Rightarrow> bool" where
  "conditionsAlreadyMatch K policy validationErr =
     (let want = (if validationErr \<noteq> None then CFalse else CTrue)
      in list_all (\<lambda>t. case FindStatusCondition K (tpst_Conditions (tp_status policy)) t of
                         None \<Rightarrow> False
                       | Some c \<Rightarrow> cnd_status c = want \<and> cnd_gen c = om_generation (tp_meta policy))
           [condReady, tenantPolicyConditionTypeValid])"

text \<open>The two conditions of the outcome, set in the order of the source.\<close>

definition tenant_conditions :: "klib \<Rightarrow> int \<Rightarrow> go_error option \<Rightarrow> cond list \<Rightarrow> cond list" where
  "tenant_conditions K gen validationErr cs =
     (case validationErr of
        Some err \<Rightarrow>
          (let message = err_text err;
               cs = SetStatusCondition K cs
                      \<lparr>cnd_type = tenantPolicyConditionTypeValid, cnd_status = CFalse,
                       cnd_reason = tenantPolicyReasonParseError, cnd_message = message, cnd_gen = gen\<rparr>
           in SetStatusCondition K cs
                \<lparr>cnd_type = condReady, cnd_status = CFalse,
                 cnd_reason = tenantPolicyReasonParseError, cnd_message = message, cnd_gen = gen\<rparr>)
      | None \<Rightarrow>
          (let cs = SetStatusCondition K cs
                      \<lparr>cnd_type = tenantPolicyConditionTypeValid, cnd_status = CTrue,
                       cnd_reason = tenantPolicyReasonValid,
                       cnd_message = ''Spec parses cleanly; matchers and selectors are well-formed'',
                       cnd_gen = gen\<rparr>
           in SetStatusCondition K cs
                \<lparr>cnd_type = condReady, cnd_status = CTrue,
                 cnd_reason = tenantPolicyReasonValid,
                 cnd_message = ''TenantPolicy is enforceable'', cnd_gen = gen\<rparr>))"

datatype tpcall = TpGet nsname | TpStatusUpdate TenantPolicy

record tpenv =
  tpe_Get :: "tpcall list \<Rightarrow> go_error + TenantPolicy"
  tpe_StatusUpdate :: "tpcall list \<Rightarrow> go_error option"

text \<open>The status a reconcile writes, on the policy it read.\<close>

definition tenant_observed :: "klib \<Rightarrow> label_lib \<Rightarrow> TenantPolicy \<Rightarrow> TenantPolicy" where
  "tenant_observed K L policy =
     (let gen = om_generation (tp_meta policy)
      in policy\<lparr>tp_status :=
           \<lparr>tpst_ObservedGeneration = gen,
            tpst_BoundSubjectCount = int32_of (length (tps_Subjects (tp_spec policy))),
            tpst_Conditions = tenant_conditions K gen (validateTenantPolicySpec L policy)
                                (tpst_Conditions (tp_status policy))\<rparr>\<rparr>)"

definition tenant_up_to_date :: "klib \<Rightarrow> label_lib \<Rightarrow> TenantPolicy \<Rightarrow> bool" where
  "tenant_up_to_date K L policy \<longleftrightarrow>
     tpst_ObservedGeneration (tp_status policy) = om_generation (tp_meta policy) \<and>
     tpst_BoundSubjectCount (tp_status policy) = int32_of (length (tps_Subjects (tp_spec policy))) \<and>
     conditionsAlreadyMatch K policy (validateTenantPolicySpec L policy)"

definition tenant_Reconcile :: "klib \<Rightarrow> label_lib \<Rightarrow> tpenv \<Rightarrow> nsname \<Rightarrow> tpcall rres" where
  "tenant_Reconcile K L E req =
     (let tr = [TpGet req]
      in case tpe_Get E tr of
           Inl err \<Rightarrow>
             if is_not_found err then ret tr done_result None [] else ret tr done_result (Some err) []
         | Inr policy \<Rightarrow>
             if tenant_up_to_date K L policy then ret tr done_result None []
             else
               (let policy = tenant_observed K L policy;
                    tr = tr @ [TpStatusUpdate policy]
                in case tpe_StatusUpdate E tr of
                     Some err \<Rightarrow>
                       if is_conflict err then ret tr requeue_now None []
                       else ret tr done_result (Some err) []
                   | None \<Rightarrow> ret tr done_result None []))"

section \<open>Properties\<close>

text \<open>What the webhook admits the reconciler reports as valid.\<close>

lemma required_matchers_webhook:
  "validateRequiredMatchers_loop i ms = None \<longleftrightarrow>
     (\<forall>m \<in> set ms. length m \<le> 200 \<and> validateMatcherSyntax m = None)"
  by (induction ms arbitrary: i) (auto split: option.splits)

lemma required_matchers_syntax_iff:
  "required_matchers_syntax i ms = None \<longleftrightarrow> (\<forall>m \<in> set ms. validateMatcherSyntax m = None)"
  by (induction ms arbitrary: i) (auto split: option.splits)

lemma validateTenantPolicy_None:
  "validateTenantPolicy L p = None \<longleftrightarrow>
     validateSubjects p = None \<and> validateRequiredMatchers p = None \<and> validateNamespaceSelector L p = None"
  by (auto simp: validateTenantPolicy_def split: option.splits)

lemma validateTenantPolicySpec_None:
  "validateTenantPolicySpec L p = None \<longleftrightarrow>
     tps_Subjects (tp_spec p) \<noteq> [] \<and> tps_RequiredMatchers (tp_spec p) \<noteq> [] \<and>
     (\<forall>m \<in> set (tps_RequiredMatchers (tp_spec p)). validateMatcherSyntax m = None) \<and>
     validateNamespaceSelector L p = None"
  using required_matchers_syntax_iff [of 0 "tps_RequiredMatchers (tp_spec p)"]
  by (auto simp: validateTenantPolicySpec_def validateNamespaceSelector_def
      split: option.splits sum.splits)

lemma admitted_is_valid:
  "validateTenantPolicy L p = None \<Longrightarrow> validateTenantPolicySpec L p = None"
  by (auto simp: validateTenantPolicy_None validateTenantPolicySpec_None validateRequiredMatchers_def
      validateSubjects_def required_matchers_webhook split: if_splits)

lemma tenant_conditions_at:
  assumes "klib_ok K"
  defines "st \<equiv> \<lambda>err. if err = None then CTrue else CFalse"
  shows "\<exists>c. cond_at (tenant_conditions K gen err cs) condReady = Some c \<and>
              cnd_status c = st err \<and> cnd_gen c = gen"
    and "\<exists>c. cond_at (tenant_conditions K gen err cs) tenantPolicyConditionTypeValid = Some c \<and>
              cnd_status c = st err \<and> cnd_gen c = gen"
  by (auto simp: tenant_conditions_def Let_def klib_set [OF assms(1)] st_def split: option.splits)

lemma validateTenantPolicySpec_status [simp]:
  "validateTenantPolicySpec L (p\<lparr>tp_status := s\<rparr>) = validateTenantPolicySpec L p"
  by (simp add: validateTenantPolicySpec_def cong: option.case_cong)

lemma tenant_observed_simps [simp]:
  "tp_meta (tenant_observed K L p) = tp_meta p" "tp_spec (tenant_observed K L p) = tp_spec p"
  "validateTenantPolicySpec L (tenant_observed K L p) = validateTenantPolicySpec L p"
  by (simp_all add: tenant_observed_def Let_def)

lemma tenant_observed_up_to_date:
  assumes "klib_ok K"
  shows "tenant_up_to_date K L (tenant_observed K L p)"
proof -
  let ?q = "tenant_observed K L p" and ?err = "validateTenantPolicySpec L p"
  have cs: "tpst_Conditions (tp_status ?q) =
      tenant_conditions K (om_generation (tp_meta p)) ?err (tpst_Conditions (tp_status p))"
    by (simp add: tenant_observed_def Let_def)
  have "conditionsAlreadyMatch K ?q ?err"
    using tenant_conditions_at [OF assms, of "om_generation (tp_meta p)" ?err "tpst_Conditions (tp_status p)"]
    unfolding conditionsAlreadyMatch_def Let_def klib_find [OF assms] cs
    by (elim exE conjE) (simp cong: if_cong)
  then show ?thesis
    by (simp add: tenant_up_to_date_def) (simp add: tenant_observed_def Let_def)
qed

text \<open>
  The reconciler of tenant policies reports the validity of the current spec and settles:
  every status it writes says Ready and Valid exactly when the spec is valid, is stamped with
  the generation it read and counts the subjects; once it is stored, the next reconcile
  writes nothing.  A policy that its webhook admits is reported Ready.
\<close>

theorem tenant_status_settles:
  assumes K: "klib_ok K"
    and w: "TpStatusUpdate q \<in> set (rr_trace (tenant_Reconcile K L E req))"
  shows "\<exists>p. tpe_Get E [TpGet req] = Inr p \<and> tp_spec q = tp_spec p \<and>
           tpst_ObservedGeneration (tp_status q) = om_generation (tp_meta p) \<and>
           (\<forall>t \<in> {condReady, tenantPolicyConditionTypeValid}.
              \<exists>c. cond_at (tpst_Conditions (tp_status q)) t = Some c \<and>
                   cnd_status c = (if validateTenantPolicySpec L p = None then CTrue else CFalse)) \<and>
           (validateTenantPolicy L p = None \<longrightarrow> validateTenantPolicySpec L p = None) \<and>
           rr_trace (tenant_Reconcile K L (E'\<lparr>tpe_Get := \<lambda>_. Inr q\<rparr>) req) = [TpGet req]"
proof -
  obtain p where p: "tpe_Get E [TpGet req] = Inr p" "q = tenant_observed K L p"
    using w by (auto simp: tenant_Reconcile_def Let_def split: sum.splits option.splits if_splits)
  have "tenant_up_to_date K L q" using tenant_observed_up_to_date [OF K] p(2) by simp
  then have "rr_trace (tenant_Reconcile K L (E'\<lparr>tpe_Get := \<lambda>_. Inr q\<rparr>) req) = [TpGet req]"
    by (simp add: tenant_Reconcile_def Let_def)
  moreover have "tpst_ObservedGeneration (tp_status q) = om_generation (tp_meta p)"
    using p(2) by (simp add: tenant_observed_def Let_def)
  moreover have "\<exists>c. cond_at (tpst_Conditions (tp_status q)) t = Some c \<and>
        cnd_status c = (if validateTenantPolicySpec L p = None then CTrue else CFalse)"
    if "t \<in> {condReady, tenantPolicyConditionTypeValid}" for t
    using that tenant_conditions_at [OF K, of "om_generation (tp_meta p)" "validateTenantPolicySpec L p"
        "tpst_Conditions (tp_status p)"] p(2)
    by (auto simp: tenant_observed_def Let_def)
  ultimately show ?thesis using p admitted_is_valid by auto
qed

theorem tenant_status_settles_witness:
  "tpst_ObservedGeneration (tp_status (tenant_observed klib_ref (\<lambda>_. Inl CtxCanceled) billing_policy)) = 1"
proof -
  let ?L = "\<lambda>_. Inl CtxCanceled"
  let ?E = "\<lparr>tpe_Get = \<lambda>_. Inr billing_policy, tpe_StatusUpdate = \<lambda>_. None\<rparr>"
  let ?req = "\<lparr>nn_namespace = '''', nn_name = ''billing''\<rparr>"
  have "\<not> tenant_up_to_date klib_ref ?L billing_policy"
    by (simp add: tenant_up_to_date_def billing_policy_def)
  then have "TpStatusUpdate (tenant_observed klib_ref ?L billing_policy) \<in>
      set (rr_trace (tenant_Reconcile klib_ref ?L ?E ?req))"
    by (simp add: tenant_Reconcile_def Let_def)
  from tenant_status_settles [OF klib_ref_ok this] show ?thesis
    by (auto simp: billing_policy_def)
qed

text \<open>
  The reconciler does not repeat the webhook's checks of the subjects: a policy whose subject
  kind no user can match is reported as enforceable.
\<close>

lemma unknown_kind_reported_valid:
  assumes "tps_Subjects (tp_spec p) = [\<lparr>sub_Kind = ''Robot'', sub_Name = ''x'', sub_Namespace = []\<rparr>]"
    and "tps_RequiredMatchers (tp_spec p) = [''team=a'']" "tps_NamespaceSelector (tp_spec p) = None"
  shows "validateTenantPolicySpec L p = None \<and> validateTenantPolicy L p \<noteq> None \<and>
         \<not> subjectMatchesUser (tps_Subjects (tp_spec p)) info"
proof -
  have "validateMatcherSyntax ''team=a'' = None" by code_simp
  with assms show ?thesis
    by (simp add: validateTenantPolicySpec_None validateTenantPolicy_None validateSubjects_def
        validateNamespaceSelector_def)
qed

end
