(* ===== verification/Attr_Webhooks.thy ===== *)
theory Attr_Webhooks
  imports Tenant_Policy
begin

text \<open>
  The admission webhooks of Collector and RemoteAttributePolicy
  (\<open>api/v1alpha1/collector_webhook.go\<close>, \<open>policy_webhook.go\<close>), and what the tenant check
  guarantees once the policy is evaluated by the Collector reconciler.
\<close>

section \<open>Collector\<close>

abbreviation collectorReservedAttributePrefix :: string where
  "collectorReservedAttributePrefix \<equiv> ''collector.''"
abbreviation collectorMaxAttributeValueLength :: nat where
  "collectorMaxAttributeValueLength \<equiv> 1024"
abbreviation collectorMaxRemoteAttributes :: nat where "collectorMaxRemoteAttributes \<equiv> 100"

definition validateID :: "Collector \<Rightarrow> go_error option" where
  "validateID r =
     (if trim_space (cspec_ID (cl_spec r)) = []
      then Some (PlainError ''spec.id cannot be empty or whitespace'') else None)"

fun validateRemoteAttributes_loop :: "gomap \<Rightarrow> go_error option" where
  "validateRemoteAttributes_loop [] = None"
| "validateRemoteAttributes_loop ((key, value) # attrs) =
     (if key = [] then Some (PlainError ''spec.remoteAttributes contains an empty key'')
      else if has_prefix key collectorReservedAttributePrefix then
        Some (PlainError (''spec.remoteAttributes key '' @ go_quote key @ '' uses reserved prefix '' @
          go_quote collectorReservedAttributePrefix @
          '' which is reserved by Fleet Management for collector-reported attributes''))
      else if length value > collectorMaxAttributeValueLength then
        Some (PlainError (''spec.remoteAttributes['' @ go_quote key @ ''] value length '' @
          show_nat (length value) @ '' exceeds the maximum of 1024 characters''))
      else validateRemoteAttributes_loop attrs)"

definition validateRemoteAttributes :: "Collector \<Rightarrow> go_error option" where
  "validateRemoteAttributes r =
     (let attrs = cspec_RemoteAttributes (cl_spec r)
      in if attrs = [] then None
         else if length attrs > collectorMaxRemoteAttributes then
           Some (PlainError (''spec.remoteAttributes has '' @ show_nat (length attrs) @
             '' entries which exceeds the maximum of 100''))
         else validateRemoteAttributes_loop attrs)"

definition validateCollector :: "Collector \<Rightarrow> string list \<times> go_error option" where
  "validateCollector r =
     (case validateID r of
        Some err \<Rightarrow> ([], Some err)
      | None \<Rightarrow>
          (case validateRemoteAttributes r of
             Some err \<Rightarrow> ([], Some err)
           | None \<Rightarrow> ([], None)))"

definition collector_ValidateCreate :: "Collector \<Rightarrow> string list \<times> go_error option" where
  "collector_ValidateCreate obj = validateCollector obj"

definition collector_ValidateUpdate ::
    "Collector option \<Rightarrow> Collector \<Rightarrow> string list \<times> go_error option" where
  "collector_ValidateUpdate oldObj newObj =
     (if (case oldObj of None \<Rightarrow> False | Some old \<Rightarrow> cspec_ID (cl_spec old) \<noteq> cspec_ID (cl_spec newObj))
      then ([], Some (PlainError ''spec.id is immutable; create a new Collector resource instead''))
      else validateCollector newObj)"

definition collector_ValidateDelete :: "Collector \<Rightarrow> string list \<times> go_error option" where
  "collector_ValidateDelete obj = ([], None)"

section \<open>RemoteAttributePolicy\<close>

abbreviation policyMaxMatcherLength :: nat where "policyMaxMatcherLength \<equiv> 200"

fun validateAttributes_loop :: "gomap \<Rightarrow> go_error option" where
  "validateAttributes_loop [] = None"
| "validateAttributes_loop ((key, value) # attrs) =
     (if key = [] then Some (PlainError ''spec.attributes contains an empty key'')
      else if has_prefix key collectorReservedAttributePrefix then
        Some (PlainError (''spec.attributes key '' @ go_quote key @ '' uses reserved prefix '' @
          go_quote collectorReservedAttributePrefix @
          '' which is reserved by Fleet Management for collector-reported attributes''))
      else if length value > collectorMaxAttributeValueLength then
        Some (PlainError (''spec.attributes['' @ go_quote key @ ''] value length '' @
          show_nat (length value) @ '' exceeds the maximum of 1024 characters''))
      else validateAttributes_loop attrs)"

definition validateAttributes :: "RemoteAttributePolicy \<Rightarrow> go_error option" where
  "validateAttributes r =
     (let attrs = rapspec_Attributes (rap_spec r)
      in if attrs = [] then
           Some (PlainError (''spec.attributes must contain at least one entry; '' @
             ''a Policy with no attributes has no effect''))
         else if length attrs > collectorMaxRemoteAttributes then
           Some (PlainError (''spec.attributes has '' @ show_nat (length attrs) @
             '' entries which exceeds the maximum of 100''))
         else validateAttributes_loop attrs)"

fun selector_matchers_loop :: "nat \<Rightarrow> string list \<Rightarrow> go_error option" where
  "selector_matchers_loop i [] = None"
| "selector_matchers_loop i (matcher # ms) =
     (if length matcher > policyMaxMatcherLength then
        Some (PlainError (''spec.selector.matchers['' @ show_nat i @
          ''] exceeds 200 character limit (length: '' @ show_nat (length matcher) @ ''): '' @ matcher))
      else case validateMatcherSyntax matcher of
             Some err \<Rightarrow>
               Some (WrapError (''spec.selector.matchers['' @ show_nat i @ ''] has invalid syntax: '') err '''')
           | None \<Rightarrow> selector_matchers_loop (Suc i) ms)"

fun selector_ids_loop :: "nat \<Rightarrow> string list \<Rightarrow> go_error option" where
  "selector_ids_loop i [] = None"
| "selector_ids_loop i (cid # ids) =
     (if trim_space cid = [] then
        Some (PlainError (''spec.selector.collectorIDs['' @ show_nat i @
          ''] is empty; collector IDs must be non-empty''))
      else selector_ids_loop (Suc i) ids)"

definition policy_validateSelector :: "RemoteAttributePolicy \<Rightarrow> go_error option" where
  "policy_validateSelector r =
     (let sel = rapspec_Selector (rap_spec r)
      in if psel_Matchers sel = [] \<and> psel_CollectorIDs sel = [] then
           Some (PlainError (''spec.selector must specify at least one of matchers or collectorIDs; '' @
             ''an empty selector matches no collectors''))
         else
           (case selector_matchers_loop 0 (psel_Matchers sel) of
              Some err \<Rightarrow> Some err
            | None \<Rightarrow> selector_ids_loop 0 (psel_CollectorIDs sel)))"

definition validateRemoteAttributePolicy :: "RemoteAttributePolicy \<Rightarrow> go_error option" where
  "validateRemoteAttributePolicy r =
     (case validateAttributes r of
        Some err \<Rightarrow> Some err
      | None \<Rightarrow>
          (case policy_validateSelector r of
             Some err \<Rightarrow> Some err
           | None \<Rightarrow> None))"

text \<open>The validator with its checker; the interface of the checker is a parameter.\<close>

definition policy_ValidateCreate ::
    "'tr MatcherChecker option \<Rightarrow> 'tr \<Rightarrow> RemoteAttributePolicy \<Rightarrow> 'tr \<times> string list \<times> go_error option" where
  "policy_ValidateCreate checker tr obj =
     (case validateRemoteAttributePolicy obj of
        Some err \<Rightarrow> (tr, [], Some err)
      | None \<Rightarrow>
          (case runTenantChecks checker tr (om_namespace (rap_meta obj))
                  (psel_Matchers (rapspec_Selector (rap_spec obj)))
                  (psel_CollectorIDs (rapspec_Selector (rap_spec obj))) of
             (tr, Some err) \<Rightarrow> (tr, [], Some err)
           | (tr, None) \<Rightarrow> (tr, [], None)))"

definition policy_ValidateUpdate ::
    "'tr MatcherChecker option \<Rightarrow> 'tr \<Rightarrow> RemoteAttributePolicy \<Rightarrow> RemoteAttributePolicy \<Rightarrow>
       'tr \<times> string list \<times> go_error option" where
  "policy_ValidateUpdate checker tr oldObj newObj =
     (case validateRemoteAttributePolicy newObj of
        Some err \<Rightarrow> (tr, [], Some err)
      | None \<Rightarrow>
          (case runTenantChecks checker tr (om_namespace (rap_meta newObj))
                  (psel_Matchers (rapspec_Selector (rap_spec newObj)))
                  (psel_CollectorIDs (rapspec_Selector (rap_spec newObj))) of
             (tr, Some err) \<Rightarrow> (tr, [], Some err)
           | (tr, None) \<Rightarrow> (tr, [], None)))"

definition policy_ValidateDelete :: "RemoteAttributePolicy \<Rightarrow> string list \<times> go_error option" where
  "policy_ValidateDelete obj = ([], None)"

section \<open>What the validations accept\<close>

text \<open>A chain of checks that stops at the first error.\<close>

lemma first_error_None [simp]:
  "(case x of None \<Rightarrow> y | Some err \<Rightarrow> Some err) = None \<longleftrightarrow> x = None \<and> y = None"
  by (simp split: option.splits)

lemma first_warning_error_None [simp]:
  "snd (case x of None \<Rightarrow> y | Some err \<Rightarrow> (ws, Some err)) = None \<longleftrightarrow> x = None \<and> snd y = None"
  by (simp split: option.splits)

definition attrs_admissible :: "gomap \<Rightarrow> bool" where
  "attrs_admissible attrs \<longleftrightarrow>
     length attrs \<le> 100 \<and>
     list_all (\<lambda>(k, v). k \<noteq> [] \<and> \<not> has_prefix k ''collector.'' \<and> length v \<le> 1024) attrs"

definition selector_admissible :: "PolicySelector \<Rightarrow> bool" where
  "selector_admissible sel \<longleftrightarrow>
     (psel_Matchers sel \<noteq> [] \<or> psel_CollectorIDs sel \<noteq> []) \<and>
     list_all (\<lambda>m. length m \<le> 200 \<and> validateMatcherSyntax m = None) (psel_Matchers sel) \<and>
     list_all (\<lambda>i. trim_space i \<noteq> []) (psel_CollectorIDs sel)"

lemma validateRemoteAttributes_loop_iff:
  "validateRemoteAttributes_loop attrs = None \<longleftrightarrow>
     list_all (\<lambda>(k, v). k \<noteq> [] \<and> \<not> has_prefix k ''collector.'' \<and> length v \<le> 1024) attrs"
  by (induction attrs rule: validateRemoteAttributes_loop.induct) (simp_all add: not_less)

lemma validateAttributes_loop_iff:
  "validateAttributes_loop attrs = None \<longleftrightarrow>
     list_all (\<lambda>(k, v). k \<noteq> [] \<and> \<not> has_prefix k ''collector.'' \<and> length v \<le> 1024) attrs"
  by (induction attrs rule: validateAttributes_loop.induct) (simp_all add: not_less)

lemma selector_matchers_loop_iff:
  "selector_matchers_loop i ms = None \<longleftrightarrow>
     list_all (\<lambda>m. length m \<le> 200 \<and> validateMatcherSyntax m = None) ms"
  by (induction ms arbitrary: i) (auto split: option.splits)

lemma selector_ids_loop_iff:
  "selector_ids_loop i ids = None \<longleftrightarrow> list_all (\<lambda>i. trim_space i \<noteq> []) ids"
  by (induction ids arbitrary: i) auto

lemma validateCollector_iff:
  "snd (validateCollector c) = None \<longleftrightarrow>
     trim_space (cspec_ID (cl_spec c)) \<noteq> [] \<and> attrs_admissible (cspec_RemoteAttributes (cl_spec c))"
  by (auto simp: validateCollector_def validateID_def validateRemoteAttributes_def Let_def
      validateRemoteAttributes_loop_iff attrs_admissible_def not_less)

lemma validateRemoteAttributePolicy_iff:
  "validateRemoteAttributePolicy p = None \<longleftrightarrow>
     rapspec_Attributes (rap_spec p) \<noteq> [] \<and> attrs_admissible (rapspec_Attributes (rap_spec p)) \<and>
     selector_admissible (rapspec_Selector (rap_spec p))"
  by (auto simp: validateRemoteAttributePolicy_def validateAttributes_def policy_validateSelector_def
      Let_def validateAttributes_loop_iff attrs_admissible_def selector_admissible_def
      selector_matchers_loop_iff selector_ids_loop_iff not_less)

lemma policy_admitted_tenant:
  assumes "snd (snd (policy_ValidateCreate checker tr p)) = None \<or>
           snd (snd (policy_ValidateUpdate checker tr old p)) = None"
  shows "validateRemoteAttributePolicy p = None"
    and "snd (runTenantChecks checker tr (om_namespace (rap_meta p))
           (psel_Matchers (rapspec_Selector (rap_spec p)))
           (psel_CollectorIDs (rapspec_Selector (rap_spec p)))) = None"
  using assms
  by (auto simp: policy_ValidateCreate_def policy_ValidateUpdate_def split: option.splits prod.splits)

section \<open>Tenant isolation\<close>

text \<open>
  C6: a user bound by tenant policies cannot reach a foreign collector with a policy of his
  own.  Whatever reads of the webhook fail, if it admits his policy (as a new one or as an
  update), then every collector for which the Collector reconciler takes the policy into account
  satisfies one of the matchers that his tenant policies require.
\<close>

theorem tenant_isolation:
  assumes adm: "snd (snd (policy_ValidateCreate (Some (checker_of W (Some info))) tr p)) = None \<or>
                snd (snd (policy_ValidateUpdate (Some (checker_of W (Some info))) tr old p)) = None"
    and gov: "governed W info (om_namespace (rap_meta p))"
    and sel: "p \<in> set (matched_policies rx cid attrs items)"
  shows "\<exists>m \<in> required_matchers W info (om_namespace (rap_meta p)). matchOne rx m cid attrs = Inr True"
proof -
  let ?sel = "rapspec_Selector (rap_spec p)"
  have "psel_CollectorIDs ?sel = [] \<and>
        set (psel_Matchers ?sel) \<inter> required_matchers W info (om_namespace (rap_meta p)) \<noteq> {}"
    by (rule tenant.runTenantChecks_sound [OF policy_admitted_tenant(2) [OF adm] gov])
  moreover have "Match rx (selector_of ?sel) cid attrs"
    using sel by (simp add: matched_policies_def)
  ultimately show ?thesis by (auto simp: Match_iff selector_of_def)
qed

definition billing_rap :: RemoteAttributePolicy where
  "billing_rap =
     \<lparr>rap_meta = \<lparr>om_namespace = ''ns'', om_name = ''a'', om_generation = 1, om_deleting = False,
                  om_finalizers = [], om_labels = [], om_annotations = []\<rparr>,
      rap_spec = \<lparr>rapspec_Selector = \<lparr>psel_Matchers = [''env=prod'', ''team=billing''], psel_CollectorIDs = []\<rparr>,
                  rapspec_Attributes = [(''tier'', ''1'')], rapspec_Priority = 0\<rparr>,
      rap_status = \<lparr>rapst_ObservedGeneration = 0, rapst_MatchedCollectorIDs = [],
                    rapst_MatchedCount = 0, rapst_Conditions = []\<rparr>\<rparr>"

lemma billing_rap_valid: "validateRemoteAttributePolicy billing_rap = None"
proof -
  have "validateMatcherSyntax ''env=prod'' = None" "validateMatcherSyntax ''team=billing'' = None"
    by code_simp+
  then show ?thesis
    by (simp add: validateRemoteAttributePolicy_iff billing_rap_def attrs_admissible_def selector_admissible_def)
qed

lemma billing_rap_admitted:
  "snd (snd (policy_ValidateCreate (Some (checker_of billing_world (Some billing_user))) [] billing_rap)) = None"
proof -
  let ?C = "checker_of billing_world (Some billing_user)"
  have "snd (runTenantChecks (Some ?C) [] ''ns'' [''env=prod'', ''team=billing''] []) = None"
    by (simp add: runTenantChecks_def checker_of_def Check_def Let_def world_env_def billing_world_def
        billing_policy_def billing_user_def namespaceMatches_def allowed_matchers_def List.insert_def)
  then show ?thesis
    using billing_rap_valid by (auto simp: policy_ValidateCreate_def billing_rap_def split: prod.splits)
qed

theorem tenant_isolation_witness:
  "\<exists>m \<in> required_matchers billing_world billing_user ''ns''.
     matchOne (\<lambda>_. None) m ''edge-1'' [(''env'', ''prod''), (''team'', ''billing'')] = Inr True"
proof -
  let ?attrs = "[(''env'', ''prod''), (''team'', ''billing'')]"
  have "matchOne (\<lambda>_. None) ''env=prod'' ''edge-1'' ?attrs = Inr True"
    "matchOne (\<lambda>_. None) ''team=billing'' ''edge-1'' ?attrs = Inr True"
    by code_simp+
  then have "billing_rap \<in> set (matched_policies (\<lambda>_. None) ''edge-1'' ?attrs [billing_rap])"
    by (simp add: matched_policies_def Match_iff selector_of_def billing_rap_def)
  from tenant_isolation [OF disjI1 [OF billing_rap_admitted] billing_governed this] show ?thesis
    by (simp add: billing_rap_def)
qed

text \<open>An admitted policy keeps to the limits, and its matchers parse in the evaluator.\<close>

lemma admitted_policy_admissible:
  assumes "snd (snd (policy_ValidateCreate checker tr p)) = None \<or>
           snd (snd (policy_ValidateUpdate checker tr old p)) = None"
  shows "attrs_admissible (rapspec_Attributes (rap_spec p))"
    and "selector_admissible (rapspec_Selector (rap_spec p))"
  using policy_admitted_tenant(1) [OF assms] by (simp_all add: validateRemoteAttributePolicy_iff)

end
