(* ===== verification/Pipeline_Webhook.thy ===== *)
theory Pipeline_Webhook
  imports Pipeline_Controller Attr_Webhooks Naming
begin

text \<open>
  The admission webhook of Pipeline (\<open>api/v1alpha1/pipeline_webhook.go\<close>).  The YAML library is
  a parameter: on a text it fails, or gives the keys of the mapping at the top.
\<close>

type_synonym yaml_lib = "string \<Rightarrow> go_error + string list"

section \<open>The name\<close>

abbreviation maxPipelineNameLength :: nat where "maxPipelineNameLength \<equiv> 253"

text \<open>
  The characters the loop of \<open>validateName\<close> looks for are ASCII, and no byte of a longer
  encoding is: the loop over runes is a loop over bytes.
\<close>

definition name_space :: "char \<Rightarrow> bool" where
  "name_space c \<longleftrightarrow> c \<in> {CHR 0x20, CHR 0x09, CHR 0x0A, CHR 0x0D, CHR 0x0B, CHR 0x0C}"

fun validateName_loop :: "string \<Rightarrow> go_error option" where
  "validateName_loop [] = None"
| "validateName_loop (c # cs) =
     (if name_space c then Some (PlainError ''spec.name must not contain whitespace'')
      else if is_ctrl c then Some (PlainError ''spec.name must not contain control characters'')
      else validateName_loop cs)"

definition validateName :: "Pipeline \<Rightarrow> go_error option" where
  "validateName r =
     (let name = pspec_Name (pl_spec r)
      in if name = [] then None
         else if length name > maxPipelineNameLength then
           Some (PlainError (''spec.name must be at most 253 characters, got '' @ show_nat (length name)))
         else if trim_space name \<noteq> name then
           Some (PlainError ''spec.name must not have leading or trailing whitespace'')
         else validateName_loop name)"

text \<open>\<open>^[a-z0-9]([-a-z0-9]*[a-z0-9])?\.\<close>: the label is the longest run of its characters.\<close>

definition scope_char :: "char \<Rightarrow> bool" where
  "scope_char c \<longleftrightarrow> is_lower c \<or> is_digit c \<or> c = CHR ''-''"

definition reservedScopePrefixRe :: "string \<Rightarrow> bool" where
  "reservedScopePrefixRe s =
     (let l = takeWhile scope_char s
      in l \<noteq> [] \<and> hd l \<noteq> CHR ''-'' \<and> last l \<noteq> CHR ''-'' \<and> has_prefix (dropWhile scope_char s) ''.'')"

definition validateNameScope :: "string \<Rightarrow> Pipeline \<Rightarrow> go_error option" where
  "validateNameScope nameScopeDefault obj =
     (let raw = annotation obj PipelineNameScopeAnnotation
      in if has_key (om_annotations (pl_meta obj)) PipelineNameScopeAnnotation \<and>
            raw \<noteq> NameScopeNamespace \<and> raw \<noteq> NameScopeNone
         then Some (PlainError (''annotation '' @ PipelineNameScopeAnnotation @ '' must be '' @
                go_quote NameScopeNamespace @ '' or '' @ go_quote NameScopeNone @ '', got '' @ go_quote raw))
         else if nameScopeDefault = NameScopeNamespace \<and>
                 EffectiveNameScope obj nameScopeDefault = NameScopeNone \<and>
                 pspec_Name (pl_spec obj) \<noteq> [] \<and> reservedScopePrefixRe (pspec_Name (pl_spec obj))
         then Some (PlainError (''spec.name '' @ go_quote (pspec_Name (pl_spec obj)) @
                '' is not allowed for a name-scope=none pipeline in a namespace-scoped cluster: '' @
                ''it could collide with another namespace'' @ [CHR 0x27] @
                ''s scoped name; remove the leading '' @ go_quote ''<label>.'' @
                '' prefix or omit the name-scope override''))
         else None)"

section \<open>The spec\<close>

definition validateContents :: "Pipeline \<Rightarrow> go_error option" where
  "validateContents r =
     (if trim_space (pspec_Contents (pl_spec r)) = []
      then Some (PlainError ''spec.contents cannot be empty'') else None)"

definition alloyPatterns :: "string list" where
  "alloyPatterns = [''prometheus.'', ''loki.'', ''otelcol.'', ''pyroscope.'',
     ''discovery.'', ''remote.http'', ''local.file'']"

definition quoted :: "string \<Rightarrow> string" where
  "quoted s = [CHR 0x27] @ s @ [CHR 0x27]"

definition validateConfigType :: "yaml_lib \<Rightarrow> Pipeline \<Rightarrow> string list \<times> go_error option" where
  "validateConfigType Y r =
     (let configType = (if pspec_ConfigType (pl_spec r) = [] then ConfigTypeAlloy
                        else pspec_ConfigType (pl_spec r));
          contents = trim_space (pspec_Contents (pl_spec r))
      in if configType = ConfigTypeAlloy then
           (if has_prefix contents ''receivers:'' \<or> has_prefix contents ''processors:'' \<or>
               has_prefix contents ''exporters:'' \<or> has_prefix contents ''service:''
            then ([], Some (PlainError
              (''configType is '' @ quoted ''Alloy'' @
               '' but contents appear to be OpenTelemetry Collector YAML configuration. '' @
               ''Either change configType to '' @ quoted ''OpenTelemetryCollector'' @
               '' or update contents to use Alloy syntax'')))
            else if \<not> list_ex (\<lambda>pattern. contains_str contents pattern) alloyPatterns
            then ([''Contents don'' @ [CHR 0x27] @ ''t contain common Alloy component patterns. '' @
                   ''Verify this is valid Alloy configuration syntax.''], None)
            else ([], None))
         else if configType = ConfigTypeOpenTelemetryCollector then
           (case Y contents of
              Inl err \<Rightarrow> ([], Some (WrapError (''configType is '' @ quoted ''OpenTelemetryCollector'' @
                '' but contents is not valid YAML: '') err ''''))
            | Inr keys \<Rightarrow>
                if ''service'' \<notin> set keys
                then ([], Some (PlainError (''configType is '' @ quoted ''OpenTelemetryCollector'' @
                  '' but contents is missing required '' @ quoted ''service'' @ '' section. '' @
                  ''OpenTelemetry Collector configs must include a service section defining pipelines'')))
                else if contains_str contents ''prometheus.scrape'' \<or>
                        contains_str contents ''loki.source'' \<or>
                        contains_str contents ''otelcol.receiver''
                then ([''Contents contain Alloy-specific component names but configType is '' @
                       quoted ''OpenTelemetryCollector'' @ ''. '' @
                       ''Verify this configuration will work with OTEL collectors.''], None)
                else ([], None))
         else ([], Some (PlainError (''invalid configType: '' @ configType @ '' (must be '' @
           quoted ''Alloy'' @ '' or '' @ quoted ''OpenTelemetryCollector'' @ '')''))))"

fun validateMatchers_loop :: "nat \<Rightarrow> string list \<Rightarrow> go_error option" where
  "validateMatchers_loop i [] = None"
| "validateMatchers_loop i (matcher # ms) =
     (if length matcher > 200 then
        Some (PlainError (''matcher['' @ show_nat i @ ''] exceeds 200 character limit (length: '' @
          show_nat (length matcher) @ ''): '' @ matcher))
      else case validateMatcherSyntax matcher of
             Some err \<Rightarrow> Some (WrapError (''matcher['' @ show_nat i @ ''] has invalid syntax: '') err '''')
           | None \<Rightarrow> validateMatchers_loop (Suc i) ms)"

definition validateMatchers :: "Pipeline \<Rightarrow> go_error option" where
  "validateMatchers r = validateMatchers_loop 0 (pspec_Matchers (pl_spec r))"

definition validateSource :: "Pipeline \<Rightarrow> string list \<times> go_error option" where
  "validateSource r =
     (case pspec_Source (pl_spec r) of
        None \<Rightarrow> ([], None)
      | Some src \<Rightarrow>
          (let sourceType = psrc_Type src;
               namespace = trim_space (psrc_Namespace src);
               r1 = (if sourceType = [] \<or> sourceType = SourceTypeUnspecified then
                       (if namespace \<noteq> [] then
                          ([], Some (PlainError (''spec.source.namespace must be empty when '' @
                             ''spec.source.type is empty or '' @ quoted ''Unspecified'')))
                        else ([], None))
                     else if sourceType \<in> {SourceTypeGit, SourceTypeTerraform, SourceTypeGrafana} then
                       (if namespace = [] then
                          ([], Some (PlainError (''spec.source.namespace is required when '' @
                             ''spec.source.type is '' @ go_quote sourceType)))
                        else ([], None))
                     else if sourceType = SourceTypeKubernetes then
                       ([''spec.source.type=Kubernetes is deprecated and is not sent to Fleet Management; '' @
                         ''omit spec.source for operator-managed pipelines''], None)
                     else
                       ([], Some (PlainError (''invalid source type: '' @ sourceType @ '' (must be '' @
                          quoted ''Git'' @ '', '' @ quoted ''Terraform'' @ '', '' @ quoted ''Grafana'' @ '', '' @
                          quoted ''Kubernetes'' @ '', or '' @ quoted ''Unspecified'' @ '')''))))
           in (case r1 of
                 (warnings, Some err) \<Rightarrow> ([], Some err)
               | (warnings, None) \<Rightarrow>
                   if sourceType = SourceTypeGrafana \<and>
                      annotation r PipelineImportModeAnnotation = PipelineImportModeAnnotationAdopt
                   then ([], Some (PlainError (''grafana-sourced pipelines are read-only and cannot use '' @
                          PipelineImportModeAnnotation @ ''='' @ PipelineImportModeAnnotationAdopt)))
                   else (warnings, None))))"

definition validatePipeline :: "yaml_lib \<Rightarrow> Pipeline \<Rightarrow> string list \<times> go_error option" where
  "validatePipeline Y r =
     (case validateName r of
        Some err \<Rightarrow> ([], Some err)
      | None \<Rightarrow>
     (case validateContents r of
        Some err \<Rightarrow> ([], Some err)
      | None \<Rightarrow>
     (case validateConfigType Y r of
        (_, Some err) \<Rightarrow> ([], Some err)
      | (warnings, None) \<Rightarrow>
     (case validateMatchers r of
        Some err \<Rightarrow> ([], Some err)
      | None \<Rightarrow>
     (case validateSource r of
        (_, Some err) \<Rightarrow> ([], Some err)
      | (warnings', None) \<Rightarrow> (warnings @ warnings', None))))))"

section \<open>The validator\<close>

record 'tr pipelineValidator =
  pv_checker :: "'tr MatcherChecker option"
  pv_nameScopeDefault :: string

definition pipeline_ValidateCreate ::
    "yaml_lib \<Rightarrow> 'tr pipelineValidator \<Rightarrow> 'tr \<Rightarrow> Pipeline \<Rightarrow> 'tr \<times> string list \<times> go_error option" where
  "pipeline_ValidateCreate Y v tr obj =
     (case validatePipeline Y obj of
        (warnings, Some err) \<Rightarrow> (tr, warnings, Some err)
      | (warnings, None) \<Rightarrow>
          (case validateNameScope (pv_nameScopeDefault v) obj of
             Some err \<Rightarrow> (tr, warnings, Some err)
           | None \<Rightarrow>
               (case pv_checker v of
                  None \<Rightarrow> (tr, warnings, None)
                | Some checker \<Rightarrow>
                    (case mc_Check checker tr (om_namespace (pl_meta obj)) (pspec_Matchers (pl_spec obj)) of
                       (tr, Some err) \<Rightarrow> (tr, warnings, Some err)
                     | (tr, None) \<Rightarrow> (tr, warnings, None)))))"

definition pipeline_ValidateUpdate ::
    "yaml_lib \<Rightarrow> 'tr pipelineValidator \<Rightarrow> 'tr \<Rightarrow> Pipeline \<Rightarrow> Pipeline \<Rightarrow>
       'tr \<times> string list \<times> go_error option" where
  "pipeline_ValidateUpdate Y v tr oldObj newObj =
     (case validatePipeline Y newObj of
        (warnings, Some err) \<Rightarrow> (tr, warnings, Some err)
      | (warnings, None) \<Rightarrow>
          (case validateNameScope (pv_nameScopeDefault v) newObj of
             Some err \<Rightarrow> (tr, warnings, Some err)
           | None \<Rightarrow>
               (case pv_checker v of
                  None \<Rightarrow> (tr, warnings, None)
                | Some checker \<Rightarrow>
                    (case mc_Check checker tr (om_namespace (pl_meta newObj)) (pspec_Matchers (pl_spec newObj)) of
                       (tr, Some err) \<Rightarrow> (tr, warnings, Some err)
                     | (tr, None) \<Rightarrow> (tr, warnings, None)))))"

definition pipeline_ValidateDelete :: "Pipeline \<Rightarrow> string list \<times> go_error option" where
  "pipeline_ValidateDelete obj = ([], None)"

section \<open>What the webhook guarantees\<close>

lemma pipeline_admitted:
  assumes "snd (snd (pipeline_ValidateCreate Y v tr p)) = None \<or>
           snd (snd (pipeline_ValidateUpdate Y v tr old p)) = None"
  shows "snd (validatePipeline Y p) = None" "validateNameScope (pv_nameScopeDefault v) p = None"
    and "\<And>c. pv_checker v = Some c \<Longrightarrow>
           snd (mc_Check c tr (om_namespace (pl_meta p)) (pspec_Matchers (pl_spec p))) = None"
  using assms
  by (auto simp: pipeline_ValidateCreate_def pipeline_ValidateUpdate_def split: option.splits prod.splits)

lemma validateMatchers_loop_iff:
  "validateMatchers_loop i ms = None \<longleftrightarrow>
     list_all (\<lambda>m. length m \<le> 200 \<and> validateMatcherSyntax m = None) ms"
  by (induction ms arbitrary: i) (auto split: option.splits)

lemma validatePipeline_matchers:
  "snd (validatePipeline Y p) = None \<Longrightarrow>
     list_all (\<lambda>m. length m \<le> 200 \<and> validateMatcherSyntax m = None) (pspec_Matchers (pl_spec p))"
  by (auto simp: validatePipeline_def validateMatchers_def validateMatchers_loop_iff
      split: option.splits prod.splits)

text \<open>
  C14: a pipeline of a user bound by tenant policies is scoped to his tenants in Fleet
  Management.  If the webhook admits it, every upsert a reconcile of it sends carries one of
  the matchers the user's tenant policies require, under the name the naming rules give it.
\<close>

theorem tenant_scoped_upsert:
  assumes adm: "snd (snd (pipeline_ValidateCreate Y v tr p)) = None \<or>
                snd (snd (pipeline_ValidateUpdate Y v tr old p)) = None"
    and chk: "pv_checker v = Some (checker_of W (Some info))"
    and gov: "governed W info (om_namespace (pl_meta p))"
    and get: "pe_Get E [PcGet req] = Inr p"
    and up: "PcFleetUpsert r \<in> set (rr_trace (pipeline_Reconcile R E req))"
  shows "set (fp_Matchers (ur_Pipeline r)) \<inter> required_matchers W info (om_namespace (pl_meta p)) \<noteq> {} \<and>
         fp_Name (ur_Pipeline r) = DesiredFleetName p (pr_NameScope R)"
proof -
  let ?Q = "\<lambda>c. case c of PcFleetUpsert r \<Rightarrow> ur_Pipeline r = ur_Pipeline (buildUpsertRequest R p) | _ \<Rightarrow> True"
  have "benign ?Q" by (simp add: benign_def)
  then have "extends ?Q [PcGet req] (rr_trace (pipeline_Reconcile R E req))"
    using get by (intro Reconcile_extends) auto
  from extends_set [OF this up] have "ur_Pipeline r = ur_Pipeline (buildUpsertRequest R p)" by simp
  then have r: "fp_Matchers (ur_Pipeline r) = pspec_Matchers (pl_spec p)"
    "fp_Name (ur_Pipeline r) = DesiredFleetName p (pr_NameScope R)"
    by (simp_all add: buildUpsertRequest_def)
  have "set (pspec_Matchers (pl_spec p)) \<inter> required_matchers W info (om_namespace (pl_meta p)) \<noteq> {}"
    using tenant.Check_sound [OF pipeline_admitted(3) [OF adm chk] gov] .
  with r show ?thesis by simp
qed

text \<open>The shape of a label in front of a dot.\<close>

lemma scope_char_label: "scope_char c \<longleftrightarrow> label_char c \<or> c = CHR ''-''"
  by (simp add: scope_char_def label_char_def)

lemma reservedScopePrefixRe_label:
  assumes "dns_label l"
  shows "reservedScopePrefixRe (l @ ''.'' @ rest)"
proof -
  have all: "\<And>c. c \<in> set l \<Longrightarrow> scope_char c" using assms by (auto simp: dns_label_def scope_char_label)
  have dot: "\<not> scope_char (CHR ''.'')"
    by (simp add: scope_char_def is_lower_def is_digit_def)
  have "takeWhile scope_char (l @ ''.'' @ rest) = l" "dropWhile scope_char (l @ ''.'' @ rest) = ''.'' @ rest"
    using all dot by (simp_all add: takeWhile_append2 dropWhile_append2)
  with assms show ?thesis by (auto simp: reservedScopePrefixRe_def Let_def dns_label_def)
qed

text \<open>
  The guard of the name scope: in a cluster that scopes by namespace, an admitted
  pipeline that opts out and sets its own name never has the Fleet name of a scoped
  pipeline, whatever its namespace.
\<close>

theorem opted_out_name_is_free:
  assumes adm: "snd (snd (pipeline_ValidateCreate Y v tr p)) = None \<or>
                snd (snd (pipeline_ValidateUpdate Y v tr old p)) = None"
    and def: "pv_nameScopeDefault v = NameScopeNamespace"
    and out: "EffectiveNameScope p NameScopeNamespace = NameScopeNone" "pspec_Name (pl_spec p) \<noteq> []"
    and q: "scoped q NameScopeNamespace" "IsValidDNS1123 (om_namespace (pl_meta q))"
  shows "DesiredFleetName p NameScopeNamespace \<noteq> DesiredFleetName q NameScopeNamespace"
proof
  assume eq: "DesiredFleetName p NameScopeNamespace = DesiredFleetName q NameScopeNamespace"
  have "DesiredFleetName p NameScopeNamespace = pspec_Name (pl_spec p)"
    using out by (simp add: DesiredFleetName_def Let_def baseName_def)
  with eq have "reservedScopePrefixRe (pspec_Name (pl_spec p))"
    using reservedScopePrefixRe_label q(2) by (simp add: DesiredFleetName_scoped [OF q(1)] IsValidDNS1123_iff)
  with pipeline_admitted(2) [OF adm] def out show False
    by (auto simp: validateNameScope_def Let_def split: if_splits)
qed

text \<open>
  The guard has two holes.  The name scope check passes, and the pipeline takes the Fleet name
  of the scoped pipeline \<open>base\<close> of the namespace \<open>ns\<close>, when it opts out and has no \<open>spec.name\<close>
  but a dotted \<open>metadata.name\<close>, and when it keeps the default scope but carries the
  (user-settable) annotation of a discovered pipeline.
\<close>

theorem name_scope_guard_holes:
  assumes q: "scoped q NameScopeNamespace"
    and name: "baseName p = om_namespace (pl_meta q) @ ''.'' @ baseName q"
    and hole: "(pspec_Name (pl_spec p) = [] \<and> annotation p PipelineNameScopeAnnotation = NameScopeNone \<and>
                has_key (om_annotations (pl_meta p)) PipelineNameScopeAnnotation) \<or>
               (IsDiscovered p \<and> \<not> has_key (om_annotations (pl_meta p)) PipelineNameScopeAnnotation)"
  shows "validateNameScope NameScopeNamespace p = None \<and>
         DesiredFleetName p NameScopeNamespace = DesiredFleetName q NameScopeNamespace"
proof -
  have "annotation p PipelineNameScopeAnnotation = []"
    if "\<not> has_key (om_annotations (pl_meta p)) PipelineNameScopeAnnotation"
    using that by (auto simp: get_str_def has_key_map_of)
  with hole name show ?thesis
    unfolding DesiredFleetName_scoped [OF q]
    by (auto simp: validateNameScope_def Let_def EffectiveNameScope_def DesiredFleetName_def)
qed

section \<open>Witnesses\<close>

definition tenant_pipeline :: "string \<Rightarrow> string \<Rightarrow> gomap \<Rightarrow> Pipeline" where
  "tenant_pipeline ns name annots =
     \<lparr>pl_meta = \<lparr>om_namespace = ns, om_name = ''logs'', om_generation = 3, om_deleting = False,
                 om_finalizers = [pipelineFinalizer], om_labels = [], om_annotations = annots\<rparr>,
      pl_spec = \<lparr>pspec_Name = name, pspec_Contents = ''loki.write x'', pspec_Matchers = [''team=billing''],
                 pspec_Enabled = None, pspec_ConfigType = ConfigTypeAlloy, pspec_Source = None,
                 pspec_Paused = False\<rparr>,
      pl_status = \<lparr>pst_ID = [], pst_SyncedName = [], pst_ObservedGeneration = 0,
                   pst_CreatedAt = None, pst_UpdatedAt = None, pst_Source = None,
                   pst_RevisionID = [], pst_Conditions = []\<rparr>\<rparr>"

definition billing_validator :: "tenant_call list pipelineValidator" where
  "billing_validator =
     \<lparr>pv_checker = Some (checker_of billing_world (Some billing_user)),
      pv_nameScopeDefault = NameScopeNamespace\<rparr>"

lemma tenant_pipeline_valid:
  assumes "validateName (tenant_pipeline ns name annots) = None"
  shows "snd (validatePipeline Y (tenant_pipeline ns name annots)) = None"
proof -
  have c: "trim_space ''loki.write x'' = ''loki.write x''" by code_simp
  have m: "validateMatcherSyntax ''team=billing'' = None" by code_simp
  have "snd (validateConfigType Y (tenant_pipeline ns name annots)) = None"
    by (simp add: validateConfigType_def tenant_pipeline_def c Let_def)
  with assms c m show ?thesis
    by (auto simp: validatePipeline_def validateContents_def validateMatchers_def validateSource_def
        tenant_pipeline_def split: prod.splits option.splits)
qed

lemma tenant_pipeline_admitted:
  assumes "validateName (tenant_pipeline ns name annots) = None"
    and "validateNameScope NameScopeNamespace (tenant_pipeline ns name annots) = None"
  shows "snd (snd (pipeline_ValidateCreate Y billing_validator [] (tenant_pipeline ns name annots))) = None"
proof -
  have "snd (Check (Some (world_env billing_world)) (Some billing_user) [] ns [''team=billing'']) = None"
    using Check_healthy [OF billing_healthy, of billing_user "[]" ns "[''team=billing'']"]
    by (simp add: required_matchers_def billing_world_def applies_def selects_def billing_policy_def
        billing_user_def)
  then have "snd (mc_Check (checker_of billing_world (Some billing_user)) []
      (om_namespace (pl_meta (tenant_pipeline ns name annots)))
      (pspec_Matchers (pl_spec (tenant_pipeline ns name annots)))) = None"
    by (simp add: checker_of_def tenant_pipeline_def)
  with tenant_pipeline_valid [OF assms(1), of Y] assms(2) show ?thesis
    by (auto simp: pipeline_ValidateCreate_def billing_validator_def split: prod.splits option.splits)
qed

theorem tenant_scoped_upsert_witness:
  "DesiredFleetName (tenant_pipeline ''ns'' [] []) NameScopeNamespace = ''ns.logs''"
proof -
  let ?p = "tenant_pipeline ''ns'' [] []" and ?R = "sample_reconciler NameScopeNamespace"
  have a: "snd (snd (pipeline_ValidateCreate (\<lambda>_. Inr []) billing_validator [] ?p)) = None"
    by (rule tenant_pipeline_admitted)
      (simp_all add: validateName_def validateNameScope_def tenant_pipeline_def has_key_def)
  have g: "governed billing_world billing_user (om_namespace (pl_meta ?p))"
    by (rule billing_governed)
  have u: "PcFleetUpsert (buildUpsertRequest ?R ?p) \<in>
      set (rr_trace (pipeline_Reconcile ?R (sample_env ?p) sample_req))"
    by (simp add: pipeline_Reconcile_def pipeline_reconcileNormal_def migratePipelineName_def
        pipeline_updateStatusSuccess_def pipeline_emitEvent_def sample_defs tenant_pipeline_def
        backfillSyncedName_def migration_due_def isPaused_def isReadOnly_def IsReadOnly_def Let_def)
  have "pe_Get (sample_env ?p) [PcGet sample_req] = Inr ?p" by (simp add: sample_env_def)
  from tenant_scoped_upsert [OF disjI1 [OF a] _ g this u]
  have "fp_Name (ur_Pipeline (buildUpsertRequest ?R ?p)) = DesiredFleetName ?p NameScopeNamespace"
    by (simp add: billing_validator_def sample_reconciler_def)
  then show ?thesis
    by (simp add: DesiredFleetName_def baseName_def EffectiveNameScope_def IsDiscovered_def
        IsReadOnly_def tenant_pipeline_def get_str_def has_key_def Let_def)
qed

lemma plain_scoped: "scoped (tenant_pipeline ns name []) NameScopeNamespace"
  by (simp add: scoped_def EffectiveNameScope_def IsDiscovered_def IsReadOnly_def tenant_pipeline_def
      get_str_def has_key_def)

theorem opted_out_name_is_free_witness:
  "DesiredFleetName (tenant_pipeline ''b'' ''My.logs'' [(PipelineNameScopeAnnotation, ''none'')]) NameScopeNamespace \<noteq>
   DesiredFleetName (tenant_pipeline ''a'' ''logs'' []) NameScopeNamespace"
proof (rule opted_out_name_is_free)
  let ?p = "tenant_pipeline ''b'' ''My.logs'' [(PipelineNameScopeAnnotation, ''none'')]"
  have n: "trim_space ''My.logs'' = ''My.logs''" "validateName_loop ''My.logs'' = None"
    "\<not> reservedScopePrefixRe ''My.logs''"
    by code_simp+
  have "validateName ?p = None" using n by (simp add: validateName_def tenant_pipeline_def)
  moreover have "validateNameScope NameScopeNamespace ?p = None"
    using n by (simp add: validateNameScope_def tenant_pipeline_def get_str_def has_key_def)
  ultimately show "snd (snd (pipeline_ValidateCreate (\<lambda>_. Inr []) billing_validator [] ?p)) = None \<or>
      snd (snd (pipeline_ValidateUpdate (\<lambda>_. Inr []) billing_validator [] ?p ?p)) = None"
    using tenant_pipeline_admitted by blast
qed (simp_all add: billing_validator_def EffectiveNameScope_def tenant_pipeline_def get_str_def
    plain_scoped [unfolded tenant_pipeline_def] IsValidDNS1123_iff dns_label_def dns1123MaxLabelLen_def
    label_char_def is_lower_def is_digit_def)

theorem name_scope_guard_holes_witness:
  "DesiredFleetName (tenant_pipeline ''b'' ''a.logs'' [(FleetPipelineIDAnnotation, ''x'')]) NameScopeNamespace =
   DesiredFleetName (tenant_pipeline ''a'' ''logs'' []) NameScopeNamespace"
  using name_scope_guard_holes [OF plain_scoped [of "''a''" "''logs''"],
      of "tenant_pipeline ''b'' ''a.logs'' [(FleetPipelineIDAnnotation, ''x'')]"]
  by (simp add: baseName_def tenant_pipeline_def IsDiscovered_def has_key_def)

end
