(* ===== verification/Sync_Webhook.thy ===== *)
theory Sync_Webhook
  imports Sync_Claims Attr_Webhooks SQL_Guard Netguard
begin

text \<open>
  The admission webhook of ExternalAttributeSync (\<open>api/v1alpha1/external_sync_webhook.go\<close>) and what
  it guarantees of the claims the reconciler of \<open>External_Sync\<close> publishes.
\<close>

section \<open>Libraries\<close>

text \<open>
  \<open>url.Parse\<close> with the components the webhook reads, \<open>time.ParseDuration\<close>, the five-field cron
  parser, \<open>netip.ParseAddr\<close> and the letters beyond ASCII are parameters.
\<close>

record parsed_url =
  pu_Scheme :: string
  pu_Host :: string
  pu_Hostname :: string
  pu_String :: string

record wlib =
  wl_ParseDuration :: "string \<Rightarrow> go_error + int"
  wl_CronParser :: "string \<Rightarrow> go_error option"
  wl_ParseURL :: "string \<Rightarrow> go_error + parsed_url"
  wl_ParseAddr :: "string \<Rightarrow> ip_addr option"
  wl_letter :: "string \<Rightarrow> bool"

section \<open>The checks\<close>

definition validateSchedule :: "wlib \<Rightarrow> ExternalAttributeSync \<Rightarrow> go_error option" where
  "validateSchedule W r =
     (let schedule = trim_space (easspec_Schedule (eas_spec r))
      in if schedule = [] then
           Some (PlainError (''spec.schedule is required and must be either a Go duration (e.g. '' @
             go_quote ''5m'' @ '') or a 5-field cron expression (e.g. '' @ go_quote ''*/15 * * * *'' @ '')''))
         else
           (case wl_ParseDuration W schedule of
              Inr _ \<Rightarrow> None
            | Inl durErr \<Rightarrow>
                (case wl_CronParser W schedule of
                   None \<Rightarrow> None
                 | Some cronErr \<Rightarrow>
                     Some (PlainError (''spec.schedule '' @ go_quote schedule @
                       '' is neither a valid Go duration nor a valid 5-field cron expression: '' @
                       ''duration parse error: '' @ err_text durErr @
                       ''; cron parse error: '' @ err_text cronErr)))))"

definition validateExternalSyncSecretRef :: "string \<Rightarrow> SecretReference option \<Rightarrow> go_error option" where
  "validateExternalSyncSecretRef syncNamespace ref0 =
     (case ref0 of
        None \<Rightarrow> None
      | Some ref \<Rightarrow>
          if trim_space (sref_Name ref) = [] then
            Some (PlainError ''spec.source.secretRef.name is required when secretRef is set'')
          else if sref_Namespace ref \<noteq> [] \<and> sref_Namespace ref \<noteq> syncNamespace then
            Some (PlainError (''spec.source.secretRef.namespace '' @ go_quote (sref_Namespace ref) @
              '' is invalid; ExternalAttributeSync secretRef must stay in namespace '' @
              go_quote syncNamespace))
          else None)"

definition validateHTTPDestination :: "wlib \<Rightarrow> parsed_url \<Rightarrow> go_error option" where
  "validateHTTPDestination W u =
     (let host = to_lower (trim_suffix (pu_Hostname u) ''.'')
      in if host = [] then
           Some (PlainError (''spec.source.http.url '' @ go_quote (pu_String u) @
             '' is missing a host component''))
         else
           (case ValidateHostname (wl_ParseAddr W) host of
              None \<Rightarrow> None
            | Some err \<Rightarrow>
                if is_disallowed err then
                  Some (PlainError (''spec.source.http.url host '' @ go_quote host @
                    '' is not allowed; use a public, explicitly approved external source endpoint''))
                else
                  Some (WrapError (''spec.source.http.url host '' @ go_quote host @ '' is invalid: '') err [])))"

definition validateHTTPSource :: "wlib \<Rightarrow> HTTPSourceSpec \<Rightarrow> bool \<Rightarrow> go_error option" where
  "validateHTTPSource W http hasSecretRef =
     (let rawURL = trim_space (hss_URL http)
      in if rawURL = [] then
           Some (PlainError ''spec.source.http.url is required and must not be empty'')
         else
           (case wl_ParseURL W rawURL of
              Inl err \<Rightarrow> Some (WrapError ''spec.source.http.url is not a valid URL: '' err [])
            | Inr parsed \<Rightarrow>
                (let scheme = to_lower (pu_Scheme parsed)
                 in if scheme \<noteq> ''http'' \<and> scheme \<noteq> ''https'' then
                      Some (PlainError (''spec.source.http.url scheme '' @ go_quote (pu_Scheme parsed) @
                        '' is invalid; must be http or https''))
                    else if hasSecretRef \<and> scheme \<noteq> ''https'' then
                      Some (PlainError
                        ''spec.source.http.url must use https when spec.source.secretRef is set'')
                    else if pu_Host parsed = [] then
                      Some (PlainError (''spec.source.http.url '' @ go_quote rawURL @
                        '' is missing a host component''))
                    else
                      (case validateHTTPDestination W parsed of
                         Some err \<Rightarrow> Some err
                       | None \<Rightarrow>
                           if hss_Method http \<in> {'''', ''GET'', ''POST''} then None
                           else Some (PlainError (''spec.source.http.method '' @ go_quote (hss_Method http) @
                             '' is invalid; must be GET or POST''))))))"

definition validateSQLSource :: "wlib \<Rightarrow> SQLSourceSpec \<Rightarrow> go_error option" where
  "validateSQLSource W sql =
     (if trim_space (sss_Query sql) = [] then
        Some (PlainError ''spec.source.sql.query is required and must not be empty'')
      else
        (case validateReadOnlySQLQuery (wl_letter W) (sss_Query sql) of
           Some err \<Rightarrow>
             Some (WrapError ''spec.source.sql.query must be a single read-only SELECT statement: '' err [])
         | None \<Rightarrow> None))"

definition sync_validateSource :: "wlib \<Rightarrow> ExternalAttributeSync \<Rightarrow> go_error option" where
  "sync_validateSource W r =
     (let src = easspec_Source (eas_spec r)
      in case validateExternalSyncSecretRef (om_namespace (eas_meta r)) (xsrc_SecretRef src) of
           Some err \<Rightarrow> Some err
         | None \<Rightarrow>
             if xsrc_Kind src = ExternalSourceKindHTTP then
               (case xsrc_HTTP src of
                  None \<Rightarrow> Some (PlainError ''spec.source.kind=HTTP requires spec.source.http to be set'')
                | Some http \<Rightarrow>
                    if xsrc_SQL src \<noteq> None then
                      Some (PlainError ''spec.source.kind=HTTP must not also set spec.source.sql'')
                    else validateHTTPSource W http (xsrc_SecretRef src \<noteq> None))
             else if xsrc_Kind src = ExternalSourceKindSQL then
               (case xsrc_SQL src of
                  None \<Rightarrow> Some (PlainError ''spec.source.kind=SQL requires spec.source.sql to be set'')
                | Some sql \<Rightarrow>
                    if xsrc_HTTP src \<noteq> None then
                      Some (PlainError ''spec.source.kind=SQL must not also set spec.source.http'')
                    else validateSQLSource W sql)
             else Some (PlainError (''spec.source.kind '' @ go_quote (xsrc_Kind src) @
                    '' is invalid; must be one of HTTP, SQL'')))"

fun attribute_fields_loop :: "gomap \<Rightarrow> go_error option" where
  "attribute_fields_loop [] = None"
| "attribute_fields_loop ((key, sourceField) # flds) =
     (if key = [] then Some (PlainError ''spec.mapping.attributeFields contains an empty key'')
      else if has_prefix key collectorReservedAttributePrefix then
        Some (PlainError (''spec.mapping.attributeFields key '' @ go_quote key @ '' uses reserved prefix '' @
          go_quote collectorReservedAttributePrefix @
          '' which is reserved by Fleet Management for collector-reported attributes''))
      else if trim_space sourceField = [] then
        Some (PlainError (''spec.mapping.attributeFields['' @ go_quote key @
          ''] source field is required and must not be empty or whitespace''))
      else if length sourceField > collectorMaxAttributeValueLength then
        Some (PlainError (''spec.mapping.attributeFields['' @ go_quote key @ ''] source field length '' @
          show_nat (length sourceField) @ '' exceeds the maximum of 1024 characters''))
      else attribute_fields_loop flds)"

fun required_keys_loop :: "nat \<Rightarrow> string list \<Rightarrow> go_error option" where
  "required_keys_loop i [] = None"
| "required_keys_loop i (key # ks) =
     (if trim_space key = [] then
        Some (PlainError (''spec.mapping.requiredKeys['' @ show_nat i @
          ''] is empty; required keys must be non-empty''))
      else required_keys_loop (Suc i) ks)"

definition validateMapping :: "ExternalAttributeSync \<Rightarrow> go_error option" where
  "validateMapping r =
     (let mapping = easspec_Mapping (eas_spec r)
      in if trim_space (am_CollectorIDField mapping) = [] then
           Some (PlainError ''spec.mapping.collectorIDField is required and must not be empty or whitespace'')
         else if am_AttributeFields mapping = [] then
           Some (PlainError (''spec.mapping.attributeFields must contain at least one entry; '' @
             ''a mapping with no attribute fields produces no output''))
         else
           (case attribute_fields_loop (am_AttributeFields mapping) of
              Some err \<Rightarrow> Some err
            | None \<Rightarrow> required_keys_loop 0 (am_RequiredKeys mapping)))"

text \<open>The loops over matchers and IDs are those of the policy webhook, text for text.\<close>

definition validateExternalSyncSelector :: "ExternalAttributeSync \<Rightarrow> go_error option" where
  "validateExternalSyncSelector r =
     (let sel = easspec_Selector (eas_spec r)
      in if psel_Matchers sel = [] \<and> psel_CollectorIDs sel = [] then
           Some (PlainError (''spec.selector must specify at least one of matchers or collectorIDs; '' @
             ''an empty selector matches no collectors''))
         else
           (case selector_matchers_loop 0 (psel_Matchers sel) of
              Some err \<Rightarrow> Some err
            | None \<Rightarrow> selector_ids_loop 0 (psel_CollectorIDs sel)))"

definition validateExternalAttributeSync :: "wlib \<Rightarrow> ExternalAttributeSync \<Rightarrow> go_error option" where
  "validateExternalAttributeSync W r =
     (case validateSchedule W r of
        Some err \<Rightarrow> Some err
      | None \<Rightarrow>
     (case sync_validateSource W r of
        Some err \<Rightarrow> Some err
      | None \<Rightarrow>
     (case validateMapping r of
        Some err \<Rightarrow> Some err
      | None \<Rightarrow>
     (case validateExternalSyncSelector r of
        Some err \<Rightarrow> Some err
      | None \<Rightarrow> None))))"

definition sync_ValidateCreate ::
    "wlib \<Rightarrow> 'tr MatcherChecker option \<Rightarrow> 'tr \<Rightarrow> ExternalAttributeSync \<Rightarrow>
       'tr \<times> string list \<times> go_error option" where
  "sync_ValidateCreate W checker tr obj =
     (case validateExternalAttributeSync W obj of
        Some err \<Rightarrow> (tr, [], Some err)
      | None \<Rightarrow>
          (case runTenantChecks checker tr (om_namespace (eas_meta obj))
                  (psel_Matchers (easspec_Selector (eas_spec obj)))
                  (psel_CollectorIDs (easspec_Selector (eas_spec obj))) of
             (tr, Some err) \<Rightarrow> (tr, [], Some err)
           | (tr, None) \<Rightarrow> (tr, [], None)))"

definition sync_ValidateUpdate ::
    "wlib \<Rightarrow> 'tr MatcherChecker option \<Rightarrow> 'tr \<Rightarrow> ExternalAttributeSync \<Rightarrow> ExternalAttributeSync \<Rightarrow>
       'tr \<times> string list \<times> go_error option" where
  "sync_ValidateUpdate W checker tr oldObj newObj =
     (case validateExternalAttributeSync W newObj of
        Some err \<Rightarrow> (tr, [], Some err)
      | None \<Rightarrow>
          (case runTenantChecks checker tr (om_namespace (eas_meta newObj))
                  (psel_Matchers (easspec_Selector (eas_spec newObj)))
                  (psel_CollectorIDs (easspec_Selector (eas_spec newObj))) of
             (tr, Some err) \<Rightarrow> (tr, [], Some err)
           | (tr, None) \<Rightarrow> (tr, [], None)))"

definition sync_ValidateDelete :: "ExternalAttributeSync \<Rightarrow> string list \<times> go_error option" where
  "sync_ValidateDelete obj = ([], None)"

section \<open>What the webhook guarantees\<close>

lemma attribute_fields_loop_iff:
  "attribute_fields_loop flds = None \<longleftrightarrow>
     list_all (\<lambda>(k, f). k \<noteq> [] \<and> \<not> has_prefix k ''collector.'' \<and> trim_space f \<noteq> [] \<and> length f \<le> 1024) flds"
  by (induction flds rule: attribute_fields_loop.induct) (simp_all add: not_less)

lemma sync_admitted:
  assumes "snd (snd (sync_ValidateCreate W checker tr s)) = None \<or>
           snd (snd (sync_ValidateUpdate W checker tr old s)) = None"
  shows "validateExternalAttributeSync W s = None"
    and "snd (runTenantChecks checker tr (om_namespace (eas_meta s))
           (psel_Matchers (easspec_Selector (eas_spec s)))
           (psel_CollectorIDs (easspec_Selector (eas_spec s)))) = None"
  using assms
  by (auto simp: sync_ValidateCreate_def sync_ValidateUpdate_def split: option.splits prod.splits)

lemma validateExternalAttributeSync_parts:
  "validateExternalAttributeSync W s = None \<longleftrightarrow>
     validateSchedule W s = None \<and> sync_validateSource W s = None \<and> validateMapping s = None \<and>
     validateExternalSyncSelector s = None"
  by (simp add: validateExternalAttributeSync_def)

lemma validateMapping_fields:
  "validateMapping s = None \<Longrightarrow>
     list_all (\<lambda>(k, f). k \<noteq> [] \<and> \<not> has_prefix k ''collector.'') (am_AttributeFields (easspec_Mapping (eas_spec s)))"
  by (auto simp: validateMapping_def Let_def attribute_fields_loop_iff list_all_iff split: if_splits)

lemma record_attrs_keys:
  "fst ` set (record_attrs ff flds rec) \<subseteq> fst ` set flds"
proof -
  have "fst ` set (fold (\<lambda>(attrKey, sourceField) attrs.
             case FieldString ff rec sourceField of None \<Rightarrow> attrs | Some v \<Rightarrow> map_put attrKey v attrs) flds acc)
        \<subseteq> fst ` set acc \<union> fst ` set flds" for acc
  proof (induction flds arbitrary: acc)
    case (Cons kf flds)
    obtain k f where "kf = (k, f)" by force
    with Cons [of "case FieldString ff rec f of None \<Rightarrow> acc | Some v \<Rightarrow> map_put k v acc"] show ?case
      by (auto split: option.splits)
  qed simp
  from this [of "[]"] show ?thesis by (simp add: record_attrs_def)
qed

lemma claimed_record:
  assumes "claimed ff mapping matched records i = Some attrs"
  shows "\<exists>rec \<in> set records. record_claim ff mapping matched rec = Some (i, attrs)"
proof -
  have "(i, attrs) \<in> set (claims ff mapping matched records)"
    using assms map_of_SomeD unfolding claimed_def by fastforce
  then show ?thesis
    by (induction records) (auto simp: claims_Cons split: option.splits)
qed

lemma record_claim_Some:
  "record_claim ff mapping matched rec = Some (i, attrs) \<longleftrightarrow>
     FieldString ff rec (am_CollectorIDField mapping) = Some i \<and> i \<noteq> [] \<and>
     (\<forall>k \<in> set (am_RequiredKeys mapping). has_key rec k) \<and> i \<in> matched \<and>
     attrs = record_attrs ff (am_AttributeFields mapping) rec \<and> attrs \<noteq> []"
  by (auto simp: record_claim_def split: option.splits)

lemma claimed_Some:
  assumes "claimed ff mapping matched records i = Some attrs"
  shows "i \<in> matched \<and> (\<exists>rec \<in> set records. attrs = record_attrs ff (am_AttributeFields mapping) rec)"
  using claimed_record [OF assms] by (auto simp: record_claim_Some)

text \<open>
  C17: a synchronization of a user bound by tenant policies claims attributes only of his own
  collectors.  If the webhook admits it, then every collector ID in the claim it publishes
  (whatever the source returns) belongs to a listed Collector that satisfies a matcher the user's
  tenant policies require; and no claim of an admitted synchronization has an empty key or a
  key with the prefix reserved for Fleet Management.
\<close>

theorem sync_claim_stays_in_tenant:
  assumes adm: "snd (snd (sync_ValidateCreate L (Some (checker_of W (Some info))) tr s)) = None \<or>
                snd (snd (sync_ValidateUpdate L (Some (checker_of W (Some info))) tr old s)) = None"
    and claim: "sync_claim R s records collectors cid = Some attrs"
  shows "list_all (\<lambda>(k, v). k \<noteq> [] \<and> \<not> has_prefix k ''collector.'') attrs \<and>
         (\<exists>c \<in> set collectors. cspec_ID (cl_spec c) = cid \<and>
            (governed W info (om_namespace (eas_meta s)) \<longrightarrow>
               (\<exists>m \<in> required_matchers W info (om_namespace (eas_meta s)).
                  matchOne (xr_regex R) m cid (cst_LocalAttributes (cl_status c)) = Inr True)))"
proof -
  let ?sel = "easspec_Selector (eas_spec s)" and ?ns = "om_namespace (eas_meta s)"
  obtain rec where c: "cid \<in> selected_ids (xr_regex R) s collectors"
    "attrs = record_attrs (xl_formatFloat (xr_lib R)) (am_AttributeFields (easspec_Mapping (eas_spec s))) rec"
    using claimed_Some [OF claim] by blast
  have "validateMapping s = None"
    using sync_admitted(1) [OF adm] by (simp add: validateExternalAttributeSync_parts)
  from validateMapping_fields [OF this] have "list_all (\<lambda>(k, v). k \<noteq> [] \<and> \<not> has_prefix k ''collector.'') attrs"
    using record_attrs_keys c(2) by (fastforce simp: list_all_iff)
  moreover obtain col where col: "col \<in> set collectors" "cspec_ID (cl_spec col) = cid"
    "Match (xr_regex R) (selector_of ?sel) cid (cst_LocalAttributes (cl_status col))"
    using c(1) by (auto simp: selected_ids_def)
  moreover have "\<exists>m \<in> required_matchers W info ?ns.
      matchOne (xr_regex R) m cid (cst_LocalAttributes (cl_status col)) = Inr True"
    if gov: "governed W info ?ns"
    using tenant.runTenantChecks_sound [OF sync_admitted(2) [OF adm] gov] col(3)
    by (auto simp: Match_iff selector_of_def)
  ultimately show ?thesis by blast
qed

section \<open>Schedules\<close>

text \<open>The libraries of the webhook and of the reconciler are the same code.\<close>

definition same_parsers :: "wlib \<Rightarrow> ExternalAttributeSyncReconciler \<Rightarrow> bool" where
  "same_parsers W R \<longleftrightarrow>
     (\<forall>t. xl_ParseDuration (xr_lib R) t = (case wl_ParseDuration W t of Inl e \<Rightarrow> None | Inr d \<Rightarrow> Some d)) \<and>
     (\<forall>t. wl_CronParser W t = None \<longleftrightarrow> (\<exists>f. sync_parser R t = Inr f))"

text \<open>
  An admitted schedule works in the reconciler unless it is a duration that is not
  positive, or has outer white space: the webhook trims before it parses and does not look at the
  sign, the reconciler does neither.
\<close>

theorem admitted_schedule_works:
  assumes "same_parsers W R" "validateSchedule W s = None"
  defines "t \<equiv> easspec_Schedule (eas_spec s)"
  shows "(\<exists>e. sync_scheduleNext R t now = Inl e) \<longleftrightarrow>
           (\<exists>d. wl_ParseDuration W t = Inr d \<and> d \<le> 0) \<or>
           (trim_space t \<noteq> t \<and> (\<exists>e. wl_ParseDuration W t = Inl e) \<and> wl_CronParser W t \<noteq> None)"
proof -
  have dur: "xl_ParseDuration (xr_lib R) t = (case wl_ParseDuration W t of Inl e \<Rightarrow> None | Inr d \<Rightarrow> Some d)"
    and cron: "wl_CronParser W t = None \<longleftrightarrow> (\<exists>f. sync_parser R t = Inr f)"
    using assms(1) by (simp_all add: same_parsers_def)
  have adm: "(\<exists>d. wl_ParseDuration W (trim_space t) = Inr d) \<or> wl_CronParser W (trim_space t) = None"
    using assms(2) by (auto simp: validateSchedule_def t_def Let_def split: if_splits sum.splits option.splits)
  show ?thesis
  proof (cases "wl_ParseDuration W t")
    case (Inr d)
    with dur show ?thesis by (auto simp: sync_scheduleNext_def)
  next
    case (Inl e)
    with dur cron adm show ?thesis
      by (cases "sync_parser R t") (auto simp: sync_scheduleNext_def)
  qed
qed

section \<open>Witnesses\<close>

definition sample_wlib :: wlib where
  "sample_wlib =
     \<lparr>wl_ParseDuration = (\<lambda>t. if t = ''5m'' then Inr (5 * minute) else if t = ''0s'' then Inr 0 else Inl (PlainError ''duration'')),
      wl_CronParser = (\<lambda>t. Some (PlainError ''cron'')),
      wl_ParseURL = (\<lambda>t. Inr \<lparr>pu_Scheme = ''https'', pu_Host = ''cmdb.example.com'',
                              pu_Hostname = ''cmdb.example.com'', pu_String = t\<rparr>),
      wl_ParseAddr = (\<lambda>_. None), wl_letter = (\<lambda>_. False)\<rparr>"

definition sample_sync_reconciler :: ExternalAttributeSyncReconciler where
  "sample_sync_reconciler =
     \<lparr>xr_klib = klib_ref, xr_regex = (\<lambda>_. None),
      xr_lib = \<lparr>xl_ParseDuration = (\<lambda>t. if t = ''5m'' then Some (5 * minute) else if t = ''0s'' then Some 0 else None),
                xl_defaultCronParser = (\<lambda>_. Inl (PlainError ''cron'')),
                xl_ParseURL = (\<lambda>_. None), xl_formatFloat = (\<lambda>_. [])\<rparr>,
      xr_hasRecorder = True, xr_hasFactory = True, xr_CronParser = (\<lambda>_. Inl (PlainError ''cron'')),
      xr_SourceTargetRate = 0, xr_SourceTargetBurst = 0, xr_SecretLabelSelector = []\<rparr>"

definition billing_sync :: "string \<Rightarrow> ExternalAttributeSync" where
  "billing_sync schedule =
     \<lparr>eas_meta = \<lparr>om_namespace = ''ns'', om_name = ''cmdb'', om_generation = 1, om_deleting = False,
                  om_finalizers = [], om_labels = [], om_annotations = []\<rparr>,
      eas_spec = \<lparr>easspec_Source = \<lparr>xsrc_Kind = ''HTTP'',
                    xsrc_HTTP = Some \<lparr>hss_URL = ''https://cmdb.example.com'', hss_Method = ''GET'', hss_RecordsPath = []\<rparr>,
                    xsrc_SQL = None, xsrc_SecretRef = None\<rparr>,
                  easspec_Schedule = schedule,
                  easspec_Selector = \<lparr>psel_Matchers = [''team=billing''], psel_CollectorIDs = []\<rparr>,
                  easspec_Mapping = \<lparr>am_CollectorIDField = ''id'', am_AttributeFields = [(''owner'', ''owner'')],
                                    am_RequiredKeys = []\<rparr>,
                  easspec_AllowEmptyResults = False\<rparr>,
      eas_status = \<lparr>easst_ObservedGeneration = 0, easst_LastSyncTime = None, easst_LastSuccessTime = None,
                    easst_RecordsSeen = 0, easst_RecordsApplied = 0, easst_OwnedKeys = [], easst_Conditions = []\<rparr>\<rparr>"

lemma billing_sync_schedule:
  "validateSchedule sample_wlib (billing_sync ''5m'') = None" "validateSchedule sample_wlib (billing_sync ''0s'') = None"
proof -
  have "trim_space ''5m'' = ''5m''" "trim_space ''0s'' = ''0s''" by code_simp+
  then show "validateSchedule sample_wlib (billing_sync ''5m'') = None"
    "validateSchedule sample_wlib (billing_sync ''0s'') = None"
    by (simp_all add: validateSchedule_def billing_sync_def sample_wlib_def)
qed

lemma billing_sync_valid: "validateExternalAttributeSync sample_wlib (billing_sync ''5m'') = None"
proof -
  have t: "trim_space ''https://cmdb.example.com'' = ''https://cmdb.example.com''" "to_lower ''https'' = ''https''"
    "to_lower (trim_suffix ''cmdb.example.com'' ''.'') = ''cmdb.example.com''"
    "ValidateHostname (\<lambda>_. None) ''cmdb.example.com'' = None"
    "trim_space ''id'' = ''id''" "trim_space ''owner'' = ''owner''"
    "validateMatcherSyntax ''team=billing'' = None"
    by code_simp+
  have "sync_validateSource sample_wlib (billing_sync ''5m'') = None"
    by (simp add: sync_validateSource_def validateExternalSyncSecretRef_def validateHTTPSource_def
        validateHTTPDestination_def billing_sync_def sample_wlib_def t Let_def del: to_lower.simps)
  moreover have "validateMapping (billing_sync ''5m'') = None"
    by (simp add: validateMapping_def billing_sync_def t Let_def)
  moreover have "validateExternalSyncSelector (billing_sync ''5m'') = None"
    by (simp add: validateExternalSyncSelector_def billing_sync_def t Let_def)
  ultimately show ?thesis
    using billing_sync_schedule by (simp add: validateExternalAttributeSync_parts)
qed

lemma billing_sync_admitted:
  "snd (snd (sync_ValidateCreate sample_wlib (Some (checker_of billing_world (Some billing_user))) []
     (billing_sync ''5m''))) = None"
proof -
  have "snd (runTenantChecks (Some (checker_of billing_world (Some billing_user))) [] ''ns'' [''team=billing''] []) = None"
    using tenant.runTenantChecks_sound
    by (simp add: runTenantChecks_def checker_of_def Check_def Let_def world_env_def billing_world_def
        billing_policy_def billing_user_def namespaceMatches_def allowed_matchers_def List.insert_def)
  then show ?thesis
    using billing_sync_valid by (auto simp: sync_ValidateCreate_def billing_sync_def split: prod.splits)
qed

definition billing_collector :: Collector where
  "billing_collector =
     (cl_sample False [])\<lparr>cl_status := (cl_status (cl_sample False []))\<lparr>cst_LocalAttributes := [(''team'', ''billing'')]\<rparr>\<rparr>"

theorem sync_claim_stays_in_tenant_witness:
  "\<exists>m \<in> required_matchers billing_world billing_user ''ns''.
     matchOne (\<lambda>_. None) m ''edge-1'' (cst_LocalAttributes (cl_status billing_collector)) = Inr True"
proof -
  have m: "matchOne (\<lambda>_. None) ''team=billing'' ''edge-1'' [(''team'', ''billing'')] = Inr True"
  proof -
    have "matcherPattern ''team=billing'' = Some (''team'', MEq, ''billing'')" by code_simp
    then show ?thesis by (simp add: matchOne_def unquote_def get_str_def)
  qed
  have "''edge-1'' \<in> selected_ids (xr_regex sample_sync_reconciler) (billing_sync ''5m'') [billing_collector]"
    by (auto simp: selected_ids_def billing_sync_def billing_collector_def cl_sample_def Match_iff
        selector_of_def sample_sync_reconciler_def m)
  then have "sync_claim sample_sync_reconciler (billing_sync ''5m'') [[(''id'', FString ''edge-1''), (''owner'', FString ''ana'')]]
      [billing_collector] ''edge-1'' = Some [(''owner'', ''ana'')]"
    by (simp add: claimed_def claims_Cons record_claim_def billing_sync_def FieldString_def record_attrs_def)
  from sync_claim_stays_in_tenant [OF disjI1 [OF billing_sync_admitted] this] billing_governed
  show ?thesis by (auto simp: billing_sync_def sample_sync_reconciler_def)
qed

theorem admitted_schedule_works_witness:
  "\<exists>e. sync_scheduleNext sample_sync_reconciler ''0s'' 7 = Inl e"
proof -
  have "same_parsers sample_wlib sample_sync_reconciler"
    by (simp add: same_parsers_def sample_wlib_def sync_parser_def sample_sync_reconciler_def)
  from admitted_schedule_works [OF this billing_sync_schedule(2), of 7] show ?thesis
    by (simp add: billing_sync_def sample_wlib_def)
qed

end
