(* ===== verification/Discovery_Types.thy ===== *)
theory Discovery_Types
  imports Attr_Webhooks Pipeline_Types Naming
begin

text \<open>
  \<open>api/v1alpha1/collector_discovery_types.go\<close> and \<open>pipeline_discovery_types.go\<close>, their admission
  webhooks (\<open>collector_discovery_webhook.go\<close>, \<open>pipeline_discovery_webhook.go\<close>) and the
  cross-namespace authorization both run (\<open>webhook_authz.go\<close>).
\<close>

section \<open>Resources\<close>

abbreviation DiscoveryOnRemovedKeep :: string where "DiscoveryOnRemovedKeep \<equiv> ''Keep''"
abbreviation DiscoveryOnRemovedDelete :: string where "DiscoveryOnRemovedDelete \<equiv> ''Delete''"
abbreviation DiscoveryOnConflictSkip :: string where "DiscoveryOnConflictSkip \<equiv> ''Skip''"
abbreviation DiscoveryNameLabel :: string where
  "DiscoveryNameLabel \<equiv> ''fleetmanagement.grafana.com/discovery-name''"
abbreviation DiscoveryNamespaceLabel :: string where
  "DiscoveryNamespaceLabel \<equiv> ''fleetmanagement.grafana.com/discovery-namespace''"
abbreviation DiscoveredByAnnotation :: string where
  "DiscoveredByAnnotation \<equiv> ''fleetmanagement.grafana.com/discovered-by''"
abbreviation FleetCollectorIDAnnotation :: string where
  "FleetCollectorIDAnnotation \<equiv> ''fleetmanagement.grafana.com/fleet-collector-id''"
abbreviation DiscoveryStaleAnnotation :: string where
  "DiscoveryStaleAnnotation \<equiv> ''fleetmanagement.grafana.com/discovery-stale''"
abbreviation DiscoveryStaleAnnotationValue :: string where "DiscoveryStaleAnnotationValue \<equiv> ''true''"
abbreviation DiscoveryConflictNotOwned :: string where
  "DiscoveryConflictNotOwned \<equiv> ''NotOwnedByDiscovery''"
abbreviation DiscoveryConflictOwnedByOther :: string where
  "DiscoveryConflictOwnedByOther \<equiv> ''OwnedByOtherDiscovery''"
abbreviation DiscoveryConflictSanitizeFailed :: string where
  "DiscoveryConflictSanitizeFailed \<equiv> ''NameSanitizationFailed''"

record DiscoveryPolicy =
  dpol_OnCollectorRemoved :: string
  dpol_OnConflict :: string

record CollectorDiscoverySpec =
  cdspec_PollInterval :: string
  cdspec_Selector :: PolicySelector
  cdspec_TargetNamespace :: string
  cdspec_IncludeInactive :: bool
  cdspec_Policy :: DiscoveryPolicy

record DiscoveryConflict =
  dcf_CollectorID :: string
  dcf_CRName :: string
  dcf_Reason :: string

record CollectorDiscoveryStatus =
  cdst_ObservedGeneration :: int
  cdst_LastSyncTime :: "int option"
  cdst_LastSuccessTime :: "int option"
  cdst_CollectorsObserved :: int
  cdst_CollectorsManaged :: int
  cdst_StaleCollectors :: "string list"
  cdst_Conflicts :: "DiscoveryConflict list"
  cdst_Conditions :: "cond list"

record CollectorDiscovery =
  cd_meta :: objmeta
  cd_spec :: CollectorDiscoverySpec
  cd_status :: CollectorDiscoveryStatus

abbreviation PipelineDiscoveryNameLabel :: string where
  "PipelineDiscoveryNameLabel \<equiv> ''fleetmanagement.grafana.com/pipeline-discovery-name''"
abbreviation PipelineDiscoveryNamespaceLabel :: string where
  "PipelineDiscoveryNamespaceLabel \<equiv> ''fleetmanagement.grafana.com/pipeline-discovery-namespace''"
abbreviation PipelineDiscoveredByAnnotation :: string where
  "PipelineDiscoveredByAnnotation \<equiv> ''fleetmanagement.grafana.com/pipeline-discovered-by''"
abbreviation PipelineDiscoveryStaleAnnotation :: string where
  "PipelineDiscoveryStaleAnnotation \<equiv> ''fleetmanagement.grafana.com/pipeline-discovery-stale''"
abbreviation PipelineDiscoveryImportModeAdopt :: string where
  "PipelineDiscoveryImportModeAdopt \<equiv> ''Adopt''"
abbreviation PipelineDiscoveryImportModeReadOnly :: string where
  "PipelineDiscoveryImportModeReadOnly \<equiv> ''ReadOnly''"

record PipelineDiscoverySelector =
  pdsel_ConfigType :: "string option"
  pdsel_Enabled :: "bool option"

record PipelineDiscoverySpec =
  pdspec_PollInterval :: string
  pdspec_Selector :: PipelineDiscoverySelector
  pdspec_TargetNamespace :: string
  pdspec_ImportMode :: string
  pdspec_OnPipelineRemoved :: string

record PipelineDiscoveryConflict =
  pdcf_PipelineID :: string
  pdcf_CRName :: string
  pdcf_Reason :: string

record PipelineDiscoveryStatus =
  pdst_ObservedGeneration :: int
  pdst_LastSyncTime :: "int option"
  pdst_LastSuccessTime :: "int option"
  pdst_PipelinesObserved :: int
  pdst_PipelinesManaged :: int
  pdst_StalePipelines :: "string list"
  pdst_Conflicts :: "PipelineDiscoveryConflict list"
  pdst_Conditions :: "cond list"

record PipelineDiscovery =
  pd_meta :: objmeta
  pd_spec :: PipelineDiscoverySpec
  pd_status :: PipelineDiscoveryStatus

text \<open>
  The libraries of both discoveries: \<open>time.ParseDuration\<close>, \<open>Duration.String\<close>,
  \<open>validation.IsDNS1123Label\<close> (its complaints) and the SHA-256 sum.
\<close>

record dlib =
  dl_ParseDuration :: "string \<Rightarrow> go_error + int"
  dl_show_duration :: "int \<Rightarrow> string"
  dl_IsDNS1123Label :: "string \<Rightarrow> string list"
  dl_sha256 :: "string \<Rightarrow> 8 word list"

section \<open>Cross-namespace authorization\<close>

record SubjectAccessReviewSpec =
  sar_Namespace :: string
  sar_Verb :: string
  sar_Group :: string
  sar_Resource :: string
  sar_User :: string
  sar_Groups :: "string list"
  sar_UID :: string
  sar_Extra :: "(string \<times> string list) list"

record SubjectAccessReviewStatus =
  sars_Allowed :: bool
  sars_Denied :: bool
  sars_Reason :: string

type_synonym reviewer = "SubjectAccessReviewSpec \<Rightarrow> go_error + SubjectAccessReviewStatus option"

text \<open>Copying the map key by key; its order is free, so is the copy's.\<close>

definition convertExtra :: "(string \<times> string list) list \<Rightarrow> (string \<times> string list) list" where
  "convertExtra inp = (if inp = [] then [] else fold (\<lambda>(k, v) out. map_put k v out) inp [])"

definition checkCrossNamespaceCreate ::
    "reviewer option \<Rightarrow> UserInfo option \<Rightarrow> string \<Rightarrow> string \<Rightarrow> go_error option" where
  "checkCrossNamespaceCreate rev0 req targetNamespace resource =
     (case rev0 of
        None \<Rightarrow> None
      | Some create \<Rightarrow>
          (case req of
             None \<Rightarrow>
               Some (WrapError (''cannot authorize cross-namespace write of '' @ resource @ '' into namespace '' @
                 go_quote targetNamespace @ '': no admission request in context: '')
                 (PlainError ''admission.Request not found in context'') [])
           | Some user \<Rightarrow>
               (let sar = \<lparr>sar_Namespace = targetNamespace, sar_Verb = ''create'',
                           sar_Group = ''fleetmanagement.grafana.com'', sar_Resource = resource,
                           sar_User = ui_Username user, sar_Groups = ui_Groups user,
                           sar_UID = ui_UID user, sar_Extra = convertExtra (ui_Extra user)\<rparr>
                in case create sar of
                     Inl err \<Rightarrow>
                       Some (WrapError (''failed to verify permission to create '' @ resource @
                         '' in namespace '' @ go_quote targetNamespace @ '' via SubjectAccessReview: '') err [])
                   | Inr reviewed \<Rightarrow>
                       if (case reviewed of None \<Rightarrow> True | Some st \<Rightarrow> \<not> sars_Allowed st \<or> sars_Denied st)
                       then
                         (let reason = (case reviewed of
                                          None \<Rightarrow> []
                                        | Some st \<Rightarrow> if sars_Reason st \<noteq> [] then '': '' @ sars_Reason st else [])
                          in Some (PlainError (''user '' @ go_quote (ui_Username user) @
                               '' is not permitted to create '' @ resource @ '' in target namespace '' @
                               go_quote targetNamespace @ '' (required permission: create '' @ resource @
                               '' in '' @ go_quote targetNamespace @ '')'' @ reason)))
                       else None)))"

section \<open>The webhook of CollectorDiscovery\<close>

definition discoveryMinPollInterval :: int where "discoveryMinPollInterval = 1 * minute"

definition cd_validatePollInterval :: "dlib \<Rightarrow> CollectorDiscovery \<Rightarrow> go_error option" where
  "cd_validatePollInterval L r =
     (let raw = trim_space (cdspec_PollInterval (cd_spec r))
      in if raw = [] then None
         else
           (case dl_ParseDuration L raw of
              Inl err \<Rightarrow>
                Some (WrapError (''spec.pollInterval '' @ go_quote raw @ '' is not a valid Go duration (e.g. '' @
                  go_quote ''5m'' @ ''): '') err [])
            | Inr d \<Rightarrow>
                if d < discoveryMinPollInterval then
                  Some (PlainError (''spec.pollInterval '' @ go_quote raw @ '' ('' @ dl_show_duration L d @
                    '') is below the minimum of '' @ dl_show_duration L discoveryMinPollInterval @
                    ''; shorter intervals would starve the shared Fleet Management rate limiter''))
                else None))"

definition validateDiscoverySelector :: "CollectorDiscovery \<Rightarrow> go_error option" where
  "validateDiscoverySelector r =
     (let sel = cdspec_Selector (cd_spec r)
      in case selector_matchers_loop 0 (psel_Matchers sel) of
           Some err \<Rightarrow> Some err
         | None \<Rightarrow> selector_ids_loop 0 (psel_CollectorIDs sel))"

definition cd_validateTargetNamespace :: "dlib \<Rightarrow> CollectorDiscovery \<Rightarrow> go_error option" where
  "cd_validateTargetNamespace L r =
     (let ns = trim_space (cdspec_TargetNamespace (cd_spec r))
      in if ns = [] then None
         else
           (let errs = dl_IsDNS1123Label L ns
            in if errs \<noteq> [] then
                 Some (PlainError (''spec.targetNamespace '' @ go_quote ns @
                   '' is not a valid Kubernetes namespace name: '' @ str_join errs ''; ''))
               else None))"

definition cd_validatePolicy :: "CollectorDiscovery \<Rightarrow> go_error option" where
  "cd_validatePolicy r =
     (let p = cdspec_Policy (cd_spec r)
      in if dpol_OnCollectorRemoved p \<notin> {'''', DiscoveryOnRemovedKeep, DiscoveryOnRemovedDelete} then
           Some (PlainError (''spec.policy.onCollectorRemoved '' @ go_quote (dpol_OnCollectorRemoved p) @
             '' is invalid; must be one of Keep, Delete''))
         else if dpol_OnConflict p \<notin> {'''', DiscoveryOnConflictSkip} then
           Some (PlainError (''spec.policy.onConflict '' @ go_quote (dpol_OnConflict p) @
             '' is invalid; must be Skip (TakeOwnership reserved for v2)''))
         else None)"

definition validateCollectorDiscovery :: "dlib \<Rightarrow> CollectorDiscovery \<Rightarrow> string list \<times> go_error option" where
  "validateCollectorDiscovery L r =
     (case cd_validatePollInterval L r of
        Some err \<Rightarrow> ([], Some err)
      | None \<Rightarrow>
     (case validateDiscoverySelector r of
        Some err \<Rightarrow> ([], Some err)
      | None \<Rightarrow>
     (case cd_validateTargetNamespace L r of
        Some err \<Rightarrow> ([], Some err)
      | None \<Rightarrow>
     (case cd_validatePolicy r of
        Some err \<Rightarrow> ([], Some err)
      | None \<Rightarrow>
          (let sel = cdspec_Selector (cd_spec r)
           in (if psel_Matchers sel = [] \<and> psel_CollectorIDs sel = [] then
                 [''spec.selector is empty: this CollectorDiscovery will mirror all Fleet collectors. '' @
                  ''For fleets with more than 1000 collectors, shard into multiple CollectorDiscovery '' @
                  ''resources with disjoint matchers to avoid single large-response timeouts (see values.yaml).'']
               else [], None))))))"

record 'tr collectorDiscoveryValidator =
  cdv_checker :: "'tr MatcherChecker option"
  cdv_reviewer :: "reviewer option"

definition cd_runDiscoveryAuthz ::
    "'tr collectorDiscoveryValidator \<Rightarrow> UserInfo option \<Rightarrow> 'tr \<Rightarrow> CollectorDiscovery \<Rightarrow> 'tr \<times> go_error option" where
  "cd_runDiscoveryAuthz v req tr obj =
     (case runTenantChecks (cdv_checker v) tr (om_namespace (cd_meta obj))
             (psel_Matchers (cdspec_Selector (cd_spec obj)))
             (psel_CollectorIDs (cdspec_Selector (cd_spec obj))) of
        (tr, Some err) \<Rightarrow> (tr, Some err)
      | (tr, None) \<Rightarrow>
          (let target = trim_space (cdspec_TargetNamespace (cd_spec obj))
           in if target = [] \<or> target = om_namespace (cd_meta obj) then (tr, None)
              else (tr, checkCrossNamespaceCreate (cdv_reviewer v) req target ''collectors'')))"

definition cd_ValidateCreate ::
    "dlib \<Rightarrow> 'tr collectorDiscoveryValidator \<Rightarrow> UserInfo option \<Rightarrow> 'tr \<Rightarrow> CollectorDiscovery \<Rightarrow>
       'tr \<times> string list \<times> go_error option" where
  "cd_ValidateCreate L v req tr obj =
     (case validateCollectorDiscovery L obj of
        (warnings, Some err) \<Rightarrow> (tr, warnings, Some err)
      | (warnings, None) \<Rightarrow>
          (case cd_runDiscoveryAuthz v req tr obj of
             (tr, Some err) \<Rightarrow> (tr, warnings, Some err)
           | (tr, None) \<Rightarrow> (tr, warnings, None)))"

definition cd_ValidateUpdate ::
    "dlib \<Rightarrow> 'tr collectorDiscoveryValidator \<Rightarrow> UserInfo option \<Rightarrow> 'tr \<Rightarrow> CollectorDiscovery \<Rightarrow>
       CollectorDiscovery \<Rightarrow> 'tr \<times> string list \<times> go_error option" where
  "cd_ValidateUpdate L v req tr oldObj newObj =
     (case validateCollectorDiscovery L newObj of
        (warnings, Some err) \<Rightarrow> (tr, warnings, Some err)
      | (warnings, None) \<Rightarrow>
          (case cd_runDiscoveryAuthz v req tr newObj of
             (tr, Some err) \<Rightarrow> (tr, warnings, Some err)
           | (tr, None) \<Rightarrow> (tr, warnings, None)))"

definition cd_ValidateDelete :: "CollectorDiscovery \<Rightarrow> string list \<times> go_error option" where
  "cd_ValidateDelete obj = ([], None)"

section \<open>The webhook of PipelineDiscovery\<close>

definition pipelineDiscoveryMinPollInterval :: int where "pipelineDiscoveryMinPollInterval = 1 * minute"

definition validatePipelineDiscoveryPollInterval :: "dlib \<Rightarrow> PipelineDiscovery \<Rightarrow> go_error option" where
  "validatePipelineDiscoveryPollInterval L r =
     (let raw = trim_space (pdspec_PollInterval (pd_spec r))
      in if raw = [] then None
         else
           (case dl_ParseDuration L raw of
              Inl err \<Rightarrow>
                Some (WrapError (''spec.pollInterval '' @ go_quote raw @ '' is not a valid Go duration (e.g. '' @
                  go_quote ''5m'' @ ''): '') err [])
            | Inr d \<Rightarrow>
                if d < pipelineDiscoveryMinPollInterval then
                  Some (PlainError (''spec.pollInterval '' @ go_quote raw @ '' ('' @ dl_show_duration L d @
                    '') is below the minimum of '' @ dl_show_duration L pipelineDiscoveryMinPollInterval @
                    ''; shorter intervals would starve the shared Fleet Management rate limiter''))
                else None))"

definition validatePipelineDiscoverySelector :: "PipelineDiscovery \<Rightarrow> go_error option" where
  "validatePipelineDiscoverySelector r =
     (case pdsel_ConfigType (pdspec_Selector (pd_spec r)) of
        None \<Rightarrow> None
      | Some ct \<Rightarrow>
          if ct \<in> {ConfigTypeAlloy, ConfigTypeOpenTelemetryCollector} then None
          else Some (PlainError (''spec.selector.configType '' @ go_quote ct @
                 '' is invalid; must be one of Alloy, OpenTelemetryCollector'')))"

definition validatePipelineDiscoveryTargetNamespace :: "dlib \<Rightarrow> PipelineDiscovery \<Rightarrow> go_error option" where
  "validatePipelineDiscoveryTargetNamespace L r =
     (let ns = trim_space (pdspec_TargetNamespace (pd_spec r))
      in if ns = [] then None
         else
           (let errs = dl_IsDNS1123Label L ns
            in if errs \<noteq> [] then
                 Some (PlainError (''spec.targetNamespace '' @ go_quote ns @
                   '' is not a valid Kubernetes namespace name: '' @ str_join errs ''; ''))
               else None))"

definition validatePipelineDiscoveryImportMode :: "PipelineDiscovery \<Rightarrow> go_error option" where
  "validatePipelineDiscoveryImportMode r =
     (if pdspec_ImportMode (pd_spec r) \<in>
           {'''', PipelineDiscoveryImportModeAdopt, PipelineDiscoveryImportModeReadOnly} then None
      else Some (PlainError (''spec.importMode '' @ go_quote (pdspec_ImportMode (pd_spec r)) @
             '' is invalid; must be one of Adopt, ReadOnly'')))"

definition validatePipelineDiscoveryPolicy :: "PipelineDiscovery \<Rightarrow> go_error option" where
  "validatePipelineDiscoveryPolicy r =
     (if pdspec_OnPipelineRemoved (pd_spec r) \<in>
           {'''', DiscoveryOnRemovedKeep, DiscoveryOnRemovedDelete} then None
      else Some (PlainError (''spec.policy.onPipelineRemoved '' @
             go_quote (pdspec_OnPipelineRemoved (pd_spec r)) @ '' is invalid; must be one of Keep, Delete'')))"

definition validatePipelineDiscovery :: "dlib \<Rightarrow> PipelineDiscovery \<Rightarrow> string list \<times> go_error option" where
  "validatePipelineDiscovery L r =
     (case validatePipelineDiscoveryPollInterval L r of
        Some err \<Rightarrow> ([], Some err)
      | None \<Rightarrow>
     (case validatePipelineDiscoverySelector r of
        Some err \<Rightarrow> ([], Some err)
      | None \<Rightarrow>
     (case validatePipelineDiscoveryTargetNamespace L r of
        Some err \<Rightarrow> ([], Some err)
      | None \<Rightarrow>
     (case validatePipelineDiscoveryImportMode r of
        Some err \<Rightarrow> ([], Some err)
      | None \<Rightarrow>
     (case validatePipelineDiscoveryPolicy r of
        Some err \<Rightarrow> ([], Some err)
      | None \<Rightarrow>
          (let sel = pdspec_Selector (pd_spec r)
           in (if pdsel_ConfigType sel = None \<and> pdsel_Enabled sel = None then
                 [''spec.selector is empty: this PipelineDiscovery will import all Fleet pipelines. '' @
                  ''For fleets with many pipelines, consider scoping via spec.selector.configType '' @
                  ''or spec.selector.enabled to avoid single large-response timeouts.'']
               else [], None)))))))"

definition pd_runDiscoveryAuthz ::
    "reviewer option \<Rightarrow> UserInfo option \<Rightarrow> PipelineDiscovery \<Rightarrow> go_error option" where
  "pd_runDiscoveryAuthz rev0 req obj =
     (let target = trim_space (pdspec_TargetNamespace (pd_spec obj))
      in if target = [] \<or> target = om_namespace (pd_meta obj) then None
         else checkCrossNamespaceCreate rev0 req target ''pipelines'')"

definition pd_ValidateCreate ::
    "dlib \<Rightarrow> reviewer option \<Rightarrow> UserInfo option \<Rightarrow> PipelineDiscovery \<Rightarrow> string list \<times> go_error option" where
  "pd_ValidateCreate L rev0 req obj =
     (case validatePipelineDiscovery L obj of
        (warnings, Some err) \<Rightarrow> (warnings, Some err)
      | (warnings, None) \<Rightarrow> (warnings, pd_runDiscoveryAuthz rev0 req obj))"

definition pd_ValidateUpdate ::
    "dlib \<Rightarrow> reviewer option \<Rightarrow> UserInfo option \<Rightarrow> PipelineDiscovery \<Rightarrow> PipelineDiscovery \<Rightarrow>
       string list \<times> go_error option" where
  "pd_ValidateUpdate L rev0 req oldObj newObj =
     (case validatePipelineDiscovery L newObj of
        (warnings, Some err) \<Rightarrow> (warnings, Some err)
      | (warnings, None) \<Rightarrow> (warnings, pd_runDiscoveryAuthz rev0 req newObj))"

definition pd_ValidateDelete :: "PipelineDiscovery \<Rightarrow> string list \<times> go_error option" where
  "pd_ValidateDelete obj = ([], None)"

section \<open>What the webhooks guarantee\<close>

text \<open>With a reviewer, an accepted cross-namespace write was allowed by the API server.\<close>

definition may_create :: "reviewer \<Rightarrow> UserInfo \<Rightarrow> string \<Rightarrow> string \<Rightarrow> bool" where
  "may_create create user ns resource \<longleftrightarrow>
     (\<exists>st. create \<lparr>sar_Namespace = ns, sar_Verb = ''create'', sar_Group = ''fleetmanagement.grafana.com'',
                   sar_Resource = resource, sar_User = ui_Username user, sar_Groups = ui_Groups user,
                   sar_UID = ui_UID user, sar_Extra = convertExtra (ui_Extra user)\<rparr> = Inr (Some st) \<and>
        sars_Allowed st \<and> \<not> sars_Denied st)"

lemma checkCrossNamespaceCreate_allowed:
  "checkCrossNamespaceCreate (Some create) req ns resource = None \<longleftrightarrow>
     (\<exists>user. req = Some user \<and> may_create create user ns resource)"
  by (auto simp: checkCrossNamespaceCreate_def may_create_def Let_def
      split: option.splits sum.splits)

end
