(* ===== verification/Collector_Discovery.thy ===== *)
theory Collector_Discovery
  imports Discovery_Types External_Sync
begin

text \<open>
  The CollectorDiscovery reconciler (\<open>internal/controller/collector_discovery_controller.go\<close>): it
  polls Fleet Management and mirrors the collectors it finds as Collector resources, of whose
  life cycle (never of their content) it is the only writer.
\<close>

section \<open>The reconciler and its world\<close>

abbreviation discoveryReasonSynced :: string where "discoveryReasonSynced \<equiv> ''Synced''"
abbreviation discoveryReasonListCollectorsFailed :: string where
  "discoveryReasonListCollectorsFailed \<equiv> ''ListCollectorsFailed''"
abbreviation discoveryReasonUpsertFailed :: string where "discoveryReasonUpsertFailed \<equiv> ''UpsertFailed''"
abbreviation discoveryReasonInvalidConfig :: string where
  "discoveryReasonInvalidConfig \<equiv> ''InvalidConfig''"
abbreviation discoveryEventReasonDiscovered :: string where
  "discoveryEventReasonDiscovered \<equiv> ''Discovered''"
abbreviation discoveryEventReasonPruned :: string where "discoveryEventReasonPruned \<equiv> ''Pruned''"
abbreviation discoveryEventReasonConflict :: string where "discoveryEventReasonConflict \<equiv> ''Conflict''"
abbreviation discoveryEventReasonSynced :: string where "discoveryEventReasonSynced \<equiv> ''Synced''"
abbreviation discoveryEventReasonFailed :: string where "discoveryEventReasonFailed \<equiv> ''Failed''"
abbreviation discoveryConditionTruncatedConflicts :: string where
  "discoveryConditionTruncatedConflicts \<equiv> ''TruncatedConflicts''"
abbreviation discoveryReasonConflictsTruncated :: string where
  "discoveryReasonConflictsTruncated \<equiv> ''ConflictsTruncated''"
abbreviation discoveryReasonNoConflictsTruncated :: string where
  "discoveryReasonNoConflictsTruncated \<equiv> ''NoConflictsTruncated''"
abbreviation outcomeScheduleSkipped :: string where "outcomeScheduleSkipped \<equiv> ''ScheduleSkipped''"

definition maxDiscoveryConflicts :: nat where "maxDiscoveryConflicts = 100"

definition defaultDiscoveryRequeueOnError :: int where "defaultDiscoveryRequeueOnError = 30 * second"

definition defaultDiscoveryPollInterval :: int where "defaultDiscoveryPollInterval = 5 * minute"

record CollectorDiscoveryReconciler =
  cdr_klib :: klib
  cdr_lib :: dlib
  cdr_hasRecorder :: bool

datatype dcall =
    DcGet nsname
  | DcNow
  | DcListCollectors "string list"
  | DcGetCollector nsname
  | DcCreate Collector
  | DcList string string
  | DcPatch Collector Collector
  | DcDelete Collector
  | DcStatusUpdate CollectorDiscovery
  | DcEvent event_type string

text \<open>A pointer in the list that Fleet Management returns may be nil: an option.\<close>

record denv =
  de_Get :: "dcall list \<Rightarrow> go_error + CollectorDiscovery"
  de_Now :: "dcall list \<Rightarrow> int"
  de_ListCollectors :: "dcall list \<Rightarrow> go_error + collector option list"
  de_GetCollector :: "dcall list \<Rightarrow> go_error + Collector"
  de_Create :: "dcall list \<Rightarrow> go_error option"
  de_List :: "dcall list \<Rightarrow> go_error + Collector list"
  de_Patch :: "dcall list \<Rightarrow> go_error option"
  de_Delete :: "dcall list \<Rightarrow> go_error option"
  de_StatusUpdate :: "dcall list \<Rightarrow> go_error option"

definition cd_emitEvent :: "CollectorDiscoveryReconciler \<Rightarrow> event_type \<Rightarrow> string \<Rightarrow> dcall list \<Rightarrow> dcall list" where
  "cd_emitEvent R t reason tr = (if cdr_hasRecorder R then tr @ [DcEvent t reason] else tr)"

section \<open>Names and ownership\<close>

definition cd_parsePollInterval :: "dlib \<Rightarrow> CollectorDiscovery \<Rightarrow> go_error + int" where
  "cd_parsePollInterval L cd =
     (let raw = trim_space (cdspec_PollInterval (cd_spec cd))
      in if raw = [] then Inr defaultDiscoveryPollInterval
         else
           (case dl_ParseDuration L raw of
              Inl err \<Rightarrow>
                Inl (WrapError (''pollInterval '' @ go_quote raw @ '' is not a valid Go duration: '') err [])
            | Inr d \<Rightarrow>
                if d \<le> 0
                then Inl (PlainError (''pollInterval '' @ go_quote raw @ '' ('' @ dl_show_duration L d @
                       '') must be positive''))
                else Inr d))"

definition filterCollectors :: "CollectorDiscovery \<Rightarrow> collector option list \<Rightarrow> collector list" where
  "filterCollectors cd collectors =
     (let ids = psel_CollectorIDs (cdspec_Selector (cd_spec cd))
      in List.map_filter
           (\<lambda>c0. case c0 of
                   None \<Rightarrow> None
                 | Some c \<Rightarrow>
                     if trim_space (fc_ID c) = [] then None
                     else if \<not> cdspec_IncludeInactive (cd_spec cd) \<and> fc_MarkedInactiveAt c \<noteq> None then None
                     else if ids \<noteq> [] \<and> fc_ID c \<notin> set ids then None
                     else Some c) collectors)"

definition chooseCRName :: "dlib \<Rightarrow> string \<Rightarrow> string" where
  "chooseCRName L cid =
     (let (sanitized, lossy) = SanitizedName cid
      in if sanitized = [] \<or> lossy then HashedName (dl_sha256 L) cid else sanitized)"

definition collectorDiscoveryOwnerAnnotation :: "CollectorDiscovery \<Rightarrow> string" where
  "collectorDiscoveryOwnerAnnotation cd = om_namespace (cd_meta cd) @ ''/'' @ om_name (cd_meta cd)"

definition collectorIsOwnedByDiscovery :: "Collector \<Rightarrow> CollectorDiscovery \<Rightarrow> bool" where
  "collectorIsOwnedByDiscovery cr cd =
     (let labels = om_labels (cl_meta cr)
      in if get_str labels DiscoveryNameLabel \<noteq> om_name (cd_meta cd) then False
         else case map_of labels DiscoveryNamespaceLabel of
                Some ownerNS \<Rightarrow> ownerNS = om_namespace (cd_meta cd)
              | None \<Rightarrow> get_str (om_annotations (cl_meta cr)) DiscoveredByAnnotation =
                          collectorDiscoveryOwnerAnnotation cd)"

text \<open>The resource a discovery creates for a collector.\<close>

definition discovered_collector :: "CollectorDiscovery \<Rightarrow> string \<Rightarrow> string \<Rightarrow> string \<Rightarrow> Collector" where
  "discovered_collector cd targetNS name cid =
     \<lparr>cl_meta = \<lparr>om_namespace = targetNS, om_name = name, om_generation = 0, om_deleting = False,
                 om_finalizers = [],
                 om_labels = [(DiscoveryNameLabel, om_name (cd_meta cd)),
                              (DiscoveryNamespaceLabel, om_namespace (cd_meta cd))],
                 om_annotations = [(DiscoveredByAnnotation, collectorDiscoveryOwnerAnnotation cd),
                                   (FleetCollectorIDAnnotation, cid)]\<rparr>,
      cl_spec = \<lparr>cspec_ID = cid, cspec_Name = [], cspec_Enabled = None, cspec_RemoteAttributes = []\<rparr>,
      cl_status = \<lparr>cst_ObservedGeneration = 0, cst_Registered = False, cst_LastPing = None, cst_Name = [],
                   cst_Enabled = None, cst_CollectorType = [], cst_CreatedAt = None, cst_UpdatedAt = None,
                   cst_MarkedInactiveAt = None, cst_LocalAttributes = [],
                   cst_EffectiveRemoteAttributes = [], cst_AttributeOwners = [], cst_Conditions = []\<rparr>\<rparr>"

section \<open>The stale annotation\<close>

abbreviation annotate :: "(gomap \<Rightarrow> gomap) \<Rightarrow> Collector \<Rightarrow> Collector" where
  "annotate f cr \<equiv> cr\<lparr>cl_meta := (cl_meta cr)\<lparr>om_annotations := f (om_annotations (cl_meta cr))\<rparr>\<rparr>"

abbreviation show_meta :: "objmeta \<Rightarrow> string" where
  "show_meta m \<equiv> om_namespace m @ ''/'' @ om_name m"

definition setStaleAnnotation ::
    "denv \<Rightarrow> Collector \<Rightarrow> dcall list \<Rightarrow> dcall list \<times> go_error option" where
  "setStaleAnnotation E cr tr =
     (if get_str (om_annotations (cl_meta cr)) DiscoveryStaleAnnotation = DiscoveryStaleAnnotationValue
      then (tr, None)
      else
        (let tr = tr @ [DcPatch cr (annotate (map_put DiscoveryStaleAnnotation DiscoveryStaleAnnotationValue) cr)]
         in case de_Patch E tr of
              Some err \<Rightarrow>
                (tr, Some (WrapError (''set stale annotation on '' @ show_meta (cl_meta cr) @ '': '') err []))
            | None \<Rightarrow> (tr, None)))"

definition clearStaleAnnotation ::
    "denv \<Rightarrow> Collector \<Rightarrow> dcall list \<Rightarrow> dcall list \<times> go_error option" where
  "clearStaleAnnotation E cr tr =
     (if \<not> has_key (om_annotations (cl_meta cr)) DiscoveryStaleAnnotation then (tr, None)
      else
        (let tr = tr @ [DcPatch cr (annotate (map_del DiscoveryStaleAnnotation) cr)]
         in case de_Patch E tr of
              Some err \<Rightarrow>
                (tr, Some (WrapError (''clear stale annotation on '' @ show_meta (cl_meta cr) @ '': '') err []))
            | None \<Rightarrow> (tr, None)))"

section \<open>The upsert phase\<close>

definition conflict_of :: "string \<Rightarrow> string \<Rightarrow> string \<Rightarrow> DiscoveryConflict" where
  "conflict_of cid name reason = \<lparr>dcf_CollectorID = cid, dcf_CRName = name, dcf_Reason = reason\<rparr>"

text \<open>
  The result of one iteration: an error, or what it adds to the conflicts and whether the
  collector's ID counts as claimed.
\<close>

definition upsert_one ::
    "CollectorDiscoveryReconciler \<Rightarrow> denv \<Rightarrow> CollectorDiscovery \<Rightarrow> string \<Rightarrow> collector \<Rightarrow> dcall list \<Rightarrow>
       dcall list \<times> (go_error + DiscoveryConflict list \<times> bool)" where
  "upsert_one R E cd targetNS c tr =
     (let name = chooseCRName (cdr_lib R) (fc_ID c)
      in if \<not> IsValidDNS1123 name
         then (tr, Inr ([conflict_of (fc_ID c) name DiscoveryConflictSanitizeFailed], False))
         else
           (let key = \<lparr>nn_namespace = targetNS, nn_name = name\<rparr>;
                tr = tr @ [DcGetCollector key]
            in case de_GetCollector E tr of
                 Inl err \<Rightarrow>
                   if \<not> is_not_found err
                   then (tr, Inl (WrapError (''get collector '' @ show_nsname key @ '': '') err []))
                   else
                     (let tr = tr @ [DcCreate (discovered_collector cd targetNS name (fc_ID c))]
                      in case de_Create E tr of
                           Some createErr \<Rightarrow>
                             if is_already_exists createErr then (tr, Inr ([], True))
                             else (tr, Inl (WrapError (''create collector '' @ show_nsname key @ '': '') createErr []))
                         | None \<Rightarrow> (cd_emitEvent R EventNormal discoveryEventReasonDiscovered tr, Inr ([], True)))
               | Inr existing \<Rightarrow>
                   if \<not> has_key (om_labels (cl_meta existing)) DiscoveryNameLabel
                   then (tr, Inr ([conflict_of (fc_ID c) name DiscoveryConflictNotOwned], False))
                   else if \<not> collectorIsOwnedByDiscovery existing cd
                   then (tr, Inr ([conflict_of (fc_ID c) name DiscoveryConflictOwnedByOther], False))
                   else if cspec_ID (cl_spec existing) \<noteq> fc_ID c
                   then (tr, Inr ([conflict_of (fc_ID c) name DiscoveryConflictSanitizeFailed], False))
                   else
                     (case clearStaleAnnotation E existing tr of
                        (tr, Some err) \<Rightarrow> (tr, Inl err)
                      | (tr, None) \<Rightarrow> (tr, Inr ([], True)))))"

fun upsert_loop ::
    "CollectorDiscoveryReconciler \<Rightarrow> denv \<Rightarrow> CollectorDiscovery \<Rightarrow> string \<Rightarrow> collector list \<Rightarrow>
       DiscoveryConflict list \<Rightarrow> string list \<Rightarrow> dcall list \<Rightarrow>
       dcall list \<times> (go_error + DiscoveryConflict list \<times> string list)" where
  "upsert_loop R E cd targetNS [] conflicts currentIDs tr = (tr, Inr (conflicts, currentIDs))"
| "upsert_loop R E cd targetNS (c # cs) conflicts currentIDs tr =
     (case upsert_one R E cd targetNS c tr of
        (tr, Inl err) \<Rightarrow> (tr, Inl err)
      | (tr, Inr (cf, claimed_id)) \<Rightarrow>
          upsert_loop R E cd targetNS cs (conflicts @ cf)
            (if claimed_id then List.insert (fc_ID c) currentIDs else currentIDs) tr)"

definition upsertCollectorCRs ::
    "CollectorDiscoveryReconciler \<Rightarrow> denv \<Rightarrow> CollectorDiscovery \<Rightarrow> collector list \<Rightarrow> string \<Rightarrow> dcall list \<Rightarrow>
       dcall list \<times> (go_error + DiscoveryConflict list \<times> string list)" where
  "upsertCollectorCRs R E cd surviving targetNS tr =
     (case upsert_loop R E cd targetNS surviving [] [] tr of
        (tr, Inl err) \<Rightarrow> (tr, Inl err)
      | (tr, Inr (conflicts, currentIDs)) \<Rightarrow>
          (tr, Inr (sort_key dcf_CollectorID conflicts, currentIDs)))"

section \<open>The stale phase\<close>

fun stale_loop ::
    "CollectorDiscoveryReconciler \<Rightarrow> denv \<Rightarrow> CollectorDiscovery \<Rightarrow> string list \<Rightarrow> string \<Rightarrow> Collector list \<Rightarrow>
       string list \<Rightarrow> int \<Rightarrow> dcall list \<Rightarrow> dcall list \<times> (go_error + string list \<times> int)" where
  "stale_loop R E cd currentIDs onRemoved [] staleIDs managed tr = (tr, Inr (staleIDs, managed))"
| "stale_loop R E cd currentIDs onRemoved (cr # crs) staleIDs managed tr =
     (if \<not> collectorIsOwnedByDiscovery cr cd
      then stale_loop R E cd currentIDs onRemoved crs staleIDs managed tr
      else
        (let managed = managed + 1
         in if cspec_ID (cl_spec cr) \<in> set currentIDs then
              (case clearStaleAnnotation E cr tr of
                 (tr, Some err) \<Rightarrow> (tr, Inl err)
               | (tr, None) \<Rightarrow> stale_loop R E cd currentIDs onRemoved crs staleIDs managed tr)
            else if onRemoved = DiscoveryOnRemovedDelete then
              (let tr = tr @ [DcDelete cr]
               in if (case de_Delete E tr of None \<Rightarrow> False | Some err \<Rightarrow> \<not> is_not_found err)
                  then (tr, Inl (WrapError (''delete stale collector '' @ show_meta (cl_meta cr) @ '': '')
                         (the (de_Delete E tr)) []))
                  else stale_loop R E cd currentIDs onRemoved crs staleIDs (managed - 1)
                         (cd_emitEvent R EventNormal discoveryEventReasonPruned tr))
            else
              (let staleIDs = staleIDs @ [cspec_ID (cl_spec cr)]
               in case setStaleAnnotation E cr tr of
                    (tr, Some err) \<Rightarrow> (tr, Inl err)
                  | (tr, None) \<Rightarrow> stale_loop R E cd currentIDs onRemoved crs staleIDs managed tr)))"

definition processStale ::
    "CollectorDiscoveryReconciler \<Rightarrow> denv \<Rightarrow> CollectorDiscovery \<Rightarrow> string list \<Rightarrow> string \<Rightarrow> dcall list \<Rightarrow>
       dcall list \<times> (go_error + string list \<times> int)" where
  "processStale R E cd currentIDs targetNS tr =
     (let tr = tr @ [DcList targetNS (om_name (cd_meta cd))]
      in case de_List E tr of
           Inl err \<Rightarrow> (tr, Inl (WrapError (''list managed collectors in '' @ targetNS @ '': '') err []))
         | Inr items \<Rightarrow>
             (let p = dpol_OnCollectorRemoved (cdspec_Policy (cd_spec cd));
                  onRemoved = (if p = [] then DiscoveryOnRemovedKeep else p)
              in case stale_loop R E cd currentIDs onRemoved items [] 0 tr of
                   (tr, Inl err) \<Rightarrow> (tr, Inl err)
                 | (tr, Inr (staleIDs, managed)) \<Rightarrow> (tr, Inr (sort staleIDs, managed))))"

section \<open>Status\<close>

definition cd_success_status ::
    "klib \<Rightarrow> CollectorDiscovery \<Rightarrow> nat \<Rightarrow> int \<Rightarrow> string list \<Rightarrow> DiscoveryConflict list \<Rightarrow> int \<Rightarrow>
       CollectorDiscoveryStatus" where
  "cd_success_status K cd observed managed stale conflicts now =
     (let gen = om_generation (cd_meta cd);
          conds = cdst_Conditions (cd_status cd);
          conds = (if length conflicts > maxDiscoveryConflicts then
                     SetStatusCondition K conds
                       \<lparr>cnd_type = discoveryConditionTruncatedConflicts, cnd_status = CTrue,
                        cnd_reason = discoveryReasonConflictsTruncated,
                        cnd_message = ''conflicts list truncated to 100 entries; check events for the full list'',
                        cnd_gen = gen\<rparr>
                   else
                     SetStatusCondition K conds
                       \<lparr>cnd_type = discoveryConditionTruncatedConflicts, cnd_status = CFalse,
                        cnd_reason = discoveryReasonNoConflictsTruncated, cnd_message = [], cnd_gen = gen\<rparr>);
          message = ''Observed '' @ show_nat observed @ '', managed '' @ show_int managed @ '', stale '' @
                      show_nat (length stale) @ '', conflicts '' @ show_nat (length conflicts)
      in \<lparr>cdst_ObservedGeneration = gen, cdst_LastSyncTime = Some now, cdst_LastSuccessTime = Some now,
          cdst_CollectorsObserved = int32_of observed, cdst_CollectorsManaged = int32_of (nat managed),
          cdst_StaleCollectors = stale, cdst_Conflicts = take maxDiscoveryConflicts conflicts,
          cdst_Conditions =
            setSyncedCondition K (setReadyCondition K conds gen True discoveryReasonSynced message) gen True
              discoveryReasonSynced message\<rparr>)"

definition cd_updateStatusSuccess ::
    "CollectorDiscoveryReconciler \<Rightarrow> denv \<Rightarrow> CollectorDiscovery \<Rightarrow> nat \<Rightarrow> int \<Rightarrow> string list \<Rightarrow>
       DiscoveryConflict list \<Rightarrow> int \<Rightarrow> dcall list \<Rightarrow> dcall list \<times> (go_error + bool)" where
  "cd_updateStatusSuccess R E cd observed managed stale conflicts now tr =
     (let tr = (if length conflicts > maxDiscoveryConflicts
                then cd_emitEvent R EventWarning ''TruncatedConflicts'' tr else tr);
          tr = tr @ [DcStatusUpdate (cd\<lparr>cd_status :=
                 cd_success_status (cdr_klib R) cd observed managed stale conflicts now\<rparr>)]
      in case de_StatusUpdate E tr of
           Some err \<Rightarrow> if is_conflict err then (tr, Inr False) else (tr, Inl (WrapError ''update status: '' err []))
         | None \<Rightarrow> (tr, Inr True))"

definition cd_error_status :: "klib \<Rightarrow> CollectorDiscovery \<Rightarrow> string \<Rightarrow> go_error \<Rightarrow> int \<Rightarrow> CollectorDiscoveryStatus" where
  "cd_error_status K cd reason originalErr now =
     (let gen = om_generation (cd_meta cd);
          message = reason @ '': '' @ err_text originalErr
      in (cd_status cd)\<lparr>cdst_LastSyncTime := Some now, cdst_ObservedGeneration := gen,
           cdst_Conditions :=
             setSyncedCondition K
               (setReadyCondition K (cdst_Conditions (cd_status cd)) gen False reason message)
               gen False reason message\<rparr>)"

text \<open>The fourth component is the outcome the callee leaves for the metrics counter.\<close>

definition cd_updateStatusError ::
    "CollectorDiscoveryReconciler \<Rightarrow> denv \<Rightarrow> CollectorDiscovery \<Rightarrow> string \<Rightarrow> go_error \<Rightarrow> dcall list \<Rightarrow>
       dcall list \<times> ctrl_result \<times> go_error option \<times> string" where
  "cd_updateStatusError R E cd reason originalErr tr =
     (let tr = tr @ [DcNow];
          now = de_Now E tr;
          tr = tr @ [DcStatusUpdate (cd\<lparr>cd_status := cd_error_status (cdr_klib R) cd reason originalErr now\<rparr>)]
      in if (case de_StatusUpdate E tr of None \<Rightarrow> False | Some e \<Rightarrow> is_conflict e)
         then (tr, requeue_now, None, outcomeNoOp)
         else (tr, done_result, Some originalErr, reason))"

section \<open>Reconcile\<close>

definition cd_target_namespace :: "CollectorDiscovery \<Rightarrow> string" where
  "cd_target_namespace cd =
     (let targetNS = trim_space (cdspec_TargetNamespace (cd_spec cd))
      in if targetNS = [] then om_namespace (cd_meta cd) else targetNS)"

text \<open>What the three failing phases do alike.\<close>

definition cd_phase_failed ::
    "CollectorDiscoveryReconciler \<Rightarrow> denv \<Rightarrow> CollectorDiscovery \<Rightarrow> string \<Rightarrow> go_error \<Rightarrow> dcall list \<Rightarrow> dcall rres" where
  "cd_phase_failed R E cd reason err tr =
     (case cd_updateStatusError R E cd reason err (cd_emitEvent R EventWarning discoveryEventReasonFailed tr) of
        (tr, _, Some statusErr, oc) \<Rightarrow> ret tr done_result (Some statusErr) oc
      | (tr, _, None, oc) \<Rightarrow> ret tr (requeue_after defaultDiscoveryRequeueOnError) None oc)"

definition schedule_skips :: "CollectorDiscovery \<Rightarrow> int \<Rightarrow> int \<Rightarrow> int option" where
  "schedule_skips cd pollInterval now =
     (case cdst_LastSyncTime (cd_status cd) of
        None \<Rightarrow> None
      | Some t0 \<Rightarrow>
          if cdst_ObservedGeneration (cd_status cd) = om_generation (cd_meta cd) \<and> now < t0 + pollInterval
          then Some (t0 + pollInterval - now) else None)"

definition cd_poll ::
    "CollectorDiscoveryReconciler \<Rightarrow> denv \<Rightarrow> CollectorDiscovery \<Rightarrow> int \<Rightarrow> int \<Rightarrow> dcall list \<Rightarrow> dcall rres" where
  "cd_poll R E cd pollInterval now tr =
     (let targetNS = cd_target_namespace cd;
          tr = tr @ [DcListCollectors (psel_Matchers (cdspec_Selector (cd_spec cd)))]
      in case de_ListCollectors E tr of
           Inl err \<Rightarrow> cd_phase_failed R E cd discoveryReasonListCollectorsFailed err tr
         | Inr collectors \<Rightarrow>
             (let surviving = filterCollectors cd collectors
              in case upsertCollectorCRs R E cd surviving targetNS tr of
                   (tr, Inl err) \<Rightarrow> cd_phase_failed R E cd discoveryReasonUpsertFailed err tr
                 | (tr, Inr (conflicts, currentIDs)) \<Rightarrow>
                     (case processStale R E cd currentIDs targetNS tr of
                        (tr, Inl err) \<Rightarrow> cd_phase_failed R E cd discoveryReasonUpsertFailed err tr
                      | (tr, Inr (stale, managed)) \<Rightarrow>
                          (let tr = fold (\<lambda>_ tr. cd_emitEvent R EventWarning discoveryEventReasonConflict tr)
                                      conflicts tr
                           in case cd_updateStatusSuccess R E cd (length surviving) managed stale conflicts now tr of
                                (tr, Inl err) \<Rightarrow> ret tr done_result (Some err) discoveryReasonUpsertFailed
                              | (tr, Inr updated) \<Rightarrow>
                                  ret (if updated then cd_emitEvent R EventNormal discoveryEventReasonSynced tr
                                       else tr)
                                    (requeue_after pollInterval) None discoveryReasonSynced))))"

definition cd_Reconcile ::
    "CollectorDiscoveryReconciler \<Rightarrow> denv \<Rightarrow> nsname \<Rightarrow> dcall rres" where
  "cd_Reconcile R E req =
     (let tr = [DcGet req]
      in case de_Get E tr of
           Inl err \<Rightarrow>
             if is_not_found err then ret tr done_result None outcomeNotFound
             else ret tr done_result (Some err) discoveryReasonListCollectorsFailed
         | Inr cd \<Rightarrow>
             if om_deleting (cd_meta cd) then ret tr done_result None outcomeDeleted
             else
               (case cd_parsePollInterval (cdr_lib R) cd of
                  Inl err \<Rightarrow>
                    (case cd_updateStatusError R E cd discoveryReasonInvalidConfig err
                            (cd_emitEvent R EventWarning discoveryEventReasonFailed tr) of
                       (tr, result, e, oc) \<Rightarrow> ret tr result e oc)
                | Inr pollInterval \<Rightarrow>
                    (let tr = tr @ [DcNow];
                         now = de_Now E tr
                     in case schedule_skips cd pollInterval now of
                          Some wait \<Rightarrow> ret tr (requeue_after wait) None outcomeScheduleSkipped
                        | None \<Rightarrow> cd_poll R E cd pollInterval now tr)))"

section \<open>Every write stays within the discovery\<close>

text \<open>
  What the reconcile of \<open>cd\<close> may do to the API server: create the resource of a collector
  under the name chosen for it, in the target namespace; patch a resource it owns, and only
  its stale annotation; delete a resource it owns, under the policy Delete; write its own
  status, stamped with its generation.
\<close>

fun cd_call_ok :: "dlib \<Rightarrow> CollectorDiscovery \<Rightarrow> dcall \<Rightarrow> bool" where
  "cd_call_ok L cd (DcCreate cr) \<longleftrightarrow>
     trim_space (cspec_ID (cl_spec cr)) \<noteq> [] \<and> IsValidDNS1123 (chooseCRName L (cspec_ID (cl_spec cr))) \<and>
     cr = discovered_collector cd (cd_target_namespace cd) (chooseCRName L (cspec_ID (cl_spec cr)))
            (cspec_ID (cl_spec cr))"
| "cd_call_ok L cd (DcPatch cr new) \<longleftrightarrow>
     collectorIsOwnedByDiscovery cr cd \<and>
     (new = annotate (map_del DiscoveryStaleAnnotation) cr \<or>
      new = annotate (map_put DiscoveryStaleAnnotation DiscoveryStaleAnnotationValue) cr)"
| "cd_call_ok L cd (DcDelete cr) \<longleftrightarrow>
     collectorIsOwnedByDiscovery cr cd \<and>
     dpol_OnCollectorRemoved (cdspec_Policy (cd_spec cd)) = DiscoveryOnRemovedDelete"
| "cd_call_ok L cd (DcStatusUpdate c) \<longleftrightarrow>
     cd_meta c = cd_meta cd \<and> cd_spec c = cd_spec cd \<and>
     cdst_ObservedGeneration (cd_status c) = om_generation (cd_meta cd)"
| "cd_call_ok L cd call \<longleftrightarrow> True"

lemma discovered_collector_ID [simp]: "cspec_ID (cl_spec (discovered_collector cd ns name cid)) = cid"
  by (simp add: discovered_collector_def)

lemma cd_emitEvent_extends [trace_intros]:
  "extends Q tr tr0 \<Longrightarrow> Q (DcEvent t r) \<Longrightarrow> extends Q tr (cd_emitEvent R t r tr0)"
  by (auto simp: cd_emitEvent_def intro!: trace_intros)

lemma setStale_extends:
  "extends (cd_call_ok L cd) tr tr0 \<Longrightarrow> collectorIsOwnedByDiscovery cr cd \<Longrightarrow>
     setStaleAnnotation E cr tr0 = (tr', e) \<Longrightarrow> extends (cd_call_ok L cd) tr tr'"
  by (auto simp: setStaleAnnotation_def Let_def split: option.splits if_splits intro!: trace_intros)

lemma clearStale_extends:
  "extends (cd_call_ok L cd) tr tr0 \<Longrightarrow> collectorIsOwnedByDiscovery cr cd \<Longrightarrow>
     clearStaleAnnotation E cr tr0 = (tr', e) \<Longrightarrow> extends (cd_call_ok L cd) tr tr'"
  by (auto simp: clearStaleAnnotation_def Let_def split: option.splits if_splits intro!: trace_intros)

lemma filterCollectors_named: "c \<in> set (filterCollectors cd fleet) \<Longrightarrow> trim_space (fc_ID c) \<noteq> []"
  by (induction fleet) (auto simp: filterCollectors_def Let_def map_filter_simps split: option.splits if_splits)

lemma upsert_one_extends:
  "upsert_one R E cd (cd_target_namespace cd) c tr0 = (tr', r) \<Longrightarrow> trim_space (fc_ID c) \<noteq> [] \<Longrightarrow>
     extends (cd_call_ok (cdr_lib R) cd) tr tr0 \<Longrightarrow> extends (cd_call_ok (cdr_lib R) cd) tr tr'"
  by (auto simp: upsert_one_def Let_def split: sum.splits option.splits prod.splits if_splits
      intro!: trace_intros elim!: clearStale_extends [rotated 2])

lemma upsert_loop_extends:
  "upsert_loop R E cd (cd_target_namespace cd) cs conflicts ids tr0 = (tr', r) \<Longrightarrow>
     (\<And>c. c \<in> set cs \<Longrightarrow> trim_space (fc_ID c) \<noteq> []) \<Longrightarrow>
     extends (cd_call_ok (cdr_lib R) cd) tr tr0 \<Longrightarrow> extends (cd_call_ok (cdr_lib R) cd) tr tr'"
  by (induction R E cd "cd_target_namespace cd" cs conflicts ids tr0 rule: upsert_loop.induct)
     (auto split: prod.splits sum.splits dest: upsert_one_extends)

lemma stale_loop_extends:
  "stale_loop R E cd ids q crs stale managed tr0 = (tr', r) \<Longrightarrow>
     q = DiscoveryOnRemovedDelete \<longrightarrow>
       dpol_OnCollectorRemoved (cdspec_Policy (cd_spec cd)) = DiscoveryOnRemovedDelete \<Longrightarrow>
     extends (cd_call_ok L cd) tr tr0 \<Longrightarrow> extends (cd_call_ok L cd) tr tr'"
proof (induction crs arbitrary: q stale managed tr0)
  case (Cons cr crs)
  show ?case
    using Cons.prems
    by (auto simp: Let_def split: if_splits prod.splits option.splits
        elim!: Cons.IH intro!: trace_intros
        elim: clearStale_extends [rotated 2] setStale_extends [rotated 2])
qed simp

lemma processStale_extends:
  "processStale R E cd ids ns tr0 = (tr', r) \<Longrightarrow> extends (cd_call_ok L cd) tr tr0 \<Longrightarrow>
     extends (cd_call_ok L cd) tr tr'"
  by (auto simp: processStale_def Let_def split: sum.splits prod.splits
      intro!: trace_intros elim!: stale_loop_extends) (auto split: if_splits)

lemma cd_updateStatusSuccess_extends:
  "cd_updateStatusSuccess R E cd observed managed stale conflicts now tr0 = (tr', r) \<Longrightarrow>
     extends (cd_call_ok L cd) tr tr0 \<Longrightarrow> extends (cd_call_ok L cd) tr tr'"
  by (auto simp: cd_updateStatusSuccess_def cd_success_status_def Let_def split: option.splits if_splits
      intro!: trace_intros)

lemma cd_updateStatusError_extends:
  "cd_updateStatusError R E cd reason err tr0 = (tr', x) \<Longrightarrow>
     extends (cd_call_ok L cd) tr tr0 \<Longrightarrow> extends (cd_call_ok L cd) tr tr'"
  by (auto simp: cd_updateStatusError_def cd_error_status_def Let_def split: if_splits
      intro!: trace_intros)

lemma cd_phase_failed_extends:
  "extends (cd_call_ok L cd) tr tr0 \<Longrightarrow>
     extends (cd_call_ok L cd) tr (rr_trace (cd_phase_failed R E cd reason err tr0))"
  by (auto simp: cd_phase_failed_def split: prod.splits option.splits
      elim!: cd_updateStatusError_extends intro!: trace_intros)

lemma conflict_events_extends:
  "extends Q tr tr0 \<Longrightarrow> (\<And>t r. Q (DcEvent t r)) \<Longrightarrow>
     extends Q tr (fold (\<lambda>_ tr. cd_emitEvent R t r tr) conflicts tr0)"
  by (induction conflicts arbitrary: tr0) (simp_all add: cd_emitEvent_extends)

lemma cd_poll_extends:
  assumes "extends (cd_call_ok (cdr_lib R) cd) tr tr0"
  shows "extends (cd_call_ok (cdr_lib R) cd) tr (rr_trace (cd_poll R E cd interval now tr0))"
proof -
  have up: "extends (cd_call_ok (cdr_lib R) cd) tr tr1"
    if "upsertCollectorCRs R E cd (filterCollectors cd fleet) (cd_target_namespace cd)
          (tr0 @ [DcListCollectors m]) = (tr1, x)" for fleet m tr1 x
    using that assms by (auto simp: upsertCollectorCRs_def split: prod.splits sum.splits
        elim!: upsert_loop_extends intro!: trace_intros dest: filterCollectors_named)
  show ?thesis
    unfolding cd_poll_def Let_def using assms
    by (auto split: sum.splits prod.splits intro!: trace_intros cd_phase_failed_extends
        intro: up conflict_events_extends elim!: processStale_extends cd_updateStatusSuccess_extends)
qed

lemma cd_Reconcile_calls:
  assumes "de_Get E [DcGet req] = Inr cd"
  shows "extends (cd_call_ok (cdr_lib R) cd) [] (rr_trace (cd_Reconcile R E req))"
proof -
  have "extends (cd_call_ok (cdr_lib R) cd) [] [DcGet req]"
    and "extends (cd_call_ok (cdr_lib R) cd) [] [DcGet req, DcNow]"
    by (simp_all add: extends_def)
  with assms show ?thesis
    by (auto simp: cd_Reconcile_def Let_def split: sum.splits prod.splits option.splits
        elim!: cd_updateStatusError_extends intro!: trace_intros cd_poll_extends)
qed

lemma owned_annotate:
  "(\<And>m. map_of (f m) DiscoveredByAnnotation = map_of m DiscoveredByAnnotation) \<Longrightarrow>
     collectorIsOwnedByDiscovery (annotate f cr) cd = collectorIsOwnedByDiscovery cr cd"
  by (simp add: collectorIsOwnedByDiscovery_def get_str_def Let_def split: option.splits)

text \<open>
  C13: what an admitted CollectorDiscovery writes.  Every Collector its reconciles create lies in
  the target namespace of the discovery, carries a valid DNS-1123 name, a collector ID and the
  discovery's ownership labels. The target is the discovery's own namespace (creating there
  is not tied to the rights of its author) or another one: then, when the operator runs with
  the cross-namespace check of the webhook (\<open>--enforce-cross-namespace-discovery-authz\<close>, off
  by default), the requesting user may create collectors in it.  Every patch concerns a
  resource the discovery owns, keeps its spec and everything but the stale annotation; a
  delete concerns one it owns, under the policy Delete.
\<close>

theorem discovery_writes_its_own:
  assumes "cd_ValidateCreate L v req tr cd = (tr', warnings, None)"
    and "de_Get E [DcGet key] = Inr cd" "call \<in> set (rr_trace (cd_Reconcile R E key))"
  shows "case call of
           DcCreate cr \<Rightarrow>
             om_namespace (cl_meta cr) = cd_target_namespace cd \<and>
             (om_namespace (cl_meta cr) = om_namespace (cd_meta cd) \<or>
              (case cdv_reviewer v of
                 None \<Rightarrow> True
               | Some create \<Rightarrow>
                   \<exists>user. req = Some user \<and> may_create create user (om_namespace (cl_meta cr)) ''collectors'')) \<and>
             dns_label (om_name (cl_meta cr)) \<and> trim_space (cspec_ID (cl_spec cr)) \<noteq> [] \<and>
             collectorIsOwnedByDiscovery cr cd
         | DcPatch cr new \<Rightarrow>
             collectorIsOwnedByDiscovery cr cd \<and> collectorIsOwnedByDiscovery new cd \<and>
             cl_spec new = cl_spec cr \<and> om_labels (cl_meta new) = om_labels (cl_meta cr) \<and>
             (\<forall>k. k \<noteq> DiscoveryStaleAnnotation \<longrightarrow>
                map_of (om_annotations (cl_meta new)) k = map_of (om_annotations (cl_meta cr)) k)
         | DcDelete cr \<Rightarrow>
             collectorIsOwnedByDiscovery cr cd \<and>
             dpol_OnCollectorRemoved (cdspec_Policy (cd_spec cd)) = DiscoveryOnRemovedDelete
         | _ \<Rightarrow> True"
proof -
  have ok: "cd_call_ok (cdr_lib R) cd call"
    using cd_Reconcile_calls [OF assms(2), of R] assms(3) by (auto simp: extends_def list_all_iff)
  have owned: "collectorIsOwnedByDiscovery (discovered_collector cd ns name cid) cd" for ns name cid
    by (simp add: collectorIsOwnedByDiscovery_def discovered_collector_def get_str_def)
  have ns: "cd_target_namespace cd = om_namespace (cd_meta cd) \<or>
      (\<exists>user. req = Some user \<and> may_create create user (cd_target_namespace cd) ''collectors'')"
    if "cdv_reviewer v = Some create" for create
    using assms(1) that checkCrossNamespaceCreate_allowed [of create req]
    by (auto simp: cd_ValidateCreate_def cd_runDiscoveryAuthz_def cd_target_namespace_def Let_def
        split: prod.splits option.splits if_splits)
  show ?thesis
  proof (cases call)
    case (DcCreate cr)
    then obtain name cid where cr: "cr = discovered_collector cd (cd_target_namespace cd) name cid"
      and "dns_label name" "trim_space cid \<noteq> []"
      using ok by (auto simp: IsValidDNS1123_iff)
    then have "om_namespace (cl_meta cr) = cd_target_namespace cd" "dns_label (om_name (cl_meta cr))"
        "collectorIsOwnedByDiscovery cr cd" "trim_space (cspec_ID (cl_spec cr)) \<noteq> []"
      using owned by (simp_all add: discovered_collector_def)
    then show ?thesis using DcCreate ns by (auto split: option.splits)
  qed (use ok in \<open>auto simp: owned_annotate\<close>)
qed

text \<open>
  The status as the API server stores it, and a poll that failed: its status write was accepted
  and it returned an error.
\<close>

definition stored_discovery :: "CollectorDiscovery \<Rightarrow> CollectorDiscovery" where
  "stored_discovery cd =
     cd\<lparr>cd_status := (cd_status cd)
          \<lparr>cdst_LastSyncTime := map_option stored_time (cdst_LastSyncTime (cd_status cd)),
           cdst_LastSuccessTime := map_option stored_time (cdst_LastSuccessTime (cd_status cd))\<rparr>\<rparr>"

lemma failed_phase_writes:
  assumes "rr_err (cd_phase_failed R E cd reason err tr) \<noteq> None"
  shows "\<exists>before. rr_trace (cd_phase_failed R E cd reason err tr) =
             before @ [DcNow, DcStatusUpdate (cd\<lparr>cd_status :=
                cd_error_status (cdr_klib R) cd reason err (de_Now E (before @ [DcNow]))\<rparr>)] \<and>
           rr_result (cd_phase_failed R E cd reason err tr) = done_result"
  using assms
  by (auto simp: cd_phase_failed_def cd_updateStatusError_def Let_def split: option.splits if_splits)

lemma failed_poll_writes:
  assumes "rr_err (cd_poll R E cd interval now tr) \<noteq> None"
    and "de_StatusUpdate E (rr_trace (cd_poll R E cd interval now tr)) = None"
  shows "\<exists>before reason err. rr_trace (cd_poll R E cd interval now tr) =
             before @ [DcNow, DcStatusUpdate (cd\<lparr>cd_status :=
                cd_error_status (cdr_klib R) cd reason err (de_Now E (before @ [DcNow]))\<rparr>)] \<and>
           rr_result (cd_poll R E cd interval now tr) = done_result"
  using assms failed_phase_writes [of R E cd]
  by (auto simp: cd_poll_def cd_updateStatusSuccess_def Let_def
      split: sum.splits prod.splits option.splits if_splits) blast+

text \<open>
  C34: a failed poll waits for the poll interval.  When a reconcile listed the collectors of Fleet
  Management and then failed, and the API server accepted its status write, its last two calls
  are a reading of the clock and the write of a status with just that time as \<open>LastSyncTime\<close>;
  it asks for no requeue time of its own (the 30 seconds of
  \<open>defaultDiscoveryRequeueOnError\<close> are never the answer to such a failure).  Once this status
  is stored, its times cut to the second, every retry of the workqueue before the poll
  interval has passed since that time is skipped: it reads the clock, calls neither Fleet
  Management nor the API server and asks to come back when the interval is over.
\<close>

theorem failed_poll_waits_for_interval:
  assumes "de_Get E [DcGet req] = Inr cd" "cd_parsePollInterval (cdr_lib R) cd = Inr poll"
    and "DcListCollectors sel \<in> set (rr_trace (cd_Reconcile R E req))"
    and "rr_err (cd_Reconcile R E req) \<noteq> None"
    and "de_StatusUpdate E (rr_trace (cd_Reconcile R E req)) = None"
  shows "\<exists>before cd'.
           rr_trace (cd_Reconcile R E req) = before @ [DcNow, DcStatusUpdate cd'] \<and>
           rr_result (cd_Reconcile R E req) = done_result \<and>
           cdst_LastSyncTime (cd_status cd') = Some (de_Now E (before @ [DcNow])) \<and>
           (\<forall>E'. de_Get E' [DcGet req] = Inr (stored_discovery cd') \<longrightarrow>
              de_Now E' [DcGet req, DcNow] < stored_time (de_Now E (before @ [DcNow])) + poll \<longrightarrow>
              cd_Reconcile R E' req =
                ret [DcGet req, DcNow]
                  (requeue_after (stored_time (de_Now E (before @ [DcNow])) + poll - de_Now E' [DcGet req, DcNow]))
                  None outcomeScheduleSkipped)"
proof -
  have live: "\<not> om_deleting (cd_meta cd)"
    using assms(1,3) by (auto simp: cd_Reconcile_def Let_def)
  have polled: "cd_Reconcile R E req = cd_poll R E cd poll (de_Now E [DcGet req, DcNow]) [DcGet req, DcNow]"
    using assms(1-3) live
    by (auto simp: cd_Reconcile_def Let_def split: option.splits)
  obtain before reason err where
    w: "rr_trace (cd_Reconcile R E req) =
          before @ [DcNow, DcStatusUpdate (cd\<lparr>cd_status :=
             cd_error_status (cdr_klib R) cd reason err (de_Now E (before @ [DcNow]))\<rparr>)]"
    and d: "rr_result (cd_Reconcile R E req) = done_result"
    using failed_poll_writes assms(4,5) unfolding polled by blast
  let ?t = "de_Now E (before @ [DcNow])"
  let ?cd = "cd\<lparr>cd_status := cd_error_status (cdr_klib R) cd reason err ?t\<rparr>"
  have poll: "cd_parsePollInterval (cdr_lib R) (stored_discovery ?cd) = Inr poll"
    using assms(2) by (simp add: cd_parsePollInterval_def stored_discovery_def cong: sum.case_cong)
  have stamped: "cdst_LastSyncTime (cd_status ?cd) = Some ?t"
    and due: "schedule_skips (stored_discovery ?cd) poll now =
      (if now < stored_time ?t + poll then Some (stored_time ?t + poll - now) else None)" for now
    by (simp_all add: cd_error_status_def schedule_skips_def stored_discovery_def Let_def)
  have "cd_Reconcile R E' req =
      ret [DcGet req, DcNow] (requeue_after (stored_time ?t + poll - de_Now E' [DcGet req, DcNow])) None
        outcomeScheduleSkipped"
    if "de_Get E' [DcGet req] = Inr (stored_discovery ?cd)"
      "de_Now E' [DcGet req, DcNow] < stored_time ?t + poll" for E'
    using that live poll due by (simp add: cd_Reconcile_def Let_def stored_discovery_def)
  with w d stamped show ?thesis by blast
qed

section \<open>A sample discovery\<close>

definition sample_dlib :: dlib where
  "sample_dlib =
     \<lparr>dl_ParseDuration = (\<lambda>t. if t = ''5m'' then Inr (5 * minute) else Inl (PlainError ''duration'')),
      dl_show_duration = (\<lambda>_. ''d''), dl_IsDNS1123Label = (\<lambda>_. []), dl_sha256 = (\<lambda>_. replicate 32 0)\<rparr>"

definition edge_discovery :: CollectorDiscovery where
  "edge_discovery =
     \<lparr>cd_meta = \<lparr>om_namespace = ''ops'', om_name = ''edge'', om_generation = 1, om_deleting = False,
                 om_finalizers = [], om_labels = [], om_annotations = []\<rparr>,
      cd_spec = \<lparr>cdspec_PollInterval = ''5m'',
                 cdspec_Selector = \<lparr>psel_Matchers = [], psel_CollectorIDs = []\<rparr>,
                 cdspec_TargetNamespace = ''mirror'', cdspec_IncludeInactive = False,
                 cdspec_Policy = \<lparr>dpol_OnCollectorRemoved = ''Keep'', dpol_OnConflict = ''Skip''\<rparr>\<rparr>,
      cd_status = \<lparr>cdst_ObservedGeneration = 0, cdst_LastSyncTime = None, cdst_LastSuccessTime = None,
                   cdst_CollectorsObserved = 0, cdst_CollectorsManaged = 0, cdst_StaleCollectors = [],
                   cdst_Conflicts = [], cdst_Conditions = []\<rparr>\<rparr>"

definition edge_fleet :: "collector option list" where
  "edge_fleet =
     [None,
      Some \<lparr>fc_ID = ''edge-1'', fc_Name = [], fc_Enabled = None, fc_RemoteAttributes = [],
            fc_LocalAttributes = [], fc_CollectorType = [], fc_CreatedAt = None, fc_UpdatedAt = None,
            fc_MarkedInactiveAt = None\<rparr>]"

definition edge_reconciler :: CollectorDiscoveryReconciler where
  "edge_reconciler = \<lparr>cdr_klib = klib_ref, cdr_lib = sample_dlib, cdr_hasRecorder = False\<rparr>"

definition edge_env :: "CollectorDiscovery \<Rightarrow> go_error option \<Rightarrow> denv" where
  "edge_env cd down =
     \<lparr>de_Get = \<lambda>_. Inr cd, de_Now = \<lambda>_. 7 * second,
      de_ListCollectors = \<lambda>_. (case down of None \<Rightarrow> Inr edge_fleet | Some err \<Rightarrow> Inl err),
      de_GetCollector = \<lambda>_. Inl (KubeError ReasonNotFound ''gone''), de_Create = \<lambda>_. None,
      de_List = \<lambda>_. Inr [], de_Patch = \<lambda>_. None, de_Delete = \<lambda>_. None, de_StatusUpdate = \<lambda>_. None\<rparr>"

definition edge_key :: nsname where "edge_key = \<lparr>nn_namespace = ''ops'', nn_name = ''edge''\<rparr>"

text \<open>The one authority of the sample: create collectors in \<open>mirror\<close>.\<close>

definition edge_validator :: "nat collectorDiscoveryValidator" where
  "edge_validator =
     \<lparr>cdv_checker = None,
      cdv_reviewer = Some (\<lambda>s. Inr (Some \<lparr>sars_Allowed = sar_Namespace s = ''mirror'', sars_Denied = False,
                                        sars_Reason = []\<rparr>))\<rparr>"

definition edge_user :: UserInfo where
  "edge_user = \<lparr>ui_Username = ''ops'', ui_UID = [], ui_Groups = [], ui_Extra = []\<rparr>"

theorem discovery_writes_its_own_witness:
  "collectorIsOwnedByDiscovery (discovered_collector edge_discovery ''mirror'' ''edge-1'' ''edge-1'') edge_discovery"
proof -
  let ?c = "DcCreate (discovered_collector edge_discovery ''mirror'' ''edge-1'' ''edge-1'')"
  have a: "cd_ValidateCreate sample_dlib edge_validator (Some edge_user) 0 edge_discovery
      = (0, [''spec.selector is empty: this CollectorDiscovery will mirror all Fleet collectors. '' @
             ''For fleets with more than 1000 collectors, shard into multiple CollectorDiscovery '' @
             ''resources with disjoint matchers to avoid single large-response timeouts (see values.yaml).''],
         None)"
    by code_simp
  have g: "de_Get (edge_env edge_discovery None) [DcGet edge_key] = Inr edge_discovery"
    by (simp add: edge_env_def)
  have c: "?c \<in> set (rr_trace (cd_Reconcile edge_reconciler (edge_env edge_discovery None) edge_key))"
    by code_simp
  show ?thesis using discovery_writes_its_own [OF a g c] by simp
qed

text \<open>A poll that fails at 7.5 s: the status is stored with 7 s, and the retry is skipped.\<close>

definition edge_down :: denv where
  "edge_down = (edge_env edge_discovery (Some (PlainError ''down'')))\<lparr>de_Now := \<lambda>_. 7500000000\<rparr>"

theorem failed_poll_waits_for_interval_witness:
  "\<exists>cd'. cdst_LastSyncTime (cd_status (stored_discovery cd')) = Some (7 * second) \<and>
     rr_trace (cd_Reconcile edge_reconciler (edge_env (stored_discovery cd') None) edge_key) =
       [DcGet edge_key, DcNow]"
proof -
  have g: "de_Get edge_down [DcGet edge_key] = Inr edge_discovery"
    by (simp add: edge_down_def edge_env_def)
  have p: "cd_parsePollInterval (cdr_lib edge_reconciler) edge_discovery = Inr (5 * minute)" by code_simp
  have l: "DcListCollectors (psel_Matchers (cdspec_Selector (cd_spec edge_discovery)))
      \<in> set (rr_trace (cd_Reconcile edge_reconciler edge_down edge_key))"
    by code_simp
  have e: "rr_err (cd_Reconcile edge_reconciler edge_down edge_key) \<noteq> None" by code_simp
  have u: "de_StatusUpdate edge_down (rr_trace (cd_Reconcile edge_reconciler edge_down edge_key)) = None"
    by (simp add: edge_down_def edge_env_def)
  obtain before cd' where
    t: "cdst_LastSyncTime (cd_status cd') = Some (de_Now edge_down (before @ [DcNow]))"
    and skipped: "\<forall>E'. de_Get E' [DcGet edge_key] = Inr (stored_discovery cd') \<longrightarrow>
        de_Now E' [DcGet edge_key, DcNow] <
          stored_time (de_Now edge_down (before @ [DcNow])) + 5 * minute \<longrightarrow>
        cd_Reconcile edge_reconciler E' edge_key =
          ret [DcGet edge_key, DcNow]
            (requeue_after (stored_time (de_Now edge_down (before @ [DcNow])) + 5 * minute -
               de_Now E' [DcGet edge_key, DcNow])) None outcomeScheduleSkipped"
    using failed_poll_waits_for_interval [OF g p l e u] by blast
  have now: "stored_time (de_Now edge_down (before @ [DcNow])) = 7 * second"
    by (simp add: edge_down_def stored_time_def second_def)
  have "cd_Reconcile edge_reconciler (edge_env (stored_discovery cd') None) edge_key =
      ret [DcGet edge_key, DcNow] (requeue_after (5 * minute)) None outcomeScheduleSkipped"
    using skipped [rule_format, of "edge_env (stored_discovery cd') None"] unfolding now
    by (simp add: edge_env_def minute_def second_def)
  moreover have "cdst_LastSyncTime (cd_status (stored_discovery cd')) = Some (7 * second)"
    using t now by (simp add: stored_discovery_def)
  ultimately show ?thesis by (intro exI [of _ cd']) simp
qed

end
