(* ===== verification/Discovery_Mirror.thy ===== *)
theory Discovery_Mirror
  imports Collector_Discovery
begin

text \<open>
  What a poll of a CollectorDiscovery achieves, as a function on stores: the abstract mirror, and
  the proof that the reconciler implements it on an API server that behaves as documented.
\<close>

section \<open>The API server\<close>

type_synonym store = "nsname \<Rightarrow> Collector option"

text \<open>
  Documented behaviour of the API server: a created object starts at generation 1; a deleted
  object vanishes, or, while it has finalizers, stays with its deletion timestamp set.
\<close>

definition admitted_object :: "Collector \<Rightarrow> Collector" where
  "admitted_object cr = cr\<lparr>cl_meta := (cl_meta cr)\<lparr>om_generation := 1\<rparr>\<rparr>"

definition deleted_object :: "Collector \<Rightarrow> Collector option" where
  "deleted_object cr =
     (if om_finalizers (cl_meta cr) = [] then None
      else if om_deleting (cl_meta cr) then Some cr
      else Some (cr\<lparr>cl_meta := (cl_meta cr)\<lparr>om_deleting := True,
                                        om_generation := om_generation (cl_meta cr) + 1\<rparr>\<rparr>))"

definition serves :: "denv \<Rightarrow> (dcall list \<Rightarrow> store) \<Rightarrow> bool" where
  "serves E obs \<longleftrightarrow>
     (\<forall>tr k cr. obs tr k = Some cr \<longrightarrow> key_of (cl_meta cr) = k) \<and>
     (\<forall>tr k. obs tr k = None \<longrightarrow>
        (\<exists>err. de_GetCollector E (tr @ [DcGetCollector k]) = Inl err \<and> is_not_found err)) \<and>
     (\<forall>tr k cr. obs tr k = Some cr \<longrightarrow> de_GetCollector E (tr @ [DcGetCollector k]) = Inr cr) \<and>
     (\<forall>tr ns name. \<exists>items. de_List E (tr @ [DcList ns name]) = Inr items \<and>
        distinct (map (\<lambda>cr. key_of (cl_meta cr)) items) \<and>
        set items = {cr. obs tr (key_of (cl_meta cr)) = Some cr \<and> om_namespace (cl_meta cr) = ns \<and>
                         map_of (om_labels (cl_meta cr)) DiscoveryNameLabel = Some name}) \<and>
     (\<forall>tr cr. obs tr (key_of (cl_meta cr)) = None \<longrightarrow>
        de_Create E (tr @ [DcCreate cr]) = None \<and>
        obs (tr @ [DcCreate cr]) = (obs tr)(key_of (cl_meta cr) \<mapsto> admitted_object cr)) \<and>
     (\<forall>tr cr new. obs tr (key_of (cl_meta cr)) = Some cr \<longrightarrow> key_of (cl_meta new) = key_of (cl_meta cr) \<longrightarrow>
        de_Patch E (tr @ [DcPatch cr new]) = None \<and>
        obs (tr @ [DcPatch cr new]) = (obs tr)(key_of (cl_meta cr) \<mapsto> new)) \<and>
     (\<forall>tr cr. obs tr (key_of (cl_meta cr)) = Some cr \<longrightarrow>
        de_Delete E (tr @ [DcDelete cr]) = None \<and>
        obs (tr @ [DcDelete cr]) = (obs tr)(key_of (cl_meta cr) := deleted_object cr)) \<and>
     (\<forall>tr cd. de_StatusUpdate E (tr @ [DcStatusUpdate cd]) = None) \<and>
     (\<forall>tr call. (case call of DcCreate _ \<Rightarrow> False | DcPatch _ _ \<Rightarrow> False | DcDelete _ \<Rightarrow> False | _ \<Rightarrow> True) \<longrightarrow>
        obs (tr @ [call]) = obs tr)"

lemma servesD:
  assumes "serves E obs"
  shows serves_key: "obs tr k = Some cr \<Longrightarrow> key_of (cl_meta cr) = k"
    and serves_absent: "obs tr k = None \<Longrightarrow>
     \<exists>err. de_GetCollector E (tr @ [DcGetCollector k]) = Inl err \<and> is_not_found err"
    and serves_get: "obs tr k = Some cr \<Longrightarrow> de_GetCollector E (tr @ [DcGetCollector k]) = Inr cr"
    and serves_list: "\<exists>items. de_List E (tr @ [DcList ns name]) = Inr items \<and>
        distinct (map (\<lambda>cr. key_of (cl_meta cr)) items) \<and>
        set items = {cr. obs tr (key_of (cl_meta cr)) = Some cr \<and> om_namespace (cl_meta cr) = ns \<and>
                         map_of (om_labels (cl_meta cr)) DiscoveryNameLabel = Some name}"
    and serves_create: "obs tr (key_of (cl_meta cr)) = None \<Longrightarrow>
     de_Create E (tr @ [DcCreate cr]) = None \<and>
     obs (tr @ [DcCreate cr]) = (obs tr)(key_of (cl_meta cr) \<mapsto> admitted_object cr)"
    and serves_patch: "obs tr (key_of (cl_meta cr)) = Some cr \<Longrightarrow> key_of (cl_meta new) = key_of (cl_meta cr) \<Longrightarrow>
     de_Patch E (tr @ [DcPatch cr new]) = None \<and>
     obs (tr @ [DcPatch cr new]) = (obs tr)(key_of (cl_meta cr) \<mapsto> new)"
    and serves_delete: "obs tr (key_of (cl_meta cr)) = Some cr \<Longrightarrow>
     de_Delete E (tr @ [DcDelete cr]) = None \<and>
     obs (tr @ [DcDelete cr]) = (obs tr)(key_of (cl_meta cr) := deleted_object cr)"
    and serves_status: "de_StatusUpdate E (tr @ [DcStatusUpdate cd]) = None"
    and serves_quiet: "(case call of DcCreate _ \<Rightarrow> False | DcPatch _ _ \<Rightarrow> False | DcDelete _ \<Rightarrow> False | _ \<Rightarrow> True) \<Longrightarrow>
     obs (tr @ [call]) = obs tr"
proof -
  note s = assms [unfolded serves_def]
  show "obs tr k = Some cr \<Longrightarrow> key_of (cl_meta cr) = k"
    by (rule s [THEN conjunct1, rule_format])
  show "obs tr k = None \<Longrightarrow>
     \<exists>err. de_GetCollector E (tr @ [DcGetCollector k]) = Inl err \<and> is_not_found err"
    by (rule s [THEN conjunct2, THEN conjunct1, rule_format])
  show "obs tr k = Some cr \<Longrightarrow> de_GetCollector E (tr @ [DcGetCollector k]) = Inr cr"
    by (rule s [THEN conjunct2, THEN conjunct2, THEN conjunct1, rule_format])
  show "\<exists>items. de_List E (tr @ [DcList ns name]) = Inr items \<and>
        distinct (map (\<lambda>cr. key_of (cl_meta cr)) items) \<and>
        set items = {cr. obs tr (key_of (cl_meta cr)) = Some cr \<and> om_namespace (cl_meta cr) = ns \<and>
                         map_of (om_labels (cl_meta cr)) DiscoveryNameLabel = Some name}"
    by (rule s [THEN conjunct2, THEN conjunct2, THEN conjunct2, THEN conjunct1, rule_format])
  show "obs tr (key_of (cl_meta cr)) = None \<Longrightarrow>
     de_Create E (tr @ [DcCreate cr]) = None \<and>
     obs (tr @ [DcCreate cr]) = (obs tr)(key_of (cl_meta cr) \<mapsto> admitted_object cr)"
    by (rule s [THEN conjunct2, THEN conjunct2, THEN conjunct2, THEN conjunct2, THEN conjunct1, rule_format])
  show "obs tr (key_of (cl_meta cr)) = Some cr \<Longrightarrow> key_of (cl_meta new) = key_of (cl_meta cr) \<Longrightarrow>
     de_Patch E (tr @ [DcPatch cr new]) = None \<and>
     obs (tr @ [DcPatch cr new]) = (obs tr)(key_of (cl_meta cr) \<mapsto> new)"
    by (rule s [THEN conjunct2, THEN conjunct2, THEN conjunct2, THEN conjunct2, THEN conjunct2, THEN conjunct1, rule_format])
  show "obs tr (key_of (cl_meta cr)) = Some cr \<Longrightarrow>
     de_Delete E (tr @ [DcDelete cr]) = None \<and>
     obs (tr @ [DcDelete cr]) = (obs tr)(key_of (cl_meta cr) := deleted_object cr)"
    by (rule s [THEN conjunct2, THEN conjunct2, THEN conjunct2, THEN conjunct2, THEN conjunct2, THEN conjunct2, THEN conjunct1, rule_format])
  show "de_StatusUpdate E (tr @ [DcStatusUpdate cd]) = None"
    by (rule s [THEN conjunct2, THEN conjunct2, THEN conjunct2, THEN conjunct2, THEN conjunct2, THEN conjunct2, THEN conjunct2, THEN conjunct1, rule_format])
  show "(case call of DcCreate _ \<Rightarrow> False | DcPatch _ _ \<Rightarrow> False | DcDelete _ \<Rightarrow> False | _ \<Rightarrow> True) \<Longrightarrow>
     obs (tr @ [call]) = obs tr"
    by (rule s [THEN conjunct2, THEN conjunct2, THEN conjunct2, THEN conjunct2, THEN conjunct2, THEN conjunct2, THEN conjunct2, THEN conjunct2, rule_format])
qed

lemma serves_event: "serves E obs \<Longrightarrow> obs (cd_emitEvent R t r tr) = obs tr"
  by (auto simp: cd_emitEvent_def dest: serves_quiet [of _ _ "DcEvent t r"])

section \<open>The mirror\<close>

abbreviation unmark :: "Collector \<Rightarrow> Collector" where
  "unmark \<equiv> annotate (map_del DiscoveryStaleAnnotation)"

abbreviation mark :: "Collector \<Rightarrow> Collector" where
  "mark \<equiv> annotate (map_put DiscoveryStaleAnnotation DiscoveryStaleAnnotationValue)"

definition mirror_key :: "dlib \<Rightarrow> CollectorDiscovery \<Rightarrow> string \<Rightarrow> nsname" where
  "mirror_key L cd cid = \<lparr>nn_namespace = cd_target_namespace cd, nn_name = chooseCRName L cid\<rparr>"

definition mirror_of :: "dlib \<Rightarrow> CollectorDiscovery \<Rightarrow> string \<Rightarrow> Collector" where
  "mirror_of L cd cid =
     admitted_object (discovered_collector cd (cd_target_namespace cd) (chooseCRName L cid) cid)"

text \<open>The discovery may claim a collector whose resource is missing, or is its own.\<close>

definition claims :: "dlib \<Rightarrow> CollectorDiscovery \<Rightarrow> store \<Rightarrow> string \<Rightarrow> bool" where
  "claims L cd S cid \<longleftrightarrow>
     IsValidDNS1123 (chooseCRName L cid) \<and>
     (case S (mirror_key L cd cid) of
        None \<Rightarrow> True
      | Some cr \<Rightarrow> collectorIsOwnedByDiscovery cr cd \<and> cspec_ID (cl_spec cr) = cid)"

text \<open>The store after a poll that saw the collectors \<open>ids\<close>.\<close>

definition mirrored :: "dlib \<Rightarrow> CollectorDiscovery \<Rightarrow> string list \<Rightarrow> store \<Rightarrow> store" where
  "mirrored L cd ids S k =
     (case S k of
        None \<Rightarrow>
          map_option (mirror_of L cd) (find (\<lambda>cid. claims L cd S cid \<and> mirror_key L cd cid = k) ids)
      | Some cr \<Rightarrow>
          if nn_namespace k \<noteq> cd_target_namespace cd \<or> \<not> collectorIsOwnedByDiscovery cr cd then Some cr
          else if cspec_ID (cl_spec cr) \<in> set (filter (claims L cd S) ids) then Some (unmark cr)
          else if dpol_OnCollectorRemoved (cdspec_Policy (cd_spec cd)) = DiscoveryOnRemovedDelete
          then deleted_object cr
          else Some (mark cr))"

text \<open>The store after the first phase.\<close>

definition upserted :: "dlib \<Rightarrow> CollectorDiscovery \<Rightarrow> string list \<Rightarrow> store \<Rightarrow> store" where
  "upserted L cd ids S k =
     (case find (\<lambda>cid. claims L cd S cid \<and> mirror_key L cd cid = k) ids of
        None \<Rightarrow> S k
      | Some cid \<Rightarrow> (case S k of None \<Rightarrow> Some (mirror_of L cd cid) | Some cr \<Rightarrow> Some (unmark cr)))"

lemma map_del_absent: "\<not> has_key m k \<Longrightarrow> map_del k m = m"
  unfolding map_del_def has_key_def by (rule filter_True) force

lemma map_put_same: "map_of m k = Some v \<Longrightarrow> map_put k v m = m"
  by (induction k v m rule: map_put.induct) (auto split: if_splits)

lemma map_del_twice [simp]: "map_del k (map_del k m) = map_del k m"
  by (simp add: map_del_def)

lemma mark_marked:
  "get_str (om_annotations (cl_meta cr)) DiscoveryStaleAnnotation = DiscoveryStaleAnnotationValue \<Longrightarrow> mark cr = cr"
  by (auto simp: get_str_def map_put_same split: option.splits)

lemma unmark_unmarked: "\<not> has_key (om_annotations (cl_meta cr)) DiscoveryStaleAnnotation \<Longrightarrow> unmark cr = cr"
  by (simp add: map_del_absent)

lemma owned_mirror_of [simp]:
  "collectorIsOwnedByDiscovery (mirror_of L cd cid) cd" "cspec_ID (cl_spec (mirror_of L cd cid)) = cid"
  "key_of (cl_meta (mirror_of L cd cid)) = mirror_key L cd cid" "unmark (mirror_of L cd cid) = mirror_of L cd cid"
  by (simp_all add: mirror_of_def admitted_object_def discovered_collector_def collectorIsOwnedByDiscovery_def
      get_str_def key_of_def mirror_key_def map_del_def)

lemma owned_unmark [simp]: "collectorIsOwnedByDiscovery (unmark cr) cd = collectorIsOwnedByDiscovery cr cd"
  by (rule owned_annotate) simp

lemma key_of_annotate [simp]: "key_of (m\<lparr>om_annotations := a\<rparr>) = key_of m"
  by (simp add: key_of_def)

lemma owned_labelled:
  "collectorIsOwnedByDiscovery cr cd \<Longrightarrow> om_name (cd_meta cd) \<noteq> [] \<Longrightarrow>
     map_of (om_labels (cl_meta cr)) DiscoveryNameLabel = Some (om_name (cd_meta cd))"
  by (cases "map_of (om_labels (cl_meta cr)) DiscoveryNameLabel")
     (simp_all add: collectorIsOwnedByDiscovery_def get_str_def Let_def split: if_splits)

section \<open>The two phases implement it\<close>

lemma clear_store:
  assumes "serves E obs" "obs tr (key_of (cl_meta cr)) = Some cr"
  shows "\<exists>tr'. clearStaleAnnotation E cr tr = (tr', None) \<and>
           obs tr' = (obs tr)(key_of (cl_meta cr) \<mapsto> unmark cr)"
  using serves_patch [OF assms(1,2), of "unmark cr"] assms(2)
  by (auto simp: clearStaleAnnotation_def Let_def unmark_unmarked fun_upd_idem)

lemma set_store:
  assumes "serves E obs" "obs tr (key_of (cl_meta cr)) = Some cr"
  shows "\<exists>tr'. setStaleAnnotation E cr tr = (tr', None) \<and>
           obs tr' = (obs tr)(key_of (cl_meta cr) \<mapsto> mark cr)"
  using serves_patch [OF assms(1,2), of "mark cr"] assms(2)
  by (auto simp: setStaleAnnotation_def Let_def mark_marked fun_upd_idem)

lemma find_append:
  "find P (xs @ ys) = (case find P xs of None \<Rightarrow> find P ys | Some x \<Rightarrow> Some x)"
  by (induction xs) auto

lemma find_mirror_key:
  assumes "inj_on (chooseCRName L) (insert cid (set ids))"
    and "find (\<lambda>c. claims L cd S c \<and> mirror_key L cd c = mirror_key L cd cid) ids = Some c"
  shows "c = cid \<and> claims L cd S cid"
proof -
  have "c \<in> set ids" "claims L cd S c" "mirror_key L cd c = mirror_key L cd cid"
    using assms(2) by (auto simp: find_Some_iff)
  then have "c = cid"
    using assms(1) by (auto simp: mirror_key_def inj_on_def)
  with \<open>claims L cd S c\<close> show ?thesis by simp
qed

lemma claims_upserted:
  assumes "inj_on (chooseCRName L) (insert cid (set ids))"
  shows "claims L cd (upserted L cd ids S) cid = claims L cd S cid"
  using find_mirror_key [OF assms, of cd S]
  by (auto simp: claims_def upserted_def split: option.splits)

lemma upserted_snoc:
  assumes "inj_on (chooseCRName L) (insert cid (set ids))"
  shows "upserted L cd (ids @ [cid]) S =
           (if claims L cd S cid
            then (upserted L cd ids S)(mirror_key L cd cid \<mapsto>
                   (case upserted L cd ids S (mirror_key L cd cid) of
                      None \<Rightarrow> mirror_of L cd cid | Some cr \<Rightarrow> unmark cr))
            else upserted L cd ids S)"
  using find_mirror_key [OF assms, of cd S]
  by (auto simp: upserted_def find_append fun_eq_iff split: option.splits)

lemma upsert_one_store:
  fixes R :: CollectorDiscoveryReconciler
  assumes srv: "serves E obs" and named: "om_name (cd_meta cd) \<noteq> []"
  defines "L \<equiv> cdr_lib R"
  shows "\<exists>tr' cf. upsert_one R E cd (cd_target_namespace cd) c tr =
             (tr', Inr (cf, claims L cd (obs tr) (fc_ID c))) \<and>
           obs tr' =
             (if claims L cd (obs tr) (fc_ID c)
              then (obs tr)(mirror_key L cd (fc_ID c) \<mapsto>
                     (case obs tr (mirror_key L cd (fc_ID c)) of
                        None \<Rightarrow> mirror_of L cd (fc_ID c) | Some cr \<Rightarrow> unmark cr))
              else obs tr)"
proof (cases "IsValidDNS1123 (chooseCRName L (fc_ID c))")
  case False
  then show ?thesis by (simp add: upsert_one_def claims_def L_def)
next
  case valid: True
  let ?k = "mirror_key L cd (fc_ID c)"
  let ?tr = "tr @ [DcGetCollector ?k]"
  have k: "?k = \<lparr>nn_namespace = cd_target_namespace cd, nn_name = chooseCRName (cdr_lib R) (fc_ID c)\<rparr>"
    by (simp add: mirror_key_def L_def)
  have get: "obs ?tr = obs tr" by (rule serves_quiet [OF srv]) simp
  show ?thesis
  proof (cases "obs tr ?k")
    case None
    let ?d = "discovered_collector cd (cd_target_namespace cd) (chooseCRName L (fc_ID c)) (fc_ID c)"
    have d: "key_of (cl_meta ?d) = ?k"
      by (simp add: discovered_collector_def key_of_def mirror_key_def)
    obtain err where err: "de_GetCollector E ?tr = Inl err" "is_not_found err"
      using serves_absent [OF srv None] by blast
    have "de_Create E (?tr @ [DcCreate ?d]) = None" "obs (?tr @ [DcCreate ?d]) = (obs tr)(?k \<mapsto> admitted_object ?d)"
      using serves_create [OF srv, of ?tr ?d] None get d by simp_all
    then show ?thesis
      using valid None err k
      by (simp add: upsert_one_def claims_def Let_def L_def serves_event [OF srv] mirror_of_def)
  next
    case (Some cr)
    have key: "key_of (cl_meta cr) = ?k" using serves_key [OF srv Some] .
    have labelled: "has_key (om_labels (cl_meta cr)) DiscoveryNameLabel" if "collectorIsOwnedByDiscovery cr cd"
      using owned_labelled [OF that named] by (simp add: has_key_map_of)
    obtain tr' where clear: "clearStaleAnnotation E cr ?tr = (tr', None)" "obs tr' = (obs tr)(?k \<mapsto> unmark cr)"
      using clear_store [OF srv, of ?tr cr] Some get key by auto
    show ?thesis
      using valid Some serves_get [OF srv Some] k labelled clear get
      by (simp add: upsert_one_def claims_def Let_def L_def)
  qed
qed

lemma upsert_loop_store:
  assumes srv: "serves E obs" and named: "om_name (cd_meta cd) \<noteq> []"
    and S: "obs tr = upserted (cdr_lib R) cd pre S"
    and inj: "inj_on (chooseCRName (cdr_lib R)) (set pre \<union> fc_ID ` set cs)"
    and ids: "set ids = set (filter (claims (cdr_lib R) cd S) pre)"
  shows "\<exists>tr' cf ids'. upsert_loop R E cd (cd_target_namespace cd) cs conflicts ids tr = (tr', Inr (cf, ids')) \<and>
           obs tr' = upserted (cdr_lib R) cd (pre @ map fc_ID cs) S \<and>
           set ids' = set (filter (claims (cdr_lib R) cd S) (pre @ map fc_ID cs))"
  using S inj ids
proof (induction cs arbitrary: pre conflicts ids tr)
  case (Cons c cs)
  let ?L = "cdr_lib R"
  have inj: "inj_on (chooseCRName ?L) (insert (fc_ID c) (set pre))"
    using Cons.prems(2) by (rule inj_on_subset) auto
  obtain tr1 cf where one: "upsert_one R E cd (cd_target_namespace cd) c tr =
        (tr1, Inr (cf, claims ?L cd S (fc_ID c)))"
    and obs1: "obs tr1 = upserted ?L cd (pre @ [fc_ID c]) S"
    using upsert_one_store [OF srv named, of R c tr]
    unfolding Cons.prems(1) claims_upserted [OF inj] upserted_snoc [OF inj] by auto
  let ?ids = "if claims ?L cd S (fc_ID c) then List.insert (fc_ID c) ids else ids"
  have "set ?ids = set (filter (claims ?L cd S) (pre @ [fc_ID c]))"
    using Cons.prems(3) by simp
  moreover have "inj_on (chooseCRName ?L) (set (pre @ [fc_ID c]) \<union> fc_ID ` set cs)"
    using Cons.prems(2) by simp
  ultimately show ?case
    using Cons.IH [OF obs1, of ?ids "conflicts @ cf"] one by simp
qed simp

definition treated :: "CollectorDiscovery \<Rightarrow> string list \<Rightarrow> string \<Rightarrow> Collector \<Rightarrow> Collector option" where
  "treated cd ids onRemoved cr =
     (if \<not> collectorIsOwnedByDiscovery cr cd then Some cr
      else if cspec_ID (cl_spec cr) \<in> set ids then Some (unmark cr)
      else if onRemoved = DiscoveryOnRemovedDelete then deleted_object cr
      else Some (mark cr))"

lemma stale_loop_store:
  assumes srv: "serves E obs"
    and "\<forall>cr \<in> set crs. obs tr (key_of (cl_meta cr)) = Some cr"
    and "distinct (map (\<lambda>cr. key_of (cl_meta cr)) crs)"
  shows "\<exists>tr' st m. stale_loop R E cd ids q crs stale managed tr = (tr', Inr (st, m)) \<and>
           (\<forall>cr \<in> set crs. obs tr' (key_of (cl_meta cr)) = treated cd ids q cr) \<and>
           (\<forall>k. k \<notin> (\<lambda>cr. key_of (cl_meta cr)) ` set crs \<longrightarrow> obs tr' k = obs tr k)"
  using assms(2,3)
proof (induction crs arbitrary: stale managed tr)
  case (Cons cr crs)
  let ?key = "\<lambda>cr. key_of (cl_meta cr)"
  have head: "obs tr (?key cr) = Some cr" and tail: "distinct (map ?key crs)" and new: "?key cr \<notin> ?key ` set crs"
    using Cons.prems by auto
  have go: "\<exists>tr' st m. stale_loop R E cd ids q crs stale' managed' tr1 = (tr', Inr (st, m)) \<and>
           (\<forall>c \<in> set (cr # crs). obs tr' (?key c) = treated cd ids q c) \<and>
           (\<forall>k. k \<notin> ?key ` set (cr # crs) \<longrightarrow> obs tr' k = obs tr k)"
    if "obs tr1 = (obs tr)(?key cr := treated cd ids q cr)" for stale' managed' tr1
  proof -
    have "\<forall>c \<in> set crs. obs tr1 (?key c) = Some c" using that Cons.prems(1) new by (auto simp: image_iff)
    from Cons.IH [OF this tail, of stale' managed'] that new show ?thesis by fastforce
  qed
  show ?case
  proof (cases "collectorIsOwnedByDiscovery cr cd")
    case False
    then have "obs tr = (obs tr)(?key cr := treated cd ids q cr)"
      using head by (simp add: treated_def fun_upd_idem)
    then show ?thesis using go [of tr] False by simp
  next
    case owned: True
    consider "cspec_ID (cl_spec cr) \<in> set ids"
      | "cspec_ID (cl_spec cr) \<notin> set ids" "q = DiscoveryOnRemovedDelete"
      | "cspec_ID (cl_spec cr) \<notin> set ids" "q \<noteq> DiscoveryOnRemovedDelete" by blast
    then show ?thesis
    proof cases
      case 1
      obtain tr1 where "clearStaleAnnotation E cr tr = (tr1, None)" "obs tr1 = (obs tr)(?key cr \<mapsto> unmark cr)"
        using clear_store [OF srv head] by blast
      then show ?thesis using go [of tr1] owned 1 by (simp add: treated_def)
    next
      case 2
      have d: "de_Delete E (tr @ [DcDelete cr]) = None"
          "obs (tr @ [DcDelete cr]) = (obs tr)(?key cr := deleted_object cr)"
        using serves_delete [OF srv head] by simp_all
      then show ?thesis
        using go [of "cd_emitEvent R EventNormal discoveryEventReasonPruned (tr @ [DcDelete cr])"] owned 2
        by (simp add: treated_def Let_def serves_event [OF srv])
    next
      case 3
      obtain tr1 where "setStaleAnnotation E cr tr = (tr1, None)" "obs tr1 = (obs tr)(?key cr \<mapsto> mark cr)"
        using set_store [OF srv head] by blast
      then show ?thesis using go [of tr1] owned 3 by (simp add: treated_def Let_def)
    qed
  qed
qed simp

lemma processStale_store:
  assumes srv: "serves E obs" and named: "om_name (cd_meta cd) \<noteq> []"
  shows "\<exists>tr' st m. processStale R E cd ids (cd_target_namespace cd) tr = (tr', Inr (st, m)) \<and>
           (\<forall>k. obs tr' k =
             (case obs tr k of
                None \<Rightarrow> None
              | Some cr \<Rightarrow>
                  if nn_namespace k = cd_target_namespace cd
                  then treated cd ids (dpol_OnCollectorRemoved (cdspec_Policy (cd_spec cd))) cr else Some cr))"
proof -
  let ?ns = "cd_target_namespace cd" and ?key = "\<lambda>cr. key_of (cl_meta cr)"
  let ?tr = "tr @ [DcList ?ns (om_name (cd_meta cd))]"
  let ?p = "dpol_OnCollectorRemoved (cdspec_Policy (cd_spec cd))"
  let ?q = "if ?p = [] then DiscoveryOnRemovedKeep else ?p"
  obtain items where items: "de_List E ?tr = Inr items" "distinct (map ?key items)"
    and set_items: "set items = {cr. obs tr (?key cr) = Some cr \<and> om_namespace (cl_meta cr) = ?ns \<and>
        map_of (om_labels (cl_meta cr)) DiscoveryNameLabel = Some (om_name (cd_meta cd))}"
    using serves_list [OF srv] by blast
  have same: "obs ?tr = obs tr" by (rule serves_quiet [OF srv]) simp
  then obtain tr' st m where run: "stale_loop R E cd ids ?q items [] 0 ?tr = (tr', Inr (st, m))"
    and seen: "\<And>cr. cr \<in> set items \<Longrightarrow> obs tr' (?key cr) = treated cd ids ?q cr"
    and rest: "\<And>k. k \<notin> ?key ` set items \<Longrightarrow> obs tr' k = obs tr k"
    using stale_loop_store [OF srv, of items ?tr R cd ids ?q "[]" 0] items(2) set_items by auto
  have q: "treated cd ids ?q = treated cd ids ?p" by (auto simp: treated_def fun_eq_iff)
  have "obs tr' k = (case obs tr k of None \<Rightarrow> None
      | Some cr \<Rightarrow> if nn_namespace k = ?ns then treated cd ids ?p cr else Some cr)" for k
  proof (cases "obs tr k")
    case None
    then have "k \<notin> ?key ` set items" using set_items by auto
    then show ?thesis using rest None by simp
  next
    case (Some cr)
    have key: "?key cr = k" using serves_key [OF srv Some] .
    then have ns: "om_namespace (cl_meta cr) = nn_namespace k" by (auto simp: key_of_def)
    show ?thesis
    proof (cases "cr \<in> set items")
      case True
      then have "om_namespace (cl_meta cr) = ?ns" using set_items by simp
      then show ?thesis using seen [OF True] key q ns Some by simp
    next
      case False
      have "cr' = cr" if "cr' \<in> set items" "?key cr' = k" for cr'
        using that set_items Some by simp
      then have "k \<notin> ?key ` set items" using False by blast
      moreover have "treated cd ids ?p cr = Some cr" if "nn_namespace k = ?ns"
      proof -
        have "map_of (om_labels (cl_meta cr)) DiscoveryNameLabel \<noteq> Some (om_name (cd_meta cd))"
          using that False set_items Some key ns by simp
        then have "\<not> collectorIsOwnedByDiscovery cr cd"
          using owned_labelled [OF _ named] by blast
        then show ?thesis by (simp add: treated_def)
      qed
      ultimately show ?thesis using rest [of k] Some by simp
    qed
  qed
  then show ?thesis using run items by (simp add: processStale_def Let_def)
qed

lemma mirrored_phases:
  assumes S: "\<And>k cr. S k = Some cr \<Longrightarrow> key_of (cl_meta cr) = k"
    and ids': "set ids' = set (filter (claims L cd S) ids)"
  shows "mirrored L cd ids S k =
           (case upserted L cd ids S k of
              None \<Rightarrow> None
            | Some cr \<Rightarrow>
                if nn_namespace k = cd_target_namespace cd
                then treated cd ids' (dpol_OnCollectorRemoved (cdspec_Policy (cd_spec cd))) cr else Some cr)"
proof (cases "find (\<lambda>cid. claims L cd S cid \<and> mirror_key L cd cid = k) ids")
  case None
  then show ?thesis by (simp add: mirrored_def upserted_def treated_def ids' split: option.splits)
next
  case (Some cid)
  then have cid: "cid \<in> set ids" "claims L cd S cid" "mirror_key L cd cid = k"
    by (auto simp: find_Some_iff)
  then have ns: "nn_namespace k = cd_target_namespace cd" by (auto simp: mirror_key_def)
  show ?thesis
  proof (cases "S k")
    case None
    then show ?thesis using Some cid ns by (simp add: mirrored_def upserted_def treated_def ids')
  next
    case cr: (Some cr)
    then have "collectorIsOwnedByDiscovery cr cd" "cspec_ID (cl_spec cr) = cid"
      using cid by (simp_all add: claims_def)
    then show ?thesis
      using Some cid ns cr by (simp add: mirrored_def upserted_def treated_def ids')
  qed
qed

lemma conflict_events_store:
  "serves E obs \<Longrightarrow> obs (fold (\<lambda>_ tr. cd_emitEvent R t r tr) conflicts tr) = obs tr"
  by (induction conflicts arbitrary: tr) (simp_all add: serves_event)

text \<open>
  C5: a poll implements the mirror.  On an API server that behaves as documented and that no one
  else writes to meanwhile, a reconcile of a CollectorDiscovery that is due succeeds, asks to come
  back after the poll interval, and leaves exactly the store that the abstract mirror computes
  from the store it found and the collectors it saw: every collector it may claim has a
  resource without stale mark, a resource of its own whose collector is gone is marked stale
  or, under the policy Delete, deleted, and every other resource is untouched.  (Two collectors
  whose chosen names collide are outside this statement; the code reports the second as a
  conflict.)
\<close>

theorem discovery_implements_mirror:
  assumes srv: "serves E obs"
    and get: "de_Get E [DcGet req] = Inr cd" "om_name (cd_meta cd) \<noteq> []" "\<not> om_deleting (cd_meta cd)"
    and due: "cd_parsePollInterval (cdr_lib R) cd = Inr poll" "schedule_skips cd poll (de_Now E [DcGet req, DcNow]) = None"
    and fleet: "\<And>tr. de_ListCollectors E tr = Inr fleet"
    and inj: "inj_on (chooseCRName (cdr_lib R)) (fc_ID ` set (filterCollectors cd fleet))"
  shows "rr_err (cd_Reconcile R E req) = None \<and> rr_result (cd_Reconcile R E req) = requeue_after poll \<and>
         rr_outcome (cd_Reconcile R E req) = discoveryReasonSynced \<and>
         obs (rr_trace (cd_Reconcile R E req)) =
           mirrored (cdr_lib R) cd (map fc_ID (filterCollectors cd fleet)) (obs [])"
proof -
  let ?L = "cdr_lib R" and ?cs = "filterCollectors cd fleet" and ?S = "obs []"
  let ?tr = "[DcGet req, DcNow, DcListCollectors (psel_Matchers (cdspec_Selector (cd_spec cd)))]"
  have quiet: "obs (tr @ [DcGet x]) = obs tr" "obs (tr @ [DcNow]) = obs tr"
      "obs (tr @ [DcListCollectors m]) = obs tr" "obs (tr @ [DcStatusUpdate c]) = obs tr" for tr x m c
    by (rule serves_quiet [OF srv], simp)+
  have "obs ?tr = ?S"
    using quiet(1) [of "[]" req] quiet(2) [of "[DcGet req]"] quiet(3) [of "[DcGet req, DcNow]"] by simp
  then have start: "obs ?tr = upserted ?L cd [] ?S" by (simp add: upserted_def fun_eq_iff)
  obtain tr1 cf ids where up: "upsert_loop R E cd (cd_target_namespace cd) ?cs [] [] ?tr = (tr1, Inr (cf, ids))"
    and obs1: "obs tr1 = upserted ?L cd (map fc_ID ?cs) ?S"
    and ids: "set ids = set (filter (claims ?L cd ?S) (map fc_ID ?cs))"
    using upsert_loop_store [OF srv get(2) start, of ?cs "[]" "[]"] inj by auto
  obtain tr2 st m where stale: "processStale R E cd ids (cd_target_namespace cd) tr1 = (tr2, Inr (st, m))"
    and obs2: "obs tr2 = mirrored ?L cd (map fc_ID ?cs) ?S"
    using processStale_store [OF srv get(2), of R ids tr1] mirrored_phases [OF serves_key [OF srv] ids]
    by (auto simp: obs1 fun_eq_iff)
  show ?thesis
    using get due fleet up stale
    by (simp add: cd_Reconcile_def cd_poll_def upsertCollectorCRs_def cd_updateStatusSuccess_def Let_def
        serves_status [OF srv] quiet serves_event [OF srv] conflict_events_store [OF srv] obs2)
qed

section \<open>A reference server\<close>

text \<open>A list of objects with distinct keys, updated by the calls of the trace.\<close>

fun server_step :: "dcall \<Rightarrow> Collector list \<Rightarrow> Collector list" where
  "server_step (DcCreate cr) S =
     (if key_of (cl_meta cr) \<in> (\<lambda>c. key_of (cl_meta c)) ` set S then S else S @ [admitted_object cr])"
| "server_step (DcPatch cr new) S =
     (if key_of (cl_meta new) = key_of (cl_meta cr)
      then map (\<lambda>c. if key_of (cl_meta c) = key_of (cl_meta cr) then new else c) S else S)"
| "server_step (DcDelete cr) S =
     List.map_filter (\<lambda>c. if key_of (cl_meta c) = key_of (cl_meta cr) then deleted_object c else Some c) S"
| "server_step _ S = S"

definition server_store :: "Collector list \<Rightarrow> dcall list \<Rightarrow> Collector list" where
  "server_store S tr = fold server_step tr S"

definition server_obs :: "Collector list \<Rightarrow> dcall list \<Rightarrow> store" where
  "server_obs S tr k = find (\<lambda>c. key_of (cl_meta c) = k) (server_store S tr)"

definition server_env ::
    "Collector list \<Rightarrow> CollectorDiscovery \<Rightarrow> collector option list \<Rightarrow> int \<Rightarrow> denv" where
  "server_env S cd fleet now =
     \<lparr>de_Get = \<lambda>_. Inr cd, de_Now = \<lambda>_. now, de_ListCollectors = \<lambda>_. Inr fleet,
      de_GetCollector = (\<lambda>tr. case last tr of
          DcGetCollector k \<Rightarrow>
            (case server_obs S (butlast tr) k of
               None \<Rightarrow> Inl (KubeError ReasonNotFound ''not found'') | Some c \<Rightarrow> Inr c)
        | _ \<Rightarrow> Inl CtxCanceled),
      de_Create = \<lambda>_. None,
      de_List = (\<lambda>tr. case last tr of
          DcList ns name \<Rightarrow>
            Inr (filter (\<lambda>c. om_namespace (cl_meta c) = ns \<and>
                             map_of (om_labels (cl_meta c)) DiscoveryNameLabel = Some name)
                  (server_store S (butlast tr)))
        | _ \<Rightarrow> Inl CtxCanceled),
      de_Patch = \<lambda>_. None, de_Delete = \<lambda>_. None, de_StatusUpdate = \<lambda>_. None\<rparr>"

abbreviation distinct_keys :: "Collector list \<Rightarrow> bool" where
  "distinct_keys S \<equiv> distinct (map (\<lambda>c. key_of (cl_meta c)) S)"

lemma key_of_admitted [simp]: "key_of (cl_meta (admitted_object cr)) = key_of (cl_meta cr)"
  by (simp add: admitted_object_def key_of_def)

lemma key_of_deleted: "deleted_object cr = Some c \<Longrightarrow> key_of (cl_meta c) = key_of (cl_meta cr)"
  by (auto simp: deleted_object_def key_of_def split: if_splits)

lemma server_step_keys: "distinct_keys S \<Longrightarrow> distinct_keys (server_step call S)"
proof (cases call)
  case (DcPatch cr new)
  have "map (\<lambda>c. key_of (cl_meta c)) (server_step call S) = map (\<lambda>c. key_of (cl_meta c)) S"
    using DcPatch by auto
  then show "distinct_keys S \<Longrightarrow> ?thesis" by metis
next
  case (DcDelete cr)
  let ?key = "\<lambda>c. key_of (cl_meta c)"
  let ?f = "\<lambda>c. if ?key c = ?key cr then deleted_object c else Some c"
  have sub: "?key ` set (List.map_filter ?f S) \<subseteq> ?key ` set S" for S
    by (induction S) (auto simp: map_filter_simps dest: key_of_deleted split: option.splits if_splits)
  have "distinct_keys S \<Longrightarrow> distinct_keys (List.map_filter ?f S)"
  proof (induction S)
    case (Cons c S)
    have "?key c \<notin> ?key ` set (List.map_filter ?f S)" using Cons.prems sub [of S] by auto
    then show ?case
      using Cons by (cases "?f c") (auto simp: map_filter_simps dest: key_of_deleted split: if_splits)
  qed (simp add: map_filter_simps)
  then show "distinct_keys S \<Longrightarrow> ?thesis" using DcDelete by simp
qed auto

lemma server_keys: "distinct_keys S \<Longrightarrow> distinct_keys (server_store S tr)"
  unfolding server_store_def by (induction tr arbitrary: S) (auto simp: server_step_keys simp del: server_step.simps)

lemma server_snoc [simp]: "server_store S (tr @ [call]) = server_step call (server_store S tr)"
  by (simp add: server_store_def)

lemma find_key_Some:
  "distinct_keys S \<Longrightarrow> find (\<lambda>c. key_of (cl_meta c) = k) S = Some cr \<longleftrightarrow> cr \<in> set S \<and> key_of (cl_meta cr) = k"
  by (induction S) auto

lemma find_key_None: "find (\<lambda>c. key_of (cl_meta c) = k) S = None \<longleftrightarrow> k \<notin> (\<lambda>c. key_of (cl_meta c)) ` set S"
  by (auto simp: find_None_iff)

lemma server_delete:
  "distinct_keys S \<Longrightarrow> find (\<lambda>c. key_of (cl_meta c) = key_of (cl_meta cr)) S = Some cr \<Longrightarrow>
     find (\<lambda>c. key_of (cl_meta c) = k) (server_step (DcDelete cr) S) =
       (if k = key_of (cl_meta cr) then deleted_object cr else find (\<lambda>c. key_of (cl_meta c) = k) S)"
proof (induction S)
  case (Cons c S)
  show ?case
  proof (cases "c = cr")
    case True
    then have "key_of (cl_meta cr) \<notin> (\<lambda>c. key_of (cl_meta c)) ` set S" using Cons.prems(1) by simp
    then have "server_step (DcDelete cr) S = S"
      by (induction S) (auto simp: map_filter_simps)
    moreover from True Cons.prems(1) have "find (\<lambda>c. key_of (cl_meta c) = key_of (cl_meta cr)) S = None"
      by (simp add: find_key_None)
    ultimately show ?thesis using True
      by (auto simp: map_filter_simps dest: key_of_deleted split: option.splits)
  next
    case False
    then have "key_of (cl_meta c) \<noteq> key_of (cl_meta cr)" using Cons.prems by (auto split: if_splits)
    then show ?thesis using Cons by (auto simp: map_filter_simps)
  qed
qed simp

lemma server_patch:
  assumes "key_of (cl_meta new) = key_of (cl_meta cr)"
    and "find (\<lambda>c. key_of (cl_meta c) = key_of (cl_meta cr)) S = Some cr"
  shows "find (\<lambda>c. key_of (cl_meta c) = k) (server_step (DcPatch cr new) S) =
           (if k = key_of (cl_meta cr) then Some new else find (\<lambda>c. key_of (cl_meta c) = k) S)"
proof -
  have "find (\<lambda>c. key_of (cl_meta c) = k) (map (\<lambda>c. if key_of (cl_meta c) = key_of (cl_meta cr) then new else c) S) =
      find (\<lambda>c. key_of (cl_meta c) = k) S" if "k \<noteq> key_of (cl_meta cr)"
    using that assms(1) by (induction S) auto
  moreover have "find (\<lambda>c. key_of (cl_meta c) = key_of (cl_meta cr))
      (map (\<lambda>c. if key_of (cl_meta c) = key_of (cl_meta cr) then new else c) S) = Some new"
    using assms by (induction S) (auto split: if_splits)
  ultimately show ?thesis using assms(1) by auto
qed

lemma server_create:
  assumes "find (\<lambda>c. key_of (cl_meta c) = key_of (cl_meta cr)) S = None"
  shows "find (\<lambda>c. key_of (cl_meta c) = k) (server_step (DcCreate cr) S) =
           (if k = key_of (cl_meta cr) then Some (admitted_object cr) else find (\<lambda>c. key_of (cl_meta c) = k) S)"
proof -
  have "key_of (cl_meta cr) \<notin> (\<lambda>c. key_of (cl_meta c)) ` set S" using assms by (simp add: find_key_None)
  with assms show ?thesis by (cases "find (\<lambda>c. key_of (cl_meta c) = k) S") (auto simp: find_append)
qed

lemma server_serves:
  assumes "distinct_keys S"
  shows "serves (server_env S cd fleet now) (server_obs S)"
proof -
  note keys = server_keys [OF assms]
  show ?thesis
    unfolding serves_def
  proof (intro conjI allI impI)
    fix tr ns name
    show "\<exists>items. de_List (server_env S cd fleet now) (tr @ [DcList ns name]) = Inr items \<and>
        distinct (map (\<lambda>cr. key_of (cl_meta cr)) items) \<and>
        set items = {cr. server_obs S tr (key_of (cl_meta cr)) = Some cr \<and> om_namespace (cl_meta cr) = ns \<and>
                         map_of (om_labels (cl_meta cr)) DiscoveryNameLabel = Some name}"
      using keys [of tr] by (auto simp: server_env_def server_obs_def find_key_Some distinct_map_filter)
  next
    fix tr k cr assume "server_obs S tr k = Some cr"
    then show "key_of (cl_meta cr) = k" by (simp add: server_obs_def find_key_Some [OF keys])
  qed (auto simp: server_env_def server_obs_def fun_eq_iff is_not_found_def server_create
      server_delete [OF keys] server_patch simp del: server_step.simps(1-3) split: dcall.splits option.splits)
qed

text \<open>The sample discovery on a store with one resource of its own, whose collector is gone.\<close>

definition edge_store :: "Collector list" where
  "edge_store = [mirror_of sample_dlib edge_discovery ''edge-9'']"

theorem discovery_implements_mirror_witness:
  "server_obs edge_store (rr_trace (cd_Reconcile edge_reconciler
       (server_env edge_store edge_discovery edge_fleet (7 * second)) edge_key))
     (mirror_key sample_dlib edge_discovery ''edge-1'') = Some (mirror_of sample_dlib edge_discovery ''edge-1'') \<and>
   server_obs edge_store (rr_trace (cd_Reconcile edge_reconciler
       (server_env edge_store edge_discovery edge_fleet (7 * second)) edge_key))
     (mirror_key sample_dlib edge_discovery ''edge-9'') = Some (mark (mirror_of sample_dlib edge_discovery ''edge-9''))"
proof -
  let ?E = "server_env edge_store edge_discovery edge_fleet (7 * second)"
  have ids: "map fc_ID (filterCollectors edge_discovery edge_fleet) = [''edge-1'']" by code_simp
  have inj: "inj_on (chooseCRName (cdr_lib edge_reconciler)) (fc_ID ` set (filterCollectors edge_discovery edge_fleet))"
    unfolding set_map [symmetric] ids by simp
  have due: "cd_parsePollInterval (cdr_lib edge_reconciler) edge_discovery = Inr (5 * minute)"
      "schedule_skips edge_discovery (5 * minute) (7 * second) = None"
      "om_name (cd_meta edge_discovery) \<noteq> []" "\<not> om_deleting (cd_meta edge_discovery)"
    by code_simp+
  have srv: "serves ?E (server_obs edge_store)"
    by (rule server_serves) (simp add: edge_store_def)
  have "server_obs edge_store (rr_trace (cd_Reconcile edge_reconciler ?E edge_key)) =
      mirrored sample_dlib edge_discovery [''edge-1''] (server_obs edge_store [])"
    using discovery_implements_mirror [OF srv _ due(3,4,1), of edge_key edge_fleet] due(2) inj ids
    by (simp add: server_env_def edge_reconciler_def)
  moreover have "mirrored sample_dlib edge_discovery [''edge-1''] (server_obs edge_store [])
      (mirror_key sample_dlib edge_discovery ''edge-1'') = Some (mirror_of sample_dlib edge_discovery ''edge-1'')"
    by code_simp
  moreover have "mirrored sample_dlib edge_discovery [''edge-1''] (server_obs edge_store [])
      (mirror_key sample_dlib edge_discovery ''edge-9'') =
      Some (mark (mirror_of sample_dlib edge_discovery ''edge-9''))"
    by code_simp
  ultimately show ?thesis by simp
qed

text \<open>Under the policy Keep, mirroring what was mirrored changes nothing.\<close>

lemma claims_mirrored:
  assumes "inj_on (chooseCRName L) (set ids)" "cid \<in> set ids"
    and keep: "dpol_OnCollectorRemoved (cdspec_Policy (cd_spec cd)) \<noteq> DiscoveryOnRemovedDelete"
  shows "claims L cd (mirrored L cd ids S) cid = claims L cd S cid"
proof -
  let ?k = "mirror_key L cd cid"
  have ns: "nn_namespace ?k = cd_target_namespace cd" by (simp add: mirror_key_def)
  show ?thesis
  proof (cases "S ?k")
    case None
    have "\<exists>c. find (\<lambda>c. claims L cd S c \<and> mirror_key L cd c = ?k) ids = Some c" if "claims L cd S cid"
      using that assms(2) by (cases "find (\<lambda>c. claims L cd S c \<and> mirror_key L cd c = ?k) ids")
        (auto simp: find_None_iff)
    then show ?thesis
      using None find_mirror_key [of L cid ids cd S] assms
      by (auto simp: claims_def [of L cd "mirrored L cd ids S"] mirrored_def insert_absorb claims_def [of L cd S cid]
          split: option.splits)
  next
    case (Some cr)
    then show ?thesis
      using keep ns owned_annotate [of "map_put DiscoveryStaleAnnotation DiscoveryStaleAnnotationValue" cr cd]
      by (auto simp: claims_def mirrored_def)
  qed
qed

lemma mirrored_idem:
  assumes "inj_on (chooseCRName L) (set ids)"
    and keep: "dpol_OnCollectorRemoved (cdspec_Policy (cd_spec cd)) \<noteq> DiscoveryOnRemovedDelete"
  shows "mirrored L cd ids (mirrored L cd ids S) = mirrored L cd ids S"
proof
  fix k
  have same: "filter (claims L cd (mirrored L cd ids S)) ids = filter (claims L cd S) ids"
    using claims_mirrored [OF assms(1) _ keep] by (auto intro: filter_cong)
  have find: "find (\<lambda>c. claims L cd (mirrored L cd ids S) c \<and> mirror_key L cd c = k) ids =
      find (\<lambda>c. claims L cd S c \<and> mirror_key L cd c = k) ids"
    using claims_mirrored [OF assms(1) _ keep] by (intro find_cong) auto
  have marks: "collectorIsOwnedByDiscovery (mark cr) cd = collectorIsOwnedByDiscovery cr cd" "mark (mark cr) = mark cr" for cr
    by (rule owned_annotate, simp) (simp add: map_put_same)
  show "mirrored L cd ids (mirrored L cd ids S) k = mirrored L cd ids S k"
  proof (cases "S k")
    case None
    show ?thesis
    proof (cases "find (\<lambda>c. claims L cd S c \<and> mirror_key L cd c = k) ids")
      case None
      then show ?thesis using \<open>S k = None\<close> find by (simp add: mirrored_def)
    next
      case (Some cid)
      then have "cid \<in> set ids" "claims L cd S cid" "nn_namespace k = cd_target_namespace cd"
        by (auto simp: find_Some_iff mirror_key_def)
      moreover have "mirrored L cd ids S k = Some (mirror_of L cd cid)"
        using None Some by (simp add: mirrored_def)
      ultimately show ?thesis
        using same by (simp add: mirrored_def [of L cd ids "mirrored L cd ids S" k] del: set_filter) simp
    qed
  next
    case (Some cr)
    let ?own = "nn_namespace k = cd_target_namespace cd \<and> collectorIsOwnedByDiscovery cr cd"
    let ?seen = "cspec_ID (cl_spec cr) \<in> set (filter (claims L cd S) ids)"
    consider "\<not> ?own" | "?own" "?seen" | "?own" "\<not> ?seen" by blast
    then show ?thesis
    proof cases
      case 1
      then have "mirrored L cd ids S k = Some cr" using Some by (auto simp: mirrored_def)
      then show ?thesis using 1 by (auto simp: mirrored_def [of L cd ids "mirrored L cd ids S" k])
    next
      case 2
      then have "mirrored L cd ids S k = Some (unmark cr)" using Some by (simp add: mirrored_def)
      then show ?thesis
        using 2 same by (simp add: mirrored_def [of L cd ids "mirrored L cd ids S" k] del: set_filter)
    next
      case 3
      then have "mirrored L cd ids S k = Some (mark cr)"
        using Some keep by (simp add: mirrored_def del: set_filter)
      then show ?thesis
        using 3 same keep marks by (simp add: mirrored_def [of L cd ids "mirrored L cd ids S" k] del: set_filter)
    qed
  qed
qed

end
