(* ===== verification/Pipeline_Discovery.thy ===== *)
theory Pipeline_Discovery
  imports Discovery_Types External_Sync Pipeline_Controller
begin

text \<open>
  The PipelineDiscovery reconciler (\<open>internal/controller/pipeline_discovery_controller.go\<close>): it
  polls Fleet Management and imports the pipelines it finds as Pipeline resources, either
  adopted (the pipeline controller then owns the Fleet pipeline) or read-only.
\<close>

section \<open>The reconciler and its world\<close>

abbreviation pipelineDiscoveryReasonSynced :: string where "pipelineDiscoveryReasonSynced \<equiv> ''Synced''"
abbreviation pipelineDiscoveryReasonListFailed :: string where
  "pipelineDiscoveryReasonListFailed \<equiv> ''ListPipelinesFailed''"
abbreviation pipelineDiscoveryReasonUpsertFailed :: string where
  "pipelineDiscoveryReasonUpsertFailed \<equiv> ''UpsertFailed''"
abbreviation pipelineDiscoveryReasonStaleFailed :: string where
  "pipelineDiscoveryReasonStaleFailed \<equiv> ''StaleProcessingFailed''"
abbreviation pipelineDiscoveryReasonInvalidConfig :: string where
  "pipelineDiscoveryReasonInvalidConfig \<equiv> ''InvalidConfig''"
abbreviation pipelineDiscoveryEventReasonDiscovered :: string where
  "pipelineDiscoveryEventReasonDiscovered \<equiv> ''PipelineDiscovered''"
abbreviation pipelineDiscoveryEventReasonPruned :: string where
  "pipelineDiscoveryEventReasonPruned \<equiv> ''PipelinePruned''"
abbreviation pipelineDiscoveryEventReasonConflict :: string where
  "pipelineDiscoveryEventReasonConflict \<equiv> ''PipelineConflict''"
abbreviation pipelineDiscoveryEventReasonSynced :: string where
  "pipelineDiscoveryEventReasonSynced \<equiv> ''Synced''"
abbreviation pipelineDiscoveryEventReasonFailed :: string where
  "pipelineDiscoveryEventReasonFailed \<equiv> ''SyncFailed''"
abbreviation pipelineDiscoveryConditionTruncatedConflicts :: string where
  "pipelineDiscoveryConditionTruncatedConflicts \<equiv> ''TruncatedConflicts''"
abbreviation pipelineDiscoveryReasonConflictsTruncated :: string where
  "pipelineDiscoveryReasonConflictsTruncated \<equiv> ''ConflictListTruncated''"
abbreviation pipelineDiscoveryReasonNoConflictsTruncated :: string where
  "pipelineDiscoveryReasonNoConflictsTruncated \<equiv> ''NoConflictsTruncated''"
abbreviation PipelineDiscoveryOnRemovedKeep :: string where "PipelineDiscoveryOnRemovedKeep \<equiv> ''Keep''"
abbreviation PipelineDiscoveryOnRemovedDelete :: string where
  "PipelineDiscoveryOnRemovedDelete \<equiv> ''Delete''"
abbreviation PipelineDiscoveryConflictNotOwned :: string where
  "PipelineDiscoveryConflictNotOwned \<equiv> ''NotOwnedByDiscovery''"
abbreviation PipelineDiscoveryConflictOwnedByOther :: string where
  "PipelineDiscoveryConflictOwnedByOther \<equiv> ''OwnedByOtherDiscovery''"
abbreviation PipelineDiscoveryConflictSanitizeFailed :: string where
  "PipelineDiscoveryConflictSanitizeFailed \<equiv> ''NameSanitizationFailed''"
abbreviation PipelineDiscoveryStaleAnnotationValue :: string where
  "PipelineDiscoveryStaleAnnotationValue \<equiv> ''true''"

definition maxPipelineDiscoveryConflicts :: nat where "maxPipelineDiscoveryConflicts = 100"

definition defaultPipelineDiscoveryPollInterval :: int where
  "defaultPipelineDiscoveryPollInterval = 5 * minute"

record PipelineDiscoveryReconciler =
  pdr_klib :: klib
  pdr_lib :: dlib
  pdr_hasRecorder :: bool

datatype pdcall =
    PdGet nsname
  | PdNow
  | PdListPipelines list_pipelines_request
  | PdGetPipeline nsname
  | PdCreate Pipeline
  | PdList string string
  | PdPatch Pipeline Pipeline
  | PdDelete Pipeline
  | PdStatusUpdate PipelineDiscovery
  | PdEvent event_type string

record pdenv =
  pde_Get :: "pdcall list \<Rightarrow> go_error + PipelineDiscovery"
  pde_Now :: "pdcall list \<Rightarrow> int"
  pde_ListPipelines :: "pdcall list \<Rightarrow> go_error + pipeline option list"
  pde_GetPipeline :: "pdcall list \<Rightarrow> go_error + Pipeline"
  pde_Create :: "pdcall list \<Rightarrow> go_error option"
  pde_List :: "pdcall list \<Rightarrow> go_error + Pipeline list"
  pde_Patch :: "pdcall list \<Rightarrow> go_error option"
  pde_Delete :: "pdcall list \<Rightarrow> go_error option"
  pde_StatusUpdate :: "pdcall list \<Rightarrow> go_error option"

definition pd_emitEvent :: "PipelineDiscoveryReconciler \<Rightarrow> event_type \<Rightarrow> string \<Rightarrow> pdcall list \<Rightarrow> pdcall list" where
  "pd_emitEvent R t reason tr = (if pdr_hasRecorder R then tr @ [PdEvent t reason] else tr)"

section \<open>Names, ownership and the imported resource\<close>

definition pd_parsePollInterval :: "dlib \<Rightarrow> PipelineDiscovery \<Rightarrow> go_error + int" where
  "pd_parsePollInterval L pd =
     (let raw = trim_space (pdspec_PollInterval (pd_spec pd))
      in if raw = [] then Inr defaultPipelineDiscoveryPollInterval
         else
           (case dl_ParseDuration L raw of
              Inl err \<Rightarrow>
                Inl (WrapError (''pollInterval '' @ go_quote raw @ '' is not a valid Go duration: '') err [])
            | Inr d \<Rightarrow>
                if d \<le> 0
                then Inl (PlainError (''pollInterval '' @ go_quote raw @ '' ('' @ dl_show_duration L d @
                       '') must be positive''))
                else Inr d))"

definition buildListRequest :: "PipelineDiscovery \<Rightarrow> list_pipelines_request" where
  "buildListRequest pd =
     \<lparr>lpr_ConfigType = map_option config_ToFleetAPI (pdsel_ConfigType (pdspec_Selector (pd_spec pd))),
      lpr_Enabled = pdsel_Enabled (pdspec_Selector (pd_spec pd))\<rparr>"

definition choosePipelineCRName :: "dlib \<Rightarrow> string \<Rightarrow> string" where
  "choosePipelineCRName L name =
     (let (sanitized, lossy) = SanitizedName name
      in if \<not> lossy then sanitized else HashedName (dl_sha256 L) name)"

definition pipelineDiscoveryOwnerAnnotation :: "PipelineDiscovery \<Rightarrow> string" where
  "pipelineDiscoveryOwnerAnnotation pd = om_namespace (pd_meta pd) @ ''/'' @ om_name (pd_meta pd)"

definition pipelineIsOwnedByDiscovery :: "Pipeline \<Rightarrow> PipelineDiscovery \<Rightarrow> bool" where
  "pipelineIsOwnedByDiscovery cr pd =
     (let labels = om_labels (pl_meta cr)
      in if get_str labels PipelineDiscoveryNameLabel \<noteq> om_name (pd_meta pd) then False
         else case map_of labels PipelineDiscoveryNamespaceLabel of
                Some ownerNS \<Rightarrow> ownerNS = om_namespace (pd_meta pd)
              | None \<Rightarrow> annotation cr PipelineDiscoveredByAnnotation = pipelineDiscoveryOwnerAnnotation pd)"

text \<open>The resource an import creates: read-only on request, and for Grafana's own pipelines.\<close>

definition import_read_only :: "PipelineDiscovery \<Rightarrow> pipeline \<Rightarrow> bool" where
  "import_read_only pd fp \<longleftrightarrow>
     pdspec_ImportMode (pd_spec pd) = PipelineDiscoveryImportModeReadOnly \<or>
     (case pipelineSourceFromFleet (fp_Source fp) of
        None \<Rightarrow> False | Some src \<Rightarrow> psrc_Type src = SourceTypeGrafana)"

definition imported_pipeline :: "PipelineDiscovery \<Rightarrow> string \<Rightarrow> string \<Rightarrow> pipeline \<Rightarrow> Pipeline" where
  "imported_pipeline pd targetNS crName fp =
     (let annotations = [(PipelineDiscoveredByAnnotation, pipelineDiscoveryOwnerAnnotation pd),
                         (FleetPipelineIDAnnotation, fp_ID fp)];
          annotations = (if import_read_only pd fp
            then map_put PipelineImportModeAnnotation PipelineImportModeAnnotationReadOnly annotations
            else annotations)
      in \<lparr>pl_meta = \<lparr>om_namespace = targetNS, om_name = crName, om_generation = 0, om_deleting = False,
                     om_finalizers = [],
                     om_labels = [(PipelineDiscoveryNameLabel, om_name (pd_meta pd)),
                                  (PipelineDiscoveryNamespaceLabel, om_namespace (pd_meta pd))],
                     om_annotations = annotations\<rparr>,
          pl_spec = \<lparr>pspec_Name = fp_Name fp, pspec_Contents = fp_Contents fp, pspec_Matchers = fp_Matchers fp,
                     pspec_Enabled = Some (fp_Enabled fp),
                     pspec_ConfigType = ConfigTypeFromFleetAPI (fp_ConfigType fp),
                     pspec_Source = pipelineSourceFromFleet (fp_Source fp), pspec_Paused = False\<rparr>,
          pl_status = \<lparr>pst_ID = [], pst_SyncedName = [], pst_ObservedGeneration = 0, pst_CreatedAt = None,
                       pst_UpdatedAt = None, pst_Source = None, pst_RevisionID = [], pst_Conditions = []\<rparr>\<rparr>)"

section \<open>The stale annotation\<close>

abbreviation annotate_pipeline :: "(gomap \<Rightarrow> gomap) \<Rightarrow> Pipeline \<Rightarrow> Pipeline" where
  "annotate_pipeline f cr \<equiv> cr\<lparr>pl_meta := (pl_meta cr)\<lparr>om_annotations := f (om_annotations (pl_meta cr))\<rparr>\<rparr>"

abbreviation show_pipeline :: "Pipeline \<Rightarrow> string" where
  "show_pipeline cr \<equiv> om_namespace (pl_meta cr) @ ''/'' @ om_name (pl_meta cr)"

definition setPipelineStaleAnnotation ::
    "pdenv \<Rightarrow> Pipeline \<Rightarrow> pdcall list \<Rightarrow> pdcall list \<times> go_error option" where
  "setPipelineStaleAnnotation E cr tr =
     (if annotation cr PipelineDiscoveryStaleAnnotation = PipelineDiscoveryStaleAnnotationValue
      then (tr, None)
      else
        (let tr = tr @ [PdPatch cr (annotate_pipeline
               (map_put PipelineDiscoveryStaleAnnotation PipelineDiscoveryStaleAnnotationValue) cr)]
         in case pde_Patch E tr of
              Some err \<Rightarrow>
                (tr, Some (WrapError (''set stale annotation on '' @ show_pipeline cr @ '': '') err []))
            | None \<Rightarrow> (tr, None)))"

definition clearPipelineStaleAnnotation ::
    "pdenv \<Rightarrow> Pipeline \<Rightarrow> pdcall list \<Rightarrow> pdcall list \<times> go_error option" where
  "clearPipelineStaleAnnotation E cr tr =
     (if \<not> has_key (om_annotations (pl_meta cr)) PipelineDiscoveryStaleAnnotation then (tr, None)
      else
        (let tr = tr @ [PdPatch cr (annotate_pipeline (map_del PipelineDiscoveryStaleAnnotation) cr)]
         in case pde_Patch E tr of
              Some err \<Rightarrow>
                (tr, Some (WrapError (''clear stale annotation on '' @ show_pipeline cr @ '': '') err []))
            | None \<Rightarrow> (tr, None)))"

section \<open>The upsert phase\<close>

definition pd_conflict :: "string \<Rightarrow> string \<Rightarrow> string \<Rightarrow> PipelineDiscoveryConflict" where
  "pd_conflict pid name reason = \<lparr>pdcf_PipelineID = pid, pdcf_CRName = name, pdcf_Reason = reason\<rparr>"

text \<open>
  One iteration: an error, or the conflicts it adds and whether the pipeline's ID is claimed.
\<close>

definition pd_upsert_one ::
    "PipelineDiscoveryReconciler \<Rightarrow> pdenv \<Rightarrow> PipelineDiscovery \<Rightarrow> string \<Rightarrow> pipeline option \<Rightarrow> pdcall list \<Rightarrow>
       pdcall list \<times> (go_error + PipelineDiscoveryConflict list \<times> string option)" where
  "pd_upsert_one R E pd targetNS fp0 tr =
     (case fp0 of
        None \<Rightarrow> (tr, Inr ([], None))
      | Some fp \<Rightarrow>
          if trim_space (fp_Name fp) = [] then (tr, Inr ([], None))
          else
     (let crName = choosePipelineCRName (pdr_lib R) (fp_Name fp)
      in if \<not> IsValidDNS1123 crName
         then (tr, Inr ([pd_conflict (fp_Name fp) crName PipelineDiscoveryConflictSanitizeFailed], None))
         else
           (let key = \<lparr>nn_namespace = targetNS, nn_name = crName\<rparr>;
                tr = tr @ [PdGetPipeline key]
            in case pde_GetPipeline E tr of
                 Inl err \<Rightarrow>
                   if \<not> is_not_found err
                   then (tr, Inl (WrapError (''get pipeline '' @ show_nsname key @ '': '') err []))
                   else
                     (let tr = tr @ [PdCreate (imported_pipeline pd targetNS crName fp)]
                      in case pde_Create E tr of
                           Some createErr \<Rightarrow>
                             if is_already_exists createErr then (tr, Inr ([], Some (fp_ID fp)))
                             else (tr, Inl (WrapError (''create pipeline '' @ show_nsname key @ '': '') createErr []))
                         | None \<Rightarrow>
                             (pd_emitEvent R EventNormal pipelineDiscoveryEventReasonDiscovered tr,
                              Inr ([], Some (fp_ID fp))))
               | Inr existing \<Rightarrow>
                   if \<not> has_key (om_labels (pl_meta existing)) PipelineDiscoveryNameLabel
                   then (tr, Inr ([pd_conflict (fp_Name fp) crName PipelineDiscoveryConflictNotOwned], None))
                   else if \<not> pipelineIsOwnedByDiscovery existing pd
                   then (tr, Inr ([pd_conflict (fp_Name fp) crName PipelineDiscoveryConflictOwnedByOther], None))
                   else if annotation existing FleetPipelineIDAnnotation \<noteq> fp_ID fp
                   then (tr, Inr ([pd_conflict (fp_Name fp) crName PipelineDiscoveryConflictSanitizeFailed], None))
                   else
                     (case clearPipelineStaleAnnotation E existing tr of
                        (tr, Some err) \<Rightarrow> (tr, Inl err)
                      | (tr, None) \<Rightarrow> (tr, Inr ([], Some (fp_ID fp)))))))"

fun pd_upsert_loop ::
    "PipelineDiscoveryReconciler \<Rightarrow> pdenv \<Rightarrow> PipelineDiscovery \<Rightarrow> string \<Rightarrow> pipeline option list \<Rightarrow>
       PipelineDiscoveryConflict list \<Rightarrow> string list \<Rightarrow> pdcall list \<Rightarrow>
       pdcall list \<times> (go_error + PipelineDiscoveryConflict list \<times> string list)" where
  "pd_upsert_loop R E pd targetNS [] conflicts currentNames tr = (tr, Inr (conflicts, currentNames))"
| "pd_upsert_loop R E pd targetNS (fp # fps) conflicts currentNames tr =
     (case pd_upsert_one R E pd targetNS fp tr of
        (tr, Inl err) \<Rightarrow> (tr, Inl err)
      | (tr, Inr (cf, claimed_id)) \<Rightarrow>
          pd_upsert_loop R E pd targetNS fps (conflicts @ cf)
            (case claimed_id of None \<Rightarrow> currentNames | Some i \<Rightarrow> List.insert i currentNames) tr)"

definition upsertPipelineCRs ::
    "PipelineDiscoveryReconciler \<Rightarrow> pdenv \<Rightarrow> PipelineDiscovery \<Rightarrow> pipeline option list \<Rightarrow> string \<Rightarrow>
       pdcall list \<Rightarrow> pdcall list \<times> (go_error + PipelineDiscoveryConflict list \<times> string list)" where
  "upsertPipelineCRs R E pd pipelines targetNS tr =
     (case pd_upsert_loop R E pd targetNS pipelines [] [] tr of
        (tr, Inl err) \<Rightarrow> (tr, Inl err)
      | (tr, Inr (conflicts, currentNames)) \<Rightarrow>
          (tr, Inr (sort_key pdcf_PipelineID conflicts, currentNames)))"

section \<open>The stale phase\<close>

fun pd_stale_loop ::
    "PipelineDiscoveryReconciler \<Rightarrow> pdenv \<Rightarrow> PipelineDiscovery \<Rightarrow> string list \<Rightarrow> string \<Rightarrow> Pipeline list \<Rightarrow>
       string list \<Rightarrow> int \<Rightarrow> pdcall list \<Rightarrow> pdcall list \<times> (go_error + string list \<times> int)" where
  "pd_stale_loop R E pd currentNames onRemoved [] staleNames managed tr = (tr, Inr (staleNames, managed))"
| "pd_stale_loop R E pd currentNames onRemoved (cr # crs) staleNames managed tr =
     (if \<not> pipelineIsOwnedByDiscovery cr pd
      then pd_stale_loop R E pd currentNames onRemoved crs staleNames managed tr
      else
        (let managed = managed + 1;
             fleetID = annotation cr FleetPipelineIDAnnotation
         in if fleetID \<in> set currentNames then
              (case clearPipelineStaleAnnotation E cr tr of
                 (tr, Some err) \<Rightarrow> (tr, Inl err)
               | (tr, None) \<Rightarrow> pd_stale_loop R E pd currentNames onRemoved crs staleNames managed tr)
            else if onRemoved = PipelineDiscoveryOnRemovedDelete then
              (let tr = tr @ [PdDelete cr]
               in if (case pde_Delete E tr of None \<Rightarrow> False | Some err \<Rightarrow> \<not> is_not_found err)
                  then (tr, Inl (WrapError (''delete stale pipeline '' @ show_pipeline cr @ '': '')
                         (the (pde_Delete E tr)) []))
                  else pd_stale_loop R E pd currentNames onRemoved crs staleNames (managed - 1)
                         (pd_emitEvent R EventNormal pipelineDiscoveryEventReasonPruned tr))
            else
              (let staleNames = staleNames @ [pspec_Name (pl_spec cr)]
               in case setPipelineStaleAnnotation E cr tr of
                    (tr, Some err) \<Rightarrow> (tr, Inl err)
                  | (tr, None) \<Rightarrow> pd_stale_loop R E pd currentNames onRemoved crs staleNames managed tr)))"

definition processStaleP ::
    "PipelineDiscoveryReconciler \<Rightarrow> pdenv \<Rightarrow> PipelineDiscovery \<Rightarrow> string list \<Rightarrow> string \<Rightarrow> pdcall list \<Rightarrow>
       pdcall list \<times> (go_error + string list \<times> int)" where
  "processStaleP R E pd currentNames targetNS tr =
     (let tr = tr @ [PdList targetNS (om_name (pd_meta pd))]
      in case pde_List E tr of
           Inl err \<Rightarrow> (tr, Inl (WrapError (''list managed pipelines in '' @ targetNS @ '': '') err []))
         | Inr items \<Rightarrow>
             (let p = pdspec_OnPipelineRemoved (pd_spec pd);
                  onRemoved = (if p = [] then PipelineDiscoveryOnRemovedKeep else p)
              in case pd_stale_loop R E pd currentNames onRemoved items [] 0 tr of
                   (tr, Inl err) \<Rightarrow> (tr, Inl err)
                 | (tr, Inr (staleNames, managed)) \<Rightarrow> (tr, Inr (sort staleNames, managed))))"

section \<open>Status\<close>

definition pd_success_status ::
    "klib \<Rightarrow> PipelineDiscovery \<Rightarrow> nat \<Rightarrow> int \<Rightarrow> string list \<Rightarrow> PipelineDiscoveryConflict list \<Rightarrow> int \<Rightarrow>
       PipelineDiscoveryStatus" where
  "pd_success_status K pd observed managed stale conflicts now =
     (let gen = om_generation (pd_meta pd);
          conds = pdst_Conditions (pd_status pd);
          conds = (if length conflicts > maxPipelineDiscoveryConflicts then
                     SetStatusCondition K conds
                       \<lparr>cnd_type = pipelineDiscoveryConditionTruncatedConflicts, cnd_status = CTrue,
                        cnd_reason = pipelineDiscoveryReasonConflictsTruncated,
                        cnd_message = ''conflicts list truncated to 100 entries; check events for the full list'',
                        cnd_gen = gen\<rparr>
                   else
                     SetStatusCondition K conds
                       \<lparr>cnd_type = pipelineDiscoveryConditionTruncatedConflicts, cnd_status = CFalse,
                        cnd_reason = pipelineDiscoveryReasonNoConflictsTruncated, cnd_message = [],
                        cnd_gen = gen\<rparr>);
          message = ''Observed '' @ show_nat observed @ '', managed '' @ show_int managed @ '', stale '' @
                      show_nat (length stale) @ '', conflicts '' @ show_nat (length conflicts)
      in \<lparr>pdst_ObservedGeneration = gen, pdst_LastSyncTime = Some now, pdst_LastSuccessTime = Some now,
          pdst_PipelinesObserved = int32_of observed, pdst_PipelinesManaged = int32_of (nat managed),
          pdst_StalePipelines = stale, pdst_Conflicts = take maxPipelineDiscoveryConflicts conflicts,
          pdst_Conditions =
            setSyncedCondition K
              (setReadyCondition K conds gen True pipelineDiscoveryReasonSynced message)
              gen True pipelineDiscoveryReasonSynced message\<rparr>)"

definition pd_updateStatusSuccess ::
    "PipelineDiscoveryReconciler \<Rightarrow> pdenv \<Rightarrow> PipelineDiscovery \<Rightarrow> nat \<Rightarrow> int \<Rightarrow> string list \<Rightarrow>
       PipelineDiscoveryConflict list \<Rightarrow> int \<Rightarrow> pdcall list \<Rightarrow> pdcall list \<times> (go_error + bool)" where
  "pd_updateStatusSuccess R E pd observed managed stale conflicts now tr =
     (let tr = (if length conflicts > maxPipelineDiscoveryConflicts
                then pd_emitEvent R EventWarning ''TruncatedConflicts'' tr else tr);
          tr = tr @ [PdStatusUpdate (pd\<lparr>pd_status :=
                 pd_success_status (pdr_klib R) pd observed managed stale conflicts now\<rparr>)]
      in case pde_StatusUpdate E tr of
           Some err \<Rightarrow> if is_conflict err then (tr, Inr False) else (tr, Inl (WrapError ''update status: '' err []))
         | None \<Rightarrow> (tr, Inr True))"

definition pd_error_status :: "klib \<Rightarrow> PipelineDiscovery \<Rightarrow> string \<Rightarrow> go_error \<Rightarrow> int \<Rightarrow> PipelineDiscoveryStatus" where
  "pd_error_status K pd reason originalErr now =
     (let gen = om_generation (pd_meta pd);
          message = reason @ '': '' @ err_text originalErr
      in (pd_status pd)\<lparr>pdst_LastSyncTime := Some now, pdst_ObservedGeneration := gen,
           pdst_Conditions :=
             setSyncedCondition K
               (setReadyCondition K (pdst_Conditions (pd_status pd)) gen False reason message)
               gen False reason message\<rparr>)"

definition pd_updateStatusError ::
    "PipelineDiscoveryReconciler \<Rightarrow> pdenv \<Rightarrow> PipelineDiscovery \<Rightarrow> string \<Rightarrow> go_error \<Rightarrow> pdcall list \<Rightarrow>
       pdcall list \<times> ctrl_result \<times> go_error option" where
  "pd_updateStatusError R E pd reason originalErr tr =
     (let tr = tr @ [PdNow];
          now = pde_Now E tr;
          tr = tr @ [PdStatusUpdate (pd\<lparr>pd_status := pd_error_status (pdr_klib R) pd reason originalErr now\<rparr>)]
      in if (case pde_StatusUpdate E tr of None \<Rightarrow> False | Some e \<Rightarrow> is_conflict e)
         then (tr, requeue_now, None)
         else (tr, done_result, Some originalErr))"

section \<open>Reconcile\<close>

definition pd_target_namespace :: "PipelineDiscovery \<Rightarrow> string" where
  "pd_target_namespace pd =
     (let targetNS = trim_space (pdspec_TargetNamespace (pd_spec pd))
      in if targetNS = [] then om_namespace (pd_meta pd) else targetNS)"

text \<open>
  What the three failing phases do alike.  The reconciler counts no outcomes: the outcome
  component stays empty.
\<close>

definition pd_phase_failed ::
    "PipelineDiscoveryReconciler \<Rightarrow> pdenv \<Rightarrow> PipelineDiscovery \<Rightarrow> string \<Rightarrow> go_error \<Rightarrow> pdcall list \<Rightarrow> pdcall rres" where
  "pd_phase_failed R E pd reason err tr =
     (case pd_updateStatusError R E pd reason err
             (pd_emitEvent R EventWarning pipelineDiscoveryEventReasonFailed tr) of
        (tr, _, Some statusErr) \<Rightarrow> ret tr done_result (Some statusErr) []
      | (tr, _, None) \<Rightarrow> ret tr done_result (Some err) [])"

definition pd_schedule_skips :: "PipelineDiscovery \<Rightarrow> int \<Rightarrow> int \<Rightarrow> int option" where
  "pd_schedule_skips pd pollInterval now =
     (case pdst_LastSyncTime (pd_status pd) of
        None \<Rightarrow> None
      | Some t0 \<Rightarrow>
          if pdst_ObservedGeneration (pd_status pd) = om_generation (pd_meta pd) \<and> now < t0 + pollInterval
          then Some (t0 + pollInterval - now) else None)"

definition pd_poll ::
    "PipelineDiscoveryReconciler \<Rightarrow> pdenv \<Rightarrow> PipelineDiscovery \<Rightarrow> int \<Rightarrow> int \<Rightarrow> pdcall list \<Rightarrow> pdcall rres" where
  "pd_poll R E pd pollInterval now tr =
     (let targetNS = pd_target_namespace pd;
          tr = tr @ [PdListPipelines (buildListRequest pd)]
      in case pde_ListPipelines E tr of
           Inl err \<Rightarrow> pd_phase_failed R E pd pipelineDiscoveryReasonListFailed err tr
         | Inr pipelines \<Rightarrow>
             (case upsertPipelineCRs R E pd pipelines targetNS tr of
                (tr, Inl err) \<Rightarrow> pd_phase_failed R E pd pipelineDiscoveryReasonUpsertFailed err tr
              | (tr, Inr (conflicts, currentNames)) \<Rightarrow>
                  (case processStaleP R E pd currentNames targetNS tr of
                     (tr, Inl err) \<Rightarrow> pd_phase_failed R E pd pipelineDiscoveryReasonStaleFailed err tr
                   | (tr, Inr (stale, managed)) \<Rightarrow>
                       (let tr = fold (\<lambda>_ tr. pd_emitEvent R EventWarning pipelineDiscoveryEventReasonConflict tr)
                                   conflicts tr
                        in case pd_updateStatusSuccess R E pd (length pipelines) managed stale conflicts now tr of
                             (tr, Inl err) \<Rightarrow> ret tr done_result (Some err) []
                           | (tr, Inr updated) \<Rightarrow>
                               ret (if updated
                                    then pd_emitEvent R EventNormal pipelineDiscoveryEventReasonSynced tr else tr)
                                 (requeue_after pollInterval) None []))))"

definition pd_Reconcile ::
    "PipelineDiscoveryReconciler \<Rightarrow> pdenv \<Rightarrow> nsname \<Rightarrow> pdcall rres" where
  "pd_Reconcile R E req =
     (let tr = [PdGet req]
      in case pde_Get E tr of
           Inl err \<Rightarrow>
             if is_not_found err then ret tr done_result None [] else ret tr done_result (Some err) []
         | Inr pd \<Rightarrow>
             if om_deleting (pd_meta pd) then ret tr done_result None []
             else
               (case pd_parsePollInterval (pdr_lib R) pd of
                  Inl err \<Rightarrow>
                    (case pd_updateStatusError R E pd pipelineDiscoveryReasonInvalidConfig err
                            (pd_emitEvent R EventWarning pipelineDiscoveryEventReasonFailed tr) of
                       (tr, result, Some updateErr) \<Rightarrow> ret tr done_result (Some updateErr) []
                     | (tr, result, None) \<Rightarrow> ret tr result (Some err) [])
                | Inr pollInterval \<Rightarrow>
                    (let tr = tr @ [PdNow];
                         now = pde_Now E tr
                     in case pd_schedule_skips pd pollInterval now of
                          Some wait \<Rightarrow> ret tr (requeue_after wait) None []
                        | None \<Rightarrow> pd_poll R E pd pollInterval now tr)))"

section \<open>Every write stays within the discovery\<close>

text \<open>
  What the reconcile of \<open>pd\<close> may do: create the resource of a pipeline Fleet Management
  listed, in the target namespace under the name chosen for it; patch the stale annotation of a
  resource it owns; delete a resource it owns, under the policy Delete; write its own status.
\<close>

definition fleet_lists :: "pdenv \<Rightarrow> pipeline \<Rightarrow> bool" where
  "fleet_lists E fp \<longleftrightarrow> (\<exists>tr fps. pde_ListPipelines E tr = Inr fps \<and> Some fp \<in> set fps)"

fun pd_call_ok :: "dlib \<Rightarrow> pdenv \<Rightarrow> PipelineDiscovery \<Rightarrow> pdcall \<Rightarrow> bool" where
  "pd_call_ok L E pd (PdCreate cr) \<longleftrightarrow>
     (\<exists>fp. fleet_lists E fp \<and> trim_space (fp_Name fp) \<noteq> [] \<and>
        IsValidDNS1123 (choosePipelineCRName L (fp_Name fp)) \<and>
        cr = imported_pipeline pd (pd_target_namespace pd) (choosePipelineCRName L (fp_Name fp)) fp)"
| "pd_call_ok L E pd (PdPatch cr new) \<longleftrightarrow>
     pipelineIsOwnedByDiscovery cr pd \<and>
     (new = annotate_pipeline (map_del PipelineDiscoveryStaleAnnotation) cr \<or>
      new = annotate_pipeline
              (map_put PipelineDiscoveryStaleAnnotation PipelineDiscoveryStaleAnnotationValue) cr)"
| "pd_call_ok L E pd (PdDelete cr) \<longleftrightarrow>
     pipelineIsOwnedByDiscovery cr pd \<and> pdspec_OnPipelineRemoved (pd_spec pd) = PipelineDiscoveryOnRemovedDelete"
| "pd_call_ok L E pd (PdStatusUpdate c) \<longleftrightarrow>
     pd_meta c = pd_meta pd \<and> pd_spec c = pd_spec pd \<and>
     pdst_ObservedGeneration (pd_status c) = om_generation (pd_meta pd)"
| "pd_call_ok L E pd call \<longleftrightarrow> True"

lemma pd_emitEvent_extends [trace_intros]:
  "extends Q tr tr0 \<Longrightarrow> Q (PdEvent t r) \<Longrightarrow> extends Q tr (pd_emitEvent R t r tr0)"
  by (auto simp: pd_emitEvent_def intro!: trace_intros)

lemma pd_setStale_extends:
  "extends (pd_call_ok L E' pd) tr tr0 \<Longrightarrow> pipelineIsOwnedByDiscovery cr pd \<Longrightarrow>
     setPipelineStaleAnnotation E cr tr0 = (tr', e) \<Longrightarrow> extends (pd_call_ok L E' pd) tr tr'"
  by (auto simp: setPipelineStaleAnnotation_def Let_def split: option.splits if_splits intro!: trace_intros)

lemma pd_clearStale_extends:
  "extends (pd_call_ok L E' pd) tr tr0 \<Longrightarrow> pipelineIsOwnedByDiscovery cr pd \<Longrightarrow>
     clearPipelineStaleAnnotation E cr tr0 = (tr', e) \<Longrightarrow> extends (pd_call_ok L E' pd) tr tr'"
  by (auto simp: clearPipelineStaleAnnotation_def Let_def split: option.splits if_splits intro!: trace_intros)

lemma pd_upsert_one_extends:
  assumes "\<And>fp. fp0 = Some fp \<Longrightarrow> fleet_lists E fp"
    and "pd_upsert_one R E pd (pd_target_namespace pd) fp0 tr0 = (tr', r)"
    and "extends (pd_call_ok (pdr_lib R) E pd) tr tr0"
  shows "extends (pd_call_ok (pdr_lib R) E pd) tr tr'"
proof (cases fp0)
  case (Some fp)
  have create: "pd_call_ok (pdr_lib R) E pd (PdCreate (imported_pipeline pd (pd_target_namespace pd)
      (choosePipelineCRName (pdr_lib R) (fp_Name fp)) fp))"
    if "trim_space (fp_Name fp) \<noteq> []" "IsValidDNS1123 (choosePipelineCRName (pdr_lib R) (fp_Name fp))"
    using that assms(1) [OF Some] by auto
  show ?thesis
    using assms(2,3) Some create
    by (auto simp: pd_upsert_one_def Let_def simp del: pd_call_ok.simps(1)
        split: sum.splits option.splits prod.splits if_splits
        intro!: trace_intros elim!: pd_clearStale_extends [rotated 2])
qed (use assms in \<open>auto simp: pd_upsert_one_def\<close>)

lemma pd_upsert_loop_extends:
  "pd_upsert_loop R E pd (pd_target_namespace pd) fps conflicts ids tr0 = (tr', r) \<Longrightarrow>
     (\<And>fp. Some fp \<in> set fps \<Longrightarrow> fleet_lists E fp) \<Longrightarrow>
     extends (pd_call_ok (pdr_lib R) E pd) tr tr0 \<Longrightarrow> extends (pd_call_ok (pdr_lib R) E pd) tr tr'"
  by (induction R E pd "pd_target_namespace pd" fps conflicts ids tr0 rule: pd_upsert_loop.induct)
     (auto split: prod.splits sum.splits dest: pd_upsert_one_extends [rotated])

lemma pd_stale_loop_extends:
  "pd_stale_loop R E pd ids q crs stale managed tr0 = (tr', r) \<Longrightarrow>
     q = PipelineDiscoveryOnRemovedDelete \<longrightarrow>
       pdspec_OnPipelineRemoved (pd_spec pd) = PipelineDiscoveryOnRemovedDelete \<Longrightarrow>
     extends (pd_call_ok L E' pd) tr tr0 \<Longrightarrow> extends (pd_call_ok L E' pd) tr tr'"
proof (induction crs arbitrary: q stale managed tr0)
  case (Cons cr crs)
  show ?case
    using Cons.prems
    by (auto simp: Let_def split: if_splits prod.splits option.splits
        elim!: Cons.IH intro!: trace_intros
        elim: pd_clearStale_extends [rotated 2] pd_setStale_extends [rotated 2])
qed simp

lemma processStaleP_extends:
  "processStaleP R E pd ids ns tr0 = (tr', r) \<Longrightarrow> extends (pd_call_ok L E' pd) tr tr0 \<Longrightarrow>
     extends (pd_call_ok L E' pd) tr tr'"
  by (auto simp: processStaleP_def Let_def split: sum.splits prod.splits
      intro!: trace_intros elim!: pd_stale_loop_extends) (auto split: if_splits)

lemma pd_updateStatusSuccess_extends:
  "pd_updateStatusSuccess R E pd observed managed stale conflicts now tr0 = (tr', r) \<Longrightarrow>
     extends (pd_call_ok L E' pd) tr tr0 \<Longrightarrow> extends (pd_call_ok L E' pd) tr tr'"
  by (auto simp: pd_updateStatusSuccess_def pd_success_status_def Let_def split: option.splits if_splits
      intro!: trace_intros)

lemma pd_updateStatusError_extends:
  "pd_updateStatusError R E pd reason err tr0 = (tr', x) \<Longrightarrow>
     extends (pd_call_ok L E' pd) tr tr0 \<Longrightarrow> extends (pd_call_ok L E' pd) tr tr'"
  by (auto simp: pd_updateStatusError_def pd_error_status_def Let_def split: if_splits
      intro!: trace_intros)

lemma pd_phase_failed_extends:
  "extends (pd_call_ok L E' pd) tr tr0 \<Longrightarrow>
     extends (pd_call_ok L E' pd) tr (rr_trace (pd_phase_failed R E pd reason err tr0))"
  by (auto simp: pd_phase_failed_def split: prod.splits option.splits
      elim!: pd_updateStatusError_extends intro!: trace_intros)

lemma pd_conflict_events_extends:
  "extends Q tr tr0 \<Longrightarrow> (\<And>t r. Q (PdEvent t r)) \<Longrightarrow>
     extends Q tr (fold (\<lambda>_ tr. pd_emitEvent R t r tr) conflicts tr0)"
  by (induction conflicts arbitrary: tr0) (simp_all add: pd_emitEvent_extends)

lemma pd_poll_extends:
  assumes "extends (pd_call_ok (pdr_lib R) E pd) tr tr0"
  shows "extends (pd_call_ok (pdr_lib R) E pd) tr (rr_trace (pd_poll R E pd interval now tr0))"
proof -
  have up: "extends (pd_call_ok (pdr_lib R) E pd) tr tr1"
    if "upsertPipelineCRs R E pd fps (pd_target_namespace pd) (tr0 @ [PdListPipelines m]) = (tr1, x)"
      and "pde_ListPipelines E (tr0 @ [PdListPipelines m]) = Inr fps" for fps m tr1 x
  proof -
    have "fleet_lists E fp" if "Some fp \<in> set fps" for fp
      using that \<open>pde_ListPipelines E _ = Inr fps\<close> by (auto simp: fleet_lists_def)
    then show ?thesis
      using that(1) assms by (auto simp: upsertPipelineCRs_def split: prod.splits sum.splits
          elim!: pd_upsert_loop_extends intro!: trace_intros)
  qed
  show ?thesis
    unfolding pd_poll_def Let_def using assms
    by (auto split: sum.splits prod.splits intro!: trace_intros pd_phase_failed_extends
        intro: up pd_conflict_events_extends elim!: processStaleP_extends pd_updateStatusSuccess_extends)
qed

lemma pd_Reconcile_calls:
  assumes "pde_Get E [PdGet req] = Inr pd"
  shows "extends (pd_call_ok (pdr_lib R) E pd) [] (rr_trace (pd_Reconcile R E req))"
proof -
  have "extends (pd_call_ok (pdr_lib R) E pd) [] [PdGet req]"
    and "extends (pd_call_ok (pdr_lib R) E pd) [] [PdGet req, PdNow]"
    by (simp_all add: extends_def)
  with assms show ?thesis
    by (auto simp: pd_Reconcile_def Let_def split: sum.splits prod.splits option.splits
        elim!: pd_updateStatusError_extends intro!: trace_intros pd_poll_extends)
qed

text \<open>
  What an import keeps of the source that Fleet Management names for a pipeline: the resource
  has three source types, and a source of another type (Kubernetes, unspecified) is left out.
\<close>

definition known_source :: "source option \<Rightarrow> source option" where
  "known_source src =
     (case src of None \<Rightarrow> None
      | Some s \<Rightarrow> if src_Type s \<in> {sourceTypeGit, sourceTypeTerraform, sourceTypeGrafana} then Some s else None)"

lemma source_round_trip: "fleetSourceFromSpec (pipelineSourceFromFleet src) = known_source src"
  by (cases src) (auto simp: fleetSourceFromSpec_def pipelineSourceFromFleet_def known_source_def
      SourceTypeFromFleetAPI_def source_ToFleetAPI_def)

text \<open>
  C12: an import neither moves nor rewrites the Fleet pipeline, and a read-only import is never
  written back.  Every Pipeline resource that the reconcile of an admitted PipelineDiscovery
  creates mirrors a pipeline that Fleet Management listed, lies in the discovery's own
  namespace or, when the operator runs with the cross-namespace check of the webhook (off by
  default), in one where the requesting user may create pipelines, and has a valid DNS-1123
  name.  Whatever name-scope default the pipeline controller runs with, the upsert it builds
  for that resource keeps the Fleet pipeline's name, contents, matchers and enabled flag, its
  configuration type, when it is one of the two Fleet knows, and its source, when its type is
  one of the three the resource knows; a source of another type is dropped.  If the import is
  read-only, by the discovery's mode or because Grafana owns the pipeline, no reconcile of the
  resource, not even one that deletes it, writes to Fleet Management.
\<close>

theorem imports_keep_the_fleet_pipeline:
  assumes "snd (pd_ValidateCreate L reviewer user0 pd) = None" "pde_Get E [PdGet key] = Inr pd"
    and "PdCreate cr \<in> set (rr_trace (pd_Reconcile R E key))"
    and "pl_spec p = pl_spec cr" "om_annotations (pl_meta p) = om_annotations (pl_meta cr)"
  shows "\<exists>fp. fleet_lists E fp \<and> dns_label (om_name (pl_meta cr)) \<and>
           (om_namespace (pl_meta cr) = om_namespace (pd_meta pd) \<or>
            (case reviewer of
               None \<Rightarrow> True
             | Some create \<Rightarrow>
                 \<exists>user. user0 = Some user \<and> may_create create user (om_namespace (pl_meta cr)) ''pipelines'')) \<and>
           (let u = ur_Pipeline (buildUpsertRequest PR p)
            in fp_Name u = fp_Name fp \<and> fp_Contents u = fp_Contents fp \<and> fp_Matchers u = fp_Matchers fp \<and>
               fp_Enabled u = fp_Enabled fp \<and> fp_Source u = known_source (fp_Source fp) \<and>
               (fp_ConfigType fp \<in> {configTypeAlloy, configTypeOTEL} \<longrightarrow> fp_ConfigType u = fp_ConfigType fp)) \<and>
           (import_read_only pd fp \<longrightarrow>
              (\<forall>E' req. pe_Get E' [PcGet req] = Inr p \<longrightarrow>
                 \<not> list_ex is_fleet_write (rr_trace (pipeline_Reconcile PR E' req))))"
proof -
  have "pd_call_ok (pdr_lib R) E pd (PdCreate cr)"
    using pd_Reconcile_calls [OF assms(2), of R] assms(3) by (auto simp: extends_def list_all_iff)
  then obtain fp where fp: "fleet_lists E fp" "trim_space (fp_Name fp) \<noteq> []"
    and name: "IsValidDNS1123 (choosePipelineCRName (pdr_lib R) (fp_Name fp))"
    and cr: "cr = imported_pipeline pd (pd_target_namespace pd) (choosePipelineCRName (pdr_lib R) (fp_Name fp)) fp"
    by auto
  have "trim_space [] = []" by code_simp
  with fp(2) have named: "fp_Name fp \<noteq> []" by metis
  have ns: "pd_target_namespace pd = om_namespace (pd_meta pd) \<or>
      (\<exists>user. user0 = Some user \<and> may_create create user (pd_target_namespace pd) ''pipelines'')"
    if "reviewer = Some create" for create
    using assms(1) that checkCrossNamespaceCreate_allowed [of create user0]
    by (auto simp: pd_ValidateCreate_def pd_runDiscoveryAuthz_def pd_target_namespace_def Let_def
        split: prod.splits option.splits if_splits)
  have discovered: "IsDiscovered p"
    by (simp add: IsDiscovered_def assms(5) cr imported_pipeline_def Let_def has_key_def)
  then have u: "let u = ur_Pipeline (buildUpsertRequest PR p)
      in fp_Name u = fp_Name fp \<and> fp_Contents u = fp_Contents fp \<and> fp_Matchers u = fp_Matchers fp \<and>
         fp_Enabled u = fp_Enabled fp \<and> fp_Source u = known_source (fp_Source fp) \<and>
         (fp_ConfigType fp \<in> {configTypeAlloy, configTypeOTEL} \<longrightarrow> fp_ConfigType u = fp_ConfigType fp)"
    using named
    by (auto simp: buildUpsertRequest_def DesiredFleetName_def baseName_def GetEnabled_def assms(4) cr
        source_round_trip imported_pipeline_def ConfigTypeFromFleetAPI_def config_ToFleetAPI_def Let_def)
  have ro: "\<not> list_ex is_fleet_write (rr_trace (pipeline_Reconcile PR E' req))"
    if "import_read_only pd fp" "pe_Get E' [PcGet req] = Inr p" for E' req
  proof -
    have "annotation cr PipelineImportModeAnnotation = PipelineImportModeAnnotationReadOnly"
      using that(1) by (simp add: cr imported_pipeline_def Let_def get_str_def)
    then have "isReadOnly p" by (simp add: isReadOnly_def IsReadOnly_def assms(5))
    then have "extends (\<lambda>c. \<not> is_fleet_write c) [PcGet req] (rr_trace (pipeline_Reconcile PR E' req))"
      using that(2) by (intro Reconcile_extends) auto
    then show ?thesis by (auto simp: extends_def list_ex_iff list_all_iff)
  qed
  have "om_namespace (pl_meta cr) = pd_target_namespace pd" "dns_label (om_name (pl_meta cr))"
    using name by (simp_all add: cr imported_pipeline_def Let_def IsValidDNS1123_iff)
  with ns have "om_namespace (pl_meta cr) = om_namespace (pd_meta pd) \<or>
      (case reviewer of None \<Rightarrow> True
       | Some create \<Rightarrow>
           \<exists>user. user0 = Some user \<and> may_create create user (om_namespace (pl_meta cr)) ''pipelines'')"
    by (auto split: option.splits)
  with fp(1) \<open>dns_label (om_name (pl_meta cr))\<close> u ro show ?thesis by blast
qed

section \<open>A sample import\<close>

definition logs_discovery :: PipelineDiscovery where
  "logs_discovery =
     \<lparr>pd_meta = \<lparr>om_namespace = ''ops'', om_name = ''logs'', om_generation = 1, om_deleting = False,
                 om_finalizers = [], om_labels = [], om_annotations = []\<rparr>,
      pd_spec = \<lparr>pdspec_PollInterval = [], pdspec_Selector = \<lparr>pdsel_ConfigType = None, pdsel_Enabled = None\<rparr>,
                 pdspec_TargetNamespace = [], pdspec_ImportMode = PipelineDiscoveryImportModeReadOnly,
                 pdspec_OnPipelineRemoved = PipelineDiscoveryOnRemovedKeep\<rparr>,
      pd_status = \<lparr>pdst_ObservedGeneration = 0, pdst_LastSyncTime = None, pdst_LastSuccessTime = None,
                   pdst_PipelinesObserved = 0, pdst_PipelinesManaged = 0, pdst_StalePipelines = [],
                   pdst_Conflicts = [], pdst_Conditions = []\<rparr>\<rparr>"

definition logs_fleet :: pipeline where
  "logs_fleet =
     \<lparr>fp_Name = ''logs'', fp_Contents = ''x'', fp_Matchers = [], fp_Enabled = True, fp_ID = ''17'',
      fp_ConfigType = configTypeAlloy, fp_Source = None, fp_CreatedAt = None, fp_UpdatedAt = None\<rparr>"

definition logs_reconciler :: PipelineDiscoveryReconciler where
  "logs_reconciler =
     \<lparr>pdr_klib = klib_ref,
      pdr_lib = \<lparr>dl_ParseDuration = (\<lambda>t. Inl (PlainError ''duration'')), dl_show_duration = (\<lambda>_. ''d''),
                 dl_IsDNS1123Label = (\<lambda>_. []), dl_sha256 = (\<lambda>_. replicate 32 0)\<rparr>,
      pdr_hasRecorder = True\<rparr>"

definition logs_world :: pdenv where
  "logs_world =
     \<lparr>pde_Get = \<lambda>_. Inr logs_discovery, pde_Now = \<lambda>_. 7 * second,
      pde_ListPipelines = \<lambda>_. Inr [None, Some logs_fleet],
      pde_GetPipeline = \<lambda>_. Inl (KubeError ReasonNotFound ''gone''), pde_Create = \<lambda>_. None,
      pde_List = \<lambda>_. Inr [], pde_Patch = \<lambda>_. None, pde_Delete = \<lambda>_. None, pde_StatusUpdate = \<lambda>_. None\<rparr>"

definition logs_import :: Pipeline where
  "logs_import = imported_pipeline logs_discovery ''ops'' ''logs'' logs_fleet"

theorem imports_keep_the_fleet_pipeline_witness:
  "\<not> list_ex is_fleet_write (rr_trace (pipeline_Reconcile (sample_reconciler NameScopeNamespace)
       (sample_env logs_import) sample_req)) \<and>
   fp_Name (ur_Pipeline (buildUpsertRequest (sample_reconciler NameScopeNamespace) logs_import)) = ''logs''"
proof -
  let ?key = "\<lparr>nn_namespace = ''ops'', nn_name = ''logs''\<rparr>"
  have a: "snd (pd_ValidateCreate (pdr_lib logs_reconciler) (Some (\<lambda>_. Inr None)) None logs_discovery) = None"
    by code_simp
  have g: "pde_Get logs_world [PdGet ?key] = Inr logs_discovery" by (simp add: logs_world_def)
  have c: "PdCreate logs_import \<in> set (rr_trace (pd_Reconcile logs_reconciler logs_world ?key))"
    by code_simp
  obtain fp where fp: "fleet_lists logs_world fp"
    and u: "fp_Name (ur_Pipeline (buildUpsertRequest (sample_reconciler NameScopeNamespace) logs_import)) = fp_Name fp"
    and ro: "import_read_only logs_discovery fp \<longrightarrow>
        (\<forall>E' req. pe_Get E' [PcGet req] = Inr logs_import \<longrightarrow>
           \<not> list_ex is_fleet_write (rr_trace (pipeline_Reconcile (sample_reconciler NameScopeNamespace) E' req)))"
    using imports_keep_the_fleet_pipeline
      [OF a g c refl refl, where PR = "sample_reconciler NameScopeNamespace"] by (auto simp: Let_def)
  have "fp = logs_fleet" using fp by (auto simp: fleet_lists_def logs_world_def)
  moreover have "import_read_only logs_discovery logs_fleet"
    by (simp add: import_read_only_def logs_discovery_def)
  moreover have "pe_Get (sample_env logs_import) [PcGet sample_req] = Inr logs_import"
    by (simp add: sample_env_def)
  moreover have "fp_Name logs_fleet = ''logs''" by (simp add: logs_fleet_def)
  ultimately show ?thesis using u ro by metis
qed

end
