(* ===== verification/Discovery_Admission.thy ===== *)
theory Discovery_Admission
  imports Collector_Discovery Pipeline_Discovery Pipeline_Webhook
begin

text \<open>
  Composition: the resources the discoveries create meet the admission webhooks of their kinds.
  Mirrored collectors are always admitted; an imported pipeline need not be, and one that is
  rejected holds up the whole discovery.
\<close>

section \<open>Mirrored collectors are well-formed\<close>

text \<open>
  C26: every Collector resource the discovery creates satisfies the checks of the Collector
  webhook, and no patch it makes can turn an admissible resource into an inadmissible one: the
  webhook's verdict on the patched resource is its verdict on the old spec.
\<close>

theorem discovered_collectors_admissible:
  assumes "de_Get E [DcGet req] = Inr cd" "call \<in> set (rr_trace (cd_Reconcile R E req))"
  shows "case call of
           DcCreate cr \<Rightarrow> snd (collector_ValidateCreate cr) = None
         | DcPatch cr new \<Rightarrow> collector_ValidateUpdate (Some cr) new = validateCollector cr
         | _ \<Rightarrow> True"
proof -
  have ok: "cd_call_ok (cdr_lib R) cd call"
    using cd_Reconcile_calls [OF assms(1), of R] assms(2) by (auto simp: extends_def list_all_iff)
  have patch: "validateCollector (annotate f cr) = validateCollector cr" for f cr
    by (simp add: validateCollector_def validateID_def validateRemoteAttributes_def
        cong: option.case_cong if_cong)
  have create: "snd (validateCollector (discovered_collector cd ns name cid)) = None"
    if "trim_space cid \<noteq> []" for ns name cid
    using that by (simp add: validateCollector_def validateID_def validateRemoteAttributes_def
        discovered_collector_def)
  show ?thesis
  proof (cases call)
    case (DcCreate cr)
    then obtain ns name cid where "cr = discovered_collector cd ns name cid" "trim_space cid \<noteq> []"
      using ok by auto
    then show ?thesis using DcCreate create by (simp add: collector_ValidateCreate_def)
  next
    case (DcPatch cr new)
    then have "cspec_ID (cl_spec new) = cspec_ID (cl_spec cr)" "validateCollector new = validateCollector cr"
      using ok patch by auto
    then show ?thesis using DcPatch by (simp add: collector_ValidateUpdate_def)
  qed auto
qed

theorem discovered_collectors_admissible_witness:
  "snd (validateCollector (discovered_collector edge_discovery ''mirror'' ''edge-1'' ''edge-1'')) = None"
proof -
  let ?c = "DcCreate (discovered_collector edge_discovery ''mirror'' ''edge-1'' ''edge-1'')"
  have g: "de_Get (edge_env edge_discovery None) [DcGet edge_key] = Inr edge_discovery"
    by (simp add: edge_env_def)
  have c: "?c \<in> set (rr_trace (cd_Reconcile edge_reconciler (edge_env edge_discovery None) edge_key))"
    by code_simp
  show ?thesis using discovered_collectors_admissible [OF g c] by (simp add: collector_ValidateCreate_def)
qed

section \<open>Imported pipelines need not be\<close>

text \<open>Fleet Management names may contain spaces; names of Pipeline resources may not.\<close>

lemma spaced_name_rejected:
  assumes "CHR '' '' \<in> set (pspec_Name (pl_spec r))"
  shows "snd (snd (pipeline_ValidateCreate Y v t r)) \<noteq> None"
proof -
  have "validateName_loop s \<noteq> None" if "CHR '' '' \<in> set s" for s
    using that by (induction s rule: validateName_loop.induct) (auto simp: name_space_def)
  then have "validateName r \<noteq> None"
    using assms by (auto simp: validateName_def Let_def)
  then show ?thesis by (auto simp: pipeline_ValidateCreate_def validatePipeline_def)
qed

lemma spaced_name_has_label:
  assumes "CHR '' '' \<in> set name" "\<And>s. length (dl_sha256 L s) = 32"
  shows "IsValidDNS1123 (choosePipelineCRName L name)"
proof (cases "snd (SanitizedName name)")
  case True
  then show ?thesis
    using HashedName_label [of "dl_sha256 L" name] assms(2) [of name]
    by (simp add: choosePipelineCRName_def IsValidDNS1123_iff case_prod_beta Let_def)
next
  case False
  then have "fst (SanitizedName name) = name" using sanitize_lossy_flag [of name] by simp
  moreover have "name \<noteq> []" using assms(1) by auto
  ultimately have "dns_label name" using SanitizedName_label [of name] by simp
  then have False using assms(1) by (auto simp: dns_label_def label_char_def is_lower_def is_digit_def)
  then show ?thesis ..
qed

lemma pd_upsert_loop_append:
  "pd_upsert_loop R E pd ns (xs @ ys) conflicts ids tr =
     (case pd_upsert_loop R E pd ns xs conflicts ids tr of
        (tr, Inl err) \<Rightarrow> (tr, Inl err)
      | (tr, Inr (conflicts, ids)) \<Rightarrow> pd_upsert_loop R E pd ns ys conflicts ids tr)"
  by (induction xs arbitrary: conflicts ids tr) (simp_all split: prod.splits sum.splits)

text \<open>The calls of a poll that never reached the stale phase nor the pipelines after \<open>fps\<close>.\<close>

fun held_up :: "dlib \<Rightarrow> PipelineDiscovery \<Rightarrow> pipeline option list \<Rightarrow> pdcall \<Rightarrow> bool" where
  "held_up L pd fps (PdCreate cr) \<longleftrightarrow>
     (\<exists>fp. Some fp \<in> set fps \<and>
        cr = imported_pipeline pd (pd_target_namespace pd) (choosePipelineCRName L (fp_Name fp)) fp)"
| "held_up L pd fps (PdList ns name) \<longleftrightarrow> False"
| "held_up L pd fps (PdDelete cr) \<longleftrightarrow> False"
| "held_up L pd fps call \<longleftrightarrow> True"

lemma upsert_one_held_up:
  assumes "pd_upsert_one R E pd (pd_target_namespace pd) fp0 tr0 = (tr', r)" "fp0 \<in> set fps"
    and "extends (held_up (pdr_lib R) pd fps) tr tr0"
  shows "extends (held_up (pdr_lib R) pd fps) tr tr'"
proof (cases fp0)
  case (Some fp)
  have "held_up (pdr_lib R) pd fps (PdCreate (imported_pipeline pd (pd_target_namespace pd)
      (choosePipelineCRName (pdr_lib R) (fp_Name fp)) fp))"
    using assms(2) Some by auto
  then show ?thesis
    using assms(1,3) Some
    by (auto simp: pd_upsert_one_def clearPipelineStaleAnnotation_def Let_def simp del: held_up.simps(1)
        split: sum.splits option.splits prod.splits if_splits intro!: trace_intros)
qed (use assms in \<open>auto simp: pd_upsert_one_def\<close>)

lemma upsert_loop_held_up:
  "pd_upsert_loop R E pd (pd_target_namespace pd) xs conflicts ids tr0 = (tr', r) \<Longrightarrow> set xs \<subseteq> set fps \<Longrightarrow>
     extends (held_up (pdr_lib R) pd fps) tr tr0 \<Longrightarrow> extends (held_up (pdr_lib R) pd fps) tr tr'"
  by (induction R E pd "pd_target_namespace pd" xs conflicts ids tr0 rule: pd_upsert_loop.induct)
     (auto split: prod.splits sum.splits dest: upsert_one_held_up)

text \<open>
  C35: a Fleet pipeline that the Pipeline webhook rejects holds up the whole discovery.  When
  Fleet Management lists a pipeline whose name contains a space, which no Pipeline resource may
  carry, every poll that is due ends in an error at that pipeline: no pipeline listed after it
  is imported, and the stale phase, which would mark or delete resources of vanished
  pipelines, does not run, as long as the pipeline exists.  (An unusable resource name, in
  contrast, is reported as a conflict and passed over.)
\<close>

theorem rejected_import_holds_up_discovery:
  assumes get: "pde_Get E [PdGet req] = Inr pd" "\<not> om_deleting (pd_meta pd)"
    and due: "pd_parsePollInterval (pdr_lib R) pd = Inr poll"
      "pd_schedule_skips pd poll (pde_Now E [PdGet req, PdNow]) = None"
    and sha: "\<And>s. length (dl_sha256 (pdr_lib R) s) = 32"
    and fleet: "\<And>tr. pde_ListPipelines E tr = Inr (pre @ Some fp # post)"
    and spaced: "CHR '' '' \<in> set (fp_Name fp)" "trim_space (fp_Name fp) \<noteq> []"
    and new: "\<And>tr. \<exists>err. is_not_found err \<and> pde_GetPipeline E (tr @ [PdGetPipeline
      \<lparr>nn_namespace = pd_target_namespace pd, nn_name = choosePipelineCRName (pdr_lib R) (fp_Name fp)\<rparr>]) = Inl err"
    and webhook: "\<And>tr cr. snd (snd (pipeline_ValidateCreate Y v t cr)) \<noteq> None \<Longrightarrow>
      \<exists>err. pde_Create E (tr @ [PdCreate cr]) = Some err \<and> \<not> is_already_exists err"
  shows "rr_err (pd_Reconcile R E req) \<noteq> None \<and>
         list_all (held_up (pdr_lib R) pd (pre @ [Some fp])) (rr_trace (pd_Reconcile R E req))"
proof -
  let ?Q = "held_up (pdr_lib R) pd (pre @ [Some fp])" and ?ns = "pd_target_namespace pd"
  let ?name = "choosePipelineCRName (pdr_lib R) (fp_Name fp)"
  let ?tr = "[PdGet req, PdNow, PdListPipelines (buildListRequest pd)]"
  have valid: "IsValidDNS1123 ?name" using spaced_name_has_label spaced(1) sha by blast
  have rejected: "snd (snd (pipeline_ValidateCreate Y v t (imported_pipeline pd ?ns ?name fp))) \<noteq> None"
    by (rule spaced_name_rejected) (simp add: imported_pipeline_def Let_def spaced)
  have one: "\<exists>tr' err. pd_upsert_one R E pd ?ns (Some fp) tr = (tr', Inl err)" for tr
  proof -
    let ?g = "tr @ [PdGetPipeline \<lparr>nn_namespace = ?ns, nn_name = ?name\<rparr>]"
    obtain e1 e2 where "is_not_found e1" "pde_GetPipeline E ?g = Inl e1"
      and "pde_Create E (?g @ [PdCreate (imported_pipeline pd ?ns ?name fp)]) = Some e2" "\<not> is_already_exists e2"
      using new [of tr] webhook [OF rejected, of ?g] by blast
    then show ?thesis using spaced(2) valid by (simp add: pd_upsert_one_def Let_def)
  qed
  obtain tr0 x where x: "pd_upsert_loop R E pd ?ns pre [] [] ?tr = (tr0, x)" by (cases "pd_upsert_loop R E pd ?ns pre [] [] ?tr")
  obtain tr1 err where up: "pd_upsert_loop R E pd ?ns (pre @ [Some fp]) [] [] ?tr = (tr1, Inl err)"
  proof (cases x)
    case (Inl e)
    then show ?thesis using that x by (simp add: pd_upsert_loop_append)
  next
    case (Inr y)
    obtain tr1 e where "pd_upsert_one R E pd ?ns (Some fp) tr0 = (tr1, Inl e)" using one by blast
    then show ?thesis using that x Inr by (simp add: pd_upsert_loop_append case_prod_beta)
  qed
  then have "upsertPipelineCRs R E pd (pre @ Some fp # post) ?ns ?tr = (tr1, Inl err)"
    using pd_upsert_loop_append [of R E pd ?ns "pre @ [Some fp]" post "[]" "[]" ?tr]
    by (simp add: upsertPipelineCRs_def)
  then have run: "pd_Reconcile R E req = pd_phase_failed R E pd pipelineDiscoveryReasonUpsertFailed err tr1"
    using get due fleet by (simp add: pd_Reconcile_def pd_poll_def Let_def)
  have "extends ?Q [] ?tr" by (simp add: extends_def)
  from upsert_loop_held_up [OF up _ this] have "extends ?Q [] tr1" by simp
  then have "extends ?Q [] (rr_trace (pd_phase_failed R E pd pipelineDiscoveryReasonUpsertFailed err tr1))"
    by (auto simp: pd_phase_failed_def pd_updateStatusError_def Let_def split: prod.splits option.splits
        intro!: trace_intros)
  then show ?thesis
    unfolding run by (auto simp: extends_def pd_phase_failed_def split: prod.splits option.splits)
qed

definition plain_validator :: "nat pipelineValidator" where
  "plain_validator = \<lparr>pv_checker = None, pv_nameScopeDefault = NameScopeNone\<rparr>"

text \<open>A world whose API server runs the webhook, and whose fleet has a name with a space.\<close>

definition spaced_world :: pdenv where
  "spaced_world = logs_world
     \<lparr>pde_ListPipelines := \<lambda>_. Inr ([] @ Some (logs_fleet\<lparr>fp_Name := ''my logs''\<rparr>) # [Some logs_fleet]),
      pde_Create := (\<lambda>tr. case last tr of
         PdCreate cr \<Rightarrow>
           if snd (snd (pipeline_ValidateCreate (\<lambda>_. Inr []) plain_validator 0 cr)) \<noteq> None
           then Some (KubeError ReasonOther ''denied'') else None
       | _ \<Rightarrow> None)\<rparr>"

theorem rejected_import_holds_up_discovery_witness:
  "rr_err (pd_Reconcile logs_reconciler spaced_world \<lparr>nn_namespace = ''ops'', nn_name = ''logs''\<rparr>) \<noteq> None"
proof -
  let ?key = "\<lparr>nn_namespace = ''ops'', nn_name = ''logs''\<rparr>"
  have due: "pd_parsePollInterval (pdr_lib logs_reconciler) logs_discovery = Inr (5 * minute)"
      "pd_schedule_skips logs_discovery (5 * minute) (7 * second) = None"
      "\<not> om_deleting (pd_meta logs_discovery)" "trim_space ''my logs'' \<noteq> []"
    by code_simp+
  have sha: "length (dl_sha256 (pdr_lib logs_reconciler) s) = 32" for s
    by (simp add: logs_reconciler_def)
  have webhook: "\<exists>err. pde_Create spaced_world (tr @ [PdCreate cr]) = Some err \<and> \<not> is_already_exists err"
    if "snd (snd (pipeline_ValidateCreate (\<lambda>_. Inr []) plain_validator 0 cr)) \<noteq> None" for tr cr
    using that by (simp add: spaced_world_def is_already_exists_def)
  have new: "\<exists>err. is_not_found err \<and> pde_GetPipeline spaced_world (tr @ [PdGetPipeline k]) = Inl err" for tr k
    by (simp add: spaced_world_def logs_world_def is_not_found_def)
  have world: "pde_Get spaced_world [PdGet ?key] = Inr logs_discovery"
      "pd_schedule_skips logs_discovery (5 * minute) (pde_Now spaced_world [PdGet ?key, PdNow]) = None"
      "\<And>tr. pde_ListPipelines spaced_world tr = Inr ([] @ Some (logs_fleet\<lparr>fp_Name := ''my logs''\<rparr>) # [Some logs_fleet])"
    using due(2) by (simp_all add: spaced_world_def logs_world_def)
  have name: "CHR '' '' \<in> set (fp_Name (logs_fleet\<lparr>fp_Name := ''my logs''\<rparr>))"
      "trim_space (fp_Name (logs_fleet\<lparr>fp_Name := ''my logs''\<rparr>)) \<noteq> []"
    using due(4) by simp_all
  show ?thesis
    by (rule rejected_import_holds_up_discovery
        [OF world(1) due(3,1) world(2) sha world(3) name new webhook, THEN conjunct1])
qed

end
