(* ===== verification/Fleet_Transport.thy ===== *)
theory Fleet_Transport
  imports Fleet_Client
begin

text \<open>
  The transport of the Fleet Management client: \<open>NewClient\<close> and its options
  (\<open>pkg/fleetclient/client.go\<close>) and the four interceptors every call passes
  (\<open>interceptors.go\<close>, \<open>metrics.go\<close>, \<open>tracing.go\<close>).  The connect library, the rate limiter, the
  metrics and tracing libraries and the clock are parameters; the calls made to them are
  recorded.
\<close>

section \<open>Calls to the libraries\<close>

datatype tracer = NoopTracer | SdkTracer

text \<open>A unary request: its procedure, its headers and its message.\<close>

record 'm unary_request =
  uq_Procedure :: string
  uq_Headers :: gomap
  uq_Msg :: 'm

datatype 'm tcall =
    TNow
  | TSpanStart tracer string "(string \<times> string) list"
  | TSpanError string string
  | TSpanEnd
  | TLimiterWait
  | TObserveWait int
  | TSend "'m unary_request"
  | TErrorsInc string string
  | TRequestsInc string
  | TObserveDuration string string int

text \<open>
  What the libraries answer, as functions of the calls so far; \<open>te_CodeString\<close> is the text of a
  connect code, \<open>te_base64\<close> the standard Base64 encoding, \<open>te_ParseURL\<close> the host and the host
  name of \<open>url.Parse\<close> (\<open>None\<close>: an error).
\<close>

record ('m, 'p) tenv =
  te_Now :: "'m tcall list \<Rightarrow> int"
  te_Wait :: "'m tcall list \<Rightarrow> go_error option"
  te_Send :: "'m tcall list \<Rightarrow> go_error + 'p"
  te_CodeString :: "connect_code \<Rightarrow> string"
  te_base64 :: "string \<Rightarrow> string"
  te_ParseURL :: "string \<Rightarrow> (string \<times> string) option"

type_synonym ('m, 'p) unary_func =
  "'m unary_request \<Rightarrow> 'm tcall list \<Rightarrow> 'm tcall list \<times> (go_error + 'p)"

section \<open>The interceptors\<close>

definition rateLimitInterceptor :: "('m, 'p) tenv \<Rightarrow> ('m, 'p) unary_func \<Rightarrow> ('m, 'p) unary_func" where
  "rateLimitInterceptor E nxt req tr =
     (let tr = tr @ [TNow]; waitStart = te_Now E tr;
          tr = tr @ [TLimiterWait]; err = te_Wait E tr;
          tr = tr @ [TNow]; tr = tr @ [TObserveWait (te_Now E tr - waitStart)]
      in case err of
           Some e \<Rightarrow> (tr, Inl (WrapError ''rate limiter error: '' e []))
         | None \<Rightarrow> nxt req tr)"

definition basicAuthInterceptor ::
    "('m, 'p) tenv \<Rightarrow> string \<Rightarrow> string \<Rightarrow> ('m, 'p) unary_func \<Rightarrow> ('m, 'p) unary_func" where
  "basicAuthInterceptor E username password nxt req tr =
     (let header = ''Basic '' @ te_base64 E (username @ '':'' @ password)
      in nxt (req\<lparr>uq_Headers := map_put ''Authorization'' header (uq_Headers req)\<rparr>) tr)"

definition metricsInterceptor :: "('m, 'p) tenv \<Rightarrow> ('m, 'p) unary_func \<Rightarrow> ('m, 'p) unary_func" where
  "metricsInterceptor E nxt req tr =
     (let tr = tr @ [TNow]; start = te_Now E tr; operation = uq_Procedure req
      in case nxt req tr of
           (tr, resp) \<Rightarrow>
             (let tr = tr @ [TNow]; duration = te_Now E tr - start;
                  (status, tr) =
                    (case resp of
                       Inr _ \<Rightarrow> (''ok'', tr)
                     | Inl err \<Rightarrow>
                         (let status = (case as_connect err of
                                          Some (code, _) \<Rightarrow> te_CodeString E code
                                        | None \<Rightarrow> ''unknown'')
                          in (status, tr @ [TErrorsInc operation status])))
              in (tr @ [TRequestsInc operation, TObserveDuration operation status duration], resp)))"

text \<open>\<open>strings.Index\<close> and \<open>strings.LastIndex\<close>.\<close>

fun str_index :: "string \<Rightarrow> string \<Rightarrow> nat option" where
  "str_index s sub =
     (if has_prefix s sub then Some 0
      else case s of [] \<Rightarrow> None | c # t \<Rightarrow> map_option Suc (str_index t sub))"

declare str_index.simps [simp del]

fun last_index :: "char \<Rightarrow> string \<Rightarrow> nat option" where
  "last_index c [] = None"
| "last_index c (d # s) =
     (case last_index c s of
        Some i \<Rightarrow> Some (Suc i)
      | None \<Rightarrow> if d = c then Some 0 else None)"

definition peerNameFromBaseURL :: "('m, 'p) tenv \<Rightarrow> string \<Rightarrow> string" where
  "peerNameFromBaseURL E baseURL =
     (if baseURL = [] then []
      else
        (let fallback =
           (let trimmed = (case str_index baseURL ''://'' of Some i \<Rightarrow> drop (i + 3) baseURL | None \<Rightarrow> baseURL);
                trimmed = (case str_index trimmed ''/'' of Some i \<Rightarrow> take i trimmed | None \<Rightarrow> trimmed);
                trimmed = (case str_index trimmed '':'' of Some i \<Rightarrow> take i trimmed | None \<Rightarrow> trimmed)
            in trimmed)
         in case te_ParseURL E baseURL of
              Some (host, hostname) \<Rightarrow> if host \<noteq> [] then hostname else fallback
            | None \<Rightarrow> fallback))"

definition splitProcedure :: "string \<Rightarrow> string \<times> string" where
  "splitProcedure procedure =
     (let trimmed = (if has_prefix procedure ''/'' then drop 1 procedure else procedure)
      in case last_index (CHR ''/'') trimmed of
           None \<Rightarrow> ([], trimmed)
         | Some idx \<Rightarrow> (take idx trimmed, drop (idx + 1) trimmed))"

definition tracingInterceptor ::
    "('m, 'p) tenv \<Rightarrow> tracer \<Rightarrow> string \<Rightarrow> ('m, 'p) unary_func \<Rightarrow> ('m, 'p) unary_func" where
  "tracingInterceptor E tracer baseURL nxt req tr =
     (let peerName = peerNameFromBaseURL E baseURL;
          procedure = uq_Procedure req;
          (service, meth) = splitProcedure procedure;
          attrs = [(''rpc.system'', ''connect''), (''rpc.service'', service), (''rpc.method'', meth)] @
            (if peerName \<noteq> [] then [(''server.address'', peerName), (''net.peer.name'', peerName)] else []);
          tr = tr @ [TSpanStart tracer procedure attrs]
      in case nxt req tr of
           (tr, Inl err) \<Rightarrow>
             (let code = (case as_connect err of Some (code, _) \<Rightarrow> code | None \<Rightarrow> CodeUnknown)
              in (tr @ [TSpanError (te_CodeString E code) (err_text err), TSpanEnd], Inl err))
         | (tr, Inr resp) \<Rightarrow> (tr @ [TSpanEnd], Inr resp))"

section \<open>The client\<close>

text \<open>\<open>cfg.rps <= 0\<close> on the bit pattern of a \<open>float64\<close>: false for a NaN.\<close>

definition f64_nan :: "64 word \<Rightarrow> bool" where
  "f64_nan f \<longleftrightarrow> unat f mod 2 ^ 63 > 0x7FF0000000000000"

definition f64_le_zero :: "64 word \<Rightarrow> bool" where
  "f64_le_zero f \<longleftrightarrow> \<not> f64_nan f \<and> (2 ^ 63 \<le> unat f \<or> f = 0)"

definition f64_three :: "64 word" where "f64_three = 0x4008000000000000"

record clientConfig =
  cc_rps :: "64 word"
  cc_burst :: int
  cc_tracer :: "tracer option"

definition WithRateLimit :: "64 word \<Rightarrow> int \<Rightarrow> clientConfig \<Rightarrow> clientConfig" where
  "WithRateLimit rps burst c = c\<lparr>cc_rps := rps, cc_burst := burst\<rparr>"

definition WithTracer :: "tracer \<Rightarrow> clientConfig \<Rightarrow> clientConfig" where
  "WithTracer tracer c = c\<lparr>cc_tracer := Some tracer\<rparr>"

text \<open>
  A constructed client: the server root, the limiter's rate and burst, and the call every stub
  of both services goes through.
\<close>

record ('m, 'p) fleet_client =
  fl_baseURL :: string
  fl_rps :: "64 word"
  fl_burst :: int
  fl_unary :: "('m, 'p) unary_func"

text \<open>\<open>connect.WithInterceptors\<close>: the first interceptor is the outermost.\<close>

definition with_interceptors ::
    "(('m, 'p) unary_func \<Rightarrow> ('m, 'p) unary_func) list \<Rightarrow> ('m, 'p) unary_func \<Rightarrow> ('m, 'p) unary_func" where
  "with_interceptors is transport = foldr (\<lambda>i f. i f) is transport"

definition http_send :: "('m, 'p) tenv \<Rightarrow> ('m, 'p) unary_func" where
  "http_send E req tr = (let tr = tr @ [TSend req] in (tr, te_Send E tr))"

definition NewClient ::
    "('m, 'p) tenv \<Rightarrow> string list \<Rightarrow> string \<Rightarrow> string \<Rightarrow> string \<Rightarrow> (clientConfig \<Rightarrow> clientConfig) list \<Rightarrow>
       ('m, 'p) fleet_client" where
  "NewClient E services baseURL username password opts =
     (let cfg = fold (\<lambda>opt c. opt c) opts \<lparr>cc_rps = f64_three, cc_burst = 50, cc_tracer = None\<rparr>;
          rps = (if f64_le_zero (cc_rps cfg) then f64_three else cc_rps cfg);
          burst = (if cc_burst cfg \<le> 0 then 50 else cc_burst cfg);
          tracer = (case cc_tracer cfg of None \<Rightarrow> NoopTracer | Some t \<Rightarrow> t);
          rootURL = normalizeBaseURL services baseURL
      in \<lparr>fl_baseURL = rootURL, fl_rps = rps, fl_burst = burst,
          fl_unary = with_interceptors
            [tracingInterceptor E tracer rootURL, rateLimitInterceptor E,
             basicAuthInterceptor E username password, metricsInterceptor E]
            (http_send E)\<rparr>)"

section \<open>Every request is gated\<close>

text \<open>One call: refused by the limiter, or sent once.\<close>

definition auth_header :: "('m, 'p) tenv \<Rightarrow> string \<Rightarrow> string \<Rightarrow> string" where
  "auth_header E username password = ''Basic '' @ te_base64 E (username @ '':'' @ password)"

lemma basicAuth_call:
  "basicAuthInterceptor E u p nxt req tr =
     nxt (req\<lparr>uq_Headers := map_put ''Authorization'' (auth_header E u p) (uq_Headers req)\<rparr>) tr"
  by (simp add: basicAuthInterceptor_def auth_header_def)

inductive gated_call ::
    "('m, 'p) tenv \<Rightarrow> string \<Rightarrow> 'm tcall list \<Rightarrow> 'm tcall list \<Rightarrow> go_error + 'p \<Rightarrow> bool"
  for E :: "('m, 'p) tenv" and header :: string and tr :: "'m tcall list" where
  refused: "te_Wait E (tr @ [TSpanStart t n as, TNow, TLimiterWait]) = Some e \<Longrightarrow>
    gated_call E header tr
      [TSpanStart t n as, TNow, TLimiterWait, TNow, TObserveWait d, TSpanError c x, TSpanEnd]
      (Inl (WrapError ''rate limiter error: '' e []))"
| sent: "te_Wait E (tr @ [TSpanStart t n as, TNow, TLimiterWait]) = None \<Longrightarrow>
    map_of (uq_Headers q) ''Authorization'' = Some header \<Longrightarrow> uq_Procedure q = n \<Longrightarrow>
    r = te_Send E (tr @ [TSpanStart t n as, TNow, TLimiterWait, TNow, TObserveWait d, TNow, TSend q]) \<Longrightarrow>
    errs = (case r of Inl _ \<Rightarrow> [TErrorsInc n st] | Inr _ \<Rightarrow> []) \<Longrightarrow>
    outs = (case r of Inl _ \<Rightarrow> [TSpanError c x] | Inr _ \<Rightarrow> []) \<Longrightarrow>
    gated_call E header tr
      ([TSpanStart t n as, TNow, TLimiterWait, TNow, TObserveWait d, TNow, TSend q, TNow] @ errs @
       [TRequestsInc n, TObserveDuration n st' d'] @ outs @ [TSpanEnd]) r"

lemma metrics_call:
  obtains errs st d where
    "metricsInterceptor E (http_send E) req tr =
       (tr @ [TNow, TSend req, TNow] @ errs @ [TRequestsInc (uq_Procedure req), TObserveDuration (uq_Procedure req) st d],
        te_Send E (tr @ [TNow, TSend req]))"
    "errs = (case te_Send E (tr @ [TNow, TSend req]) of Inl _ \<Rightarrow> [TErrorsInc (uq_Procedure req) st] | Inr _ \<Rightarrow> [])"
  by (cases "te_Send E (tr @ [TNow, TSend req])")
    (auto simp: metricsInterceptor_def http_send_def Let_def)

lemma client_call:
  fixes E :: "('m, 'p) tenv"
  assumes "fl_unary (NewClient E services url u p opts) req tr = (tr', r)"
  shows "\<exists>blk. tr' = tr @ blk \<and> gated_call E (auth_header E u p) tr blk r"
proof -
  let ?q = "req\<lparr>uq_Headers := map_put ''Authorization'' (auth_header E u p) (uq_Headers req)\<rparr>"
  obtain t as where span: "fl_unary (NewClient E services url u p opts) req tr =
      (case rateLimitInterceptor E (basicAuthInterceptor E u p (metricsInterceptor E (http_send E))) req
              (tr @ [TSpanStart t (uq_Procedure req) as]) of
         (tr, Inl err) \<Rightarrow>
           (tr @ [TSpanError (te_CodeString E (case as_connect err of Some (code, _) \<Rightarrow> code | None \<Rightarrow> CodeUnknown))
                    (err_text err), TSpanEnd], Inl err)
       | (tr, Inr resp) \<Rightarrow> (tr @ [TSpanEnd], Inr resp))"
    by (simp add: NewClient_def with_interceptors_def tracingInterceptor_def Let_def split_def)
  let ?w = "tr @ [TSpanStart t (uq_Procedure req) as, TNow, TLimiterWait]"
  let ?d = "te_Now E (?w @ [TNow]) - te_Now E (tr @ [TSpanStart t (uq_Procedure req) as, TNow])"
  show ?thesis
  proof (cases "te_Wait E ?w")
    case (Some e)
    from gated_call.refused [OF this, of "auth_header E u p" ?d] Some assms show ?thesis
      unfolding span by (simp add: rateLimitInterceptor_def Let_def) blast
  next
    case None
    let ?tr2 = "?w @ [TNow, TObserveWait ?d]" and ?n = "uq_Procedure req"
    let ?s = "te_Send E (?tr2 @ [TNow, TSend ?q])"
    obtain errs st d where m: "metricsInterceptor E (http_send E) ?q ?tr2 =
        (?tr2 @ [TNow, TSend ?q, TNow] @ errs @ [TRequestsInc (uq_Procedure ?q), TObserveDuration (uq_Procedure ?q) st d], ?s)"
      and errs: "errs = (case ?s of Inl _ \<Rightarrow> [TErrorsInc (uq_Procedure ?q) st] | Inr _ \<Rightarrow> [])"
      by (rule metrics_call)
    have rl: "rateLimitInterceptor E (basicAuthInterceptor E u p (metricsInterceptor E (http_send E))) req
        (tr @ [TSpanStart t ?n as]) = metricsInterceptor E (http_send E) ?q ?tr2"
      using None by (simp add: rateLimitInterceptor_def basicAuth_call Let_def)
    have k: "map_of (uq_Headers ?q) ''Authorization'' = Some (auth_header E u p)" "uq_Procedure ?q = ?n"
      by simp_all
    define c where
      "c = te_CodeString E (case as_connect (projl ?s) of Some (code, _) \<Rightarrow> code | None \<Rightarrow> CodeUnknown)"
    define outs :: "'m tcall list" where
      "outs = (case ?s of Inl _ \<Rightarrow> [TSpanError c (err_text (projl ?s))] | Inr _ \<Rightarrow> [])"
    have run: "tr' = ?tr2 @ [TNow, TSend ?q, TNow] @ errs @ [TRequestsInc ?n, TObserveDuration ?n st d] @ outs @ [TSpanEnd]"
      "r = ?s"
      using assms unfolding span rl m k(2) outs_def c_def by (cases ?s; simp)+
    have "gated_call E (auth_header E u p) tr ([TSpanStart t ?n as, TNow, TLimiterWait, TNow, TObserveWait ?d,
        TNow, TSend ?q, TNow] @ errs @ [TRequestsInc ?n, TObserveDuration ?n st d] @ outs @ [TSpanEnd]) r"
      by (rule gated_call.sent [OF None k, where st = st and c = c and x = "err_text (projl ?s)"])
        (simp_all add: run(2) errs outs_def split: sum.split)
    with run(1) show ?thesis by auto
  qed
qed

text \<open>A client's calls, of either service, one after the other.\<close>

fun run_calls :: "('m, 'p) unary_func \<Rightarrow> 'm unary_request list \<Rightarrow> 'm tcall list \<Rightarrow> 'm tcall list" where
  "run_calls f [] tr = tr"
| "run_calls f (q # qs) tr = (case f q tr of (tr, _) \<Rightarrow> run_calls f qs tr)"

definition is_send :: "'m tcall \<Rightarrow> bool" where
  "is_send c = (case c of TSend _ \<Rightarrow> True | _ \<Rightarrow> False)"

definition is_requests_inc :: "'m tcall \<Rightarrow> bool" where
  "is_requests_inc c = (case c of TRequestsInc _ \<Rightarrow> True | _ \<Rightarrow> False)"

definition is_observed_wait :: "'m tcall \<Rightarrow> bool" where
  "is_observed_wait c = (case c of TObserveWait _ \<Rightarrow> True | _ \<Rightarrow> False)"

definition is_span_start :: "'m tcall \<Rightarrow> bool" where
  "is_span_start c = (case c of TSpanStart _ _ _ \<Rightarrow> True | _ \<Rightarrow> False)"

definition count_of :: "('m tcall \<Rightarrow> bool) \<Rightarrow> 'm tcall list \<Rightarrow> nat" where
  "count_of P tr = length (filter P tr)"

lemmas call_kinds = is_send_def is_requests_inc_def is_observed_wait_def is_span_start_def

lemma count_of_append: "count_of P (tr @ tr') = count_of P tr + count_of P tr'"
  by (simp add: count_of_def)

lemma gated_call_counts:
  assumes "gated_call E h tr blk r"
  shows "count_of is_requests_inc blk = count_of is_send blk" "count_of is_observed_wait blk = 1"
    "count_of is_span_start blk = 1" "count_of (\<lambda>c. c = TSpanEnd) blk = 1" "count_of is_send blk \<le> 1"
    "count_of is_send blk = 0 \<Longrightarrow> \<exists>e. r = Inl (WrapError ''rate limiter error: '' e [])"
  using assms by (cases; cases r; simp add: count_of_def call_kinds)+

lemma single_split:
  "pre @ x # post = us @ y # ys \<Longrightarrow> \<not> list_ex P pre \<Longrightarrow> \<not> list_ex P post \<Longrightarrow> P y \<Longrightarrow> us = pre \<and> y = x"
proof (induction pre arbitrary: us)
  case Nil
  then show ?case by (cases us) auto
next
  case (Cons a pre)
  then show ?case by (cases us) auto
qed

lemma append_split:
  assumes "tr @ blk = before @ x # after"
  obtains us where "before = tr @ us" "blk = us @ x # after" | vs where "tr = before @ x # vs"
proof -
  obtain us where "tr = before @ us \<and> us @ blk = x # after \<or> tr @ us = before \<and> blk = us @ x # after"
    using assms unfolding append_eq_append_conv2 by blast
  with that show thesis by (cases us) auto
qed

definition gates :: "('m, 'p) tenv \<Rightarrow> string \<Rightarrow> 'm tcall list \<Rightarrow> bool" where
  "gates E header tr \<longleftrightarrow>
     (\<forall>before q after. tr = before @ TSend q # after \<longrightarrow>
        map_of (uq_Headers q) ''Authorization'' = Some header \<and>
        (\<exists>ws vs. before = ws @ TLimiterWait # vs \<and> te_Wait E (ws @ [TLimiterWait]) = None \<and>
                 \<not> list_ex is_send vs))"

lemma gated_call_send:
  assumes "gated_call E h tr blk r" "blk = us @ TSend q # ys"
  shows "map_of (uq_Headers q) ''Authorization'' = Some h \<and>
    (\<exists>ws vs. tr @ us = ws @ TLimiterWait # vs \<and> te_Wait E (ws @ [TLimiterWait]) = None \<and> \<not> list_ex is_send vs)"
  using assms
proof cases
  case (refused t n as e d c x)
  moreover have "TSend q \<in> set blk" using assms(2) by simp
  ultimately show ?thesis by simp
next
  case (sent t n as q0 d errs st outs c x st' d')
  let ?pre = "[TSpanStart t n as, TNow, TLimiterWait, TNow, TObserveWait d, TNow]"
    and ?post = "TNow # errs @ [TRequestsInc n, TObserveDuration n st' d'] @ outs @ [TSpanEnd]"
  have "\<not> list_ex is_send ?pre" "\<not> list_ex is_send ?post"
    using sent by (auto simp: is_send_def split: sum.splits)
  moreover have "?pre @ TSend q0 # ?post = us @ TSend q # ys" using sent assms(2) by simp
  ultimately have "us = ?pre \<and> TSend q = TSend q0"
    using single_split [of ?pre "TSend q0" ?post us "TSend q" ys is_send] by (simp add: is_send_def)
  then show ?thesis
    using sent by (intro conjI exI [of _ "tr @ [TSpanStart t n as, TNow]"] exI [of _ "[TNow, TObserveWait d, TNow]"])
      (auto simp: is_send_def)
qed

lemma gates_step:
  assumes "gates E h tr" "gated_call E h tr blk r"
  shows "gates E h (tr @ blk)"
  unfolding gates_def
proof (intro allI impI)
  fix before q after
  assume "tr @ blk = before @ TSend q # after"
  then show "map_of (uq_Headers q) ''Authorization'' = Some h \<and>
    (\<exists>ws vs. before = ws @ TLimiterWait # vs \<and> te_Wait E (ws @ [TLimiterWait]) = None \<and> \<not> list_ex is_send vs)"
  proof (cases rule: append_split)
    case (1 us)
    then show ?thesis using gated_call_send [OF assms(2) 1(2)] by simp
  next
    case 2
    then show ?thesis using assms(1) unfolding gates_def by blast
  qed
qed

text \<open>
  C31: every request to Fleet Management passes the one limiter and is authenticated.  Whatever
  calls of the two services a client makes, each request that leaves it carries the Basic
  header of the configured credentials and was let through by a wait of its own on the shared
  limiter; exactly the requests that left are counted, and every call, refused ones included,
  reports its waiting time and ends its span.
\<close>

theorem requests_are_gated:
  "let tr = run_calls (fl_unary (NewClient E services url u p opts)) reqs []
   in gates E (''Basic '' @ te_base64 E (u @ '':'' @ p)) tr \<and>
      count_of is_requests_inc tr = count_of is_send tr \<and> count_of is_send tr \<le> length reqs \<and>
      count_of is_observed_wait tr = length reqs \<and> count_of is_span_start tr = length reqs \<and>
      count_of (\<lambda>c. c = TSpanEnd) tr = length reqs"
proof -
  let ?f = "fl_unary (NewClient E services url u p opts)" and ?h = "auth_header E u p"
  have "gates E ?h tr \<Longrightarrow>
      gates E ?h (run_calls ?f reqs tr) \<and>
      count_of is_requests_inc (run_calls ?f reqs tr) + count_of is_send tr =
        count_of is_send (run_calls ?f reqs tr) + count_of is_requests_inc tr \<and>
      count_of is_send (run_calls ?f reqs tr) \<le> count_of is_send tr + length reqs \<and>
      count_of is_observed_wait (run_calls ?f reqs tr) = count_of is_observed_wait tr + length reqs \<and>
      count_of is_span_start (run_calls ?f reqs tr) = count_of is_span_start tr + length reqs \<and>
      count_of (\<lambda>c. c = TSpanEnd) (run_calls ?f reqs tr) = count_of (\<lambda>c. c = TSpanEnd) tr + length reqs" for tr
  proof (induction reqs arbitrary: tr)
    case (Cons q qs)
    obtain tr1 r where f: "?f q tr = (tr1, r)" by fastforce
    from client_call [OF this] obtain blk where b: "tr1 = tr @ blk" "gated_call E ?h tr blk r" by blast
    from Cons.IH [of tr1] gates_step [OF Cons.prems b(2)] gated_call_counts(1-5) [OF b(2)] show ?case
      by (simp add: f b(1) count_of_append)
  qed simp
  from this [of "[]"] show ?thesis
    by (simp add: gates_def count_of_def auth_header_def Let_def)
qed

text \<open>
  What the reconcilers make of a refusal: it is no answer of the server, so it is retried unless
  the caller's context was cancelled.
\<close>

lemma refusal_is_retried:
  assumes "as_connect e = None" "as_fleet e = None"
  shows "isTransientError (connectErrToFleetErr (WrapError ''rate limiter error: '' e []) oper ident) \<longleftrightarrow>
           \<not> is_canceled e"
  using assms by (simp add: connectErrToFleetErr_def isTransientError_def)

text \<open>The limiter of a constructed client has a positive burst and never a rate that is not positive.\<close>

lemma limiter_configured:
  "0 < fl_burst (NewClient E services url u p opts)"
  "\<not> f64_le_zero (fl_rps (NewClient E services url u p opts))"
proof -
  have "\<not> f64_le_zero f64_three"
    by (simp add: f64_le_zero_def f64_nan_def f64_three_def)
  then show "0 < fl_burst (NewClient E services url u p opts)"
    "\<not> f64_le_zero (fl_rps (NewClient E services url u p opts))"
    by (simp_all add: NewClient_def Let_def)
qed

end
