(* ===== verification/Source_Factory.thy ===== *)
theory Source_Factory
  imports Http_Source Sql_Source Sync_Webhook
begin

text \<open>
  The factory of external sources and the check of the Fleet Management base URL in
  \<open>cmd/main.go\<close>, and how they agree with the admission webhook of ExternalAttributeSync: which
  admitted sources can be built.
\<close>

section \<open>The factory\<close>

datatype built_source = HttpSource http_source | SqlSource sql_source

text \<open>\<open>secret.Data[key]\<close>: a missing key gives no bytes.\<close>

definition buildExternalSourceFactory ::
    "http_lib \<Rightarrow> (string \<Rightarrow> bool) \<Rightarrow> ExternalSource \<Rightarrow> Secret option \<Rightarrow> go_error + built_source" where
  "buildExternalSourceFactory L uc spec secret =
     (if xsrc_Kind spec = ExternalSourceKindHTTP then
        (case xsrc_HTTP spec of
           None \<Rightarrow> Inl (PlainError ''ExternalSource kind=HTTP requires spec.source.http'')
         | Some http \<Rightarrow>
             (let cfg = \<lparr>hcfg_URL = hss_URL http, hcfg_Method = hss_Method http,
                         hcfg_RecordsPath = hss_RecordsPath http, hcfg_BearerToken = [],
                         hcfg_Username = [], hcfg_Password = [], hcfg_Headers = [], hcfg_Timeout = 0\<rparr>;
                  cfg = (case secret of
                           None \<Rightarrow> cfg
                         | Some sec \<Rightarrow>
                             cfg\<lparr>hcfg_BearerToken := get_str (sec_Data sec) ''bearer-token'',
                                 hcfg_Username := get_str (sec_Data sec) ''username'',
                                 hcfg_Password := get_str (sec_Data sec) ''password''\<rparr>)
              in map_sum (\<lambda>err. err) HttpSource (NewHTTP L cfg)))
      else if xsrc_Kind spec = ExternalSourceKindSQL then
        (case xsrc_SQL spec of
           None \<Rightarrow> Inl (PlainError ''ExternalSource kind=SQL requires spec.source.sql'')
         | Some sql \<Rightarrow>
             (let dsn = (case secret of None \<Rightarrow> [] | Some sec \<Rightarrow> get_str (sec_Data sec) ''dsn'')
              in if dsn = [] then
                   Inl (PlainError (''ExternalSource kind=SQL requires secretRef with key '' @
                     go_quote ''dsn'' @ '' (DSN connection string)''))
                 else
                   map_sum (\<lambda>err. err) SqlSource
                     (NewSQL uc \<lparr>scfg_Driver = sss_Driver sql, scfg_Query = sss_Query sql,
                                 scfg_DSN = dsn, scfg_Timeout = 0\<rparr>)))
      else Inl (PlainError (''unknown ExternalSource kind '' @ go_quote (xsrc_Kind spec))))"

definition validateFleetBaseURL :: "http_lib \<Rightarrow> string \<Rightarrow> go_error option" where
  "validateFleetBaseURL L raw =
     (case hl_ParseURL L raw of
        Inl err \<Rightarrow> Some (WrapError ''parse Fleet Management base URL: '' err [])
      | Inr u \<Rightarrow>
          if su_Scheme u = [] \<or> su_Host u = [] then
            Some (PlainError ''fleet management base URL must include scheme and host'')
          else if su_Scheme u = ''https'' then None
          else Some (PlainError (''fleet management base URL scheme '' @ go_quote (su_Scheme u) @
                 '' is unsupported; use https'')))"

section \<open>Admitted sources\<close>

text \<open>
  The webhook's and the source's view of \<open>url.Parse\<close>: the same scheme (which the parser gives in
  lower case) and host.
\<close>

definition same_urls :: "wlib \<Rightarrow> http_lib \<Rightarrow> bool" where
  "same_urls W L \<longleftrightarrow>
     (\<forall>s. case (wl_ParseURL W s, hl_ParseURL L s) of
            (Inl _, Inl _) \<Rightarrow> True
          | (Inr p, Inr u) \<Rightarrow> pu_Scheme p = su_Scheme u \<and> pu_Host p = su_Host u \<and>
                              to_lower (su_Scheme u) = su_Scheme u
          | _ \<Rightarrow> False)"

text \<open>The two copies of the read-only check are one function.\<close>

lemma validateReadOnlyQuery_webhook: "validateReadOnlyQuery uc query = validateReadOnlySQLQuery uc query"
proof -
  have "disallowedSQLTokens = externalSyncDisallowedSQLTokens"
    unfolding disallowedSQLTokens_def externalSyncDisallowedSQLTokens_def ..
  then show ?thesis unfolding validateReadOnlyQuery_def validateReadOnlySQLQuery_def by (simp only:)
qed

lemma same_urlsD:
  assumes "same_urls W L" "wl_ParseURL W s = Inr p"
  obtains u where "hl_ParseURL L s = Inr u" "pu_Scheme p = su_Scheme u" "pu_Host p = su_Host u"
    "to_lower (su_Scheme u) = su_Scheme u"
  using assms unfolding same_urls_def by (cases "hl_ParseURL L s") (auto dest: spec [of _ s])

lemma admitted_http:
  assumes "validateHTTPSource W http hasRef = None" "trim_space (hss_URL http) = hss_URL http"
  obtains p where "hss_URL http \<noteq> []" "wl_ParseURL W (hss_URL http) = Inr p"
    "to_lower (pu_Scheme p) \<in> {''http'', ''https''}" "hasRef \<longrightarrow> to_lower (pu_Scheme p) = ''https''"
    "pu_Host p \<noteq> []" "hss_Method http \<in> {'''', ''GET'', ''POST''}"
proof -
  obtain p where p: "wl_ParseURL W (hss_URL http) = Inr p"
    using assms by (cases "wl_ParseURL W (hss_URL http)") (simp_all add: validateHTTPSource_def Let_def split: if_split_asm)
  show thesis
    by (rule that [OF _ p]; use assms p in \<open>simp add: validateHTTPSource_def Let_def split: if_split_asm option.split_asm\<close>)
qed

lemma http_method_kept:
  "m \<in> {'''', ''GET'', ''POST''} \<Longrightarrow> to_upper (trim_space m) \<in> {'''', ''GET'', ''POST''}"
  by (elim insertE emptyE; hypsubst; code_simp)

lemma NewHTTP_builds:
  assumes "hl_ParseURL L (hcfg_URL cfg) = Inr u" "trim_space (hcfg_URL cfg) \<noteq> []"
    and "su_Scheme u \<in> {''http'', ''https''}" "su_Host u \<noteq> []"
    and "hcfg_Method cfg \<in> {'''', ''GET'', ''POST''}"
  shows "(\<exists>s. NewHTTP L cfg = Inr s) \<longleftrightarrow> su_Scheme u = ''https'' \<or> \<not> configHasCredentials cfg \<and> \<not> su_User u"
  using assms(1-4) http_method_kept [OF assms(5)] unfolding NewHTTP_def Let_def
  by (auto simp del: insert_iff split: if_split)

lemma NewSQL_builds:
  "(\<exists>s. NewSQL uc cfg = Inr s) \<longleftrightarrow>
     to_lower (trim_space (scfg_Driver cfg)) \<in> set supportedDrivers \<and> trim_space (scfg_Query cfg) \<noteq> [] \<and>
     validateReadOnlySQLQuery uc (scfg_Query cfg) = None \<and> trim_space (scfg_DSN cfg) \<noteq> []"
  by (auto simp: NewSQL_def Let_def validateReadOnlyQuery_webhook supportedDrivers_def split: option.splits)

lemma admitted_kinds:
  assumes "sync_validateSource W s = None"
  obtains h where "xsrc_Kind (easspec_Source (eas_spec s)) = ExternalSourceKindHTTP"
      "xsrc_HTTP (easspec_Source (eas_spec s)) = Some h"
      "validateHTTPSource W h (xsrc_SecretRef (easspec_Source (eas_spec s)) \<noteq> None) = None"
  | q where "xsrc_Kind (easspec_Source (eas_spec s)) = ExternalSourceKindSQL"
      "xsrc_SQL (easspec_Source (eas_spec s)) = Some q" "validateSQLSource W q = None"
  using assms by (auto simp: sync_validateSource_def Let_def split: option.split_asm if_split_asm)

lemma trim_space_Nil: "trim_space [] = []"
  by code_simp

lemma factory_http:
  assumes "xsrc_Kind spec = ExternalSourceKindHTTP" "xsrc_HTTP spec = Some h"
  obtains cfg where "buildExternalSourceFactory L uc spec secret = map_sum (\<lambda>err. err) HttpSource (NewHTTP L cfg)"
    "hcfg_URL cfg = hss_URL h" "hcfg_Method cfg = hss_Method h" "hcfg_RecordsPath cfg = hss_RecordsPath h"
    "hcfg_Headers cfg = []" "secret = None \<Longrightarrow> \<not> configHasCredentials cfg"
proof -
  let ?base = "\<lparr>hcfg_URL = hss_URL h, hcfg_Method = hss_Method h, hcfg_RecordsPath = hss_RecordsPath h,
    hcfg_BearerToken = [], hcfg_Username = [], hcfg_Password = [], hcfg_Headers = [], hcfg_Timeout = 0\<rparr>"
  let ?cfg = "case secret of None \<Rightarrow> ?base | Some sec \<Rightarrow>
    ?base\<lparr>hcfg_BearerToken := get_str (sec_Data sec) ''bearer-token'',
          hcfg_Username := get_str (sec_Data sec) ''username'',
          hcfg_Password := get_str (sec_Data sec) ''password''\<rparr>"
  have "buildExternalSourceFactory L uc spec secret = map_sum (\<lambda>err. err) HttpSource (NewHTTP L ?cfg)"
    using assms by (simp add: buildExternalSourceFactory_def Let_def)
  then show thesis
    by (rule that) (simp_all add: configHasCredentials_def split: option.split)
qed

lemma built_iff: "(\<exists>b. map_sum (\<lambda>err. err) f x = Inr b) \<longleftrightarrow> (\<exists>s. x = Inr s)"
  by (cases x) auto

text \<open>
  C23: which admitted synchronizations ever run.  For one that the webhook admits (with a URL
  without outer white space, and a Secret read only where one is referenced) the factory
  builds the source exactly when: for HTTP, the URL is https or carries no user information; for
  SQL, the Secret has a DSN that is not blank and the driver is one of the two supported.
  Neither condition is looked at by the webhook.
\<close>

theorem admitted_source_builds:
  assumes "same_urls W L" "sync_validateSource W s = None"
    and "\<And>h. xsrc_HTTP (easspec_Source (eas_spec s)) = Some h \<Longrightarrow> trim_space (hss_URL h) = hss_URL h"
    and "secret \<noteq> None \<Longrightarrow> xsrc_SecretRef (easspec_Source (eas_spec s)) \<noteq> None"
  shows "(\<exists>b. buildExternalSourceFactory L (wl_letter W) (easspec_Source (eas_spec s)) secret = Inr b) \<longleftrightarrow>
           (case (xsrc_HTTP (easspec_Source (eas_spec s)), xsrc_SQL (easspec_Source (eas_spec s))) of
              (Some h, _) \<Rightarrow> (\<exists>u. hl_ParseURL L (hss_URL h) = Inr u \<and> (su_Scheme u = ''https'' \<or> \<not> su_User u))
            | (None, Some q) \<Rightarrow>
                to_lower (trim_space (sss_Driver q)) \<in> {''postgres'', ''mysql''} \<and>
                (\<exists>sec. secret = Some sec \<and> trim_space (get_str (sec_Data sec) ''dsn'') \<noteq> [])
            | (None, None) \<Rightarrow> False)"
  using assms(2)
proof (cases rule: admitted_kinds)
  case (1 h)
  obtain p where p: "hss_URL h \<noteq> []" "wl_ParseURL W (hss_URL h) = Inr p" "pu_Host p \<noteq> []"
      "to_lower (pu_Scheme p) \<in> {''http'', ''https''}" "hss_Method h \<in> {'''', ''GET'', ''POST''}"
      "xsrc_SecretRef (easspec_Source (eas_spec s)) \<noteq> None \<longrightarrow> to_lower (pu_Scheme p) = ''https''"
    using admitted_http [OF 1(3) assms(3) [OF 1(2)]] by metis
  obtain u where u: "hl_ParseURL L (hss_URL h) = Inr u" "pu_Scheme p = su_Scheme u" "pu_Host p = su_Host u"
      "to_lower (su_Scheme u) = su_Scheme u"
    using same_urlsD [OF assms(1) p(2)] by metis
  obtain cfg where c: "buildExternalSourceFactory L (wl_letter W) (easspec_Source (eas_spec s)) secret =
      map_sum (\<lambda>err. err) HttpSource (NewHTTP L cfg)" "hcfg_URL cfg = hss_URL h" "hcfg_Method cfg = hss_Method h"
      "secret = None \<Longrightarrow> \<not> configHasCredentials cfg"
    by (rule factory_http [OF 1(1,2), of L "wl_letter W" secret]; rule that; simp)
  have "(\<exists>x. NewHTTP L cfg = Inr x) \<longleftrightarrow> su_Scheme u = ''https'' \<or> \<not> configHasCredentials cfg \<and> \<not> su_User u"
    by (rule NewHTTP_builds) (use p u c(2,3) assms(3) [OF 1(2)] in auto)
  moreover have "secret \<noteq> None \<Longrightarrow> su_Scheme u = ''https''" using p(6) u(2,4) assms(4) by simp
  ultimately show ?thesis
    using u(1) c(4) 1(2) unfolding c(1) built_iff by auto
next
  case (2 q)
  have none: "xsrc_HTTP (easspec_Source (eas_spec s)) = None"
    using assms(2) 2(1) by (auto simp: sync_validateSource_def Let_def split: option.split_asm if_split_asm)
  have q: "trim_space (sss_Query q) \<noteq> []" "validateReadOnlySQLQuery (wl_letter W) (sss_Query q) = None"
    using 2(3) by (auto simp: validateSQLSource_def split: option.split_asm if_split_asm)
  show ?thesis
    using 2(1,2) none q
    by (cases secret) (auto simp: buildExternalSourceFactory_def Let_def built_iff NewSQL_builds supportedDrivers_def
      trim_space_Nil)
qed

definition cmdb_lib :: http_lib where
  "cmdb_lib =
     \<lparr>hl_ParseURL = (\<lambda>t. Inr \<lparr>su_Scheme = ''https'', su_Host = ''cmdb.example.com'', su_User = False, su_Redacted = t\<rparr>),
      hl_ParseAddr = (\<lambda>_. None), hl_canonical = (\<lambda>k. k), hl_base64 = (\<lambda>t. t),
      hl_json = (\<lambda>t. Inr (JArray [JObject [(''id'', JString ''edge-1''), (''owner'', JString ''ana'')], JNull]))\<rparr>"

lemma billing_source_admitted: "sync_validateSource sample_wlib (billing_sync ''5m'') = None"
  using billing_sync_valid by (simp add: validateExternalAttributeSync_parts)

theorem admitted_source_builds_witness:
  "\<exists>b. buildExternalSourceFactory cmdb_lib (\<lambda>_. False) (easspec_Source (eas_spec (billing_sync ''5m''))) None = Inr b"
proof -
  have "to_lower ''https'' = ''https''" "trim_space ''https://cmdb.example.com'' = ''https://cmdb.example.com''"
    by code_simp+
  then have "same_urls sample_wlib cmdb_lib"
    and t: "\<And>h. xsrc_HTTP (easspec_Source (eas_spec (billing_sync ''5m''))) = Some h \<Longrightarrow> trim_space (hss_URL h) = hss_URL h"
    by (auto simp: same_urls_def sample_wlib_def cmdb_lib_def billing_sync_def)
  from admitted_source_builds [OF this(1) billing_source_admitted t, of None] show ?thesis
    by (simp add: billing_sync_def cmdb_lib_def sample_wlib_def)
qed

end
