(* ===== verification/Sync_EndToEnd.thy ===== *)
theory Sync_EndToEnd
  imports Source_Factory Sync_Claims
begin

text \<open>
  The reconciler of ExternalAttributeSync on the factory of \<open>cmd/main.go\<close> and the HTTP source:
  what a published claim says about the body the remote endpoint served.
\<close>

section \<open>The wiring\<close>

text \<open>The source a trace of the reconciler has built: that of the last call of the factory.\<close>

definition built_in :: "http_lib \<Rightarrow> (string \<Rightarrow> bool) \<Rightarrow> xcall list \<Rightarrow> built_source option" where
  "built_in L uc tr =
     fold (\<lambda>call b. case call of
        XFactory spec secret \<Rightarrow>
          (case buildExternalSourceFactory L uc spec secret of Inl _ \<Rightarrow> None | Inr src \<Rightarrow> Some src)
      | _ \<Rightarrow> b) tr None"

text \<open>
  The environment of the reconciler with the operator's own factory and HTTP source; \<open>C\<close> is the
  network as a function of the calls made so far.
\<close>

definition http_wired ::
    "http_lib \<Rightarrow> (string \<Rightarrow> bool) \<Rightarrow> (xcall list \<Rightarrow> http_client) \<Rightarrow> xenv \<Rightarrow> bool" where
  "http_wired L uc C E \<longleftrightarrow>
     (\<forall>tr spec secret. xe_Factory E (tr @ [XFactory spec secret]) =
        (case buildExternalSourceFactory L uc spec secret of Inl err \<Rightarrow> Some err | Inr _ \<Rightarrow> None)) \<and>
     (\<forall>tr src. built_in L uc tr = Some (HttpSource src) \<longrightarrow> xe_Fetch E tr = http_Fetch L (C tr) src)"

lemma built_in_snoc:
  "built_in L uc (tr @ [call]) =
     (case call of
        XFactory spec secret \<Rightarrow>
          (case buildExternalSourceFactory L uc spec secret of Inl _ \<Rightarrow> None | Inr src \<Rightarrow> Some src)
      | _ \<Rightarrow> built_in L uc tr)"
  by (simp add: built_in_def split: xcall.split)

lemma built_in_wait: "waited tr pre \<Longrightarrow> built_in L uc pre = built_in L uc tr"
  by (auto simp: waited_def built_in_snoc)

lemma built_in_waited:
  assumes "source_built E s pre" "http_wired L uc C E"
    and "xsrc_Kind (easspec_Source (eas_spec s)) = ExternalSourceKindHTTP"
    and "xsrc_HTTP (easspec_Source (eas_spec s)) = Some h"
  obtains src cfg where "built_in L uc (pre @ [XFetch]) = Some (HttpSource src)" "NewHTTP L cfg = Inr src"
    "hcfg_RecordsPath cfg = hss_RecordsPath h" "hcfg_URL cfg = hss_URL h"
proof -
  let ?spec = "easspec_Source (eas_spec s)"
  obtain tr secret where f: "xe_Factory E (tr @ [XFactory ?spec secret]) = None"
    and w: "waited (tr @ [XFactory ?spec secret]) pre"
    using assms(1) unfolding source_built_def by blast
  obtain cfg where c: "buildExternalSourceFactory L uc ?spec secret = map_sum (\<lambda>err. err) HttpSource (NewHTTP L cfg)"
    "hcfg_URL cfg = hss_URL h" "hcfg_RecordsPath cfg = hss_RecordsPath h"
    by (rule factory_http [OF assms(3,4), of L uc secret]; rule that; simp)
  have "(case buildExternalSourceFactory L uc ?spec secret of Inl err \<Rightarrow> Some err | Inr _ \<Rightarrow> None) = None"
    using f assms(2) unfolding http_wired_def by simp
  then obtain src where src: "NewHTTP L cfg = Inr src" by (cases "NewHTTP L cfg") (simp_all add: c(1))
  have "built_in L uc (tr @ [XFactory ?spec secret]) = Some (HttpSource src)"
    by (simp add: built_in_snoc c(1) src)
  then have "built_in L uc pre = Some (HttpSource src)"
    using built_in_wait [OF w] by simp
  then have "built_in L uc (pre @ [XFetch]) = Some (HttpSource src)" by (simp add: built_in_snoc)
  then show thesis using src c(3,2) by (rule that)
qed

section \<open>From the body to the claim\<close>

text \<open>The fields of a JSON object as a record.\<close>

definition object_record :: "(string \<times> json) list \<Rightarrow> source_record" where
  "object_record obj = map (\<lambda>(k, v). (k, json_field v)) obj"

lemma set_object_records: "rec \<in> set (object_records arr) \<Longrightarrow> \<exists>obj. JObject obj \<in> set arr \<and> rec = object_record obj"
  by (induction arr) (auto simp: object_record_def split: json.splits)

text \<open>
  C18: what a claim from an HTTP source means.  With the operator's own factory and HTTP source,
  every attribute in the claim that a reconcile newly publishes was served: the endpoint
  answered with a 2xx status and a JSON body of at most ten megabytes that was read to its end,
  the array at the configured path has an object whose mapped field is the attribute's value
  and whose collector-ID field is the entry's collector, and that collector is a listed one the
  selector of the synchronization matches.
\<close>

theorem http_claim_was_served:
  assumes "klib_ok (xr_klib R)" "xe_Get E [XGet req] = Inr s" "http_wired L uc C E"
    and "xsrc_Kind (easspec_Source (eas_spec s)) = ExternalSourceKindHTTP"
    and "xsrc_HTTP (easspec_Source (eas_spec s)) = Some h"
    and "gomap_ok (am_AttributeFields (easspec_Mapping (eas_spec s)))"
    and upd: "XStatusUpdate s' \<in> set (rr_trace (sync_Reconcile R E limiters req))"
    and new: "easst_OwnedKeys (eas_status s') \<noteq> easst_OwnedKeys (eas_status s)"
    and entry: "entry \<in> set (easst_OwnedKeys (eas_status s'))" "map_of (oke_Attributes entry) k = Some v"
  shows "\<exists>tr resp q decoded arr obj f c collectors.
           hc_Do (C tr) q = Inr resp \<and> hq_URL q = hss_URL h \<and>
           200 \<le> hr_StatusCode resp \<and> hr_StatusCode resp < 300 \<and>
           hr_fail resp = None \<and> length (hr_bytes resp) \<le> 10 * 1024 * 1024 \<and>
           hl_json L (hr_bytes resp) = Inr decoded \<and>
           json_at (path_steps (hss_RecordsPath h)) decoded = Some (JArray arr) \<and> JObject obj \<in> set arr \<and>
           map_of (am_AttributeFields (easspec_Mapping (eas_spec s))) k = Some f \<and>
           FieldString (xl_formatFloat (xr_lib R)) (object_record obj) f = Some v \<and>
           FieldString (xl_formatFloat (xr_lib R)) (object_record obj)
             (am_CollectorIDField (easspec_Mapping (eas_spec s))) = Some (oke_CollectorID entry) \<and>
           xe_ListCollectors E (tr @ [XListCollectors (om_namespace (eas_meta s))]) = Inr collectors \<and>
           c \<in> set collectors \<and> cspec_ID (cl_spec c) = oke_CollectorID entry \<and>
           Match (xr_regex R) (selector_of (easspec_Selector (eas_spec s))) (oke_CollectorID entry)
             (cst_LocalAttributes (cl_status c))"
proof -
  obtain pre records collectors where pre: "source_built E s pre" and fetched: "fetched R E s pre records collectors"
    and owned: "easst_OwnedKeys (eas_status s') = claim_entries (sync_claim R s records collectors)"
    by (rule new_claim_published [OF assms(1,2) upd new]) (use entry(1) in auto)
  let ?m = "sync_claim R s records collectors" and ?map = "easspec_Mapping (eas_spec s)"
  have "?m (oke_CollectorID entry) = Some (oke_Attributes entry)"
    using entry(1) unfolding owned by (auto intro: claim_entries_claimed finite_dom_claimed)
  then obtain rec where rec: "rec \<in> set records" "oke_CollectorID entry \<in> selected_ids (xr_regex R) s collectors"
      "FieldString (xl_formatFloat (xr_lib R)) rec (am_CollectorIDField ?map) = Some (oke_CollectorID entry)"
      "oke_Attributes entry = record_attrs (xl_formatFloat (xr_lib R)) (am_AttributeFields ?map) rec"
    using claimed_record by (fastforce simp: record_claim_Some)
  obtain f where f: "map_of (am_AttributeFields ?map) k = Some f" "FieldString (xl_formatFloat (xr_lib R)) rec f = Some v"
    using entry(2) unfolding rec(4) record_attrs_lookup [OF assms(6)] by (auto split: option.splits)
  obtain src cfg where src: "built_in L uc (pre @ [XFetch]) = Some (HttpSource src)" "NewHTTP L cfg = Inr src"
    "hcfg_RecordsPath cfg = hss_RecordsPath h" "hcfg_URL cfg = hss_URL h"
    by (rule built_in_waited [OF pre assms(3-5)])
  obtain mth t where cfg: "hs_cfg src = cfg\<lparr>hcfg_Method := mth, hcfg_Timeout := t\<rparr>"
    using src(2) by (rule NewHTTP_cfg)
  have "http_Fetch L (C (pre @ [XFetch])) src = Inr records"
    using assms(3) src(1) fetched unfolding http_wired_def fetched_def by auto
  then obtain resp decoded arr where b: "hc_Do (C (pre @ [XFetch])) \<lparr>hq_Method = mth, hq_URL = hss_URL h,
        hq_Headers = request_headers L (hs_cfg src)\<rparr> = Inr resp" "200 \<le> hr_StatusCode resp" "hr_StatusCode resp < 300"
      "hr_fail resp = None" "int (length (hr_bytes resp)) \<le> successfulBodyLimit" "hl_json L (hr_bytes resp) = Inr decoded"
      "json_at (path_steps (hss_RecordsPath h)) decoded = Some (JArray arr)" "records = object_records arr"
    unfolding http_Fetch_Inr walkRecordsPath_Inr readLimitedBody_success by (auto simp: cfg src(3,4))
  obtain obj where obj: "JObject obj \<in> set arr" "rec = object_record obj"
    using set_object_records rec(1) b(8) by blast
  obtain c where c: "c \<in> set collectors" "cspec_ID (cl_spec c) = oke_CollectorID entry"
      "Match (xr_regex R) (selector_of (easspec_Selector (eas_spec s))) (oke_CollectorID entry) (cst_LocalAttributes (cl_status c))"
    using rec(2) by (auto simp: selected_ids_def)
  have "length (hr_bytes resp) \<le> 10 * 1024 * 1024" using b(5) by (simp add: successfulBodyLimit_def)
  moreover have "xe_ListCollectors E ((pre @ [XFetch]) @ [XListCollectors (om_namespace (eas_meta s))]) = Inr collectors"
    using fetched by (simp add: fetched_def)
  ultimately show ?thesis
    using b(1-4,6,7) obj f rec(3) c by (metis http_request.select_convs(2))
qed

section \<open>A run\<close>

text \<open>The inventory of \<open>Source_Factory\<close>, served to a reconcile of the billing synchronization.\<close>

definition cmdb_client :: http_client where
  "cmdb_client =
     \<lparr>hc_NewRequest = (\<lambda>_ _. None), hc_Do = (\<lambda>_. Inr \<lparr>hr_StatusCode = 200, hr_bytes = ''[]'', hr_fail = None\<rparr>)\<rparr>"

definition cmdb_env :: xenv where
  "cmdb_env =
     \<lparr>xe_Get = (\<lambda>_. Inr (billing_sync ''5m'')), xe_Now = (\<lambda>tr. 7 * second + int (length tr)),
      xe_GetSecret = (\<lambda>_. Inl (PlainError ''no secret'')),
      xe_Factory = (\<lambda>tr. case last tr of
         XFactory spec secret \<Rightarrow>
           (case buildExternalSourceFactory cmdb_lib (\<lambda>_. False) spec secret of Inl err \<Rightarrow> Some err | Inr _ \<Rightarrow> None)
       | _ \<Rightarrow> None),
      xe_Wait = (\<lambda>_. None),
      xe_Fetch = (\<lambda>tr. case built_in cmdb_lib (\<lambda>_. False) tr of
         Some (HttpSource src) \<Rightarrow> http_Fetch cmdb_lib cmdb_client src
       | _ \<Rightarrow> Inl (PlainError ''no source'')),
      xe_ListCollectors = (\<lambda>_. Inr [billing_collector]), xe_StatusUpdate = (\<lambda>_. None)\<rparr>"

lemma cmdb_wired: "http_wired cmdb_lib (\<lambda>_. False) (\<lambda>_. cmdb_client) cmdb_env"
  by (simp add: http_wired_def cmdb_env_def)

definition cmdb_source :: http_source where
  "cmdb_source =
     \<lparr>hs_cfg = \<lparr>hcfg_URL = ''https://cmdb.example.com'', hcfg_Method = ''GET'', hcfg_RecordsPath = [],
        hcfg_BearerToken = [], hcfg_Username = [], hcfg_Password = [], hcfg_Headers = [],
        hcfg_Timeout = 30 * second\<rparr>,
      hs_redactedURL = ''https://cmdb.example.com''\<rparr>"

abbreviation billing_source :: ExternalSource where
  "billing_source \<equiv> easspec_Source (eas_spec (billing_sync ''5m''))"

lemma cmdb_built:
  "buildExternalSourceFactory cmdb_lib (\<lambda>_. False) billing_source None = Inr (HttpSource cmdb_source)"
  by code_simp

abbreviation cmdb_records :: "source_record list" where
  "cmdb_records \<equiv> [[(''id'', FString ''edge-1''), (''owner'', FString ''ana'')]]"

lemma cmdb_fetch: "http_Fetch cmdb_lib cmdb_client cmdb_source = Inr cmdb_records"
  unfolding http_Fetch_Inr readLimitedBody_success walkRecordsPath_Inr
  by (simp add: cmdb_client_def cmdb_lib_def cmdb_source_def path_steps_def trim_space_Nil successfulBodyLimit_def)

lemma billing_matched:
  "matched_ids (\<lambda>_. None) (easspec_Selector (eas_spec (billing_sync ''5m''))) [billing_collector] = [''edge-1'']"
proof -
  have "matcherPattern ''team=billing'' = Some (''team'', MEq, ''billing'')" by code_simp
  then have "matchOne (\<lambda>_. None) ''team=billing'' ''edge-1'' [(''team'', ''billing''), (''collector.id'', ''edge-1'')] = Inr True"
    by (simp add: matchOne_def unquote_def get_str_def)
  then show ?thesis
    by (simp add: matched_ids_def billing_sync_def billing_collector_def cl_sample_def Match_iff selector_of_def
        buildSelectorAttrs_def)
qed

lemma billing_projection:
  "projectRecords ff cmdb_records (billing_sync ''5m'') [''edge-1''] = Inr ([(''edge-1'', [(''owner'', ''ana'')])], 1)"
  by (simp add: projectRecords_def project_loop_step record_claim_def billing_sync_def
      FieldString_def record_attrs_def Let_def)

definition billing_published :: ExternalAttributeSync where
  "billing_published = (billing_sync ''5m'')\<lparr>eas_status :=
     sync_success_status klib_ref (billing_sync ''5m'') (7 * second + 6) 1 1
       [\<lparr>oke_CollectorID = ''edge-1'', oke_Attributes = [(''owner'', ''ana'')]\<rparr>] 1\<rparr>"

abbreviation billing_req :: nsname where
  "billing_req \<equiv> \<lparr>nn_namespace = ''ns'', nn_name = ''cmdb''\<rparr>"

lemma billing_run:
  "XStatusUpdate billing_published \<in> set (rr_trace (sync_Reconcile sample_sync_reconciler cmdb_env [] billing_req))"
proof -
  have own: "ownedKeysToStatus [(''edge-1'', [(''owner'', ''ana'')])] =
      ([\<lparr>oke_CollectorID = ''edge-1'', oke_Attributes = [(''owner'', ''ana'')]\<rparr>], False)"
    by (simp add: ownedKeysToStatus_def maxOwnedKeys_def)
  have un: "\<not> externalSyncStatusUnchanged K (billing_sync ''5m'') m n os False" for K m n os
    by (simp add: externalSyncStatusUnchanged_def billing_sync_def)
  have spec: "easspec_Schedule (eas_spec (billing_sync ''5m'')) = ''5m''"
      "om_namespace (eas_meta (billing_sync ''5m'')) = ''ns''" "xsrc_SecretRef billing_source = None"
    by (simp_all add: billing_sync_def)
  show ?thesis
    by (simp add: sync_Reconcile_def sync_scheduleNext_def sample_sync_reconciler_def resolveSecret_def spec
        with_source_def limiterForSource_def cmdb_env_def cmdb_built built_in_def cmdb_fetch matchedCollectors_def
        billing_matched billing_projection publish_claim_def own un sync_write_def at_schedule_def
        sync_emitEvent_def with_close_def billing_published_def Let_def minute_def second_def)
qed

theorem http_claim_was_served_witness:
  "\<exists>arr obj. json_at [] (JArray [JObject [(''id'', JString ''edge-1''), (''owner'', JString ''ana'')], JNull]) =
       Some (JArray arr) \<and> JObject obj \<in> set arr \<and> FieldString (\<lambda>_. []) (object_record obj) ''owner'' = Some ''ana''"
proof -
  let ?entry = "\<lparr>oke_CollectorID = ''edge-1'', oke_Attributes = [(''owner'', ''ana'')]\<rparr>"
  have h: "xsrc_Kind billing_source = ExternalSourceKindHTTP"
      "xsrc_HTTP billing_source = Some \<lparr>hss_URL = ''https://cmdb.example.com'', hss_Method = ''GET'', hss_RecordsPath = []\<rparr>"
      "am_AttributeFields (easspec_Mapping (eas_spec (billing_sync ''5m''))) = [(''owner'', ''owner'')]"
    by (simp_all add: billing_sync_def)
  have own: "easst_OwnedKeys (eas_status billing_published) = [?entry]"
      "easst_OwnedKeys (eas_status (billing_sync ''5m'')) = []"
    by (simp_all add: billing_published_def sync_success_status_def billing_sync_def Let_def)
  have "path_steps [] = []" by code_simp
  moreover have "klib_ok (xr_klib sample_sync_reconciler)" "xe_Get cmdb_env [XGet billing_req] = Inr (billing_sync ''5m'')"
    by (simp_all add: sample_sync_reconciler_def klib_ref_ok cmdb_env_def)
  ultimately show ?thesis
    using http_claim_was_served [OF _ _ cmdb_wired h(1,2) _ billing_run, of ?entry "''owner''" "''ana''"]
    by (auto simp: own h(3) gomap_ok_def cmdb_lib_def sample_sync_reconciler_def split: if_splits)
qed

end
