(* ===== verification/Attribute_Flow.thy ===== *)
theory Attribute_Flow
  imports Collector_Sync Sync_Safety
begin

text \<open>
  The two reconcilers joined: a claim that the reconciler of ExternalAttributeSync publishes and the
  attributes the reconciler of Collector then sends to Fleet Management.
\<close>

section \<open>Entries of a claim\<close>

lemma findOwnedEntry_claim_entries:
  assumes "finite (dom m)"
  shows "findOwnedEntry (claim_entries m) i =
           map_option (\<lambda>a. \<lparr>oke_CollectorID = i, oke_Attributes = a\<rparr>) (m i)"
proof -
  have "findOwnedEntry (map (\<lambda>j. \<lparr>oke_CollectorID = j, oke_Attributes = the (m j)\<rparr>) js) i =
      (if i \<in> set js then Some \<lparr>oke_CollectorID = i, oke_Attributes = the (m i)\<rparr> else None)" for js
    by (induction js) auto
  then show ?thesis
    using assms by (cases "m i") (auto simp: claim_entries_def)
qed

lemma set_sync_entries:
  "set (map snd (sync_entries K cid ss)) =
     {oke_Attributes e | s e. s \<in> set ss \<and> externalSyncOwnedKeysUsable K s \<and>
        findOwnedEntry (easst_OwnedKeys (eas_status s)) cid = Some e}"
  by (induction K cid ss rule: sync_entries.induct) (auto split: option.splits)

lemma find_single:
  assumes "a \<in> set xs" "P a" "\<And>x. x \<in> set xs \<Longrightarrow> P x \<Longrightarrow> x = a"
  shows "find P xs = Some a"
  using assms by (metis find_None_iff find_Some_iff nth_mem not_None_eq)

lemma external_layer_single:
  assumes "s \<in> set syncs" "externalSyncOwnedKeysUsable K s"
    and "findOwnedEntry (easst_OwnedKeys (eas_status s)) cid = Some e" "map_of (oke_Attributes e) k = Some v"
    and "\<And>t e'. t \<in> set syncs \<Longrightarrow> externalSyncOwnedKeysUsable K t \<Longrightarrow>
           findOwnedEntry (easst_OwnedKeys (eas_status t)) cid = Some e' \<Longrightarrow> has_key (oke_Attributes e') k \<Longrightarrow> t = s"
  shows "map_of (ly_Attrs (external_layer K cid syncs)) k = Some v"
proof -
  let ?ss = "sort_key (\<lambda>s. full_name (eas_meta s)) syncs"
  have "find (\<lambda>m. has_key m k) (map snd (sync_entries K cid ?ss)) = Some (oke_Attributes e)"
  proof (rule find_single)
    show "oke_Attributes e \<in> set (map snd (sync_entries K cid ?ss))"
      unfolding set_sync_entries using assms(1-3) by auto
    show "has_key (oke_Attributes e) k" using assms(4) by (simp add: has_key_map_of)
    fix m
    assume "m \<in> set (map snd (sync_entries K cid ?ss))" "has_key m k"
    then show "m = oke_Attributes e"
      unfolding set_sync_entries using assms(3,5) by fastforce
  qed
  then show ?thesis
    using assms(4) by (simp add: external_layer_def Let_def map_of_claim_all)
qed

section \<open>From the claim to Fleet Management\<close>

text \<open>
  C19: a claim reaches Fleet Management.  When a reconcile of an ExternalAttributeSync publishes a
  claim, and a Collector reconcile that sees it (and no other usable claim on the same key of
  that collector) sends an update, then that update, applied to the attributes the collector
  had, gives the key the value of the fetched record, whatever the collector's own
  specification and the policies say.
\<close>

theorem claim_reaches_fleet:
  assumes "klib_ok (xr_klib X)" "cr_klib R = xr_klib X" "xe_Get E1 [XGet sreq] = Inr s"
    and pub: "XStatusUpdate s' \<in> set (rr_trace (sync_Reconcile X E1 limiters sreq))"
      "easst_OwnedKeys (eas_status s') \<noteq> easst_OwnedKeys (eas_status s)" "easst_OwnedKeys (eas_status s') \<noteq> []"
    and get: "ce_Get E [CcGet req] = Inr c" "\<not> om_deleting (cl_meta c)"
    and syncs: "\<And>tr. ce_ListSyncs E tr = Inr syncs" "s' \<in> set syncs"
    and only: "\<And>t e. t \<in> set syncs \<Longrightarrow> externalSyncOwnedKeysUsable (xr_klib X) t \<Longrightarrow>
      findOwnedEntry (easst_OwnedKeys (eas_status t)) (cspec_ID (cl_spec c)) = Some e \<Longrightarrow>
      has_key (oke_Attributes e) k \<Longrightarrow> t = s'"
    and bulk: "CcBulkUpdate ids ops \<in> set (rr_trace (collector_Reconcile R E req))"
  shows "\<exists>live pre records collectors.
           ids = [cspec_ID (cl_spec c)] \<and>
           ce_GetCollector E [CcGet req, CcGetCollector (cspec_ID (cl_spec c))] = Inr live \<and>
           fetched X E1 s pre records collectors \<and>
           easst_OwnedKeys (eas_status s') = claim_entries (sync_claim X s records collectors) \<and>
           (\<forall>attrs v. sync_claim X s records collectors (cspec_ID (cl_spec c)) = Some attrs \<and> map_of attrs k = Some v \<longrightarrow>
              apply_ops ops (map_of (fc_RemoteAttributes live)) k = Some v)"
proof -
  obtain pre records collectors where fetched: "fetched X E1 s pre records collectors"
    and claim: "easst_OwnedKeys (eas_status s') = claim_entries (sync_claim X s records collectors)"
      "externalSyncOwnedKeysUsable (xr_klib X) s'"
    by (rule new_claim_published [OF assms(1,3) pub])
  let ?m = "sync_claim X s records collectors" and ?cid = "cspec_ID (cl_spec c)"
  obtain live syncs' policies where b: "ids = [?cid]"
    "ce_GetCollector E [CcGet req, CcGetCollector ?cid] = Inr live" "syncs' = syncs"
    "ops = Diff (fst (Merge (collector_layers R c live syncs' policies)))
             (fc_RemoteAttributes live) (allOwnedKeys (cst_AttributeOwners (cl_status c)))"
    using bulk_of_reconcile [OF get bulk] syncs(1) by (auto simp: bulk_from_def)
  have "apply_ops ops (map_of (fc_RemoteAttributes live)) k = Some v"
    if "?m ?cid = Some attrs" "map_of attrs k = Some v" for attrs v
  proof -
    have "findOwnedEntry (easst_OwnedKeys (eas_status s')) ?cid = Some \<lparr>oke_CollectorID = ?cid, oke_Attributes = attrs\<rparr>"
      using that(1) by (simp add: claim(1) findOwnedEntry_claim_entries finite_dom_claimed)
    from external_layer_single [OF syncs(2) claim(2) this _ only] that(2)
    have "map_of (ly_Attrs (external_layer (cr_klib R) ?cid syncs)) k = Some v"
      by (simp add: assms(2))
    then have "wanted (collector_layers R c live syncs policies) k = Some v"
      by (simp add: collector_layers_def wanted_three)
    then show ?thesis
      unfolding b(4) b(3) by (simp add: keyed_Diff_apply gomap_ok_Merge Merge_lookup wanted_def)
  qed
  with b(1,2) fetched claim(1) show ?thesis by blast
qed

text \<open>The published sample claim (\<open>team\<close> is \<open>b\<close>) meets a collector that has \<open>team\<close> set to \<open>x\<close>.\<close>

definition flow_env :: cenv where
  "flow_env = (cl_env (cl_sample False []) (cl_live cl_remote))\<lparr>ce_ListSyncs := (\<lambda>_. Inr [sync_published])\<rparr>"

definition flow_layers :: "layer list" where
  "flow_layers = collector_layers cl_reconciler (cl_sample False []) (cl_live cl_remote) [sync_published] []"

definition flow_ops :: "operation list" where
  "flow_ops = Diff (fst (Merge flow_layers)) cl_remote []"

lemma sync_published_entry:
  "findOwnedEntry (easst_OwnedKeys (eas_status sync_published)) ''edge-1'' =
     Some \<lparr>oke_CollectorID = ''edge-1'', oke_Attributes = [(''team'', ''b'')]\<rparr>"
  "easst_OwnedKeys (eas_status sync_published) = [\<lparr>oke_CollectorID = ''edge-1'', oke_Attributes = [(''team'', ''b'')]\<rparr>]"
  "easst_OwnedKeys (eas_status sync_sample) = [\<lparr>oke_CollectorID = ''edge-1'', oke_Attributes = [(''team'', ''a'')]\<rparr>]"
  by (simp_all add: sync_published_def sync_success_status_def sync_sample_def Let_def)

lemma sync_published_usable: "externalSyncOwnedKeysUsable klib_ref sync_published"
proof -
  have "XStatusUpdate sync_published \<in> set (rr_trace
      (sync_Reconcile sync_reconciler (sync_env sync_sample (Inr sync_records)) [] sync_req))"
    by (simp add: sync_sample_publishes)
  from new_claim_published [OF sync_klib_ok _ this, of sync_sample]
  have "externalSyncOwnedKeysUsable (xr_klib sync_reconciler) sync_published"
    by (auto simp: sync_env_def sync_published_entry)
  then show ?thesis by (simp add: sync_reconciler_def)
qed

lemma flow_bulk:
  "CcBulkUpdate [''edge-1''] flow_ops \<in> set (rr_trace (collector_Reconcile cl_reconciler flow_env cl_req))"
proof -
  have run: "collector_Reconcile cl_reconciler flow_env cl_req =
      apply_layers cl_reconciler flow_env (cl_sample False []) (cl_live cl_remote) flow_layers
        (gather cl_req (cl_sample False []))"
    unfolding flow_layers_def by (rule reconcile_answers [OF cl_sample_active])
      (simp add: answers_def flow_env_def cl_env_def)
  have "map_of (ly_Attrs (external_layer klib_ref ''edge-1'' [sync_published])) ''team'' = Some ''b''"
    by (rule external_layer_single [OF _ sync_published_usable sync_published_entry(1)]) simp_all
  then have "wanted flow_layers ''team'' = Some ''b''"
    by (simp add: flow_layers_def collector_layers_def wanted_three cl_reconciler_def cl_sample_def)
  then have "apply_ops flow_ops (map_of cl_remote) ''team'' = Some ''b''"
    unfolding flow_ops_def keyed_Diff_apply [OF gomap_ok_Merge] by (simp only: Merge_lookup wanted_def option.case)
  then have "flow_ops \<noteq> []" by (auto simp: apply_ops_Nil)
  moreover obtain desired owners where m: "Merge flow_layers = (desired, owners)" by fastforce
  ultimately show ?thesis
    unfolding run apply_layers_def
    by (auto simp: flow_ops_def cl_live_def flow_env_def cl_env_def collector_updateStatusSuccess_def
        collector_emitEvent_def cl_reconciler_def Let_def cl_sample_def allOwnedKeys_def)
qed

theorem claim_reaches_fleet_witness:
  "apply_ops flow_ops (map_of cl_remote) ''team'' = Some ''b''"
proof -
  have pub: "XStatusUpdate sync_published \<in> set (rr_trace
      (sync_Reconcile sync_reconciler (sync_env sync_sample (Inr sync_records)) [] sync_req))"
    by (simp add: sync_sample_publishes)
  have get: "ce_Get flow_env [CcGet cl_req] = Inr (cl_sample False [])" "\<not> om_deleting (cl_meta (cl_sample False []))"
      "cspec_ID (cl_spec (cl_sample False [])) = ''edge-1''"
    by (simp_all add: flow_env_def cl_env_def cl_sample_def)
  have syncs: "ce_ListSyncs flow_env tr = Inr [sync_published]" for tr
    by (simp add: flow_env_def)
  have "xe_Get (sync_env sync_sample (Inr sync_records)) [XGet sync_req] = Inr sync_sample"
    by (simp add: sync_env_def)
  from claim_reaches_fleet [OF sync_klib_ok _ this pub _ _ get(1,2) syncs _ _ flow_bulk, of "''team''"]
  obtain live pre records collectors where w:
    "ce_GetCollector flow_env [CcGet cl_req, CcGetCollector ''edge-1''] = Inr live"
    "fetched sync_reconciler (sync_env sync_sample (Inr sync_records)) sync_sample pre records collectors"
    "\<forall>attrs v. sync_claim sync_reconciler sync_sample records collectors ''edge-1'' = Some attrs \<and>
       map_of attrs ''team'' = Some v \<longrightarrow> apply_ops flow_ops (map_of (fc_RemoteAttributes live)) ''team'' = Some v"
    by (auto simp: sync_published_entry get(3) cl_reconciler_def sync_reconciler_def)
  have "live = cl_live cl_remote" "records = sync_records" "collectors = [cl_sample False []]"
    using w(1,2) by (simp_all add: flow_env_def cl_env_def fetched_def sync_env_def)
  moreover have "sync_claim sync_reconciler sync_sample sync_records [cl_sample False []] ''edge-1'' = Some [(''team'', ''b'')]"
  proof -
    have "selected_ids (xr_regex sync_reconciler) sync_sample [cl_sample False []] = {''edge-1''}"
      unfolding selected_ids_def set_matched_ids [symmetric] sync_sample_matched by simp
    then show ?thesis
      using fun_cong [OF projected(2) [OF sync_sample_projection, of "xl_formatFloat (xr_lib sync_reconciler)"],
        of "''edge-1''"]
      by simp
  qed
  ultimately show ?thesis using w(3) by (simp add: cl_live_def)
qed

section \<open>Waking the Collector reconciler\<close>

lemma map_insort_key:
  "map (\<lambda>x. (f x, g x)) (insort_key f a xs) = insort_key fst (f a, g a) (map (\<lambda>x. (f x, g x)) xs)"
  by (induction xs) auto

lemma map_sort_key_pairs:
  "map (\<lambda>x. (f x, g x)) (sort_key f xs) = sort_key fst (map (\<lambda>x. (f x, g x)) xs)"
  by (induction xs) (simp_all add: map_insort_key)

text \<open>A sorted list, seen through \<open>g\<close>, depends on the keys and on what \<open>g\<close> sees.\<close>

lemma map_sort_key_cong:
  assumes "map (\<lambda>x. (f x, g x)) xs = map (\<lambda>x. (f x, g x)) ys"
  shows "map g (sort_key f xs) = map g (sort_key f ys)"
proof -
  have "map g (sort_key f xs) = map snd (map (\<lambda>x. (f x, g x)) (sort_key f xs))" for xs
    by simp
  with assms show ?thesis unfolding map_sort_key_pairs by metis
qed

text \<open>The first map of a list that has the key.\<close>

definition look :: "(string \<rightharpoonup> string) list \<Rightarrow> string \<rightharpoonup> string" where
  "look ms k = (case find (\<lambda>m. m k \<noteq> None) ms of None \<Rightarrow> None | Some m \<Rightarrow> m k)"

lemma map_of_claim_all_look: "map_of (claim_all ms) k = look (map map_of ms) k"
  by (simp add: map_of_claim_all look_def find_map comp_def has_key_map_of split: option.splits)

text \<open>What one synchronization contributes to the layer of a collector.\<close>

definition contributes :: "klib \<Rightarrow> string \<Rightarrow> ExternalAttributeSync \<Rightarrow> (string \<rightharpoonup> string) option" where
  "contributes K cid s =
     (if externalSyncOwnedKeysUsable K s
      then map_option (\<lambda>e. map_of (oke_Attributes e)) (findOwnedEntry (easst_OwnedKeys (eas_status s)) cid)
      else None)"

lemma sync_entries_contributes:
  "map map_of (map snd (sync_entries K cid ss)) = List.map_filter (\<lambda>x. x) (map (contributes K cid) ss)"
  by (induction K cid ss rule: sync_entries.induct)
     (auto simp: contributes_def map_filter_simps split: option.splits)

lemma external_layer_cong:
  assumes "key_of (eas_meta s) = key_of (eas_meta s')" "contributes K cid s = contributes K cid s'"
  shows "map_of (ly_Attrs (external_layer K cid (xs @ s # ys))) =
           map_of (ly_Attrs (external_layer K cid (xs @ s' # ys)))"
proof -
  have "map (contributes K cid) (sort_key (\<lambda>s. full_name (eas_meta s)) (xs @ s # ys)) =
      map (contributes K cid) (sort_key (\<lambda>s. full_name (eas_meta s)) (xs @ s' # ys))"
    by (rule map_sort_key_cong) (use assms in \<open>simp add: key_of_def\<close>)
  then show ?thesis
    unfolding external_layer_def Let_def
    by (simp add: fun_eq_iff map_of_claim_all_look sync_entries_contributes del: map_map)
qed

text \<open>
  What every status write of the sync reconciler keeps: claims with distinct keys, and no claim
  beside the condition \<open>Truncated\<close>.  A claim may hold empty values, which the comparison of
  claims cannot tell from an absent key.
\<close>

definition well_claimed :: "klib \<Rightarrow> ExternalAttributeSync \<Rightarrow> bool" where
  "well_claimed K s \<longleftrightarrow> list_all (\<lambda>e. gomap_ok (oke_Attributes e)) (easst_OwnedKeys (eas_status s)) \<and>
     (\<not> externalSyncOwnedKeysUsable K s \<longrightarrow> easst_OwnedKeys (eas_status s) = [])"

definition claims_empty_value :: "ExternalAttributeSync \<Rightarrow> bool" where
  "claims_empty_value s \<longleftrightarrow> list_ex (\<lambda>e. [] \<in> snd ` set (oke_Attributes e)) (easst_OwnedKeys (eas_status s))"

lemma claim_stays_well:
  assumes "klib_ok (xr_klib R)" "xe_Get E [XGet req] = Inr s" "well_claimed (xr_klib R) s"
    and "XStatusUpdate s' \<in> set (rr_trace (sync_Reconcile R E limiters req))"
  shows "well_claimed (xr_klib R) s'"
  using sync_Reconcile_cases [OF assms(2), of R limiters]
proof (elim disjE [of "failed_run _ _ _"] exE conjE)
  assume "list_all (only_errors (xr_klib R) s) (rr_trace (sync_Reconcile R E limiters req))"
  with assms(4) obtain now reason err
    where "s' = s\<lparr>eas_status := sync_error_status (xr_klib R) s now reason err\<rparr>"
    by (blast dest: only_errors_update)
  with assms(3) show ?thesis
    by (simp add: well_claimed_def externalSyncOwnedKeysUsable_def sync_conds [OF assms(1)] sync_statuses)
next
  fix pre records collectors owned n nextRun
  let ?tr = "pre @ [XFetch, XListCollectors (om_namespace (eas_meta s))]"
  assume pre: "no_update pre"
    and owned: "projectRecords (xl_formatFloat (xr_lib R)) records s
      (matched_ids (xr_regex R) (easspec_Selector (eas_spec s)) collectors) = Inr (owned, n)"
    and run: "sync_Reconcile R E limiters req =
      with_close (publish_claim R E s nextRun records owned n ?tr)"
  have "no_update ?tr" using pre by simp
  note upd = publish_update [OF this assms(4) [unfolded run]]
  show ?thesis
  proof (cases "guarded s records")
    case True
    with upd have "s' = s\<lparr>eas_status := empty_result_status (xr_klib R) s (xe_Now E (?tr @ [XNow])) (length records)\<rparr>"
      by (simp only: Let_def if_True simp_thms)
    with assms(3) show ?thesis
      by (simp add: well_claimed_def externalSyncOwnedKeysUsable_def sync_conds [OF assms(1)] sync_statuses)
  next
    case False
    note ok = projected(1) [OF owned] and m = projected(2) [OF owned]
    have entries: "list_all (\<lambda>e. gomap_ok (oke_Attributes e)) (claim_entries (map_of owned))"
      by (auto simp: list_all_iff m claim_entries_def finite_dom_claimed dest: claimed_ok)
    from False upd have "s' = s\<lparr>eas_status :=
        (if card (dom (map_of owned)) > maxOwnedKeys
         then cap_exceeded_status (xr_klib R) s (xe_Now E (?tr @ [XNow])) (length records) n (length owned)
         else sync_success_status (xr_klib R) s (xe_Now E (?tr @ [XNow])) (length records) n
                (claim_entries (map_of owned)) (length owned))\<rparr>"
      by (simp only: Let_def if_False simp_thms ownedKeysToStatus_spec [OF ok] split: if_split) simp
    with entries show ?thesis
      by (simp add: well_claimed_def externalSyncOwnedKeysUsable_def sync_conds [OF assms(1)] sync_statuses)
  qed
qed

lemma findOwnedEntry_list_all2:
  "list_all2 (\<lambda>a b. oke_CollectorID a = oke_CollectorID b \<and>
               map_of (oke_Attributes a) = map_of (oke_Attributes b)) as bs \<Longrightarrow>
     map_option (\<lambda>e. map_of (oke_Attributes e)) (findOwnedEntry as cid) =
       map_option (\<lambda>e. map_of (oke_Attributes e)) (findOwnedEntry bs cid)"
  by (induction as bs rule: list_all2_induct) auto

lemma findOwnedEntry_None: "findOwnedEntry es cid = None \<longleftrightarrow> cid \<notin> oke_CollectorID ` set es"
  by (induction es) auto

lemma contributes_well:
  "well_claimed K s \<Longrightarrow>
     contributes K cid s =
       map_option (\<lambda>e. map_of (oke_Attributes e)) (findOwnedEntry (easst_OwnedKeys (eas_status s)) cid)"
  by (auto simp: contributes_def well_claimed_def)

lemma sync_event_wakes:
  assumes "well_claimed K s" "\<not> claims_empty_value s" "well_claimed K s'" "contributes K cid s \<noteq> contributes K cid s'" "cid \<noteq> []"
  shows "sync_update_passes s s'"
    "cid \<in> collectorIDsFromOwnedKeys (easst_OwnedKeys (eas_status s)) \<union>
           collectorIDsFromOwnedKeys (easst_OwnedKeys (eas_status s'))"
proof -
  have "\<not> ownedKeyEntriesEqual (easst_OwnedKeys (eas_status s)) (easst_OwnedKeys (eas_status s'))"
  proof
    assume "ownedKeyEntriesEqual (easst_OwnedKeys (eas_status s)) (easst_OwnedKeys (eas_status s'))"
    moreover have "list_all plain_entry (easst_OwnedKeys (eas_status s))"
      "list_all (\<lambda>e. gomap_ok (oke_Attributes e)) (easst_OwnedKeys (eas_status s'))"
      using assms(1-3) by (auto simp: well_claimed_def claims_empty_value_def plain_entry_def list_all_iff list_ex_iff)
    ultimately have "list_all2 (\<lambda>a b. oke_CollectorID a = oke_CollectorID b \<and>
        map_of (oke_Attributes a) = map_of (oke_Attributes b))
        (easst_OwnedKeys (eas_status s)) (easst_OwnedKeys (eas_status s'))"
      using owned_keys_comparison by blast
    from findOwnedEntry_list_all2 [OF this, of cid] assms(4) show False
      by (simp add: contributes_well [OF assms(1)] contributes_well [OF assms(3)])
  qed
  then show "sync_update_passes s s'" by (simp add: sync_update_passes_def)
  have "findOwnedEntry (easst_OwnedKeys (eas_status s)) cid \<noteq> None \<or>
      findOwnedEntry (easst_OwnedKeys (eas_status s')) cid \<noteq> None"
    using assms(4) by (auto simp: contributes_well [OF assms(1)] contributes_well [OF assms(3)])
  then show "cid \<in> collectorIDsFromOwnedKeys (easst_OwnedKeys (eas_status s)) \<union>
           collectorIDsFromOwnedKeys (easst_OwnedKeys (eas_status s'))"
    using assms(5) by (auto simp: findOwnedEntry_None collectorIDsFromOwnedKeys_def)
qed

lemma policy_layer_cong:
  assumes "key_of (rap_meta p) = key_of (rap_meta p')"
    and "(\<not> Match rx (selector_of (rapspec_Selector (rap_spec p))) cid attrs \<and>
          \<not> Match rx (selector_of (rapspec_Selector (rap_spec p'))) cid attrs) \<or> rap_spec p = rap_spec p'"
  shows "ly_Attrs (policy_layer rx cid attrs (xs @ p # ys)) = ly_Attrs (policy_layer rx cid attrs (xs @ p' # ys))"
proof -
  let ?hit = "\<lambda>p. Match rx (selector_of (rapspec_Selector (rap_spec p))) cid attrs"
  have "map (\<lambda>p. rapspec_Attributes (rap_spec p)) (sort_key rank_of (filter ?hit (xs @ p # ys))) =
      map (\<lambda>p. rapspec_Attributes (rap_spec p)) (sort_key rank_of (filter ?hit (xs @ p' # ys)))"
    by (rule map_sort_key_cong) (use assms in \<open>auto simp: rank_of_def key_of_def\<close>)
  then show ?thesis by (simp add: policy_layer_def matched_policies_def Let_def)
qed

text \<open>
  C20: which changes of the layers above and below a collector's own specification are noticed.
  Consider a registered collector and the attributes it should have: the highest layer that
  has a key decides. When an update of an ExternalAttributeSync changes them, then, unless the
  old claim holds an empty value (which the comparison of claims mistakes for an absent key),
  the update passes the predicate of the watch and the requests computed for the old and the
  new object name the collector's resource.  When an update of a RemoteAttributePolicy changes
  them, for the local attributes that the status of the Collector shows, it passes the
  predicate and names the resource as well; the API server raises the generation when a
  specification changes.  Every status write of the sync reconciler keeps its claims well
  formed (\<open>claim_stays_well\<close>).
\<close>

theorem collector_is_woken:
  assumes "c \<in> set items" "cspec_ID (cl_spec c) \<noteq> []"
    and "shown = live\<lparr>fc_LocalAttributes := cst_LocalAttributes (cl_status c)\<rparr>"
  shows "(key_of (eas_meta s) = key_of (eas_meta s') \<and> well_claimed (cr_klib R) s \<and> well_claimed (cr_klib R) s' \<and>
          wanted (collector_layers R c live (xs @ s # ys) ps) \<noteq> wanted (collector_layers R c live (xs @ s' # ys) ps) \<longrightarrow>
            claims_empty_value s \<or>
            sync_update_passes s s' \<and>
            key_of (cl_meta c) \<in> set (collectorsTouchedBySync s (Inr items)) \<union>
              set (collectorsTouchedBySync s' (Inr items))) \<and>
         (key_of (rap_meta p) = key_of (rap_meta p') \<and>
          (rap_spec p \<noteq> rap_spec p' \<longrightarrow> om_generation (rap_meta p) \<noteq> om_generation (rap_meta p')) \<and>
          wanted (collector_layers R c shown ss (us @ p # vs)) \<noteq> wanted (collector_layers R c shown ss (us @ p' # vs)) \<longrightarrow>
            policy_update_passes p p' \<and>
            key_of (cl_meta c) \<in> set (collectorsMatchedByPolicy (cr_regex R) p (Inr items)) \<union>
              set (collectorsMatchedByPolicy (cr_regex R) p' (Inr items)))"
proof (intro conjI impI; elim conjE)
  let ?cid = "cspec_ID (cl_spec c)"
  assume name: "key_of (eas_meta s) = key_of (eas_meta s')"
    and well: "well_claimed (cr_klib R) s" "well_claimed (cr_klib R) s'"
    and differ: "wanted (collector_layers R c live (xs @ s # ys) ps) \<noteq> wanted (collector_layers R c live (xs @ s' # ys) ps)"
  have new: "contributes (cr_klib R) ?cid s \<noteq> contributes (cr_klib R) ?cid s'"
    using differ external_layer_cong [OF name, of "cr_klib R" ?cid xs ys]
    by (auto simp: collector_layers_def wanted_three fun_eq_iff)
  show "claims_empty_value s \<or> sync_update_passes s s' \<and>
      key_of (cl_meta c) \<in> set (collectorsTouchedBySync s (Inr items)) \<union>
        set (collectorsTouchedBySync s' (Inr items))"
  proof (cases "claims_empty_value s")
    case False
    note wakes = sync_event_wakes [OF well(1) False well(2) new assms(2)]
    show ?thesis
      using wakes assms(1) by (auto simp: collectorsTouchedBySync_def Let_def)
  qed simp
next
  let ?hit = "\<lambda>p. Match (cr_regex R) (selector_of (rapspec_Selector (rap_spec p))) (cspec_ID (cl_spec c))
    (cst_LocalAttributes (cl_status c))"
  assume name: "key_of (rap_meta p) = key_of (rap_meta p')"
    and gen: "rap_spec p \<noteq> rap_spec p' \<longrightarrow> om_generation (rap_meta p) \<noteq> om_generation (rap_meta p')"
    and differ: "wanted (collector_layers R c shown ss (us @ p # vs)) \<noteq> wanted (collector_layers R c shown ss (us @ p' # vs))"
  let ?attrs = "\<lambda>ps. ly_Attrs (policy_layer (cr_regex R) (cspec_ID (cl_spec c)) (cst_LocalAttributes (cl_status c)) ps)"
  have "?attrs (us @ p # vs) \<noteq> ?attrs (us @ p' # vs)"
  proof
    assume "?attrs (us @ p # vs) = ?attrs (us @ p' # vs)"
    then have "wanted (collector_layers R c shown ss (us @ p # vs)) = wanted (collector_layers R c shown ss (us @ p' # vs))"
      by (simp add: collector_layers_def wanted_three assms(3) fun_eq_iff cong: option.case_cong)
    with differ show False ..
  qed
  then have "\<not> ((\<not> ?hit p \<and> \<not> ?hit p') \<or> rap_spec p = rap_spec p')"
    using policy_layer_cong [OF name] by blast
  with gen show "policy_update_passes p p'"
      "key_of (cl_meta c) \<in> set (collectorsMatchedByPolicy (cr_regex R) p (Inr items)) \<union>
        set (collectorsMatchedByPolicy (cr_regex R) p' (Inr items))"
    using assms(1) by (auto simp: policy_update_passes_def collectorsMatchedByPolicy_def)
qed

text \<open>The claim of the sample synchronization before and after it is published.\<close>

theorem collector_is_woken_witness:
  "sync_update_passes sync_sample sync_published \<and>
   key_of (cl_meta (cl_sample False [])) \<in>
     set (collectorsTouchedBySync sync_published (Inr [cl_sample False []]))"
proof -
  let ?c = "cl_sample False []"
  let ?live = "(cl_live cl_remote)\<lparr>fc_LocalAttributes := cst_LocalAttributes (cl_status ?c)\<rparr>"
  have usable: "externalSyncOwnedKeysUsable klib_ref sync_sample"
    by (simp add: externalSyncOwnedKeysUsable_def sync_sample_def klib_ref_def cond_at_def)
  have entry: "findOwnedEntry (easst_OwnedKeys (eas_status sync_sample)) ''edge-1'' =
      Some \<lparr>oke_CollectorID = ''edge-1'', oke_Attributes = [(''team'', ''a'')]\<rparr>"
    by (simp add: sync_published_entry)
  have lay: "map_of (ly_Attrs (external_layer klib_ref ''edge-1'' [sync_sample])) ''team'' = Some ''a''"
    "map_of (ly_Attrs (external_layer klib_ref ''edge-1'' [sync_published])) ''team'' = Some ''b''"
    by (rule external_layer_single [OF _ usable entry] external_layer_single [OF _ sync_published_usable sync_published_entry(1)];
        simp)+
  have c: "cspec_ID (cl_spec ?c) = ''edge-1''" "cr_klib cl_reconciler = klib_ref"
    by (simp_all add: cl_sample_def cl_reconciler_def)
  let ?w = "\<lambda>s. wanted (collector_layers cl_reconciler ?c ?live ([] @ s # []) [])"
  have w: "?w sync_sample ''team'' = Some ''a''" "?w sync_published ''team'' = Some ''b''"
    using lay by (simp_all add: collector_layers_def wanted_three c)
  have differ: "?w sync_sample \<noteq> ?w sync_published"
  proof
    assume "?w sync_sample = ?w sync_published"
    from fun_cong [OF this, of "''team''"] show False unfolding w by simp
  qed
  have plain: "well_claimed (cr_klib cl_reconciler) sync_sample" "well_claimed (cr_klib cl_reconciler) sync_published"
    unfolding c(2) using usable sync_published_usable
    by (simp_all add: well_claimed_def sync_published_entry)
  have "\<not> claims_empty_value sync_sample"
    by (simp add: claims_empty_value_def sync_published_entry)
  have name: "key_of (eas_meta sync_sample) = key_of (eas_meta sync_published)"
    by (simp add: sync_published_def)
  have "?c \<in> set [?c]" "cspec_ID (cl_spec ?c) \<noteq> []"
    by (simp_all add: c(1))
  note woken = collector_is_woken [OF this refl, THEN conjunct1, THEN mp, OF conjI, OF name conjI, OF plain(1) conjI, OF plain(2) differ]
  have "sync_update_passes sync_sample sync_published"
    using woken \<open>\<not> claims_empty_value sync_sample\<close> by blast
  moreover have "key_of (cl_meta ?c) \<in> set (collectorsTouchedBySync sync_published (Inr [?c]))"
    by (simp add: collectorsTouchedBySync_def collectorIDsFromOwnedKeys_def sync_published_entry(2) c(1) Let_def)
  ultimately show ?thesis ..
qed

end
