(* ===== verification/Operator_Main.thy ===== *)
theory Operator_Main
  imports Source_Factory Fleet_Transport Pipeline_Types
begin

text \<open>
  \<open>cmd/main.go\<close>: the checks of the command line and the environment, and which controllers and
  webhooks the manager runs, with what.  The manager, the API clients and the environment are
  parameters: \<open>me_fails\<close> answers each call, as a function of the calls made so far.  Left out are
  the parsing of the command line, which the flags and their defaults describe, and the logger.
\<close>

section \<open>Flags, environment and calls\<close>

record operator_flags =
  fl_metricsAddr :: string
  fl_probeAddr :: string
  fl_enableLeaderElection :: bool
  fl_secureMetrics :: bool
  fl_webhookPort :: int
  fl_webhookCertPath :: string
  fl_webhookCertName :: string
  fl_webhookCertKey :: string
  fl_enableHTTP2 :: bool
  fl_enablePipelineController :: bool
  fl_enableCollectorController :: bool
  fl_enablePolicyController :: bool
  fl_enableExternalSyncController :: bool
  fl_enableCollectorDiscoveryController :: bool
  fl_enablePipelineDiscoveryController :: bool
  fl_enableTenantPolicyEnforcement :: bool
  fl_enforceCrossNamespaceDiscoveryAuthz :: bool
  fl_externalSourceSecretLabelSelector :: string
  fl_pipelineNameScope :: string
  fl_fleetAPIRPS :: "64 word"
  fl_fleetAPIBurst :: int
  fl_policyMaxConcurrent :: int
  fl_syncMaxConcurrent :: int
  fl_discoveryMaxConcurrent :: int
  fl_pipelineDiscoveryMaxConcurrent :: int
  fl_syncSourceTargetRate :: "64 word"
  fl_syncSourceTargetBurst :: int
  fl_leaderElectionLeaseDuration :: int
  fl_leaderElectionRenewDeadline :: int
  fl_leaderElectionRetryPeriod :: int

definition default_flags :: operator_flags where
  "default_flags =
     \<lparr>fl_metricsAddr = ''0'', fl_probeAddr = '':8081'', fl_enableLeaderElection = False,
      fl_secureMetrics = True, fl_webhookPort = 9443, fl_webhookCertPath = [],
      fl_webhookCertName = ''tls.crt'', fl_webhookCertKey = ''tls.key'', fl_enableHTTP2 = False,
      fl_enablePipelineController = True, fl_enableCollectorController = False,
      fl_enablePolicyController = False, fl_enableExternalSyncController = False,
      fl_enableCollectorDiscoveryController = False, fl_enablePipelineDiscoveryController = False,
      fl_enableTenantPolicyEnforcement = False, fl_enforceCrossNamespaceDiscoveryAuthz = False,
      fl_externalSourceSecretLabelSelector = [], fl_pipelineNameScope = ''none'',
      fl_fleetAPIRPS = f64_three, fl_fleetAPIBurst = 50, fl_policyMaxConcurrent = 4, fl_syncMaxConcurrent = 4,
      fl_discoveryMaxConcurrent = 1, fl_pipelineDiscoveryMaxConcurrent = 1, fl_syncSourceTargetRate = 0,
      fl_syncSourceTargetBurst = 4, fl_leaderElectionLeaseDuration = 15 * second,
      fl_leaderElectionRenewDeadline = 10 * second, fl_leaderElectionRetryPeriod = 2 * second\<rparr>"

text \<open>
  What the manager is built with.  \<open>mo_HTTP1Only\<close>: the TLS options of both servers hold
  \<open>disableHTTP2\<close>; \<open>mo_MetricsAuth\<close>: the metrics server filters by authentication and authorization;
  an empty \<open>mo_SecretSelector\<close> caches every Secret.
\<close>

record manager_options =
  mo_HTTP1Only :: bool
  mo_WebhookPort :: int
  mo_CertFiles :: "(string \<times> string \<times> string) option"
  mo_MetricsAddr :: string
  mo_SecureServing :: bool
  mo_MetricsAuth :: bool
  mo_ProbeAddr :: string
  mo_LeaderElection :: bool
  mo_LeaderElectionID :: string
  mo_ReleaseOnCancel :: bool
  mo_LeaseDuration :: int
  mo_RenewDeadline :: int
  mo_RetryPeriod :: int
  mo_SecretSelector :: string

text \<open>
  A tenant checker is passed to a webhook or not, likewise the reviewer of cross-namespace
  discoveries.  The client gets the tracer of the exporter or one that does nothing.  \<open>McStat\<close> names the
  certificate directory and the file in it, if any, that is looked for.
\<close>

datatype main_call =
    McNewManager manager_options
  | McOtelExporter
  | McOtelResource
  | McOtelShutdownHook
  | McNewFleetClient string string string "64 word" int bool
  | McTenantPolicyController
  | McTenantPolicyWebhook
  | McReviewerClientset
  | McShutdownHook
  | McPipelineController string
  | McPipelineWebhook bool string
  | McCollectorController
  | McCollectorWebhook
  | McPolicyController int
  | McPolicyWebhook bool
  | McSyncController int "64 word" int string
  | McSyncWebhook bool
  | McCollectorDiscoveryController int
  | McCollectorDiscoveryWebhook bool bool
  | McPipelineDiscoveryController int
  | McPipelineDiscoveryWebhook bool
  | McHealthCheck string
  | McReadyCheck string
  | McStat string "string option"
  | McStart

record main_env =
  me_Getenv :: "string \<Rightarrow> string"
  me_labels :: "string \<Rightarrow> go_error option"
  me_http :: http_lib
  me_fails :: "main_call list \<Rightarrow> go_error option"

section \<open>The manager\<close>

text \<open>\<open>os.Exit(1)\<close> on the first call that fails; \<open>True\<close>: all succeeded.\<close>

fun must :: "main_env \<Rightarrow> main_call list \<Rightarrow> main_call list \<Rightarrow> main_call list \<times> bool" where
  "must E [] tr = (tr, True)"
| "must E (call # calls) tr =
     (let tr = tr @ [call]
      in case me_fails E tr of Some _ \<Rightarrow> (tr, False) | None \<Rightarrow> must E calls tr)"

definition validNameScope :: "operator_flags \<Rightarrow> bool" where
  "validNameScope f \<longleftrightarrow>
     \<not> (fl_pipelineNameScope f \<noteq> NameScopeNone \<and> fl_pipelineNameScope f \<noteq> NameScopeNamespace)"

definition validSecretSelector :: "operator_flags \<Rightarrow> main_env \<Rightarrow> bool" where
  "validSecretSelector f E \<longleftrightarrow>
     (if fl_externalSourceSecretLabelSelector f \<noteq> [] then me_labels E (fl_externalSourceSecretLabelSelector f) = None
      else True)"

definition controllersEnabled :: "operator_flags \<Rightarrow> bool" where
  "controllersEnabled f \<longleftrightarrow>
     \<not> (\<not> fl_enablePipelineController f \<and> \<not> fl_enableCollectorController f \<and>
        \<not> fl_enablePolicyController f \<and> \<not> fl_enableExternalSyncController f \<and>
        \<not> fl_enableCollectorDiscoveryController f \<and> \<not> fl_enablePipelineDiscoveryController f) \<and>
     \<not> (fl_enableCollectorDiscoveryController f \<and> \<not> fl_enableCollectorController f)"

text \<open>The Fleet Management credentials: base URL, user name and password.\<close>

definition fleetCredentials :: "main_env \<Rightarrow> (string \<times> string \<times> string) option" where
  "fleetCredentials E =
     (let fleetBaseURL = me_Getenv E ''FLEET_MANAGEMENT_BASE_URL''
      in if fleetBaseURL = [] then None
         else if validateFleetBaseURL (me_http E) fleetBaseURL \<noteq> None then None
         else
           (let fleetUsername = me_Getenv E ''FLEET_MANAGEMENT_USERNAME''
            in if fleetUsername = [] then None
               else
                 (let fleetPassword = me_Getenv E ''FLEET_MANAGEMENT_PASSWORD''
                  in if fleetPassword = [] then None
                     else Some (fleetBaseURL, fleetUsername, fleetPassword))))"

definition manager_options_of :: "operator_flags \<Rightarrow> manager_options" where
  "manager_options_of f =
     \<lparr>mo_HTTP1Only = \<not> fl_enableHTTP2 f, mo_WebhookPort = fl_webhookPort f,
      mo_CertFiles = (if length (fl_webhookCertPath f) > 0
        then Some (fl_webhookCertPath f, fl_webhookCertName f, fl_webhookCertKey f) else None),
      mo_MetricsAddr = fl_metricsAddr f, mo_SecureServing = fl_secureMetrics f,
      mo_MetricsAuth = fl_secureMetrics f, mo_ProbeAddr = fl_probeAddr f,
      mo_LeaderElection = fl_enableLeaderElection f, mo_LeaderElectionID = ''0fcf8538.grafana.com'',
      mo_ReleaseOnCancel = True, mo_LeaseDuration = fl_leaderElectionLeaseDuration f,
      mo_RenewDeadline = fl_leaderElectionRenewDeadline f, mo_RetryPeriod = fl_leaderElectionRetryPeriod f,
      mo_SecretSelector = fl_externalSourceSecretLabelSelector f\<rparr>"

text \<open>Tracing is best effort: without an exporter the operator runs untraced.\<close>

definition setup_tracing :: "main_env \<Rightarrow> main_call list \<Rightarrow> main_call list \<times> bool" where
  "setup_tracing E tr =
     (if me_Getenv E ''OTEL_EXPORTER_OTLP_ENDPOINT'' = [] then (tr, False)
      else
        (let tr = tr @ [McOtelExporter]
         in case me_fails E tr of
              Some _ \<Rightarrow> (tr, False)
            | None \<Rightarrow> (tr @ [McOtelResource, McOtelShutdownHook], True)))"

definition shared_setup :: "operator_flags \<Rightarrow> main_call list" where
  "shared_setup f =
     [McTenantPolicyController, McTenantPolicyWebhook] @
     (if fl_enforceCrossNamespaceDiscoveryAuthz f then [McReviewerClientset] else []) @
     [McShutdownHook]"

definition registrations :: "operator_flags \<Rightarrow> main_call list" where
  "registrations f =
     (let tenantChecker = fl_enableTenantPolicyEnforcement f;
          discoveryReviewer = fl_enforceCrossNamespaceDiscoveryAuthz f
      in (if fl_enablePipelineController f then
            [McPipelineController (fl_pipelineNameScope f), McPipelineWebhook tenantChecker (fl_pipelineNameScope f)]
          else []) @
         (if fl_enableCollectorController f then [McCollectorController, McCollectorWebhook] else []) @
         (if fl_enablePolicyController f then [McPolicyController (fl_policyMaxConcurrent f)] else []) @
         (if fl_enablePolicyController f \<or> fl_enableCollectorController f then [McPolicyWebhook tenantChecker] else []) @
         (if fl_enableExternalSyncController f then
            [McSyncController (fl_syncMaxConcurrent f) (fl_syncSourceTargetRate f) (fl_syncSourceTargetBurst f)
               (fl_externalSourceSecretLabelSelector f),
             McSyncWebhook tenantChecker]
          else []) @
         (if fl_enableCollectorDiscoveryController f then
            [McCollectorDiscoveryController (fl_discoveryMaxConcurrent f),
             McCollectorDiscoveryWebhook tenantChecker discoveryReviewer]
          else []) @
         (if fl_enablePipelineDiscoveryController f then
            [McPipelineDiscoveryController (fl_pipelineDiscoveryMaxConcurrent f)]
          else []) @
         [McPipelineDiscoveryWebhook discoveryReviewer])"

definition startup_checks :: "operator_flags \<Rightarrow> main_call list" where
  "startup_checks f =
     [McHealthCheck ''healthz'', McReadyCheck ''readyz''] @
     (if fl_webhookCertPath f \<noteq> [] then
        [McStat (fl_webhookCertPath f) None, McStat (fl_webhookCertPath f) (Some (fl_webhookCertName f)),
         McStat (fl_webhookCertPath f) (Some (fl_webhookCertKey f))]
      else [])"

definition main_run :: "operator_flags \<Rightarrow> main_env \<Rightarrow> main_call list \<times> bool" where
  "main_run f E =
     (if \<not> validNameScope f then ([], False)
      else if \<not> validSecretSelector f E then ([], False)
      else
        (case must E [McNewManager (manager_options_of f)] [] of
           (tr, False) \<Rightarrow> (tr, False)
         | (tr, True) \<Rightarrow>
             if \<not> controllersEnabled f then (tr, False)
             else
               (let (tr, tracing) = setup_tracing E tr
                in case fleetCredentials E of
                     None \<Rightarrow> (tr, False)
                   | Some (url, username, password) \<Rightarrow>
                       (let tr = tr @ [McNewFleetClient url username password (fl_fleetAPIRPS f) (fl_fleetAPIBurst f) tracing]
                        in must E (shared_setup f @ registrations f @ startup_checks f @ [McStart]) tr))))"

section \<open>What a running operator runs\<close>

lemma must_trace:
  "must E calls tr = (tr', ok) \<Longrightarrow> \<exists>rest. tr @ calls = tr' @ rest \<and> (ok \<longrightarrow> rest = [])"
proof (induction calls arbitrary: tr)
  case (Cons c cs)
  show ?case
  proof (cases "me_fails E (tr @ [c])")
    case None
    with Cons.prems have "must E cs (tr @ [c]) = (tr', ok)" by simp
    from Cons.IH [OF this] show ?thesis by simp
  next
    case (Some e)
    with Cons.prems show ?thesis by auto
  qed
qed simp

lemma must_to_the_end:
  assumes "must E (calls @ [c]) tr = (tr', ok)" "c \<in> set tr'" "c \<notin> set (tr @ calls)"
  shows "tr' = tr @ calls @ [c]"
proof -
  obtain rest where r: "tr @ calls @ [c] = tr' @ rest" using must_trace [OF assms(1)] by blast
  show ?thesis
  proof (cases rest rule: rev_cases)
    case (snoc rest' x)
    with r have "tr @ calls = tr' @ rest'" by (metis append.assoc append_eq_append_conv2 butlast_append butlast_snoc snoc_eq_iff_butlast)
    then have "set tr' \<subseteq> set (tr @ calls)" by (metis set_append Un_upper1)
    with assms(2,3) show ?thesis by blast
  qed (use r in simp)
qed

text \<open>A call that is followed by another one has succeeded.\<close>

lemma must_succeeded:
  "must E calls tr = (tr', ok) \<Longrightarrow> tr' = pre @ c # d # post \<Longrightarrow> length tr \<le> length pre \<Longrightarrow>
     me_fails E (pre @ [c]) = None"
proof (induction calls arbitrary: tr)
  case (Cons a cs)
  show ?case
  proof (cases "me_fails E (tr @ [a])")
    case None
    with Cons.prems have run: "must E cs (tr @ [a]) = (tr', ok)" by simp
    show ?thesis
    proof (cases "length tr = length pre")
      case True
      from must_trace [OF run] obtain rest where "tr @ a # cs = tr' @ rest" by auto
      with Cons.prems(2) True have "pre = tr" "c = a" by (auto simp: append_eq_append_conv)
      with None show ?thesis by simp
    next
      case False
      with Cons.IH [OF run Cons.prems(2)] Cons.prems(3) show ?thesis by simp
    qed
  next
    case (Some e)
    with Cons.prems(1) have "length tr' = length tr + 1" by auto
    with Cons.prems(2,3) show ?thesis by simp
  qed
qed auto

text \<open>Calls whose failure does not stop the operator.\<close>

fun best_effort :: "main_call \<Rightarrow> bool" where
  "best_effort McOtelExporter \<longleftrightarrow> True"
| "best_effort McOtelResource \<longleftrightarrow> True"
| "best_effort McOtelShutdownHook \<longleftrightarrow> True"
| "best_effort (McNewFleetClient _ _ _ _ _ _) \<longleftrightarrow> True"
| "best_effort _ \<longleftrightarrow> False"

lemma setup_tracing_calls:
  "setup_tracing E tr = (tr', t) \<Longrightarrow>
     \<exists>otel. tr' = tr @ otel \<and> set otel \<subseteq> {McOtelExporter, McOtelResource, McOtelShutdownHook} \<and>
            (t \<longrightarrow> McOtelShutdownHook \<in> set otel)"
  by (auto simp: setup_tracing_def Let_def split: if_splits option.splits)

lemma start_not_registered: "McStart \<notin> set (shared_setup f @ registrations f @ startup_checks f)"
  by (simp add: registrations_def shared_setup_def startup_checks_def Let_def)

lemma main_run_trace:
  assumes "main_run f E = (tr, ok)" "McStart \<in> set tr"
  obtains url username password otel tracing where "fleetCredentials E = Some (url, username, password)"
    "validNameScope f" "controllersEnabled f"
    "set otel \<subseteq> {McOtelExporter, McOtelResource, McOtelShutdownHook}"
    "tracing \<longrightarrow> McOtelShutdownHook \<in> set otel"
    "tr = (McNewManager (manager_options_of f) # otel @
           [McNewFleetClient url username password (fl_fleetAPIRPS f) (fl_fleetAPIBurst f) tracing]) @
          shared_setup f @ registrations f @ startup_checks f @ [McStart]"
    "\<And>pre c d post. tr = pre @ c # d # post \<Longrightarrow> best_effort c \<or> me_fails E (pre @ [c]) = None"
proof -
  let ?m = "[McNewManager (manager_options_of f)]"
  have v: "validNameScope f" "validSecretSelector f E"
    using assms by (auto simp: main_run_def split: if_split_asm)
  obtain tr1 ok1 where m: "must E ?m [] = (tr1, ok1)" by fastforce
  have tr1: "tr1 = ?m" using m by (auto simp: Let_def split: option.splits)
  have ok1: "ok1" using assms v m tr1 by (cases ok1) (auto simp: main_run_def)
  then have mgr: "me_fails E ?m = None" using m by (auto simp: Let_def split: option.splits)
  have c: "controllersEnabled f"
    using assms v m tr1 ok1 by (cases "controllersEnabled f") (auto simp: main_run_def)
  obtain tr2 tracing where t: "setup_tracing E tr1 = (tr2, tracing)" by fastforce
  then obtain otel where otel: "tr2 = ?m @ otel" "set otel \<subseteq> {McOtelExporter, McOtelResource, McOtelShutdownHook}"
    "tracing \<longrightarrow> McOtelShutdownHook \<in> set otel"
    using setup_tracing_calls tr1 by blast
  obtain url username password where cred: "fleetCredentials E = Some (url, username, password)"
    using assms v m tr1 ok1 c t otel(1,2) by (cases "fleetCredentials E") (auto simp: main_run_def)
  let ?head = "tr2 @ [McNewFleetClient url username password (fl_fleetAPIRPS f) (fl_fleetAPIBurst f) tracing]"
    and ?calls = "shared_setup f @ registrations f @ startup_checks f"
  have run: "must E (?calls @ [McStart]) ?head = (tr, ok)"
    using assms(1) v m ok1 c cred t by (simp add: main_run_def)
  have head: "McStart \<notin> set ?head" using otel(1,2) by auto
  then have tr: "tr = ?head @ ?calls @ [McStart]"
    using must_to_the_end [OF run assms(2)] start_not_registered [of f] by auto
  have "best_effort c \<or> me_fails E (pre @ [c]) = None" if "tr = pre @ c # d # post" for pre c d post
  proof (cases "length ?head \<le> length pre")
    case True
    from must_succeeded [OF run that this] show ?thesis ..
  next
    case False
    then have c: "c = ?head ! length pre" using that tr by (metis not_le nth_append nth_append_length)
    show ?thesis
    proof (cases pre)
      case Nil
      with c otel(1) mgr show ?thesis by simp
    next
      case (Cons a pre')
      with c False have "c \<in> set (tl ?head)" using otel(1) by (auto simp: nth_append)
      then have "best_effort c" using otel(1,2) by auto
      then show ?thesis ..
    qed
  qed
  with that [OF cred v(1) c otel(2,3)] tr otel(1) show thesis by simp
qed

text \<open>
  C40: what a started operator runs.  Every call before the start succeeded, those for tracing
  apart, which are best effort; among them the checks that the certificate files of the
  webhooks exist, when a directory is given.  The operator speaks to Fleet Management only over
  https and with credentials; the pipeline controller and its webhook use one name scope, a
  valid one; each controller runs beside the webhook of the resource it reconciles, the one of
  the policies runs also when only the collector controller, which applies them, does;
  collector discovery runs only beside the collector controller; and every webhook that checks
  tenants or target namespaces does so exactly when the flag says it.
\<close>

theorem started_operator_is_wired:
  assumes "main_run f E = (tr, ok)" "McStart \<in> set tr"
  defines "enforced \<equiv> fl_enableTenantPolicyEnforcement f"
    and "reviewed \<equiv> fl_enforceCrossNamespaceDiscoveryAuthz f"
  shows "(\<forall>pre c d post. tr = pre @ c # d # post \<longrightarrow> best_effort c \<or> me_fails E (pre @ [c]) = None) \<and>
    (fl_webhookCertPath f \<noteq> [] \<longrightarrow>
       {McStat (fl_webhookCertPath f) (Some (fl_webhookCertName f)),
        McStat (fl_webhookCertPath f) (Some (fl_webhookCertKey f))} \<subseteq> set tr) \<and>
    (\<exists>url u p rps burst traced v. McNewFleetClient url u p rps burst traced \<in> set tr \<and> u \<noteq> [] \<and> p \<noteq> [] \<and>
       hl_ParseURL (me_http E) url = Inr v \<and> su_Scheme v = ''https'' \<and> su_Host v \<noteq> [] \<and>
       (traced \<longrightarrow> McOtelShutdownHook \<in> set tr)) \<and>
    (\<forall>scope. McPipelineController scope \<in> set tr \<longrightarrow>
       scope \<in> {NameScopeNone, NameScopeNamespace} \<and> McPipelineWebhook enforced scope \<in> set tr) \<and>
    (McCollectorController \<in> set tr \<longrightarrow> McCollectorWebhook \<in> set tr \<and> McPolicyWebhook enforced \<in> set tr) \<and>
    (\<forall>n. McPolicyController n \<in> set tr \<longrightarrow> McPolicyWebhook enforced \<in> set tr) \<and>
    (\<forall>n r b sel. McSyncController n r b sel \<in> set tr \<longrightarrow> McSyncWebhook enforced \<in> set tr) \<and>
    (\<forall>n. McCollectorDiscoveryController n \<in> set tr \<longrightarrow>
       McCollectorController \<in> set tr \<and> McCollectorDiscoveryWebhook enforced reviewed \<in> set tr) \<and>
    McTenantPolicyWebhook \<in> set tr \<and> McPipelineDiscoveryWebhook reviewed \<in> set tr \<and>
    (\<forall>t s. McPipelineWebhook t s \<in> set tr \<or> McPolicyWebhook t \<in> set tr \<or> McSyncWebhook t \<in> set tr \<or>
       (\<exists>r. McCollectorDiscoveryWebhook t r \<in> set tr) \<longrightarrow> t = enforced)"
proof -
  from assms(1,2) obtain url username password otel tracing
    where cred: "fleetCredentials E = Some (url, username, password)"
    and v: "validNameScope f" "controllersEnabled f"
    and otel: "set otel \<subseteq> {McOtelExporter, McOtelResource, McOtelShutdownHook}"
      "tracing \<longrightarrow> McOtelShutdownHook \<in> set otel"
    and tr: "tr = (McNewManager (manager_options_of f) # otel @
           [McNewFleetClient url username password (fl_fleetAPIRPS f) (fl_fleetAPIBurst f) tracing]) @
          shared_setup f @ registrations f @ startup_checks f @ [McStart]"
    and succeeded: "\<And>pre c d post. tr = pre @ c # d # post \<Longrightarrow> best_effort c \<or> me_fails E (pre @ [c]) = None"
    by (rule main_run_trace) blast
  obtain v where "hl_ParseURL (me_http E) url = Inr v" "su_Scheme v = ''https''" "su_Host v \<noteq> []"
      "username \<noteq> []" "password \<noteq> []"
    using cred by (auto simp: fleetCredentials_def validateFleetBaseURL_def Let_def split: if_split_asm sum.split_asm)
  moreover have "McNewFleetClient url username password (fl_fleetAPIRPS f) (fl_fleetAPIBurst f) tracing \<in> set tr"
    "tracing \<longrightarrow> McOtelShutdownHook \<in> set tr"
    using otel(2) by (simp_all add: tr)
  ultimately have client: "\<exists>url u p rps burst traced v. McNewFleetClient url u p rps burst traced \<in> set tr \<and>
      u \<noteq> [] \<and> p \<noteq> [] \<and> hl_ParseURL (me_http E) url = Inr v \<and> su_Scheme v = ''https'' \<and> su_Host v \<noteq> [] \<and>
      (traced \<longrightarrow> McOtelShutdownHook \<in> set tr)"
    by blast
  have calls: "c \<in> set tr \<longleftrightarrow> c \<in> set (shared_setup f) \<union> set (registrations f) \<union> set (startup_checks f)"
    if "c \<notin> {McNewManager (manager_options_of f), McOtelExporter, McOtelResource, McOtelShutdownHook, McStart,
      McNewFleetClient url username password (fl_fleetAPIRPS f) (fl_fleetAPIBurst f) tracing}" for c
    using that otel(1) by (auto simp: tr)
  note defs = enforced_def reviewed_def shared_setup_def registrations_def startup_checks_def
    validNameScope_def controllersEnabled_def Let_def
  show ?thesis
  proof (intro conjI client)
    show "\<forall>pre c d post. tr = pre @ c # d # post \<longrightarrow> best_effort c \<or> me_fails E (pre @ [c]) = None"
      using succeeded by blast
  qed (use v in \<open>auto simp: calls defs\<close>)
qed

text \<open>A cluster that scopes pipeline names and enforces tenant policies.\<close>

definition tenant_flags :: operator_flags where
  "tenant_flags = default_flags\<lparr>fl_enableCollectorController := True,
     fl_enableCollectorDiscoveryController := True, fl_enableTenantPolicyEnforcement := True,
     fl_pipelineNameScope := NameScopeNamespace\<rparr>"

definition tenant_env :: main_env where
  "tenant_env = \<lparr>me_Getenv = (\<lambda>v. v), me_labels = (\<lambda>_. None), me_http = cmdb_lib, me_fails = (\<lambda>_. None)\<rparr>"

lemmas main_defs = main_run_def setup_tracing_def default_flags_def tenant_env_def validNameScope_def
  validSecretSelector_def controllersEnabled_def fleetCredentials_def validateFleetBaseURL_def cmdb_lib_def
  shared_setup_def registrations_def startup_checks_def Let_def

theorem started_operator_is_wired_witness:
  "McPipelineWebhook True NameScopeNamespace \<in> set (fst (main_run tenant_flags tenant_env)) \<and>
   McPolicyWebhook True \<in> set (fst (main_run tenant_flags tenant_env))"
proof -
  have run: "main_run tenant_flags tenant_env = (fst (main_run tenant_flags tenant_env), True)"
    "McStart \<in> set (fst (main_run tenant_flags tenant_env))"
    "McPipelineController NameScopeNamespace \<in> set (fst (main_run tenant_flags tenant_env))"
    "McCollectorController \<in> set (fst (main_run tenant_flags tenant_env))"
    by (simp_all add: main_defs tenant_flags_def)
  have "fl_enableTenantPolicyEnforcement tenant_flags" by (simp add: tenant_flags_def)
  with started_operator_is_wired [OF run(1,2)] run(3,4) show ?thesis by auto
qed

text \<open>With the default flags the pipeline controller is the only one that acts on Fleet Management.\<close>

lemma default_operator:
  "snd (main_run default_flags tenant_env)"
  "set (fst (main_run default_flags tenant_env)) \<inter>
     {McCollectorController, McPolicyController 4, McSyncController 4 0 4 [], McCollectorDiscoveryController 1,
      McPipelineDiscoveryController 1} = {}"
  "McPipelineController NameScopeNone \<in> set (fst (main_run default_flags tenant_env))"
  by (simp_all add: main_defs)

text \<open>
  Pipeline discovery is not tied to the pipeline controller the way collector discovery is tied
  to the collector controller: the operator starts with it alone, and then nothing acts on
  the resources it creates and no webhook checks them.
\<close>

lemma lone_pipeline_discovery_starts:
  "\<exists>tr. main_run (default_flags\<lparr>fl_enablePipelineController := False,
        fl_enablePipelineDiscoveryController := True\<rparr>) tenant_env = (tr, True) \<and>
     McPipelineDiscoveryController 1 \<in> set tr \<and> (\<forall>s. McPipelineController s \<notin> set tr) \<and>
     (\<forall>t s. McPipelineWebhook t s \<notin> set tr)"
  by (simp add: main_defs)

end
