(* ===== verification/Docgen_Ast.thy ===== *)
theory Docgen_Ast
  imports Go_Prelude
begin

text \<open>
  What the documentation generator (\<open>hack/docgen/\<close>) sees of a Go file: the part of \<open>go/ast\<close> that
  its generators look at, the traversal \<open>ast.Inspect\<close>, and the helpers they share.  The parser, the
  printer, the file system and \<open>filepath\<close> are parameters.
\<close>

section \<open>Syntax trees\<close>

datatype lit_token = TokINT | TokFLOAT | TokIMAG | TokCHAR | TokSTRING

text \<open>
  A call carries the line of its position.  \<open>OtherNode\<close> is any other node, with its children in the
  order of \<open>ast.Walk\<close>; a composite literal has its type, if written, in front.
\<close>

datatype node =
    Ident string
  | BasicLit lit_token string
  | SelectorExpr node string
  | CallExpr nat node "node list"
  | CompositeLit "node list" "node list"
  | KeyValueExpr node node
  | BinaryExpr node string node
  | AssignStmt "node list" "node list"
  | OtherNode "node list"

text \<open>The nodes in the order in which \<open>ast.Inspect\<close> calls a function that always returns true.\<close>

fun inspect :: "node \<Rightarrow> node list" where
  "inspect (Ident x) = [Ident x]"
| "inspect (BasicLit t v) = [BasicLit t v]"
| "inspect (SelectorExpr x sel) = SelectorExpr x sel # inspect x @ [Ident sel]"
| "inspect (CallExpr l f args) = CallExpr l f args # inspect f @ concat (map inspect args)"
| "inspect (CompositeLit t elts) =
     CompositeLit t elts # concat (map inspect t) @ concat (map inspect elts)"
| "inspect (KeyValueExpr k v) = KeyValueExpr k v # inspect k @ inspect v"
| "inspect (BinaryExpr x oper y) = BinaryExpr x oper y # inspect x @ inspect y"
| "inspect (AssignStmt lhs rhs) =
     AssignStmt lhs rhs # concat (map inspect lhs) @ concat (map inspect rhs)"
| "inspect (OtherNode xs) = OtherNode xs # concat (map inspect xs)"

text \<open>
  Declarations.  A specification of a \<open>const\<close> group has its names, the written type and the values.
  A function has the names of each field of its parameter list (\<open>None\<close>: no list), the nodes of its
  receiver and type, and a body unless it is external.
\<close>

datatype spec =
    ValueSpec "string list" "node list" "node list"
  | OtherSpec "node list"

record func_decl =
  fd_IsMethod :: bool
  fd_Name :: string
  fd_Params :: "string list list option"
  fd_Type :: "node list"
  fd_Body :: "node option"

datatype decl =
    GenDecl bool "spec list"
  | FuncDecl func_decl
  | OtherDecl "node list"

type_synonym ast_file = "decl list"

fun spec_nodes :: "spec \<Rightarrow> node list" where
  "spec_nodes (ValueSpec names t values) = map Ident names @ t @ values"
| "spec_nodes (OtherSpec xs) = xs"

fun decl_nodes :: "decl \<Rightarrow> node list" where
  "decl_nodes (GenDecl c specs) = concat (map spec_nodes specs)"
| "decl_nodes (FuncDecl f) = fd_Type f @ (case fd_Body f of None \<Rightarrow> [] | Some b \<Rightarrow> [b])"
| "decl_nodes (OtherDecl xs) = xs"

definition inspect_file :: "ast_file \<Rightarrow> node list" where
  "inspect_file file = concat (map inspect (concat (map decl_nodes file)))"

section \<open>The tool's surroundings\<close>

record doc_env =
  dg_ReadDir :: "string \<Rightarrow> go_error + (string \<times> bool) list"
  dg_ReadFile :: "string \<Rightarrow> go_error + string"
  dg_ParseFile :: "string \<Rightarrow> string \<Rightarrow> go_error + ast_file"
  dg_Join :: "string list \<Rightarrow> string"
  dg_Rel :: "string \<Rightarrow> string \<Rightarrow> go_error + string"
  dg_Base :: "string \<Rightarrow> string"
  dg_Unquote :: "string \<Rightarrow> string option"
  dg_Fprint :: "node \<Rightarrow> string option"

definition relative :: "doc_env \<Rightarrow> string \<Rightarrow> string \<Rightarrow> string" where
  "relative E root path = (case dg_Rel E root path of Inl _ \<Rightarrow> path | Inr rel \<Rightarrow> rel)"

section \<open>Strings\<close>

text \<open>\<open>strings.Split\<close> at one byte.\<close>

fun split_at :: "char \<Rightarrow> string \<Rightarrow> string list" where
  "split_at c [] = [[]]"
| "split_at c (d # s) =
     (if d = c then [] # split_at c s
      else (case split_at c s of [] \<Rightarrow> [[d]] | p # ps \<Rightarrow> (d # p) # ps))"

text \<open>\<open>strings.TrimLeft\<close>, \<open>TrimRight\<close> and \<open>Trim\<close> with a cutset of ASCII bytes.\<close>

definition trim_left :: "string \<Rightarrow> string \<Rightarrow> string" where
  "trim_left cutset s = dropWhile (\<lambda>c. c \<in> set cutset) s"

definition trim_right :: "string \<Rightarrow> string \<Rightarrow> string" where
  "trim_right cutset s = rev (trim_left cutset (rev s))"

definition trim_both :: "string \<Rightarrow> string \<Rightarrow> string" where
  "trim_both cutset s = trim_right cutset (trim_left cutset s)"

definition cut_prefix :: "string \<Rightarrow> string \<Rightarrow> string option" where
  "cut_prefix s p = (if has_prefix s p then Some (drop (length p) s) else None)"

lemma split_at_not_Nil [simp]: "split_at c s \<noteq> []"
  by (cases s) (auto split: list.splits)

lemma str_join_split_at: "str_join (split_at c s) [c] = s"
proof (induction s)
  case (Cons d s)
  obtain p ps where "split_at c s = p # ps" by (cases "split_at c s") auto
  with Cons show ?case by (cases ps) auto
qed simp

lemma split_at_no_sep: "p \<in> set (split_at c s) \<Longrightarrow> c \<notin> set p"
  by (induction s arbitrary: p) (auto split: if_splits list.splits)

section \<open>Shared helpers\<close>

definition stringLit :: "doc_env \<Rightarrow> node \<Rightarrow> string option" where
  "stringLit E e = (case e of BasicLit TokSTRING v \<Rightarrow> dg_Unquote E v | _ \<Rightarrow> None)"

fun concatStringExpr :: "doc_env \<Rightarrow> node \<Rightarrow> string" where
  "concatStringExpr E (BasicLit k v) =
     (if k = TokSTRING then (case dg_Unquote E v of Some s \<Rightarrow> s | None \<Rightarrow> v) else v)"
| "concatStringExpr E (BinaryExpr x oper y) =
     (if oper = ''+'' then concatStringExpr E x @ concatStringExpr E y else ''?'')"
| "concatStringExpr E _ = ''?''"

text \<open>
  \<open>strings.ToUpper(p[:1]) + p[1:]\<close>: a lone byte above 127 is no character, and becomes U+FFFD.
\<close>

definition upper_first :: "string \<Rightarrow> string" where
  "upper_first p =
     (case p of
        [] \<Rightarrow> []
      | c # s \<Rightarrow>
          (if is_lower c then [char_of ((of_char c :: nat) - 32)]
           else if (of_char c :: nat) \<ge> 128 then [CHR 0xEF, CHR 0xBF, CHR 0xBD]
           else [c]) @ s)"

definition controllerName :: "string \<Rightarrow> string" where
  "controllerName filename =
     (let base = trim_suffix filename ''_controller.go''
      in if base = ''policy'' then ''RemoteAttributePolicy''
         else if base = ''external_sync'' then ''ExternalAttributeSync''
         else if base = ''tenant_policy'' then ''TenantPolicy''
         else if base = ''collector_discovery'' then ''CollectorDiscovery''
         else concat (map upper_first (split_at CHR ''_'' base)))"

lemma controllerName_files:
  "controllerName ''pipeline_controller.go'' = ''Pipeline''"
  "controllerName ''collector_controller.go'' = ''Collector''"
  "controllerName ''policy_controller.go'' = ''RemoteAttributePolicy''"
  "controllerName ''external_sync_controller.go'' = ''ExternalAttributeSync''"
  "controllerName ''tenant_policy_controller.go'' = ''TenantPolicy''"
  "controllerName ''collector_discovery_controller.go'' = ''CollectorDiscovery''"
  "controllerName ''pipeline_discovery_controller.go'' = ''PipelineDiscovery''"
  by code_simp+

text \<open>\<open>for i, n := range vs.Names\<close>: the string literals of a group of constants.\<close>

fun value_consts :: "doc_env \<Rightarrow> (string \<Rightarrow> bool) \<Rightarrow> string list \<Rightarrow> node list \<Rightarrow> gomap \<Rightarrow> gomap" where
  "value_consts E keep (n # names) (v # values) out =
     value_consts E keep names values
       (if keep n then (case stringLit E v of Some s \<Rightarrow> map_put n s out | None \<Rightarrow> out) else out)"
| "value_consts E keep _ _ out = out"

definition spec_consts :: "doc_env \<Rightarrow> (string \<Rightarrow> bool) \<Rightarrow> spec \<Rightarrow> gomap \<Rightarrow> gomap" where
  "spec_consts E keep sp out =
     (case sp of ValueSpec names _ values \<Rightarrow> value_consts E keep names values out | OtherSpec _ \<Rightarrow> out)"

definition file_consts :: "doc_env \<Rightarrow> (string \<Rightarrow> bool) \<Rightarrow> ast_file \<Rightarrow> gomap" where
  "file_consts E keep file =
     fold (\<lambda>d out. case d of
         GenDecl True specs \<Rightarrow> fold (spec_consts E keep) specs out
       | _ \<Rightarrow> out) file []"

end
