(* ===== verification/Docgen_Conditions.thy ===== *)
theory Docgen_Conditions
  imports Docgen_Ast "HOL-Library.Product_Lexorder"
begin

text \<open>
  \<open>hack/docgen/conditions.go\<close>: the lint that compares the conditions the controllers set with the
  tables of \<open>docs/conditions.md\<close>.  Reasons that a helper takes as a parameter are traced through the
  calls of the helper by a worklist; that the worklist comes to an end, and that it finds exactly
  the constants that flow into the parameter, are theorems.
\<close>

section \<open>Data\<close>

record conditionTriple =
  ct_CRD :: string
  ct_Type :: string
  ct_Reason :: string

record pendingParamReason =
  pp_HomeCRD :: string
  pp_Type :: string
  pp_File :: string
  pp_IsMethod :: bool
  pp_FuncName :: string
  pp_ParamName :: string
  pp_ParamIdx :: nat
  pp_SrcLoc :: string

record frame =
  fr_HomeCRD :: string
  fr_Type :: string
  fr_IsMethod :: bool
  fr_File :: string
  fr_FuncName :: string
  fr_ParamIdx :: nat
  fr_ParamName :: string
  fr_SrcLoc :: string

section \<open>Functions, parameters and values\<close>

definition collectStringConsts :: "doc_env \<Rightarrow> ast_file \<Rightarrow> gomap" where
  "collectStringConsts E file = file_consts E (\<lambda>_. True) file"

definition resolveStringValue :: "doc_env \<Rightarrow> node \<Rightarrow> gomap \<Rightarrow> string" where
  "resolveStringValue E e consts =
     (case e of
        BasicLit k v \<Rightarrow> (case stringLit E e of Some s \<Rightarrow> s | None \<Rightarrow> [])
      | Ident name \<Rightarrow> get_str consts name
      | _ \<Rightarrow> [])"

fun index_fields :: "string list list \<Rightarrow> nat \<Rightarrow> (string \<times> nat) list \<Rightarrow> (string \<times> nat) list" where
  "index_fields [] idx out = out"
| "index_fields ([] # groups) idx out = index_fields groups (idx + 1) out"
| "index_fields (names # groups) idx out =
     index_fields groups (idx + length names)
       (fold (\<lambda>(i, name) out. map_put name i out) (zip [idx ..< idx + length names] names) out)"

definition paramIndex :: "func_decl \<Rightarrow> (string \<times> nat) list" where
  "paramIndex fn = (case fd_Params fn of None \<Rightarrow> [] | Some groups \<Rightarrow> index_fields groups 0 [])"

definition callsFunc :: "node \<Rightarrow> string \<Rightarrow> bool" where
  "callsFunc f name = (case f of Ident x \<Rightarrow> x = name | SelectorExpr x sel \<Rightarrow> sel = name | _ \<Rightarrow> False)"

text \<open>The assignments to a local variable; \<open>False\<close>: one of them is no constant.\<close>

fun assigned ::
    "doc_env \<Rightarrow> string \<Rightarrow> gomap \<Rightarrow> node list \<Rightarrow> node list \<Rightarrow> string list \<times> bool \<Rightarrow> string list \<times> bool" where
  "assigned E name consts (l # lhs) (r # rhs) (vs, allConst) =
     assigned E name consts lhs rhs
       (if l \<noteq> Ident name then (vs, allConst)
        else if resolveStringValue E r consts \<noteq> [] then (List.insert (resolveStringValue E r consts) vs, allConst)
        else (vs, False))"
| "assigned E name consts _ _ st = st"

definition resolveLocalVarAssignments :: "doc_env \<Rightarrow> func_decl \<Rightarrow> string \<Rightarrow> gomap \<Rightarrow> string list" where
  "resolveLocalVarAssignments E fn name consts =
     (case fd_Body fn of
        None \<Rightarrow> []
      | Some body \<Rightarrow>
          (let (vs, allConst) = fold (\<lambda>n st. case n of
                 AssignStmt lhs rhs \<Rightarrow> assigned E name consts lhs rhs st | _ \<Rightarrow> st) (inspect body) ([], True)
           in if \<not> allConst \<or> vs = [] then [] else sort vs))"

section \<open>The call sites of SetStatusCondition\<close>

text \<open>The \<open>Type\<close>, the \<open>Reason\<close> and the unresolved identifier of the reason.\<close>

definition condition_field ::
    "doc_env \<Rightarrow> gomap \<Rightarrow> node \<Rightarrow> string \<times> string \<times> string \<Rightarrow> string \<times> string \<times> string" where
  "condition_field E consts elt st =
     (case st of (typeStr, reasonStr, unresolvedReasonIdent) \<Rightarrow>
        (case elt of
           KeyValueExpr (Ident key) value \<Rightarrow>
             if key = ''Type'' then (resolveStringValue E value consts, reasonStr, unresolvedReasonIdent)
             else if key = ''Reason'' then
               (let s = resolveStringValue E value consts
                in if s \<noteq> [] then (typeStr, s, unresolvedReasonIdent)
                   else (case value of
                           Ident x \<Rightarrow> (typeStr, reasonStr, x)
                         | _ \<Rightarrow> st))
             else st
         | _ \<Rightarrow> st))"

datatype site =
    SiteTriples "conditionTriple list"
  | SitePending pendingParamReason
  | SiteUnresolved string

definition set_condition_args :: "node \<Rightarrow> (nat \<times> node list) option" where
  "set_condition_args n =
     (case n of
        CallExpr line (SelectorExpr (Ident pkg) sel) (arg0 # CompositeLit t elts # args) \<Rightarrow>
          if pkg = ''meta'' \<and> sel = ''SetStatusCondition'' then Some (line, elts) else None
      | _ \<Rightarrow> None)"

definition scan_site ::
    "doc_env \<Rightarrow> string \<Rightarrow> string \<Rightarrow> gomap \<Rightarrow> func_decl \<Rightarrow> string \<Rightarrow> nat \<Rightarrow> node list \<Rightarrow> site" where
  "scan_site E relPath path consts fn crd line elts =
     (case fold (condition_field E consts) elts ([], [], []) of
        (typeStr, reasonStr, unresolvedReasonIdent) \<Rightarrow>
     (let loc = relPath @ '':'' @ show_nat line
      in if typeStr = [] then SiteUnresolved (loc @ '' Type expression unresolved'')
         else if reasonStr \<noteq> [] then
           SiteTriples [\<lparr>ct_CRD = crd, ct_Type = typeStr, ct_Reason = reasonStr\<rparr>]
         else if unresolvedReasonIdent = [] then SiteTriples []
         else
           (let vals = resolveLocalVarAssignments E fn unresolvedReasonIdent consts
            in if vals \<noteq> [] then
                 SiteTriples (map (\<lambda>v. \<lparr>ct_CRD = crd, ct_Type = typeStr, ct_Reason = v\<rparr>) vals)
               else
                 (case map_of (paramIndex fn) unresolvedReasonIdent of
                    Some idx \<Rightarrow>
                      SitePending \<lparr>pp_HomeCRD = crd, pp_Type = typeStr, pp_File = path,
                        pp_IsMethod = fd_IsMethod fn, pp_FuncName = fd_Name fn,
                        pp_ParamName = unresolvedReasonIdent, pp_ParamIdx = idx, pp_SrcLoc = loc\<rparr>
                  | None \<Rightarrow>
                      SiteUnresolved (loc @ '' Reason='' @ unresolvedReasonIdent @
                        '' (not a constant or parameter)'')))))"

text \<open>The functions of a file that have a body, with it.\<close>

definition bodies :: "ast_file \<Rightarrow> (func_decl \<times> node) list" where
  "bodies file = List.map_filter
     (\<lambda>d. case d of FuncDecl fn \<Rightarrow> map_option (Pair fn) (fd_Body fn) | _ \<Rightarrow> None) file"

definition file_sites :: "doc_env \<Rightarrow> string \<Rightarrow> string \<times> ast_file \<Rightarrow> gomap \<Rightarrow> site list" where
  "file_sites E root pf consts =
     (case pf of (path, file) \<Rightarrow>
        concat (map (\<lambda>(fn, body).
          List.map_filter (\<lambda>n. map_option (\<lambda>(line, elts).
              scan_site E (relative E root path) path consts fn (controllerName (dg_Base E path)) line elts)
            (set_condition_args n)) (inspect body)) (bodies file)))"

definition scanCallSites ::
    "doc_env \<Rightarrow> string \<Rightarrow> string \<times> ast_file \<Rightarrow> gomap \<Rightarrow>
       conditionTriple list \<times> pendingParamReason list \<times> string list" where
  "scanCallSites E root pf consts =
     (let sites = file_sites E root pf consts
      in (concat (map (\<lambda>s. case s of SiteTriples ts \<Rightarrow> ts | _ \<Rightarrow> []) sites),
          List.map_filter (\<lambda>s. case s of SitePending p \<Rightarrow> Some p | _ \<Rightarrow> None) sites,
          List.map_filter (\<lambda>s. case s of SiteUnresolved u \<Rightarrow> Some u | _ \<Rightarrow> None) sites))"

section \<open>The worklist\<close>

definition frame_of :: "pendingParamReason \<Rightarrow> frame" where
  "frame_of p =
     \<lparr>fr_HomeCRD = pp_HomeCRD p, fr_Type = pp_Type p, fr_IsMethod = pp_IsMethod p, fr_File = pp_File p,
      fr_FuncName = pp_FuncName p, fr_ParamIdx = pp_ParamIdx p, fr_ParamName = pp_ParamName p,
      fr_SrcLoc = pp_SrcLoc p\<rparr>"

definition visitKey :: "frame \<Rightarrow> string" where
  "visitKey fr = fr_FuncName fr @ ''|'' @ show_nat (fr_ParamIdx fr) @ ''|'' @ fr_Type fr @ ''|'' @
     fr_File fr @ ''|'' @ (if fr_IsMethod fr then ''true'' else ''false'')"

text \<open>What one call site adds: a triple, a frame, or nothing.\<close>

definition call_hit ::
    "doc_env \<Rightarrow> gomap \<Rightarrow> frame \<Rightarrow> string \<Rightarrow> string \<Rightarrow> func_decl \<Rightarrow> node \<Rightarrow> (conditionTriple + frame) option" where
  "call_hit E consts fr callerCRD filePath callerFn n =
     (case n of
        CallExpr line f args \<Rightarrow>
          if \<not> callsFunc f (fr_FuncName fr) then None
          else if fr_ParamIdx fr \<ge> length args then None
          else
            (let arg = args ! fr_ParamIdx fr; s = resolveStringValue E arg consts
             in if s \<noteq> [] then Some (Inl \<lparr>ct_CRD = callerCRD, ct_Type = fr_Type fr, ct_Reason = s\<rparr>)
                else
                  (case arg of
                     Ident x \<Rightarrow>
                       map_option (\<lambda>idx. Inr
                         \<lparr>fr_HomeCRD = callerCRD, fr_Type = fr_Type fr, fr_IsMethod = fd_IsMethod callerFn,
                          fr_File = filePath, fr_FuncName = fd_Name callerFn, fr_ParamIdx = idx,
                          fr_ParamName = x, fr_SrcLoc = fr_SrcLoc fr\<rparr>) (map_of (paramIndex callerFn) x)
                   | _ \<Rightarrow> None))
      | _ \<Rightarrow> None)"

definition file_hits ::
    "doc_env \<Rightarrow> gomap \<Rightarrow> frame \<Rightarrow> string \<times> ast_file \<Rightarrow> (conditionTriple + frame) list" where
  "file_hits E consts fr pf =
     (case pf of (filePath, f) \<Rightarrow>
        (let callerCRD = (if fr_IsMethod fr then fr_HomeCRD fr else controllerName (dg_Base E filePath))
         in concat (map (\<lambda>(callerFn, body).
              List.map_filter (call_hit E consts fr callerCRD filePath callerFn) (inspect body)) (bodies f))))"

text \<open>\<open>None\<close>: the file of a method was not parsed.\<close>

definition frame_scope :: "(string \<times> ast_file) list \<Rightarrow> frame \<Rightarrow> (string \<times> ast_file) list option" where
  "frame_scope fileASTs fr =
     (if fr_IsMethod fr then map_option (\<lambda>f. [(fr_File fr, f)]) (map_of fileASTs (fr_File fr))
      else Some fileASTs)"

text \<open>
  One iteration on a frame that was not visited: the hits and the unresolved message.  The map of
  the files is ranged over in the order of the list.
\<close>

definition visit ::
    "doc_env \<Rightarrow> gomap \<Rightarrow> (string \<times> ast_file) list \<Rightarrow> frame \<Rightarrow> (conditionTriple + frame) list \<times> string list" where
  "visit E consts fileASTs fr =
     (case frame_scope fileASTs fr of
        None \<Rightarrow> ([], [fr_SrcLoc fr @ '' Reason='' @ fr_ParamName fr @ '' (helper file not parsed)''])
      | Some scope \<Rightarrow>
          (let hits = concat (map (file_hits E consts fr) scope)
           in (hits, if hits = []
                     then [fr_SrcLoc fr @ '' Reason='' @ fr_ParamName fr @
                             '' (no call site provided a constant)'']
                     else [])))"

definition triples_of :: "(conditionTriple + frame) list \<Rightarrow> conditionTriple list" where
  "triples_of hits = List.map_filter (\<lambda>h. case h of Inl t \<Rightarrow> Some t | Inr _ \<Rightarrow> None) hits"

definition frames_of :: "(conditionTriple + frame) list \<Rightarrow> frame list" where
  "frames_of hits = List.map_filter (\<lambda>h. case h of Inl _ \<Rightarrow> None | Inr fr \<Rightarrow> Some fr) hits"

partial_function (option) flow_loop ::
    "doc_env \<Rightarrow> gomap \<Rightarrow> (string \<times> ast_file) list \<Rightarrow> frame list \<Rightarrow> string list \<Rightarrow> conditionTriple list \<Rightarrow>
       string list \<Rightarrow> (conditionTriple list \<times> string list) option" where
  "flow_loop E consts fileASTs worklist visited triples unresolved =
     (case worklist of
        [] \<Rightarrow> Some (triples, unresolved)
      | fr # worklist \<Rightarrow>
          if visitKey fr \<in> set visited then flow_loop E consts fileASTs worklist visited triples unresolved
          else
            (case visit E consts fileASTs fr of
               (hits, us) \<Rightarrow>
                 flow_loop E consts fileASTs (worklist @ frames_of hits) (visitKey fr # visited)
                   (triples @ triples_of hits) (unresolved @ us)))"

declare flow_loop.simps [code]

section \<open>The controllers\<close>

fun read_controllers ::
    "doc_env \<Rightarrow> string \<Rightarrow> (string \<times> bool) list \<Rightarrow> gomap \<Rightarrow> (string \<times> ast_file) list \<Rightarrow>
       go_error + gomap \<times> (string \<times> ast_file) list" where
  "read_controllers E dir [] pkgConsts files = Inr (pkgConsts, files)"
| "read_controllers E dir ((name, isDir) # entries) pkgConsts files =
     (if isDir \<or> \<not> has_suffix name ''.go'' \<or> has_suffix name ''_test.go''
      then read_controllers E dir entries pkgConsts files
      else
        (let full = dg_Join E [dir, name]
         in case dg_ReadFile E full of
              Inl err \<Rightarrow> Inl (WrapError (''read '' @ name @ '': '') err [])
            | Inr src \<Rightarrow>
                (case dg_ParseFile E full src of
                   Inl err \<Rightarrow> Inl (WrapError (''parse '' @ name @ '': '') err [])
                 | Inr f \<Rightarrow>
                     read_controllers E dir entries
                       (fold (\<lambda>(k, v) m. map_put k v m) (collectStringConsts E f) pkgConsts)
                       (if has_suffix name ''_controller.go'' then files @ [(full, f)] else files))))"

definition scan_files ::
    "doc_env \<Rightarrow> string \<Rightarrow> gomap \<Rightarrow> (string \<times> ast_file) list \<Rightarrow>
       conditionTriple list \<times> pendingParamReason list \<times> string list" where
  "scan_files E root pkgConsts files =
     (let scans = map (\<lambda>pf. scanCallSites E root pf pkgConsts) files
      in (concat (map fst scans), concat (map (fst \<circ> snd) scans), concat (map (snd \<circ> snd) scans)))"

definition file_asts :: "(string \<times> ast_file) list \<Rightarrow> (string \<times> ast_file) list" where
  "file_asts files = fold (\<lambda>(path, f) m. map_put path f m) files []"

definition scanConditionCalls ::
    "doc_env \<Rightarrow> string \<Rightarrow> (go_error + conditionTriple list \<times> string list) option" where
  "scanConditionCalls E root =
     (let dir = dg_Join E [root, ''internal'', ''controller'']
      in case dg_ReadDir E dir of
           Inl err \<Rightarrow> Some (Inl err)
         | Inr entries \<Rightarrow>
             (case read_controllers E dir entries [] [] of
                Inl err \<Rightarrow> Some (Inl err)
              | Inr (pkgConsts, files) \<Rightarrow>
                  (case scan_files E root pkgConsts files of
                     (triples, pending, unresolved) \<Rightarrow>
                       map_option Inr
                         (flow_loop E pkgConsts (file_asts files) (map frame_of pending) [] triples unresolved))))"

section \<open>The document\<close>

text \<open>The CRD of a heading, \<open>^###\s+([A-Za-z]+)\s*\(\<close>.\<close>

definition is_blank :: "char \<Rightarrow> bool" where
  "is_blank c \<longleftrightarrow> c \<in> {CHR 0x09, CHR 0x0A, CHR 0x0C, CHR 0x0D, CHR 0x20}"

definition crd_heading :: "string \<Rightarrow> string option" where
  "crd_heading line =
     (if \<not> has_prefix line ''###'' then None
      else
        (let rest = drop 3 line;
             body = dropWhile is_blank rest;
             name = takeWhile (\<lambda>c. is_lower c \<or> is_upper c) body;
             after = dropWhile is_blank (drop (length name) body)
         in if (case rest of c # s \<Rightarrow> is_blank c | [] \<Rightarrow> False) \<and> name \<noteq> [] \<and> has_prefix after ''('' then Some name else None))"

definition splitTableRow :: "string \<Rightarrow> string list" where
  "splitTableRow line =
     (let parts = split_at CHR ''|'' line
      in List.map_filter (\<lambda>(i, p).
           if (i = 0 \<or> i = length parts - 1) \<and> trim_space p = [] then None else Some (trim_space p))
         (enumerate 0 parts))"

definition parseUsedOnList :: "string \<Rightarrow> string list" where
  "parseUsedOnList s =
     filter (\<lambda>p. p \<noteq> []) (map trim_space (split_at CHR '','' (replace_char CHR 0x60 [] s)))"

text \<open>A row of a reasons table, as triples of the current CRD.\<close>

definition table_row :: "string \<Rightarrow> string \<Rightarrow> conditionTriple list" where
  "table_row currentCRD line =
     (case splitTableRow line of
        c0 # usedOn # cells \<Rightarrow>
          map (\<lambda>t. \<lparr>ct_CRD = currentCRD, ct_Type = t, ct_Reason = trim_both [CHR 0x60, CHR 0x20] c0\<rparr>)
            (parseUsedOnList usedOn)
      | _ \<Rightarrow> [])"

fun doc_lines :: "string list \<Rightarrow> string \<Rightarrow> bool \<Rightarrow> bool \<Rightarrow> conditionTriple list \<Rightarrow> conditionTriple list" where
  "doc_lines [] currentCRD inTable headerSeen triples = triples"
| "doc_lines (raw # lines) currentCRD inTable headerSeen triples =
     (let line = trim_right [CHR 0x0D] raw
      in case crd_heading line of
           Some crd \<Rightarrow> doc_lines lines crd False False triples
         | None \<Rightarrow>
             if currentCRD = [] then doc_lines lines currentCRD inTable headerSeen triples
             else if has_prefix (trim_space line) ''|'' then
               (if \<not> headerSeen then doc_lines lines currentCRD inTable True triples
                else if \<not> inTable then doc_lines lines currentCRD True headerSeen triples
                else doc_lines lines currentCRD inTable headerSeen (triples @ table_row currentCRD line))
             else if inTable then doc_lines lines currentCRD False False triples
             else doc_lines lines currentCRD inTable headerSeen triples)"

definition parseConditionsDoc :: "doc_env \<Rightarrow> string \<Rightarrow> go_error + conditionTriple list" where
  "parseConditionsDoc E path =
     (case dg_ReadFile E path of
        Inl err \<Rightarrow> Inl err
      | Inr data \<Rightarrow> Inr (doc_lines (split_at CHR 0x0A data) [] False False []))"

section \<open>The lint\<close>

definition sortTriples :: "conditionTriple list \<Rightarrow> conditionTriple list" where
  "sortTriples ts = sort_key (\<lambda>t. (ct_CRD t, ct_Type t, ct_Reason t)) ts"

definition triple_lines :: "conditionTriple list \<Rightarrow> string" where
  "triple_lines ts = concat (map (\<lambda>t.
     ''  - '' @ ct_CRD t @ '' / Type='' @ ct_Type t @ '' / Reason='' @ ct_Reason t @ nl) (sortTriples ts)) @ nl"

definition report :: "conditionTriple list \<Rightarrow> conditionTriple list \<Rightarrow> string list \<Rightarrow> string" where
  "report missingFromDoc missingFromCode codeUnresolved =
     ''docs/conditions.md is out of sync with controller code.'' @ nl @ nl @
     (if missingFromDoc \<noteq> [] then
        ''Reasons emitted by code but not listed in docs/conditions.md:'' @ nl @ triple_lines missingFromDoc
      else []) @
     (if missingFromCode \<noteq> [] then
        ''Reasons listed in docs/conditions.md but not emitted by any code path:'' @ nl @
          triple_lines missingFromCode
      else []) @
     (if codeUnresolved \<noteq> [] then
        ''Note: the following Reason references could not be resolved to a string constant'' @ nl @
        ''by static analysis (probably function parameters). Spot-check call sites manually:'' @ nl @
          concat (map (\<lambda>u. ''  - '' @ u @ nl) (sort codeUnresolved)) @ nl
      else [])"

text \<open>What is printed to the standard error, and the error.\<close>

definition verifyConditions :: "doc_env \<Rightarrow> string \<Rightarrow> string \<Rightarrow> (string \<times> go_error option) option" where
  "verifyConditions E root docPath =
     (case scanConditionCalls E root of
        None \<Rightarrow> None
      | Some (Inl err) \<Rightarrow> Some ([], Some err)
      | Some (Inr (codeTriples, codeUnresolved)) \<Rightarrow>
          (case parseConditionsDoc E (dg_Join E [root, docPath]) of
             Inl err \<Rightarrow> Some ([], Some err)
           | Inr docTriples \<Rightarrow>
               (let missingFromDoc = filter (\<lambda>t. t \<notin> set docTriples) (remdups codeTriples);
                    missingFromCode = filter (\<lambda>t. t \<notin> set codeTriples) (remdups docTriples);
                    sb = report missingFromDoc missingFromCode codeUnresolved
                in if missingFromDoc = [] \<and> missingFromCode = [] \<and> codeUnresolved = [] then Some ([], None)
                   else if missingFromDoc = [] \<and> missingFromCode = [] then Some (sb, None)
                   else
                     Some ([], Some (PlainError (sb @
                       ''Run 'just docs' to regenerate flags / metrics / events / samples,'' @ nl @
                       ''then update docs/conditions.md (Meaning column requires human authorship).'' @ nl))))))"

section \<open>What flows into a parameter\<close>

text \<open>
  The reference: parameter \<open>i\<close> of the function \<open>name\<close> receives the constant \<open>s\<close>, in a file of the
  controller \<open>crd\<close>, if a call in its scope passes the constant, or passes on a parameter of the
  calling function that receives it.  The scope of a method of the file \<open>p\<close> is that file.
\<close>

definition scope_files :: "(string \<times> ast_file) list \<Rightarrow> bool \<Rightarrow> string \<Rightarrow> (string \<times> ast_file) set" where
  "scope_files A isMethod p = (if isMethod then {(p, f) | f. map_of A p = Some f} else set A)"

text \<open>The places of the parameters; a group without names is one place.\<close>

definition param_slots :: "func_decl \<Rightarrow> string option list" where
  "param_slots fn =
     (case fd_Params fn of None \<Rightarrow> []
      | Some groups \<Rightarrow> concat (map (\<lambda>names. if names = [] then [None] else map Some names) groups))"

definition param_at :: "func_decl \<Rightarrow> string \<Rightarrow> nat \<Rightarrow> bool" where
  "param_at fn x j \<longleftrightarrow> j < length (param_slots fn) \<and> param_slots fn ! j = Some x \<and>
     Some x \<notin> set (drop (Suc j) (param_slots fn))"

inductive receives ::
    "doc_env \<Rightarrow> gomap \<Rightarrow> (string \<times> ast_file) list \<Rightarrow> bool \<Rightarrow> string \<Rightarrow> string \<Rightarrow> nat \<Rightarrow> string \<Rightarrow> string \<Rightarrow> bool"
  for E C A where
  const_arg: "(q, f) \<in> scope_files A m p \<Longrightarrow> (g, body) \<in> set (bodies f) \<Longrightarrow>
     CallExpr l h args \<in> set (inspect body) \<Longrightarrow> callsFunc h name \<Longrightarrow> i < length args \<Longrightarrow>
     resolveStringValue E (args ! i) C = s \<Longrightarrow> s \<noteq> [] \<Longrightarrow>
     receives E C A m p name i (controllerName (dg_Base E q)) s"
| param_arg: "(q, f) \<in> scope_files A m p \<Longrightarrow> (g, body) \<in> set (bodies f) \<Longrightarrow>
     CallExpr l h args \<in> set (inspect body) \<Longrightarrow> callsFunc h name \<Longrightarrow> i < length args \<Longrightarrow>
     resolveStringValue E (args ! i) C = [] \<Longrightarrow> args ! i = Ident x \<Longrightarrow>
     param_at g x j \<Longrightarrow> receives E C A (fd_IsMethod g) q (fd_Name g) j crd s \<Longrightarrow>
     receives E C A m p name i crd s"

abbreviation frame_receives ::
    "doc_env \<Rightarrow> gomap \<Rightarrow> (string \<times> ast_file) list \<Rightarrow> frame \<Rightarrow> string \<Rightarrow> string \<Rightarrow> bool" where
  "frame_receives E C A fr \<equiv> receives E C A (fr_IsMethod fr) (fr_File fr) (fr_FuncName fr) (fr_ParamIdx fr)"

text \<open>
  The reference of what is written: a call of \<open>meta.SetStatusCondition\<close> in the body of a function
  names the type \<open>ty\<close>, a constant, and gives the reason as the expression \<open>re\<close>; what constants
  the function assigns to a local variable; and the reasons emitted, as constant, as local
  variable that is only assigned constants, or as parameter that receives a constant.  A
  reason that is none of these (a call, say) is outside of the reference, and of the lint.
\<close>

definition names_condition :: "doc_env \<Rightarrow> gomap \<Rightarrow> node list \<Rightarrow> string \<Rightarrow> node \<Rightarrow> bool" where
  "names_condition E C elts ty re \<longleftrightarrow>
     ty \<noteq> [] \<and> (\<exists>te. KeyValueExpr (Ident ''Type'') te \<in> set elts \<and> resolveStringValue E te C = ty) \<and>
     KeyValueExpr (Ident ''Reason'') re \<in> set elts"

definition sets_condition ::
    "doc_env \<Rightarrow> gomap \<Rightarrow> (string \<times> ast_file) list \<Rightarrow> string \<Rightarrow> func_decl \<Rightarrow> string \<Rightarrow> node \<Rightarrow> bool" where
  "sets_condition E C files q g ty re \<longleftrightarrow>
     (\<exists>f body l obj t elts args. (q, f) \<in> set files \<and> FuncDecl g \<in> set f \<and> fd_Body g = Some body \<and>
        CallExpr l (SelectorExpr (Ident ''meta'') ''SetStatusCondition'') (obj # CompositeLit t elts # args)
          \<in> set (inspect body) \<and>
        names_condition E C elts ty re)"

definition local_values :: "doc_env \<Rightarrow> gomap \<Rightarrow> func_decl \<Rightarrow> string \<Rightarrow> string set" where
  "local_values E C g x =
     {resolveStringValue E r C | r body lhs rhs. fd_Body g = Some body \<and>
        AssignStmt lhs rhs \<in> set (inspect body) \<and> (Ident x, r) \<in> set (zip lhs rhs)}"

inductive emits ::
    "doc_env \<Rightarrow> gomap \<Rightarrow> (string \<times> ast_file) list \<Rightarrow> string \<Rightarrow> string \<Rightarrow> string \<Rightarrow> bool"
  for E C files where
  constant_reason: "sets_condition E C files q g ty re \<Longrightarrow> resolveStringValue E re C = s \<Longrightarrow> s \<noteq> [] \<Longrightarrow>
     emits E C files (controllerName (dg_Base E q)) ty s"
| local_reason: "sets_condition E C files q g ty (Ident x) \<Longrightarrow> resolveStringValue E (Ident x) C = [] \<Longrightarrow>
     x \<noteq> [] \<Longrightarrow> [] \<notin> local_values E C g x \<Longrightarrow> s \<in> local_values E C g x \<Longrightarrow>
     emits E C files (controllerName (dg_Base E q)) ty s"
| param_reason: "sets_condition E C files q g ty (Ident x) \<Longrightarrow> resolveStringValue E (Ident x) C = [] \<Longrightarrow>
     x \<noteq> [] \<Longrightarrow> [] \<in> local_values E C g x \<or> local_values E C g x = {} \<Longrightarrow> param_at g x j \<Longrightarrow>
     receives E C (file_asts files) (fd_IsMethod g) q (fd_Name g) j crd s \<Longrightarrow>
     emits E C files crd ty s"

section \<open>Parameters, variables and fields\<close>

lemma index_fields_slots:
  "index_fields groups idx out =
     fold (\<lambda>(i, slot) out. case slot of None \<Rightarrow> out | Some name \<Rightarrow> map_put name i out)
       (enumerate idx (concat (map (\<lambda>names. if names = [] then [None] else map Some names) groups))) out"
proof (induction groups idx out rule: index_fields.induct)
  case (3 n names groups idx out)
  have pairs: "fold (\<lambda>(i, name) out. map_put name i out) (zip [idx ..< idx + length ns] ns) m =
      fold (\<lambda>(i, slot) out. case slot of None \<Rightarrow> out | Some name \<Rightarrow> map_put name i out)
        (enumerate idx (map Some ns)) m" for ns :: "string list" and m
    unfolding enumerate_eq_zip [of idx ns, symmetric]
    by (induction ns arbitrary: idx m) simp_all
  show ?case
    using 3 pairs [of "n # names" out]
    by (simp add: enumerate_append_eq del: upt_Suc)
qed simp_all

lemma fold_slots_lookup:
  "map_of (fold (\<lambda>(i, slot) out. case slot of None \<Rightarrow> out | Some name \<Rightarrow> map_put name i out)
       (enumerate 0 slots) []) x = Some j \<longleftrightarrow>
     j < length slots \<and> slots ! j = Some x \<and> Some x \<notin> set (drop (Suc j) slots)"
proof (induction slots rule: rev_induct)
  case (snoc a slots)
  show ?case
    using snoc by (cases a) (auto simp: enumerate_append_eq nth_append less_Suc_eq)
qed simp

lemma paramIndex_iff: "map_of (paramIndex fn) x = Some j \<longleftrightarrow> param_at fn x j"
  by (cases "fd_Params fn")
    (simp_all add: paramIndex_def param_at_def param_slots_def index_fields_slots fold_slots_lookup)

section \<open>The hits of a frame\<close>

definition hits :: "doc_env \<Rightarrow> gomap \<Rightarrow> (string \<times> ast_file) list \<Rightarrow> frame \<Rightarrow> (conditionTriple + frame) set" where
  "hits E C A fr = set (fst (visit E C A fr))"

definition homed :: "doc_env \<Rightarrow> frame \<Rightarrow> bool" where
  "homed E fr \<longleftrightarrow> (fr_IsMethod fr \<longrightarrow> fr_HomeCRD fr = controllerName (dg_Base E (fr_File fr)))"

lemma set_map_filter: "y \<in> set (List.map_filter f xs) \<longleftrightarrow> (\<exists>x \<in> set xs. f x = Some y)"
  by (induction xs) (auto simp: map_filter_simps split: option.splits)

lemma set_triples_of: "set (triples_of hs) = {t. Inl t \<in> set hs}"
  by (induction hs) (auto simp: triples_of_def map_filter_simps split: sum.splits)

lemma set_frames_of: "set (frames_of hs) = {fr. Inr fr \<in> set hs}"
  by (induction hs) (auto simp: frames_of_def map_filter_simps split: sum.splits)

lemma hits_iff:
  assumes "homed E fr"
  shows "h \<in> hits E C A fr \<longleftrightarrow>
    (\<exists>q f g body n. (q, f) \<in> scope_files A (fr_IsMethod fr) (fr_File fr) \<and> (g, body) \<in> set (bodies f) \<and>
       n \<in> set (inspect body) \<and> call_hit E C fr (controllerName (dg_Base E q)) q g n = Some h)"
proof (cases "fr_IsMethod fr")
  case True
  then show ?thesis
    using assms
    by (cases "map_of A (fr_File fr)")
      (auto simp: hits_def visit_def frame_scope_def scope_files_def file_hits_def homed_def set_map_filter Let_def;
       blast)+
next
  case False
  then show ?thesis
    by (auto simp: hits_def visit_def frame_scope_def scope_files_def file_hits_def set_map_filter Let_def; blast)
qed

lemma call_hit_Inl:
  "call_hit E C fr crd q g n = Some (Inl t) \<longleftrightarrow>
     (\<exists>l h args s. n = CallExpr l h args \<and> callsFunc h (fr_FuncName fr) \<and> fr_ParamIdx fr < length args \<and>
        resolveStringValue E (args ! fr_ParamIdx fr) C = s \<and> s \<noteq> [] \<and>
        t = \<lparr>ct_CRD = crd, ct_Type = fr_Type fr, ct_Reason = s\<rparr>)"
  by (cases n) (auto simp: call_hit_def Let_def split: node.splits)

lemma call_hit_Inr:
  "call_hit E C fr crd q g n = Some (Inr fr') \<longleftrightarrow>
     (\<exists>l h args x j. n = CallExpr l h args \<and> callsFunc h (fr_FuncName fr) \<and> fr_ParamIdx fr < length args \<and>
        resolveStringValue E (args ! fr_ParamIdx fr) C = [] \<and> args ! fr_ParamIdx fr = Ident x \<and>
        param_at g x j \<and>
        fr' = \<lparr>fr_HomeCRD = crd, fr_Type = fr_Type fr, fr_IsMethod = fd_IsMethod g, fr_File = q,
               fr_FuncName = fd_Name g, fr_ParamIdx = j, fr_ParamName = x, fr_SrcLoc = fr_SrcLoc fr\<rparr>)"
  by (cases n) (auto simp: call_hit_def Let_def paramIndex_iff split: node.splits)

text \<open>The reference, in steps of frames.\<close>

lemma hit_received:
  assumes "homed E fr" "Inl t \<in> hits E C A fr"
  shows "ct_Type t = fr_Type fr" "frame_receives E C A fr (ct_CRD t) (ct_Reason t)"
  using assms(2) unfolding hits_iff [OF assms(1)] call_hit_Inl by (auto intro: receives.const_arg)

lemma frame_hit_sound:
  assumes "homed E fr" "Inr fr' \<in> hits E C A fr"
  shows "homed E fr'" "fr_Type fr' = fr_Type fr" "frame_receives E C A fr' crd s \<Longrightarrow> frame_receives E C A fr crd s"
    "\<exists>f g body. (fr_File fr', f) \<in> set A \<and> (g, body) \<in> set (bodies f) \<and> fr_FuncName fr' = fd_Name g \<and>
       fr_IsMethod fr' = fd_IsMethod g \<and> fr_ParamIdx fr' \<in> snd ` set (paramIndex g)"
proof -
  from assms(2) obtain q f g body l h args x j where w:
    "(q, f) \<in> scope_files A (fr_IsMethod fr) (fr_File fr)" "(g, body) \<in> set (bodies f)"
    "CallExpr l h args \<in> set (inspect body)" "callsFunc h (fr_FuncName fr)" "fr_ParamIdx fr < length args"
    "resolveStringValue E (args ! fr_ParamIdx fr) C = []" "args ! fr_ParamIdx fr = Ident x"
    "param_at g x j"
    "fr' = \<lparr>fr_HomeCRD = controllerName (dg_Base E q), fr_Type = fr_Type fr, fr_IsMethod = fd_IsMethod g,
            fr_File = q, fr_FuncName = fd_Name g, fr_ParamIdx = j, fr_ParamName = x, fr_SrcLoc = fr_SrcLoc fr\<rparr>"
    unfolding hits_iff [OF assms(1)] call_hit_Inr by blast
  show "homed E fr'" "fr_Type fr' = fr_Type fr" by (simp_all add: w(9) homed_def)
  show "frame_receives E C A fr crd s" if "frame_receives E C A fr' crd s"
    using w(1-8) that by (auto simp: w(9) intro: receives.param_arg)
  have "(q, f) \<in> set A" using w(1) by (auto simp: scope_files_def dest: map_of_SomeD split: if_splits)
  moreover have "j \<in> snd ` set (paramIndex g)" using map_of_SomeD [OF w(8) [folded paramIndex_iff]] by force
  ultimately show "\<exists>f g body. (fr_File fr', f) \<in> set A \<and> (g, body) \<in> set (bodies f) \<and>
      fr_FuncName fr' = fd_Name g \<and> fr_IsMethod fr' = fd_IsMethod g \<and> fr_ParamIdx fr' \<in> snd ` set (paramIndex g)"
    using w(2) by (auto simp: w(9))
qed

lemma received_hit:
  assumes "frame_receives E C A fr crd s" "homed E fr"
  shows "Inl \<lparr>ct_CRD = crd, ct_Type = fr_Type fr, ct_Reason = s\<rparr> \<in> hits E C A fr \<or>
         (\<exists>fr'. Inr fr' \<in> hits E C A fr \<and> frame_receives E C A fr' crd s)"
  using assms(1)
proof (cases rule: receives.cases)
  case (const_arg q f g body l h args)
  then have "call_hit E C fr (controllerName (dg_Base E q)) q g (CallExpr l h args) =
      Some (Inl \<lparr>ct_CRD = crd, ct_Type = fr_Type fr, ct_Reason = s\<rparr>)"
    by (auto simp: call_hit_Inl)
  with const_arg show ?thesis unfolding hits_iff [OF assms(2)] by blast
next
  case (param_arg q f g body l h args x j)
  let ?fr' = "\<lparr>fr_HomeCRD = controllerName (dg_Base E q), fr_Type = fr_Type fr, fr_IsMethod = fd_IsMethod g,
     fr_File = q, fr_FuncName = fd_Name g, fr_ParamIdx = j, fr_ParamName = x, fr_SrcLoc = fr_SrcLoc fr\<rparr>"
  have "call_hit E C fr (controllerName (dg_Base E q)) q g (CallExpr l h args) = Some (Inr ?fr')"
    using param_arg by (auto simp: call_hit_Inr)
  then have "Inr ?fr' \<in> hits E C A fr" unfolding hits_iff [OF assms(2)] using param_arg by blast
  with param_arg show ?thesis by (intro disjI2 exI [of _ ?fr']) simp
qed

section \<open>The worklist comes to an end\<close>

text \<open>
  Over any set \<open>R\<close> of frames that is closed under hits and has finitely many keys, the loop returns:
  it visits frames \<open>V\<close> of \<open>R\<close> and collects exactly their triples; every frame in the worklist, and every
  frame that a visited one hits, has the key of a visited frame.
\<close>

lemma flow_loop_visits:
  assumes "finite (visitKey ` R)" "\<forall>fr \<in> R. \<forall>fr'. Inr fr' \<in> hits E C A fr \<longrightarrow> fr' \<in> R"
    and "set worklist \<subseteq> R"
  shows "\<exists>ts us V. flow_loop E C A worklist visited triples unresolved = Some (triples @ ts, us) \<and> V \<subseteq> R \<and>
           set ts = {t. \<exists>fr \<in> V. Inl t \<in> hits E C A fr} \<and>
           visitKey ` set worklist \<subseteq> set visited \<union> visitKey ` V \<and>
           (\<forall>fr \<in> V. \<forall>fr'. Inr fr' \<in> hits E C A fr \<longrightarrow> visitKey fr' \<in> set visited \<union> visitKey ` V)"
  using assms(3)
proof (induction "(card (visitKey ` R - set visited), length worklist)"
    arbitrary: worklist visited triples unresolved rule: wf_induct_rule [OF wf_lex_prod [OF wf_less_than wf_less_than]])
  case 1
  show ?case
  proof (cases worklist)
    case Nil
    then show ?thesis by (auto simp: flow_loop.simps intro!: exI [of _ "{}"])
  next
    case (Cons fr rest)
    show ?thesis
    proof (cases "visitKey fr \<in> set visited")
      case True
      have "\<exists>ts us V. flow_loop E C A rest visited triples unresolved = Some (triples @ ts, us) \<and> V \<subseteq> R \<and>
           set ts = {t. \<exists>fr \<in> V. Inl t \<in> hits E C A fr} \<and>
           visitKey ` set rest \<subseteq> set visited \<union> visitKey ` V \<and>
           (\<forall>fr \<in> V. \<forall>fr'. Inr fr' \<in> hits E C A fr \<longrightarrow> visitKey fr' \<in> set visited \<union> visitKey ` V)"
        using 1(2) Cons by (intro 1(1)) auto
      with True Cons show ?thesis by (simp add: flow_loop.simps [of _ _ _ "fr # rest"])
    next
      case False
      obtain hs us0 where v: "visit E C A fr = (hs, us0)" by fastforce
      then have h: "hits E C A fr = set hs" by (simp add: hits_def)
      have fr: "fr \<in> R" using 1(2) Cons by simp
      then have wl: "set (rest @ frames_of hs) \<subseteq> R"
        using 1(2) Cons assms(2) by (auto simp: set_frames_of h)
      have "visitKey ` R - set (visitKey fr # visited) \<subset> visitKey ` R - set visited"
        using fr False by auto
      then have "card (visitKey ` R - set (visitKey fr # visited)) < card (visitKey ` R - set visited)"
        using assms(1) by (intro psubset_card_mono) auto
      then obtain ts us V where IH:
        "flow_loop E C A (rest @ frames_of hs) (visitKey fr # visited) (triples @ triples_of hs) (unresolved @ us0) =
           Some ((triples @ triples_of hs) @ ts, us)" "V \<subseteq> R"
        "set ts = {t. \<exists>fr \<in> V. Inl t \<in> hits E C A fr}"
        "visitKey ` set (rest @ frames_of hs) \<subseteq> set (visitKey fr # visited) \<union> visitKey ` V"
        "\<forall>fr' \<in> V. \<forall>fr''. Inr fr'' \<in> hits E C A fr' \<longrightarrow> visitKey fr'' \<in> set (visitKey fr # visited) \<union> visitKey ` V"
        using 1(1) [OF _ wl, of "visitKey fr # visited" "triples @ triples_of hs" "unresolved @ us0"] by auto
      have "flow_loop E C A worklist visited triples unresolved = Some (triples @ (triples_of hs @ ts), us)"
        using IH(1) False Cons v by (simp add: flow_loop.simps [of _ _ _ "fr # rest"])
      moreover have "insert fr V \<subseteq> R" using IH(2) fr by simp
      moreover have "set (triples_of hs @ ts) = {t. \<exists>fr' \<in> insert fr V. Inl t \<in> hits E C A fr'}"
        using IH(3) h by (auto simp: set_triples_of)
      moreover have "visitKey ` set worklist \<subseteq> set visited \<union> visitKey ` insert fr V"
        using IH(4) Cons by auto
      moreover have "\<forall>fr' \<in> insert fr V. \<forall>fr''. Inr fr'' \<in> hits E C A fr' \<longrightarrow>
          visitKey fr'' \<in> set visited \<union> visitKey ` insert fr V"
        using IH(4,5) h by (auto simp: set_frames_of)
      ultimately show ?thesis by blast
    qed
  qed
qed

section \<open>Keys\<close>

lemma append_sep_eq:
  "c \<notin> set a \<Longrightarrow> c \<notin> set a' \<Longrightarrow> a @ c # b = a' @ c # b' \<longleftrightarrow> a = a' \<and> b = b'"
  by (induction a arbitrary: a') (case_tac a', auto)+

definition no_bar :: "string \<Rightarrow> bool" where
  "no_bar s \<longleftrightarrow> CHR ''|'' \<notin> set s"

lemma visitKey_inj:
  assumes "no_bar (fr_FuncName fr)" "no_bar (fr_Type fr)" "no_bar (fr_FuncName fr')" "no_bar (fr_Type fr')"
    and "visitKey fr = visitKey fr'"
  shows "fr_FuncName fr = fr_FuncName fr'" "fr_ParamIdx fr = fr_ParamIdx fr'" "fr_Type fr = fr_Type fr'"
    "fr_File fr = fr_File fr'" "fr_IsMethod fr = fr_IsMethod fr'"
proof -
  have digits: "CHR ''|'' \<notin> set (show_nat n)" for n
    using show_nat_digits [of "CHR ''|''" n] by (auto simp: is_digit_def)
  have eq: "fr_FuncName fr = fr_FuncName fr' \<and> fr_ParamIdx fr = fr_ParamIdx fr' \<and> fr_Type fr = fr_Type fr' \<and>
      fr_File fr @ ''|'' @ (if fr_IsMethod fr then ''true'' else ''false'') =
      fr_File fr' @ ''|'' @ (if fr_IsMethod fr' then ''true'' else ''false'')"
    using assms by (auto simp: visitKey_def no_bar_def append_sep_eq digits show_nat_inj)
  then show "fr_FuncName fr = fr_FuncName fr'" "fr_ParamIdx fr = fr_ParamIdx fr'" "fr_Type fr = fr_Type fr'"
    by simp_all
  from eq have "rev (fr_File fr @ ''|'' @ (if fr_IsMethod fr then ''true'' else ''false'')) =
      rev (fr_File fr' @ ''|'' @ (if fr_IsMethod fr' then ''true'' else ''false''))" by simp
  then show "fr_File fr = fr_File fr'" "fr_IsMethod fr = fr_IsMethod fr'"
    by (auto split: if_splits)
qed

section \<open>The worklist finds what flows\<close>

definition plain_functions :: "(string \<times> ast_file) list \<Rightarrow> bool" where
  "plain_functions A \<longleftrightarrow> (\<forall>(q, f) \<in> set A. \<forall>(g, body) \<in> set (bodies f). no_bar (fd_Name g))"

lemma flow_loop_exact:
  assumes funs: "plain_functions A"
    and init: "\<And>fr. fr \<in> set init \<Longrightarrow> homed E fr \<and> no_bar (fr_FuncName fr) \<and> no_bar (fr_Type fr)"
  shows "\<exists>ts us. flow_loop E C A init [] triples unresolved = Some (triples @ ts, us) \<and>
           set ts = {\<lparr>ct_CRD = crd, ct_Type = fr_Type fr, ct_Reason = s\<rparr> | fr crd s.
                       fr \<in> set init \<and> frame_receives E C A fr crd s}"
proof -
  define comps where "comps fr = (fr_FuncName fr, fr_ParamIdx fr, fr_Type fr, fr_File fr, fr_IsMethod fr)" for fr :: frame
  define kf where "kf = (\<lambda>(n, i, ty, q, m). n @ ''|'' @ show_nat i @ ''|'' @ ty @ ''|'' @ q @ ''|'' @
     (if m then ''true'' else ''false''))"
  have kf: "visitKey fr = kf (comps fr)" for fr :: frame by (simp add: visitKey_def kf_def comps_def)
  define Comps where "Comps = comps ` set init \<union> (\<Union>(q, f) \<in> set A. \<Union>(g, body) \<in> set (bodies f).
     \<Union>i \<in> snd ` set (paramIndex g). \<Union>ty \<in> fr_Type ` set init. {(fd_Name g, i, ty, q, fd_IsMethod g)})"
  have fin: "finite Comps" by (auto simp: Comps_def)
  define R where "R = {fr :: frame. comps fr \<in> Comps \<and> fr_Type fr \<in> fr_Type ` set init \<and> homed E fr \<and>
     no_bar (fr_FuncName fr) \<and>
     (\<forall>crd s. frame_receives E C A fr crd s \<longrightarrow>
        (\<exists>w \<in> set init. fr_Type w = fr_Type fr \<and> frame_receives E C A w crd s))}"
  have "visitKey ` R \<subseteq> kf ` Comps" by (auto simp: R_def kf)
  then have finR: "finite (visitKey ` R)" using fin by (meson finite_imageI finite_subset)
  have closed: "fr' \<in> R" if "fr \<in> R" "Inr fr' \<in> hits E C A fr" for fr fr'
  proof -
    have h: "homed E fr" using that(1) by (simp add: R_def)
    note step = frame_hit_sound [OF h that(2)]
    obtain f g body where g: "(fr_File fr', f) \<in> set A" "(g, body) \<in> set (bodies f)" "fr_FuncName fr' = fd_Name g"
      "fr_IsMethod fr' = fd_IsMethod g" "fr_ParamIdx fr' \<in> snd ` set (paramIndex g)"
      using step(4) by blast
    have ty: "fr_Type fr' \<in> fr_Type ` set init" using that(1) step(2) by (simp add: R_def)
    have inner: "comps fr' \<in> (\<Union>i \<in> snd ` set (paramIndex g). \<Union>ty \<in> fr_Type ` set init.
        {(fd_Name g, i, ty, fr_File fr', fd_IsMethod g)})"
      unfolding comps_def g(3,4) using g(5) ty by blast
    have "comps fr' \<in> Comps"
      unfolding Comps_def
      by (rule UnI2, rule UN_I [OF g(1)], unfold prod.case, rule UN_I [OF g(2)], unfold prod.case, rule inner)
    moreover have "no_bar (fr_FuncName fr')"
      using funs g(1,2) by (auto simp: plain_functions_def g(3))
    moreover have "\<exists>w \<in> set init. fr_Type w = fr_Type fr' \<and> frame_receives E C A w crd s"
      if "frame_receives E C A fr' crd s" for crd s
      using step(3) [OF that] \<open>fr \<in> R\<close> step(2) by (simp add: R_def)
    ultimately show ?thesis using step(1) ty by (simp add: R_def)
  qed
  have initR: "set init \<subseteq> R" using init by (auto simp: R_def Comps_def)
  obtain ts us V where loop: "flow_loop E C A init [] triples unresolved = Some (triples @ ts, us)" "V \<subseteq> R"
    "set ts = {t. \<exists>fr \<in> V. Inl t \<in> hits E C A fr}" "visitKey ` set init \<subseteq> visitKey ` V"
    "\<forall>fr \<in> V. \<forall>fr'. Inr fr' \<in> hits E C A fr \<longrightarrow> visitKey fr' \<in> visitKey ` V"
    using flow_loop_visits [where E = E and C = C and A = A and visited = "[]" and triples = triples and
      unresolved = unresolved, OF finR _ initR] closed by auto
  have bar: "no_bar (fr_FuncName fr)" "no_bar (fr_Type fr)" "homed E fr" if "fr \<in> R" for fr
    using that init by (auto simp: R_def)
  have complete: "\<lparr>ct_CRD = crd, ct_Type = fr_Type v, ct_Reason = s\<rparr> \<in> set ts"
    if "receives E C A m p n i crd s" "v \<in> V" "comps v = (n, i, fr_Type v, p, m)" for m p n i crd s v
    using that
  proof (induction arbitrary: v rule: receives.induct)
    case (const_arg q f m p g body l h args name i s)
    have "call_hit E C v (controllerName (dg_Base E q)) q g (CallExpr l h args) =
        Some (Inl \<lparr>ct_CRD = controllerName (dg_Base E q), ct_Type = fr_Type v, ct_Reason = s\<rparr>)"
      using const_arg by (auto simp: call_hit_Inl comps_def)
    then have "Inl \<lparr>ct_CRD = controllerName (dg_Base E q), ct_Type = fr_Type v, ct_Reason = s\<rparr> \<in> hits E C A v"
      using const_arg bar(3) loop(2) by (subst hits_iff) (auto simp: comps_def; blast)+
    with const_arg(8) show ?case unfolding loop(3) by blast
  next
    case (param_arg q f m p g body l h args name i x j crd s)
    let ?fr' = "\<lparr>fr_HomeCRD = controllerName (dg_Base E q), fr_Type = fr_Type v, fr_IsMethod = fd_IsMethod g,
      fr_File = q, fr_FuncName = fd_Name g, fr_ParamIdx = j, fr_ParamName = x, fr_SrcLoc = fr_SrcLoc v\<rparr>"
    have "call_hit E C v (controllerName (dg_Base E q)) q g (CallExpr l h args) = Some (Inr ?fr')"
      using param_arg by (auto simp: call_hit_Inr comps_def)
    then have hit: "Inr ?fr' \<in> hits E C A v"
      using param_arg bar(3) loop(2) by (subst hits_iff) (auto simp: comps_def; blast)+
    then obtain v' where v': "v' \<in> V" "visitKey v' = visitKey ?fr'"
      using loop(5) param_arg(11) by force
    have R: "v' \<in> R" "?fr' \<in> R" using loop(2) v'(1) param_arg(11) closed hit by blast+
    have "comps v' = comps ?fr'"
      using visitKey_inj [OF bar(1,2) [OF R(1)] bar(1,2) [OF R(2)] v'(2)] by (simp add: comps_def)
    then have c: "comps v' = (fd_Name g, j, fr_Type v', q, fd_IsMethod g)" "fr_Type v' = fr_Type v"
      by (simp_all add: comps_def)
    from param_arg(10) [OF v'(1) c(1)] show ?case by (simp add: c(2))
  qed
  have "set ts = {\<lparr>ct_CRD = crd, ct_Type = fr_Type fr, ct_Reason = s\<rparr> | fr crd s.
      fr \<in> set init \<and> frame_receives E C A fr crd s}" (is "_ = ?flows")
  proof
    show "set ts \<subseteq> ?flows"
    proof
      fix t assume "t \<in> set ts"
      then obtain v where v: "v \<in> V" "Inl t \<in> hits E C A v" unfolding loop(3) by blast
      then have vR: "v \<in> R" using loop(2) by blast
      from hit_received [OF bar(3) [OF vR] v(2)] vR
      obtain w where "w \<in> set init" "fr_Type w = ct_Type t" "frame_receives E C A w (ct_CRD t) (ct_Reason t)"
        by (auto simp: R_def)
      then show "t \<in> ?flows" by (intro CollectI exI [of _ w] exI [of _ "ct_CRD t"] exI [of _ "ct_Reason t"]) simp
    qed
    show "?flows \<subseteq> set ts"
    proof
      fix t assume "t \<in> ?flows"
      then obtain fr crd s where w: "t = \<lparr>ct_CRD = crd, ct_Type = fr_Type fr, ct_Reason = s\<rparr>"
        "fr \<in> set init" "frame_receives E C A fr crd s" by blast
      then obtain v where v: "v \<in> V" "visitKey v = visitKey fr" using loop(4) by force
      have R: "v \<in> R" "fr \<in> R" using loop(2) v(1) initR w(2) by blast+
      have "comps v = comps fr"
        using visitKey_inj [OF bar(1,2) [OF R(1)] bar(1,2) [OF R(2)] v(2)] by (simp add: comps_def)
      then have c: "comps v = (fr_FuncName fr, fr_ParamIdx fr, fr_Type v, fr_File fr, fr_IsMethod fr)" "fr_Type v = fr_Type fr"
        by (simp_all add: comps_def)
      from complete [OF w(3) v(1) c(1)] show "t \<in> set ts" by (simp add: w(1) c(2))
    qed
  qed
  with loop(1) show ?thesis by blast
qed

section \<open>What the lint decides\<close>

lemma set_file_asts: "set (file_asts files) \<subseteq> set files"
proof -
  have put: "set (map_put k v m) \<subseteq> insert (k, v) (set m)" for k :: string and v :: ast_file and m
    by (induction k v m rule: map_put.induct) auto
  have "set (fold (\<lambda>(path, f) m. map_put path f m) files m) \<subseteq> set files \<union> set m" for m
  proof (induction files arbitrary: m)
    case (Cons pf files)
    obtain path f where pf: "pf = (path, f)" by fastforce
    show ?case using Cons [of "map_put path f m"] put [of path f m] by (auto simp: pf)
  qed simp
  from this [of "[]"] show ?thesis by (simp add: file_asts_def)
qed

lemma filter_remdups_Nil: "filter P (remdups xs) = [] \<longleftrightarrow> (\<forall>x \<in> set xs. \<not> P x)"
  by (auto simp: filter_empty_conv)

lemma site_pending_Some: "(case s of SitePending q \<Rightarrow> Some q | _ \<Rightarrow> None) = Some p \<longleftrightarrow> s = SitePending p"
  by (cases s) auto

lemma scan_site_pending:
  "scan_site E rel path consts fn crd line elts = SitePending p \<Longrightarrow>
     pp_HomeCRD p = crd \<and> pp_File p = path \<and> pp_FuncName p = fd_Name fn"
  by (auto simp: scan_site_def Let_def split: prod.splits if_splits option.splits)

lemma pending_of_files:
  assumes "scan_files E root C files = (direct, pending, unresolved)" "plain_functions files" "p \<in> set pending"
  shows "homed E (frame_of p)" "no_bar (pp_FuncName p)"
proof -
  obtain path f where pf: "(path, f) \<in> set files" "p \<in> set (fst (snd (scanCallSites E root (path, f) C)))"
    using assms(1,3) by (auto simp: scan_files_def Let_def)
  then have "SitePending p \<in> set (file_sites E root (path, f) C)"
    by (auto simp: scanCallSites_def Let_def set_map_filter site_pending_Some)
  then obtain fn body line elts where fn: "(fn, body) \<in> set (bodies f)"
    "scan_site E (relative E root path) path C fn (controllerName (dg_Base E path)) line elts = SitePending p"
    by (auto simp: file_sites_def set_map_filter)
  from scan_site_pending [OF fn(2)]
  show "homed E (frame_of p)" by (simp add: homed_def frame_of_def)
  from scan_site_pending [OF fn(2)] assms(2) pf(1) fn(1) show "no_bar (pp_FuncName p)"
    by (auto simp: plain_functions_def)
qed

lemma lint_scanned:
  assumes "dg_ReadDir E (dg_Join E [root, ''internal'', ''controller'']) = Inr entries"
    and "read_controllers E (dg_Join E [root, ''internal'', ''controller'']) entries [] [] = Inr (C, files)"
    and "scan_files E root C files = (direct, pending, unresolved)"
    and "parseConditionsDoc E (dg_Join E [root, docPath]) = Inr docs"
    and "plain_functions files" "list_all (\<lambda>p. no_bar (pp_Type p)) pending"
  shows "\<exists>out err. verifyConditions E root docPath = Some (out, err) \<and>
    (err = None \<longleftrightarrow>
       set docs = set direct \<union>
         {\<lparr>ct_CRD = crd, ct_Type = pp_Type p, ct_Reason = s\<rparr> | p crd s. p \<in> set pending \<and>
            receives E C (file_asts files) (pp_IsMethod p) (pp_File p) (pp_FuncName p) (pp_ParamIdx p) crd s})"
proof -
  have plain: "plain_functions (file_asts files)"
    using assms(5) set_file_asts [of files] unfolding plain_functions_def by blast
  have init: "homed E fr \<and> no_bar (fr_FuncName fr) \<and> no_bar (fr_Type fr)" if "fr \<in> set (map frame_of pending)" for fr
    using that pending_of_files [OF assms(3,5)] assms(6) by (auto simp: frame_of_def list_all_iff)
  obtain ts us where loop:
    "flow_loop E C (file_asts files) (map frame_of pending) [] direct unresolved = Some (direct @ ts, us)"
    "set ts = {\<lparr>ct_CRD = crd, ct_Type = fr_Type fr, ct_Reason = s\<rparr> | fr crd s.
       fr \<in> set (map frame_of pending) \<and> frame_receives E C (file_asts files) fr crd s}"
    using flow_loop_exact [OF plain init, where triples = direct and unresolved = unresolved] by blast
  have ts: "set ts = {\<lparr>ct_CRD = crd, ct_Type = pp_Type p, ct_Reason = s\<rparr> | p crd s. p \<in> set pending \<and>
      receives E C (file_asts files) (pp_IsMethod p) (pp_File p) (pp_FuncName p) (pp_ParamIdx p) crd s}"
    unfolding loop(2) by (auto simp: frame_of_def) (force simp: frame_of_def)
  have scan: "scanConditionCalls E root = Some (Inr (direct @ ts, us))"
    using assms(1-3) loop(1) by (simp add: scanConditionCalls_def Let_def)
  show ?thesis
    unfolding verifyConditions_def scan assms(4) ts [symmetric]
    by (auto simp: Let_def filter_remdups_Nil)
qed

section \<open>What a call site writes\<close>

text \<open>
  A literal of Go names a field once; the types that are written contain no bar.
\<close>

definition field :: "string \<Rightarrow> node list \<Rightarrow> node list" where
  "field k elts = List.map_filter (\<lambda>e. case e of
     KeyValueExpr (Ident key) v \<Rightarrow> if key = k then Some v else None | _ \<Rightarrow> None) elts"

definition plain_literal :: "doc_env \<Rightarrow> gomap \<Rightarrow> node list \<Rightarrow> bool" where
  "plain_literal E C elts \<longleftrightarrow> length (field ''Type'' elts) \<le> 1 \<and> length (field ''Reason'' elts) \<le> 1 \<and>
     list_all (\<lambda>v. no_bar (resolveStringValue E v C)) (field ''Type'' elts)"

definition plain_sites :: "doc_env \<Rightarrow> gomap \<Rightarrow> (string \<times> ast_file) list \<Rightarrow> bool" where
  "plain_sites E C files \<longleftrightarrow>
     list_all (\<lambda>(q, f). list_all (\<lambda>(g, body). list_all (\<lambda>n. case set_condition_args n of
       None \<Rightarrow> True | Some (line, elts) \<Rightarrow> plain_literal E C elts) (inspect body)) (bodies f)) files"

lemma set_field: "v \<in> set (field k elts) \<longleftrightarrow> KeyValueExpr (Ident k) v \<in> set elts"
proof -
  have "(case e of KeyValueExpr (Ident key) v \<Rightarrow> if key = k then Some v else None | _ \<Rightarrow> None) = Some v \<longleftrightarrow>
      e = KeyValueExpr (Ident k) v" for e
    by (auto split: node.splits)
  then show ?thesis by (simp add: field_def set_map_filter)
qed

text \<open>The two fields of a literal after the loop over its elements.\<close>

fun last_type :: "doc_env \<Rightarrow> gomap \<Rightarrow> node list \<Rightarrow> string \<Rightarrow> string" where
  "last_type E C [] ty = ty"
| "last_type E C (v # vs) ty = last_type E C vs (resolveStringValue E v C)"

fun last_reason :: "doc_env \<Rightarrow> gomap \<Rightarrow> node list \<Rightarrow> string \<times> string \<Rightarrow> string \<times> string" where
  "last_reason E C [] r = r"
| "last_reason E C (v # vs) r = last_reason E C vs
     (if resolveStringValue E v C \<noteq> [] then (resolveStringValue E v C, snd r)
      else (case v of Ident x \<Rightarrow> (fst r, x) | _ \<Rightarrow> r))"

lemma field_simps:
  "field k [] = []"
  "field k (KeyValueExpr (Ident key) v # elts) = (if key = k then v # field k elts else field k elts)"
  "(\<And>key v. e \<noteq> KeyValueExpr (Ident key) v) \<Longrightarrow> field k (e # elts) = field k elts"
  by (auto simp: field_def map_filter_simps split: node.splits)

lemma condition_field_simps:
  "condition_field E C (KeyValueExpr (Ident k) v) (ty, r) =
     (if k = ''Type'' then (resolveStringValue E v C, r)
      else if k = ''Reason'' then
        (ty, if resolveStringValue E v C \<noteq> [] then (resolveStringValue E v C, snd r)
             else (case v of Ident x \<Rightarrow> (fst r, x) | _ \<Rightarrow> r))
      else (ty, r))"
  "(\<And>k v. e \<noteq> KeyValueExpr (Ident k) v) \<Longrightarrow> condition_field E C e (ty, r) = (ty, r)"
  by (cases r; auto simp: condition_field_def Let_def split: node.splits)+

lemma fold_fields:
  "fold (condition_field E C) elts (ty, r) =
     (last_type E C (field ''Type'' elts) ty, last_reason E C (field ''Reason'' elts) r)"
proof (induction elts arbitrary: ty r)
  case (Cons e elts)
  show ?case
  proof (cases "\<exists>k v. e = KeyValueExpr (Ident k) v")
    case True
    then obtain k v where e: "e = KeyValueExpr (Ident k) v" by blast
    consider "k = ''Type''" | "k = ''Reason''" | "k \<noteq> ''Type''" "k \<noteq> ''Reason''" by blast
    then show ?thesis
    proof cases
      case 3
      then have "k = ''Type'' \<longleftrightarrow> False" "k = ''Reason'' \<longleftrightarrow> False" by simp_all
      then show ?thesis using Cons by (simp only: e fold.simps comp_def condition_field_simps field_simps if_False)
    qed (simp_all add: e field_simps condition_field_simps Cons del: last_reason.simps, simp_all)
  next
    case False
    then show ?thesis using Cons by (simp add: condition_field_simps field_simps)
  qed
qed (simp add: field_simps)

lemma assigned_values:
  "assigned E x C lhs rhs (vs, ok) = (vs', ok') \<Longrightarrow>
     set vs' = set vs \<union> ({resolveStringValue E r C | r. (Ident x, r) \<in> set (zip lhs rhs)} - {[]}) \<and>
     (ok' \<longleftrightarrow> ok \<and> [] \<notin> {resolveStringValue E r C | r. (Ident x, r) \<in> set (zip lhs rhs)})"
proof (induction lhs arbitrary: rhs vs ok)
  case (Cons l lhs)
  show ?case
  proof (cases rhs)
    case (Cons r rs)
    with Cons.prems Cons.IH [of rs] show ?thesis
      by (auto split: if_splits) (metis (no_types, lifting))+
  qed (use Cons.prems in simp)
qed simp

lemma local_values_fold:
  "fold (\<lambda>n st. case n of AssignStmt lhs rhs \<Rightarrow> assigned E x C lhs rhs st | _ \<Rightarrow> st) ns (vs, ok) = (vs', ok') \<Longrightarrow>
     (let L = {resolveStringValue E r C | r lhs rhs. AssignStmt lhs rhs \<in> set ns \<and> (Ident x, r) \<in> set (zip lhs rhs)}
      in set vs' = set vs \<union> (L - {[]}) \<and> (ok' \<longleftrightarrow> ok \<and> [] \<notin> L))"
proof (induction ns arbitrary: vs ok)
  case (Cons n ns)
  show ?case
  proof (cases "\<exists>lhs rhs. n = AssignStmt lhs rhs")
    case True
    then obtain lhs rhs where n: "n = AssignStmt lhs rhs" by blast
    obtain vs1 ok1 where a: "assigned E x C lhs rhs (vs, ok) = (vs1, ok1)" by fastforce
    have L: "{resolveStringValue E r C | r lhs rhs. AssignStmt lhs rhs \<in> set (n # ns) \<and> (Ident x, r) \<in> set (zip lhs rhs)} =
        {resolveStringValue E r C | r. (Ident x, r) \<in> set (zip lhs rhs)} \<union>
        {resolveStringValue E r C | r lhs rhs. AssignStmt lhs rhs \<in> set ns \<and> (Ident x, r) \<in> set (zip lhs rhs)}"
      by (auto simp: n)
    have f: "fold (\<lambda>n st. case n of AssignStmt lhs rhs \<Rightarrow> assigned E x C lhs rhs st | _ \<Rightarrow> st) ns (vs1, ok1) = (vs', ok')"
      using Cons.prems by (simp add: n a)
    show ?thesis
      unfolding L using assigned_values [OF a] Cons.IH [OF f] by (simp add: Let_def) blast
  next
    case False
    then have "(case n of AssignStmt lhs rhs \<Rightarrow> assigned E x C lhs rhs st | _ \<Rightarrow> st) = st" for st
      by (auto split: node.splits)
    then have "fold (\<lambda>n st. case n of AssignStmt lhs rhs \<Rightarrow> assigned E x C lhs rhs st | _ \<Rightarrow> st) ns (vs, ok) = (vs', ok')"
      using Cons.prems by simp
    moreover have "AssignStmt lhs rhs \<in> set (n # ns) \<longleftrightarrow> AssignStmt lhs rhs \<in> set ns" for lhs rhs
      using False by auto
    ultimately show ?thesis using Cons.IH by simp
  qed
qed (simp add: Let_def)

lemma local_assignments:
  "set (resolveLocalVarAssignments E g x C) =
     (if [] \<in> local_values E C g x then {} else local_values E C g x)"
proof (cases "fd_Body g")
  case None
  then show ?thesis by (simp add: resolveLocalVarAssignments_def local_values_def)
next
  case (Some body)
  obtain vs ok where f: "fold (\<lambda>n st. case n of AssignStmt lhs rhs \<Rightarrow> assigned E x C lhs rhs st | _ \<Rightarrow> st)
      (inspect body) ([], True) = (vs, ok)" by fastforce
  have L: "local_values E C g x = {resolveStringValue E r C | r lhs rhs.
      AssignStmt lhs rhs \<in> set (inspect body) \<and> (Ident x, r) \<in> set (zip lhs rhs)}"
    by (auto simp: local_values_def Some)
  have vs: "set vs = local_values E C g x - {[]}" and ok: "ok \<longleftrightarrow> [] \<notin> local_values E C g x"
    using local_values_fold [OF f] unfolding L by (simp_all add: Let_def)
  have "resolveLocalVarAssignments E g x C = (if \<not> ok \<or> vs = [] then [] else sort vs)"
    unfolding resolveLocalVarAssignments_def Some option.case f by simp
  then show ?thesis
    using vs ok by (cases "[] \<in> local_values E C g x") auto
qed

section \<open>The lint is exact\<close>

text \<open>The reasons of a call that are constants, or a variable that is only assigned constants.\<close>

definition written_value :: "doc_env \<Rightarrow> gomap \<Rightarrow> func_decl \<Rightarrow> node \<Rightarrow> string \<Rightarrow> bool" where
  "written_value E C g re s \<longleftrightarrow>
     (resolveStringValue E re C \<noteq> [] \<and> s = resolveStringValue E re C) \<or>
     (\<exists>x. re = Ident x \<and> resolveStringValue E re C = [] \<and> x \<noteq> [] \<and>
        [] \<notin> local_values E C g x \<and> s \<in> local_values E C g x)"

definition open_param :: "doc_env \<Rightarrow> gomap \<Rightarrow> func_decl \<Rightarrow> node \<Rightarrow> string \<Rightarrow> nat \<Rightarrow> bool" where
  "open_param E C g re x j \<longleftrightarrow>
     re = Ident x \<and> resolveStringValue E re C = [] \<and> x \<noteq> [] \<and>
     ([] \<in> local_values E C g x \<or> local_values E C g x = {}) \<and> param_at g x j"

lemma short_list: "length xs \<le> 1 \<Longrightarrow> xs = [] \<or> (\<exists>x. xs = [x])"
  by (cases xs) (auto simp: le_Suc_eq)

text \<open>What a call site gives, for a literal with its two fields.\<close>

definition reason_site ::
    "doc_env \<Rightarrow> string \<Rightarrow> string \<Rightarrow> gomap \<Rightarrow> func_decl \<Rightarrow> string \<Rightarrow> nat \<Rightarrow> string \<Rightarrow> node \<Rightarrow> site \<Rightarrow> bool" where
  "reason_site E rel path C g crd line ty re st \<longleftrightarrow>
     (if resolveStringValue E re C \<noteq> [] then
        st = SiteTriples [\<lparr>ct_CRD = crd, ct_Type = ty, ct_Reason = resolveStringValue E re C\<rparr>]
      else (case re of
        Ident x \<Rightarrow>
          if x = [] then st = SiteTriples []
          else if [] \<notin> local_values E C g x \<and> local_values E C g x \<noteq> {} then
            (\<exists>vals. set vals = local_values E C g x \<and>
               st = SiteTriples (map (\<lambda>v. \<lparr>ct_CRD = crd, ct_Type = ty, ct_Reason = v\<rparr>) vals))
          else (case map_of (paramIndex g) x of
             Some j \<Rightarrow> st = SitePending \<lparr>pp_HomeCRD = crd, pp_Type = ty, pp_File = path, pp_IsMethod = fd_IsMethod g,
                 pp_FuncName = fd_Name g, pp_ParamName = x, pp_ParamIdx = j, pp_SrcLoc = rel @ '':'' @ show_nat line\<rparr>
           | None \<Rightarrow> \<exists>u. st = SiteUnresolved u)
      | _ \<Rightarrow> st = SiteTriples []))"

lemma scan_site_shape:
  assumes "field ''Type'' elts = [te]" "resolveStringValue E te C \<noteq> []" "field ''Reason'' elts = [re]"
  shows "reason_site E rel path C g crd line (resolveStringValue E te C) re (scan_site E rel path C g crd line elts)"
proof -
  let ?r = "resolveStringValue E re C"
  have f: "fold (condition_field E C) elts ([], [], []) = (resolveStringValue E te C,
      if ?r \<noteq> [] then (?r, []) else (case re of Ident x \<Rightarrow> ([], x) | _ \<Rightarrow> ([], [])))"
    unfolding fold_fields assms(1,3) by (cases re) simp_all
  show ?thesis
  proof (cases "?r = []")
    case False
    then show ?thesis using assms(2) by (simp add: scan_site_def f reason_site_def)
  next
    case r: True
    show ?thesis
    proof (cases re)
      case (Ident x)
      have vals: "resolveLocalVarAssignments E g x C = [] \<longleftrightarrow> [] \<in> local_values E C g x \<or> local_values E C g x = {}"
        using local_assignments [of E g x C] by (cases "[] \<in> local_values E C g x") auto
      show ?thesis
      proof (cases "[] \<notin> local_values E C g x \<and> local_values E C g x \<noteq> {}")
        case True
        then have "set (resolveLocalVarAssignments E g x C) = local_values E C g x"
          by (simp add: local_assignments)
        with True vals Ident r assms(2) show ?thesis
          by (auto simp: scan_site_def f reason_site_def Let_def)
      next
        case False
        with vals have "resolveLocalVarAssignments E g x C = []" by blast
        with False Ident r assms(2) show ?thesis
          by (simp add: scan_site_def f reason_site_def Let_def split: option.splits)
      qed
    qed (use r assms(2) in \<open>simp_all add: scan_site_def f reason_site_def\<close>)
  qed
qed

lemma scan_site_none:
  assumes "plain_literal E C elts" "\<And>ty re. \<not> names_condition E C elts ty re"
  shows "scan_site E rel path C g crd line elts = SiteTriples [] \<or>
         (\<exists>u. scan_site E rel path C g crd line elts = SiteUnresolved u)"
proof -
  consider "field ''Type'' elts = []" | te where "field ''Type'' elts = [te]"
    using short_list assms(1) by (auto simp: plain_literal_def)
  then show ?thesis
  proof cases
    case 1
    then show ?thesis by (simp add: scan_site_def fold_fields split: prod.splits)
  next
    case (2 te)
    have "field ''Reason'' elts = []" if "resolveStringValue E te C \<noteq> []"
    proof (rule ccontr)
      assume "field ''Reason'' elts \<noteq> []"
      then obtain re where "re \<in> set (field ''Reason'' elts)" by (cases "field ''Reason'' elts") auto
      moreover have "te \<in> set (field ''Type'' elts)" using 2 by simp
      ultimately show False using assms(2) that unfolding set_field names_condition_def by blast
    qed
    with 2 show ?thesis by (cases "resolveStringValue E te C = []") (simp_all add: scan_site_def fold_fields split: prod.splits)
  qed
qed

lemma names_unique:
  assumes "plain_literal E C elts" "names_condition E C elts ty re"
  obtains te where "field ''Type'' elts = [te]" "field ''Reason'' elts = [re]" "resolveStringValue E te C = ty" "ty \<noteq> []"
proof -
  from assms(2) obtain te where te: "te \<in> set (field ''Type'' elts)" "resolveStringValue E te C = ty" "ty \<noteq> []"
    and re: "re \<in> set (field ''Reason'' elts)"
    by (auto simp: names_condition_def set_field)
  have only: "xs = [x]" if "x \<in> set xs" "length xs \<le> 1" for x :: node and xs
    using short_list [OF that(2)] that(1) by auto
  have "field ''Type'' elts = [te]" "field ''Reason'' elts = [re]"
    using assms(1) by (intro only te(1) re; simp add: plain_literal_def)+
  from that [OF this te(2,3)] show thesis .
qed

lemma scan_site_eq:
  assumes "plain_literal E C elts"
  shows "(\<exists>ts. scan_site E rel path C g crd line elts = SiteTriples ts \<and> t \<in> set ts) \<longleftrightarrow>
     (\<exists>ty re s. names_condition E C elts ty re \<and> written_value E C g re s \<and>
        t = \<lparr>ct_CRD = crd, ct_Type = ty, ct_Reason = s\<rparr>)" (is ?triples)
    and "scan_site E rel path C g crd line elts = SitePending p \<longleftrightarrow>
     (\<exists>ty re x j. names_condition E C elts ty re \<and> open_param E C g re x j \<and>
        p = \<lparr>pp_HomeCRD = crd, pp_Type = ty, pp_File = path, pp_IsMethod = fd_IsMethod g,
             pp_FuncName = fd_Name g, pp_ParamName = x, pp_ParamIdx = j,
             pp_SrcLoc = rel @ '':'' @ show_nat line\<rparr>)" (is ?pending)
proof -
  have "?triples \<and> ?pending"
  proof (cases "\<exists>ty re. names_condition E C elts ty re")
    case False
    then have none: "names_condition E C elts ty re \<longleftrightarrow> False" for ty re by blast
    from scan_site_none [OF assms, of rel path g crd line] False
    consider "scan_site E rel path C g crd line elts = SiteTriples []"
      | u where "scan_site E rel path C g crd line elts = SiteUnresolved u" by blast
    then show ?thesis by cases (simp_all add: none)
  next
    case True
    then obtain ty re where n: "names_condition E C elts ty re" by blast
    then obtain te where u: "field ''Type'' elts = [te]" "field ''Reason'' elts = [re]"
      "resolveStringValue E te C = ty" "ty \<noteq> []"
      using names_unique [OF assms] by blast
    have same: "names_condition E C elts ty' re' \<longleftrightarrow> ty' = ty \<and> re' = re" for ty' re'
      using names_unique [OF assms, of ty' re'] n u by (metis list.inject)
    have "resolveStringValue E te C \<noteq> []" using u(3,4) by simp
    note site = scan_site_shape [OF u(1) this u(2), of rel path g crd line, unfolded u(3)]
    show ?thesis
      unfolding same
      using site
      by (cases re)
        (auto simp: reason_site_def written_value_def open_param_def paramIndex_iff [symmetric]
          split: if_splits option.splits)
  qed
  then show ?triples ?pending by simp_all
qed

lemma set_condition_args_iff:
  "set_condition_args n = Some (line, elts) \<longleftrightarrow>
     (\<exists>obj t args. n = CallExpr line (SelectorExpr (Ident ''meta'') ''SetStatusCondition'')
        (obj # CompositeLit t elts # args))"
  by (cases n) (auto simp: set_condition_args_def split: node.splits list.splits)

lemma bodies_iff: "(g, body) \<in> set (bodies f) \<longleftrightarrow> FuncDecl g \<in> set f \<and> fd_Body g = Some body"
proof -
  have "(case d of FuncDecl fn \<Rightarrow> map_option (Pair fn) (fd_Body fn) | _ \<Rightarrow> None) = Some (g, body) \<longleftrightarrow>
      d = FuncDecl g \<and> fd_Body g = Some body" for d
    by (cases d) auto
  then show ?thesis by (auto simp: bodies_def set_map_filter)
qed

lemma file_sites_iff:
  "st \<in> set (file_sites E root (q, f) C) \<longleftrightarrow>
     (\<exists>g body line elts n. FuncDecl g \<in> set f \<and> fd_Body g = Some body \<and> n \<in> set (inspect body) \<and>
        set_condition_args n = Some (line, elts) \<and>
        st = scan_site E (relative E root q) q C g (controllerName (dg_Base E q)) line elts)"
proof -
  have "st \<in> set (file_sites E root (q, f) C) \<longleftrightarrow>
     (\<exists>gb \<in> set (bodies f). \<exists>n \<in> set (inspect (snd gb)). \<exists>x. set_condition_args n = Some x \<and>
        st = scan_site E (relative E root q) q C (fst gb) (controllerName (dg_Base E q)) (fst x) (snd x))"
    by (auto simp: file_sites_def set_map_filter split_def)
  then show ?thesis by (simp add: Bex_def split_paired_Ex bodies_iff) blast
qed

lemma scanned_sites:
  assumes "scan_files E root C files = (direct, pending, unresolved)"
  shows "t \<in> set direct \<longleftrightarrow> (\<exists>(q, f) \<in> set files. \<exists>ts. SiteTriples ts \<in> set (file_sites E root (q, f) C) \<and> t \<in> set ts)"
    and "p \<in> set pending \<longleftrightarrow> (\<exists>(q, f) \<in> set files. SitePending p \<in> set (file_sites E root (q, f) C))"
  using assms
  by (fastforce simp: scan_files_def scanCallSites_def Let_def set_map_filter site_pending_Some split: site.splits)+

text \<open>Under the rules of Go for literals, the scan finds exactly what is written.\<close>

lemma plain_site:
  assumes "plain_sites E C files" "(q, f) \<in> set files" "FuncDecl g \<in> set f" "fd_Body g = Some body"
    and "n \<in> set (inspect body)" "set_condition_args n = Some (line, elts)"
  shows "plain_literal E C elts"
proof -
  have "(g, body) \<in> set (bodies f)" using assms(3,4) by (simp add: bodies_iff)
  with assms(1,2,5) have "case set_condition_args n of None \<Rightarrow> True | Some (line, elts) \<Rightarrow> plain_literal E C elts"
    by (fastforce simp: plain_sites_def list_all_iff)
  with assms(6) show ?thesis by simp
qed

lemma sets_condition_iff:
  "sets_condition E C files q g ty re \<longleftrightarrow>
     (\<exists>f body line elts n. (q, f) \<in> set files \<and> FuncDecl g \<in> set f \<and> fd_Body g = Some body \<and>
        n \<in> set (inspect body) \<and> set_condition_args n = Some (line, elts) \<and> names_condition E C elts ty re)"
  unfolding sets_condition_def set_condition_args_iff by blast

lemma scanned_direct:
  assumes "scan_files E root C files = (direct, pending, unresolved)" "plain_sites E C files"
  shows "t \<in> set direct \<longleftrightarrow>
     (\<exists>q g ty re s. sets_condition E C files q g ty re \<and> written_value E C g re s \<and>
        t = \<lparr>ct_CRD = controllerName (dg_Base E q), ct_Type = ty, ct_Reason = s\<rparr>)"
proof -
  have "t \<in> set direct \<longleftrightarrow>
     (\<exists>q f g body line elts n. (q, f) \<in> set files \<and> FuncDecl g \<in> set f \<and> fd_Body g = Some body \<and>
        n \<in> set (inspect body) \<and> set_condition_args n = Some (line, elts) \<and>
        (\<exists>ts. scan_site E (relative E root q) q C g (controllerName (dg_Base E q)) line elts = SiteTriples ts \<and> t \<in> set ts))"
    unfolding scanned_sites(1) [OF assms(1)] file_sites_iff by (auto simp: Bex_def) metis+
  also have "\<dots> \<longleftrightarrow>
     (\<exists>q f g body line elts n. (q, f) \<in> set files \<and> FuncDecl g \<in> set f \<and> fd_Body g = Some body \<and>
        n \<in> set (inspect body) \<and> set_condition_args n = Some (line, elts) \<and>
        (\<exists>ty re s. names_condition E C elts ty re \<and> written_value E C g re s \<and>
           t = \<lparr>ct_CRD = controllerName (dg_Base E q), ct_Type = ty, ct_Reason = s\<rparr>))"
    using scan_site_eq(1) [OF plain_site [OF assms(2)]] by (intro ex_cong1 conj_cong refl) blast
  finally show ?thesis unfolding sets_condition_iff by blast
qed

lemma scanned_pending:
  assumes "scan_files E root C files = (direct, pending, unresolved)" "plain_sites E C files"
  shows "p \<in> set pending \<Longrightarrow> \<exists>q g re. sets_condition E C files q g (pp_Type p) re \<and>
           open_param E C g re (pp_ParamName p) (pp_ParamIdx p) \<and> no_bar (pp_Type p) \<and>
           pp_File p = q \<and> pp_IsMethod p = fd_IsMethod g \<and> pp_FuncName p = fd_Name g"
    and "sets_condition E C files q g ty re \<Longrightarrow> open_param E C g re x j \<Longrightarrow>
           \<exists>p \<in> set pending. pp_Type p = ty \<and> pp_File p = q \<and> pp_IsMethod p = fd_IsMethod g \<and>
             pp_FuncName p = fd_Name g \<and> pp_ParamIdx p = j"
proof -
  assume "p \<in> set pending"
  then obtain q f g body line elts n where w: "(q, f) \<in> set files" "FuncDecl g \<in> set f" "fd_Body g = Some body"
    "n \<in> set (inspect body)" "set_condition_args n = Some (line, elts)"
    "scan_site E (relative E root q) q C g (controllerName (dg_Base E q)) line elts = SitePending p"
    unfolding scanned_sites(2) [OF assms(1)] file_sites_iff by (auto simp: Bex_def)
  note plain = plain_site [OF assms(2) w(1-5)]
  from w(6) obtain re where re: "names_condition E C elts (pp_Type p) re"
    "open_param E C g re (pp_ParamName p) (pp_ParamIdx p)" "pp_File p = q" "pp_IsMethod p = fd_IsMethod g"
    "pp_FuncName p = fd_Name g"
    unfolding scan_site_eq(2) [OF plain] by auto
  obtain te where "field ''Type'' elts = [te]" "resolveStringValue E te C = pp_Type p"
    by (rule names_unique [OF plain re(1)])
  then have "no_bar (pp_Type p)"
    using plain by (simp add: plain_literal_def)
  moreover have "sets_condition E C files q g (pp_Type p) re"
    unfolding sets_condition_iff using w(1-5) re(1) by blast
  ultimately show "\<exists>q g re. sets_condition E C files q g (pp_Type p) re \<and>
      open_param E C g re (pp_ParamName p) (pp_ParamIdx p) \<and> no_bar (pp_Type p) \<and>
      pp_File p = q \<and> pp_IsMethod p = fd_IsMethod g \<and> pp_FuncName p = fd_Name g"
    using re(2-5) by blast
next
  assume "sets_condition E C files q g ty re" and o: "open_param E C g re x j"
  then obtain f body line elts n where w: "(q, f) \<in> set files" "FuncDecl g \<in> set f" "fd_Body g = Some body"
    "n \<in> set (inspect body)" "set_condition_args n = Some (line, elts)" "names_condition E C elts ty re"
    unfolding sets_condition_iff by blast
  let ?p = "\<lparr>pp_HomeCRD = controllerName (dg_Base E q), pp_Type = ty, pp_File = q, pp_IsMethod = fd_IsMethod g,
     pp_FuncName = fd_Name g, pp_ParamName = x, pp_ParamIdx = j,
     pp_SrcLoc = relative E root q @ '':'' @ show_nat line\<rparr>"
  have "scan_site E (relative E root q) q C g (controllerName (dg_Base E q)) line elts = SitePending ?p"
    unfolding scan_site_eq(2) [OF plain_site [OF assms(2) w(1-5)]] using w(6) o by blast
  then have "SitePending ?p \<in> set (file_sites E root (q, f) C)"
    unfolding file_sites_iff using w(2-5) by metis
  with w(1) have "?p \<in> set pending" unfolding scanned_sites(2) [OF assms(1)] by blast
  then show "\<exists>p \<in> set pending. pp_Type p = ty \<and> pp_File p = q \<and> pp_IsMethod p = fd_IsMethod g \<and>
      pp_FuncName p = fd_Name g \<and> pp_ParamIdx p = j"
    by (rule bexI [rotated]) simp
qed

text \<open>
  C39: the lint of the condition reference always comes to an end, and it accepts the document
  exactly when the document lists the reasons of the reference \<open>emits\<close>: at each call of
  \<open>meta.SetStatusCondition\<close> with a literal in a controller, the reason when it is a string
  constant; the constants assigned to it when it is a local variable that is only assigned
  constants; and when it is a parameter of the enclosing function, the string constants that
  flow into this parameter through any number of calls, under the CRD of the file where the
  constant is passed.  A reason computed in another way is outside of both (\<open>computed_reason_is_missed\<close>).
  Assumed is that the files can be read; that a literal gives \<open>Type\<close> and \<open>Reason\<close> at most once,
  a rule of Go; and that function names and condition types contain no bar, which separates
  the parts of a visited key.
\<close>

theorem conditions_lint_exact:
  assumes "dg_ReadDir E (dg_Join E [root, ''internal'', ''controller'']) = Inr entries"
    and "read_controllers E (dg_Join E [root, ''internal'', ''controller'']) entries [] [] = Inr (C, files)"
    and "parseConditionsDoc E (dg_Join E [root, docPath]) = Inr docs"
    and "plain_functions files" "plain_sites E C files"
  shows "\<exists>out err. verifyConditions E root docPath = Some (out, err) \<and>
    (err = None \<longleftrightarrow>
       set docs = {\<lparr>ct_CRD = crd, ct_Type = ty, ct_Reason = s\<rparr> | crd ty s. emits E C files crd ty s})"
proof -
  obtain direct pending unresolved where scan: "scan_files E root C files = (direct, pending, unresolved)"
    by (cases "scan_files E root C files")
  note written = scanned_direct [OF scan assms(5)] and pend = scanned_pending [OF scan assms(5)]
  have bars: "list_all (\<lambda>p. no_bar (pp_Type p)) pending"
    using pend(1) by (auto simp: list_all_iff)
  have "{\<lparr>ct_CRD = crd, ct_Type = ty, ct_Reason = s\<rparr> | crd ty s. emits E C files crd ty s} =
      set direct \<union> {\<lparr>ct_CRD = crd, ct_Type = pp_Type p, ct_Reason = s\<rparr> | p crd s. p \<in> set pending \<and>
        receives E C (file_asts files) (pp_IsMethod p) (pp_File p) (pp_FuncName p) (pp_ParamIdx p) crd s}"
    (is "?emitted = _ \<union> ?passed")
  proof (intro equalityI subsetI)
    fix t assume "t \<in> ?emitted"
    then obtain crd ty s where t: "t = \<lparr>ct_CRD = crd, ct_Type = ty, ct_Reason = s\<rparr>" "emits E C files crd ty s"
      by blast
    from t(2) show "t \<in> set direct \<union> ?passed"
    proof cases
      case (constant_reason q g re)
      then have "written_value E C g re s" by (simp add: written_value_def)
      with constant_reason have "t \<in> set direct" unfolding written t(1) by blast
      then show ?thesis ..
    next
      case (local_reason q g x)
      then have "written_value E C g (Ident x) s" by (auto simp: written_value_def)
      with local_reason have "t \<in> set direct" unfolding written t(1) by blast
      then show ?thesis ..
    next
      case (param_reason q g x j)
      then have "open_param E C g (Ident x) x j" by (simp add: open_param_def)
      from pend(2) [OF param_reason(1) this] obtain p where p: "p \<in> set pending" "pp_Type p = ty"
        "pp_File p = q" "pp_IsMethod p = fd_IsMethod g" "pp_FuncName p = fd_Name g" "pp_ParamIdx p = j"
        by blast
      have "receives E C (file_asts files) (pp_IsMethod p) (pp_File p) (pp_FuncName p) (pp_ParamIdx p) crd s"
        using param_reason(6) by (simp add: p(3-6))
      moreover have "t = \<lparr>ct_CRD = crd, ct_Type = pp_Type p, ct_Reason = s\<rparr>" using t(1) p(2) by simp
      ultimately have "t \<in> ?passed" using p(1) by (intro CollectI exI conjI)
      then show ?thesis ..
    qed
  next
    fix t assume "t \<in> set direct \<union> ?passed"
    then show "t \<in> ?emitted"
    proof
      assume "t \<in> set direct"
      then show ?thesis
        unfolding written by (auto simp: written_value_def intro: emits.constant_reason emits.local_reason)
    next
      assume "t \<in> ?passed"
      then obtain p crd s where t: "t = \<lparr>ct_CRD = crd, ct_Type = pp_Type p, ct_Reason = s\<rparr>" "p \<in> set pending"
        "receives E C (file_asts files) (pp_IsMethod p) (pp_File p) (pp_FuncName p) (pp_ParamIdx p) crd s" by blast
      from pend(1) [OF t(2)] obtain g re where w: "sets_condition E C files (pp_File p) g (pp_Type p) re"
        "open_param E C g re (pp_ParamName p) (pp_ParamIdx p)" "pp_IsMethod p = fd_IsMethod g"
        "pp_FuncName p = fd_Name g" by blast
      let ?x = "pp_ParamName p"
      have re: "re = Ident ?x" and open_x: "resolveStringValue E (Ident ?x) C = []" "?x \<noteq> []"
        "[] \<in> local_values E C g ?x \<or> local_values E C g ?x = {}" "param_at g ?x (pp_ParamIdx p)"
        using w(2) by (auto simp: open_param_def)
      have "emits E C files crd (pp_Type p) s"
        by (rule emits.param_reason [OF w(1) [unfolded re] open_x t(3) [unfolded w(3,4)]])
      with t(1) show ?thesis by blast
    qed
  qed
  with lint_scanned [OF assms(1,2) scan assms(3,4) bars] show ?thesis by simp
qed

section \<open>A sample controller\<close>

text \<open>
  A helper that sets the condition \<open>Ready\<close> with the reason it is given, and a caller that passes a
  constant.  Files and document are stored under their paths.
\<close>

definition helper_decl :: decl where
  "helper_decl = FuncDecl \<lparr>fd_IsMethod = True, fd_Name = ''setReady'', fd_Params = Some [[''p''], [''reason'']],
     fd_Type = [], fd_Body = Some (OtherNode [CallExpr 7 (SelectorExpr (Ident ''meta'') ''SetStatusCondition'')
       [OtherNode [], CompositeLit [] [KeyValueExpr (Ident ''Type'') (Ident ''conditionReady''),
                                       KeyValueExpr (Ident ''Reason'') (Ident ''reason'')]]])\<rparr>"

definition caller_decl :: "node \<Rightarrow> decl" where
  "caller_decl arg = FuncDecl \<lparr>fd_IsMethod = True, fd_Name = ''Reconcile'', fd_Params = Some [[''p'']],
     fd_Type = [], fd_Body = Some (OtherNode [CallExpr 12 (SelectorExpr (Ident ''r'') ''setReady'')
       [Ident ''p'', arg]])\<rparr>"

definition sample_file :: "node list \<Rightarrow> ast_file" where
  "sample_file args =
     GenDecl True [ValueSpec [''conditionReady'', ''reasonSynced''] [] [BasicLit TokSTRING ''Ready'', BasicLit TokSTRING ''Synced'']] #
     helper_decl # map caller_decl args"

definition sample_doc :: string where
  "sample_doc = ''### Pipeline (x)'' @ nl @ nl @ ''| Reason | Used on |'' @ nl @ ''| --- | --- |'' @ nl @
     ''| Synced | Ready |'' @ nl"

definition lint_env :: "node list \<Rightarrow> doc_env" where
  "lint_env args =
     \<lparr>dg_ReadDir = (\<lambda>_. Inr [(''pipeline_controller.go'', False), (''testdata'', True)]),
      dg_ReadFile = (\<lambda>p. Inr sample_doc), dg_ParseFile = (\<lambda>_ _. Inr (sample_file args)),
      dg_Join = (\<lambda>ps. str_join ps ''/''), dg_Rel = (\<lambda>_ p. Inr p),
      dg_Base = (\<lambda>p. last (split_at CHR ''/'' p)), dg_Unquote = Some, dg_Fprint = (\<lambda>_. None)\<rparr>"

theorem conditions_lint_exact_witness:
  "emits (lint_env [Ident ''reasonSynced'']) [(''conditionReady'', ''Ready''), (''reasonSynced'', ''Synced'')]
     [(''root/internal/controller/pipeline_controller.go'', sample_file [Ident ''reasonSynced''])]
     ''Pipeline'' ''Ready'' ''Synced''"
  (is "emits ?E ?C ?A _ _ _")
proof -
  define t where "t = \<lparr>ct_CRD = ''Pipeline'', ct_Type = ''Ready'', ct_Reason = ''Synced''\<rparr>"
  have dir: "dg_ReadDir ?E (dg_Join ?E [''root'', ''internal'', ''controller'']) =
      Inr [(''pipeline_controller.go'', False), (''testdata'', True)]" by code_simp
  have files: "read_controllers ?E (dg_Join ?E [''root'', ''internal'', ''controller''])
      [(''pipeline_controller.go'', False), (''testdata'', True)] [] [] = Inr (?C, ?A)" by code_simp
  have doc: "parseConditionsDoc ?E (dg_Join ?E [''root'', ''conditions.md'']) = Inr [t]"
    unfolding t_def by code_simp
  have plain: "plain_functions ?A" "plain_sites ?E ?C ?A" by code_simp+
  have "verifyConditions ?E ''root'' ''conditions.md'' = Some ([], None)" by code_simp
  with conditions_lint_exact [OF dir files doc plain]
  have "set [t] = {\<lparr>ct_CRD = crd, ct_Type = ty, ct_Reason = s\<rparr> | crd ty s. emits ?E ?C ?A crd ty s}" by simp
  then have "t \<in> {\<lparr>ct_CRD = crd, ct_Type = ty, ct_Reason = s\<rparr> | crd ty s. emits ?E ?C ?A crd ty s}"
    by (metis insertI1 list.simps(15))
  then show ?thesis by (auto simp: t_def)
qed

text \<open>
  An argument that is neither a constant nor a parameter is passed over in silence as long as
  some other call has one: the lint accepts the document although the reason is open, and does
  not name the call among the unresolved references.
\<close>

lemma computed_reason_is_missed:
  "verifyConditions (lint_env [Ident ''reasonSynced'', CallExpr 30 (Ident ''computeReason'') []])
     ''root'' ''conditions.md'' = Some ([], None)"
  by code_simp

end
