(* ===== verification/Docgen_Reference.thy ===== *)
theory Docgen_Reference
  imports Docgen_Conditions
begin

text \<open>
  The generators of the reference pages in \<open>hack/docgen/\<close>: flags, events, metrics and samples, and
  the driver that writes a page or checks it.  The page templates are executed by a parameter; the
  model is of the data they are given.
\<close>

section \<open>Strings\<close>

text \<open>\<open>strings.Index\<close>: what stands before the first occurrence of a nonempty pattern, and after it.\<close>

fun cut_at :: "string \<Rightarrow> string \<Rightarrow> (string \<times> string) option" where
  "cut_at p [] = None"
| "cut_at p (c # s) =
     (if has_prefix (c # s) p then Some ([], drop (length p) (c # s))
      else map_option (\<lambda>(a, b). (c # a, b)) (cut_at p s))"

definition until_any :: "string \<Rightarrow> string \<Rightarrow> string" where
  "until_any chars s = takeWhile (\<lambda>c. c \<notin> set chars) s"

definition bar_escaped :: "string \<Rightarrow> string" where
  "bar_escaped s = replace_char CHR ''|'' [CHR 0x5C, CHR ''|''] s"

definition source_at :: "string \<Rightarrow> nat \<Rightarrow> string" where
  "source_at relPath line = relPath @ '':'' @ show_nat line"

section \<open>Links\<close>

definition sourceBaseURL :: string where
  "sourceBaseURL = ''https://github.com/rknightion/fleet-management-operator/blob/main/''"

definition srcURL :: "string \<Rightarrow> string" where
  "srcURL target =
     (case cut_at '':'' target of
        None \<Rightarrow> sourceBaseURL @ target
      | Some (path, line) \<Rightarrow>
          sourceBaseURL @ path @ (if line \<noteq> [] then ''#L'' @ line else []))"

section \<open>Flags\<close>

record flagDecl =
  flg_Name :: string
  flg_Type :: string
  flg_Default :: string
  flg_Usage :: string
  flg_Source :: string
  flg_InChart :: string
  flg_ChartLines :: string

definition flagType :: "string \<Rightarrow> string option" where
  "flagType fn =
     (if fn = ''StringVar'' then Some ''string'' else if fn = ''BoolVar'' then Some ''bool''
      else if fn = ''IntVar'' then Some ''int'' else if fn = ''Int64Var'' then Some ''int64''
      else if fn = ''Float64Var'' then Some ''float64'' else if fn = ''DurationVar'' then Some ''duration''
      else if fn = ''Uint64Var'' then Some ''uint64'' else None)"

definition exprText :: "doc_env \<Rightarrow> node \<Rightarrow> string" where
  "exprText E e =
     (case dg_Fprint E e of
        None \<Rightarrow> ''?''
      | Some s \<Rightarrow> (case dg_Unquote E s of Some u \<Rightarrow> u | None \<Rightarrow> s))"

text \<open>A call \<open>pkg.name(args)\<close> with its line.\<close>

definition package_call :: "string \<Rightarrow> node \<Rightarrow> (nat \<times> string \<times> node list) option" where
  "package_call pkg n =
     (case n of
        CallExpr line (SelectorExpr (Ident x) sel) args \<Rightarrow> if x = pkg then Some (line, sel, args) else None
      | _ \<Rightarrow> None)"

definition flag_call :: "doc_env \<Rightarrow> string \<Rightarrow> node \<Rightarrow> flagDecl option" where
  "flag_call E relPath n =
     (case package_call ''flag'' n of
        Some (line, fnName, [a0, nameLit, a2, a3]) \<Rightarrow>
          (case (flagType fnName, stringLit E nameLit) of
             (Some typ, Some name) \<Rightarrow>
               Some \<lparr>flg_Name = name, flg_Type = typ, flg_Default = exprText E a2,
                     flg_Usage = bar_escaped (concatStringExpr E a3), flg_Source = source_at relPath line,
                     flg_InChart = [], flg_ChartLines = []\<rparr>
           | _ \<Rightarrow> None)
      | _ \<Rightarrow> None)"

definition parse_source :: "doc_env \<Rightarrow> string \<Rightarrow> go_error + ast_file" where
  "parse_source E path =
     (case dg_ReadFile E path of
        Inl err \<Rightarrow> Inl (WrapError (''read '' @ path @ '': '') err [])
      | Inr src \<Rightarrow>
          (case dg_ParseFile E path src of
             Inl err \<Rightarrow> Inl (WrapError (''parse '' @ path @ '': '') err [])
           | Inr file \<Rightarrow> Inr file))"

definition extractFlags :: "doc_env \<Rightarrow> string \<Rightarrow> string \<Rightarrow> go_error + flagDecl list" where
  "extractFlags E root path =
     (case parse_source E path of
        Inl err \<Rightarrow> Inl err
      | Inr file \<Rightarrow> Inr (List.map_filter (flag_call E (relative E root path)) (inspect_file file)))"

record chartCoverage =
  cov_conditional :: bool
  cov_lines :: "nat list"

definition linesString :: "chartCoverage \<Rightarrow> string" where
  "linesString c = str_join (map (\<lambda>l. ''L'' @ show_nat l) (cov_lines c)) '', ''"

definition isFlagName :: "string \<Rightarrow> bool" where
  "isFlagName s \<longleftrightarrow> length s \<ge> 2 \<and> list_all (\<lambda>c. is_lower c \<or> is_digit c \<or> c = CHR ''-'') s \<and> CHR ''-'' \<in> set s"

definition helm_depth :: "string \<Rightarrow> nat \<Rightarrow> nat" where
  "helm_depth line depth =
     (let trimmed = trim_space line;
          depth = (if has_prefix trimmed ''{{- if '' \<or> has_prefix trimmed ''{{ if '' then depth + 1 else depth)
      in if has_prefix trimmed ''{{- end'' \<or> has_prefix trimmed ''{{ end'' then depth - 1 else depth)"

definition flag_mention :: "string \<Rightarrow> string option" where
  "flag_mention line =
     (case cut_at ''--'' line of
        None \<Rightarrow> None
      | Some (_, rest) \<Rightarrow>
          (let name = until_any [CHR ''='', CHR 0x20, CHR 0x09] rest in if isFlagName name then Some name else None))"

fun chart_lines :: "string list \<Rightarrow> nat \<Rightarrow> nat \<Rightarrow> (string \<times> chartCoverage) list \<Rightarrow> (string \<times> chartCoverage) list" where
  "chart_lines [] i depth out = out"
| "chart_lines (line # lines) i depth out =
     (let depth = helm_depth line depth
      in chart_lines lines (i + 1) depth
           (case flag_mention line of
              None \<Rightarrow> out
            | Some name \<Rightarrow>
                (let c = (case map_of out name of Some c \<Rightarrow> c | None \<Rightarrow> \<lparr>cov_conditional = False, cov_lines = []\<rparr>);
                     c = (if depth > 0 then c\<lparr>cov_conditional := True\<rparr> else c)
                 in map_put name (c\<lparr>cov_lines := cov_lines c @ [i + 1]\<rparr>) out)))"

definition scanChartArgs :: "doc_env \<Rightarrow> string \<Rightarrow> go_error + (string \<times> chartCoverage) list" where
  "scanChartArgs E path =
     (case dg_ReadFile E path of
        Inl err \<Rightarrow> Inl err
      | Inr data \<Rightarrow> Inr (chart_lines (split_at CHR 0x0A data) 0 0 []))"

definition in_chart :: "(string \<times> chartCoverage) list \<Rightarrow> flagDecl \<Rightarrow> flagDecl" where
  "in_chart coverage f =
     (case map_of coverage (flg_Name f) of
        None \<Rightarrow> f\<lparr>flg_InChart := ''no''\<rparr>
      | Some c \<Rightarrow>
          f\<lparr>flg_InChart := (if cov_conditional c then ''conditional'' else ''yes''), flg_ChartLines := linesString c\<rparr>)"

definition flags_page :: "doc_env \<Rightarrow> string \<Rightarrow> go_error + flagDecl list" where
  "flags_page E root =
     (case extractFlags E root (dg_Join E [root, ''cmd'', ''main.go'']) of
        Inl err \<Rightarrow> Inl err
      | Inr flags \<Rightarrow>
          (case scanChartArgs E (dg_Join E [root, ''charts'', ''fleet-management-operator'', ''templates'', ''deployment.yaml'']) of
             Inl err \<Rightarrow> Inl (WrapError ''scan chart deployment: '' err [])
           | Inr coverage \<Rightarrow> Inr (sort_key flg_Name (map (in_chart coverage) flags))))"

section \<open>Events\<close>

record eventDecl =
  evd_Reason :: string
  evd_EventType :: string
  evd_Trigger :: string
  evd_Source :: string

record eventGroup =
  evg_Controller :: string
  evg_File :: string
  evg_Events :: "eventDecl list"

definition collectEventReasonConsts :: "doc_env \<Rightarrow> ast_file \<Rightarrow> gomap" where
  "collectEventReasonConsts E file = file_consts E (\<lambda>n. contains_str (to_lower n) ''eventreason'') file"

definition isEventCall :: "node \<Rightarrow> bool" where
  "isEventCall f =
     (case f of
        SelectorExpr x sel \<Rightarrow>
          sel = ''emitEvent'' \<or> sel = ''emitEventf'' \<or>
          ((sel = ''Event'' \<or> sel = ''Eventf'') \<and>
           (case x of SelectorExpr y inner \<Rightarrow> inner = ''Recorder'' | _ \<Rightarrow> False))
      | _ \<Rightarrow> False)"

definition resolveEventType :: "node \<Rightarrow> string" where
  "resolveEventType e =
     (case e of
        SelectorExpr x sel \<Rightarrow>
          if sel = ''EventTypeNormal'' then ''Normal'' else if sel = ''EventTypeWarning'' then ''Warning'' else []
      | _ \<Rightarrow> [])"

definition resolveReason :: "doc_env \<Rightarrow> node \<Rightarrow> gomap \<Rightarrow> string" where
  "resolveReason E e consts =
     (case e of
        BasicLit k v \<Rightarrow> (case stringLit E e of Some s \<Rightarrow> s | None \<Rightarrow> [])
      | Ident x \<Rightarrow> (case map_of consts x of Some s \<Rightarrow> s | None \<Rightarrow> x)
      | _ \<Rightarrow> [])"

definition event_call :: "doc_env \<Rightarrow> string \<Rightarrow> gomap \<Rightarrow> node \<Rightarrow> eventDecl option" where
  "event_call E relPath consts n =
     (case n of
        CallExpr line f (a0 # a1 # a2 # args) \<Rightarrow>
          (let etype = resolveEventType a1; reason = resolveReason E a2 consts
           in if \<not> isEventCall f \<or> etype = [] \<or> reason = [] then None
              else Some \<lparr>evd_Reason = reason, evd_EventType = etype,
                evd_Trigger = (case args of
                    [] \<Rightarrow> []
                  | a3 # _ \<Rightarrow> replace_char CHR 0x0A '' '' (bar_escaped (trim_space (concatStringExpr E a3)))),
                evd_Source = source_at relPath line\<rparr>)
      | _ \<Rightarrow> None)"

abbreviation event_key :: "eventDecl \<Rightarrow> string \<times> string" where
  "event_key e \<equiv> (evd_Reason e, evd_EventType e)"

text \<open>The first call for each key, in the order of the calls.\<close>

fun first_events :: "eventDecl list \<Rightarrow> eventDecl list \<Rightarrow> eventDecl list" where
  "first_events [] seen = seen"
| "first_events (e # es) seen =
     first_events es (if event_key e \<in> event_key ` set seen then seen else seen @ [e])"

text \<open>Warnings first (the type decides in descending order), then by reason; the sort is stable.\<close>

definition sort_events :: "eventDecl list \<Rightarrow> eventDecl list" where
  "sort_events es =
     (let by_reason = sort_key evd_Reason es
      in concat (map (\<lambda>t. filter (\<lambda>e. evd_EventType e = t) by_reason)
           (rev (sort (remdups (map evd_EventType es))))))"

definition extractEvents :: "doc_env \<Rightarrow> string \<Rightarrow> string \<Rightarrow> go_error + eventDecl list" where
  "extractEvents E root path =
     (case parse_source E path of
        Inl err \<Rightarrow> Inl err
      | Inr file \<Rightarrow>
          Inr (sort_events (first_events
            (List.map_filter (event_call E (relative E root path) (collectEventReasonConsts E file)) (inspect_file file)) [])))"

fun event_groups ::
    "doc_env \<Rightarrow> string \<Rightarrow> string \<Rightarrow> (string \<times> bool) list \<Rightarrow> eventGroup list \<Rightarrow> go_error + eventGroup list" where
  "event_groups E root dir [] groups = Inr groups"
| "event_groups E root dir ((name, isDir) # entries) groups =
     (if isDir \<or> \<not> has_suffix name ''_controller.go'' \<or> has_suffix name ''_test.go''
      then event_groups E root dir entries groups
      else
        (case extractEvents E root (dg_Join E [dir, name]) of
           Inl err \<Rightarrow> Inl (WrapError (''extract '' @ name @ '': '') err [])
         | Inr evs \<Rightarrow>
             event_groups E root dir entries
               (if evs = [] then groups
                else groups @ [\<lparr>evg_Controller = controllerName name,
                                evg_File = dg_Join E [''internal'', ''controller'', name], evg_Events = evs\<rparr>])))"

definition events_page :: "doc_env \<Rightarrow> string \<Rightarrow> go_error + eventGroup list" where
  "events_page E root =
     (let dir = dg_Join E [root, ''internal'', ''controller'']
      in case dg_ReadDir E dir of
           Inl err \<Rightarrow> Inl err
         | Inr entries \<Rightarrow>
             (case event_groups E root dir entries [] of
                Inl err \<Rightarrow> Inl err | Inr groups \<Rightarrow> Inr (sort_key evg_Controller groups)))"

section \<open>Metrics\<close>

record metricDecl =
  mtd_Name :: string
  mtd_Kind :: string
  mtd_IsVec :: bool
  mtd_Help :: string
  mtd_Labels :: "string list"
  mtd_Buckets :: string
  mtd_Source :: string

definition metricKind :: "string \<Rightarrow> (string \<times> bool) option" where
  "metricKind fn =
     (case cut_prefix fn ''New'' of
        None \<Rightarrow> None
      | Some rest \<Rightarrow>
          (let isVec = has_suffix rest ''Vec''; rest = trim_suffix rest ''Vec''
           in if rest \<in> {''Counter'', ''Histogram'', ''Gauge'', ''Summary''} then Some (rest, isVec) else None))"

definition renderBuckets :: "node \<Rightarrow> string" where
  "renderBuckets e =
     (case e of
        CompositeLit t elts \<Rightarrow>
          str_join (List.map_filter (\<lambda>el. case el of BasicLit k v \<Rightarrow> Some v | _ \<Rightarrow> None) elts) '', ''
      | _ \<Rightarrow> ''(non-literal)'')"

definition readStringSlice :: "doc_env \<Rightarrow> node \<Rightarrow> string list" where
  "readStringSlice E e =
     (case e of CompositeLit t elts \<Rightarrow> List.map_filter (stringLit E) elts | _ \<Rightarrow> [])"

text \<open>\<open>None\<close>: a name or a help text that is no literal; the call is then skipped with a warning.\<close>

fun metric_fields ::
    "doc_env \<Rightarrow> node list \<Rightarrow> string \<times> string \<times> string \<Rightarrow> (string \<times> string \<times> string) option" where
  "metric_fields E [] st = Some st"
| "metric_fields E (elt # elts) (name, help, buckets) =
     (case elt of
        KeyValueExpr (Ident key) value \<Rightarrow>
          if key = ''Name'' then
            (case stringLit E value of None \<Rightarrow> None | Some s \<Rightarrow> metric_fields E elts (s, help, buckets))
          else if key = ''Help'' then
            (case stringLit E value of None \<Rightarrow> None | Some s \<Rightarrow> metric_fields E elts (name, s, buckets))
          else if key = ''Buckets'' then metric_fields E elts (name, help, renderBuckets value)
          else metric_fields E elts (name, help, buckets)
      | _ \<Rightarrow> metric_fields E elts (name, help, buckets))"

definition readMetricOpts :: "doc_env \<Rightarrow> node list \<Rightarrow> (string \<times> string \<times> string) option" where
  "readMetricOpts E elts =
     (case metric_fields E elts ([], [], []) of
        Some (name, help, buckets) \<Rightarrow> if name = [] then None else Some (name, help, buckets)
      | None \<Rightarrow> None)"

definition metric_call :: "doc_env \<Rightarrow> string \<Rightarrow> node \<Rightarrow> metricDecl option" where
  "metric_call E relPath n =
     (case package_call ''prometheus'' n of
        Some (line, sel, CompositeLit t elts # args) \<Rightarrow>
          (case (metricKind sel, readMetricOpts E elts) of
             (Some (kind, isVec), Some (name, help, buckets)) \<Rightarrow>
               Some \<lparr>mtd_Name = name, mtd_Kind = kind, mtd_IsVec = isVec, mtd_Help = bar_escaped help,
                     mtd_Labels = (case args of a # _ \<Rightarrow> if isVec then readStringSlice E a else [] | [] \<Rightarrow> []),
                     mtd_Buckets = buckets, mtd_Source = source_at relPath line\<rparr>
           | _ \<Rightarrow> None)
      | _ \<Rightarrow> None)"

definition extractMetrics :: "doc_env \<Rightarrow> string \<Rightarrow> string \<Rightarrow> go_error + metricDecl list" where
  "extractMetrics E root path =
     (case parse_source E path of
        Inl err \<Rightarrow> Inl err
      | Inr file \<Rightarrow> Inr (List.map_filter (metric_call E (relative E root path)) (inspect_file file)))"

fun metric_groups ::
    "doc_env \<Rightarrow> string \<Rightarrow> (string \<times> string) list \<Rightarrow> (string \<times> metricDecl list) list \<Rightarrow>
       go_error + (string \<times> metricDecl list) list" where
  "metric_groups E root [] out = Inr out"
| "metric_groups E root ((title, path) # groups) out =
     (case extractMetrics E root (dg_Join E [root, path]) of
        Inl err \<Rightarrow> Inl (WrapError (''extract '' @ path @ '': '') err [])
      | Inr metrics \<Rightarrow> metric_groups E root groups (out @ [(title, sort_key mtd_Name metrics)]))"

definition metrics_page :: "doc_env \<Rightarrow> string \<Rightarrow> go_error + (string \<times> metricDecl list) list" where
  "metrics_page E root =
     metric_groups E root
       [(''Fleet API client'', dg_Join E [''pkg'', ''fleetclient'', ''metrics.go'']),
        (''Controller reconciliation'', dg_Join E [''internal'', ''controller'', ''metrics.go''])] []"

section \<open>Samples\<close>

record sampleDecl =
  sd_File :: string
  sd_Filename :: string
  sd_Kind :: string
  sd_Name :: string
  sd_Description :: string
  sd_Body :: string

text \<open>The lines of \<open>bufio.Scanner\<close>, whose buffer holds 65536 bytes.\<close>

definition drop_cr :: "string \<Rightarrow> string" where
  "drop_cr s = (if s \<noteq> [] \<and> last s = CHR 0x0D then butlast s else s)"

definition scanner_lines :: "string \<Rightarrow> go_error + string list" where
  "scanner_lines data =
     (let parts = split_at CHR 0x0A data;
          parts = (if last parts = [] then butlast parts else parts)
      in if list_ex (\<lambda>l. length l \<ge> 65536) parts then Inl (PlainError ''bufio.Scanner: token too long'')
         else Inr (map drop_cr parts))"

text \<open>Description, kind, name, whether the name was seen, and the lines of the body.\<close>

type_synonym sample_state = "string \<times> string \<times> string \<times> bool \<times> string list"

definition sample_line :: "string \<Rightarrow> sample_state \<Rightarrow> sample_state" where
  "sample_line line st =
     (case st of (desc, kind, name, seenName, bodyLines) \<Rightarrow>
        (case (if desc = [] then cut_prefix (trim_space line) ''# Description:'' else None) of
           Some after \<Rightarrow> (trim_space after, kind, name, seenName, bodyLines)
         | None \<Rightarrow>
             (let kind = (case cut_prefix line ''kind:'' of Some after \<Rightarrow> trim_space after | None \<Rightarrow> kind);
                  trimmed = trim_left [CHR 0x20, CHR 0x09] line
              in case cut_prefix trimmed ''name:'' of
                   Some after \<Rightarrow>
                     if \<not> seenName \<and> line \<noteq> trimmed
                     then (desc, kind, trim_space after, True, bodyLines @ [line])
                     else (desc, kind, name, seenName, bodyLines @ [line])
                 | None \<Rightarrow> (desc, kind, name, seenName, bodyLines @ [line]))))"

definition readSample :: "doc_env \<Rightarrow> string \<Rightarrow> string \<Rightarrow> go_error + sampleDecl" where
  "readSample E root path =
     (case dg_ReadFile E path of
        Inl err \<Rightarrow> Inl (WrapError ''read: '' err [])
      | Inr data \<Rightarrow>
          (let rel = relative E root path
           in case scanner_lines data of
                Inl err \<Rightarrow> Inl (WrapError ''scan: '' err [])
              | Inr lines \<Rightarrow>
                  (case fold sample_line lines ([], [], [], False, []) of
                     (desc, kind, name, seenName, bodyLines) \<Rightarrow>
                       if desc = [] then
                         Inl (PlainError (''missing leading '' @ [CHR 0x27] @ ''# Description: '' @
                           [CHR 0xE2, CHR 0x80, CHR 0xA6, CHR 0x27] @ '' comment in '' @ rel))
                       else if kind = [] then
                         Inl (PlainError (''no '' @ [CHR 0x60] @ ''kind:'' @ [CHR 0x60] @ '' field in '' @ rel))
                       else if name = [] then Inl (PlainError (''no metadata.name in '' @ rel))
                       else
                         Inr \<lparr>sd_File = rel, sd_Filename = dg_Base E path, sd_Kind = kind, sd_Name = name,
                              sd_Description = desc, sd_Body = trim_right nl (str_join bodyLines nl)\<rparr>)))"

fun sample_files ::
    "doc_env \<Rightarrow> string \<Rightarrow> string \<Rightarrow> (string \<times> bool) list \<Rightarrow> sampleDecl list \<Rightarrow> go_error + sampleDecl list" where
  "sample_files E root dir [] samples = Inr samples"
| "sample_files E root dir ((name, isDir) # entries) samples =
     (if isDir \<or> name = ''kustomization.yaml'' \<or> \<not> has_suffix name ''.yaml''
      then sample_files E root dir entries samples
      else
        (case readSample E root (dg_Join E [dir, name]) of
           Inl err \<Rightarrow> Inl (WrapError (name @ '': '') err [])
         | Inr s \<Rightarrow> sample_files E root dir entries (samples @ [s])))"

definition samples_page :: "doc_env \<Rightarrow> string \<Rightarrow> go_error + sampleDecl list" where
  "samples_page E root =
     (let dir = dg_Join E [root, ''config'', ''samples'']
      in case dg_ReadDir E dir of
           Inl err \<Rightarrow> Inl err
         | Inr entries \<Rightarrow>
             (case sample_files E root dir entries [] of
                Inl err \<Rightarrow> Inl err
              | Inr samples \<Rightarrow> Inr (sort_key (\<lambda>s. (sd_Kind s, sd_Name s)) samples)))"

definition markdownAnchor :: "string \<Rightarrow> string" where
  "markdownAnchor s =
     List.map_filter (\<lambda>c. if is_lower c \<or> is_digit c \<or> c = CHR ''-'' \<or> c = CHR ''_'' then Some c
                          else if c = CHR 0x20 then Some CHR ''-'' else None) (to_lower s)"

section \<open>The driver\<close>

datatype page =
    FlagsPage "flagDecl list"
  | MetricsPage "(string \<times> metricDecl list) list"
  | EventsPage "eventGroup list"
  | SamplesPage "sampleDecl list"

text \<open>\<open>dr_Execute\<close> runs the template of a page; \<open>dr_Parse\<close> is \<open>flag.Parse\<close>, which may
  exit with a code.\<close>

record doc_driver =
  dr_env :: doc_env
  dr_Execute :: "page \<Rightarrow> go_error + string"
  dr_IsAbs :: "string \<Rightarrow> bool"
  dr_Dir :: "string \<Rightarrow> string"
  dr_MkdirAll :: "string \<Rightarrow> go_error option"
  dr_WriteFile :: "string \<Rightarrow> string \<Rightarrow> go_error option"
  dr_Parse :: "string list \<Rightarrow> nat + string \<times> bool \<times> string \<times> string list"

definition rendered_page ::
    "doc_driver \<Rightarrow> (doc_env \<Rightarrow> string \<Rightarrow> go_error + 'a) \<Rightarrow> ('a \<Rightarrow> page) \<Rightarrow> string \<Rightarrow> go_error + string" where
  "rendered_page D collect to_page root =
     (case collect (dr_env D) root of Inl err \<Rightarrow> Inl err | Inr x \<Rightarrow> dr_Execute D (to_page x))"

definition generateFlags :: "doc_driver \<Rightarrow> string \<Rightarrow> go_error + string" where
  "generateFlags D root = rendered_page D flags_page FlagsPage root"

definition generateMetrics :: "doc_driver \<Rightarrow> string \<Rightarrow> go_error + string" where
  "generateMetrics D root = rendered_page D metrics_page MetricsPage root"

definition generateEvents :: "doc_driver \<Rightarrow> string \<Rightarrow> go_error + string" where
  "generateEvents D root = rendered_page D events_page EventsPage root"

definition generateSamples :: "doc_driver \<Rightarrow> string \<Rightarrow> go_error + string" where
  "generateSamples D root = rendered_page D samples_page SamplesPage root"

text \<open>What is written to which file, if anything, and the error.\<close>

definition runGenerator ::
    "doc_driver \<Rightarrow> string \<Rightarrow> string \<Rightarrow> bool \<Rightarrow> (doc_driver \<Rightarrow> string \<Rightarrow> go_error + string) \<Rightarrow>
       (string \<times> string) option \<times> go_error option" where
  "runGenerator D root outPath check gen =
     (if outPath = [] then (None, Some (PlainError ''--out is required''))
      else
        (case gen D root of
           Inl err \<Rightarrow> (None, Some err)
         | Inr got \<Rightarrow>
             (let resolved = (if dr_IsAbs D outPath then outPath else dg_Join (dr_env D) [root, outPath])
              in if check then
                   (case dg_ReadFile (dr_env D) resolved of
                      Inl err \<Rightarrow> (None, Some (WrapError (''read existing '' @ outPath @ '': '') err []))
                    | Inr want \<Rightarrow>
                        if want \<noteq> got then
                          (None, Some (PlainError (outPath @ '' is out of date '' @ [CHR 0xE2, CHR 0x80, CHR 0x94] @
                             '' run '' @ [CHR 0x27] @ ''just docs'' @ [CHR 0x27] @ '' to regenerate'')))
                        else (None, None))
                 else
                   (case dr_MkdirAll D (dr_Dir D resolved) of
                      Some err \<Rightarrow> (None, Some err)
                    | None \<Rightarrow> (Some (resolved, got), dr_WriteFile D resolved got)))))"

text \<open>The exit code, and what is written; \<open>None\<close>: the lint of the conditions does not come to an end.\<close>

definition docgen_main :: "doc_driver \<Rightarrow> string list \<Rightarrow> ((string \<times> string) option \<times> nat) option" where
  "docgen_main D args =
     (case args of
        prog # sub # rest \<Rightarrow>
          (case dr_Parse D rest of
             Inl code \<Rightarrow> Some (None, code)
           | Inr (out, check, root, positional) \<Rightarrow>
               (let exit = (\<lambda>(w, err). Some (w, if err = None then 0 else 1))
                in if sub = ''flags'' then exit (runGenerator D root out check generateFlags)
                   else if sub = ''metrics'' then exit (runGenerator D root out check generateMetrics)
                   else if sub = ''events'' then exit (runGenerator D root out check generateEvents)
                   else if sub = ''samples'' then exit (runGenerator D root out check generateSamples)
                   else if sub = ''verify-conditions'' then
                     (case positional of
                        [] \<Rightarrow> Some (None, 2)
                      | docPath # _ \<Rightarrow>
                          (case verifyConditions (dr_env D) root docPath of
                             None \<Rightarrow> None
                           | Some (_, err) \<Rightarrow> exit (None, err)))
                   else if sub \<in> {''-h'', ''--help'', ''help''} then Some (None, 0)
                   else Some (None, 2)))
      | _ \<Rightarrow> Some (None, 2))"

section \<open>What the pages hold\<close>

text \<open>A written page passes the check, as long as the sources stay as they are.\<close>

lemma written_page_passes_check:
  assumes "runGenerator D root outPath False gen = (Some (path, got), None)"
    and "gen D' root = gen D root" "dr_IsAbs D' = dr_IsAbs D" "dg_Join (dr_env D') = dg_Join (dr_env D)"
    and "dg_ReadFile (dr_env D') path = Inr got"
  shows "runGenerator D' root outPath True gen = (None, None)"
  using assms by (auto simp: runGenerator_def Let_def split: if_splits sum.splits option.splits)

text \<open>
  The lines that mention a flag, with their Helm nesting: the reference for the chart column.
\<close>

fun mentions :: "string list \<Rightarrow> nat \<Rightarrow> nat \<Rightarrow> (string \<times> nat \<times> bool) list" where
  "mentions [] i depth = []"
| "mentions (line # lines) i depth =
     (let depth = helm_depth line depth
      in (case flag_mention line of None \<Rightarrow> [] | Some name \<Rightarrow> [(name, i + 1, depth > 0)]) @
         mentions lines (i + 1) depth)"

definition coverage_of :: "string \<Rightarrow> (string \<times> nat \<times> bool) list \<Rightarrow> chartCoverage option" where
  "coverage_of name ms =
     (let own = filter (\<lambda>m. fst m = name) ms
      in if own = [] then None
         else Some \<lparr>cov_conditional = list_ex (\<lambda>m. snd (snd m)) own, cov_lines = map (fst \<circ> snd) own\<rparr>)"

definition covers :: "chartCoverage option \<Rightarrow> (string \<times> nat \<times> bool) list \<Rightarrow> chartCoverage option" where
  "covers c own =
     (if own = [] then c
      else (let c0 = (case c of Some c \<Rightarrow> c | None \<Rightarrow> \<lparr>cov_conditional = False, cov_lines = []\<rparr>)
            in Some \<lparr>cov_conditional = (cov_conditional c0 \<or> list_ex (\<lambda>m. snd (snd m)) own),
                     cov_lines = cov_lines c0 @ map (fst \<circ> snd) own\<rparr>))"

lemma chart_lines_covers:
  "map_of (chart_lines lines i depth out) name =
     covers (map_of out name) (filter (\<lambda>m. fst m = name) (mentions lines i depth))"
proof (induction lines i depth out rule: chart_lines.induct)
  case (2 line lines i depth out)
  then show ?case
    by (cases "flag_mention line"; cases "map_of out name") (auto simp: Let_def covers_def split: option.splits)
qed (simp add: covers_def)

lemma chart_coverage_exact: "map_of (chart_lines lines 0 0 []) name = coverage_of name (mentions lines 0 0)"
  by (simp add: chart_lines_covers covers_def coverage_of_def Let_def)

text \<open>
  The chart column of the flags page, read off the template: \<open>no\<close> if no line mentions the flag,
  \<open>conditional\<close> if one that does is nested in a Helm condition, and all lines in order.
\<close>

lemma flags_page_rows:
  assumes "flags_page E root = Inr rows" "row \<in> set rows"
  shows "\<exists>data. dg_ReadFile E (dg_Join E [root, ''charts'', ''fleet-management-operator'', ''templates'', ''deployment.yaml'']) = Inr data \<and>
    (case coverage_of (flg_Name row) (mentions (split_at CHR 0x0A data) 0 0) of
       None \<Rightarrow> flg_InChart row = ''no''
     | Some c \<Rightarrow> flg_InChart row = (if cov_conditional c then ''conditional'' else ''yes'') \<and>
         flg_ChartLines row = linesString c)"
  using assms
  by (auto simp: flags_page_def scanChartArgs_def in_chart_def chart_coverage_exact split: sum.splits option.splits)

text \<open>Each reason of an event type has one row, that of its first call.\<close>

lemma distinct_first_events:
  "distinct (map event_key seen) \<Longrightarrow> distinct (map event_key (first_events es seen))"
  by (induction es seen rule: first_events.induct) auto

lemma set_sort_events: "set (sort_events es) = set es"
  by (auto simp: sort_events_def Let_def)

end
