(* ===== verification/Mock_Fleet.thy ===== *)
theory Mock_Fleet
  imports Pipeline_Liveness
begin

text \<open>
  \<open>test/mockapi/main.go\<close>: the stateful Fleet Management server the end-to-end tests run the
  operator against, and the closed loop of the two: what one reconcile does to the server's
  store.  The interface between them is the locale \<open>pipeline_service\<close>, the promises about a
  server that the loop rests on; the mock server is shown to keep them.
\<close>

section \<open>The server\<close>

text \<open>
  The \<open>sync.Map\<close> is an association list, its order the order of \<open>Range\<close>; the counter is the
  \<open>atomic.Int64\<close>.  \<open>proto.Clone\<close> is the identity on values.
\<close>

record 't MockAPI =
  mk_pipelines :: "(string \<times> 't pb_pipeline) list"
  mk_idCounter :: "64 word"

definition NewMockAPI :: "'t MockAPI" where
  "NewMockAPI = \<lparr>mk_pipelines = [], mk_idCounter = 1000\<rparr>"

text \<open>\<open>connect.NewError\<close>; \<open>name\<close> is the code's name in the error's text.\<close>

definition mock_error :: "connect_code \<Rightarrow> string \<Rightarrow> string \<Rightarrow> go_error" where
  "mock_error code name msg = ConnectError code msg (name @ '': '' @ msg) (Some (PlainError msg))"

definition mock_existing :: "string \<Rightarrow> (string \<times> 't pb_pipeline) list \<Rightarrow> 't pb_pipeline option" where
  "mock_existing name ps = map_option snd (find (\<lambda>(_, p). pb_Name p = name) ps)"

text \<open>\<open>now\<close> is what \<open>timestamppb.Now\<close> returns.\<close>

definition mock_UpsertPipeline ::
  "'t \<Rightarrow> 't pb_pipeline option \<Rightarrow> bool \<Rightarrow> 't MockAPI \<Rightarrow> (go_error + 't pb_pipeline) \<times> 't MockAPI" where
  "mock_UpsertPipeline now req validateOnly m =
     (case req of
        None \<Rightarrow> (Inl (mock_error CodeInvalidArgument ''invalid_argument'' ''missing pipeline''), m)
      | Some pipeline \<Rightarrow>
          (let (pipeline, m) =
             (case mock_existing (pb_Name pipeline) (mk_pipelines m) of
                Some existing \<Rightarrow>
                  (pipeline\<lparr>pb_Id := Some (pb_GetId existing),
                     pb_CreatedAt := (case pb_CreatedAt existing of Some t \<Rightarrow> Some t | None \<Rightarrow> Some now),
                     pb_UpdatedAt := Some now\<rparr>, m)
              | None \<Rightarrow>
                  (let counter = mk_idCounter m + 1
                   in (pipeline\<lparr>pb_Id := Some (show_int (sint counter)),
                         pb_CreatedAt := Some now, pb_UpdatedAt := Some now\<rparr>,
                       m\<lparr>mk_idCounter := counter\<rparr>)))
           in (Inr pipeline,
               if \<not> validateOnly
               then m\<lparr>mk_pipelines := map_put (pb_GetId pipeline) pipeline (mk_pipelines m)\<rparr>
               else m)))"

definition mock_GetPipeline :: "string \<Rightarrow> 't MockAPI \<Rightarrow> go_error + 't pb_pipeline" where
  "mock_GetPipeline ident m =
     (if ident = [] then Inl (mock_error CodeInvalidArgument ''invalid_argument'' ''missing id'')
      else case map_of (mk_pipelines m) ident of
             None \<Rightarrow> Inl (mock_error CodeNotFound ''not_found'' ''pipeline not found'')
           | Some p \<Rightarrow> Inr p)"

definition mock_DeletePipeline :: "string \<Rightarrow> 't MockAPI \<Rightarrow> go_error option \<times> 't MockAPI" where
  "mock_DeletePipeline ident m =
     (if ident = [] then (Some (mock_error CodeInvalidArgument ''invalid_argument'' ''missing id''), m)
      else (None, m\<lparr>mk_pipelines := map_del ident (mk_pipelines m)\<rparr>))"

definition mock_ListPipelines :: "int option \<Rightarrow> bool option \<Rightarrow> 't MockAPI \<Rightarrow> 't pb_pipeline list" where
  "mock_ListPipelines configType enabled m =
     filter (\<lambda>p. (case configType of None \<Rightarrow> True | Some c \<Rightarrow> pb_ConfigType p = c) \<and>
                 (case enabled of None \<Rightarrow> True | Some b \<Rightarrow> pb_GetEnabled p = b))
       (map snd (mk_pipelines m))"

text \<open>
  The stub that reaches this server.  The world is the server with the number of clock
  readings so far; the collector service is not served here, so its calls are those of
  \<open>rest\<close>.
\<close>

definition mock_rpc ::
  "(nat \<Rightarrow> 't) \<Rightarrow> ('t, 't MockAPI \<times> nat) rpc \<Rightarrow> ('t, 't MockAPI \<times> nat) rpc" where
  "mock_rpc clock rest =
     rest\<lparr>rpc_GetPipeline := (\<lambda>ident (m, k). (mock_GetPipeline ident m, (m, k))),
          rpc_UpsertPipeline := (\<lambda>p validateOnly (m, k).
             (case mock_UpsertPipeline (clock k) (Some p) validateOnly m of (r, m') \<Rightarrow> (r, (m', Suc k)))),
          rpc_DeletePipeline := (\<lambda>ident (m, k).
             (case mock_DeletePipeline ident m of (r, m') \<Rightarrow> (r, (m', k)))),
          rpc_ListPipelines := (\<lambda>configType enabled (m, k).
             (Inr (mock_ListPipelines configType enabled m), (m, k)))\<rparr>"

section \<open>What the server keeps\<close>

text \<open>
  The server's life: requests in any order, and \<open>Range\<close> may visit the map in another order
  each time.  The index counts the upserts (dry runs included: they too draw an ID).
\<close>

inductive mock_run :: "nat \<Rightarrow> 't MockAPI \<Rightarrow> bool" where
  start: "mock_run 0 NewMockAPI"
| upsert: "mock_run n m \<Longrightarrow> mock_run (Suc n) (snd (mock_UpsertPipeline now req validateOnly m))"
| delete: "mock_run n m \<Longrightarrow> mock_run n (snd (mock_DeletePipeline ident m))"
| reorder: "mock_run n m \<Longrightarrow> set ps = set (mk_pipelines m) \<Longrightarrow> gomap_ok ps \<Longrightarrow>
    mock_run n (m\<lparr>mk_pipelines := ps\<rparr>)"

text \<open>IDs are the decimals the counter went through, and names are unique.\<close>

definition mock_inv :: "'t MockAPI \<Rightarrow> bool" where
  "mock_inv m \<longleftrightarrow>
     1000 \<le> sint (mk_idCounter m) \<and> gomap_ok (mk_pipelines m) \<and>
     inj_on (\<lambda>(i, p). pb_Name p) (set (mk_pipelines m)) \<and>
     (\<forall>(i, p) \<in> set (mk_pipelines m). pb_Id p = Some i \<and>
        (\<exists>k. 1000 < k \<and> k \<le> sint (mk_idCounter m) \<and> i = show_int k))"

definition mock_room :: "nat \<Rightarrow> 't MockAPI \<Rightarrow> bool" where
  "mock_room n m \<longleftrightarrow> mock_inv m \<and> sint (mk_idCounter m) + int n < 2 ^ 63"

lemma show_int_pos_inj: "0 \<le> i \<Longrightarrow> 0 \<le> j \<Longrightarrow> show_int i = show_int j \<longleftrightarrow> i = j"
  by (auto simp: show_int_def show_nat_inj)

lemma sint_Suc:
  fixes x :: "64 word"
  assumes "1000 \<le> sint x" "sint x + int (Suc n) < 2 ^ 63"
  shows "sint (x + 1) = sint x + 1"
  using assms by (simp add: sint_word_ariths signed_take_bit_int_eq_self)

lemma set_map_put: "gomap_ok m \<Longrightarrow> set (map_put k v m) = insert (k, v) {(k', v'). (k', v') \<in> set m \<and> k' \<noteq> k}"
  by (induction k v m rule: map_put.induct) (force simp: gomap_ok_def)+

lemma mock_existing_None: "mock_existing name ps = None \<longleftrightarrow> (\<forall>(i, p) \<in> set ps. pb_Name p \<noteq> name)"
  by (auto simp: mock_existing_def find_None_iff)

lemma mock_existing_Some:
  "mock_existing name ps = Some p \<Longrightarrow> \<exists>i. (i, p) \<in> set ps \<and> pb_Name p = name"
  by (force simp: mock_existing_def find_Some_iff dest: nth_mem)

lemma mock_inv_counter:
  "mock_inv m \<Longrightarrow> sint (mk_idCounter m) \<le> sint c \<Longrightarrow> mock_inv (m\<lparr>mk_idCounter := c\<rparr>)"
  by (force simp: mock_inv_def)

lemma mock_inv_store:
  assumes "mock_inv m" "pb_Id s = Some i" "1000 < k" "k \<le> sint (mk_idCounter m)" "i = show_int k"
    and "\<And>j q. (j, q) \<in> set (mk_pipelines m) \<Longrightarrow> pb_Name q = pb_Name s \<Longrightarrow> j = i"
  shows "mock_inv (m\<lparr>mk_pipelines := map_put i s (mk_pipelines m)\<rparr>)"
proof -
  have ok: "gomap_ok (mk_pipelines m)" using assms(1) by (simp add: mock_inv_def)
  have "inj_on (\<lambda>(i, p). pb_Name p) (set (map_put i s (mk_pipelines m)))"
    using assms(1,6) unfolding set_map_put [OF ok] mock_inv_def inj_on_def by fastforce
  moreover have "\<forall>(j, p) \<in> set (map_put i s (mk_pipelines m)). pb_Id p = Some j \<and>
      (\<exists>k. 1000 < k \<and> k \<le> sint (mk_idCounter m) \<and> j = show_int k)"
    using assms(1-5) unfolding set_map_put [OF ok] mock_inv_def by auto
  ultimately show ?thesis using assms(1) by (simp add: mock_inv_def)
qed

text \<open>
  An accepted upsert, dry run or not: it consumes at most one ID, and what it stores under the
  answered ID replaces only the pipeline of that name.
\<close>

lemma mock_upsert_new:
  assumes "mock_room (Suc n) m" "mock_existing (pb_Name p) (mk_pipelines m) = None"
    and "c = mk_idCounter m + 1"
    and "s = p\<lparr>pb_Id := Some (show_int (sint c)), pb_CreatedAt := Some now, pb_UpdatedAt := Some now\<rparr>"
    and "m' = (if v then m\<lparr>mk_idCounter := c\<rparr>
               else m\<lparr>mk_idCounter := c, mk_pipelines := map_put (pb_GetId s) s (mk_pipelines m)\<rparr>)"
  shows "mock_UpsertPipeline now (Some p) v m = (Inr s, m')" "mock_room n m'" "pb_GetId s \<noteq> []"
    and "map_of (mk_pipelines m) (pb_GetId s) = Some a \<Longrightarrow> pb_Name a = pb_Name p"
proof -
  have inv: "mock_inv m" and c: "sint c = sint (mk_idCounter m) + 1" "1000 \<le> sint (mk_idCounter m)"
    using assms(1,3) sint_Suc [of "mk_idCounter m" n] by (auto simp: mock_room_def mock_inv_def)
  have none: "pb_Name q \<noteq> pb_Name s" if "(i, q) \<in> set (mk_pipelines m)" for i q
    using assms(2) that by (auto simp: mock_existing_None assms(4))
  have "mock_inv m'"
    using mock_inv_store [of "m\<lparr>mk_idCounter := c\<rparr>" s "pb_GetId s" "sint c"] none c
      mock_inv_counter [OF inv, of c] by (auto simp: assms(4,5) pb_GetId_def)
  then show "mock_room n m'" using assms(1) c by (simp add: mock_room_def assms(5))
  show "pb_Name a = pb_Name p" if "map_of (mk_pipelines m) (pb_GetId s) = Some a"
  proof -
    have "(show_int (sint c), a) \<in> set (mk_pipelines m)"
      using map_of_SomeD [OF that] by (simp add: assms(4) pb_GetId_def)
    with inv obtain k where "1000 < k" "k \<le> sint (mk_idCounter m)" "show_int (sint c) = show_int k"
      by (fastforce simp: mock_inv_def)
    with c show ?thesis by (simp add: show_int_pos_inj)
  qed
  show "pb_GetId s \<noteq> []" using c by (simp add: assms(4) pb_GetId_def show_int_def)
  show "mock_UpsertPipeline now (Some p) v m = (Inr s, m')"
    using assms(2) by (simp add: mock_UpsertPipeline_def assms(3-5) Let_def)
qed

lemma mock_upsert_existing:
  assumes "mock_room (Suc n) m" "mock_existing (pb_Name p) (mk_pipelines m) = Some e"
    and "s = p\<lparr>pb_Id := Some (pb_GetId e),
           pb_CreatedAt := (case pb_CreatedAt e of Some t \<Rightarrow> Some t | None \<Rightarrow> Some now),
           pb_UpdatedAt := Some now\<rparr>"
    and "m' = (if v then m else m\<lparr>mk_pipelines := map_put (pb_GetId s) s (mk_pipelines m)\<rparr>)"
  shows "mock_UpsertPipeline now (Some p) v m = (Inr s, m')" "mock_room n m'" "pb_GetId s \<noteq> []"
    and "map_of (mk_pipelines m) (pb_GetId s) = Some a \<Longrightarrow> pb_Name a = pb_Name p"
proof -
  have inv: "mock_inv m" using assms(1) by (simp add: mock_room_def)
  obtain i where i: "(i, e) \<in> set (mk_pipelines m)" "pb_Name e = pb_Name p"
    using mock_existing_Some [OF assms(2)] by blast
  with inv obtain k where k: "pb_Id e = Some i" "1000 < k" "k \<le> sint (mk_idCounter m)" "i = show_int k"
    by (auto simp: mock_inv_def)
  have "j = i" if "(j, q) \<in> set (mk_pipelines m)" "pb_Name q = pb_Name s" for j q
    using inv i that unfolding mock_inv_def inj_on_def assms(3) by fastforce
  then have "mock_inv m'"
    using mock_inv_store [OF inv, of s "pb_GetId s" k] inv k by (auto simp: assms(3,4) pb_GetId_def)
  then show "mock_room n m'" using assms(1) by (simp add: mock_room_def assms(4))
  show "pb_Name a = pb_Name p" if "map_of (mk_pipelines m) (pb_GetId s) = Some a"
  proof -
    have "(i, a) \<in> set (mk_pipelines m)"
      using map_of_SomeD [OF that] k(1) by (simp add: assms(3) pb_GetId_def)
    with inv i show ?thesis using eq_key_imp_eq_value [of "mk_pipelines m" i a e]
      by (simp add: mock_inv_def gomap_ok_def)
  qed
  show "pb_GetId s \<noteq> []" using k by (simp add: assms(3) pb_GetId_def show_int_def)
  show "mock_UpsertPipeline now (Some p) v m = (Inr s, m')"
    using assms(2) by (simp add: mock_UpsertPipeline_def assms(3,4) Let_def)
qed

definition pb_content :: "'t pb_pipeline \<Rightarrow> 't pb_pipeline" where
  "pb_content p = p\<lparr>pb_Id := None, pb_CreatedAt := None, pb_UpdatedAt := None\<rparr>"

lemma mock_upsert_room:
  assumes "mock_room (Suc n) m"
  shows "\<exists>s m'. mock_UpsertPipeline now (Some p) v m = (Inr s, m') \<and> mock_room n m' \<and>
           pb_content s = pb_content p \<and> pb_GetId s \<noteq> [] \<and>
           (\<forall>a. map_of (mk_pipelines m) (pb_GetId s) = Some a \<longrightarrow> pb_Name a = pb_Name p) \<and>
           map_of (mk_pipelines m') =
             (if v then map_of (mk_pipelines m) else (map_of (mk_pipelines m))(pb_GetId s \<mapsto> s))"
proof (cases "mock_existing (pb_Name p) (mk_pipelines m)")
  case None
  show ?thesis
    using mock_upsert_new [where now = now and v = v, OF assms None refl refl refl]
    by (intro exI conjI) (auto simp: pb_content_def)
next
  case (Some e)
  show ?thesis
    using mock_upsert_existing [where now = now and v = v, OF assms Some refl refl]
    by (intro exI conjI) (auto simp: pb_content_def)
qed

lemma mock_delete_room:
  assumes "mock_room n m" "ident \<noteq> []"
  shows "\<exists>m'. mock_DeletePipeline ident m = (None, m') \<and> mock_room n m' \<and>
           map_of (mk_pipelines m') = (map_of (mk_pipelines m))(ident := None)"
proof -
  have "set (map_del ident (mk_pipelines m)) \<subseteq> set (mk_pipelines m)" by (auto simp: map_del_def)
  then have "mock_room n (m\<lparr>mk_pipelines := map_del ident (mk_pipelines m)\<rparr>)"
    using assms(1) by (auto simp: mock_room_def mock_inv_def intro: inj_on_subset)
  then show ?thesis using assms(2) by (simp add: mock_DeletePipeline_def)
qed

text \<open>
  The store of the test server is consistent after any sequence of requests: a pipeline is
  stored under its own ID, no two share a name, and every ID is one the counter has issued, as
  long as the 64-bit counter does not overflow.
\<close>

theorem mock_store_consistent:
  assumes "mock_run n m" "n + k < 2 ^ 63 - 1000"
  shows "mock_room k m"
  using assms
proof (induction arbitrary: k rule: mock_run.induct)
  case start
  then show ?case by (simp add: mock_room_def mock_inv_def NewMockAPI_def)
next
  case (upsert n m now req v)
  then have room: "mock_room (Suc k) m" by simp
  show ?case
  proof (cases req)
    case None
    then show ?thesis using room by (simp add: mock_UpsertPipeline_def mock_room_def)
  next
    case (Some p)
    then show ?thesis using mock_upsert_room [OF room, of now p v] by auto
  qed
next
  case (delete n m ident)
  then show ?case
    using mock_delete_room [of k m ident] by (cases "ident = []") (auto simp: mock_DeletePipeline_def)
next
  case (reorder n m ps)
  then show ?case by (simp add: mock_room_def mock_inv_def)
qed

text \<open>What a list answers is what single gets answer, restricted to the filters.\<close>

lemma mock_list_exact:
  assumes "mock_inv m"
  shows "p \<in> set (mock_ListPipelines configType enabled m) \<longleftrightarrow>
           mock_GetPipeline (pb_GetId p) m = Inr p \<and>
           (configType = None \<or> configType = Some (pb_ConfigType p)) \<and>
           (enabled = None \<or> enabled = Some (pb_GetEnabled p))"
proof -
  have "p \<in> snd ` set (mk_pipelines m) \<longleftrightarrow> mock_GetPipeline (pb_GetId p) m = Inr p"
  proof
    assume "p \<in> snd ` set (mk_pipelines m)"
    then obtain i where i: "(i, p) \<in> set (mk_pipelines m)" by auto
    with assms obtain k where k: "pb_Id p = Some i" "1000 < k" "i = show_int k"
      by (auto simp: mock_inv_def)
    then have "i \<noteq> []" by (simp add: show_int_def)
    moreover have "map_of (mk_pipelines m) i = Some p"
      using assms i by (simp add: mock_inv_def gomap_ok_def)
    ultimately show "mock_GetPipeline (pb_GetId p) m = Inr p"
      by (simp add: mock_GetPipeline_def pb_GetId_def k(1))
  next
    assume "mock_GetPipeline (pb_GetId p) m = Inr p"
    then show "p \<in> snd ` set (mk_pipelines m)"
      by (force simp: mock_GetPipeline_def split: if_splits option.splits dest: map_of_SomeD)
  qed
  then show ?thesis by (auto simp: mock_ListPipelines_def split: option.splits)
qed

text \<open>After a delete the client's get reports status 404, on which the reconcilers do not retry.\<close>

lemma deleted_is_not_found:
  assumes "ident \<noteq> []"
  shows "\<exists>e. fst (GetPipeline N (mock_rpc clock rest) ident
               (snd (DeletePipeline (mock_rpc clock rest) ident w))) = Inl e \<and>
           map_option fae_status (as_fleet e) = Some 404 \<and> \<not> isTransientError e"
  using assms
  by (cases w) (simp add: mock_rpc_def GetPipeline_def DeletePipeline_def mock_DeletePipeline_def
      mock_GetPipeline_def mock_error_def connectErrToFleetErr_def connectCodeToHTTPStatus_def
      isTransientError_def IsTransient_def)

section \<open>The loop of operator and server\<close>

text \<open>
  What a server must promise for the loop: it accepts upserts as long as it has \<open>room\<close>, keeps the
  content under a nonempty ID, leaves the other pipelines alone, stores nothing on a dry run,
  and its names stay unique.
\<close>

locale pipeline_service =
  fixes S :: "('t, 'w) rpc" and room :: "nat \<Rightarrow> 'w \<Rightarrow> bool"
    and stored :: "'w \<Rightarrow> string \<Rightarrow> 't pb_pipeline option"
  assumes upsert_law: "room (Suc n) w \<Longrightarrow> \<exists>s w'. rpc_UpsertPipeline S p v w = (Inr s, w') \<and> room n w' \<and>
      pb_content s = pb_content p \<and> pb_GetId s \<noteq> [] \<and>
      (\<forall>a. stored w (pb_GetId s) = Some a \<longrightarrow> pb_Name a = pb_Name p) \<and>
      stored w' = (if v then stored w else (stored w)(pb_GetId s \<mapsto> s))"
    and delete_law: "room n w \<Longrightarrow> ident \<noteq> [] \<Longrightarrow> \<exists>w'. rpc_DeletePipeline S ident w = (None, w') \<and>
      room n w' \<and> stored w' = (stored w)(ident := None)"
    and names_law: "room n w \<Longrightarrow> stored w i = Some a \<Longrightarrow> stored w j = Some b \<Longrightarrow>
      pb_Name a = pb_Name b \<Longrightarrow> i = j"

text \<open>The Fleet calls of a trace, run against a server.\<close>

fun play_call :: "'t enums \<Rightarrow> ('t, 'w) rpc \<Rightarrow> pcall \<Rightarrow> 'w \<Rightarrow> 'w" where
  "play_call N S (PcFleetGet i) w = snd (GetPipeline N S i w)"
| "play_call N S (PcFleetUpsert r) w = snd (UpsertPipeline N S r w)"
| "play_call N S (PcFleetDelete i) w = snd (DeletePipeline S i w)"
| "play_call N S _ w = w"

definition play :: "'t enums \<Rightarrow> ('t, 'w) rpc \<Rightarrow> pcall list \<Rightarrow> 'w \<Rightarrow> 'w" where
  "play N S tr w = fold (play_call N S) tr w"

text \<open>
  An environment whose Fleet answers are those of the client run against the server from the
  state \<open>w\<close>, and whose API server accepts every write.
\<close>

definition closed_loop :: "'t enums \<Rightarrow> ('t, 'w) rpc \<Rightarrow> 'w \<Rightarrow> penv \<Rightarrow> bool" where
  "closed_loop N S w E \<longleftrightarrow>
     (\<forall>tr i. pe_GetPipeline E (tr @ [PcFleetGet i]) = fst (GetPipeline N S i (play N S tr w))) \<and>
     (\<forall>tr r. pe_UpsertPipeline E (tr @ [PcFleetUpsert r]) = fst (UpsertPipeline N S r (play N S tr w))) \<and>
     (\<forall>tr i. pe_DeletePipeline E (tr @ [PcFleetDelete i]) = fst (DeletePipeline S i (play N S tr w))) \<and>
     (\<forall>tr. pe_Update E tr = None) \<and> (\<forall>tr. pe_StatusUpdate E tr = None)"

lemma closed_loopD:
  assumes "closed_loop N S w E"
  shows "pe_UpsertPipeline E (tr @ [PcFleetUpsert r]) = fst (UpsertPipeline N S r (play N S tr w))"
    and "pe_DeletePipeline E (tr @ [PcFleetDelete i]) = fst (DeletePipeline S i (play N S tr w))"
    and "pe_Update E tr = None" "pe_StatusUpdate E tr = None"
  using assms by (auto simp: closed_loop_def)

lemma play_simps [simp]:
  "play N S [] w = w"
  "play N S (c # tr) w = play N S tr (play_call N S c w)"
  "play N S (tr @ tr') w = play N S tr' (play N S tr w)"
  by (simp_all add: play_def)

lemma play_call_other: "\<not> is_fleet_call c \<Longrightarrow> play_call N S c w = w"
  by (cases c) auto

lemma play_extends:
  assumes "extends (\<lambda>c. \<not> is_fleet_call c) tr tr'"
  shows "play N S tr' w = play N S tr w"
proof -
  have "play N S new w = w" if "list_all (\<lambda>c. \<not> is_fleet_call c) new" for new w
    using that by (induction new arbitrary: w) (simp_all add: play_call_other)
  then show ?thesis using assms by (auto simp: extends_def)
qed

lemma play_emitEvent [simp]: "play N S (pipeline_emitEvent R t r tr) w = play N S tr w"
  by (intro play_extends trace_intros benign_fleet)

lemma play_updateStatusSuccess [simp]:
  "play N S (rr_trace (pipeline_updateStatusSuccess R E p api tr)) w = play N S tr w"
  by (intro play_extends trace_intros benign_fleet)

lemma play_removeFinalizer [simp]:
  "play N S (rr_trace (pipeline_removeFinalizer R E p tr)) w = play N S tr w"
  by (intro play_extends trace_intros benign_fleet) simp_all

text \<open>The request that would make the server hold what the resource asks for.\<close>

definition desired_content :: "'t enums \<Rightarrow> PipelineReconciler \<Rightarrow> Pipeline \<Rightarrow> 't pb_pipeline" where
  "desired_content N R p = pb_content (pipelineToProto N (ur_Pipeline (buildUpsertRequest R p)))"

lemma pb_content_Name: "pb_content s = pb_content p \<Longrightarrow> pb_Name s = pb_Name p"
  by (cases s; cases p) (simp add: pb_content_def)

context pipeline_service
begin

lemma client_upsert:
  assumes "room (Suc n) w" "ur_Pipeline r = ur_Pipeline (buildUpsertRequest R p)"
  shows "\<exists>s w'. UpsertPipeline N S r w = (Inr (pipelineFromProto N s), w') \<and> room n w' \<and>
           pb_content s = desired_content N R p \<and> pb_GetId s \<noteq> [] \<and>
           (\<forall>a. stored w (pb_GetId s) = Some a \<longrightarrow> pb_Name a = pb_Name s) \<and>
           stored w' = (if ur_ValidateOnly r then stored w else (stored w)(pb_GetId s \<mapsto> s))"
proof -
  let ?pb = "pipelineToProto N (ur_Pipeline r)"
  obtain s w' where s: "rpc_UpsertPipeline S ?pb (ur_ValidateOnly r) w = (Inr s, w') \<and> room n w' \<and>
      pb_content s = pb_content ?pb \<and> pb_GetId s \<noteq> [] \<and>
      (\<forall>a. stored w (pb_GetId s) = Some a \<longrightarrow> pb_Name a = pb_Name ?pb) \<and>
      stored w' = (if ur_ValidateOnly r then stored w else (stored w)(pb_GetId s \<mapsto> s))"
    using upsert_law [OF assms(1), of ?pb "ur_ValidateOnly r"] by (elim exE)
  have name: "pb_Name s = pb_Name ?pb" using s by (intro pb_content_Name) (elim conjE)
  have "UpsertPipeline N S r w = (Inr (pipelineFromProto N s), w')"
    using s by (simp add: UpsertPipeline_def)
  then have "UpsertPipeline N S r w = (Inr (pipelineFromProto N s), w') \<and> room n w' \<and>
      pb_content s = pb_content ?pb \<and> pb_GetId s \<noteq> [] \<and>
      (\<forall>a. stored w (pb_GetId s) = Some a \<longrightarrow> pb_Name a = pb_Name s) \<and>
      stored w' = (if ur_ValidateOnly r then stored w else (stored w)(pb_GetId s \<mapsto> s))"
    using s [folded name] by (elim conjE) (intro conjI)
  then show ?thesis
    unfolding desired_content_def assms(2) [symmetric] by (intro exI)
qed

lemma client_delete:
  assumes "room n w" "ident \<noteq> []"
  shows "\<exists>w'. DeletePipeline S ident w = (None, w') \<and> room n w' \<and> stored w' = (stored w)(ident := None)"
  using delete_law [OF assms] by (auto simp: DeletePipeline_def)

text \<open>A migration takes the old pipeline away; the dry run stores nothing.\<close>

lemma migrate_loop:
  assumes "closed_loop N S w E" "room 2 (play N S tr w)"
  shows "\<exists>tr' q n. migratePipelineName R E p tr = (tr', Inr q) \<and> pl_meta q = pl_meta p \<and>
           pl_spec q = pl_spec p \<and> room (Suc n) (play N S tr' w) \<and>
           stored (play N S tr' w) =
             (if migration_due R p then (stored (play N S tr w))(pst_ID (pl_status p) := None)
              else stored (play N S tr w))"
proof (cases "migration_due R p")
  case False
  then show ?thesis using assms(2) by (auto simp: migratePipelineName_def numeral_2_eq_2)
next
  case True
  define dry where "dry = (buildUpsertRequest R p)\<lparr>ur_ValidateOnly := True\<rparr>"
  obtain s w1 where dry: "UpsertPipeline N S dry (play N S tr w) = (Inr (pipelineFromProto N s), w1)"
    "room 1 w1" "stored w1 = stored (play N S tr w)"
    using client_upsert [of 1 "play N S tr w" dry R p N] assms(2)
    by (auto simp: dry_def numeral_2_eq_2)
  obtain w2 where del: "DeletePipeline S (pst_ID (pl_status p)) w1 = (None, w2)" "room 1 w2"
    "stored w2 = (stored w1)(pst_ID (pl_status p) := None)"
    using client_delete [OF dry(2), of "pst_ID (pl_status p)"] True by (auto simp: migration_due_def)
  show ?thesis
    using True dry del closed_loopD(1) [OF assms(1), of tr dry]
      closed_loopD(2) [OF assms(1), of "tr @ [PcFleetUpsert dry]"]
    by (auto simp: migratePipelineName_def dry_def [symmetric] Let_def)
qed

text \<open>One reconcile of a managed pipeline with work to do, against any such server.\<close>

lemma reconcile_loop:
  assumes "klib_ok (pr_klib R)" "active R p" "pe_Get E [PcGet req] = Inr p"
    and "migration_due R (backfillSyncedName p) \<or>
         pst_ObservedGeneration (pl_status p) \<noteq> om_generation (pl_meta p)"
    and "closed_loop N S w E" "room 2 w" "tr = rr_trace (pipeline_Reconcile R E req)"
    and "kept = (if migration_due R (backfillSyncedName p)
                 then (stored w)(pst_ID (pl_status p) := None) else stored w)"
  shows "\<exists>q s. PcStatusUpdate q \<in> set tr \<and> pl_meta q = pl_meta p \<and> pl_spec q = pl_spec p \<and>
           pst_ID (pl_status q) \<noteq> [] \<and> pb_content s = desired_content N R p \<and>
           stored (play N S tr w) = kept(pst_ID (pl_status q) \<mapsto> s) \<and>
           (\<forall>a. kept (pst_ID (pl_status q)) = Some a \<longrightarrow> pb_Name a = pb_Name s) \<and>
           (\<forall>E' req'. pe_Get E' [PcGet req'] = Inr q \<longrightarrow>
              pipeline_Reconcile R E' req' = ret [PcGet req'] done_result None outcomeNoOp)"
    and "\<exists>n. room n (play N S tr w)" "rr_outcome (pipeline_Reconcile R E req) = reasonSynced"
proof -
  define b where "b = backfillSyncedName p"
  define up where "up = buildUpsertRequest R p"
  obtain t1 m n where m: "migratePipelineName R E b [PcGet req] = (t1, Inr m)"
    "pl_meta m = pl_meta b" "pl_spec m = pl_spec b" "room (Suc n) (play N S t1 w)"
    "stored (play N S t1 w) = kept"
    using migrate_loop [OF assms(5), of "[PcGet req]" R b] assms(6,8) by (auto simp: b_def)
  then have mp: "pl_meta m = pl_meta p" "pl_spec m = pl_spec p" by (simp_all add: b_def)
  have up: "buildUpsertRequest R m = up"
    using same_meta_spec(3) [OF mp] by (simp add: up_def)
  obtain s w1 where s: "UpsertPipeline N S up (play N S t1 w) = (Inr (pipelineFromProto N s), w1)"
    "room n w1" "pb_content s = desired_content N R p" "stored w1 = kept(pb_GetId s \<mapsto> s)"
    "pb_GetId s \<noteq> []" "\<forall>a. kept (pb_GetId s) = Some a \<longrightarrow> pb_Name a = pb_Name s"
    using client_upsert [OF m(4), of up R p N] m(5) by (auto simp: up_def)
  let ?api = "pipelineFromProto N s" and ?t2 = "t1 @ [PcFleetUpsert up]"
  have run: "pipeline_Reconcile R E req = pipeline_updateStatusSuccess R E m ?api ?t2"
    using active_reconcile [OF assms(2,3)] assms(4) m(1) s(1) closed_loopD(1) [OF assms(5), of t1 up]
    by (auto simp: b_def pipeline_reconcileNormal_def up Let_def)
  define q where "q = m\<lparr>pl_status := success_status (pr_klib R) m ?api\<rparr>"
  have "fp_Name ?api = DesiredFleetName p (pr_NameScope R)"
    using pb_content_Name [of s "pipelineToProto N (ur_Pipeline up)"] s(3)
    by (simp add: desired_content_def up_def pipelineFromProto_def pipelineToProto_def buildUpsertRequest_def)
  note q = synced_settles [OF assms(1,2) mp this q_def]
  note ok = updateStatusSuccess_ok [where E = E, OF closed_loopD(4) [OF assms(5)]]
  have w: "play N S tr w = w1" using s(1) by (simp add: assms(7) run)
  then show "\<exists>n. room n (play N S tr w)" using s(2) by blast
  show "rr_outcome (pipeline_Reconcile R E req) = reasonSynced" unfolding run by (rule ok(1))
  have "PcStatusUpdate q \<in> set tr" unfolding assms(7) run q_def by (rule ok(5))
  moreover have "pst_ID (pl_status q) = pb_GetId s" using q(3) by (simp add: pipelineFromProto_def)
  moreover have "stored (play N S tr w) = kept(pb_GetId s \<mapsto> s)" using s(4) w by simp
  ultimately show "\<exists>q s. PcStatusUpdate q \<in> set tr \<and> pl_meta q = pl_meta p \<and> pl_spec q = pl_spec p \<and>
      pst_ID (pl_status q) \<noteq> [] \<and> pb_content s = desired_content N R p \<and>
      stored (play N S tr w) = kept(pst_ID (pl_status q) \<mapsto> s) \<and>
      (\<forall>a. kept (pst_ID (pl_status q)) = Some a \<longrightarrow> pb_Name a = pb_Name s) \<and>
      (\<forall>E' req'. pe_Get E' [PcGet req'] = Inr q \<longrightarrow>
         pipeline_Reconcile R E' req' = ret [PcGet req'] done_result None outcomeNoOp)"
    using s(3,5,6) q(1,2) q(4) by (intro exI [of _ q] exI [of _ s]) presburger
qed

text \<open>Deleting the resource takes its pipeline, and nothing else, away.\<close>

lemma delete_loop:
  assumes "pe_Get E [PcGet req] = Inr p" "om_deleting (pl_meta p)" "has_finalizer R p" "\<not> isReadOnly p"
    and "pst_ID (pl_status p) \<noteq> []" "closed_loop N S w E" "room n w"
    and "tr = rr_trace (pipeline_Reconcile R E req)"
  shows "stored (play N S tr w) = (stored w)(pst_ID (pl_status p) := None)"
    and "\<exists>q. PcUpdate q \<in> set tr \<and> pl_spec q = pl_spec p \<and>
           om_finalizers (pl_meta q) = RemoveFinalizer (pr_klib R) (om_finalizers (pl_meta p)) pipelineFinalizer"
proof -
  obtain w1 where w1: "DeletePipeline S (pst_ID (pl_status p)) w = (None, w1)"
    "stored w1 = (stored w)(pst_ID (pl_status p) := None)"
    using client_delete [OF assms(7,5)] by blast
  have run: "pipeline_Reconcile R E req = pipeline_removeFinalizer R E p
      (pipeline_emitEvent R EventNormal ''Deleted'' ([PcGet req] @ [PcFleetDelete (pst_ID (pl_status p))]))"
    using assms(1-5) w1(1) closed_loopD(2) [OF assms(6), of "[PcGet req]" "pst_ID (pl_status p)"]
    by (simp add: pipeline_Reconcile_def pipeline_reconcileDelete_def)
  show "stored (play N S tr w) = (stored w)(pst_ID (pl_status p) := None)"
    using w1 by (simp add: assms(8) run)
  show "\<exists>q. PcUpdate q \<in> set tr \<and> pl_spec q = pl_spec p \<and>
      om_finalizers (pl_meta q) = RemoveFinalizer (pr_klib R) (om_finalizers (pl_meta p)) pipelineFinalizer"
    by (auto simp: assms(8) run pipeline_removeFinalizer_def closed_loopD [OF assms(6)] Let_def)
qed

end

section \<open>The mock server keeps the promises\<close>

interpretation mock: pipeline_service "mock_rpc clock rest" "\<lambda>n. mock_room n \<circ> fst"
    "\<lambda>w. map_of (mk_pipelines (fst w))" for clock :: "nat \<Rightarrow> 't" and rest
proof
  fix n p v and w :: "'t MockAPI \<times> nat"
  assume room: "(mock_room (Suc n) \<circ> fst) w"
  obtain m k where w: "w = (m, k)" by fastforce
  obtain s m' where s: "mock_UpsertPipeline (clock k) (Some p) v m = (Inr s, m')" "mock_room n m'"
    "pb_content s = pb_content p \<and> pb_GetId s \<noteq> [] \<and>
     (\<forall>a. map_of (mk_pipelines m) (pb_GetId s) = Some a \<longrightarrow> pb_Name a = pb_Name p) \<and>
     map_of (mk_pipelines m') =
       (if v then map_of (mk_pipelines m) else (map_of (mk_pipelines m))(pb_GetId s \<mapsto> s))"
    using mock_upsert_room [of n m "clock k" p v] room unfolding w comp_apply fst_conv by blast
  have "rpc_UpsertPipeline (mock_rpc clock rest) p v w = (Inr s, (m', Suc k))"
    by (simp add: mock_rpc_def w s(1))
  with s(2,3) show "\<exists>s w'. rpc_UpsertPipeline (mock_rpc clock rest) p v w = (Inr s, w') \<and>
      (mock_room n \<circ> fst) w' \<and> pb_content s = pb_content p \<and> pb_GetId s \<noteq> [] \<and>
      (\<forall>a. map_of (mk_pipelines (fst w)) (pb_GetId s) = Some a \<longrightarrow> pb_Name a = pb_Name p) \<and>
      map_of (mk_pipelines (fst w')) = (if v then map_of (mk_pipelines (fst w))
        else (map_of (mk_pipelines (fst w)))(pb_GetId s \<mapsto> s))"
    unfolding w comp_apply fst_conv
    by (elim conjE) (intro exI [of _ s] exI [of _ "(m', Suc k)"] conjI, unfold fst_conv)
next
  fix n and ident :: string and w :: "'t MockAPI \<times> nat"
  assume "(mock_room n \<circ> fst) w" "ident \<noteq> []"
  then show "\<exists>w'. rpc_DeletePipeline (mock_rpc clock rest) ident w = (None, w') \<and> (mock_room n \<circ> fst) w' \<and>
      map_of (mk_pipelines (fst w')) = (map_of (mk_pipelines (fst w)))(ident := None)"
    using mock_delete_room [of n "fst w" ident] by (force simp: mock_rpc_def split: prod.splits)
next
  fix n and i j :: string and a b and w :: "'t MockAPI \<times> nat"
  assume "(mock_room n \<circ> fst) w" "map_of (mk_pipelines (fst w)) i = Some a"
    "map_of (mk_pipelines (fst w)) j = Some b" "pb_Name a = pb_Name b"
  then show "i = j"
    by (auto simp: mock_room_def mock_inv_def inj_on_def dest!: map_of_SomeD)
qed

section \<open>The operator against the mock server\<close>

lemma mock_run_room: "mock_run n m \<Longrightarrow> n < 2 ^ 62 \<Longrightarrow> (mock_room 2 \<circ> fst) (m, t)"
  by (simp add: mock_store_consistent)

text \<open>
  C4: against the server of the end-to-end tests, after any history of requests, one
  reconcile of a managed pipeline with work to do makes the store hold exactly what the resource
  asks for, under the ID it writes to the status and under no other; a rename takes the old
  pipeline away; of the others it replaces at most the one that had that name.  Every later
  reconcile of what it wrote does nothing.
\<close>

theorem operator_drives_server:
  assumes "klib_ok (pr_klib R)" "active R p" "pe_Get E [PcGet req] = Inr p"
    and "migration_due R (backfillSyncedName p) \<or>
         pst_ObservedGeneration (pl_status p) \<noteq> om_generation (pl_meta p)"
    and "mock_run n m" "n < 2 ^ 62" "closed_loop N (mock_rpc clock rest) (m, t) E"
    and "tr = rr_trace (pipeline_Reconcile R E req)"
    and "after = map_of (mk_pipelines (fst (play N (mock_rpc clock rest) tr (m, t))))"
    and "kept = (if migration_due R (backfillSyncedName p)
                 then (map_of (mk_pipelines m))(pst_ID (pl_status p) := None)
                 else map_of (mk_pipelines m))"
  shows "\<exists>q s. PcStatusUpdate q \<in> set tr \<and> pb_content s = desired_content N R p \<and>
           after = kept(pst_ID (pl_status q) \<mapsto> s) \<and>
           (\<forall>a. kept (pst_ID (pl_status q)) = Some a \<longrightarrow> pb_Name a = pb_Name s) \<and>
           (\<forall>i a. after i = Some a \<and> pb_Name a = pb_Name s \<longrightarrow> i = pst_ID (pl_status q)) \<and>
           (\<forall>E' req'. pe_Get E' [PcGet req'] = Inr q \<longrightarrow>
              pipeline_Reconcile R E' req' = ret [PcGet req'] done_result None outcomeNoOp)"
proof -
  note loop = mock.reconcile_loop [OF assms(1-4,7) mock_run_room [OF assms(5,6)] assms(8), of kept]
  obtain q s where q: "PcStatusUpdate q \<in> set tr" "pb_content s = desired_content N R p"
    "after = kept(pst_ID (pl_status q) \<mapsto> s)"
    "\<forall>a. kept (pst_ID (pl_status q)) = Some a \<longrightarrow> pb_Name a = pb_Name s"
    "\<forall>E' req'. pe_Get E' [PcGet req'] = Inr q \<longrightarrow>
       pipeline_Reconcile R E' req' = ret [PcGet req'] done_result None outcomeNoOp"
    using loop(1) [unfolded assms(10) fst_conv, OF refl, folded assms(10)] unfolding assms(9) by blast
  obtain k where "(mock_room k \<circ> fst) (play N (mock_rpc clock rest) tr (m, t))"
    using loop(2) [unfolded assms(10) fst_conv, OF refl] by blast
  note names = mock.names_law [OF this, folded assms(9)]
  have "after (pst_ID (pl_status q)) = Some s" by (simp only: q(3) fun_upd_same)
  then have "\<forall>i a. after i = Some a \<and> pb_Name a = pb_Name s \<longrightarrow> i = pst_ID (pl_status q)"
    using names by blast
  with q show ?thesis by (intro exI [of _ q] exI [of _ s] conjI)
qed

text \<open>
  C38: creating a resource and deleting it leaves no trace: if the server had no pipeline
  of the desired name, the reconcile that creates the pipeline and the one that runs when the
  resource is being deleted bring the store back to what it was.
\<close>

theorem deleted_resource_leaves_nothing:
  assumes "klib_ok (pr_klib R)" "active R p" "pe_Get E [PcGet req] = Inr p"
    and "pst_ID (pl_status p) = []" "pst_ObservedGeneration (pl_status p) \<noteq> om_generation (pl_meta p)"
    and "mock_run n m" "n < 2 ^ 62" "closed_loop N (mock_rpc clock rest) (m, t) E"
    and "\<forall>i a. map_of (mk_pipelines m) i = Some a \<longrightarrow> pb_Name a \<noteq> DesiredFleetName p (pr_NameScope R)"
    and "w = play N (mock_rpc clock rest) (rr_trace (pipeline_Reconcile R E req)) (m, t)"
  shows "\<exists>q. PcStatusUpdate q \<in> set (rr_trace (pipeline_Reconcile R E req)) \<and>
           (\<forall>E' req'. pe_Get E' [PcGet req'] = Inr (q\<lparr>pl_meta := (pl_meta q)\<lparr>om_deleting := True\<rparr>\<rparr>) \<and>
              closed_loop N (mock_rpc clock rest) w E' \<longrightarrow>
              map_of (mk_pipelines (fst (play N (mock_rpc clock rest)
                (rr_trace (pipeline_Reconcile R E' req')) w))) = map_of (mk_pipelines m))"
proof -
  have due: "\<not> migration_due R (backfillSyncedName p)" by (simp add: migration_due_def assms(4))
  note loop = mock.reconcile_loop [OF assms(1-3) disjI2 [OF assms(5)] assms(8)
      mock_run_room [OF assms(6,7)] refl refl]
  obtain q s where q: "PcStatusUpdate q \<in> set (rr_trace (pipeline_Reconcile R E req))"
    "pl_meta q = pl_meta p" "pl_spec q = pl_spec p" "pst_ID (pl_status q) \<noteq> []"
    "pb_content s = desired_content N R p"
    "map_of (mk_pipelines (fst w)) = (map_of (mk_pipelines m))(pst_ID (pl_status q) \<mapsto> s)"
    "\<forall>a. map_of (mk_pipelines m) (pst_ID (pl_status q)) = Some a \<longrightarrow> pb_Name a = pb_Name s"
    using loop(1) due assms(10) by auto
  obtain k where room: "(mock_room k \<circ> fst) w" using loop(2) assms(10) by auto
  have "pb_Name s = DesiredFleetName p (pr_NameScope R)"
    using pb_content_Name [of s "pipelineToProto N (ur_Pipeline (buildUpsertRequest R p))"] q(5)
    by (simp add: desired_content_def pipelineToProto_def buildUpsertRequest_def)
  then have new: "map_of (mk_pipelines m) (pst_ID (pl_status q)) = None"
    using q(7) assms(9) by (metis not_None_eq)
  define d where "d = q\<lparr>pl_meta := (pl_meta q)\<lparr>om_deleting := True\<rparr>\<rparr>"
  have d: "om_deleting (pl_meta d)" "has_finalizer R d" "\<not> isReadOnly d" "pst_ID (pl_status d) \<noteq> []"
    "pst_ID (pl_status d) = pst_ID (pl_status q)"
    using assms(2) q(2-4) by (auto simp: d_def active_def isReadOnly_def IsReadOnly_def)
  have "map_of (mk_pipelines (fst (play N (mock_rpc clock rest)
      (rr_trace (pipeline_Reconcile R E' req')) w))) = map_of (mk_pipelines m)"
    if "pe_Get E' [PcGet req'] = Inr d" "closed_loop N (mock_rpc clock rest) w E'" for E' req'
    using mock.delete_loop(1) [OF that(1) d(1-4) that(2) room refl] new
    by (simp add: d(5) q(6) fun_upd_idem)
  with q(1) show ?thesis by (auto simp: d_def)
qed

section \<open>Witnesses\<close>

definition loop_env :: "'t enums \<Rightarrow> ('t, 'w) rpc \<Rightarrow> 'w \<Rightarrow> Pipeline \<Rightarrow> penv" where
  "loop_env N S w p =
     \<lparr>pe_Get = (\<lambda>_. Inr p), pe_Update = (\<lambda>_. None), pe_StatusUpdate = (\<lambda>_. None),
      pe_GetPipeline = (\<lambda>tr. case last tr of
         PcFleetGet i \<Rightarrow> fst (GetPipeline N S i (play N S (butlast tr) w)) | _ \<Rightarrow> Inl CtxCanceled),
      pe_UpsertPipeline = (\<lambda>tr. case last tr of
         PcFleetUpsert r \<Rightarrow> fst (UpsertPipeline N S r (play N S (butlast tr) w)) | _ \<Rightarrow> Inl CtxCanceled),
      pe_DeletePipeline = (\<lambda>tr. case last tr of
         PcFleetDelete i \<Rightarrow> fst (DeletePipeline S i (play N S (butlast tr) w)) | _ \<Rightarrow> None)\<rparr>"

lemma loop_env_closed: "closed_loop N S w (loop_env N S w p)"
  by (simp add: closed_loop_def loop_env_def)

definition no_collectors :: "(int, int MockAPI \<times> nat) rpc" where
  "no_collectors =
     (let err = mock_error CodeUnimplemented ''unimplemented'' [] in
      \<lparr>rpc_GetPipeline = (\<lambda>_ w. (Inl err, w)), rpc_UpsertPipeline = (\<lambda>_ _ w. (Inl err, w)),
       rpc_DeletePipeline = (\<lambda>_ w. (Some err, w)), rpc_ListPipelines = (\<lambda>_ _ w. (Inl err, w)),
       rpc_GetCollector = (\<lambda>_ w. (Inl err, w)), rpc_UpdateCollector = (\<lambda>_ w. (Inl err, w)),
       rpc_BulkUpdateCollectors = (\<lambda>_ _ w. (Some err, w)), rpc_ListCollectors = (\<lambda>_ w. (Inl err, w))\<rparr>)"

abbreviation sample_stub :: "(int, int MockAPI \<times> nat) rpc" where
  "sample_stub \<equiv> mock_rpc int no_collectors"

text \<open>The server holds the old pipeline of the renamed resource: created by the operator itself.\<close>

definition old_server :: "int MockAPI" where
  "old_server = snd (mock_UpsertPipeline 5 (Some (pipelineToProto enums_ref sample_pipeline)) False NewMockAPI)"

theorem operator_drives_server_witness:
  "\<exists>(q :: Pipeline) s. pb_Name s = ''ns.logs'' \<and> pb_Contents s = ''x'' \<and>
     map_of (mk_pipelines (fst (play enums_ref sample_stub
       (rr_trace (pipeline_Reconcile (sample_reconciler NameScopeNamespace)
          (loop_env enums_ref sample_stub (old_server, 0) renamed_cr) sample_req)) (old_server, 0)))) =
     ((map_of (mk_pipelines old_server))(''17'' := None)) (pst_ID (pl_status q) \<mapsto> s)"
proof -
  let ?R = "sample_reconciler NameScopeNamespace"
  let ?E = "loop_env enums_ref sample_stub (old_server, 0) renamed_cr"
  have run: "mock_run (Suc 0) old_server" unfolding old_server_def by (intro mock_run.intros)
  have get: "pe_Get ?E [PcGet sample_req] = Inr renamed_cr" by (simp add: loop_env_def)
  have "Suc 0 < 2 ^ 62" "pst_ID (pl_status renamed_cr) = ''17''"
    by (simp_all add: renamed_cr_def sample_cr_def)
  note drive = operator_drives_server [OF sample_klib_ok renamed_cr_active get disjI1 [OF renamed_cr_due] run this(1)
      loop_env_closed refl refl refl, unfolded if_P [OF renamed_cr_due] this(2)]
  obtain q :: Pipeline and s where s: "pb_content s = desired_content enums_ref ?R renamed_cr"
    "map_of (mk_pipelines (fst (play enums_ref sample_stub
       (rr_trace (pipeline_Reconcile ?R ?E sample_req)) (old_server, 0)))) =
     ((map_of (mk_pipelines old_server))(''17'' := None)) (pst_ID (pl_status q) \<mapsto> s)"
    using drive by (elim exE conjE) (rule that)
  have "pb_Name s = pb_Name (desired_content enums_ref ?R renamed_cr)"
    "pb_Contents s = pb_Contents (desired_content enums_ref ?R renamed_cr)"
    unfolding s(1) [symmetric] by (simp_all add: pb_content_def)
  then have "pb_Name s = ''ns.logs''" "pb_Contents s = ''x''"
    by (simp_all add: desired_content_def pb_content_def pipelineToProto_def buildUpsertRequest_def
        renamed_cr_def sample_defs DesiredFleetName_def baseName_def EffectiveNameScope_def
        IsDiscovered_def IsReadOnly_def)
  with s(2) show ?thesis by blast
qed

text \<open>A resource that was never synchronized, and a server that holds another pipeline.\<close>

definition new_cr :: Pipeline where
  "new_cr = (sample_cr False [pipelineFinalizer] [] False [])
     \<lparr>pl_status := \<lparr>pst_ID = [], pst_SyncedName = [], pst_ObservedGeneration = 0, pst_CreatedAt = None,
        pst_UpdatedAt = None, pst_Source = None, pst_RevisionID = [], pst_Conditions = []\<rparr>\<rparr>"

theorem deleted_resource_leaves_nothing_witness:
  "\<exists>q. \<forall>E' req'. pe_Get E' [PcGet req'] = Inr (q\<lparr>pl_meta := (pl_meta q)\<lparr>om_deleting := True\<rparr>\<rparr>) \<and>
     closed_loop enums_ref sample_stub (play enums_ref sample_stub
       (rr_trace (pipeline_Reconcile (sample_reconciler NameScopeNone)
          (loop_env enums_ref sample_stub (old_server, 0) new_cr) sample_req)) (old_server, 0)) E' \<longrightarrow>
     map_of (mk_pipelines (fst (play enums_ref sample_stub
       (rr_trace (pipeline_Reconcile (sample_reconciler NameScopeNone) E' req'))
       (play enums_ref sample_stub
         (rr_trace (pipeline_Reconcile (sample_reconciler NameScopeNone)
            (loop_env enums_ref sample_stub (old_server, 0) new_cr) sample_req)) (old_server, 0))))) =
     map_of (mk_pipelines old_server)"
proof -
  let ?R = "sample_reconciler NameScopeNone"
  let ?E = "loop_env enums_ref sample_stub (old_server, 0) new_cr"
  have run: "mock_run (Suc 0) old_server" unfolding old_server_def by (intro mock_run.intros)
  have get: "pe_Get ?E [PcGet sample_req] = Inr new_cr" by (simp add: loop_env_def)
  have act: "active ?R new_cr"
    by (simp add: active_def new_cr_def sample_defs isPaused_def isReadOnly_def IsReadOnly_def)
  have other: "\<forall>i a. map_of (mk_pipelines old_server) i = Some a \<longrightarrow>
      pb_Name a \<noteq> DesiredFleetName new_cr (pr_NameScope ?R)"
  proof (intro allI impI)
    fix i a
    assume that: "map_of (mk_pipelines old_server) i = Some a"
    have "pb_Name a = ''team-a''"
      using that by (auto simp: old_server_def mock_UpsertPipeline_def NewMockAPI_def mock_existing_def
          pipelineToProto_def sample_pipeline_def split: if_splits)
    then show "pb_Name a \<noteq> DesiredFleetName new_cr (pr_NameScope ?R)"
      by (simp add: new_cr_def sample_defs DesiredFleetName_def baseName_def EffectiveNameScope_def
          IsDiscovered_def IsReadOnly_def)
  qed
  have new: "pst_ID (pl_status new_cr) = []" "pst_ObservedGeneration (pl_status new_cr) \<noteq> om_generation (pl_meta new_cr)"
    by (simp_all add: new_cr_def sample_cr_def)
  show ?thesis
    using deleted_resource_leaves_nothing [OF sample_klib_ok act get new run _ loop_env_closed other refl]
    by auto
qed

end
