(* ===== verification/Spec2Isabelle.thy ===== *)
theory Spec2Isabelle
  imports Attr_Diff Attr_Merge Attr_Match Matcher_Regexp Naming Fleet_Client Pipeline_Types Pipeline_Controller
    Pipeline_Liveness Attr_Types Collector_Controller Collector_Sync Policy_Controller Watch_Index
    Sources Http_Source Sql_Source External_Sync Sync_Claims Sync_Safety
    Matcher_Syntax Tenant_Checker Tenant_Policy Attr_Webhooks Netguard SQL_Guard Pipeline_Webhook
    Sync_Webhook Discovery_Types Collector_Discovery Discovery_Mirror Pipeline_Discovery
    Discovery_Admission Fleet_Transport Source_Factory Sync_EndToEnd Attribute_Flow Operator_Main
    Docgen_Conditions Docgen_Reference Mock_Fleet
begin

text \<open>
  A model of the Fleet Management operator (Go, \<open>src/\<close>), a Kubernetes controller manager that
  keeps the pipelines and the collectors' remote attributes of Grafana Fleet Management in step
  with custom resources.

  \<^bold>\<open>Parts and how they interact.\<close>  Six reconcilers run over a cached Kubernetes client and one
  rate-limited Fleet Management client:
  \<^item> Pipeline: upserts or deletes a Fleet pipeline per resource, or only mirrors it when read-only;
  \<^item> Collector: merges three layers of attributes (the resource's own, the claims of external
    synchronizations, the matching policies) and sends the difference as patch operations;
  \<^item> RemoteAttributePolicy: publishes which collectors its selector matches;
  \<^item> ExternalAttributeSync: fetches records from an HTTP or SQL source on a schedule and publishes a
    claim of attributes in its status, which the Collector reconciler reads;
  \<^item> CollectorDiscovery and PipelineDiscovery: poll Fleet Management and create resources for what
    they find, which the first two reconcilers then handle;
  \<^item> TenantPolicy: reports whether a tenant policy is well formed.
  Admission webhooks check every resource before it is stored; those with a selector ask the
  tenant checker which matchers the requesting user must use.

  \<^bold>\<open>Theories and code.\<close>
  \<^item> \<open>Go_Prelude\<close>: what the source uses of Go, Kubernetes and the connect library: maps as association
    lists, strings as bytes, errors and their chains, object metadata, conditions, results of a
    reconcile, and traces of calls (\<open>extends\<close>, with the collection \<open>trace_intros\<close>).
  \<^item> \<open>Attr_Diff\<close>, \<open>Attr_Merge\<close>, \<open>Attr_Match\<close>: \<open>internal/controller/attributes/\<close>; \<open>Matcher_Regexp\<close>:
    regular expressions with the search order of Go's \<open>regexp\<close>, and the pattern of the matchers as
    one, which the parser of \<open>Attr_Match\<close> is proved equal to.
  \<^item> \<open>Naming\<close>: \<open>internal/controller/discovery/naming.go\<close>.
  \<^item> \<open>Fleet_Client\<close>, \<open>Fleet_Transport\<close>: \<open>pkg/fleetclient/\<close> and \<open>internal/controller/errors.go\<close>.
  \<^item> \<open>Pipeline_Types\<close>, \<open>Pipeline_Controller\<close>, \<open>Pipeline_Liveness\<close>: \<open>pipeline_types.go\<close>,
    \<open>pipeline_naming.go\<close>, \<open>pipeline_controller.go\<close>; safety in the second, liveness in the third.
  \<^item> \<open>Attr_Types\<close>, \<open>Collector_Controller\<close>, \<open>Collector_Sync\<close>: \<open>collector_types.go\<close>, \<open>policy_types.go\<close>,
    \<open>external_sync_types.go\<close>, \<open>collector_controller.go\<close>; model in the second, proofs in the third.
  \<^item> \<open>Watch_Index\<close>, \<open>Policy_Controller\<close>: \<open>policy_controller.go\<close> and its field index.
  \<^item> \<open>Sources\<close>, \<open>Http_Source\<close>, \<open>Sql_Source\<close>: \<open>pkg/sources/\<close>; \<open>Netguard\<close>: \<open>pkg/netguard/\<close>.
  \<^item> \<open>External_Sync\<close>, \<open>Sync_Claims\<close>, \<open>Sync_Safety\<close>: \<open>external_sync_controller.go\<close>.
  \<^item> \<open>Matcher_Syntax\<close>, \<open>Pipeline_Webhook\<close>, \<open>Attr_Webhooks\<close>, \<open>SQL_Guard\<close>, \<open>Sync_Webhook\<close>,
    \<open>Tenant_Policy\<close>, \<open>Discovery_Types\<close>: the admission webhooks of \<open>api/v1alpha1/\<close>;
    \<open>Tenant_Checker\<close>: \<open>internal/tenant/checker.go\<close> and \<open>webhook_tenant.go\<close>; \<open>Tenant_Policy\<close> also holds
    \<open>tenant_policy_controller.go\<close>.
  \<^item> \<open>Collector_Discovery\<close>, \<open>Discovery_Mirror\<close>, \<open>Pipeline_Discovery\<close>, \<open>Discovery_Admission\<close>: the two
    discovery controllers, the abstract mirror the first one refines, and how what they create
    fares at the webhooks.
  \<^item> \<open>Source_Factory\<close>, \<open>Operator_Main\<close>: \<open>cmd/main.go\<close>; \<open>Sync_EndToEnd\<close>: the synchronization with the
    operator's own factory and HTTP source; \<open>Attribute_Flow\<close>: a published claim followed through the
    Collector reconciler to the update that Fleet Management receives, and which updates of
    synchronizations and policies wake that reconciler.
  \<^item> \<open>Docgen_Ast\<close>, \<open>Docgen_Conditions\<close>, \<open>Docgen_Reference\<close>: the documentation generator of \<open>hack/docgen\<close>,
    which is built on the syntax trees of the operator's own sources: the lint of the condition
    reference with its worklist, and the data of the reference pages.
  \<^item> \<open>Mock_Fleet\<close>: \<open>test/mockapi/main.go\<close>, the Fleet Management server of the end-to-end tests, and its
    closed loop with the Pipeline reconciler: the trace of a reconcile run against the server.

  \<^bold>\<open>How code becomes definitions.\<close>  Definitions keep the names of the Go functions and methods, with
  the controller's name in front where two share one (\<open>cd_Reconcile\<close>, \<open>pd_Reconcile\<close>); a struct is a
  record whose fields carry a prefix, an enumeration of string constants is a string with
  abbreviations.  A reconcile is a function of the environment: every call that reads or writes
  outside (API server, Fleet Management, clock, events) is appended to a trace, and the
  environment answers with a function of the trace so far, so that every interleaving with other
  writers and every failure is some environment.  An error is a value of \<open>go_error\<close>, and every
  early return is a branch.  Integers that can overflow are words (\<open>formatInt64\<close>, the status
  counters, network addresses, floats as bit patterns); times are integers of nanoseconds, and
  what the API server stores of a time is the whole second (\<open>stored_time\<close>), which the theorems
  that follow a status to the next reconcile take into account.  A loop
  is a recursive function; the two unbounded loops, the scanner of \<open>WITH\<close> queries and the worklist of
  the condition lint, are partial functions whose termination is part of \<open>sql_guard_language\<close> and
  \<open>conditions_lint_exact\<close>.  The only fuel is in the white-space trimmer, which cannot strip more
  encodings than the string has bytes.

  \<^bold>\<open>Parameters.\<close>  Code outside the repository is an argument: the Kubernetes helpers (\<open>klib\<close>, with the
  documented laws \<open>klib_ok\<close> and the reference instance \<open>klib_ref\<close>), regular expressions written by
  users, SHA-256, YAML, JSON, URLs, durations and cron expressions, label selectors, Unicode tables
  beyond ASCII, the HTTP client, \<open>database/sql\<close>, the rate limiter, metrics and tracing, the Go parser.

  \<^bold>\<open>Interfaces.\<close>  The locale \<open>key_sort\<close> states what a sorting routine by key promises, \<open>idempotent_delete\<close>
  a delete that treats a missing object as done, \<open>watch_index\<close> a field index with the watch keys that
  query it, \<open>tenancy\<close> a tenant checker, \<open>pipeline_service\<close> the server the Pipeline reconciler drives;
  each is interpreted on the model's own definitions.

  \<^bold>\<open>What the lemmas show.\<close>
  \<^item> Safety of what is written: read-only pipelines are never written; a delete names the object's own
    status ID and follows an accepted dry run; discoveries create only in their target
    namespace, which with the cross-namespace check is their own or one their author may create in,
    and change only what they own; admitted policies, pipelines and claims stay with the tenant; every request is
    rate-limited and authenticated; no dial reaches an internal address; sources, row sets and database
    handles are closed exactly once.
  \<^item> Functional correctness: the operations sent bring a collector to the merged layers and leave foreign
    keys alone; a claim is the projection of the fetched records, each attribute of which the
    endpoint served; published matches are those the Collector reconciler uses.
  \<^item> Refinement: a poll of the collector discovery computes the abstract mirror; a reconcile against
    the test server updates its store, as a map from IDs to pipelines, at one ID.
  \<^item> Liveness: reconciles settle, except that a sub-second time of Fleet Management makes the Collector
    reconciler write the same status again; and the cases in which a failure is never retried,
    is lost with a refused status write, or waits too long.
  \<^item> Decision procedures: the matcher parser is the regular expression of the source; the language
    of admitted queries, tenant decisions, retry classification, which admitted sources can be built,
    and the reasons written and passed to a condition.

  \<^bold>\<open>Not modelled.\<close>  Logs, event texts, metric values and the generated deep copies; \<open>SetupWithManager\<close>
  beyond the indexes and the requests a watch maps to; the flag package, the logger and the servers
  that \<open>cmd/main.go\<close> configures; the HTTP transport's settings; concurrency inside one reconciler
  (the environment stands for it); the page templates of \<open>hack/docgen\<close>; the HTTP listener of the mock server and the helpers under
  \<open>test/utils\<close>, which run commands on a cluster.
\<close>

end
